(* ===== verification/C_Prelude.thy ===== *)
theory C_Prelude
  imports Main "HOL-Library.Word" "HOL-Library.Signed_Division"
begin

text \<open>
  Shared vocabulary of the development: the C integer types of the sources as \<open>int\<close> with
  explicit conversions, C shifts and division, C arrays as lists with \<open>memcpy\<close> as a list
  operation, and the generic lemmas the component theories use.

  Conventions.  A C object of type \<open>int16_t\<close>, \<open>int32_t\<close>, \<open>uint16_t\<close> or \<open>uint32_t\<close> is an
  \<open>int\<close>.  Arithmetic is written on \<open>int\<close> and every conversion of the source (a cast, an
  assignment to a narrower object, the wrap-around of a 32-bit operation) is written out with
  \<open>s16\<close>, \<open>s32\<close>, \<open>u16\<close>, \<open>u32\<close>.  A signed 32-bit operation whose mathematical value does not fit
  is given the two's complement value; theorems that rule such an overflow out are part of the
  component theories.
\<close>

unbundle bit_operations_syntax

named_theorems c_cast "conversions between C integer types"
named_theorems c_array "C arrays as lists"

section \<open>Integer conversions\<close>

definition s16 :: "int \<Rightarrow> int" where
  "s16 x = (x + 32768) mod 65536 - 32768"

definition s32 :: "int \<Rightarrow> int" where
  "s32 x = (x + 2147483648) mod 4294967296 - 2147483648"

definition u16 :: "int \<Rightarrow> int" where
  "u16 x = x mod 65536"

definition u32 :: "int \<Rightarrow> int" where
  "u32 x = x mod 4294967296"

definition in_s16 :: "int \<Rightarrow> bool" where
  "in_s16 x \<longleftrightarrow> -32768 \<le> x \<and> x \<le> 32767"

definition in_s32 :: "int \<Rightarrow> bool" where
  "in_s32 x \<longleftrightarrow> -2147483648 \<le> x \<and> x \<le> 2147483647"

definition in_u32 :: "int \<Rightarrow> bool" where
  "in_u32 x \<longleftrightarrow> 0 \<le> x \<and> x \<le> 4294967295"

lemma s16_id [c_cast]: "-32768 \<le> x \<Longrightarrow> x \<le> 32767 \<Longrightarrow> s16 x = x"
  by (simp add: s16_def)

lemma s32_id [c_cast]: "-2147483648 \<le> x \<Longrightarrow> x \<le> 2147483647 \<Longrightarrow> s32 x = x"
  by (simp add: s32_def)

lemma u32_id [c_cast]: "0 \<le> x \<Longrightarrow> x \<le> 4294967295 \<Longrightarrow> u32 x = x"
  by (simp add: u32_def)

lemma u16_id [c_cast]: "0 \<le> x \<Longrightarrow> x \<le> 65535 \<Longrightarrow> u16 x = x"
  by (simp add: u16_def)

lemma in_s16_s16 [simp]: "in_s16 (s16 x)"
  using pos_mod_bound [of 65536 "x + 32768"] pos_mod_sign [of 65536 "x + 32768"]
  by (simp add: in_s16_def s16_def)

lemma in_s32_s32 [simp]: "in_s32 (s32 x)"
  using pos_mod_bound [of 4294967296 "x + 2147483648"] pos_mod_sign [of 4294967296 "x + 2147483648"]
  by (simp add: in_s32_def s32_def)

lemma in_u32_u32 [simp]: "in_u32 (u32 x)"
  using pos_mod_bound [of 4294967296 x] pos_mod_sign [of 4294967296 x]
  by (simp add: in_u32_def u32_def)

lemma s16_bounds: "-32768 \<le> s16 x" "s16 x \<le> 32767"
  using in_s16_s16 [of x] by (simp_all add: in_s16_def del: in_s16_s16)

lemma s32_bounds: "-2147483648 \<le> s32 x" "s32 x \<le> 2147483647"
  using in_s32_s32 [of x] by (simp_all add: in_s32_def del: in_s32_s32)

lemma in_s16_id: "in_s16 x \<Longrightarrow> s16 x = x"
  by (simp add: in_s16_def s16_id)

lemma in_s32_id: "in_s32 x \<Longrightarrow> s32 x = x"
  by (simp add: in_s32_def s32_id)

lemma in_s16_s32: "in_s16 x \<Longrightarrow> in_s32 x"
  by (simp add: in_s16_def in_s32_def)

lemma s16_idem [simp]: "s16 (s16 x) = s16 x"
  by (simp add: in_s16_id)

lemma s32_idem [simp]: "s32 (s32 x) = s32 x"
  by (simp add: in_s32_id)

lemma s32_s16 [simp]: "s32 (s16 x) = s16 x"
  by (simp add: in_s32_id in_s16_s32)

lemma s32_cong: "x mod 4294967296 = y mod 4294967296 \<Longrightarrow> s32 x = s32 y"
  unfolding s32_def by (metis mod_add_left_eq)

section \<open>Shifts and division\<close>

definition shl :: "int \<Rightarrow> nat \<Rightarrow> int" where
  "shl x n = x * 2 ^ n"

definition shr :: "int \<Rightarrow> nat \<Rightarrow> int" where
  "shr x n = x div 2 ^ n"

lemma shr_mono: "x \<le> y \<Longrightarrow> shr x n \<le> shr y n"
  by (simp add: shr_def zdiv_mono1)

lemma shr_nonneg_iff [simp]: "0 \<le> shr x n \<longleftrightarrow> 0 \<le> x"
  by (simp add: shr_def pos_imp_zdiv_nonneg_iff)

lemma shr_neg_iff [simp]: "shr x n < 0 \<longleftrightarrow> x < 0"
  by (simp add: shr_def pos_imp_zdiv_neg_iff)

lemma shr_le_self: "0 \<le> x \<Longrightarrow> shr x n \<le> x"
  using zdiv_mono2 [of x 1 "2 ^ n"] by (simp add: shr_def)

lemma shr_zero [simp]: "shr 0 n = 0" "shr x 0 = x"
  by (simp_all add: shr_def)

lemma div_mult_le_self: "0 < b \<Longrightarrow> x div b * b \<le> (x::int)"
proof -
  assume "0 < b"
  then have "0 \<le> x mod b" by simp
  then show ?thesis using minus_mod_eq_div_mult [of x b] by linarith
qed

lemma int_div_less: "0 < b \<Longrightarrow> a < c * b \<Longrightarrow> a div b < (c::int)"
  by (rule mult_right_less_imp_less [of _ b]) (use div_mult_le_self [of b a] in linarith)+

lemma int_div_ge: "0 < b \<Longrightarrow> c * b \<le> a \<Longrightarrow> (c::int) \<le> a div b"
  using zdiv_mono1 [of "c * b" a b] by simp

lemma sdiv_nonneg: "0 \<le> a \<Longrightarrow> 0 < b \<Longrightarrow> (a::int) sdiv b = a div b"
  by (simp add: signed_divide_int_def sgn_if)

lemma in_s16_shr: "in_s16 x \<Longrightarrow> in_s16 (shr x n)"
proof -
  assume x: "in_s16 x"
  have "- 32768 \<le> shr x n" "shr x n \<le> 32767"
  proof -
    have "(1::int) \<le> 2 ^ n" by simp
    then have "- 32768 * (2::int) ^ n \<le> - 32768" by linarith
    also have "- 32768 \<le> x" using x by (simp add: in_s16_def)
    finally have "- 32768 * 2 ^ n \<le> x" .
    then have "(- 32768 * 2 ^ n) div 2 ^ n \<le> x div (2::int) ^ n" by (intro zdiv_mono1) simp_all
    moreover have "(- 32768 * 2 ^ n) div 2 ^ n = (- 32768::int)"
      by (rule nonzero_mult_div_cancel_right) simp
    ultimately show "- 32768 \<le> shr x n" by (simp only: shr_def)
    show "shr x n \<le> 32767"
    proof (cases "0 \<le> x")
      case True
      then show ?thesis using x shr_le_self [of x n] by (simp add: in_s16_def)
    next
      case False
      then have "shr x n < 0" by simp
      then show ?thesis by linarith
    qed
  qed
  then show ?thesis by (simp add: in_s16_def)
qed

text \<open>
  Testing the high bits of an \<open>m\<close>-bit value with a mask \<open>2 ^ m - 2 ^ k\<close>, as the bit counters
  of the signal processing library do.
\<close>

lemma and_high_mask_eq_0:
  assumes "0 \<le> x" and "x < 2 ^ m" and "k \<le> m"
  shows "(2 ^ m - 2 ^ k) AND x = 0 \<longleftrightarrow> x < (2::int) ^ k"
proof -
  have m: "(2::int) ^ m - 2 ^ k = push_bit k (mask (m - k))"
  proof -
    have "(2::int) ^ (m - k) * 2 ^ k = 2 ^ m"
      using assms(3) by (metis le_add_diff_inverse2 power_add)
    then show ?thesis
      by (simp add: push_bit_eq_mult mask_eq_exp_minus_1 left_diff_distrib)
  qed
  have x: "take_bit m x = x"
    using assms by (simp add: take_bit_int_eq_self)
  have "(2 ^ m - 2 ^ k) AND x = push_bit k (drop_bit k x)"
    unfolding m
  proof (rule bit_eqI)
    fix n
    have "bit x n \<Longrightarrow> n < m"
      using x by (metis bit_take_bit_iff)
    then show "bit (push_bit k (mask (m - k)) AND x) n = bit (push_bit k (drop_bit k x)) n"
      by (auto simp: bit_simps)
  qed
  then have "(2 ^ m - 2 ^ k) AND x = 0 \<longleftrightarrow> drop_bit k x = 0"
    by (simp add: push_bit_eq_mult)
  also have "\<dots> \<longleftrightarrow> x < 2 ^ k"
    using assms(1) by (auto simp: drop_bit_eq_div zdiv_eq_0_iff intro: less_trans)
  finally show ?thesis .
qed

section \<open>Arrays\<close>

text \<open>
  \<open>blit dst off xs\<close> is the contents of \<open>dst\<close> after \<open>memcpy (&dst[off], xs, length xs)\<close>; the copy
  has to stay inside \<open>dst\<close>, which the lemmas ask for.
\<close>

definition blit :: "'a list \<Rightarrow> nat \<Rightarrow> 'a list \<Rightarrow> 'a list" where
  "blit dst off xs = take off dst @ xs @ drop (off + length xs) dst"

lemma length_blit [c_array, simp]:
  "off + length xs \<le> length dst \<Longrightarrow> length (blit dst off xs) = length dst"
  by (simp add: blit_def)

lemma blit_Nil [c_array, simp]: "blit dst off [] = dst"
  by (simp add: blit_def)

lemma nth_blit [c_array]:
  assumes "off + length xs \<le> length dst" and "i < length dst"
  shows "blit dst off xs ! i = (if off \<le> i \<and> i < off + length xs then xs ! (i - off) else dst ! i)"
  using assms by (auto simp: blit_def nth_append min_def)

lemma blit_blit_append:
  "off + length xs \<le> length dst \<Longrightarrow> blit (blit dst off xs) (off + length xs) ys = blit dst off (xs @ ys)"
  by (simp add: blit_def add.commute add.left_commute)

lemma drop_blit_before:
  "off + length xs \<le> n \<Longrightarrow> n \<le> length dst \<Longrightarrow> drop n (blit dst off xs) = drop n dst"
  by (simp add: blit_def)

text \<open>A window of \<open>n\<close> elements starting at index \<open>i\<close>.\<close>

definition window :: "'a list \<Rightarrow> nat \<Rightarrow> nat \<Rightarrow> 'a list" where
  "window xs i n = take n (drop i xs)"

lemma length_window [c_array, simp]: "i + n \<le> length xs \<Longrightarrow> length (window xs i n) = n"
  by (simp add: window_def)

lemma nth_window [c_array, simp]: "i + n \<le> length xs \<Longrightarrow> k < n \<Longrightarrow> window xs i n ! k = xs ! (i + k)"
  by (simp add: window_def)

lemma window_blit_same: "off + length xs \<le> length dst \<Longrightarrow> window (blit dst off xs) off (length xs) = xs"
  by (simp add: window_def blit_def)

lemma window_blit_disjoint:
  assumes "off + length xs \<le> length dst" and "i + n \<le> length dst"
    and "i + n \<le> off \<or> off + length xs \<le> i"
  shows "window (blit dst off xs) i n = window dst i n"
proof (rule nth_equalityI)
  show "length (window (blit dst off xs) i n) = length (window dst i n)"
    using assms by simp
  fix k
  assume "k < length (window (blit dst off xs) i n)"
  then have "k < n" using assms by simp
  then show "window (blit dst off xs) i n ! k = window dst i n ! k"
    using assms by (auto simp: nth_blit)
qed

lemma list_all_nthD: "list_all P xs \<Longrightarrow> i < length xs \<Longrightarrow> P (xs ! i)"
  by (simp add: list_all_length)

lemma list_all_update: "list_all P xs \<Longrightarrow> P x \<Longrightarrow> list_all P (xs[i := x])"
  by (simp add: list_all_length) (metis nth_list_update_eq nth_list_update_neq length_list_update)

text \<open>
  Shifting part of an array one place down (\<open>xs[j] = xs[j + 1]\<close> for ascending \<open>j\<close>, where the word
  after the array is \<open>p\<close>) and one place up (\<open>xs[j] = xs[j - 1]\<close> for descending \<open>j\<close>).
\<close>

lemma fold_shift_down:
  assumes "i < length xs" and "n = length xs"
  shows "fold (\<lambda>j ys. ys[j := (ys @ [p]) ! (j + 1)]) [i..<n] xs = take i xs @ drop (Suc i) xs @ [p]"
  using assms
proof (induction "n - i" arbitrary: i xs)
  case 0
  then show ?case by simp
next
  case (Suc d)
  let ?ys = "xs[i := (xs @ [p]) ! (i + 1)]"
  have upt: "[i..<n] = i # [Suc i..<n]" using Suc.prems by (simp add: upt_conv_Cons)
  show ?case
  proof (cases "Suc i < n")
    case True
    have "fold (\<lambda>j ys. ys[j := (ys @ [p]) ! (j + 1)]) [Suc i..<n] ?ys = take (Suc i) ?ys @ drop (Suc (Suc i)) ?ys @ [p]"
      by (rule Suc.hyps(1)) (use Suc.hyps(2) Suc.prems True in auto)
    moreover have "take (Suc i) ?ys = take i xs @ [xs ! Suc i]"
      using Suc.prems True by (simp add: take_Suc_conv_app_nth nth_append)
    moreover have "drop (Suc (Suc i)) ?ys = drop (Suc (Suc i)) xs"
      by (simp add: drop_update_cancel)
    moreover have "drop (Suc i) xs = xs ! Suc i # drop (Suc (Suc i)) xs"
      using Suc.prems True by (simp add: Cons_nth_drop_Suc)
    ultimately show ?thesis using upt by simp
  next
    case False
    then have "[Suc i..<n] = []" and "i = length xs - 1" using Suc.prems by auto
    moreover have "?ys = take i xs @ [p]"
      using Suc.prems False by (simp add: nth_append list_update_append upd_conv_take_nth_drop)
    ultimately show ?thesis using upt Suc.prems False by simp
  qed
qed

lemma fold_shift_up:
  assumes "p < length xs"
  shows "fold (\<lambda>j ys. ys[j := ys ! (j - 1)]) (rev [Suc p..<length xs]) xs
           = take (Suc p) xs @ butlast (drop p xs)"
  using assms
proof (induction xs rule: rev_induct)
  case Nil
  then show ?case by simp
next
  case (snoc x xs)
  show ?case
  proof (cases "p < length xs")
    case False
    then have "p = length xs" using snoc.prems by simp
    then show ?thesis by simp
  next
    case True
    let ?f = "\<lambda>j ys. ys[j := ys ! (j - 1)]"
    have upt: "rev [Suc p..<length (xs @ [x])] = length xs # rev [Suc p..<length xs]"
      using True by simp
    have first: "?f (length xs) (xs @ [x]) = xs @ [last xs]"
      using True by (cases xs rule: rev_cases) (simp_all add: nth_append list_update_append)
    have fold_app: "fold ?f js (ys @ [y]) = fold ?f js ys @ [y]" if "\<forall>j\<in>set js. j < length ys" for js ys and y :: 'a
      using that
    proof (induction js arbitrary: ys)
      case (Cons j js)
      then have "j - 1 < length ys" by auto
      then show ?case using Cons by (simp add: list_update_append nth_append)
    qed simp
    have rest: "fold ?f (rev [Suc p..<length xs]) (xs @ [last xs])
        = (take (Suc p) xs @ butlast (drop p xs)) @ [last xs]"
      using fold_app [of "rev [Suc p..<length xs]" xs "last xs"] snoc.IH True by simp
    have glue: "butlast (drop p xs) @ [last xs] = drop p xs"
      using True by (metis append_butlast_last_id drop_eq_Nil last_drop not_less)
    have "fold ?f (rev [Suc p..<length (xs @ [x])]) (xs @ [x])
        = fold ?f (rev [Suc p..<length xs]) (?f (length xs) (xs @ [x]))"
      unfolding upt by simp
    also have "\<dots> = take (Suc p) xs @ drop p xs"
      unfolding first rest using glue by simp
    also have "\<dots> = take (Suc p) (xs @ [x]) @ butlast (drop p (xs @ [x]))"
      using True by (simp add: butlast_append)
    finally show ?thesis .
  qed
qed

text \<open>A loop that updates two arrays independently.\<close>

lemma fold_pair: "fold (\<lambda>j (a, b). (f j a, g j b)) js (a, b) = (fold f js a, fold g js b)"
  by (induction js arbitrary: a b) auto

section \<open>Failures\<close>

text \<open>
  What ends a C function without a result: a mutex that is already held, an access outside an
  array, a \<open>NULL\<close> pointer, a division by zero, an operation on a \<open>FILE\<close> that was closed, a call of \<open>exit\<close>.  A function that can fail returns a sum.
\<close>

datatype c_error = Blocked | Bad_access | Null_pointer | Div_by_zero | Closed_stream | Exited

definition and_then :: "'e + 'a \<Rightarrow> ('a \<Rightarrow> 'e + 'b) \<Rightarrow> 'e + 'b" where
  "and_then r f = (case r of Inl e \<Rightarrow> Inl e | Inr x \<Rightarrow> f x)"

lemma and_then_simps [simp]: "and_then (Inl e) f = Inl e" "and_then (Inr x) f = f x"
  by (simp_all add: and_then_def)

text \<open>
  \<open>memcpy (&dst[off], &src[soff], n)\<close> on arrays of elements; a negative \<open>n\<close> is converted to a huge
  \<open>size_t\<close>.
\<close>

definition memcpy :: "'a list \<Rightarrow> int \<Rightarrow> 'a list \<Rightarrow> int \<Rightarrow> int \<Rightarrow> c_error + 'a list" where
  "memcpy dst off src soff n =
     (if n < 0 \<or> off < 0 \<or> soff < 0 \<or> off + n > int (length dst) \<or> soff + n > int (length src)
      then Inl Bad_access
      else Inr (blit dst (nat off) (window src (nat soff) (nat n))))"

lemma memcpy_ok:
  assumes "0 \<le> n" "0 \<le> off" "0 \<le> soff" "off + n \<le> int (length dst)" "soff + n \<le> int (length src)"
  shows "memcpy dst off src soff n = Inr (blit dst (nat off) (window src (nat soff) (nat n)))"
  using assms by (simp add: memcpy_def)

text \<open>Reading and writing an element of an array with a check of the index.\<close>

definition arr_get :: "'a list \<Rightarrow> int \<Rightarrow> c_error + 'a" where
  "arr_get xs i = (if 0 \<le> i \<and> i < int (length xs) then Inr (xs ! nat i) else Inl Bad_access)"

definition arr_set :: "'a list \<Rightarrow> int \<Rightarrow> 'a \<Rightarrow> c_error + 'a list" where
  "arr_set xs i x = (if 0 \<le> i \<and> i < int (length xs) then Inr (xs[nat i := x]) else Inl Bad_access)"

lemma arr_get_ok [simp]: "0 \<le> i \<Longrightarrow> i < int (length xs) \<Longrightarrow> arr_get xs i = Inr (xs ! nat i)"
  by (simp add: arr_get_def)

lemma arr_set_ok [simp]: "0 \<le> i \<Longrightarrow> i < int (length xs) \<Longrightarrow> arr_set xs i x = Inr (xs[nat i := x])"
  by (simp add: arr_set_def)

lemma arr_out_of_range [simp]:
  "int (length xs) \<le> i \<Longrightarrow> arr_get xs i = Inl Bad_access"
  "int (length xs) \<le> i \<Longrightarrow> arr_set xs i x = Inl Bad_access"
  by (simp_all add: arr_get_def arr_set_def)

end
