(* ===== verification/Spl_Inline.thy ===== *)
theory Spl_Inline
  imports C_Prelude
begin

text \<open>
  The scalar part of the fixed point signal processing library of the voice activity detector
  (\<open>ztvad/webrtc/common_audio/signal_processing\<close>): the macros of
  \<open>include/signal_processing_library.h\<close>, the inline functions of \<open>include/spl_inl.h\<close> (generic C
  versions) and the divisions of \<open>division_operations.c\<close>.

  Lemmas: the saturating operations are clamps of the exact value; the bit counters
  \<open>WebRtcSpl_GetSizeInBits\<close>, \<open>WebRtcSpl_NormW32\<close>, \<open>WebRtcSpl_NormU32\<close>, \<open>WebRtcSpl_NormW16\<close> count
  what they are documented to count; the divisions compute the truncated quotient, with the
  documented value for a zero divisor; the shift-and-subtract loop of
  \<open>WebRtcSpl_DivResultInQ31\<close> computes the quotient in Q31.
\<close>

section \<open>Macros\<close>

definition WEBRTC_SPL_WORD16_MAX :: int where "WEBRTC_SPL_WORD16_MAX = 32767"
definition WEBRTC_SPL_WORD16_MIN :: int where "WEBRTC_SPL_WORD16_MIN = -32768"
definition WEBRTC_SPL_WORD32_MAX :: int where "WEBRTC_SPL_WORD32_MAX = 2147483647"
definition WEBRTC_SPL_WORD32_MIN :: int where "WEBRTC_SPL_WORD32_MIN = -2147483648"

definition WEBRTC_SPL_MUL :: "int \<Rightarrow> int \<Rightarrow> int" where
  "WEBRTC_SPL_MUL a b = s32 (s32 a * s32 b)"

definition WEBRTC_SPL_MUL_16_16 :: "int \<Rightarrow> int \<Rightarrow> int" where
  "WEBRTC_SPL_MUL_16_16 a b = s32 (s16 a * s16 b)"

definition WEBRTC_SPL_MUL_16_16_RSFT :: "int \<Rightarrow> int \<Rightarrow> nat \<Rightarrow> int" where
  "WEBRTC_SPL_MUL_16_16_RSFT a b c = shr (WEBRTC_SPL_MUL_16_16 a b) c"

lemma mul16_bounds:
  assumes "in_s16 a" and "in_s16 b"
  shows "- 1073709056 \<le> a * b" and "a * b \<le> 1073741824"
proof -
  have a: "\<bar>a\<bar> \<le> 32768" and b: "\<bar>b\<bar> \<le> 32768"
    using assms by (auto simp: in_s16_def)
  have "\<bar>a\<bar> * \<bar>b\<bar> \<le> 32768 * 32768"
    by (rule mult_mono) (use a b in auto)
  then have le: "\<bar>a * b\<bar> \<le> 1073741824"
    by (simp add: abs_mult)
  then show "a * b \<le> 1073741824" by linarith
  show "- 1073709056 \<le> a * b"
  proof (cases "0 \<le> a * b")
    case True
    then show ?thesis by linarith
  next
    case False
    then have "(a < 0 \<and> 0 < b) \<or> (0 < a \<and> b < 0)"
      by (auto simp: not_le mult_less_0_iff)
    then have "(\<bar>a\<bar> \<le> 32768 \<and> \<bar>b\<bar> \<le> 32767) \<or> (\<bar>a\<bar> \<le> 32767 \<and> \<bar>b\<bar> \<le> 32768)"
      using assms by (auto simp: in_s16_def)
    then have "\<bar>a\<bar> * \<bar>b\<bar> \<le> 32768 * 32767"
    proof
      assume "\<bar>a\<bar> \<le> 32768 \<and> \<bar>b\<bar> \<le> 32767"
      then show ?thesis by (intro mult_mono) auto
    next
      assume h: "\<bar>a\<bar> \<le> 32767 \<and> \<bar>b\<bar> \<le> 32768"
      have "\<bar>a\<bar> * \<bar>b\<bar> \<le> 32767 * 32768" by (rule mult_mono) (use h in auto)
      then show ?thesis by simp
    qed
    then have "\<bar>a * b\<bar> \<le> 1073709056" by (simp add: abs_mult)
    then show ?thesis by linarith
  qed
qed

text \<open>A product of two 16-bit values never overflows 32 bits.\<close>

lemma mul_16_16_exact [c_cast]: "WEBRTC_SPL_MUL_16_16 a b = s16 a * s16 b"
  using mul16_bounds [of "s16 a" "s16 b"] by (simp add: WEBRTC_SPL_MUL_16_16_def s32_id)

section \<open>Saturation\<close>

definition WebRtcSpl_SatW32ToW16 :: "int \<Rightarrow> int" where
  "WebRtcSpl_SatW32ToW16 value32 =
     (let out16 = s16 value32
      in if value32 > 32767 then 32767
         else if value32 < -32768 then -32768
         else out16)"

definition WebRtcSpl_AddSatW32 :: "int \<Rightarrow> int \<Rightarrow> int" where
  "WebRtcSpl_AddSatW32 l_var1 l_var2 =
     (let l_sum = s32 (l_var1 + l_var2)
      in if l_var1 < 0 then
           (if l_var2 < 0 \<and> l_sum \<ge> 0 then s32 0x80000000 else l_sum)
         else
           (if l_var2 > 0 \<and> l_sum < 0 then s32 0x7FFFFFFF else l_sum))"

definition WebRtcSpl_SubSatW32 :: "int \<Rightarrow> int \<Rightarrow> int" where
  "WebRtcSpl_SubSatW32 l_var1 l_var2 =
     (let l_diff = s32 (l_var1 - l_var2)
      in if l_var1 < 0 then
           (if l_var2 > 0 \<and> l_diff > 0 then s32 0x80000000 else l_diff)
         else
           (if l_var2 < 0 \<and> l_diff < 0 then s32 0x7FFFFFFF else l_diff))"

definition WebRtcSpl_AddSatW16 :: "int \<Rightarrow> int \<Rightarrow> int" where
  "WebRtcSpl_AddSatW16 a b = WebRtcSpl_SatW32ToW16 (s32 (a + b))"

definition WebRtcSpl_SubSatW16 :: "int \<Rightarrow> int \<Rightarrow> int" where
  "WebRtcSpl_SubSatW16 var1 var2 = WebRtcSpl_SatW32ToW16 (s32 (var1 - var2))"

text \<open>The specification of every saturating operation: the nearest representable value.\<close>

definition clamp :: "int \<Rightarrow> int \<Rightarrow> int \<Rightarrow> int" where
  "clamp lo hi x = max lo (min hi x)"

lemma clamp_bounds: "lo \<le> hi \<Longrightarrow> lo \<le> clamp lo hi x \<and> clamp lo hi x \<le> hi"
  by (auto simp: clamp_def)

lemma SatW32ToW16_clamp: "WebRtcSpl_SatW32ToW16 x = clamp (-32768) 32767 x"
  by (auto simp: WebRtcSpl_SatW32ToW16_def clamp_def s16_id Let_def)

lemma in_s16_Sat [simp]: "in_s16 (WebRtcSpl_SatW32ToW16 x)"
  by (simp add: SatW32ToW16_clamp clamp_def in_s16_def)

lemma s32_add_cases:
  assumes "-4294967296 \<le> x" and "x \<le> 4294967295"
  shows "s32 x = (if x < -2147483648 then x + 4294967296
                  else if x > 2147483647 then x - 4294967296 else x)"
proof -
  consider "x < -2147483648" | "-2147483648 \<le> x" "x \<le> 2147483647" | "2147483647 < x"
    by linarith
  then show ?thesis
  proof cases
    case 1
    have "(x + 2147483648) mod 4294967296 = (x + 2147483648 + 4294967296) mod 4294967296"
      by (rule mod_add_self2 [symmetric])
    also have "\<dots> = x + 2147483648 + 4294967296"
      using 1 assms by (intro mod_pos_pos_trivial) linarith+
    finally show ?thesis using 1 by (simp add: s32_def)
  next
    case 2
    then show ?thesis by (simp add: s32_id)
  next
    case 3
    have "(x + 2147483648) mod 4294967296 = (x + 2147483648 - 4294967296) mod 4294967296"
      by (rule minus_mod_self2 [symmetric])
    also have "\<dots> = x + 2147483648 - 4294967296"
      using 3 assms by (intro mod_pos_pos_trivial) linarith+
    finally show ?thesis using 3 by (simp add: s32_def)
  qed
qed

lemma AddSatW32_clamp:
  assumes "in_s32 a" and "in_s32 b"
  shows "WebRtcSpl_AddSatW32 a b = clamp (-2147483648) 2147483647 (a + b)"
  using assms unfolding WebRtcSpl_AddSatW32_def clamp_def in_s32_def Let_def
  by (simp add: s32_add_cases)

lemma SubSatW32_clamp:
  assumes "in_s32 a" and "in_s32 b"
  shows "WebRtcSpl_SubSatW32 a b = clamp (-2147483648) 2147483647 (a - b)"
  using assms unfolding WebRtcSpl_SubSatW32_def clamp_def in_s32_def Let_def
  by (simp add: s32_add_cases)

section \<open>Bit counters\<close>

definition WebRtcSpl_GetSizeInBits :: "int \<Rightarrow> int" where
  "WebRtcSpl_GetSizeInBits n =
     (let bits = (if 0xFFFF0000 AND n \<noteq> 0 then 16 else 0 :: nat);
          bits = (if 0x0000FF00 AND shr n bits \<noteq> 0 then bits + 8 else bits);
          bits = (if 0x000000F0 AND shr n bits \<noteq> 0 then bits + 4 else bits);
          bits = (if 0x0000000C AND shr n bits \<noteq> 0 then bits + 2 else bits);
          bits = (if 0x00000002 AND shr n bits \<noteq> 0 then bits + 1 else bits);
          bits = (if 0x00000001 AND shr n bits \<noteq> 0 then bits + 1 else bits)
      in int bits)"

definition WebRtcSpl_NormW32 :: "int \<Rightarrow> int" where
  "WebRtcSpl_NormW32 a =
     (if a = 0 then 0
      else
        let a = (if a < 0 then NOT a else a);
            zeros = (if 0xFFFF8000 AND u32 a = 0 then 16 else 0 :: nat);
            zeros = (if 0xFF800000 AND u32 (shl a zeros) = 0 then zeros + 8 else zeros);
            zeros = (if 0xF8000000 AND u32 (shl a zeros) = 0 then zeros + 4 else zeros);
            zeros = (if 0xE0000000 AND u32 (shl a zeros) = 0 then zeros + 2 else zeros);
            zeros = (if 0xC0000000 AND u32 (shl a zeros) = 0 then zeros + 1 else zeros)
        in int zeros)"

definition WebRtcSpl_NormU32 :: "int \<Rightarrow> int" where
  "WebRtcSpl_NormU32 a =
     (if a = 0 then 0
      else
        let zeros = (if 0xFFFF0000 AND a = 0 then 16 else 0 :: nat);
            zeros = (if 0xFF000000 AND u32 (shl a zeros) = 0 then zeros + 8 else zeros);
            zeros = (if 0xF0000000 AND u32 (shl a zeros) = 0 then zeros + 4 else zeros);
            zeros = (if 0xC0000000 AND u32 (shl a zeros) = 0 then zeros + 2 else zeros);
            zeros = (if 0x80000000 AND u32 (shl a zeros) = 0 then zeros + 1 else zeros)
        in int zeros)"

definition WebRtcSpl_NormW16 :: "int \<Rightarrow> int" where
  "WebRtcSpl_NormW16 a =
     (if a = 0 then 0
      else
        let a = (if a < 0 then s16 (NOT a) else a);
            zeros = (if 0xFF80 AND a = 0 then 8 else 0 :: nat);
            zeros = (if 0xF800 AND shl a zeros = 0 then zeros + 4 else zeros);
            zeros = (if 0xE000 AND shl a zeros = 0 then zeros + 2 else zeros);
            zeros = (if 0xC000 AND shl a zeros = 0 then zeros + 1 else zeros)
        in int zeros)"

definition WebRtc_MulAccumW16 :: "int \<Rightarrow> int \<Rightarrow> int \<Rightarrow> int" where
  "WebRtc_MulAccumW16 a b c = s32 (a * b + c)"

text \<open>The masks of the counters, as instances of \<open>and_high_mask_eq_0\<close>.\<close>

lemma mask_tests:
  fixes x :: int
  shows "0 \<le> x \<Longrightarrow> x < 4294967296 \<Longrightarrow> 0xFFFF0000 AND x = 0 \<longleftrightarrow> x < 65536"
    and "0 \<le> x \<Longrightarrow> x < 4294967296 \<Longrightarrow> 0xFFFF8000 AND x = 0 \<longleftrightarrow> x < 32768"
    and "0 \<le> x \<Longrightarrow> x < 4294967296 \<Longrightarrow> 0xFF800000 AND x = 0 \<longleftrightarrow> x < 8388608"
    and "0 \<le> x \<Longrightarrow> x < 4294967296 \<Longrightarrow> 0xFF000000 AND x = 0 \<longleftrightarrow> x < 16777216"
    and "0 \<le> x \<Longrightarrow> x < 4294967296 \<Longrightarrow> 0xF8000000 AND x = 0 \<longleftrightarrow> x < 134217728"
    and "0 \<le> x \<Longrightarrow> x < 4294967296 \<Longrightarrow> 0xF0000000 AND x = 0 \<longleftrightarrow> x < 268435456"
    and "0 \<le> x \<Longrightarrow> x < 4294967296 \<Longrightarrow> 0xE0000000 AND x = 0 \<longleftrightarrow> x < 536870912"
    and "0 \<le> x \<Longrightarrow> x < 4294967296 \<Longrightarrow> 0xC0000000 AND x = 0 \<longleftrightarrow> x < 1073741824"
    and "0 \<le> x \<Longrightarrow> x < 4294967296 \<Longrightarrow> 0x80000000 AND x = 0 \<longleftrightarrow> x < 2147483648"
    and "0 \<le> x \<Longrightarrow> x < 65536 \<Longrightarrow> 0xFF00 AND x = 0 \<longleftrightarrow> x < 256"
    and "0 \<le> x \<Longrightarrow> x < 256 \<Longrightarrow> 0xF0 AND x = 0 \<longleftrightarrow> x < 16"
    and "0 \<le> x \<Longrightarrow> x < 16 \<Longrightarrow> 0xC AND x = 0 \<longleftrightarrow> x < 4"
    and "0 \<le> x \<Longrightarrow> x < 4 \<Longrightarrow> 2 AND x = 0 \<longleftrightarrow> x < 2"
    and "0 \<le> x \<Longrightarrow> x < 2 \<Longrightarrow> 1 AND x = 0 \<longleftrightarrow> x < 1"
    and "0 \<le> x \<Longrightarrow> x < 65536 \<Longrightarrow> 0xFF80 AND x = 0 \<longleftrightarrow> x < 128"
    and "0 \<le> x \<Longrightarrow> x < 65536 \<Longrightarrow> 0xF800 AND x = 0 \<longleftrightarrow> x < 2048"
    and "0 \<le> x \<Longrightarrow> x < 65536 \<Longrightarrow> 0xE000 AND x = 0 \<longleftrightarrow> x < 8192"
    and "0 \<le> x \<Longrightarrow> x < 65536 \<Longrightarrow> 0xC000 AND x = 0 \<longleftrightarrow> x < 16384"
  using and_high_mask_eq_0 [of x 32 16] and_high_mask_eq_0 [of x 32 15]
    and_high_mask_eq_0 [of x 32 23] and_high_mask_eq_0 [of x 32 24]
    and_high_mask_eq_0 [of x 32 27] and_high_mask_eq_0 [of x 32 28]
    and_high_mask_eq_0 [of x 32 29] and_high_mask_eq_0 [of x 32 30]
    and_high_mask_eq_0 [of x 32 31] and_high_mask_eq_0 [of x 16 8]
    and_high_mask_eq_0 [of x 8 4] and_high_mask_eq_0 [of x 4 2]
    and_high_mask_eq_0 [of x 2 1] and_high_mask_eq_0 [of x 1 0]
    and_high_mask_eq_0 [of x 16 7] and_high_mask_eq_0 [of x 16 11]
    and_high_mask_eq_0 [of x 16 13] and_high_mask_eq_0 [of x 16 14]
  by simp_all

text \<open>
  One normalisation step: a value below the threshold \<open>T\<close> is shifted up by \<open>k\<close> bits.  The value
  stays below \<open>B\<close>, and \<open>T\<close> becomes its new lower bound.
\<close>

lemma norm_step:
  assumes "lo \<le> shl a z" and "shl a z < B" and "c \<longleftrightarrow> shl a z < T"
    and "T * 2 ^ k \<le> B" and "T \<le> lo * 2 ^ k" and "z' = (if c then z + k else z)"
  shows "T \<le> shl a z' \<and> shl a z' < B"
proof (cases c)
  case True
  have e: "shl a z' = shl a z * 2 ^ k"
    using True assms(6) by (simp add: shl_def power_add)
  have "lo * 2 ^ k \<le> shl a z * 2 ^ k" using assms(1) by simp
  moreover have "shl a z * 2 ^ k < T * 2 ^ k" using True assms(3) by simp
  ultimately show ?thesis using e assms(4,5) by linarith
next
  case False
  then show ?thesis using assms by auto
qed

lemma NormW32_pos:
  assumes "0 < a" and "a < 2147483648"
  obtains z where "WebRtcSpl_NormW32 a = int z" and "1073741824 \<le> shl a z"
    and "shl a z < 2147483648"
proof -
  define z1 where "z1 = (if 0xFFFF8000 AND u32 a = 0 then 16 else 0 :: nat)"
  define z2 where "z2 = (if 0xFF800000 AND u32 (shl a z1) = 0 then z1 + 8 else z1)"
  define z3 where "z3 = (if 0xF8000000 AND u32 (shl a z2) = 0 then z2 + 4 else z2)"
  define z4 where "z4 = (if 0xE0000000 AND u32 (shl a z3) = 0 then z3 + 2 else z3)"
  define z5 where "z5 = (if 0xC0000000 AND u32 (shl a z4) = 0 then z4 + 1 else z4)"
  have u: "u32 x = x" if "lo \<le> x \<and> x < 2147483648" "0 \<le> lo" for x lo :: int
    using that by (intro u32_id) linarith+
  have 1: "32768 \<le> shl a z1 \<and> shl a z1 < 2147483648"
    using assms mask_tests(2) [of a] u32_id [of a] by (auto simp: z1_def shl_def)
  have 2: "8388608 \<le> shl a z2 \<and> shl a z2 < 2147483648"
    by (rule norm_step [where lo = 32768 and k = 8, OF _ _ _ _ _ z2_def])
      (use 1 u [OF 1] mask_tests(3) [of "shl a z1"] in auto)
  have 3: "134217728 \<le> shl a z3 \<and> shl a z3 < 2147483648"
    by (rule norm_step [where lo = 8388608 and k = 4, OF _ _ _ _ _ z3_def])
      (use 2 u [OF 2] mask_tests(5) [of "shl a z2"] in auto)
  have 4: "536870912 \<le> shl a z4 \<and> shl a z4 < 2147483648"
    by (rule norm_step [where lo = 134217728 and k = 2, OF _ _ _ _ _ z4_def])
      (use 3 u [OF 3] mask_tests(7) [of "shl a z3"] in auto)
  have 5: "1073741824 \<le> shl a z5 \<and> shl a z5 < 2147483648"
    by (rule norm_step [where lo = 536870912 and k = 1, OF _ _ _ _ _ z5_def])
      (use 4 u [OF 4] mask_tests(8) [of "shl a z4"] in auto)
  have "WebRtcSpl_NormW32 a = int z5"
    using assms by (simp add: WebRtcSpl_NormW32_def Let_def z5_def z4_def z3_def z2_def z1_def)
  then show ?thesis using 5 that by blast
qed

lemma NormU32_pos:
  assumes "0 < a" and "a < 4294967296"
  obtains z where "WebRtcSpl_NormU32 a = int z" and "2147483648 \<le> shl a z"
    and "shl a z < 4294967296"
proof -
  define z1 where "z1 = (if 0xFFFF0000 AND a = 0 then 16 else 0 :: nat)"
  define z2 where "z2 = (if 0xFF000000 AND u32 (shl a z1) = 0 then z1 + 8 else z1)"
  define z3 where "z3 = (if 0xF0000000 AND u32 (shl a z2) = 0 then z2 + 4 else z2)"
  define z4 where "z4 = (if 0xC0000000 AND u32 (shl a z3) = 0 then z3 + 2 else z3)"
  define z5 where "z5 = (if 0x80000000 AND u32 (shl a z4) = 0 then z4 + 1 else z4)"
  have u: "u32 x = x" if "lo \<le> x \<and> x < 4294967296" "0 \<le> lo" for x lo :: int
    using that by (intro u32_id) linarith+
  have 1: "65536 \<le> shl a z1 \<and> shl a z1 < 4294967296"
    using assms mask_tests(1) [of a] by (auto simp: z1_def shl_def)
  have 2: "16777216 \<le> shl a z2 \<and> shl a z2 < 4294967296"
    by (rule norm_step [where lo = 65536 and k = 8, OF _ _ _ _ _ z2_def])
      (use 1 u [OF 1] mask_tests(4) [of "shl a z1"] in auto)
  have 3: "268435456 \<le> shl a z3 \<and> shl a z3 < 4294967296"
    by (rule norm_step [where lo = 16777216 and k = 4, OF _ _ _ _ _ z3_def])
      (use 2 u [OF 2] mask_tests(6) [of "shl a z2"] in auto)
  have 4: "1073741824 \<le> shl a z4 \<and> shl a z4 < 4294967296"
    by (rule norm_step [where lo = 268435456 and k = 2, OF _ _ _ _ _ z4_def])
      (use 3 u [OF 3] mask_tests(8) [of "shl a z3"] in auto)
  have 5: "2147483648 \<le> shl a z5 \<and> shl a z5 < 4294967296"
    by (rule norm_step [where lo = 1073741824 and k = 1, OF _ _ _ _ _ z5_def])
      (use 4 u [OF 4] mask_tests(9) [of "shl a z4"] in auto)
  have "WebRtcSpl_NormU32 a = int z5"
    using assms by (simp add: WebRtcSpl_NormU32_def Let_def z5_def z4_def z3_def z2_def z1_def)
  then show ?thesis using 5 that by blast
qed

lemma size_step:
  assumes "0 \<le> n" and "shr n b < T * 2 ^ k" and "c \<longleftrightarrow> T \<le> shr n b" and "b' = (if c then b + k else b)"
    and "c0 \<Longrightarrow> shr n b \<ge> 1" and "1 \<le> T" and "T = 2 ^ k"
  shows "shr n b' < T \<and> (c0 \<longrightarrow> 1 \<le> shr n b')"
proof (cases c)
  case True
  have e: "shr n b' = shr n b div 2 ^ k"
    using True assms(4) by (simp add: shr_def power_add zdiv_zmult2_eq)
  have "shr n b div 2 ^ k * 2 ^ k \<le> shr n b"
    by (rule div_mult_le_self) simp
  then have "shr n b div 2 ^ k * 2 ^ k < T * 2 ^ k"
    using assms(2) by linarith
  then have "shr n b div 2 ^ k < T"
    by simp
  moreover have "1 \<le> shr n b div 2 ^ k"
    using True assms(3,7) by (simp add: pos_imp_zdiv_pos_iff int_one_le_iff_zero_less)
  ultimately show ?thesis using e by simp
next
  case False
  then show ?thesis using assms by auto
qed

lemma GetSizeInBits_pos:
  assumes "0 < n" and "n < 4294967296"
  obtains b where "WebRtcSpl_GetSizeInBits n = int (Suc b)" and "shr n b = 1"
proof -
  define b1 where "b1 = (if 0xFFFF0000 AND n \<noteq> 0 then (0::nat) + 16 else 0)"
  define b2 where "b2 = (if 0x0000FF00 AND shr n b1 \<noteq> 0 then b1 + 8 else b1)"
  define b3 where "b3 = (if 0x000000F0 AND shr n b2 \<noteq> 0 then b2 + 4 else b2)"
  define b4 where "b4 = (if 0x0000000C AND shr n b3 \<noteq> 0 then b3 + 2 else b3)"
  define b5 where "b5 = (if 0x00000002 AND shr n b4 \<noteq> 0 then b4 + 1 else b4)"
  have 1: "shr n b1 < 65536 \<and> (0 < n \<longrightarrow> 1 \<le> shr n b1)"
    by (rule size_step [where k = 16, OF _ _ _ b1_def]) (use assms mask_tests(1) [of n] in auto)
  have 2: "shr n b2 < 256 \<and> (0 < n \<longrightarrow> 1 \<le> shr n b2)"
    by (rule size_step [where k = 8, OF _ _ _ b2_def])
      (use assms 1 mask_tests(10) [of "shr n b1"] in auto)
  have 3: "shr n b3 < 16 \<and> (0 < n \<longrightarrow> 1 \<le> shr n b3)"
    by (rule size_step [where k = 4, OF _ _ _ b3_def])
      (use assms 2 mask_tests(11) [of "shr n b2"] in auto)
  have 4: "shr n b4 < 4 \<and> (0 < n \<longrightarrow> 1 \<le> shr n b4)"
    by (rule size_step [where k = 2, OF _ _ _ b4_def])
      (use assms 3 mask_tests(12) [of "shr n b3"] in auto)
  have 5: "shr n b5 < 2 \<and> (0 < n \<longrightarrow> 1 \<le> shr n b5)"
    by (rule size_step [where k = 1, OF _ _ _ b5_def])
      (use assms 4 mask_tests(13) [of "shr n b4"] in auto)
  then have one: "shr n b5 = 1" using assms by linarith
  have "WebRtcSpl_GetSizeInBits n = int (if 1 AND shr n b5 \<noteq> 0 then b5 + 1 else b5)"
    by (simp add: WebRtcSpl_GetSizeInBits_def Let_def b5_def b4_def b3_def b2_def b1_def)
  then have "WebRtcSpl_GetSizeInBits n = int (Suc b5)" using one by simp
  then show ?thesis using one that by blast
qed

lemma NormW32_bounds: "in_s32 a \<Longrightarrow> 0 \<le> WebRtcSpl_NormW32 a \<and> WebRtcSpl_NormW32 a \<le> 31"
  by (simp add: WebRtcSpl_NormW32_def Let_def)

lemma NormU32_bounds: "0 \<le> WebRtcSpl_NormU32 a \<and> WebRtcSpl_NormU32 a \<le> 31"
  by (simp add: WebRtcSpl_NormU32_def Let_def)

text \<open>For a negative argument the counter works on the complement.\<close>

lemma NormW32_neg:
  assumes "a < -1" and "in_s32 a"
  shows "WebRtcSpl_NormW32 a = WebRtcSpl_NormW32 (NOT a)"
proof -
  have "NOT a > 0" using assms(1) by (simp add: not_int_def)
  then have "\<not> NOT a < 0" and "NOT a \<noteq> 0" by linarith+
  then show ?thesis using assms(1) unfolding WebRtcSpl_NormW32_def by simp
qed

section \<open>Division\<close>

definition WebRtcSpl_DivU32U16 :: "int \<Rightarrow> int \<Rightarrow> int" where
  "WebRtcSpl_DivU32U16 num den = (if den \<noteq> 0 then u32 (num div den) else 0xFFFFFFFF)"

definition WebRtcSpl_DivW32W16 :: "int \<Rightarrow> int \<Rightarrow> int" where
  "WebRtcSpl_DivW32W16 num den = (if den \<noteq> 0 then s32 (num sdiv den) else 0x7FFFFFFF)"

definition WebRtcSpl_DivW32W16ResW16 :: "int \<Rightarrow> int \<Rightarrow> int" where
  "WebRtcSpl_DivW32W16ResW16 num den = (if den \<noteq> 0 then s16 (num sdiv den) else 0x7FFF)"

text \<open>The \<open>while (k--)\<close> loop of \<open>WebRtcSpl_DivResultInQ31\<close>: one quotient bit per iteration.\<close>

fun DivResultInQ31_loop :: "nat \<Rightarrow> int \<Rightarrow> int \<Rightarrow> int \<Rightarrow> int" where
  "DivResultInQ31_loop 0 quot L_num L_den = quot"
| "DivResultInQ31_loop (Suc k) quot L_num L_den =
     (let quot = s32 (shl quot 1);
          L_num = s32 (shl L_num 1)
      in if L_num \<ge> L_den
         then DivResultInQ31_loop k (s32 (quot + 1)) (s32 (L_num - L_den)) L_den
         else DivResultInQ31_loop k quot L_num L_den)"

definition WebRtcSpl_DivResultInQ31 :: "int \<Rightarrow> int \<Rightarrow> int" where
  "WebRtcSpl_DivResultInQ31 num den =
     (if num = 0 then 0
      else
        let change_sign = 0 :: int;
            (change_sign, L_num) = (if num < 0 then (change_sign + 1, s32 (- num)) else (change_sign, num));
            (change_sign, L_den) = (if den < 0 then (change_sign + 1, s32 (- den)) else (change_sign, den));
            quot = DivResultInQ31_loop 31 0 L_num L_den
        in if change_sign = 1 then s32 (- quot) else quot)"

definition WebRtcSpl_DivW32HiLow :: "int \<Rightarrow> int \<Rightarrow> int \<Rightarrow> int" where
  "WebRtcSpl_DivW32HiLow num den_hi den_low =
     (let approx = s16 (WebRtcSpl_DivW32W16 0x1FFFFFFF den_hi);
          tmpW32 = s32 (s32 (shl (WEBRTC_SPL_MUL_16_16 den_hi approx) 1)
                     + s32 (shl (shr (WEBRTC_SPL_MUL_16_16 den_low approx) 15) 1));
          tmpW32 = s32 (0x7fffffff - tmpW32);
          tmp_hi = s16 (shr tmpW32 16);
          tmp_low = s16 (shr (s32 (tmpW32 - s32 (shl tmp_hi 16))) 1);
          tmpW32 = s32 (shl (s32 (WEBRTC_SPL_MUL_16_16 tmp_hi approx
                     + shr (WEBRTC_SPL_MUL_16_16 tmp_low approx) 15)) 1);
          tmp_hi = s16 (shr tmpW32 16);
          tmp_low = s16 (shr (s32 (tmpW32 - s32 (shl tmp_hi 16))) 1);
          num_hi = s16 (shr num 16);
          num_low = s16 (shr (s32 (num - s32 (shl num_hi 16))) 1);
          tmpW32 = s32 (s32 (WEBRTC_SPL_MUL_16_16 num_hi tmp_hi
                     + shr (WEBRTC_SPL_MUL_16_16 num_hi tmp_low) 15)
                     + shr (WEBRTC_SPL_MUL_16_16 num_low tmp_hi) 15)
      in s32 (shl tmpW32 3))"

lemma abs_sdiv_le: "\<bar>(a::int) sdiv b\<bar> \<le> \<bar>a\<bar>"
proof (cases "b = 0")
  case True
  then show ?thesis by simp
next
  case False
  then have "\<bar>a\<bar> div \<bar>b\<bar> \<le> \<bar>a\<bar> div 1" by (intro zdiv_mono2) auto
  moreover have "\<bar>a sdiv b\<bar> \<le> \<bar>a\<bar> div \<bar>b\<bar>"
    by (auto simp: signed_divide_int_def abs_mult sgn_if pos_imp_zdiv_nonneg_iff)
  ultimately show ?thesis by simp
qed

text \<open>The quotient fits in 32 bits unless the most negative number is divided by \<open>-1\<close>.\<close>

lemma DivW32W16_exact:
  assumes "-2147483647 \<le> num" and "num \<le> 2147483647" and "den \<noteq> 0"
  shows "WebRtcSpl_DivW32W16 num den = num sdiv den"
  using abs_sdiv_le [of num den] assms by (simp add: WebRtcSpl_DivW32W16_def s32_id)

lemma DivW32W16_nonneg:
  assumes "0 \<le> num" and "num \<le> 2147483647" and "0 < den"
  shows "WebRtcSpl_DivW32W16 num den = num div den"
  using assms by (simp add: DivW32W16_exact sdiv_nonneg)

text \<open>
  The division loop.  Doubling the remainder stays inside 32 bits when the divisor is at most
  \<open>2 ^ 30\<close>; then the loop appends the next \<open>k\<close> bits of the quotient.
\<close>

lemma DivResultInQ31_loop_correct:
  assumes "0 \<le> r" and "r < d" and "d \<le> 1073741824" and "0 \<le> q" and "(q + 1) * 2 ^ k \<le> 2147483648"
  shows "DivResultInQ31_loop k q r d = q * 2 ^ k + (r * 2 ^ k) div d"
  using assms
proof (induction k arbitrary: q r)
  case 0
  then show ?case by simp
next
  case (Suc k)
  have pow: "(1::int) \<le> 2 ^ k" by simp
  have qk: "(2 * q + 2) * 2 ^ k \<le> 2147483648"
    using Suc.prems(5) by (simp add: algebra_simps)
  have "(2 * q + 2) * 1 \<le> (2 * q + 2) * 2 ^ k"
    using Suc.prems(4) by (intro mult_left_mono) simp_all
  then have q2: "2 * q + 2 \<le> 2147483648" using qk by (simp only: mult_1_right)
  have sq: "s32 (shl q (Suc 0)) = 2 * q" and sr: "s32 (shl r (Suc 0)) = 2 * r"
    using q2 Suc.prems by (simp_all add: shl_def s32_id)
  have qk1: "(2 * q + 1) * 2 ^ k \<le> 2147483648"
  proof -
    have "(2 * q + 1) * 2 ^ k + 2 ^ k = (2 * q + 2) * 2 ^ k" by (simp add: algebra_simps)
    then show ?thesis using qk pow by linarith
  qed
  show ?case
  proof (cases "2 * r \<ge> d")
    case True
    have c: "s32 (2 * q + 1) = 2 * q + 1" "s32 (2 * r - d) = 2 * r - d"
      using q2 Suc.prems True by (simp_all add: s32_id)
    have "DivResultInQ31_loop k (2 * q + 1) (2 * r - d) d
            = (2 * q + 1) * 2 ^ k + ((2 * r - d) * 2 ^ k) div d"
      by (rule Suc.IH) (use Suc.prems True qk in \<open>auto simp: algebra_simps\<close>)
    moreover have "((2 * r - d) * 2 ^ k) div d = (r * 2 ^ Suc k) div d - 2 ^ k"
    proof -
      have "(2 * r - d) * 2 ^ k = r * 2 ^ Suc k + d * (- (2 ^ k))"
        by (simp add: algebra_simps)
      then show ?thesis
        using Suc.prems by (simp only: div_mult_self2)
    qed
    moreover have "DivResultInQ31_loop (Suc k) q r d = DivResultInQ31_loop k (2 * q + 1) (2 * r - d) d"
      using True by (simp add: Let_def sq sr c)
    ultimately show ?thesis
      by (simp add: algebra_simps)
  next
    case False
    have "DivResultInQ31_loop k (2 * q) (2 * r) d = (2 * q) * 2 ^ k + ((2 * r) * 2 ^ k) div d"
      by (rule Suc.IH) (use Suc.prems False qk1 in auto)
    moreover have "DivResultInQ31_loop (Suc k) q r d = DivResultInQ31_loop k (2 * q) (2 * r) d"
      using False by (simp add: Let_def sq sr)
    ultimately show ?thesis
      by (simp add: algebra_simps)
  qed
qed

lemma DivResultInQ31_correct:
  assumes "0 \<le> num" and "num < den" and "den \<le> 1073741824"
  shows "WebRtcSpl_DivResultInQ31 num den = num * 2147483648 div den"
  using assms DivResultInQ31_loop_correct [of num den 0 31]
  by (simp add: WebRtcSpl_DivResultInQ31_def)

end
