(* ===== verification/Vad_Gmm.thy ===== *)
theory Vad_Gmm
  imports Spl_Inline
begin

text \<open>
  \<open>vad_gmm.c\<close>: the probability of a feature value under one Gaussian of the mixture, in fixed
  point.  The function returns the probability in Q20 and \<open>delta = (x - m) / s^2\<close> in Q11.

  Lemmas: for a standard deviation of at least \<open>kMinStd\<close> and a feature within range of the mean no
  conversion loses bits, so the fixed point code computes the closed forms below; the exponential
  is a decreasing, piecewise linear function of the exponent with value 1 (in Q10) at 0.
\<close>

definition kCompVar :: int where "kCompVar = 22005"
definition kLog2Exp :: int where "kLog2Exp = 5909"

text \<open>\<open>exp2\<close> of a non-positive Q10 number, as the code computes it from \<open>tmp16\<close>.\<close>

definition gmm_exp2 :: "int \<Rightarrow> int" where
  "gmm_exp2 tmp16 =
     (let exp_value = 0x0400 OR (tmp16 AND 0x03FF);
          tmp16 = s16 (tmp16 XOR 0xFFFF);
          tmp16 = shr tmp16 10;
          tmp16 = s16 (tmp16 + 1)
      in shr exp_value (nat tmp16))"

definition WebRtcVad_GaussianProbability :: "int \<Rightarrow> int \<Rightarrow> int \<Rightarrow> int \<times> int" where
  "WebRtcVad_GaussianProbability input mean std =
     (let tmp32 = 131072 + shr std 1;
          inv_std = s16 (WebRtcSpl_DivW32W16 tmp32 std);
          tmp16 = shr inv_std 2;
          inv_std2 = s16 (WEBRTC_SPL_MUL_16_16_RSFT tmp16 tmp16 2);
          tmp16 = s16 (shl input 3);
          tmp16 = s16 (tmp16 - mean);
          delta = s16 (WEBRTC_SPL_MUL_16_16_RSFT inv_std2 tmp16 10);
          tmp32 = WEBRTC_SPL_MUL_16_16_RSFT delta tmp16 9;
          exp_value = (if tmp32 < kCompVar then
                         let tmp16 = s16 (WEBRTC_SPL_MUL_16_16_RSFT kLog2Exp (s16 tmp32) 12);
                             tmp16 = s16 (- tmp16)
                         in gmm_exp2 tmp16
                       else 0)
      in (WEBRTC_SPL_MUL_16_16 inv_std exp_value, delta))"

section \<open>The exponential\<close>

text \<open>
  For \<open>y = 1024 * k + r\<close> with \<open>1 \<le> r \<le> 1024\<close> the value is \<open>(2048 - r) >> (k + 1)\<close>: the linear
  interpolation of \<open>2 ^ (- y / 1024)\<close> between consecutive powers of two.
\<close>

definition exp2_interp :: "int \<Rightarrow> int" where
  "exp2_interp y = (if y \<le> 0 then 1024 else shr (2047 - (y - 1) mod 1024) (nat ((y - 1) div 1024 + 1)))"

lemma s16_xor_ffff: "in_s16 x \<Longrightarrow> s16 (x XOR 0xFFFF) = NOT x"
proof -
  assume x: "in_s16 x"
  have s: "s16 z = signed_take_bit 15 z" for z
    by (simp add: s16_def signed_take_bit_eq_take_bit_shift take_bit_eq_mod)
  have "signed_take_bit 15 (x XOR 0xFFFF) = signed_take_bit 15 (NOT x)"
  proof (rule bit_eqI)
    fix n
    have "bit (0xFFFF::int) n \<longleftrightarrow> n < 16"
      using bit_mask_iff [of 16 n, where 'a = int] by (simp add: mask_eq_exp_minus_1)
    then show "bit (signed_take_bit 15 (x XOR 0xFFFF)) n = bit (signed_take_bit 15 (NOT x)) n"
      by (auto simp: bit_simps min_def)
  qed
  moreover have "in_s16 (NOT x)" using x by (simp add: in_s16_def not_int_def)
  ultimately show ?thesis using in_s16_id s by metis
qed

lemma exp_value_eq: "0x0400 OR (x AND 0x03FF) = 1024 + x mod (1024::int)"
proof -
  have m: "x AND 0x03FF = take_bit 10 x"
    using take_bit_eq_mask [of 10 x] by (simp add: mask_eq_exp_minus_1)
  have "take_bit 10 x OR push_bit 10 1 = take_bit 10 x + push_bit 10 1"
    using concat_bit_eq [of 10 x 1] by (simp only: concat_bit_def)
  then show ?thesis
    by (simp add: m or.commute take_bit_eq_mod push_bit_eq_mult)
qed

lemma gmm_exp2_interp:
  assumes "0 \<le> y" and "y \<le> 32768"
  shows "gmm_exp2 (- y) = exp2_interp y"
proof -
  have in16: "in_s16 (- y)" using assms by (simp add: in_s16_def)
  have x: "s16 (- y XOR 0xFFFF) = y - 1"
    using s16_xor_ffff [OF in16] by (simp add: not_int_def)
  have "shr (y - 1) 10 = (y - 1) div 1024" by (simp add: shr_def)
  moreover have "s16 ((y - 1) div 1024 + 1) = (y - 1) div 1024 + 1"
    using assms by (intro s16_id) linarith+
  ultimately have g: "gmm_exp2 (- y) = shr (1024 + (- y) mod 1024) (nat ((y - 1) div 1024 + 1))"
    by (simp add: gmm_exp2_def exp_value_eq x)
  show ?thesis
  proof (cases "y = 0")
    case True
    then show ?thesis using g by (simp add: exp2_interp_def)
  next
    case False
    have "y - 1 = 1024 * ((y - 1) div 1024) + (y - 1) mod 1024" by simp
    then have "- y = 1024 * (- ((y - 1) div 1024) - 1) + (1023 - (y - 1) mod 1024)"
      by (simp add: algebra_simps)
    then have "(- y) mod 1024 = 1023 - (y - 1) mod 1024"
      by (rule int_mod_pos_eq) (use pos_mod_bound [of 1024 "y - 1"] in auto)
    then show ?thesis using False assms by (simp add: g exp2_interp_def)
  qed
qed

lemma exp2_interp_bounds: "0 \<le> exp2_interp y \<and> exp2_interp y \<le> 1024"
proof (cases "y \<le> 0")
  case True
  then show ?thesis by (simp add: exp2_interp_def)
next
  case False
  define k where "k = nat ((y - 1) div 1024)"
  have e: "nat ((y - 1) div 1024 + 1) = Suc k"
    using False by (simp add: k_def nat_add_distrib pos_imp_zdiv_nonneg_iff)
  have r: "0 \<le> (y - 1) mod 1024" "(y - 1) mod 1024 \<le> 1023"
    using pos_mod_bound [of 1024 "y - 1"] by auto
  have "shr (2047 - (y - 1) mod 1024) (Suc k) = (2047 - (y - 1) mod 1024) div 2 div 2 ^ k"
    by (simp add: shr_def zdiv_zmult2_eq)
  also have "\<dots> \<le> (2047 - (y - 1) mod 1024) div 2"
    using shr_le_self [of "(2047 - (y - 1) mod 1024) div 2" k] r by (simp add: shr_def)
  also have "\<dots> \<le> 1024" using r by linarith
  finally show ?thesis using False e r by (simp add: exp2_interp_def)
qed

text \<open>A larger exponent never gives a larger probability.\<close>

lemma exp2_interp_step: "0 \<le> y \<Longrightarrow> exp2_interp (y + 1) \<le> exp2_interp y"
proof -
  assume y: "0 \<le> y"
  show ?thesis
  proof (cases "y = 0")
    case True
    then show ?thesis using exp2_interp_bounds [of 1] by (simp add: exp2_interp_def)
  next
    case False
    define k where "k = nat ((y - 1) div 1024)"
    define r where "r = (y - 1) mod 1024"
    have k: "(y - 1) div 1024 = int k" using False y by (simp add: k_def pos_imp_zdiv_nonneg_iff)
    have r: "0 \<le> r" "r \<le> 1023" using pos_mod_bound [of 1024 "y - 1"] by (auto simp: r_def)
    have yk: "y - 1 = 1024 * int k + r"
      using k by (simp add: r_def flip: k)
    have old: "exp2_interp y = shr (2047 - r) (Suc k)"
      using False y k by (simp add: exp2_interp_def r_def nat_add_distrib)
    show ?thesis
    proof (cases "r = 1023")
      case False
      have "y = 1024 * int k + (r + 1)" using yk by simp
      moreover have "0 \<le> r + 1" "r + 1 < 1024" using r False by linarith+
      ultimately have "y div 1024 = int k" and "y mod 1024 = r + 1"
        by (rule int_div_pos_eq, rule int_mod_pos_eq)
      then have "exp2_interp (y + 1) = shr (2047 - (r + 1)) (Suc k)"
        using y by (simp add: exp2_interp_def nat_add_distrib)
      then show ?thesis using old by (simp add: shr_mono)
    next
      case True
      have "y = 1024 * (int k + 1) + 0" using yk True by simp
      then have "y div 1024 = int k + 1" and "y mod 1024 = 0"
        by simp_all
      then have "exp2_interp (y + 1) = shr 2047 (Suc (Suc k))"
        using y by (simp add: exp2_interp_def nat_add_distrib)
      also have "\<dots> = shr 1023 (Suc k)"
        by (simp add: shr_def zdiv_zmult2_eq [of 2] flip: mult.assoc)
          (simp add: zdiv_zmult2_eq)
      also have "\<dots> \<le> shr 1024 (Suc k)" by (simp add: shr_mono)
      finally show ?thesis using old True by simp
    qed
  qed
qed

lemma exp2_interp_antimono:
  assumes "0 \<le> x" and "x \<le> y"
  shows "exp2_interp y \<le> exp2_interp x"
proof -
  have "exp2_interp (x + int n) \<le> exp2_interp x" for n
  proof (induction n)
    case (Suc n)
    have "exp2_interp (x + int n + 1) \<le> exp2_interp (x + int n)"
      using assms(1) by (intro exp2_interp_step) simp
    moreover have "x + int (Suc n) = x + int n + 1" by simp
    ultimately show ?case using Suc by (simp only:)
  qed simp
  from this [of "nat (y - x)"] show ?thesis using assms by simp
qed

section \<open>The probability\<close>

definition gmm_inv_std :: "int \<Rightarrow> int" where
  "gmm_inv_std std = (131072 + std div 2) div std"

definition gmm_inv_std2 :: "int \<Rightarrow> int" where
  "gmm_inv_std2 std = (gmm_inv_std std div 4) * (gmm_inv_std std div 4) div 4"

text \<open>The quantities of the computation without any conversion: unbounded integers.\<close>

definition gmm_delta :: "int \<Rightarrow> int \<Rightarrow> int \<Rightarrow> int" where
  "gmm_delta input mean std = gmm_inv_std2 std * (8 * input - mean) div 1024"

definition gmm_exponent :: "int \<Rightarrow> int \<Rightarrow> int \<Rightarrow> int" where
  "gmm_exponent input mean std = gmm_delta input mean std * (8 * input - mean) div 512"

definition gmm_prob :: "int \<Rightarrow> int \<Rightarrow> int \<Rightarrow> int" where
  "gmm_prob input mean std =
     gmm_inv_std std * (if gmm_exponent input mean std < 22005
                        then exp2_interp (5909 * gmm_exponent input mean std div 4096) else 0)"

lemma gmm_inv_std_bounds:
  assumes "378 \<le> std" and "std \<le> 32767"
  shows "4 \<le> gmm_inv_std std" and "gmm_inv_std std \<le> 347"
proof -
  have "gmm_inv_std std < 348"
    unfolding gmm_inv_std_def by (rule int_div_less) (use assms in linarith)+
  then show "gmm_inv_std std \<le> 347" by simp
  show "4 \<le> gmm_inv_std std"
    unfolding gmm_inv_std_def by (rule int_div_ge) (use assms in linarith)+
qed

lemma gmm_inv_std2_bounds:
  assumes "378 \<le> std" and "std \<le> 32767"
  shows "0 \<le> gmm_inv_std2 std" and "gmm_inv_std2 std \<le> 1849"
proof -
  let ?q = "gmm_inv_std std div 4"
  have q: "0 \<le> ?q" "?q \<le> 86" using gmm_inv_std_bounds [OF assms] by linarith+
  then have "?q * ?q \<le> 86 * 86" by (intro mult_mono) auto
  then show "gmm_inv_std2 std \<le> 1849" unfolding gmm_inv_std2_def by linarith
  have "0 \<le> ?q * ?q" by simp
  then show "0 \<le> gmm_inv_std2 std" unfolding gmm_inv_std2_def by linarith
qed

lemma gmm_delta_bounds:
  assumes "378 \<le> std" and "std \<le> 32767" and "\<bar>8 * input - mean\<bar> \<le> 18146"
  shows "-32767 \<le> gmm_delta input mean std" and "gmm_delta input mean std \<le> 32767"
    and "0 \<le> gmm_delta input mean std * (8 * input - mean)"
proof -
  let ?d = "8 * input - mean" and ?i = "gmm_inv_std2 std"
  have i: "0 \<le> ?i" "?i \<le> 1849" using gmm_inv_std2_bounds [OF assms(1,2)] by auto
  have "\<bar>?i * ?d\<bar> \<le> 1849 * 18146"
    unfolding abs_mult by (rule mult_mono) (use i assms(3) in auto)
  then have p: "-33551954 \<le> ?i * ?d" "?i * ?d \<le> 33551954" by linarith+
  show "-32767 \<le> gmm_delta input mean std" "gmm_delta input mean std \<le> 32767"
    using p unfolding gmm_delta_def by linarith+
  show "0 \<le> gmm_delta input mean std * ?d"
  proof (cases "0 \<le> ?d")
    case True
    then have "0 \<le> ?i * ?d" using i by simp
    then have "0 \<le> gmm_delta input mean std" unfolding gmm_delta_def by linarith
    then show ?thesis using True by simp
  next
    case False
    then have "?i * ?d \<le> 0" using i by (simp add: mult_nonneg_nonpos)
    then have "gmm_delta input mean std \<le> 0" unfolding gmm_delta_def by linarith
    then show ?thesis using False by (simp add: mult_nonpos_nonpos)
  qed
qed

theorem GaussianProbability_exact:
  assumes "378 \<le> std" and "std \<le> 32767" and "0 \<le> input" and "input \<le> 4095"
    and "\<bar>8 * input - mean\<bar> \<le> 18146"
  shows "WebRtcVad_GaussianProbability input mean std = (gmm_prob input mean std, gmm_delta input mean std)"
proof -
  let ?d = "8 * input - mean"
  note ib = gmm_inv_std_bounds [OF assms(1,2)]
  note i2 = gmm_inv_std2_bounds [OF assms(1,2)]
  note db = gmm_delta_bounds [OF assms(1,2,5)]
  have inv: "s16 (WebRtcSpl_DivW32W16 (131072 + shr std 1) std) = gmm_inv_std std"
  proof -
    have "WebRtcSpl_DivW32W16 (131072 + shr std 1) std = gmm_inv_std std"
      using assms(1,2) unfolding gmm_inv_std_def
      by (subst DivW32W16_nonneg) (simp_all add: shr_def)
    then show ?thesis using ib by (simp add: s16_id)
  qed
  have q: "shr (gmm_inv_std std) 2 = gmm_inv_std std div 4" by (simp add: shr_def)
  have q86: "0 \<le> gmm_inv_std std div 4" "gmm_inv_std std div 4 \<le> 86" using ib by linarith+
  have inv2: "s16 (WEBRTC_SPL_MUL_16_16_RSFT (gmm_inv_std std div 4) (gmm_inv_std std div 4) 2) = gmm_inv_std2 std"
    using q86 i2
    by (simp add: WEBRTC_SPL_MUL_16_16_RSFT_def mul_16_16_exact s16_id shr_def gmm_inv_std2_def)
  have d: "s16 (s16 (shl input 3) - mean) = ?d"
    using assms(3-5) by (simp add: shl_def s16_id)
  have sd: "s16 ?d = ?d" using assms(5) by (intro s16_id) linarith+
  have delta: "s16 (WEBRTC_SPL_MUL_16_16_RSFT (gmm_inv_std2 std) ?d 10) = gmm_delta input mean std"
    using i2 db(1,2)
    by (simp add: WEBRTC_SPL_MUL_16_16_RSFT_def mul_16_16_exact sd s16_id shr_def gmm_delta_def)
  have ex: "WEBRTC_SPL_MUL_16_16_RSFT (gmm_delta input mean std) ?d 9 = gmm_exponent input mean std"
    using db(1,2)
    by (simp add: WEBRTC_SPL_MUL_16_16_RSFT_def mul_16_16_exact sd s16_id shr_def gmm_exponent_def)
  have ex0: "0 \<le> gmm_exponent input mean std"
    using db(3) by (simp add: gmm_exponent_def pos_imp_zdiv_nonneg_iff)
  have e: "gmm_exp2 (s16 (- s16 (WEBRTC_SPL_MUL_16_16_RSFT kLog2Exp (s16 x) 12)))
             = exp2_interp (5909 * x div 4096)" if "0 \<le> x" "x < 22005" for x
  proof -
    have y: "0 \<le> 5909 * x div 4096" "5909 * x div 4096 \<le> 32767" using that by linarith+
    then have "s16 (- s16 (WEBRTC_SPL_MUL_16_16_RSFT kLog2Exp (s16 x) 12)) = - (5909 * x div 4096)"
      using that
      by (simp add: WEBRTC_SPL_MUL_16_16_RSFT_def mul_16_16_exact s16_id shr_def kLog2Exp_def)
    then show ?thesis using gmm_exp2_interp y by simp
  qed
  have fin: "WEBRTC_SPL_MUL_16_16 (gmm_inv_std std) v = gmm_inv_std std * v" if "0 \<le> v" "v \<le> 1024" for v
    using ib that by (simp add: mul_16_16_exact s16_id)
  have eb: "0 \<le> exp2_interp y" "exp2_interp y \<le> 1024" for y
    using exp2_interp_bounds by auto
  show ?thesis
    unfolding WebRtcVad_GaussianProbability_def Let_def inv q inv2 d delta ex kCompVar_def gmm_prob_def
    using ex0 by (simp add: e fin eb)
qed

text \<open>The probability is non-negative and largest at the mean.\<close>

lemma gmm_prob_bounds:
  assumes "378 \<le> std" and "std \<le> 32767"
  shows "0 \<le> gmm_prob input mean std" and "gmm_prob input mean std \<le> 1024 * gmm_inv_std std"
  using gmm_inv_std_bounds [OF assms] exp2_interp_bounds
  by (auto simp: gmm_prob_def mult.commute)

end
