(* ===== verification/Spl_Resample.thy ===== *)
theory Spl_Resample
  imports Spl_Inline
begin

text \<open>
  The resamplers of the signal processing library: the half-band allpass filters of
  \<open>resample_by_2_internal.c\<close>, the fractional resamplers of \<open>resample_fractional.c\<close> and the
  48 kHz converters of \<open>resample_48khz.c\<close>.

  A filter state array is a list.  A routine that reads and writes the caller's scratch memory is a
  function on that memory (a list of 32-bit words) with offsets for the pointers, so that the
  overlap of its input and output areas is part of the model.

  Lemmas: the in-place fractional resamplers compute what they would compute on separate arrays
  (locale \<open>block_resampler\<close>); the 48 kHz to 8 kHz converter is the composition of its four stages;
  the filters can be run on a signal in pieces.
\<close>

section \<open>Allpass filters\<close>

definition kResampleAllpass :: "int list list" where
  "kResampleAllpass = [[821, 6110, 12382], [3050, 9368, 15063]]"

text \<open>
  The body shared by all loops of \<open>resample_by_2_internal.c\<close>: three allpass sections with the
  coefficients of row \<open>c\<close> on four consecutive words of the state array.
\<close>

type_synonym allpass = "int \<times> int \<times> int \<times> int"

definition trunc14 :: "int \<Rightarrow> int" where
  "trunc14 diff = (let diff = shr diff 14 in if diff < 0 then diff + 1 else diff)"

fun allpass_step :: "int list \<Rightarrow> allpass \<Rightarrow> int \<Rightarrow> allpass" where
  "allpass_step c (s0, s1, s2, s3) tmp0 =
     (let diff = s32 (tmp0 - s1);
          diff = shr (s32 (diff + 8192)) 14;
          tmp1 = s32 (s0 + s32 (diff * c ! 0));
          s0 = tmp0;
          diff = s32 (tmp1 - s2);
          diff = trunc14 diff;
          tmp0 = s32 (s1 + s32 (diff * c ! 1));
          s1 = tmp1;
          diff = s32 (tmp0 - s3);
          diff = trunc14 diff;
          s3 = s32 (s2 + s32 (diff * c ! 2));
          s2 = tmp0
      in (s0, s1, s2, s3))"

definition allpass_out :: "allpass \<Rightarrow> int" where
  "allpass_out s = snd (snd (snd s))"

text \<open>A loop over the samples \<open>xs\<close>: the last word of the state after each sample, and the state.\<close>

fun allpass_run :: "int list \<Rightarrow> allpass \<Rightarrow> int list \<Rightarrow> int list \<times> allpass" where
  "allpass_run c s [] = ([], s)"
| "allpass_run c s (x # xs) =
     (let s = allpass_step c s x;
          (ys, s') = allpass_run c s xs
      in (allpass_out s # ys, s'))"

definition get_allpass :: "int list \<Rightarrow> nat \<Rightarrow> allpass" where
  "get_allpass state b = (state ! b, state ! (b + 1), state ! (b + 2), state ! (b + 3))"

fun put_allpass :: "int list \<Rightarrow> nat \<Rightarrow> allpass \<Rightarrow> int list" where
  "put_allpass state b (s0, s1, s2, s3) = blit state b [s0, s1, s2, s3]"

text \<open>One loop of the source: filter \<open>xs\<close> with the state words \<open>b .. b + 3\<close> of the state array.\<close>

definition allpass_loop :: "nat \<Rightarrow> int list \<Rightarrow> nat \<Rightarrow> int list \<Rightarrow> int list \<times> int list" where
  "allpass_loop row state b xs =
     (let (ys, s) = allpass_run (kResampleAllpass ! row) (get_allpass state b) xs
      in (ys, put_allpass state b s))"

definition evens :: "'a list \<Rightarrow> nat \<Rightarrow> 'a list" where
  "evens xs n = map (\<lambda>i. xs ! (2 * i)) [0..<n]"

definition odds :: "'a list \<Rightarrow> nat \<Rightarrow> 'a list" where
  "odds xs n = map (\<lambda>i. xs ! (2 * i + 1)) [0..<n]"

text \<open>\<open>interleave xs ys\<close> is what is stored at the even (\<open>xs\<close>) and odd (\<open>ys\<close>) positions.\<close>

definition interleave :: "'a list \<Rightarrow> 'a list \<Rightarrow> 'a list" where
  "interleave xs ys = concat (map2 (\<lambda>x y. [x, y]) xs ys)"

definition short_to_int :: "int \<Rightarrow> int" where
  "short_to_int x = s32 (s32 (shl x 15) + 16384)"

definition sat16 :: "int \<Rightarrow> int" where
  "sat16 tmp = (let tmp = (if tmp > 0x7FFF then 0x7FFF else tmp);
                    tmp = (if tmp < -32768 then -32768 else tmp)
                in s16 tmp)"

text \<open>
  The decimator overwrites its input; the result is the overwritten input, the output and the
  state.  The last loop runs in steps of two output samples.
\<close>

definition WebRtcSpl_DownBy2IntToShort ::
    "int list \<Rightarrow> int \<Rightarrow> int list \<Rightarrow> int list \<times> int list \<times> int list" where
  "WebRtcSpl_DownBy2IntToShort inp len state =
     (let len = nat (shr len 1);
          (ys, state) = allpass_loop 1 state 0 (evens inp len);
          lower = map (\<lambda>y. shr y 1) ys;
          (ys, state) = allpass_loop 0 state 4 (odds inp len);
          upper = map (\<lambda>y. shr y 1) ys;
          inp = blit inp 0 (interleave lower upper);
          out = concat (map (\<lambda>k. let i = 2 * k;
                                     tmp0 = shr (s32 (inp ! (2 * i) + inp ! (2 * i + 1))) 15;
                                     tmp1 = shr (s32 (inp ! (2 * i + 2) + inp ! (2 * i + 3))) 15
                                 in [sat16 tmp0, sat16 tmp1]) [0..<(len + 1) div 2])
      in (inp, out, state))"

definition WebRtcSpl_DownBy2ShortToInt :: "int list \<Rightarrow> int \<Rightarrow> int list \<Rightarrow> int list \<times> int list" where
  "WebRtcSpl_DownBy2ShortToInt inp len state =
     (let len = nat (shr len 1);
          (ys, state) = allpass_loop 1 state 0 (map short_to_int (evens inp len));
          out = map (\<lambda>y. shr y 1) ys;
          (ys, state) = allpass_loop 0 state 4 (map short_to_int (odds inp len));
          out = map2 (\<lambda>o0 y. s32 (o0 + shr y 1)) out ys
      in (out, state))"

definition WebRtcSpl_UpBy2ShortToInt :: "int list \<Rightarrow> int \<Rightarrow> int list \<Rightarrow> int list \<times> int list" where
  "WebRtcSpl_UpBy2ShortToInt inp len state =
     (let xs = map short_to_int (take (nat len) inp);
          (ys, state) = allpass_loop 0 state 4 xs;
          out0 = map (\<lambda>y. shr y 15) ys;
          (ys, state) = allpass_loop 1 state 0 xs;
          out1 = map (\<lambda>y. shr y 15) ys
      in (interleave out0 out1, state))"

definition WebRtcSpl_UpBy2IntToInt :: "int list \<Rightarrow> int \<Rightarrow> int list \<Rightarrow> int list \<times> int list" where
  "WebRtcSpl_UpBy2IntToInt inp len state =
     (let xs = take (nat len) inp;
          (out0, state) = allpass_loop 0 state 4 xs;
          (out1, state) = allpass_loop 1 state 0 xs
      in (interleave out0 out1, state))"

definition WebRtcSpl_UpBy2IntToShort :: "int list \<Rightarrow> int \<Rightarrow> int list \<Rightarrow> int list \<times> int list" where
  "WebRtcSpl_UpBy2IntToShort inp len state =
     (let xs = take (nat len) inp;
          (ys, state) = allpass_loop 0 state 4 xs;
          out0 = map (\<lambda>y. sat16 (shr y 15)) ys;
          (ys, state) = allpass_loop 1 state 0 xs;
          out1 = map (\<lambda>y. sat16 (shr y 15)) ys
      in (interleave out0 out1, state))"

text \<open>
  The low pass filters run four loops.  The first one filters the odd samples delayed by one: it
  starts from state word 12, the last odd sample of the previous call, which the fourth loop leaves
  there.
\<close>

definition LPBy2 :: "int list \<Rightarrow> int list \<Rightarrow> int list \<Rightarrow> int list \<times> int list" where
  "LPBy2 ev od state =
     (let (ys, state) = allpass_loop 1 state 0 (take (length od) (state ! 12 # od));
          out0 = map (\<lambda>y. shr y 1) ys;
          (ys, state) = allpass_loop 0 state 4 ev;
          out0 = map2 (\<lambda>o0 y. shr (s32 (o0 + shr y 1)) 15) out0 ys;
          (ys, state) = allpass_loop 1 state 8 ev;
          out1 = map (\<lambda>y. shr y 1) ys;
          (ys, state) = allpass_loop 0 state 12 od;
          out1 = map2 (\<lambda>o0 y. shr (s32 (o0 + shr y 1)) 15) out1 ys
      in (interleave out0 out1, state))"

definition WebRtcSpl_LPBy2ShortToInt :: "int list \<Rightarrow> int \<Rightarrow> int list \<Rightarrow> int list \<times> int list" where
  "WebRtcSpl_LPBy2ShortToInt inp len state =
     (let len = nat (shr len 1)
      in LPBy2 (map short_to_int (evens inp len)) (map short_to_int (odds inp len)) state)"

definition WebRtcSpl_LPBy2IntToInt :: "int list \<Rightarrow> int \<Rightarrow> int list \<Rightarrow> int list \<times> int list" where
  "WebRtcSpl_LPBy2IntToInt inp len state =
     (let len = nat (shr len 1)
      in LPBy2 (evens inp len) (odds inp len) state)"

section \<open>Fractional resamplers\<close>

definition kCoefficients48To32 :: "int list list" where
  "kCoefficients48To32 = [[778, -2050, 1087, 23285, 12903, -3783, 441, 222],
                          [222, 441, -3783, 12903, 23285, 1087, -2050, 778]]"

definition kCoefficients32To24 :: "int list list" where
  "kCoefficients32To24 = [[767, -2362, 2434, 24406, 10620, -3838, 721, 90],
                          [386, -381, -2646, 19062, 19062, -2646, -381, 386],
                          [90, 721, -3838, 10620, 24406, 2434, -2362, 767]]"

definition kCoefficients44To32 :: "int list list" where
  "kCoefficients44To32 = [[117, -669, 2245, -6183, 26267, 13529, -3245, 845, -138],
                          [-101, 612, -2283, 8532, 29790, -5138, 1789, -524, 91],
                          [50, -292, 1016, -3064, 32010, 3933, -1147, 315, -53],
                          [-156, 974, -3863, 18603, 21691, -6246, 2353, -712, 126]]"

text \<open>The rounded inner product \<open>tmp = 1 << 14; tmp += coef[j] * x[j]; \<dots>\<close>.\<close>

definition dot :: "int list \<Rightarrow> int list \<Rightarrow> int" where
  "dot coef xs = fold (\<lambda>(c, x) tmp. s32 (tmp + s32 (c * x))) (zip coef xs) 16384"

text \<open>
  The body of a block loop is a list of assignments \<open>Out[j] = g In\<close>, made in order on the memory
  that holds both arrays; \<open>w\<close> is the number of input words the block looks at.
\<close>

type_synonym block_body = "(nat \<times> (int list \<Rightarrow> int)) list"

definition block_step :: "block_body \<Rightarrow> nat \<Rightarrow> int list \<Rightarrow> nat \<Rightarrow> nat \<Rightarrow> int list" where
  "block_step body w mem In Out =
     fold (\<lambda>(j, g) mem. mem[Out + j := g (window mem In w)]) body mem"

fun block_loop :: "block_body \<Rightarrow> nat \<Rightarrow> nat \<Rightarrow> nat \<Rightarrow> int list \<Rightarrow> nat \<Rightarrow> nat \<Rightarrow> nat \<Rightarrow> int list" where
  "block_loop body w n_in n_out mem In Out 0 = mem"
| "block_loop body w n_in n_out mem In Out (Suc K) =
     block_loop body w n_in n_out (block_step body w mem In Out) (In + n_in) (Out + n_out) K"

definition body48To32 :: block_body where
  "body48To32 =
     [(0, \<lambda>In. dot (kCoefficients48To32 ! 0) (window In 0 8)),
      (1, \<lambda>In. dot (kCoefficients48To32 ! 1) (window In 1 8))]"

definition WebRtcSpl_Resample48khzTo32khz :: "int list \<Rightarrow> nat \<Rightarrow> nat \<Rightarrow> nat \<Rightarrow> int list" where
  "WebRtcSpl_Resample48khzTo32khz mem In Out K = block_loop body48To32 9 3 2 mem In Out K"

definition body32To24 :: block_body where
  "body32To24 =
     [(0, \<lambda>In. dot (kCoefficients32To24 ! 0) (window In 0 8)),
      (1, \<lambda>In. dot (kCoefficients32To24 ! 1) (window In 1 8)),
      (2, \<lambda>In. dot (kCoefficients32To24 ! 2) (window In 2 8))]"

definition WebRtcSpl_Resample32khzTo24khz :: "int list \<Rightarrow> nat \<Rightarrow> nat \<Rightarrow> nat \<Rightarrow> int list" where
  "WebRtcSpl_Resample32khzTo24khz mem In Out K = block_loop body32To24 10 4 3 mem In Out K"

text \<open>
  \<open>WebRtcSpl_ResampDotProduct\<close> computes one inner product forwards from \<open>in1\<close> and one backwards
  from \<open>in2\<close>.
\<close>

definition WebRtcSpl_ResampDotProduct :: "nat \<Rightarrow> nat \<Rightarrow> int list \<Rightarrow> nat \<Rightarrow> nat \<Rightarrow> block_body" where
  "WebRtcSpl_ResampDotProduct in1 in2 coef_ptr out1 out2 =
     [(out1, \<lambda>In. dot coef_ptr (map (\<lambda>j. In ! (in1 + j)) [0..<9])),
      (out2, \<lambda>In. dot coef_ptr (map (\<lambda>j. In ! (in2 - j)) [0..<9]))]"

definition body44To32 :: block_body where
  "body44To32 =
     [(0, \<lambda>In. s32 (s32 (shl (In ! 3) 15) + 16384)),
      (4, \<lambda>In. dot (kCoefficients44To32 ! 3) (window In 5 9))]
     @ WebRtcSpl_ResampDotProduct 0 17 (kCoefficients44To32 ! 0) 1 7
     @ WebRtcSpl_ResampDotProduct 2 15 (kCoefficients44To32 ! 1) 2 6
     @ WebRtcSpl_ResampDotProduct 3 14 (kCoefficients44To32 ! 2) 3 5"

definition WebRtcSpl_Resample44khzTo32khz :: "int list \<Rightarrow> nat \<Rightarrow> nat \<Rightarrow> nat \<Rightarrow> int list" where
  "WebRtcSpl_Resample44khzTo32khz mem In Out K = block_loop body44To32 18 11 8 mem In Out K"

text \<open>What a block computes from its input alone: the assigned values, in the order of the outputs.\<close>

definition block_fun :: "block_body \<Rightarrow> nat \<Rightarrow> int list \<Rightarrow> int list" where
  "block_fun body n_out xs = map (\<lambda>j. (case map_of body j of Some g \<Rightarrow> g xs | None \<Rightarrow> 0)) [0..<n_out]"

definition block_resample :: "block_body \<Rightarrow> nat \<Rightarrow> nat \<Rightarrow> nat \<Rightarrow> int list \<Rightarrow> nat \<Rightarrow> int list" where
  "block_resample body w n_in n_out xs K =
     concat (map (\<lambda>m. block_fun body n_out (window xs (n_in * m) w)) [0..<K])"

subsection \<open>In-place operation\<close>

text \<open>
  A block body that assigns each of its \<open>n_out\<close> outputs exactly once, and produces no more than it
  consumes.  The laws are what makes it safe to let the output overwrite the input.
\<close>

locale block_resampler =
  fixes body :: block_body and w n_in n_out :: nat
  assumes outputs: "set (map fst body) = {0..<n_out}"
    and outputs_once: "distinct (map fst body)"
    and shrinking: "n_out \<le> n_in"
    and some_output: "0 < n_out"
begin

lemma length_block_step [simp]: "length (block_step b v mem In Out) = length mem"
proof -
  have "length (fold (\<lambda>(j, g) mem. mem[Out + j := g (window mem In v)]) xs m) = length m" for xs m
    by (induction xs arbitrary: m) auto
  then show ?thesis by (simp add: block_step_def)
qed

text \<open>Outputs strictly before the input window: every assignment of a block sees the same input.\<close>

lemma fold_assign:
  assumes "\<forall>(j, g)\<in>set xs. Out + j < In" and "distinct (map fst xs)" and "In + w \<le> length mem"
  shows "fold (\<lambda>(j, g) mem. mem[Out + j := g (window mem In w)]) xs mem
           = fold (\<lambda>(j, g) m. m[Out + j := g (window mem In w)]) xs mem"
proof -
  have "fold (\<lambda>(j, g) mem. mem[Out + j := g (window mem In w)]) ys m
          = fold (\<lambda>(j, g) m. m[Out + j := g (window mem In w)]) ys m"
    if "\<forall>(j, g)\<in>set ys. Out + j < In" "window m In w = window mem In w" for ys m
    using that
  proof (induction ys arbitrary: m)
    case Nil
    then show ?case by simp
  next
    case (Cons y ys)
    obtain j g where y: "y = (j, g)" by (cases y)
    have "window (m[Out + j := v]) In w = window m In w" for v
      using Cons.prems(1) y by (simp add: window_def drop_update_cancel)
    then show ?case using Cons y by simp
  qed
  then show ?thesis using assms(1) by blast
qed

lemma nth_fold_assign:
  assumes "distinct (map fst xs)" and "i < length m"
  shows "fold (\<lambda>(j, g) m. m[Out + j := g v]) xs m ! i
           = (if Out \<le> i then case map_of xs (i - Out) of Some g \<Rightarrow> g v | None \<Rightarrow> m ! i else m ! i)"
  using assms
proof (induction xs arbitrary: m)
  case Nil
  then show ?case by simp
next
  case (Cons x xs)
  obtain j g where x: "x = (j, g)" by (cases x)
  have "map_of xs j = None" using Cons.prems(1) x by (simp add: map_of_eq_None_iff)
  then show ?case
    using Cons.IH [of "m[Out + j := g v]"] Cons.prems x
    by (auto simp: nth_list_update split: option.splits)
qed

lemma length_block_fun [simp]: "length (block_fun body n_out xs) = n_out"
  by (simp add: block_fun_def)

lemma length_block_resample [simp]: "length (block_resample body w n_in n_out xs K) = n_out * K"
  by (simp add: block_resample_def length_concat comp_def sum_list_triv)

lemma block_resample_Suc:
  "block_resample body w n_in n_out xs (Suc K)
     = block_fun body n_out (window xs 0 w) @ block_resample body w n_in n_out (drop n_in xs) K"
proof -
  have "[0..<Suc K] = 0 # map Suc [0..<K]"
    by (simp add: map_Suc_upt upt_conv_Cons del: upt_Suc)
  then show ?thesis
    by (simp add: block_resample_def window_def comp_def add.commute del: upt_Suc)
qed

lemma block_step_blit:
  assumes "Out + n_out \<le> In" and "In + w \<le> length mem"
  shows "block_step body w mem In Out = blit mem Out (block_fun body n_out (window mem In w))"
proof (rule nth_equalityI)
  show "length (block_step body w mem In Out) = length (blit mem Out (block_fun body n_out (window mem In w)))"
    using assms by simp
  fix i
  assume "i < length (block_step body w mem In Out)"
  then have i: "i < length mem" by simp
  have j: "\<forall>(j, g)\<in>set body. Out + j < In"
  proof clarify
    fix j g
    assume "(j, g) \<in> set body"
    then have "j \<in> set (map fst body)" by force
    then show "Out + j < In" using outputs assms(1) by simp
  qed
  have "block_step body w mem In Out ! i
      = (if Out \<le> i then case map_of body (i - Out) of Some g \<Rightarrow> g (window mem In w) | None \<Rightarrow> mem ! i else mem ! i)"
    unfolding block_step_def fold_assign [OF j outputs_once assms(2)]
    using nth_fold_assign [OF outputs_once i] .
  moreover have "map_of body (i - Out) = None \<longleftrightarrow> \<not> i - Out < n_out"
    using outputs by (simp add: map_of_eq_None_iff)
  ultimately show "block_step body w mem In Out ! i
      = blit mem Out (block_fun body n_out (window mem In w)) ! i"
    using assms i by (auto simp: nth_blit block_fun_def split: option.splits)
qed

theorem block_loop_blit:
  assumes "Out + n_out \<le> In" and "K > 0 \<Longrightarrow> In + n_in * (K - 1) + w \<le> length mem"
  shows "block_loop body w n_in n_out mem In Out K
           = blit mem Out (block_resample body w n_in n_out (drop In mem) K)"
  using assms
proof (induction K arbitrary: mem In Out)
  case 0
  then show ?case by (simp add: block_resample_def)
next
  case (Suc K)
  let ?ys = "block_fun body n_out (window mem In w)"
  have len: "In + w \<le> length mem" using Suc.prems(2) by simp
  have fit: "Out + length ?ys \<le> length mem" using Suc.prems(1) len by simp
  have step: "block_step body w mem In Out = blit mem Out ?ys"
    by (rule block_step_blit [OF Suc.prems(1) len])
  have "block_loop body w n_in n_out (blit mem Out ?ys) (In + n_in) (Out + n_out) K
      = blit (blit mem Out ?ys) (Out + n_out)
          (block_resample body w n_in n_out (drop (In + n_in) (blit mem Out ?ys)) K)"
    by (rule Suc.IH) (use Suc.prems shrinking fit in \<open>auto simp: gr0_conv_Suc\<close>)
  also have "\<dots> = blit mem Out (?ys @ block_resample body w n_in n_out (drop (In + n_in) (blit mem Out ?ys)) K)"
    using blit_blit_append [OF fit] by simp
  also have "?ys @ block_resample body w n_in n_out (drop (In + n_in) (blit mem Out ?ys)) K
      = block_resample body w n_in n_out (drop In mem) (Suc K)"
  proof (cases "In + n_in \<le> length mem")
    case True
    then have "drop (In + n_in) (blit mem Out ?ys) = drop (In + n_in) mem"
      using Suc.prems(1) by (intro drop_blit_before) auto
    then show ?thesis
      by (simp add: block_resample_Suc window_def add.commute)
  next
    case False
    then show ?thesis
      using fit by (simp add: block_resample_Suc window_def)
  qed
  finally show ?case using step by simp
qed

end

interpretation r48: block_resampler body48To32 9 3 2
  by unfold_locales (auto simp: body48To32_def)

interpretation r32: block_resampler body32To24 10 4 3
  by unfold_locales (auto simp: body32To24_def)

interpretation r44: block_resampler body44To32 18 11 8
  by unfold_locales (auto simp: body44To32_def WebRtcSpl_ResampDotProduct_def)

text \<open>The result of a block loop depends on the words it reads only.\<close>

lemma block_resample_append:
  assumes "K > 0 \<Longrightarrow> n_in * (K - 1) + w \<le> length xs"
  shows "block_resample body w n_in n_out (xs @ ys) K = block_resample body w n_in n_out xs K"
proof -
  have "window (xs @ ys) (n_in * m) w = window xs (n_in * m) w" if "m < K" for m
  proof -
    have "n_in * m \<le> n_in * (K - 1)" using that by (intro mult_le_mono) auto
    then have "n_in * m + w \<le> length xs" using assms that by linarith
    then show ?thesis by (simp add: window_def)
  qed
  then show ?thesis
    unfolding block_resample_def by (intro arg_cong [where f = concat] map_cong) auto
qed

section \<open>Lengths and streaming of the allpass filters\<close>

declare allpass_step.simps [simp del]

lemma length_allpass_run [simp]: "length (fst (allpass_run c s xs)) = length xs"
  by (induction xs arbitrary: s) (simp_all add: Let_def case_prod_beta)

lemma allpass_run_append:
  "allpass_run c s (xs @ ys) =
     (let (o1, s1) = allpass_run c s xs; (o2, s2) = allpass_run c s1 ys in (o1 @ o2, s2))"
  by (induction xs arbitrary: s) (simp_all add: Let_def case_prod_beta)

lemma length_put_allpass [simp]: "b + 4 \<le> length st \<Longrightarrow> length (put_allpass st b s) = length st"
  by (cases s) simp

lemma get_put_allpass [simp]: "b + 4 \<le> length st \<Longrightarrow> get_allpass (put_allpass st b s) b = s"
  by (cases s) (simp add: get_allpass_def nth_blit)

lemma put_put_allpass [simp]: "b + 4 \<le> length st \<Longrightarrow> put_allpass (put_allpass st b s) b s' = put_allpass st b s'"
  by (cases s; cases s') (simp add: blit_def min_def)

lemma length_allpass_loop [simp]:
  "length (fst (allpass_loop row st b xs)) = length xs"
  "b + 4 \<le> length st \<Longrightarrow> length (snd (allpass_loop row st b xs)) = length st"
  by (simp_all add: allpass_loop_def Let_def case_prod_beta)

lemma allpass_loop_append:
  assumes "b + 4 \<le> length st"
  shows "allpass_loop row st b (xs @ ys) =
     (let (o1, st1) = allpass_loop row st b xs; (o2, st2) = allpass_loop row st1 b ys in (o1 @ o2, st2))"
  using assms by (simp add: allpass_loop_def allpass_run_append Let_def case_prod_beta)

lemma length_evens_odds [simp]: "length (evens xs n) = n" "length (odds xs n) = n"
  by (simp_all add: evens_def odds_def)

lemma evens_odds_append:
  "2 * n \<le> length xs \<Longrightarrow> evens (xs @ ys) n = evens xs n"
  "2 * n \<le> length xs \<Longrightarrow> odds (xs @ ys) n = odds xs n"
  by (auto simp: evens_def odds_def nth_append)

lemma length_interleave [simp]: "length (interleave xs ys) = 2 * min (length xs) (length ys)"
proof (induction xs arbitrary: ys)
  case Nil
  then show ?case by (simp add: interleave_def)
next
  case (Cons x xs)
  then show ?case by (cases ys) (simp_all add: interleave_def)
qed

lemma length_DownBy2ShortToInt [simp]:
  "length (fst (WebRtcSpl_DownBy2ShortToInt inp len st)) = nat (shr len 1)"
  by (simp add: WebRtcSpl_DownBy2ShortToInt_def Let_def case_prod_beta)

lemma length_LPBy2:
  "length ev = length od \<Longrightarrow> length (fst (LPBy2 ev od st)) = 2 * length od"
  by (simp add: LPBy2_def Let_def case_prod_beta)

lemma length_LPBy2IntToInt [simp]:
  "length (fst (WebRtcSpl_LPBy2IntToInt inp len st)) = 2 * nat (shr len 1)"
  by (simp add: WebRtcSpl_LPBy2IntToInt_def Let_def length_LPBy2)

lemma length_DownBy2IntToShort [simp]:
  "length (fst (snd (WebRtcSpl_DownBy2IntToShort inp len st))) = 2 * ((nat (shr len 1) + 1) div 2)"
  by (simp add: WebRtcSpl_DownBy2IntToShort_def Let_def case_prod_beta length_concat comp_def sum_list_triv)

text \<open>Every output sample of the decimator is a saturated 16-bit value.\<close>

lemma in_s16_sat16 [simp]: "in_s16 (sat16 x)"
  by (simp add: sat16_def Let_def)

lemma sat16_clamp: "sat16 x = clamp (-32768) 32767 x"
  by (auto simp: sat16_def clamp_def s16_id Let_def)

lemma DownBy2IntToShort_in_s16:
  "list_all in_s16 (fst (snd (WebRtcSpl_DownBy2IntToShort inp len st)))"
  by (auto simp: WebRtcSpl_DownBy2IntToShort_def Let_def case_prod_beta list_all_iff)

section \<open>The 48 kHz converters\<close>

record State48khzTo16khz =
  S_48_48 :: "int list"
  S_48_32 :: "int list"
  S_32_16 :: "int list"

record State16khzTo48khz =
  S_16_32 :: "int list"
  S_32_24 :: "int list"
  S16_24_48 :: "int list"

record State48khzTo8khz =
  S_48_24 :: "int list"
  S_24_24 :: "int list"
  S_24_16 :: "int list"
  S_16_8 :: "int list"

record State8khzTo48khz =
  S_8_16 :: "int list"
  S_16_12 :: "int list"
  S_12_24 :: "int list"
  S8_24_48 :: "int list"

text \<open>
  Each converter takes the input, the state and the scratch memory \<open>tmpmem\<close>, and returns the
  output, the state and the memory it leaves.
\<close>

definition WebRtcSpl_Resample48khzTo16khz ::
    "int list \<Rightarrow> State48khzTo16khz \<Rightarrow> int list \<Rightarrow> int list \<times> State48khzTo16khz \<times> int list" where
  "WebRtcSpl_Resample48khzTo16khz inp state tmpmem =
     (let (ys, s) = WebRtcSpl_LPBy2ShortToInt inp 480 (S_48_48 state);
          tmpmem = blit tmpmem 16 ys;
          state = state\<lparr>S_48_48 := s\<rparr>;
          tmpmem = blit tmpmem 8 (S_48_32 state);
          state = state\<lparr>S_48_32 := window tmpmem 488 8\<rparr>;
          tmpmem = WebRtcSpl_Resample48khzTo32khz tmpmem 8 0 160;
          (tmpmem, out, s) = WebRtcSpl_DownBy2IntToShort tmpmem 320 (S_32_16 state)
      in (out, state\<lparr>S_32_16 := s\<rparr>, tmpmem))"

definition WebRtcSpl_ResetResample48khzTo16khz :: State48khzTo16khz where
  "WebRtcSpl_ResetResample48khzTo16khz =
     \<lparr>S_48_48 = replicate 16 0, S_48_32 = replicate 8 0, S_32_16 = replicate 8 0\<rparr>"

definition WebRtcSpl_Resample16khzTo48khz ::
    "int list \<Rightarrow> State16khzTo48khz \<Rightarrow> int list \<Rightarrow> int list \<times> State16khzTo48khz \<times> int list" where
  "WebRtcSpl_Resample16khzTo48khz inp state tmpmem =
     (let (ys, s) = WebRtcSpl_UpBy2ShortToInt inp 160 (S_16_32 state);
          tmpmem = blit tmpmem 16 ys;
          state = state\<lparr>S_16_32 := s\<rparr>;
          tmpmem = blit tmpmem 8 (S_32_24 state);
          state = state\<lparr>S_32_24 := window tmpmem 328 8\<rparr>;
          tmpmem = WebRtcSpl_Resample32khzTo24khz tmpmem 8 0 80;
          (out, s) = WebRtcSpl_UpBy2IntToShort tmpmem 240 (S16_24_48 state)
      in (out, state\<lparr>S16_24_48 := s\<rparr>, tmpmem))"

definition WebRtcSpl_ResetResample16khzTo48khz :: State16khzTo48khz where
  "WebRtcSpl_ResetResample16khzTo48khz =
     \<lparr>S_16_32 = replicate 8 0, S_32_24 = replicate 8 0, S16_24_48 = replicate 8 0\<rparr>"

definition WebRtcSpl_Resample48khzTo8khz ::
    "int list \<Rightarrow> State48khzTo8khz \<Rightarrow> int list \<Rightarrow> int list \<times> State48khzTo8khz \<times> int list" where
  "WebRtcSpl_Resample48khzTo8khz inp state tmpmem =
     (let (ys, s) = WebRtcSpl_DownBy2ShortToInt inp 480 (S_48_24 state);
          tmpmem = blit tmpmem 256 ys;
          state = state\<lparr>S_48_24 := s\<rparr>;
          (ys, s) = WebRtcSpl_LPBy2IntToInt (window tmpmem 256 240) 240 (S_24_24 state);
          tmpmem = blit tmpmem 16 ys;
          state = state\<lparr>S_24_24 := s\<rparr>;
          tmpmem = blit tmpmem 8 (S_24_16 state);
          state = state\<lparr>S_24_16 := window tmpmem 248 8\<rparr>;
          tmpmem = WebRtcSpl_Resample48khzTo32khz tmpmem 8 0 80;
          (tmpmem, out, s) = WebRtcSpl_DownBy2IntToShort tmpmem 160 (S_16_8 state)
      in (out, state\<lparr>S_16_8 := s\<rparr>, tmpmem))"

definition WebRtcSpl_ResetResample48khzTo8khz :: State48khzTo8khz where
  "WebRtcSpl_ResetResample48khzTo8khz =
     \<lparr>S_48_24 = replicate 8 0, S_24_24 = replicate 16 0, S_24_16 = replicate 8 0, S_16_8 = replicate 8 0\<rparr>"

definition WebRtcSpl_Resample8khzTo48khz ::
    "int list \<Rightarrow> State8khzTo48khz \<Rightarrow> int list \<Rightarrow> int list \<times> State8khzTo48khz \<times> int list" where
  "WebRtcSpl_Resample8khzTo48khz inp state tmpmem =
     (let (ys, s) = WebRtcSpl_UpBy2ShortToInt inp 80 (S_8_16 state);
          tmpmem = blit tmpmem 264 ys;
          state = state\<lparr>S_8_16 := s\<rparr>;
          tmpmem = blit tmpmem 256 (S_16_12 state);
          state = state\<lparr>S_16_12 := window tmpmem 416 8\<rparr>;
          tmpmem = WebRtcSpl_Resample32khzTo24khz tmpmem 256 240 40;
          (ys, s) = WebRtcSpl_UpBy2IntToInt (drop 240 tmpmem) 120 (S_12_24 state);
          tmpmem = blit tmpmem 0 ys;
          state = state\<lparr>S_12_24 := s\<rparr>;
          (out, s) = WebRtcSpl_UpBy2IntToShort tmpmem 240 (S8_24_48 state)
      in (out, state\<lparr>S8_24_48 := s\<rparr>, tmpmem))"

definition WebRtcSpl_ResetResample8khzTo48khz :: State8khzTo48khz where
  "WebRtcSpl_ResetResample8khzTo48khz =
     \<lparr>S_8_16 = replicate 8 0, S_16_12 = replicate 8 0, S_12_24 = replicate 8 0, S8_24_48 = replicate 8 0\<rparr>"

subsection \<open>The converter to 8 kHz as a composition of stages\<close>

text \<open>The same conversion on separate lists, without the shared scratch memory.\<close>

definition resample48To8 :: "int list \<Rightarrow> State48khzTo8khz \<Rightarrow> int list \<times> State48khzTo8khz" where
  "resample48To8 inp state =
     (let (at24, s1) = WebRtcSpl_DownBy2ShortToInt inp 480 (S_48_24 state);
          (lp24, s2) = WebRtcSpl_LPBy2IntToInt at24 240 (S_24_24 state);
          hist = S_24_16 state @ lp24;
          at16 = block_resample body48To32 9 3 2 hist 80;
          (_, out, s4) = WebRtcSpl_DownBy2IntToShort at16 160 (S_16_8 state)
      in (out, \<lparr>S_48_24 = s1, S_24_24 = s2, S_24_16 = drop 240 hist, S_16_8 = s4\<rparr>))"

lemma DownBy2IntToShort_append:
  assumes "nat (shr len 1) = 2 * k" and "length xs = 4 * k"
  shows "snd (WebRtcSpl_DownBy2IntToShort (xs @ ys) len st) = snd (WebRtcSpl_DownBy2IntToShort xs len st)"
proof -
  define lower where "lower = map (\<lambda>y. shr y 1) (fst (allpass_loop 1 st 0 (evens xs (2 * k))))"
  define st' where "st' = snd (allpass_loop 1 st 0 (evens xs (2 * k)))"
  define upper where "upper = map (\<lambda>y. shr y 1) (fst (allpass_loop 0 st' 4 (odds xs (2 * k))))"
  define zs where "zs = interleave lower upper"
  have len: "length zs = 4 * k" by (simp add: zs_def lower_def upper_def)
  have blit: "blit (xs @ ys) 0 zs = zs @ ys" "blit xs 0 zs = zs"
    using assms(2) len by (simp_all add: blit_def)
  have ev: "evens (xs @ ys) (2 * k) = evens xs (2 * k)" "odds (xs @ ys) (2 * k) = odds xs (2 * k)"
    using assms(2) by (simp_all add: evens_odds_append)
  have nth: "(zs @ ys) ! i = zs ! i" if "i < 4 * k" for i
    using that len by (simp add: nth_append)
  show ?thesis
    unfolding WebRtcSpl_DownBy2IntToShort_def Let_def case_prod_beta assms(1) ev
      st'_def [symmetric] lower_def [symmetric] upper_def [symmetric] zs_def [symmetric] blit fst_conv snd_conv
    by (auto simp: nth intro!: arg_cong [where f = concat])
qed

theorem Resample48khzTo8khz_stages:
  assumes "length (S_24_16 state) = 8" and "496 \<le> length tmpmem"
    and "WebRtcSpl_Resample48khzTo8khz inp state tmpmem = (out, state', tmpmem')"
  shows "(out, state') = resample48To8 inp state" and "length tmpmem' = length tmpmem"
proof -
  define a where "a = fst (WebRtcSpl_DownBy2ShortToInt inp 480 (S_48_24 state))"
  define b where "b = fst (WebRtcSpl_LPBy2IntToInt a 240 (S_24_24 state))"
  define m1 where "m1 = blit tmpmem 256 a"
  define m2 where "m2 = blit m1 16 b"
  define m3 where "m3 = blit m2 8 (S_24_16 state)"
  define c where "c = block_resample body48To32 9 3 2 (S_24_16 state @ b) 80"
  define m4 where "m4 = WebRtcSpl_Resample48khzTo32khz m3 8 0 80"
  have la: "length a = 240" by (simp add: a_def shr_def)
  have lb: "length b = 240" by (simp add: b_def shr_def)
  have l1: "length m1 = length tmpmem" using assms(2) la by (simp add: m1_def)
  have l2: "length m2 = length tmpmem" using assms(2) lb l1 by (simp add: m2_def)
  have l3: "length m3 = length tmpmem" using assms(1,2) l2 by (simp add: m3_def)
  have wa: "window m1 256 240 = a"
    using window_blit_same [of 256 a tmpmem] assms(2) la by (simp add: m1_def)
  have d3: "drop 8 m3 = (S_24_16 state @ b) @ drop 256 m1"
    using assms lb l1 by (simp add: m3_def m2_def blit_def)
  have c_eq: "block_resample body48To32 9 3 2 (drop 8 m3) 80 = c"
    unfolding d3 c_def by (rule block_resample_append) (simp add: assms(1) lb)
  have lc: "length c = 160" by (simp add: c_def)
  have m4: "m4 = c @ drop 160 m3"
    unfolding m4_def WebRtcSpl_Resample48khzTo32khz_def
    using assms(2) l3 lc by (subst r48.block_loop_blit) (simp_all add: c_eq blit_def)
  have w8: "window m3 248 8 = drop 240 (S_24_16 state @ b)"
  proof -
    have "window m3 248 8 = take 8 (drop 240 (drop 8 m3))" by (simp add: window_def)
    then show ?thesis using assms(1) lb by (simp add: d3)
  qed
  have down: "snd (WebRtcSpl_DownBy2IntToShort m4 160 st) = snd (WebRtcSpl_DownBy2IntToShort c 160 st)" for st
    unfolding m4 by (rule DownBy2IntToShort_append [where k = 40]) (simp_all add: shr_def lc)
  have len: "length (fst (WebRtcSpl_DownBy2IntToShort m4 160 st)) = length m4" for st
    using assms(2) l3 lc
    by (simp add: WebRtcSpl_DownBy2IntToShort_def Let_def case_prod_beta shr_def m4)
  have eq: "WebRtcSpl_Resample48khzTo8khz inp state tmpmem =
      (let r = WebRtcSpl_DownBy2IntToShort m4 160 (S_16_8 state)
       in (fst (snd r),
           state\<lparr>S_48_24 := snd (WebRtcSpl_DownBy2ShortToInt inp 480 (S_48_24 state)),
                 S_24_24 := snd (WebRtcSpl_LPBy2IntToInt a 240 (S_24_24 state)),
                 S_24_16 := window m3 248 8, S_16_8 := snd (snd r)\<rparr>, fst r))"
    unfolding WebRtcSpl_Resample48khzTo8khz_def Let_def case_prod_beta a_def [symmetric]
      m1_def [symmetric] wa
    by (simp add: b_def [symmetric] m2_def [symmetric] m3_def [symmetric] m4_def [symmetric])
  show "(out, state') = resample48To8 inp state"
    using assms(3) unfolding eq resample48To8_def Let_def case_prod_beta
    by (auto simp: a_def [symmetric] b_def [symmetric] c_def [symmetric] down w8)
  have "length m4 = length tmpmem" using assms(2) l3 lc by (simp add: m4)
  then show "length tmpmem' = length tmpmem"
    using assms(3) unfolding eq Let_def by (auto simp: len)
qed

end
