(* ===== verification/Vad_Inst.thy ===== *)
theory Vad_Inst
  imports Spl_Resample
begin

text \<open>
  The instance of the voice activity detector, \<open>VadInstT\<close> of \<open>vad_core.h\<close>, with the sizes of its
  tables, and the layout every operation keeps: the lengths of its arrays.
\<close>

definition kNumChannels :: nat where "kNumChannels = 6"
definition kNumGaussians :: nat where "kNumGaussians = 2"
definition kTableSize :: nat where "kTableSize = 12"
definition kMinEnergy :: int where "kMinEnergy = 10"

record VadInstT =
  vad :: int
  downsampling_filter_states :: "int list"
  state_48_to_8 :: State48khzTo8khz
  noise_means :: "int list"
  speech_means :: "int list"
  noise_stds :: "int list"
  speech_stds :: "int list"
  frame_counter :: int
  over_hang :: int
  num_of_speech :: int
  index_vector :: "int list"
  low_value_vector :: "int list"
  mean_value :: "int list"
  upper_state :: "int list"
  lower_state :: "int list"
  hp_filter_state :: "int list"
  over_hang_max_1 :: "int list"
  over_hang_max_2 :: "int list"
  individual :: "int list"
  total :: "int list"
  init_flag :: int

definition vad_layout :: "VadInstT \<Rightarrow> bool" where
  "vad_layout self \<longleftrightarrow>
     length (downsampling_filter_states self) = 4 \<and>
     length (S_48_24 (state_48_to_8 self)) = 8 \<and> length (S_24_24 (state_48_to_8 self)) = 16 \<and>
     length (S_24_16 (state_48_to_8 self)) = 8 \<and> length (S_16_8 (state_48_to_8 self)) = 8 \<and>
     length (noise_means self) = 12 \<and> length (speech_means self) = 12 \<and>
     length (noise_stds self) = 12 \<and> length (speech_stds self) = 12 \<and>
     length (index_vector self) = 96 \<and> length (low_value_vector self) = 96 \<and>
     length (mean_value self) = 6 \<and> length (upper_state self) = 5 \<and> length (lower_state self) = 5 \<and>
     length (hp_filter_state self) = 4 \<and> length (over_hang_max_1 self) = 3 \<and>
     length (over_hang_max_2 self) = 3 \<and> length (individual self) = 3 \<and> length (total self) = 3"

end
