(* ===== verification/Vad_Sp.thy ===== *)
theory Vad_Sp
  imports Vad_Inst "HOL-Library.Multiset"
begin

text \<open>
  \<open>vad_sp.c\<close>: the downsampling filter and the tracking of the feature minimum.

  \<open>WebRtcVad_FindMinimum\<close> keeps, per channel, the 16 smallest feature values with their ages and
  a smoothed median.  Lemmas: the hand-written decision tree finds the insertion position of a
  sorted array; with the insertion loop it keeps the 16 smallest values; the smoothed value stays
  between its old value and the median; the downsampling filter can be run on a signal in pieces.
\<close>

definition kAllPassCoefsQ13 :: "int list" where "kAllPassCoefsQ13 = [5243, 1392]"
definition kSmoothingDown :: int where "kSmoothingDown = 6553"
definition kSmoothingUp :: int where "kSmoothingUp = 32439"

section \<open>Downsampling\<close>

text \<open>One iteration of the loop consumes two input samples and stores one output sample.\<close>

fun Downsampling_loop :: "int \<Rightarrow> int \<Rightarrow> int list \<Rightarrow> int list \<times> int \<times> int" where
  "Downsampling_loop tmp32_1 tmp32_2 (x # y # xs) =
     (let tmp16_1 = s16 (shr tmp32_1 1 + WEBRTC_SPL_MUL_16_16_RSFT (kAllPassCoefsQ13 ! 0) x 14);
          signal_out = tmp16_1;
          tmp32_1 = s32 (x - WEBRTC_SPL_MUL_16_16_RSFT (kAllPassCoefsQ13 ! 0) tmp16_1 12);
          tmp16_2 = s16 (shr tmp32_2 1 + WEBRTC_SPL_MUL_16_16_RSFT (kAllPassCoefsQ13 ! 1) y 14);
          signal_out = s16 (signal_out + tmp16_2);
          tmp32_2 = s32 (y - WEBRTC_SPL_MUL_16_16_RSFT (kAllPassCoefsQ13 ! 1) tmp16_2 12);
          (out, t1, t2) = Downsampling_loop tmp32_1 tmp32_2 xs
      in (signal_out # out, t1, t2))"
| "Downsampling_loop tmp32_1 tmp32_2 _ = ([], tmp32_1, tmp32_2)"

definition WebRtcVad_Downsampling :: "int list \<Rightarrow> int list \<Rightarrow> int \<Rightarrow> int list \<times> int list" where
  "WebRtcVad_Downsampling signal_in filter_state in_length =
     (let half_length = nat (shr in_length 1);
          (signal_out, tmp32_1, tmp32_2) =
             Downsampling_loop (filter_state ! 0) (filter_state ! 1) (take (2 * half_length) signal_in)
      in (signal_out, filter_state[0 := tmp32_1, 1 := tmp32_2]))"

lemma Downsampling_loop_append:
  assumes "even (length xs)"
  shows "Downsampling_loop a b (xs @ ys) =
    (let (o1, a1, b1) = Downsampling_loop a b xs; (o2, a2, b2) = Downsampling_loop a1 b1 ys
     in (o1 @ o2, a2, b2))"
  using assms
  by (induction a b xs rule: Downsampling_loop.induct) (simp_all add: Let_def case_prod_beta)

lemma length_Downsampling_loop: "length (fst (Downsampling_loop a b xs)) = length xs div 2"
  by (induction a b xs rule: Downsampling_loop.induct) (simp_all add: Let_def case_prod_beta)

lemma Downsampling_loop_in_s16: "list_all in_s16 (fst (Downsampling_loop a b xs))"
  by (induction a b xs rule: Downsampling_loop.induct) (simp_all add: Let_def case_prod_beta)

section \<open>Minimum tracking\<close>

text \<open>
  The aging loop.  \<open>past\<close> holds the two words after the 16 entries of the channel, which the shift
  for \<open>j = 15\<close> reads: the first entries of the next channel or, for the last channel, the first
  elements of the members that follow the two arrays in \<open>VadInstT\<close>.
\<close>

definition FindMinimum_age_step :: "int \<times> int \<Rightarrow> nat \<Rightarrow> int list \<times> int list \<Rightarrow> int list \<times> int list" where
  "FindMinimum_age_step past i = (\<lambda>(age, smallest_values).
     if age ! i \<noteq> 100 then (age[i := s16 (age ! i + 1)], smallest_values)
     else
       let (age, smallest_values) =
             fold (\<lambda>j (age, smallest_values).
                     (age[j := (age @ [fst past]) ! (j + 1)],
                      smallest_values[j := (smallest_values @ [snd past]) ! (j + 1)]))
               [i..<16] (age, smallest_values)
       in (age[15 := 101], smallest_values[15 := 10000]))"

definition FindMinimum_age :: "int \<times> int \<Rightarrow> int list \<Rightarrow> int list \<Rightarrow> int list \<times> int list" where
  "FindMinimum_age past age smallest_values =
     fold (FindMinimum_age_step past) [0..<16] (age, smallest_values)"

definition FindMinimum_position :: "int list \<Rightarrow> int \<Rightarrow> int" where
  "FindMinimum_position smallest_values feature_value =
     (if feature_value < smallest_values ! 7 then
        if feature_value < smallest_values ! 3 then
          if feature_value < smallest_values ! 1 then
            if feature_value < smallest_values ! 0 then 0 else 1
          else if feature_value < smallest_values ! 2 then 2
          else 3
        else if feature_value < smallest_values ! 5 then
          if feature_value < smallest_values ! 4 then 4 else 5
        else if feature_value < smallest_values ! 6 then 6
        else 7
      else if feature_value < smallest_values ! 15 then
        if feature_value < smallest_values ! 11 then
          if feature_value < smallest_values ! 9 then
            if feature_value < smallest_values ! 8 then 8 else 9
          else if feature_value < smallest_values ! 10 then 10
          else 11
        else if feature_value < smallest_values ! 13 then
          if feature_value < smallest_values ! 12 then 12 else 13
        else if feature_value < smallest_values ! 14 then 14
        else 15
      else -1)"

definition FindMinimum_insert :: "int \<Rightarrow> int \<Rightarrow> int list \<Rightarrow> int list \<Rightarrow> int list \<times> int list" where
  "FindMinimum_insert position feature_value age smallest_values =
     (if position > -1 then
        let (smallest_values, age) =
              fold (\<lambda>i (smallest_values, age).
                      (smallest_values[i := smallest_values ! (i - 1)], age[i := age ! (i - 1)]))
                (rev [Suc (nat position)..<16]) (smallest_values, age)
        in (age[nat position := 1], smallest_values[nat position := feature_value])
      else (age, smallest_values))"

definition FindMinimum_smooth :: "int \<Rightarrow> int list \<Rightarrow> int \<Rightarrow> int" where
  "FindMinimum_smooth counter smallest_values mean =
     (let current_median = (if counter > 2 then smallest_values ! 2
                            else if counter > 0 then smallest_values ! 0 else 1600);
          alpha = (if counter > 0
                   then if current_median < mean then kSmoothingDown else kSmoothingUp
                   else 0);
          tmp32 = WEBRTC_SPL_MUL_16_16 (alpha + 1) mean;
          tmp32 = s32 (tmp32 + WEBRTC_SPL_MUL_16_16 (WEBRTC_SPL_WORD16_MAX - alpha) current_median);
          tmp32 = s32 (tmp32 + 16384)
      in s16 (shr tmp32 15))"

definition WebRtcVad_FindMinimum :: "VadInstT \<Rightarrow> int \<Rightarrow> nat \<Rightarrow> VadInstT \<times> int" where
  "WebRtcVad_FindMinimum self feature_value channel =
     (let offset = 16 * channel;
          age = window (index_vector self) offset 16;
          smallest_values = window (low_value_vector self) offset 16;
          past = (if offset + 16 < 96
                  then (index_vector self ! (offset + 16), low_value_vector self ! (offset + 16))
                  else (low_value_vector self ! 0, mean_value self ! 0));
          (age, smallest_values) = FindMinimum_age past age smallest_values;
          position = FindMinimum_position smallest_values feature_value;
          (age, smallest_values) = FindMinimum_insert position feature_value age smallest_values;
          mean = FindMinimum_smooth (frame_counter self) smallest_values (mean_value self ! channel)
      in (self\<lparr>index_vector := blit (index_vector self) offset age,
               low_value_vector := blit (low_value_vector self) offset smallest_values,
               mean_value := (mean_value self)[channel := mean]\<rparr>, mean))"

subsection \<open>The decision tree\<close>

definition insert_position :: "int list \<Rightarrow> int \<Rightarrow> nat" where
  "insert_position xs v = length (takeWhile (\<lambda>x. x \<le> v) xs)"

lemma less_nth_iff_position:
  assumes "sorted xs" and "i < length xs"
  shows "v < xs ! i \<longleftrightarrow> insert_position xs v \<le> i"
proof
  assume v: "v < xs ! i"
  show "insert_position xs v \<le> i"
  proof (rule ccontr)
    assume "\<not> ?thesis"
    then have i: "i < length (takeWhile (\<lambda>x. x \<le> v) xs)" by (simp add: insert_position_def)
    then have "takeWhile (\<lambda>x. x \<le> v) xs ! i = xs ! i" by (rule takeWhile_nth)
    moreover have "takeWhile (\<lambda>x. x \<le> v) xs ! i \<le> v"
      using i nth_mem set_takeWhileD by metis
    ultimately show False using v by simp
  qed
next
  assume le: "insert_position xs v \<le> i"
  then have "insert_position xs v < length xs" using assms(2) by simp
  then have "\<not> xs ! insert_position xs v \<le> v"
    unfolding insert_position_def by (rule nth_length_takeWhile)
  moreover have "xs ! insert_position xs v \<le> xs ! i"
    using assms le by (simp add: sorted_nth_mono)
  ultimately show "v < xs ! i" by simp
qed

theorem FindMinimum_position_correct:
  assumes "sorted xs" and "length xs = 16"
  shows "FindMinimum_position xs v = (if v < xs ! 15 then int (insert_position xs v) else -1)"
proof -
  have t: "v < xs ! i \<longleftrightarrow> insert_position xs v \<le> i" if "i < 16" for i
    using less_nth_iff_position [OF assms(1)] that assms(2) by simp
  have n: "v < xs ! 0 \<longleftrightarrow> insert_position xs v \<le> 0" "v < xs ! 1 \<longleftrightarrow> insert_position xs v \<le> 1"
    "v < xs ! 2 \<longleftrightarrow> insert_position xs v \<le> 2" "v < xs ! 3 \<longleftrightarrow> insert_position xs v \<le> 3"
    "v < xs ! 4 \<longleftrightarrow> insert_position xs v \<le> 4" "v < xs ! 5 \<longleftrightarrow> insert_position xs v \<le> 5"
    "v < xs ! 6 \<longleftrightarrow> insert_position xs v \<le> 6" "v < xs ! 7 \<longleftrightarrow> insert_position xs v \<le> 7"
    "v < xs ! 8 \<longleftrightarrow> insert_position xs v \<le> 8" "v < xs ! 9 \<longleftrightarrow> insert_position xs v \<le> 9"
    "v < xs ! 10 \<longleftrightarrow> insert_position xs v \<le> 10" "v < xs ! 11 \<longleftrightarrow> insert_position xs v \<le> 11"
    "v < xs ! 12 \<longleftrightarrow> insert_position xs v \<le> 12" "v < xs ! 13 \<longleftrightarrow> insert_position xs v \<le> 13"
    "v < xs ! 14 \<longleftrightarrow> insert_position xs v \<le> 14" "v < xs ! 15 \<longleftrightarrow> insert_position xs v \<le> 15"
    using t [of 0] t [of 1] t [of 2] t [of 3] t [of 4] t [of 5] t [of 6] t [of 7]
      t [of 8] t [of 9] t [of 10] t [of 11] t [of 12] t [of 13] t [of 14] t [of 15] by simp_all
  show ?thesis unfolding FindMinimum_position_def n by auto
qed

subsection \<open>Aging\<close>

text \<open>Removing entry \<open>i\<close>: the word read past the array is overwritten, so it does not matter.\<close>

definition drop_entry :: "nat \<Rightarrow> 'a \<Rightarrow> 'a list \<Rightarrow> 'a list" where
  "drop_entry i d xs = take i xs @ drop (Suc i) xs @ [d]"

lemma length_drop_entry [simp]: "i < length xs \<Longrightarrow> length (drop_entry i d xs) = length xs"
  by (simp add: drop_entry_def)

lemma shift_then_last:
  assumes "i < length xs" and "length xs = Suc n"
  shows "(fold (\<lambda>j ys. ys[j := (ys @ [p]) ! (j + 1)]) [i..<Suc n] xs)[n := d] = drop_entry i d xs"
proof -
  have n: "length (take i xs @ drop (Suc i) xs) = n" using assms by simp
  have "((take i xs @ drop (Suc i) xs) @ [p])[n := d] = (take i xs @ drop (Suc i) xs) @ [d]"
    using list_update_length [of "take i xs @ drop (Suc i) xs" p "[]" d] unfolding n .
  moreover have "fold (\<lambda>j ys. ys[j := (ys @ [p]) ! (j + 1)]) [i..<Suc n] xs
      = take i xs @ drop (Suc i) xs @ [p]"
    using assms by (intro fold_shift_down) simp_all
  ultimately show ?thesis by (simp only: drop_entry_def append_assoc)
qed

lemma FindMinimum_age_step_eq:
  assumes "length age = 16" and "length sv = 16" and "i < 16"
  shows "FindMinimum_age_step past i (age, sv) =
    (if age ! i \<noteq> 100 then (age[i := s16 (age ! i + 1)], sv)
     else (drop_entry i 101 age, drop_entry i 10000 sv))"
proof -
  have p: "fold (\<lambda>j (age, sv). (age[j := (age @ [fst past]) ! (j + 1)], sv[j := (sv @ [snd past]) ! (j + 1)]))
       [i..<16] (age, sv)
     = (fold (\<lambda>j a. a[j := (a @ [fst past]) ! (j + 1)]) [i..<16] age,
        fold (\<lambda>j a. a[j := (a @ [snd past]) ! (j + 1)]) [i..<16] sv)"
    by (rule fold_pair)
  have n: "Suc 15 = 16" by simp
  show ?thesis
    using shift_then_last [of i age 15 "fst past" 101] shift_then_last [of i sv 15 "snd past" 10000] assms
    unfolding n FindMinimum_age_step_def case_prod_conv p Let_def by simp
qed

text \<open>
  The invariant of one channel: sixteen values in ascending order, none above the filler 10000,
  and sixteen ages.
\<close>

definition minima_ok :: "int list \<Rightarrow> int list \<Rightarrow> bool" where
  "minima_ok age sv \<longleftrightarrow> length age = 16 \<and> length sv = 16 \<and> sorted sv \<and>
     (\<forall>x\<in>set sv. -32768 \<le> x \<and> x \<le> 10000)"

lemma sorted_drop_entry:
  assumes "sorted xs" and "\<forall>x\<in>set xs. x \<le> d"
  shows "sorted (drop_entry i d xs)"
proof -
  have s: "sorted (take i xs @ drop i xs)" using assms(1) by simp
  have t: "set (drop (Suc i) xs) \<subseteq> set (drop i xs)" by (simp add: set_drop_subset_set_drop)
  have u: "set (drop (Suc i) xs) \<subseteq> set xs" "set (take i xs) \<subseteq> set xs"
    by (rule set_drop_subset set_take_subset)+
  show ?thesis
    using s t u assms sorted_wrt_drop [OF assms(1), of "Suc i"]
    unfolding drop_entry_def sorted_append by auto
qed

lemma set_drop_entry: "set (drop_entry i d xs) \<subseteq> insert d (set xs)"
  by (auto simp: drop_entry_def dest: in_set_takeD in_set_dropD)

lemma minima_ok_age_step:
  assumes "minima_ok (fst p) (snd p)" and "i < 16"
  shows "minima_ok (fst (FindMinimum_age_step past i p)) (snd (FindMinimum_age_step past i p))"
proof (cases p)
  case (Pair age sv)
  then have ok: "minima_ok age sv" using assms(1) by simp
  then have "length age = 16" "length sv = 16" by (simp_all add: minima_ok_def)
  moreover have "\<forall>x\<in>set (drop_entry i 10000 sv). -32768 \<le> x \<and> x \<le> 10000"
    using ok set_drop_entry [of i 10000 sv] by (auto simp: minima_ok_def)
  ultimately show ?thesis
    using ok Pair assms(2) FindMinimum_age_step_eq [of age sv i past]
    by (simp add: minima_ok_def sorted_drop_entry)
qed

lemma minima_ok_age:
  assumes "minima_ok age sv"
  shows "minima_ok (fst (FindMinimum_age past age sv)) (snd (FindMinimum_age past age sv))"
proof -
  have "minima_ok (fst (fold (FindMinimum_age_step past) is p)) (snd (fold (FindMinimum_age_step past) is p))"
    if "minima_ok (fst p) (snd p)" and "\<forall>i\<in>set is. i < 16" for "is" p
    using that by (induction "is" arbitrary: p) (simp_all add: minima_ok_age_step)
  then show ?thesis using assms by (simp add: FindMinimum_age_def)
qed

subsection \<open>Insertion\<close>

lemma insert_position_le: "insert_position xs v \<le> length xs"
  by (simp add: insert_position_def length_takeWhile_le)

lemma sort_snoc_position:
  assumes "sorted xs"
  shows "sort (xs @ [v]) = take (insert_position xs v) xs @ v # drop (insert_position xs v) xs"
proof (rule properties_for_sort)
  have split: "take (insert_position xs v) xs = takeWhile (\<lambda>x. x \<le> v) xs"
    "drop (insert_position xs v) xs = dropWhile (\<lambda>x. x \<le> v) xs"
    unfolding insert_position_def by (rule takeWhile_eq_take [symmetric] dropWhile_eq_drop [symmetric])+
  have "mset (take (insert_position xs v) xs) + mset (drop (insert_position xs v) xs) = mset xs"
    by (metis append_take_drop_id mset_append)
  then show "mset (take (insert_position xs v) xs @ v # drop (insert_position xs v) xs) = mset (xs @ [v])"
    by simp
  have low: "\<forall>x\<in>set (takeWhile (\<lambda>x. x \<le> v) xs). x \<le> v"
    by (auto dest: set_takeWhileD)
  have high: "\<forall>x\<in>set (dropWhile (\<lambda>x. x \<le> v) xs). v \<le> x"
  proof
    fix x
    assume x: "x \<in> set (dropWhile (\<lambda>x. x \<le> v) xs)"
    let ?d = "dropWhile (\<lambda>x. x \<le> v) xs"
    have ne: "?d \<noteq> []" using x by (metis empty_iff empty_set)
    then have "\<not> hd ?d \<le> v" by (rule hd_dropWhile)
    moreover have "sorted ?d" using assms by (simp add: sorted_dropWhile)
    then have "hd ?d \<le> x" using x ne by (cases ?d) auto
    ultimately show "v \<le> x" by simp
  qed
  have "x \<le> y" if "x \<in> set (takeWhile (\<lambda>x. x \<le> v) xs)" "y \<in> set (dropWhile (\<lambda>x. x \<le> v) xs)" for x y
    using that low high by (meson order_trans)
  then show "sorted (take (insert_position xs v) xs @ v # drop (insert_position xs v) xs)"
    unfolding split sorted_append sorted_wrt.simps list.set ball_simps
    using low high sorted_takeWhile [OF assms] sorted_dropWhile [OF assms] by blast
qed

lemma shift_up_then_set:
  assumes "p < length xs"
  shows "(fold (\<lambda>j ys. ys[j := ys ! (j - 1)]) (rev [Suc p..<length xs]) xs)[p := v]
    = take (length xs) (take p xs @ v # drop p xs)"
proof -
  have "take (Suc p) xs = take p xs @ [xs ! p]" using assms by (rule take_Suc_conv_app_nth)
  then have "(take (Suc p) xs @ butlast (drop p xs))[p := v] = take p xs @ v # butlast (drop p xs)"
    using assms list_update_length [of "take p xs" "xs ! p" "butlast (drop p xs)" v] by simp
  moreover have "take (length xs) (take p xs @ v # drop p xs) = take p xs @ v # butlast (drop p xs)"
    using assms by (cases "length xs - p") (simp_all add: butlast_conv_take min_def)
  ultimately show ?thesis by (simp only: fold_shift_up [OF assms])
qed

definition insert_age :: "nat \<Rightarrow> int list \<Rightarrow> int list" where
  "insert_age p age = take 16 (take p age @ 1 # drop p age)"

theorem FindMinimum_insert_sort:
  assumes "sorted sv" and "length sv = 16" and "length age = 16"
  shows "FindMinimum_insert (FindMinimum_position sv v) v age sv =
    (insert_age (insert_position sv v) age, take 16 (sort (sv @ [v])))"
proof -
  let ?p = "insert_position sv v"
  have srt: "sort (sv @ [v]) = take ?p sv @ v # drop ?p sv" using assms(1) by (rule sort_snoc_position)
  show ?thesis
  proof (cases "v < sv ! 15")
    case True
    then have p: "FindMinimum_position sv v = int ?p" and lt: "?p < 16"
      using FindMinimum_position_correct [OF assms(1,2), of v] less_nth_iff_position [OF assms(1), of 15 v] assms(2)
      by simp_all
    have f: "fold (\<lambda>i (sv, age). (sv[i := sv ! (i - 1)], age[i := age ! (i - 1)])) js (sv, age)
      = (fold (\<lambda>i s. s[i := s ! (i - 1)]) js sv, fold (\<lambda>i s. s[i := s ! (i - 1)]) js age)" for js
      by (rule fold_pair)
    have "FindMinimum_insert (int ?p) v age sv =
       ((fold (\<lambda>i s. s[i := s ! (i - 1)]) (rev [Suc ?p..<16]) age)[?p := 1],
        (fold (\<lambda>i s. s[i := s ! (i - 1)]) (rev [Suc ?p..<16]) sv)[?p := v])"
      by (simp only: FindMinimum_insert_def f) simp
    then show ?thesis
      using shift_up_then_set [of ?p age 1] shift_up_then_set [of ?p sv v] lt assms(2,3) srt p
      by (simp add: insert_age_def)
  next
    case False
    then have "?p = 16"
      using less_nth_iff_position [OF assms(1), of 15 v] assms(2) insert_position_le [of sv v] by simp
    then show ?thesis
      using False FindMinimum_position_correct [OF assms(1,2), of v] assms srt
      by (simp add: FindMinimum_insert_def insert_age_def)
  qed
qed

subsection \<open>Smoothing\<close>

lemma weighted_mean_between:
  assumes "0 \<le> w" and "w \<le> 32768"
  shows "min m c \<le> shr (w * m + (32768 - w) * c + 16384) 15"
    and "shr (w * m + (32768 - w) * c + 16384) 15 \<le> max m c"
proof -
  have "w * min m c \<le> w * m" "(32768 - w) * min m c \<le> (32768 - w) * c"
    using assms by (auto intro: mult_left_mono)
  then have "min m c * 32768 \<le> w * m + (32768 - w) * c + 16384"
    by (simp add: algebra_simps)
  then show "min m c \<le> shr (w * m + (32768 - w) * c + 16384) 15"
    unfolding shr_def by (intro int_div_ge) simp_all
  have "w * m \<le> w * max m c" "(32768 - w) * c \<le> (32768 - w) * max m c"
    using assms by (auto intro: mult_left_mono)
  then have "w * m + (32768 - w) * c + 16384 < (max m c + 1) * 32768"
    by (simp add: algebra_simps)
  then have "shr (w * m + (32768 - w) * c + 16384) 15 < max m c + 1"
    unfolding shr_def by (intro int_div_less) simp_all
  then show "shr (w * m + (32768 - w) * c + 16384) 15 \<le> max m c" by simp
qed

definition current_median :: "int \<Rightarrow> int list \<Rightarrow> int" where
  "current_median counter sv = (if counter > 2 then sv ! 2 else if counter > 0 then sv ! 0 else 1600)"

definition smoothing_weight :: "int \<Rightarrow> int \<Rightarrow> int \<Rightarrow> int" where
  "smoothing_weight counter median mean =
     (if counter > 0 then (if median < mean then 6554 else 32440) else 1)"

lemma FindMinimum_smooth_exact:
  assumes "in_s16 mean" and "in_s16 (current_median counter sv)"
  shows "FindMinimum_smooth counter sv mean =
    (let c = current_median counter sv; w = smoothing_weight counter c mean
     in shr (w * mean + (32768 - w) * c + 16384) 15)"
proof -
  let ?c = "current_median counter sv"
  let ?w = "smoothing_weight counter ?c mean"
  let ?a = "if 0 < counter then if ?c < mean then 6553 else 32439 else (0::int)"
  have w: "1 \<le> ?w" "?w \<le> 32440" by (simp_all add: smoothing_weight_def)
  have a: "?a + 1 = ?w" by (simp add: smoothing_weight_def)
  have b: "32767 - ?a = 32768 - ?w" by (simp add: smoothing_weight_def)
  have mb: "-32768 \<le> mean" "mean \<le> 32767" "-32768 \<le> ?c" "?c \<le> 32767"
    using assms by (simp_all add: in_s16_def)
  have p: "- 32768 * 32440 \<le> ?w * mean" "?w * mean \<le> 32440 * 32767"
    "-32768 * 32767 \<le> (32768 - ?w) * ?c" "(32768 - ?w) * ?c \<le> 32767 * 32767"
    using mb by (auto simp: smoothing_weight_def)
  have s: "- 32768 * 32768 \<le> ?w * mean + (32768 - ?w) * ?c" "?w * mean + (32768 - ?w) * ?c \<le> 32768 * 32767"
    using mb by (auto simp: smoothing_weight_def)
  have r: "in_s16 (shr (?w * mean + (32768 - ?w) * ?c + 16384) 15)"
    using weighted_mean_between [of ?w mean ?c] w mb unfolding in_s16_def by linarith
  have m1: "WEBRTC_SPL_MUL_16_16 ?w mean = ?w * mean"
    using w mb by (simp add: mul_16_16_exact s16_id)
  have m2: "WEBRTC_SPL_MUL_16_16 (32768 - ?w) ?c = (32768 - ?w) * ?c"
    using w mb by (simp add: mul_16_16_exact s16_id)
  have "FindMinimum_smooth counter sv mean =
    s16 (shr (s32 (s32 (WEBRTC_SPL_MUL_16_16 (?a + 1) mean
                        + WEBRTC_SPL_MUL_16_16 (32767 - ?a) ?c) + 16384)) 15)"
    by (simp add: FindMinimum_smooth_def Let_def current_median_def kSmoothingDown_def kSmoothingUp_def
        WEBRTC_SPL_WORD16_MAX_def)
  also have "\<dots> = s16 (shr (?w * mean + (32768 - ?w) * ?c + 16384) 15)"
    unfolding a b m1 m2 using s by (simp add: s32_id)
  also have "\<dots> = shr (?w * mean + (32768 - ?w) * ?c + 16384) 15"
    using r by (rule in_s16_id)
  finally show ?thesis by (simp only: Let_def)
qed

theorem FindMinimum_smooth_between:
  assumes "in_s16 mean" and "in_s16 (current_median counter sv)"
  shows "min mean (current_median counter sv) \<le> FindMinimum_smooth counter sv mean \<and>
    FindMinimum_smooth counter sv mean \<le> max mean (current_median counter sv)"
  using weighted_mean_between [of "smoothing_weight counter (current_median counter sv) mean" mean
      "current_median counter sv"]
  unfolding FindMinimum_smooth_exact [OF assms] Let_def by (simp add: smoothing_weight_def)

subsection \<open>The whole operation\<close>

lemma FindMinimum_age_past:
  assumes "length age = 16" and "length sv = 16"
  shows "FindMinimum_age past age sv = FindMinimum_age past' age sv"
proof -
  have len: "length (fst (FindMinimum_age_step past i p)) = 16 \<and> length (snd (FindMinimum_age_step past i p)) = 16"
    if "length (fst p) = 16" "length (snd p) = 16" "i < 16" for i p past
    using that FindMinimum_age_step_eq [of "fst p" "snd p" i past] by simp
  have "fold (FindMinimum_age_step past) is p = fold (FindMinimum_age_step past') is p"
    if "length (fst p) = 16" "length (snd p) = 16" "\<forall>i\<in>set is. i < 16" for "is" p
    using that
  proof (induction "is" arbitrary: p)
    case (Cons i "is")
    then have "FindMinimum_age_step past i p = FindMinimum_age_step past' i p"
      using FindMinimum_age_step_eq [of "fst p" "snd p" i] by simp
    then show ?case using Cons len [of p i past'] by simp
  qed simp
  then show ?thesis using assms by (simp add: FindMinimum_age_def)
qed

lemma minima_ok_insert:
  assumes "minima_ok age sv" and "-32768 \<le> v"
  shows "minima_ok (insert_age (insert_position sv v) age) (take 16 (sort (sv @ [v])))"
proof -
  have ok: "length age = 16" "length sv = 16" "sorted sv" "\<forall>x\<in>set sv. -32768 \<le> x \<and> x \<le> 10000"
    using assms(1) by (simp_all add: minima_ok_def)
  have "\<forall>x\<in>set (take 16 (sort (sv @ [v]))). -32768 \<le> x \<and> x \<le> 10000"
  proof (cases "v < sv ! 15")
    case True
    then have "v \<le> 10000" using ok nth_mem [of 15 sv] by fastforce
    then show ?thesis using ok assms(2) by (auto dest!: in_set_takeD)
  next
    case False
    then have "insert_position sv v = 16"
      using less_nth_iff_position [OF ok(3), of 15 v] ok(2) insert_position_le [of sv v] by simp
    then show ?thesis using sort_snoc_position [OF ok(3), of v] ok by simp
  qed
  then show ?thesis
    using ok insert_position_le [of sv v]
    by (simp add: minima_ok_def insert_age_def sorted_wrt_take)
qed

definition chan_ages :: "VadInstT \<Rightarrow> nat \<Rightarrow> int list" where
  "chan_ages self c = window (index_vector self) (16 * c) 16"

definition chan_lows :: "VadInstT \<Rightarrow> nat \<Rightarrow> int list" where
  "chan_lows self c = window (low_value_vector self) (16 * c) 16"

definition minima_inv :: "VadInstT \<Rightarrow> bool" where
  "minima_inv self \<longleftrightarrow> (\<forall>c<6. minima_ok (chan_ages self c) (chan_lows self c) \<and> in_s16 (mean_value self ! c))"

definition aged_lows :: "VadInstT \<Rightarrow> nat \<Rightarrow> int list" where
  "aged_lows self c = snd (FindMinimum_age (0, 0) (chan_ages self c) (chan_lows self c))"

lemma WebRtcVad_FindMinimum_unfold:
  assumes "vad_layout self" and "minima_inv self" and "c < 6"
  shows "WebRtcVad_FindMinimum self v c =
    (let aged = aged_lows self c;
         age = insert_age (insert_position aged v) (fst (FindMinimum_age (0, 0) (chan_ages self c) (chan_lows self c)));
         lows = take 16 (sort (aged @ [v]));
         mean = FindMinimum_smooth (frame_counter self) lows (mean_value self ! c)
     in (self\<lparr>index_vector := blit (index_vector self) (16 * c) age,
              low_value_vector := blit (low_value_vector self) (16 * c) lows,
              mean_value := (mean_value self)[c := mean]\<rparr>, mean))"
proof -
  have ok: "minima_ok (chan_ages self c) (chan_lows self c)" using assms by (simp add: minima_inv_def)
  then have len: "length (chan_ages self c) = 16" "length (chan_lows self c) = 16" by (simp_all add: minima_ok_def)
  define a where "a = FindMinimum_age (0, 0) (chan_ages self c) (chan_lows self c)"
  have aok: "minima_ok (fst a) (snd a)" unfolding a_def using ok by (rule minima_ok_age)
  have age: "FindMinimum_age past (window (index_vector self) (16 * c) 16) (window (low_value_vector self) (16 * c) 16)
    = (fst a, snd a)" for past
    using FindMinimum_age_past [OF len] by (simp add: a_def chan_ages_def chan_lows_def)
  have ins: "FindMinimum_insert (FindMinimum_position (snd a) v) v (fst a) (snd a)
    = (insert_age (insert_position (snd a) v) (fst a), take 16 (sort (snd a @ [v])))"
    using aok by (intro FindMinimum_insert_sort) (simp_all add: minima_ok_def)
  show ?thesis
    unfolding WebRtcVad_FindMinimum_def Let_def age case_prod_conv ins aged_lows_def a_def [symmetric] ..
qed

lemma current_median_lows:
  assumes "minima_ok age lows"
  shows "in_s16 (current_median counter lows)"
proof -
  have "in_s16 (lows ! i)" if "i < 16" for i
  proof -
    have "lows ! i \<in> set lows" using assms that by (intro nth_mem) (simp add: minima_ok_def)
    then have "-32768 \<le> lows ! i \<and> lows ! i \<le> 10000" using assms by (simp add: minima_ok_def)
    then show ?thesis by (simp add: in_s16_def)
  qed
  then show ?thesis by (simp add: current_median_def in_s16_def)
qed

lemma blit_channel:
  assumes "length xs = 96" and "c < 6" and "c' < 6" and "length ys = 16"
  shows "window (blit xs (16 * c) ys) (16 * c') 16 = (if c' = c then ys else window xs (16 * c') 16)"
proof (cases "c' = c")
  case True
  then show ?thesis using assms window_blit_same [of "16 * c" ys xs] by simp
next
  case False
  then have "16 * c' + 16 \<le> 16 * c \<or> 16 * c + 16 \<le> 16 * c'" by linarith
  then show ?thesis using assms False by (simp add: window_blit_disjoint)
qed

theorem WebRtcVad_FindMinimum_spec:
  assumes lay: "vad_layout self" and inv: "minima_inv self" and c: "c < 6" and v: "-32768 \<le> v"
    and res: "WebRtcVad_FindMinimum self v c = (self', m)"
  shows "vad_layout self' \<and> minima_inv self' \<and>
    chan_lows self' c = take 16 (sort (aged_lows self c @ [v])) \<and>
    (\<forall>c'<6. c' \<noteq> c \<longrightarrow> chan_lows self' c' = chan_lows self c' \<and> chan_ages self' c' = chan_ages self c') \<and>
    mean_value self' = (mean_value self)[c := m] \<and>
    min (mean_value self ! c) (current_median (frame_counter self) (chan_lows self' c)) \<le> m \<and>
    m \<le> max (mean_value self ! c) (current_median (frame_counter self) (chan_lows self' c))"
proof -
  define a where "a = FindMinimum_age (0, 0) (chan_ages self c) (chan_lows self c)"
  define age where "age = insert_age (insert_position (snd a) v) (fst a)"
  define lows where "lows = take 16 (sort (aged_lows self c @ [v]))"
  have "minima_ok (chan_ages self c) (chan_lows self c)" using inv c by (simp add: minima_inv_def)
  then have "minima_ok (fst a) (snd a)" unfolding a_def by (rule minima_ok_age)
  then have ok: "minima_ok age lows"
    using minima_ok_insert v by (simp add: age_def lows_def aged_lows_def a_def)
  then have len: "length age = 16" "length lows = 16" by (simp_all add: minima_ok_def)
  have self': "self' = self\<lparr>index_vector := blit (index_vector self) (16 * c) age,
      low_value_vector := blit (low_value_vector self) (16 * c) lows, mean_value := (mean_value self)[c := m]\<rparr>"
    and m: "m = FindMinimum_smooth (frame_counter self) lows (mean_value self ! c)"
    using res WebRtcVad_FindMinimum_unfold [OF lay inv c, of v]
    by (auto simp: Let_def age_def lows_def a_def aged_lows_def)
  have mean: "in_s16 (mean_value self ! c)" using inv c by (simp add: minima_inv_def)
  have med: "in_s16 (current_median (frame_counter self) lows)" using ok by (rule current_median_lows)
  have btw: "min (mean_value self ! c) (current_median (frame_counter self) lows) \<le> m"
    "m \<le> max (mean_value self ! c) (current_median (frame_counter self) lows)"
    using FindMinimum_smooth_between [OF mean med] by (simp_all add: m)
  then have min16: "in_s16 m" using mean med by (auto simp: in_s16_def)
  have wl: "chan_lows self' c' = (if c' = c then lows else chan_lows self c')"
    and wa: "chan_ages self' c' = (if c' = c then age else chan_ages self c')" if "c' < 6" for c'
    using that c lay len by (simp_all add: self' chan_lows_def chan_ages_def vad_layout_def blit_channel)
  have "minima_inv self'"
    using inv wl wa ok min16 lay c by (auto simp: minima_inv_def self' vad_layout_def nth_list_update)
  moreover have "vad_layout self'" using lay c len by (simp add: vad_layout_def self')
  ultimately show ?thesis
    using wl wa c btw by (simp add: lows_def [symmetric]) (simp add: self')
qed

end
