(* ===== verification/Spl_Vector.thy ===== *)
theory Spl_Vector
  imports Spl_Inline
begin

text \<open>
  The vector routines of the signal processing library: \<open>min_max_operations.c\<close>,
  \<open>get_scaling_square.c\<close>, \<open>energy.c\<close>, \<open>vector_scaling_operations.c\<close>, \<open>cross_correlation.c\<close>,
  \<open>downsample_fast.c\<close> and the selection of implementations in \<open>spl_init.c\<close>.

  A pointer argument is an \<open>option\<close> where the code tests it for \<open>NULL\<close>; a routine with a length
  argument works on the first \<open>length\<close> elements.

  Lemmas: the minima and maxima are those of the set of elements, the index functions return the
  first position of an extremum, and \<open>WebRtcSpl_Energy\<close> never overflows on samples other than
  \<open>-32768\<close>.
\<close>

section \<open>Minimum and maximum\<close>

definition abs_max_loop :: "int list \<Rightarrow> int" where
  "abs_max_loop xs = fold (\<lambda>x maximum. let absolute = \<bar>x\<bar>
     in if absolute > maximum then absolute else maximum) xs 0"

definition max_loop :: "int \<Rightarrow> int list \<Rightarrow> int" where
  "max_loop start xs = fold (\<lambda>x maximum. if x > maximum then x else maximum) xs start"

definition min_loop :: "int \<Rightarrow> int list \<Rightarrow> int" where
  "min_loop start xs = fold (\<lambda>x minimum. if x < minimum then x else minimum) xs start"

definition WebRtcSpl_MaxAbsValueW16C :: "int list option \<Rightarrow> int \<Rightarrow> int" where
  "WebRtcSpl_MaxAbsValueW16C vector len =
     (case vector of None \<Rightarrow> -1
      | Some v \<Rightarrow>
          if len \<le> 0 then -1
          else
            let maximum = abs_max_loop (take (nat len) v);
                maximum = (if maximum > WEBRTC_SPL_WORD16_MAX then WEBRTC_SPL_WORD16_MAX else maximum)
            in s16 maximum)"

text \<open>
  The 32-bit version keeps its variables unsigned, so that the magnitude of \<open>-2147483648\<close> is
  \<open>2147483648\<close>.
\<close>

definition WebRtcSpl_MaxAbsValueW32C :: "int list option \<Rightarrow> int \<Rightarrow> int" where
  "WebRtcSpl_MaxAbsValueW32C vector len =
     (case vector of None \<Rightarrow> -1
      | Some v \<Rightarrow>
          if len \<le> 0 then -1
          else
            let maximum = fold (\<lambda>x maximum. let absolute = u32 (s32 \<bar>x\<bar>)
                                in if absolute > maximum then absolute else maximum)
                            (take (nat len) v) 0;
                maximum = (if maximum < WEBRTC_SPL_WORD32_MAX then maximum else WEBRTC_SPL_WORD32_MAX)
            in s32 maximum)"

definition WebRtcSpl_MaxValueW16C :: "int list option \<Rightarrow> int \<Rightarrow> int" where
  "WebRtcSpl_MaxValueW16C vector len =
     (case vector of None \<Rightarrow> WEBRTC_SPL_WORD16_MIN
      | Some v \<Rightarrow> if len \<le> 0 then WEBRTC_SPL_WORD16_MIN
                  else max_loop WEBRTC_SPL_WORD16_MIN (take (nat len) v))"

definition WebRtcSpl_MaxValueW32C :: "int list option \<Rightarrow> int \<Rightarrow> int" where
  "WebRtcSpl_MaxValueW32C vector len =
     (case vector of None \<Rightarrow> WEBRTC_SPL_WORD32_MIN
      | Some v \<Rightarrow> if len \<le> 0 then WEBRTC_SPL_WORD32_MIN
                  else max_loop WEBRTC_SPL_WORD32_MIN (take (nat len) v))"

definition WebRtcSpl_MinValueW16C :: "int list option \<Rightarrow> int \<Rightarrow> int" where
  "WebRtcSpl_MinValueW16C vector len =
     (case vector of None \<Rightarrow> WEBRTC_SPL_WORD16_MAX
      | Some v \<Rightarrow> if len \<le> 0 then WEBRTC_SPL_WORD16_MAX
                  else min_loop WEBRTC_SPL_WORD16_MAX (take (nat len) v))"

definition WebRtcSpl_MinValueW32C :: "int list option \<Rightarrow> int \<Rightarrow> int" where
  "WebRtcSpl_MinValueW32C vector len =
     (case vector of None \<Rightarrow> WEBRTC_SPL_WORD32_MAX
      | Some v \<Rightarrow> if len \<le> 0 then WEBRTC_SPL_WORD32_MAX
                  else min_loop WEBRTC_SPL_WORD32_MAX (take (nat len) v))"

text \<open>The index loops: \<open>i\<close> is the loop counter, \<open>index\<close> the position of the best element so far.\<close>

fun max_index_loop :: "int \<Rightarrow> int \<Rightarrow> int \<Rightarrow> int list \<Rightarrow> int" where
  "max_index_loop i index maximum [] = index"
| "max_index_loop i index maximum (x # xs) =
     (if x > maximum then max_index_loop (i + 1) i x xs
      else max_index_loop (i + 1) index maximum xs)"

fun min_index_loop :: "int \<Rightarrow> int \<Rightarrow> int \<Rightarrow> int list \<Rightarrow> int" where
  "min_index_loop i index minimum [] = index"
| "min_index_loop i index minimum (x # xs) =
     (if x < minimum then min_index_loop (i + 1) i x xs
      else min_index_loop (i + 1) index minimum xs)"

definition WebRtcSpl_MaxAbsIndexW16 :: "int list option \<Rightarrow> int \<Rightarrow> int" where
  "WebRtcSpl_MaxAbsIndexW16 vector len =
     (case vector of None \<Rightarrow> -1
      | Some v \<Rightarrow> if len \<le> 0 then -1 else max_index_loop 0 0 0 (map abs (take (nat len) v)))"

definition WebRtcSpl_MaxIndexW16 :: "int list option \<Rightarrow> int \<Rightarrow> int" where
  "WebRtcSpl_MaxIndexW16 vector len =
     (case vector of None \<Rightarrow> -1
      | Some v \<Rightarrow> if len \<le> 0 then -1
                  else max_index_loop 0 0 WEBRTC_SPL_WORD16_MIN (take (nat len) v))"

definition WebRtcSpl_MaxIndexW32 :: "int list option \<Rightarrow> int \<Rightarrow> int" where
  "WebRtcSpl_MaxIndexW32 vector len =
     (case vector of None \<Rightarrow> -1
      | Some v \<Rightarrow> if len \<le> 0 then -1
                  else max_index_loop 0 0 WEBRTC_SPL_WORD32_MIN (take (nat len) v))"

definition WebRtcSpl_MinIndexW16 :: "int list option \<Rightarrow> int \<Rightarrow> int" where
  "WebRtcSpl_MinIndexW16 vector len =
     (case vector of None \<Rightarrow> -1
      | Some v \<Rightarrow> if len \<le> 0 then -1
                  else min_index_loop 0 0 WEBRTC_SPL_WORD16_MAX (take (nat len) v))"

definition WebRtcSpl_MinIndexW32 :: "int list option \<Rightarrow> int \<Rightarrow> int" where
  "WebRtcSpl_MinIndexW32 vector len =
     (case vector of None \<Rightarrow> -1
      | Some v \<Rightarrow> if len \<le> 0 then -1
                  else min_index_loop 0 0 WEBRTC_SPL_WORD32_MAX (take (nat len) v))"

lemma max_loop_eq_Max: "max_loop a xs = Max (insert a (set xs))"
proof (induction xs arbitrary: a)
  case Nil
  then show ?case by (simp add: max_loop_def)
next
  case (Cons x xs)
  have "max_loop a (x # xs) = max_loop (max a x) xs"
    by (simp add: max_loop_def max_def)
  also have "\<dots> = Max (insert (max a x) (set xs))" by (rule Cons.IH)
  also have "\<dots> = Max (insert a (set (x # xs)))"
    by (cases "xs = []") (simp_all add: max.assoc)
  finally show ?case .
qed

lemma min_loop_eq_Min: "min_loop a xs = Min (insert a (set xs))"
proof (induction xs arbitrary: a)
  case Nil
  then show ?case by (simp add: min_loop_def)
next
  case (Cons x xs)
  have "min_loop a (x # xs) = min_loop (min a x) xs"
    by (simp add: min_loop_def min_def)
  also have "\<dots> = Min (insert (min a x) (set xs))" by (rule Cons.IH)
  also have "\<dots> = Min (insert a (set (x # xs)))"
    by (cases "xs = []") (simp_all add: min.assoc)
  finally show ?case .
qed

lemma abs_max_loop_max_loop: "abs_max_loop xs = max_loop 0 (map abs xs)"
  by (simp add: abs_max_loop_def max_loop_def fold_map comp_def Let_def)

text \<open>
  The maximum loop over a suffix: the result is either the position found before, when no later
  element is larger, or the first position of the largest later element.
\<close>

lemma max_index_loop_correct:
  assumes "max_index_loop i index m xs = r"
  shows "(r = index \<and> (\<forall>x\<in>set xs. x \<le> m)) \<or>
         (\<exists>k < length xs. r = i + int k \<and> m < xs ! k \<and> (\<forall>x\<in>set xs. x \<le> xs ! k)
            \<and> (\<forall>j < k. xs ! j < xs ! k))"
  using assms
proof (induction xs arbitrary: i index m)
  case Nil
  then show ?case by simp
next
  case (Cons x xs)
  show ?case
  proof (cases "x > m")
    case True
    with Cons.prems have "max_index_loop (i + 1) i x xs = r" by simp
    from Cons.IH [OF this] consider
        (old) "r = i" "\<forall>y\<in>set xs. y \<le> x"
      | (new) k where "k < length xs" "r = i + 1 + int k" "x < xs ! k" "\<forall>y\<in>set xs. y \<le> xs ! k"
          "\<forall>j < k. xs ! j < xs ! k"
      by blast
    then show ?thesis
    proof cases
      case old
      then show ?thesis using True by (intro disjI2 exI [of _ 0]) auto
    next
      case new
      then show ?thesis using True
        by (intro disjI2 exI [of _ "Suc k"]) (auto simp: less_Suc_eq_0_disj)
    qed
  next
    case False
    with Cons.prems have "max_index_loop (i + 1) index m xs = r" by simp
    from Cons.IH [OF this] consider
        (old) "r = index" "\<forall>y\<in>set xs. y \<le> m"
      | (new) k where "k < length xs" "r = i + 1 + int k" "m < xs ! k" "\<forall>y\<in>set xs. y \<le> xs ! k"
          "\<forall>j < k. xs ! j < xs ! k"
      by blast
    then show ?thesis
    proof cases
      case old
      then show ?thesis using False by auto
    next
      case new
      then show ?thesis using False
        by (intro disjI2 exI [of _ "Suc k"]) (auto simp: less_Suc_eq_0_disj)
    qed
  qed
qed

text \<open>The minimum loop is the maximum loop on negated values.\<close>

lemma min_index_loop_neg: "min_index_loop i index m xs = max_index_loop i index (- m) (map uminus xs)"
  by (induction xs arbitrary: i index m) auto

section \<open>Energy\<close>

definition WebRtcSpl_GetScalingSquare :: "int list \<Rightarrow> int \<Rightarrow> int \<Rightarrow> int" where
  "WebRtcSpl_GetScalingSquare in_vector in_vector_length ntimes =
     (let nbits = WebRtcSpl_GetSizeInBits (u32 ntimes);
          smax = fold (\<lambda>x smax. let sabs = s16 (if x > 0 then x else - x)
                                in if sabs > smax then sabs else smax)
                   (take (nat in_vector_length) in_vector) (-1);
          t = WebRtcSpl_NormW32 (WEBRTC_SPL_MUL smax smax)
      in if smax = 0 then 0
         else if t > nbits then 0 else s16 (nbits - t))"

definition WebRtcSpl_Energy :: "int list \<Rightarrow> int \<Rightarrow> int \<times> int" where
  "WebRtcSpl_Energy vector vector_length =
     (let scaling = WebRtcSpl_GetScalingSquare vector vector_length vector_length;
          en = fold (\<lambda>x en. s32 (en + WEBRTC_SPL_MUL_16_16_RSFT x x (nat scaling)))
                 (take (nat vector_length) vector) 0
      in (en, scaling))"

text \<open>The largest magnitude, computed with a 16-bit variable: right unless a sample is \<open>-32768\<close>.\<close>

lemma scaling_smax:
  assumes "\<forall>x\<in>set xs. -32767 \<le> x \<and> x \<le> 32767"
  shows "fold (\<lambda>x smax. let sabs = s16 (if x > 0 then x else - x)
                          in if sabs > smax then sabs else smax) xs m = max_loop m (map abs xs)"
  using assms
proof (induction xs arbitrary: m)
  case Nil
  then show ?case by (simp add: max_loop_def)
next
  case (Cons x xs)
  have "s16 (if x > 0 then x else - x) = \<bar>x\<bar>"
    using Cons.prems by (auto simp: s16_id)
  then show ?case
    using Cons by (simp add: max_loop_def Let_def)
qed

lemma energy_fold_exact:
  assumes "\<forall>x\<in>set xs. in_s16 x \<and> 0 \<le> f x \<and> WEBRTC_SPL_MUL_16_16_RSFT x x k = f x"
    and "0 \<le> a" and "a + sum_list (map f xs) \<le> 2147483647"
  shows "fold (\<lambda>x en. s32 (en + WEBRTC_SPL_MUL_16_16_RSFT x x k)) xs a = a + sum_list (map f xs)"
  using assms
proof (induction xs arbitrary: a)
  case Nil
  then show ?case by simp
next
  case (Cons x xs)
  have nn: "0 \<le> sum_list (map f xs)"
    using Cons.prems(1) by (intro sum_list_nonneg) auto
  have "s32 (a + f x) = a + f x"
    using Cons.prems nn by (intro s32_id) auto
  then show ?case
    using Cons.IH [of "a + f x"] Cons.prems by (simp add: add.assoc)
qed

text \<open>Sum of terms, each bounded by \<open>c\<close>.\<close>

lemma sum_list_le_mult:
  fixes f :: "'a \<Rightarrow> int"
  assumes "\<forall>x\<in>set xs. f x \<le> c"
  shows "sum_list (map f xs) \<le> int (length xs) * c"
  using assms by (induction xs) (auto simp: algebra_simps)

text \<open>
  The scaling leaves room for the sum: \<open>n\<close> terms, each a square of magnitude at most \<open>m\<close> shifted
  down by the scaling, add up to less than \<open>2 ^ 31\<close>.
\<close>

lemma scaled_sum_fits:
  fixes n :: nat and m :: int
  assumes "int n < 2 ^ b" and "0 < m" and "m * 2 ^ t < 2147483648"
    and k: "k = (if t > b then 0 else b - t)"
  shows "int n * (m div 2 ^ k) \<le> 2147483647"
proof (cases "t > b")
  case True
  then have "(2::int) ^ b \<le> 2 ^ t" by simp
  then have "int n \<le> 2 ^ t" using assms(1) by linarith
  then have "int n * m \<le> 2 ^ t * m" using assms(2) by (intro mult_right_mono) auto
  then show ?thesis using True k assms(3) by (simp add: mult.commute)
next
  case False
  then have b: "b = t + k" using k by simp
  have "m div 2 ^ k * 2 ^ k \<le> m"
    by (rule div_mult_le_self) simp
  then have "(m div 2 ^ k * 2 ^ k) * 2 ^ t \<le> m * 2 ^ t" by (intro mult_right_mono) auto
  then have le: "(m div 2 ^ k) * 2 ^ b \<le> m * 2 ^ t"
    by (simp add: b power_add mult.assoc mult.commute mult.left_commute)
  have "0 \<le> m div 2 ^ k" using assms(2) by (simp add: pos_imp_zdiv_nonneg_iff)
  then have "int n * (m div 2 ^ k) \<le> 2 ^ b * (m div 2 ^ k)"
    using assms(1) by (intro mult_right_mono) auto
  then show ?thesis using le assms(3) by (simp add: mult.commute)
qed

lemma length_lt_pow_size:
  assumes "0 < n" and "n < 4294967296" and "WebRtcSpl_GetSizeInBits n = int b"
  shows "n < 2 ^ b"
proof -
  obtain c where c: "WebRtcSpl_GetSizeInBits n = int (Suc c)" "shr n c = 1"
    using GetSizeInBits_pos [OF assms(1,2)] .
  then have b: "b = Suc c" using assms(3) by simp
  have "n = n div 2 ^ c * 2 ^ c + n mod 2 ^ c" by (rule div_mult_mod_eq [symmetric])
  also have "\<dots> < 1 * 2 ^ c + 2 ^ c" using c(2) by (simp add: shr_def)
  finally show ?thesis by (simp add: b)
qed

lemma GetScalingSquare_Nil: "WebRtcSpl_GetScalingSquare [] 0 0 = 0"
  by code_simp

lemma Energy_exact:
  assumes "\<forall>x\<in>set xs. -32767 \<le> x \<and> x \<le> 32767" and "length xs \<le> 2147483647"
    and "WebRtcSpl_Energy xs (int (length xs)) = (en, scaling)"
  shows "en = sum_list (map (\<lambda>x. shr (x * x) (nat scaling)) xs)" and "0 \<le> en" and "en \<le> 2147483647"
    and "0 \<le> scaling" and "scaling \<le> 31"
proof -
  define n where "n = length xs"
  define smax where "smax = max_loop (-1) (map abs xs)"
  have scal: "scaling = WebRtcSpl_GetScalingSquare xs (int n) (int n)"
    and en: "en = fold (\<lambda>x en. s32 (en + WEBRTC_SPL_MUL_16_16_RSFT x x (nat scaling))) xs 0"
    using assms(3) by (auto simp: WebRtcSpl_Energy_def Let_def n_def)
  have smax_eq: "fold (\<lambda>x smax. let sabs = s16 (if x > 0 then x else - x)
      in if sabs > smax then sabs else smax) (take (nat (int n)) xs) (-1) = smax"
    using scaling_smax [OF assms(1)] by (simp add: smax_def n_def)
  have ge: "\<bar>x\<bar> \<le> smax" if "x \<in> set xs" for x
    unfolding smax_def max_loop_eq_Max using that by (intro Max_ge) auto
  have smax_le: "smax \<le> 32767"
    unfolding smax_def max_loop_eq_Max using assms(1) by (subst Max_le_iff) auto
  have smax_ge: "-1 \<le> smax"
    unfolding smax_def max_loop_eq_Max by (intro Max_ge) auto
  let ?f = "\<lambda>x. shr (x * x) (nat scaling)"
  have f: "\<forall>x\<in>set xs. in_s16 x \<and> 0 \<le> ?f x \<and> WEBRTC_SPL_MUL_16_16_RSFT x x (nat scaling) = ?f x"
    using assms(1) by (auto simp: in_s16_def WEBRTC_SPL_MUL_16_16_RSFT_def mul_16_16_exact s16_id)
  have "sum_list (map ?f xs) \<le> 2147483647 \<and> 0 \<le> scaling \<and> scaling \<le> 31"
  proof (cases "smax = 0 \<or> xs = []")
    case True
    have "xs = [] \<Longrightarrow> scaling = 0"
      using scal GetScalingSquare_Nil by (simp add: n_def)
    moreover have "smax = 0 \<Longrightarrow> scaling = 0"
      using scal smax_eq by (simp add: WebRtcSpl_GetScalingSquare_def Let_def)
    ultimately have s0: "scaling = 0" using True by blast
    have "\<forall>x\<in>set xs. x = 0" using True ge by fastforce
    then have "sum_list (map ?f xs) = 0" by (induction xs) auto
    then show ?thesis using s0 by simp
  next
    case False
    then obtain x where x: "x \<in> set xs" by (cases xs) auto
    then have m1: "1 \<le> smax" using ge [OF x] False by linarith
    have npos: "0 < int n" "int n < 4294967296" using False assms(2) by (auto simp: n_def)
    define m where "m = smax * smax"
    have "m \<le> 32767 * 32767" unfolding m_def using m1 smax_le by (intro mult_mono) auto
    then have mle: "m < 2147483648" by simp
    have mpos: "0 < m" using m1 by (simp add: m_def)
    have mul: "WEBRTC_SPL_MUL smax smax = m"
    proof -
      have "s32 m = m" "s32 smax = smax"
        using m1 smax_le mle mpos by (auto intro: s32_id)
      then show ?thesis by (simp add: WEBRTC_SPL_MUL_def m_def)
    qed
    obtain t where t: "WebRtcSpl_NormW32 m = int t" "shl m t < 2147483648"
      using NormW32_pos [OF mpos mle] by blast
    obtain b where b: "WebRtcSpl_GetSizeInBits (int n) = int (Suc b)"
      using GetSizeInBits_pos [OF npos] by blast
    have nb: "int n < 2 ^ Suc b" by (rule length_lt_pow_size [OF npos b])
    have bits: "int (Suc b) \<le> 32"
      using b by (simp add: WebRtcSpl_GetSizeInBits_def Let_def split: if_splits)
    have un: "u32 (int n) = int n" using npos by (intro u32_id) auto
    have sc: "scaling = (if int t > int (Suc b) then 0 else s16 (int (Suc b) - int t))"
      using scal smax_eq mul t(1) b un m1
      by (simp add: WebRtcSpl_GetScalingSquare_def Let_def)
    then have sck: "nat scaling = (if t > Suc b then 0 else Suc b - t)" and sc0: "0 \<le> scaling"
      and sc31: "scaling \<le> 32"
      using bits by (auto simp: s16_id)
    have tpos: "t \<ge> 1"
    proof (rule ccontr)
      assume "\<not> t \<ge> 1"
      then have "t = 0" by simp
      moreover have "shl m t \<ge> 1073741824"
        using NormW32_pos [OF mpos mle] t(1) by (metis of_nat_eq_iff)
      ultimately have "m \<ge> 1073741824" by (simp add: shl_def)
      then show False using \<open>m \<le> 32767 * 32767\<close> by simp
    qed
    have "\<forall>x\<in>set xs. ?f x \<le> m div 2 ^ nat scaling"
    proof
      fix y assume "y \<in> set xs"
      then have "\<bar>y\<bar> * \<bar>y\<bar> \<le> smax * smax" using ge m1 by (intro mult_mono) auto
      then show "?f y \<le> m div 2 ^ nat scaling"
        by (simp add: shr_def m_def zdiv_mono1)
    qed
    then have "sum_list (map ?f xs) \<le> int n * (m div 2 ^ nat scaling)"
      unfolding n_def by (rule sum_list_le_mult)
    also have "\<dots> \<le> 2147483647"
      by (rule scaled_sum_fits [OF nb mpos _ sck]) (use t(2) in \<open>simp add: shl_def\<close>)
    finally show ?thesis using sc0 sc31 tpos sc bits by (auto simp: s16_id split: if_splits)
  qed
  moreover have "0 \<le> sum_list (map ?f xs)" using f by (intro sum_list_nonneg) auto
  moreover have "en = sum_list (map ?f xs)"
    using energy_fold_exact [OF f] calculation en by simp
  ultimately show "en = sum_list (map ?f xs)" "0 \<le> en" "en \<le> 2147483647" "0 \<le> scaling" "scaling \<le> 31"
    by simp_all
qed

text \<open>
  The restriction on the samples is needed: the magnitude of \<open>-32768\<close> does not fit the 16-bit
  variable \<open>sabs\<close>, so the scaling ignores such a sample.  Two of them overflow the 32-bit sum, and
  four of them wrap it to \<open>0\<close>.
\<close>

lemma Energy_min_sample:
  "WebRtcSpl_Energy [-32768, -32768] 2 = (-2147483648, 0)"
  "WebRtcSpl_Energy [-32768, -32768, -32768, -32768] 4 = (0, 0)"
  by code_simp+

section \<open>Scaling of vectors\<close>

text \<open>The output vector of each routine is the list of the values it stores.\<close>

definition WebRtcSpl_VectorBitShiftW16 :: "int \<Rightarrow> int list \<Rightarrow> int \<Rightarrow> int list" where
  "WebRtcSpl_VectorBitShiftW16 len xs right_shifts =
     (if right_shifts > 0 then map (\<lambda>x. s16 (shr x (nat right_shifts))) (take (nat len) xs)
      else map (\<lambda>x. s16 (s32 (shl x (nat (- right_shifts))))) (take (nat len) xs))"

definition WebRtcSpl_VectorBitShiftW32 :: "int \<Rightarrow> int list \<Rightarrow> int \<Rightarrow> int list" where
  "WebRtcSpl_VectorBitShiftW32 vector_length in_vector right_shifts =
     (if right_shifts > 0 then map (\<lambda>x. shr x (nat right_shifts)) (take (nat vector_length) in_vector)
      else map (\<lambda>x. s32 (shl x (nat (- right_shifts)))) (take (nat vector_length) in_vector))"

definition WebRtcSpl_VectorBitShiftW32ToW16 :: "int \<Rightarrow> int list \<Rightarrow> int \<Rightarrow> int list" where
  "WebRtcSpl_VectorBitShiftW32ToW16 len xs right_shifts =
     (if right_shifts \<ge> 0
      then map (\<lambda>x. WebRtcSpl_SatW32ToW16 (shr x (nat right_shifts))) (take (nat len) xs)
      else let left_shifts = - right_shifts
           in map (\<lambda>x. WebRtcSpl_SatW32ToW16 (s32 (shl x (nat left_shifts)))) (take (nat len) xs))"

definition WebRtcSpl_ScaleVector :: "int list \<Rightarrow> int \<Rightarrow> int \<Rightarrow> int \<Rightarrow> int list" where
  "WebRtcSpl_ScaleVector in_vector gain in_vector_length right_shifts =
     map (\<lambda>x. s16 (WEBRTC_SPL_MUL_16_16_RSFT x gain (nat right_shifts)))
       (take (nat in_vector_length) in_vector)"

definition WebRtcSpl_ScaleVectorWithSat :: "int list \<Rightarrow> int \<Rightarrow> int \<Rightarrow> int \<Rightarrow> int list" where
  "WebRtcSpl_ScaleVectorWithSat in_vector gain in_vector_length right_shifts =
     map (\<lambda>x. let tmpW32 = WEBRTC_SPL_MUL_16_16_RSFT x gain (nat right_shifts)
              in WebRtcSpl_SatW32ToW16 tmpW32)
       (take (nat in_vector_length) in_vector)"

definition WebRtcSpl_ScaleAndAddVectors ::
    "int list \<Rightarrow> int \<Rightarrow> int \<Rightarrow> int list \<Rightarrow> int \<Rightarrow> int \<Rightarrow> int \<Rightarrow> int list" where
  "WebRtcSpl_ScaleAndAddVectors in1 gain1 shift1 in2 gain2 shift2 vector_length =
     map2 (\<lambda>x y. s16 (s16 (WEBRTC_SPL_MUL_16_16_RSFT gain1 x (nat shift1))
                     + s16 (WEBRTC_SPL_MUL_16_16_RSFT gain2 y (nat shift2))))
       (take (nat vector_length) in1) (take (nat vector_length) in2)"

text \<open>The result is the return code and, on success, the stored output.\<close>

definition WebRtcSpl_ScaleAndAddVectorsWithRoundC ::
    "int list option \<Rightarrow> int \<Rightarrow> int list option \<Rightarrow> int \<Rightarrow> int \<Rightarrow> bool \<Rightarrow> int \<Rightarrow> int \<times> int list" where
  "WebRtcSpl_ScaleAndAddVectorsWithRoundC in_vector1 in_vector1_scale in_vector2 in_vector2_scale
       right_shifts out_is_null len =
     (let round_value = shr (s32 (shl 1 (nat right_shifts))) 1
      in case (in_vector1, in_vector2) of
           (Some v1, Some v2) \<Rightarrow>
             if out_is_null \<or> len \<le> 0 \<or> right_shifts < 0 then (-1, [])
             else (0, map2 (\<lambda>x y. s16 (shr (s32 (s32 (WEBRTC_SPL_MUL_16_16 x in_vector1_scale
                                 + WEBRTC_SPL_MUL_16_16 y in_vector2_scale) + round_value))
                                 (nat right_shifts)))
                        (take (nat len) v1) (take (nat len) v2))
         | _ \<Rightarrow> (-1, []))"

section \<open>Correlation and decimation\<close>

definition WebRtcSpl_CrossCorrelationC ::
    "int list \<Rightarrow> int list \<Rightarrow> int \<Rightarrow> int \<Rightarrow> int \<Rightarrow> int \<Rightarrow> int list" where
  "WebRtcSpl_CrossCorrelationC seq1 seq2 dim_seq dim_cross_correlation right_shifts step_seq2 =
     map (\<lambda>i. fold (\<lambda>j acc. s32 (acc + shr (s32 (seq1 ! j * seq2 ! nat (step_seq2 * int i + int j)))
                                  (nat right_shifts)))
                [0..<nat dim_seq] 0)
       [0..<nat dim_cross_correlation]"

text \<open>
  The loop \<open>for (i = delay; i < endpos; i += factor)\<close>: the positions it visits.  It does not end
  when it is entered with a factor that is not positive.
\<close>

partial_function (option) downsample_positions :: "int \<Rightarrow> int \<Rightarrow> int \<Rightarrow> int list option" where
  "downsample_positions i endpos factor =
     (if i < endpos
      then Option.bind (downsample_positions (i + factor) endpos factor) (\<lambda>is. Some (i # is))
      else Some [])"

definition DownsampleFast_sample :: "int list \<Rightarrow> int list \<Rightarrow> int \<Rightarrow> int \<Rightarrow> int" where
  "DownsampleFast_sample data_in coefficients coefficients_length i =
     (let out_s32 = fold (\<lambda>j acc. s32 (acc + s32 (coefficients ! j * data_in ! nat (i - int j))))
                      [0..<nat coefficients_length] 2048;
          out_s32 = shr out_s32 12
      in WebRtcSpl_SatW32ToW16 out_s32)"

definition WebRtcSpl_DownsampleFastC ::
    "int list \<Rightarrow> int \<Rightarrow> int \<Rightarrow> int list \<Rightarrow> int \<Rightarrow> int \<Rightarrow> int \<Rightarrow> (int \<times> int list) option" where
  "WebRtcSpl_DownsampleFastC data_in data_in_length data_out_length coefficients
       coefficients_length factor delay =
     (let endpos = delay + factor * (data_out_length - 1) + 1
      in if data_out_length \<le> 0 \<or> coefficients_length \<le> 0 \<or> data_in_length < endpos then Some (-1, [])
         else map_option (\<lambda>is. (0, map (DownsampleFast_sample data_in coefficients coefficients_length) is))
                (downsample_positions delay endpos factor))"

lemma downsample_positions_eq:
  assumes "0 < factor"
  shows "downsample_positions i (i + factor * int n + 1) factor
           = Some (map (\<lambda>m. i + factor * int m) [0..<Suc n])"
proof (induction n arbitrary: i)
  case 0
  then show ?case using assms by (simp add: downsample_positions.simps)
next
  case (Suc n)
  have pos: "0 \<le> factor * int n" using assms by simp
  have "i + factor + factor * int n + 1 = i + factor * int (Suc n) + 1"
    by (simp add: algebra_simps)
  then have "downsample_positions (i + factor) (i + factor * int (Suc n) + 1) factor
      = Some (map (\<lambda>m. i + factor + factor * int m) [0..<Suc n])"
    using Suc.IH [of "i + factor"] by (simp only:)
  moreover have "i < i + factor * int (Suc n) + 1"
  proof -
    have "factor * int (Suc n) = factor + factor * int n" by (simp add: distrib_left)
    then show ?thesis using assms pos by linarith
  qed
  ultimately have "downsample_positions i (i + factor * int (Suc n) + 1) factor
      = Some (i # map (\<lambda>m. i + factor + factor * int m) [0..<Suc n])"
    by (subst downsample_positions.simps) simp
  also have "i # map (\<lambda>m. i + factor + factor * int m) [0..<Suc n]
      = map (\<lambda>m. i + factor * int m) [0..<Suc (Suc n)]"
    by (subst upt_conv_Cons) (simp_all add: map_Suc_upt [symmetric] algebra_simps del: upt_Suc)
  finally show ?case .
qed

section \<open>Selection of the implementations\<close>

text \<open>
  \<open>spl_init.c\<close> fills a table of function pointers once per process.  The table is determined by
  the build configuration and, for a build that detects NEON at run time, by the CPU.  The shipped
  build of the detector defines only \<open>WEBRTC_POSIX\<close>, which is \<open>Generic\<close> here.
\<close>

datatype spl_build = DetectNeon | ArchNeon | Mips32 | Mips32DspR1 | Generic

datatype spl_impl = ImplC | ImplNeon | ImplMips

record spl_pointers =
  ptr_MaxAbsValueW16 :: spl_impl
  ptr_MaxAbsValueW32 :: spl_impl
  ptr_MaxValueW16 :: spl_impl
  ptr_MaxValueW32 :: spl_impl
  ptr_MinValueW16 :: spl_impl
  ptr_MinValueW32 :: spl_impl
  ptr_CrossCorrelation :: spl_impl
  ptr_DownsampleFast :: spl_impl
  ptr_ScaleAndAddVectorsWithRound :: spl_impl

definition InitPointersToC :: spl_pointers where
  "InitPointersToC = \<lparr>ptr_MaxAbsValueW16 = ImplC, ptr_MaxAbsValueW32 = ImplC, ptr_MaxValueW16 = ImplC,
     ptr_MaxValueW32 = ImplC, ptr_MinValueW16 = ImplC, ptr_MinValueW32 = ImplC,
     ptr_CrossCorrelation = ImplC, ptr_DownsampleFast = ImplC, ptr_ScaleAndAddVectorsWithRound = ImplC\<rparr>"

definition InitPointersToNeon :: spl_pointers where
  "InitPointersToNeon = \<lparr>ptr_MaxAbsValueW16 = ImplNeon, ptr_MaxAbsValueW32 = ImplNeon,
     ptr_MaxValueW16 = ImplNeon, ptr_MaxValueW32 = ImplNeon, ptr_MinValueW16 = ImplNeon,
     ptr_MinValueW32 = ImplNeon, ptr_CrossCorrelation = ImplNeon, ptr_DownsampleFast = ImplNeon,
     ptr_ScaleAndAddVectorsWithRound = ImplC\<rparr>"

definition InitPointersToMIPS :: "bool \<Rightarrow> spl_pointers" where
  "InitPointersToMIPS dsp_r1 = \<lparr>ptr_MaxAbsValueW16 = ImplMips,
     ptr_MaxAbsValueW32 = (if dsp_r1 then ImplMips else ImplC), ptr_MaxValueW16 = ImplMips,
     ptr_MaxValueW32 = ImplMips, ptr_MinValueW16 = ImplMips, ptr_MinValueW32 = ImplMips,
     ptr_CrossCorrelation = ImplMips, ptr_DownsampleFast = ImplMips,
     ptr_ScaleAndAddVectorsWithRound = (if dsp_r1 then ImplMips else ImplC)\<rparr>"

fun InitFunctionPointers :: "spl_build \<Rightarrow> bool \<Rightarrow> spl_pointers" where
  "InitFunctionPointers DetectNeon cpu_has_neon = (if cpu_has_neon then InitPointersToNeon else InitPointersToC)"
| "InitFunctionPointers ArchNeon _ = InitPointersToNeon"
| "InitFunctionPointers Mips32 _ = InitPointersToMIPS False"
| "InitFunctionPointers Mips32DspR1 _ = InitPointersToMIPS True"
| "InitFunctionPointers Generic _ = InitPointersToC"

text \<open>\<open>pthread_once\<close>: the table is filled by the first call and kept by every later one.\<close>

definition WebRtcSpl_Init :: "spl_build \<Rightarrow> bool \<Rightarrow> spl_pointers option \<Rightarrow> spl_pointers option" where
  "WebRtcSpl_Init build cpu_has_neon table =
     (case table of None \<Rightarrow> Some (InitFunctionPointers build cpu_has_neon) | Some t \<Rightarrow> Some t)"

end
