(* ===== verification/Vad_Filterbank.thy ===== *)
theory Vad_Filterbank
  imports Vad_Inst Spl_Vector
begin

text \<open>
  \<open>vad_filterbank.c\<close>: the tree of splitting filters and the logarithmic energies of the six
  frequency bands.  A local buffer is the list of the samples the code has stored in it.

  Lemmas: the all-pass filter can be run on a signal in pieces; every feature lies in the range
  the Gaussian model is exact on; the total energy exceeds the threshold exactly when the model
  needs it to; the filter states keep their sizes.
\<close>

definition kLogConst :: int where "kLogConst = 24660"
definition kLogEnergyIntPart :: int where "kLogEnergyIntPart = 14336"
definition kHpZeroCoefs :: "int list" where "kHpZeroCoefs = [6631, -13262, 6631]"
definition kHpPoleCoefs :: "int list" where "kHpPoleCoefs = [16384, -7756, 5620]"
definition kAllPassCoefsQ15 :: "int list" where "kAllPassCoefsQ15 = [20972, 5571]"
definition kOffsetVector :: "int list" where "kOffsetVector = [368, 368, 272, 176, 176, 176]"

section \<open>Filters\<close>

definition HighPassFilter_step :: "int list \<Rightarrow> int \<Rightarrow> int list" where
  "HighPassFilter_step filter_state x =
     (let tmp32 = WEBRTC_SPL_MUL_16_16 (kHpZeroCoefs ! 0) x;
          tmp32 = s32 (tmp32 + WEBRTC_SPL_MUL_16_16 (kHpZeroCoefs ! 1) (filter_state ! 0));
          tmp32 = s32 (tmp32 + WEBRTC_SPL_MUL_16_16 (kHpZeroCoefs ! 2) (filter_state ! 1));
          filter_state = filter_state[1 := filter_state ! 0];
          filter_state = filter_state[0 := x];
          tmp32 = s32 (tmp32 - WEBRTC_SPL_MUL_16_16 (kHpPoleCoefs ! 1) (filter_state ! 2));
          tmp32 = s32 (tmp32 - WEBRTC_SPL_MUL_16_16 (kHpPoleCoefs ! 2) (filter_state ! 3));
          filter_state = filter_state[3 := filter_state ! 2]
      in filter_state[2 := s16 (shr tmp32 14)])"

fun HighPassFilter_loop :: "int list \<Rightarrow> int list \<Rightarrow> int list \<times> int list" where
  "HighPassFilter_loop filter_state [] = (filter_state, [])"
| "HighPassFilter_loop filter_state (x # xs) =
     (let filter_state = HighPassFilter_step filter_state x;
          (filter_state', data_out) = HighPassFilter_loop filter_state xs
      in (filter_state', filter_state ! 2 # data_out))"

definition HighPassFilter :: "int list \<Rightarrow> int \<Rightarrow> int list \<Rightarrow> int list \<times> int list" where
  "HighPassFilter data_in data_length filter_state =
     HighPassFilter_loop filter_state (take (nat data_length) data_in)"

fun AllPassFilter_loop :: "int \<Rightarrow> int \<Rightarrow> int list \<Rightarrow> int \<times> int list" where
  "AllPassFilter_loop filter_coefficient state32 [] = (state32, [])"
| "AllPassFilter_loop filter_coefficient state32 (x # xs) =
     (let tmp32 = s32 (state32 + WEBRTC_SPL_MUL_16_16 filter_coefficient x);
          tmp16 = s16 (shr tmp32 16);
          state32 = s32 (shl x 14);
          state32 = s32 (state32 - WEBRTC_SPL_MUL_16_16 filter_coefficient tmp16);
          state32 = s32 (shl state32 1);
          (state32', data_out) = AllPassFilter_loop filter_coefficient state32 xs
      in (state32', tmp16 # data_out))"

text \<open>The loop reads every second element of \<open>data_in\<close>.\<close>

definition AllPassFilter :: "int list \<Rightarrow> int \<Rightarrow> int \<Rightarrow> int \<Rightarrow> int \<times> int list" where
  "AllPassFilter data_in data_length filter_coefficient filter_state =
     (let (state32, data_out) =
            AllPassFilter_loop filter_coefficient (s32 (shl filter_state 16))
              (evens data_in (nat data_length))
      in (s16 (shr state32 16), data_out))"

text \<open>Returns the two filter states and the two output signals.\<close>

definition SplitFilter :: "int list \<Rightarrow> int \<Rightarrow> int \<Rightarrow> int \<Rightarrow> int \<times> int \<times> int list \<times> int list" where
  "SplitFilter data_in data_length upper lower =
     (let half_length = shr data_length 1;
          (upper, hp_data_out) =
            AllPassFilter data_in half_length (kAllPassCoefsQ15 ! 0) upper;
          (lower, lp_data_out) =
            AllPassFilter (drop 1 data_in) half_length (kAllPassCoefsQ15 ! 1) lower
      in (upper, lower,
          map2 (\<lambda>hp lp. s16 (hp - lp)) hp_data_out lp_data_out,
          map2 (\<lambda>hp lp. s16 (lp + hp)) hp_data_out lp_data_out))"

section \<open>Logarithmic energy\<close>

text \<open>Returns the updated \<open>total_energy\<close> and \<open>log_energy\<close>.\<close>

definition LogOfEnergy :: "int list \<Rightarrow> int \<Rightarrow> int \<Rightarrow> int \<Rightarrow> int \<times> int" where
  "LogOfEnergy data_in data_length offset total_energy =
     (let (en, tot_rshifts) = WebRtcSpl_Energy data_in data_length;
          energy = u32 en
      in if energy \<noteq> 0 then
           let normalizing_rshifts = 17 - WebRtcSpl_NormU32 energy;
               log2_energy = kLogEnergyIntPart;
               tot_rshifts = tot_rshifts + normalizing_rshifts;
               energy = (if normalizing_rshifts < 0 then u32 (shl energy (nat (- normalizing_rshifts)))
                         else shr energy (nat normalizing_rshifts));
               log2_energy = s16 (log2_energy + s16 (shr (energy AND 0x3FFF) 4));
               log_energy = s16 (WEBRTC_SPL_MUL_16_16_RSFT kLogConst log2_energy 19
                                 + WEBRTC_SPL_MUL_16_16_RSFT tot_rshifts kLogConst 9);
               log_energy = (if log_energy < 0 then 0 else log_energy);
               log_energy = s16 (log_energy + offset);
               total_energy = (if total_energy \<le> kMinEnergy
                               then if tot_rshifts \<ge> 0 then s16 (total_energy + (kMinEnergy + 1))
                                    else s16 (total_energy + s16 (shr energy (nat (- tot_rshifts))))
                               else total_energy)
           in (total_energy, log_energy)
         else (total_energy, offset))"

section \<open>Features\<close>

text \<open>One split of the tree, on the states of \<open>frequency_band\<close>.\<close>

definition split_band :: "VadInstT \<Rightarrow> nat \<Rightarrow> int list \<Rightarrow> int \<Rightarrow> VadInstT \<times> int list \<times> int list" where
  "split_band self frequency_band data_in data_length =
     (let (u, l, hp, lp) = SplitFilter data_in data_length
            (upper_state self ! frequency_band) (lower_state self ! frequency_band)
      in (self\<lparr>upper_state := (upper_state self)[frequency_band := u],
               lower_state := (lower_state self)[frequency_band := l]\<rparr>, hp, lp))"

definition WebRtcVad_CalculateFeatures :: "VadInstT \<Rightarrow> int list \<Rightarrow> int \<Rightarrow> VadInstT \<times> int list \<times> int" where
  "WebRtcVad_CalculateFeatures self data_in data_length =
     (let half_data_length = shr data_length 1;
          length1 = half_data_length;
          (self, hp_120, lp_120) = split_band self 0 data_in data_length;
          (self, hp_60, lp_60) = split_band self 1 hp_120 length1;
          length2 = shr length1 1;
          (total_energy, feature5) = LogOfEnergy hp_60 length2 (kOffsetVector ! 5) 0;
          (total_energy, feature4) = LogOfEnergy lp_60 length2 (kOffsetVector ! 4) total_energy;
          (self, hp_60, lp_60) = split_band self 2 lp_120 length1;
          (total_energy, feature3) = LogOfEnergy hp_60 length2 (kOffsetVector ! 3) total_energy;
          (self, hp_120, lp_120) = split_band self 3 lp_60 length2;
          length3 = shr length2 1;
          (total_energy, feature2) = LogOfEnergy hp_120 length3 (kOffsetVector ! 2) total_energy;
          (self, hp_60, lp_60) = split_band self 4 lp_120 length3;
          length4 = shr length3 1;
          (total_energy, feature1) = LogOfEnergy hp_60 length4 (kOffsetVector ! 1) total_energy;
          (hp_state, hp_120) = HighPassFilter lp_60 length4 (hp_filter_state self);
          self = self\<lparr>hp_filter_state := hp_state\<rparr>;
          (total_energy, feature0) = LogOfEnergy hp_120 length4 (kOffsetVector ! 0) total_energy
      in (self, [feature0, feature1, feature2, feature3, feature4, feature5], total_energy))"

section \<open>Lemmas\<close>

lemma AllPassFilter_loop_append:
  "AllPassFilter_loop c st (xs @ ys) =
    (let (st1, out1) = AllPassFilter_loop c st xs; (st2, out2) = AllPassFilter_loop c st1 ys
     in (st2, out1 @ out2))"
  by (induction c st xs rule: AllPassFilter_loop.induct) (simp_all add: Let_def case_prod_beta)

lemma length_AllPassFilter_loop [simp]: "length (snd (AllPassFilter_loop c st xs)) = length xs"
  by (induction c st xs rule: AllPassFilter_loop.induct) (simp_all add: Let_def case_prod_beta)

lemma length_AllPassFilter [simp]: "length (snd (AllPassFilter xs n c st)) = nat n"
  by (simp add: AllPassFilter_def Let_def case_prod_beta)

lemma in_s16_AllPassFilter_state [simp]: "in_s16 (fst (AllPassFilter xs n c st))"
  by (simp add: AllPassFilter_def Let_def case_prod_beta)

lemma SplitFilter_out:
  assumes "SplitFilter xs n u l = (u', l', hp, lp)"
  shows "length hp = nat (shr n 1)" and "length lp = nat (shr n 1)" and "in_s16 u'" and "in_s16 l'"
    and "list_all in_s16 hp" and "list_all in_s16 lp"
  using assms by (auto simp: SplitFilter_def Let_def case_prod_beta list_all_iff)

lemma HighPassFilter_step_out:
  "length st = 4 \<Longrightarrow> length (HighPassFilter_step st x) = 4 \<and> in_s16 (HighPassFilter_step st x ! 2)"
  by (simp add: HighPassFilter_step_def Let_def)

lemma HighPassFilter_loop_out:
  assumes "length st = 4"
  shows "length (fst (HighPassFilter_loop st xs)) = 4 \<and> length (snd (HighPassFilter_loop st xs)) = length xs \<and>
    list_all in_s16 (snd (HighPassFilter_loop st xs))"
  using assms
  by (induction xs arbitrary: st) (simp_all add: Let_def case_prod_beta HighPassFilter_step_out)

lemma GetSizeInBits_le:
  assumes "0 \<le> n" and "n < 2 ^ b" and "1 \<le> b" and "b \<le> 31"
  shows "0 \<le> WebRtcSpl_GetSizeInBits n \<and> WebRtcSpl_GetSizeInBits n \<le> int b"
proof (cases "n = 0")
  case True
  then show ?thesis by (simp add: WebRtcSpl_GetSizeInBits_def)
next
  case False
  have "(2::int) ^ b \<le> 2 ^ 31" using assms(4) by (intro power_increasing) simp_all
  then have "n < 4294967296" using assms(2) by simp
  then obtain c where c: "WebRtcSpl_GetSizeInBits n = int (Suc c)" "shr n c = 1"
    using GetSizeInBits_pos [of n] False assms(1) by force
  have "2 ^ c \<le> n" using c(2) div_mult_le_self [of "2 ^ c" n] by (simp add: shr_def)
  then have "(2::int) ^ c < 2 ^ b" using assms(2) by linarith
  then have "c < b" by simp
  then show ?thesis using c(1) by simp
qed

lemma NormW32_square:
  assumes "1 \<le> m" and "m \<le> 32767"
  shows "1 \<le> WebRtcSpl_NormW32 (m * m)"
proof -
  have le: "m * m \<le> 32767 * 32767" using assms by (intro mult_mono) simp_all
  have pos: "0 < m * m" using assms by simp
  obtain z where z: "WebRtcSpl_NormW32 (m * m) = int z" "1073741824 \<le> shl (m * m) z"
    using NormW32_pos [OF pos] le by force
  have "z \<noteq> 0"
  proof
    assume "z = 0"
    then have "1073741824 \<le> m * m" using z(2) by (simp add: shl_def)
    then show False using le by simp
  qed
  then show ?thesis using z(1) by simp
qed

text \<open>
  The scaling of a signal of less than \<open>2 ^ b\<close> samples.  A sample \<open>-32768\<close> never becomes \<open>smax\<close>,
  so \<open>smax\<close> is at most 32767 and its square leaves one leading zero.
\<close>

definition scaling_max :: "int list \<Rightarrow> int" where
  "scaling_max xs = fold (\<lambda>x smax. let sabs = s16 (if x > 0 then x else - x)
      in if sabs > smax then sabs else smax) xs (-1)"

lemma scaling_max_bounds: "-1 \<le> scaling_max xs \<and> scaling_max xs \<le> 32767"
proof -
  have "-1 \<le> fold (\<lambda>x smax. let sabs = s16 (if x > 0 then x else - x) in if sabs > smax then sabs else smax) xs m
      \<and> fold (\<lambda>x smax. let sabs = s16 (if x > 0 then x else - x) in if sabs > smax then sabs else smax) xs m \<le> 32767"
    if "-1 \<le> m \<and> m \<le> 32767" for m
    using that by (induction xs arbitrary: m) (auto simp: Let_def s16_bounds)
  then show ?thesis by (simp add: scaling_max_def)
qed

lemma Energy_scaling_bounds:
  assumes "WebRtcSpl_Energy xs n = (en, scaling)" and "0 \<le> n" and "n < 2 ^ b" and "1 \<le> b" and "b \<le> 31"
  shows "0 \<le> scaling" and "scaling \<le> int b - 1"
proof -
  define smax where "smax = scaling_max (take (nat n) xs)"
  define t where "t = WebRtcSpl_NormW32 (WEBRTC_SPL_MUL smax smax)"
  define nbits where "nbits = WebRtcSpl_GetSizeInBits (u32 n)"
  have "(2::int) ^ b \<le> 2 ^ 31" using assms(5) by (intro power_increasing) simp_all
  then have n: "0 \<le> nbits" "nbits \<le> int b"
    using GetSizeInBits_le [OF assms(2-5)] assms(2,3) by (simp_all add: nbits_def u32_id)
  have sm: "-1 \<le> smax" "smax \<le> 32767" using scaling_max_bounds by (simp_all add: smax_def)
  have t: "1 \<le> t" if "smax \<noteq> 0"
  proof (cases "smax = -1")
    case True
    have "WebRtcSpl_NormW32 (WEBRTC_SPL_MUL (-1) (-1)) = 30" by code_simp
    then show ?thesis by (simp add: t_def True)
  next
    case False
    then have "1 \<le> smax" using sm that by simp
    moreover from this have "smax * smax \<le> 32767 * 32767" using sm by (intro mult_mono) simp_all
    moreover from calculation have "s32 (smax * smax) = smax * smax"
      by (intro s32_id) (simp_all add: order_trans [of _ 0])
    ultimately show ?thesis
      using NormW32_square [of smax] sm by (simp add: t_def WEBRTC_SPL_MUL_def s32_id)
  qed
  have "scaling = (if smax = 0 then 0 else if t > nbits then 0 else s16 (nbits - t))"
    using assms unfolding WebRtcSpl_Energy_def WebRtcSpl_GetScalingSquare_def Let_def smax_def
      scaling_max_def t_def nbits_def by simp
  then show "0 \<le> scaling" and "scaling \<le> int b - 1"
    using t n assms(4,5) by (auto simp: s16_id)
qed

text \<open>Normalisation brings a nonzero energy to 15 bits.\<close>

definition normalize15 :: "int \<Rightarrow> int" where
  "normalize15 energy =
     (let r = 17 - WebRtcSpl_NormU32 energy
      in if r < 0 then u32 (shl energy (nat (- r))) else shr energy (nat r))"

lemma normalize15_bounds:
  assumes "0 < energy" and "energy < 4294967296"
  shows "16384 \<le> normalize15 energy \<and> normalize15 energy < 32768"
proof -
  obtain z where z: "WebRtcSpl_NormU32 energy = int z" and lo: "2147483648 \<le> shl energy z"
    and hi: "shl energy z < 4294967296"
    using NormU32_pos [OF assms] by metis
  show ?thesis
  proof (cases "17 - int z < 0")
    case True
    define k where "k = nat (int z - 17)"
    have "z = k + 17" using True by (simp add: k_def)
    then have e: "shl energy z = shl energy k * 131072" by (simp add: shl_def power_add)
    then have "16384 \<le> shl energy k" "shl energy k < 32768" using lo hi by linarith+
    moreover from this have "normalize15 energy = shl energy k"
      using True by (simp add: normalize15_def z Let_def k_def [symmetric] u32_id)
    ultimately show ?thesis by simp
  next
    case False
    define k where "k = nat (17 - int z)"
    have "k + z = 17" using False by (simp add: k_def)
    then have p: "(2::int) ^ k * 2 ^ z = 131072" by (simp flip: power_add)
    have e: "energy * 2 ^ z = shl energy z" by (simp add: shl_def)
    have "16384 * 2 ^ k * 2 ^ z \<le> energy * (2::int) ^ z"
      using p lo by (simp only: e mult.assoc)
    then have l: "16384 * 2 ^ k \<le> energy" by simp
    have "energy * (2::int) ^ z < 32768 * 2 ^ k * 2 ^ z"
      using p hi by (simp only: e mult.assoc)
    then have h: "energy < 32768 * 2 ^ k" by simp
    have "16384 \<le> shr energy k" "shr energy k < 32768"
      unfolding shr_def using l h by (simp_all add: int_div_ge int_div_less)
    moreover have "normalize15 energy = shr energy k"
      using False by (simp add: normalize15_def z Let_def k_def)
    ultimately show ?thesis by simp
  qed
qed

text \<open>The energy in dB from the normalised energy and the total number of shifts.\<close>

definition log_energy_of :: "int \<Rightarrow> int \<Rightarrow> int" where
  "log_energy_of e tot =
     max 0 (shr (24660 * (14336 + shr (e mod 16384) 4)) 19 + shr (tot * 24660) 9)"

lemma log_energy_of_bounds:
  assumes "tot \<le> T" and "0 \<le> T"
  shows "0 \<le> log_energy_of e tot \<and> log_energy_of e tot \<le> 722 + shr (T * 24660) 9"
proof -
  have "e mod 16384 \<le> 16383" using pos_mod_bound [of 16384 e] by linarith
  then have "shr (e mod 16384) 4 \<le> shr 16383 4" by (rule shr_mono)
  then have "24660 * (14336 + shr (e mod 16384) 4) \<le> 24660 * 15359" by (simp add: shr_def)
  then have "shr (24660 * (14336 + shr (e mod 16384) 4)) 19 \<le> shr (24660 * 15359) 19" by (rule shr_mono)
  moreover have "shr (tot * 24660) 9 \<le> shr (T * 24660) 9" using assms by (intro shr_mono) simp
  moreover have "shr (24660 * 15359) 19 = 722" by (simp add: shr_def)
  moreover have "0 \<le> shr (T * 24660) 9" using assms(2) by simp
  ultimately show ?thesis unfolding log_energy_of_def by linarith
qed

lemma LogOfEnergy_eq:
  assumes en: "WebRtcSpl_Energy xs n = (en, scaling)" and nz: "u32 en \<noteq> 0"
    and off: "0 \<le> offset" "offset \<le> 1000" and n: "0 \<le> n" "n < 64"
  defines "tot \<equiv> scaling + 17 - WebRtcSpl_NormU32 (u32 en)" and "e \<equiv> normalize15 (u32 en)"
  shows "LogOfEnergy xs n offset total_energy =
    (if total_energy \<le> 10 then if tot \<ge> 0 then s16 (total_energy + 11)
                               else s16 (total_energy + s16 (shr e (nat (- tot))))
     else total_energy, log_energy_of e tot + offset)"
proof -
  have u: "0 < u32 en" "u32 en < 4294967296"
    using nz in_u32_u32 [of en] by (simp_all add: in_u32_def del: in_u32_u32)
  have e: "16384 \<le> e" "e < 32768" using normalize15_bounds [OF u] by (simp_all add: e_def)
  have sc: "0 \<le> scaling" "scaling \<le> 32" using Energy_scaling_bounds [OF en, of 6] n by simp_all
  have nb: "0 \<le> WebRtcSpl_NormU32 (u32 en)" "WebRtcSpl_NormU32 (u32 en) \<le> 31" using NormU32_bounds by simp_all
  then have tot: "-14 \<le> tot" "tot \<le> 49" using sc by (simp_all add: tot_def)
  define f where "f = shr (e mod 16384) 4"
  have m: "0 \<le> e mod 16384" "e mod 16384 \<le> 16383"
    using pos_mod_bound [of 16384 e] pos_mod_sign [of 16384 e] by linarith+
  have f: "0 \<le> f" "f \<le> 1023"
    using m(1) shr_mono [OF m(2), of 4] by (simp_all add: f_def shr_def)
  have mask: "e AND 16383 = e mod 16384"
    using take_bit_eq_mask [of 14 e] by (simp add: take_bit_eq_mod mask_eq_exp_minus_1)
  define a where "a = shr (24660 * (14336 + f)) 19"
  define b where "b = shr (tot * 24660) 9"
  have a: "0 \<le> a" "a \<le> 722"
    using f shr_mono [of "24660 * (14336 + f)" "24660 * 15359" 19] by (simp_all add: a_def shr_def)
  have b: "-675 \<le> b" "b \<le> 2360"
    using shr_mono [of "- 14 * 24660" "tot * 24660" 9] shr_mono [of "tot * 24660" "49 * 24660" 9] tot
    by (simp_all add: b_def shr_def)
  have le: "log_energy_of e tot = max 0 (a + b)" by (simp add: log_energy_of_def a_def b_def f_def)
  have m1: "WEBRTC_SPL_MUL_16_16_RSFT 24660 (14336 + f) 19 = a"
    using f by (simp add: WEBRTC_SPL_MUL_16_16_RSFT_def mul_16_16_exact s16_id a_def)
  have m2: "WEBRTC_SPL_MUL_16_16_RSFT tot 24660 9 = b"
    using tot by (simp add: WEBRTC_SPL_MUL_16_16_RSFT_def mul_16_16_exact s16_id b_def)
  have l2: "s16 (14336 + s16 f) = 14336 + f" using f by (simp add: s16_id)
  have s1: "s16 (a + b) = a + b" using a b by (simp add: s16_id)
  have s2: "s16 ((if a + b < 0 then 0 else a + b) + offset) = log_energy_of e tot + offset"
    using a b off by (simp add: s16_id le max_def)
  have e': "(if 17 - WebRtcSpl_NormU32 (u32 en) < 0
       then u32 (shl (u32 en) (nat (- (17 - WebRtcSpl_NormU32 (u32 en)))))
       else shr (u32 en) (nat (17 - WebRtcSpl_NormU32 (u32 en)))) = e"
    unfolding e_def normalize15_def Let_def ..
  have t': "scaling + (17 - WebRtcSpl_NormU32 (u32 en)) = tot" by (simp add: tot_def)
  show ?thesis
    unfolding LogOfEnergy_def en Let_def case_prod_conv e' t' mask f_def [symmetric]
      kLogConst_def kLogEnergyIntPart_def kMinEnergy_def l2 m1 m2 s1 s2
    using nz by simp
qed

lemma LogOfEnergy_bounds:
  assumes "0 \<le> offset" and "offset \<le> 1000" and "0 \<le> n" and "n < 2 ^ b" and "1 \<le> b" and "b \<le> 6"
  shows "offset \<le> snd (LogOfEnergy xs n offset total_energy) \<and>
    snd (LogOfEnergy xs n offset total_energy) \<le> offset + 722 + shr ((int b + 16) * 24660) 9"
proof -
  obtain en scaling where en: "WebRtcSpl_Energy xs n = (en, scaling)" by (cases "WebRtcSpl_Energy xs n")
  show ?thesis
  proof (cases "u32 en = 0")
    case True
    then show ?thesis by (simp add: LogOfEnergy_def en)
  next
    case False
    have "scaling + 17 - WebRtcSpl_NormU32 (u32 en) \<le> int b + 16"
      using Energy_scaling_bounds [OF en assms(3-5)] NormU32_bounds [of "u32 en"] assms(6) by simp
    moreover have "(2::int) ^ b \<le> 2 ^ 6" using assms(6) by (intro power_increasing) simp_all
    then have "n < 64" using assms(4) by simp
    note eq = LogOfEnergy_eq [OF en False assms(1-3) this, of total_energy]
    have "0 \<le> log_energy_of (normalize15 (u32 en)) (scaling + 17 - WebRtcSpl_NormU32 (u32 en)) \<and>
        log_energy_of (normalize15 (u32 en)) (scaling + 17 - WebRtcSpl_NormU32 (u32 en))
          \<le> 722 + shr ((int b + 16) * 24660) 9"
      by (rule log_energy_of_bounds) (use calculation in simp_all)
    then show ?thesis unfolding eq snd_conv by linarith
  qed
qed

lemma LogOfEnergy_total:
  assumes "0 \<le> total_energy" and "total_energy \<le> 16393" and "0 \<le> offset" and "offset \<le> 1000"
    and "0 \<le> n" and "n < 64"
  shows "total_energy \<le> fst (LogOfEnergy xs n offset total_energy) \<and>
    fst (LogOfEnergy xs n offset total_energy) \<le> 16393"
proof -
  obtain en scaling where en: "WebRtcSpl_Energy xs n = (en, scaling)" by (cases "WebRtcSpl_Energy xs n")
  show ?thesis
  proof (cases "u32 en = 0")
    case True
    then show ?thesis using assms by (simp add: LogOfEnergy_def en)
  next
    case False
    define tot where "tot = scaling + 17 - WebRtcSpl_NormU32 (u32 en)"
    define e where "e = normalize15 (u32 en)"
    have "0 < u32 en" "u32 en < 4294967296"
      using False in_u32_u32 [of en] by (simp_all add: in_u32_def del: in_u32_u32)
    then have e: "16384 \<le> e" "e < 32768" using normalize15_bounds by (simp_all add: e_def)
    define q where "q = shr e (nat (- tot))"
    have "q \<le> 16383" if "tot < 0"
    proof -
      define k where "k = nat (- tot) - 1"
      have k: "nat (- tot) = Suc k" using that by (simp add: k_def)
      have "shr e (Suc k) = shr (e div 2) k" by (simp add: shr_def zdiv_zmult2_eq)
      also have "\<dots> \<le> e div 2" using e by (intro shr_le_self) simp
      finally show ?thesis using e k by (simp add: q_def)
    qed
    moreover have "0 \<le> q" using e by (simp add: q_def)
    ultimately show ?thesis
      using LogOfEnergy_eq [OF en False assms(3-6), of total_energy] assms(1,2)
      by (auto simp: tot_def [symmetric] e_def [symmetric] q_def [symmetric] s16_id)
  qed
qed

section \<open>The features of a frame\<close>

definition filters_only :: "VadInstT \<Rightarrow> VadInstT \<Rightarrow> bool" where
  "filters_only self self' \<longleftrightarrow>
     self' = self\<lparr>upper_state := upper_state self', lower_state := lower_state self',
                  hp_filter_state := hp_filter_state self'\<rparr> \<and>
     length (upper_state self') = length (upper_state self) \<and>
     length (lower_state self') = length (lower_state self)"

lemma filters_only_refl: "filters_only self self"
  by (simp add: filters_only_def)

lemma filters_only_trans: "filters_only a b \<Longrightarrow> filters_only b c \<Longrightarrow> filters_only a c"
  unfolding filters_only_def by (cases a; cases b; cases c) simp

lemma split_band_filters_only: "filters_only self (fst (split_band self b xs n))"
  by (simp add: filters_only_def split_band_def Let_def case_prod_beta)

lemma split_band_hp_filter [simp]: "hp_filter_state (fst (split_band self b xs n)) = hp_filter_state self"
  by (simp add: split_band_def Let_def case_prod_beta)

text \<open>A frame of 10, 20 or 30 ms at 8 kHz, and the lengths after each split.\<close>

definition frame_len :: "int \<Rightarrow> bool" where
  "frame_len n \<longleftrightarrow> n = 80 \<or> n = 160 \<or> n = 240"

definition features_ok :: "int list \<Rightarrow> bool" where
  "features_ok f \<longleftrightarrow> length f = 6 \<and> (\<forall>x\<in>set f. 176 \<le> x \<and> x \<le> 2053)"

lemma features_ok_nth: "features_ok f \<Longrightarrow> c < 6 \<Longrightarrow> 176 \<le> f ! c \<and> f ! c \<le> 2053"
  unfolding features_ok_def by (metis nth_mem)

lemma frame_len_halves:
  assumes "frame_len n"
  shows "0 \<le> shr (shr n 1) 1" "shr (shr n 1) 1 < 2 ^ 6" "0 \<le> shr (shr (shr n 1) 1) 1"
    "shr (shr (shr n 1) 1) 1 < 2 ^ 5" "0 \<le> shr (shr (shr (shr n 1) 1) 1) 1"
    "shr (shr (shr (shr n 1) 1) 1) 1 < 2 ^ 4"
  using assms by (auto simp: frame_len_def shr_def)

lemma band_feature_bounds:
  assumes "frame_len n"
  shows "176 \<le> snd (LogOfEnergy xs (shr (shr n 1) 1) 176 e) \<and> snd (LogOfEnergy xs (shr (shr n 1) 1) 176 e) \<le> 2053"
    and "176 \<le> snd (LogOfEnergy xs (shr (shr (shr n 1) 1) 1) 272 e) \<and> snd (LogOfEnergy xs (shr (shr (shr n 1) 1) 1) 272 e) \<le> 2053"
    and "176 \<le> snd (LogOfEnergy xs (shr (shr (shr (shr n 1) 1) 1) 1) 368 e) \<and>
      snd (LogOfEnergy xs (shr (shr (shr (shr n 1) 1) 1) 1) 368 e) \<le> 2053"
proof -
  note h = frame_len_halves [OF assms]
  have c: "shr ((int 6 + 16) * 24660) 9 = 1059" "shr ((int 5 + 16) * 24660) 9 = 1011"
    "shr ((int 4 + 16) * 24660) 9 = 963" by (simp_all add: shr_def)
  show "176 \<le> snd (LogOfEnergy xs (shr (shr n 1) 1) 176 e) \<and> snd (LogOfEnergy xs (shr (shr n 1) 1) 176 e) \<le> 2053"
    using LogOfEnergy_bounds [of 176 "shr (shr n 1) 1" 6 xs e, unfolded c] h by linarith
  show "176 \<le> snd (LogOfEnergy xs (shr (shr (shr n 1) 1) 1) 272 e) \<and> snd (LogOfEnergy xs (shr (shr (shr n 1) 1) 1) 272 e) \<le> 2053"
    using LogOfEnergy_bounds [of 272 "shr (shr (shr n 1) 1) 1" 5 xs e, unfolded c] h by linarith
  show "176 \<le> snd (LogOfEnergy xs (shr (shr (shr (shr n 1) 1) 1) 1) 368 e) \<and>
      snd (LogOfEnergy xs (shr (shr (shr (shr n 1) 1) 1) 1) 368 e) \<le> 2053"
    using LogOfEnergy_bounds [of 368 "shr (shr (shr (shr n 1) 1) 1) 1" 4 xs e, unfolded c] h by linarith
qed

theorem CalculateFeatures_ok:
  assumes len: "frame_len n" and res: "WebRtcVad_CalculateFeatures self data_in n = (self', features, total_energy)"
  shows "features_ok features \<and> filters_only self self' \<and>
    (length (hp_filter_state self) = 4 \<longrightarrow> length (hp_filter_state self') = 4) \<and> 0 \<le> total_energy"
proof -
  define l2 where "l2 = shr (shr n 1) 1"
  define l3 where "l3 = shr l2 1"
  define l4 where "l4 = shr l3 1"
  obtain s0 hp0 lp0 where 0: "split_band self 0 data_in n = (s0, hp0, lp0)" by (metis prod_cases3)
  obtain s1 hp1 lp1 where 1: "split_band s0 1 hp0 (shr n 1) = (s1, hp1, lp1)" by (metis prod_cases3)
  obtain e5 f5 where 5: "LogOfEnergy hp1 l2 176 0 = (e5, f5)" by (metis surj_pair)
  obtain e4 f4 where 4: "LogOfEnergy lp1 l2 176 e5 = (e4, f4)" by (metis surj_pair)
  obtain s2 hp2 lp2 where 2: "split_band s1 2 lp0 (shr n 1) = (s2, hp2, lp2)" by (metis prod_cases3)
  obtain e3 f3 where 3: "LogOfEnergy hp2 l2 176 e4 = (e3, f3)" by (metis surj_pair)
  obtain s3 hp3 lp3 where b3: "split_band s2 3 lp2 l2 = (s3, hp3, lp3)" by (metis prod_cases3)
  obtain e2 f2 where 6: "LogOfEnergy hp3 l3 272 e3 = (e2, f2)" by (metis surj_pair)
  obtain s4 hp4 lp4 where b4: "split_band s3 4 lp3 l3 = (s4, hp4, lp4)" by (metis prod_cases3)
  obtain e1 f1 where 7: "LogOfEnergy hp4 l4 368 e2 = (e1, f1)" by (metis surj_pair)
  obtain h hp5 where hp: "HighPassFilter lp4 l4 (hp_filter_state s4) = (h, hp5)" by (metis surj_pair)
  obtain e0 f0 where 8: "LogOfEnergy hp5 l4 368 e1 = (e0, f0)" by (metis surj_pair)
  have offs: "kOffsetVector ! 5 = 176" "kOffsetVector ! 4 = 176" "kOffsetVector ! 3 = 176"
    "kOffsetVector ! 2 = 272" "kOffsetVector ! 1 = 368" "kOffsetVector ! 0 = 368"
    by (simp_all add: kOffsetVector_def)
  have "WebRtcVad_CalculateFeatures self data_in n = (s4\<lparr>hp_filter_state := h\<rparr>, [f0, f1, f2, f3, f4, f5], e0)"
    unfolding WebRtcVad_CalculateFeatures_def Let_def offs l2_def [symmetric] l3_def [symmetric]
      l4_def [symmetric] 0 1 2 3 4 5 6 7 8 b3 b4 hp case_prod_conv ..
  then have eq: "self' = s4\<lparr>hp_filter_state := h\<rparr>" "features = [f0, f1, f2, f3, f4, f5]" "total_energy = e0"
    using res by simp_all
  note fb = band_feature_bounds [OF len, folded l2_def, folded l3_def, folded l4_def]
  have f: "features_ok features"
    using fb(1) [of hp1 0] fb(1) [of lp1 e5] fb(1) [of hp2 e4] fb(2) [of hp3 e3] fb(3) [of hp4 e2]
      fb(3) [of hp5 e1] by (simp add: 3 4 5 6 7 8 eq features_ok_def)
  have l: "0 \<le> l2" "l2 < 64" "0 \<le> l3" "l3 < 64" "0 \<le> l4" "l4 < 64"
    using frame_len_halves [OF len] by (simp_all add: l2_def l3_def l4_def)
  have tot: "0 \<le> e5" "e5 \<le> 16393" using LogOfEnergy_total [of 0 176 l2 hp1] l 5 by simp_all
  then have "0 \<le> e4" "e4 \<le> 16393" using LogOfEnergy_total [of e5 176 l2 lp1] l 4 by simp_all
  then have "0 \<le> e3" "e3 \<le> 16393" using LogOfEnergy_total [of e4 176 l2 hp2] l 3 by simp_all
  then have "0 \<le> e2" "e2 \<le> 16393" using LogOfEnergy_total [of e3 272 l3 hp3] l 6 by simp_all
  then have "0 \<le> e1" "e1 \<le> 16393" using LogOfEnergy_total [of e2 368 l4 hp4] l 7 by simp_all
  then have "0 \<le> e0" using LogOfEnergy_total [of e1 368 l4 hp5] l 8 by simp
  moreover have fo: "filters_only self s0" "filters_only s0 s1" "filters_only s1 s2" "filters_only s2 s3" "filters_only s3 s4"
    using split_band_filters_only [of self 0 data_in n] split_band_filters_only [of s0 1 hp0 "shr n 1"]
      split_band_filters_only [of s1 2 lp0 "shr n 1"] split_band_filters_only [of s2 3 lp2 l2]
      split_band_filters_only [of s3 4 lp3 l3] by (simp_all only: 0 1 2 b3 b4 fst_conv)
  moreover have "filters_only s4 self'" by (simp add: filters_only_def eq)
  then have "filters_only self self'" using fo filters_only_trans by blast
  moreover have "hp_filter_state s4 = hp_filter_state self"
    using split_band_hp_filter [of self 0 data_in n] split_band_hp_filter [of s0 1 hp0 "shr n 1"]
      split_band_hp_filter [of s1 2 lp0 "shr n 1"] split_band_hp_filter [of s2 3 lp2 l2]
      split_band_hp_filter [of s3 4 lp3 l3]
    by (simp only: 0 1 2 b3 b4 fst_conv)
  then have "length (hp_filter_state self) = 4 \<longrightarrow> length h = 4"
    using hp HighPassFilter_loop_out [of "hp_filter_state self"] by (metis HighPassFilter_def fst_conv)
  ultimately show ?thesis using f by (simp add: eq(1,3))
qed

end
