(* ===== verification/Vad_Core.thy ===== *)
theory Vad_Core
  imports Vad_Gmm Vad_Sp Vad_Filterbank
begin

text \<open>
  \<open>vad_core.c\<close>: the decision of the voice activity detector.  \<open>GmmProbability\<close> tests noise against
  speech in six channels, updates the Gaussian models, and smooths the decision with a hangover.
  Its body is split at the comments of the source: the thresholds, the likelihood test of a
  channel, the update of one Gaussian, the separation of the models of a channel, the limits of
  the means, the hangover.
\<close>

definition kSpectrumWeight :: "int list" where "kSpectrumWeight = [6, 8, 10, 12, 14, 16]"
definition kNoiseUpdateConst :: int where "kNoiseUpdateConst = 655"
definition kSpeechUpdateConst :: int where "kSpeechUpdateConst = 6554"
definition kBackEta :: int where "kBackEta = 154"
definition kMinimumDifference :: "int list" where "kMinimumDifference = [544, 544, 576, 576, 576, 576]"
definition kMaximumSpeech :: "int list" where "kMaximumSpeech = [11392, 11392, 11520, 11520, 11520, 11520]"
definition kMinimumMean :: "int list" where "kMinimumMean = [640, 768]"
definition kMaximumNoise :: "int list" where "kMaximumNoise = [9216, 9088, 8960, 8832, 8704, 8576]"
definition kNoiseDataWeights :: "int list" where
  "kNoiseDataWeights = [34, 62, 72, 66, 53, 25, 94, 66, 56, 62, 75, 103]"
definition kSpeechDataWeights :: "int list" where
  "kSpeechDataWeights = [48, 82, 45, 87, 50, 47, 80, 46, 83, 41, 78, 81]"
definition kNoiseDataMeans :: "int list" where
  "kNoiseDataMeans = [6738, 4892, 7065, 6715, 6771, 3369, 7646, 3863, 7820, 7266, 5020, 4362]"
definition kSpeechDataMeans :: "int list" where
  "kSpeechDataMeans = [8306, 10085, 10078, 11823, 11843, 6309, 9473, 9571, 10879, 7581, 8180, 7483]"
definition kNoiseDataStds :: "int list" where
  "kNoiseDataStds = [378, 1064, 493, 582, 688, 593, 474, 697, 475, 688, 421, 455]"
definition kSpeechDataStds :: "int list" where
  "kSpeechDataStds = [555, 505, 567, 524, 585, 1231, 509, 828, 492, 1540, 1079, 850]"
definition kMaxSpeechFrames :: int where "kMaxSpeechFrames = 6"
definition kMinStd :: int where "kMinStd = 384"
definition kDefaultMode :: int where "kDefaultMode = 0"
definition kInitCheck :: int where "kInitCheck = 42"

definition kOverHangMax1Q :: "int list" where "kOverHangMax1Q = [8, 4, 3]"
definition kOverHangMax2Q :: "int list" where "kOverHangMax2Q = [14, 7, 5]"
definition kLocalThresholdQ :: "int list" where "kLocalThresholdQ = [24, 21, 24]"
definition kGlobalThresholdQ :: "int list" where "kGlobalThresholdQ = [57, 48, 57]"
definition kOverHangMax1LBR :: "int list" where "kOverHangMax1LBR = [8, 4, 3]"
definition kOverHangMax2LBR :: "int list" where "kOverHangMax2LBR = [14, 7, 5]"
definition kLocalThresholdLBR :: "int list" where "kLocalThresholdLBR = [37, 32, 37]"
definition kGlobalThresholdLBR :: "int list" where "kGlobalThresholdLBR = [100, 80, 100]"
definition kOverHangMax1AGG :: "int list" where "kOverHangMax1AGG = [6, 3, 2]"
definition kOverHangMax2AGG :: "int list" where "kOverHangMax2AGG = [9, 5, 3]"
definition kLocalThresholdAGG :: "int list" where "kLocalThresholdAGG = [82, 78, 82]"
definition kGlobalThresholdAGG :: "int list" where "kGlobalThresholdAGG = [285, 260, 285]"
definition kOverHangMax1VAG :: "int list" where "kOverHangMax1VAG = [6, 3, 2]"
definition kOverHangMax2VAG :: "int list" where "kOverHangMax2VAG = [9, 5, 3]"
definition kLocalThresholdVAG :: "int list" where "kLocalThresholdVAG = [94, 94, 94]"
definition kGlobalThresholdVAG :: "int list" where "kGlobalThresholdVAG = [1100, 1050, 1100]"

section \<open>The operations\<close>

text \<open>The pointers \<open>data\<close> and \<open>weights\<close> are the arrays with the index \<open>channel\<close> they point at.\<close>

definition WeightedAverage :: "int list \<Rightarrow> nat \<Rightarrow> int \<Rightarrow> int list \<Rightarrow> int list \<times> int" where
  "WeightedAverage data channel offset weights =
     fold (\<lambda>k (data, weighted_average).
             let data = data[channel + k * kNumChannels := s16 (data ! (channel + k * kNumChannels) + offset)]
             in (data, s32 (weighted_average
                   + data ! (channel + k * kNumChannels) * weights ! (channel + k * kNumChannels))))
       [0..<kNumGaussians] (data, 0)"

text \<open>\<open>overhead1\<close>, \<open>overhead2\<close>, \<open>individualTest\<close>, \<open>totalTest\<close>.\<close>

definition gmm_thresholds :: "VadInstT \<Rightarrow> int \<Rightarrow> int \<times> int \<times> int \<times> int" where
  "gmm_thresholds self frame_length =
     (let i = (if frame_length = 80 then 0 else if frame_length = 160 then 1 else 2 :: nat)
      in (over_hang_max_1 self ! i, over_hang_max_2 self ! i, individual self ! i, total self ! i))"

text \<open>The variables the likelihood test leaves for the decision and the update.\<close>

record gmm_test =
  sum_log_likelihood_ratios :: int
  vadflag :: int
  ngprvec :: "int list"
  sgprvec :: "int list"
  deltaN :: "int list"
  deltaS :: "int list"

text \<open>The probabilities of the two Gaussians of a channel, weighted, and their deltas.\<close>

definition gmm_channel_probability ::
  "int \<Rightarrow> int list \<Rightarrow> int list \<Rightarrow> int list \<Rightarrow> nat \<Rightarrow> (int \<times> int) \<times> (int \<times> int)" where
  "gmm_channel_probability feature means stds weights channel =
     (let (p0, d0) = WebRtcVad_GaussianProbability feature (means ! channel) (stds ! channel);
          (p1, d1) = WebRtcVad_GaussianProbability feature (means ! (channel + kNumChannels))
                       (stds ! (channel + kNumChannels))
      in ((s32 (weights ! channel * p0), d0), (s32 (weights ! (channel + kNumChannels) * p1), d1)))"

text \<open>The conditional probability of the first Gaussian, Q14.\<close>

definition gmm_conditional :: "int \<Rightarrow> int \<Rightarrow> int" where
  "gmm_conditional probability0 h =
     (let tmp1_s32 = s32 (u32 (shl (u32 probability0 AND 0xFFFFF000) 2))
      in s16 (WebRtcSpl_DivW32W16 tmp1_s32 h))"

definition gmm_channel_test :: "VadInstT \<Rightarrow> int list \<Rightarrow> int \<Rightarrow> nat \<Rightarrow> gmm_test \<Rightarrow> gmm_test" where
  "gmm_channel_test self features individualTest channel t =
     (let ((n0, dn0), (n1, dn1)) = gmm_channel_probability (features ! channel)
             (noise_means self) (noise_stds self) kNoiseDataWeights channel;
          ((p0, ds0), (p1, ds1)) = gmm_channel_probability (features ! channel)
             (speech_means self) (speech_stds self) kSpeechDataWeights channel;
          h0_test = s32 (n0 + n1);
          h1_test = s32 (p0 + p1);
          shifts_h0 = (if h0_test = 0 then 31 else WebRtcSpl_NormW32 h0_test);
          shifts_h1 = (if h1_test = 0 then 31 else WebRtcSpl_NormW32 h1_test);
          log_likelihood_ratio = s16 (shifts_h0 - shifts_h1);
          h0 = s16 (shr h0_test 12);
          h1 = s16 (shr h1_test 12);
          ng = (if h0 > 0
                then let q = gmm_conditional n0 h0
                     in (ngprvec t)[channel := q, channel + kNumChannels := s16 (16384 - q)]
                else (ngprvec t)[channel := 16384]);
          sg = (if h1 > 0
                then let q = gmm_conditional p0 h1
                     in (sgprvec t)[channel := q, channel + kNumChannels := s16 (16384 - q)]
                else sgprvec t)
      in t\<lparr>sum_log_likelihood_ratios :=
               s32 (sum_log_likelihood_ratios t + log_likelihood_ratio * kSpectrumWeight ! channel),
            vadflag := (if shl log_likelihood_ratio 2 > individualTest then 1 else vadflag t),
            ngprvec := ng, sgprvec := sg,
            deltaN := (deltaN t)[channel := dn0, channel + kNumChannels := dn1],
            deltaS := (deltaS t)[channel := ds0, channel + kNumChannels := ds1]\<rparr>)"

text \<open>\<open>deltaN\<close> and \<open>deltaS\<close> have no initial value in the source; every entry is written before it is read.\<close>

definition gmm_decision :: "VadInstT \<Rightarrow> int list \<Rightarrow> int \<Rightarrow> int \<Rightarrow> gmm_test" where
  "gmm_decision self features individualTest totalTest =
     (let zeros = replicate kTableSize 0;
          t = fold (gmm_channel_test self features individualTest) [0..<kNumChannels]
                \<lparr>sum_log_likelihood_ratios = 0, vadflag = 0, ngprvec = zeros, sgprvec = zeros,
                  deltaN = zeros, deltaS = zeros\<rparr>
      in t\<lparr>vadflag := (if sum_log_likelihood_ratios t \<ge> totalTest then 1 else vadflag t)\<rparr>)"

definition gmm_noise_mean :: "gmm_test \<Rightarrow> int \<Rightarrow> int \<Rightarrow> nat \<Rightarrow> nat \<Rightarrow> int \<Rightarrow> int" where
  "gmm_noise_mean t feature_minimum tmp1_s16 channel k nmk =
     (let gaussian = channel + k * kNumChannels;
          nmk2 = (if vadflag t = 0
                  then let delt = s16 (WEBRTC_SPL_MUL_16_16_RSFT (ngprvec t ! gaussian) (deltaN t ! gaussian) 11)
                       in s16 (nmk + s16 (WEBRTC_SPL_MUL_16_16_RSFT delt kNoiseUpdateConst 22))
                  else nmk);
          ndelt = s16 (shl feature_minimum 4 - tmp1_s16);
          nmk3 = s16 (nmk2 + s16 (WEBRTC_SPL_MUL_16_16_RSFT ndelt kBackEta 9));
          tmp_s16 = s16 (shl (int k + 5) 7);
          nmk3 = (if nmk3 < tmp_s16 then tmp_s16 else nmk3);
          tmp_s16 = s16 (shl (72 + int k - int channel) 7)
      in if nmk3 > tmp_s16 then tmp_s16 else nmk3)"

definition gmm_speech_mean :: "gmm_test \<Rightarrow> int \<Rightarrow> nat \<Rightarrow> nat \<Rightarrow> int \<Rightarrow> int" where
  "gmm_speech_mean t maxspe gaussian k smk =
     (let delt = s16 (WEBRTC_SPL_MUL_16_16_RSFT (sgprvec t ! gaussian) (deltaS t ! gaussian) 11);
          tmp_s16 = s16 (WEBRTC_SPL_MUL_16_16_RSFT delt kSpeechUpdateConst 21);
          smk2 = s16 (smk + shr (tmp_s16 + 1) 1);
          maxmu = s16 (maxspe + 640);
          smk2 = (if smk2 < kMinimumMean ! k then kMinimumMean ! k else smk2)
      in if smk2 > maxmu then maxmu else smk2)"

definition gmm_speech_std :: "gmm_test \<Rightarrow> int \<Rightarrow> nat \<Rightarrow> int \<Rightarrow> int \<Rightarrow> int" where
  "gmm_speech_std t feature gaussian smk ssk =
     (let tmp_s16 = s16 (shr (smk + 4) 3);
          tmp_s16 = s16 (feature - tmp_s16);
          tmp1_s32 = WEBRTC_SPL_MUL_16_16_RSFT (deltaS t ! gaussian) tmp_s16 3;
          tmp2_s32 = s32 (tmp1_s32 - 4096);
          tmp_s16 = shr (sgprvec t ! gaussian) 2;
          tmp1_s32 = s32 (tmp_s16 * tmp2_s32);
          tmp2_s32 = shr tmp1_s32 4;
          tmp_s16 = (if tmp2_s32 > 0 then s16 (WebRtcSpl_DivW32W16 tmp2_s32 (s16 (ssk * 10)))
                     else s16 (- s16 (WebRtcSpl_DivW32W16 (s32 (- tmp2_s32)) (s16 (ssk * 10)))));
          tmp_s16 = s16 (tmp_s16 + 128);
          ssk = s16 (ssk + shr tmp_s16 8)
      in if ssk < kMinStd then kMinStd else ssk)"

definition gmm_noise_std :: "gmm_test \<Rightarrow> int \<Rightarrow> nat \<Rightarrow> int \<Rightarrow> int \<Rightarrow> int" where
  "gmm_noise_std t feature gaussian nmk nsk =
     (let tmp_s16 = s16 (feature - shr nmk 3);
          tmp1_s32 = WEBRTC_SPL_MUL_16_16_RSFT (deltaN t ! gaussian) tmp_s16 3;
          tmp1_s32 = s32 (tmp1_s32 - 4096);
          tmp_s16 = s16 (shr (ngprvec t ! gaussian + 2) 2);
          tmp2_s32 = s32 (tmp_s16 * tmp1_s32);
          tmp1_s32 = shr tmp2_s32 14;
          tmp_s16 = (if tmp1_s32 > 0 then s16 (WebRtcSpl_DivW32W16 tmp1_s32 nsk)
                     else s16 (- s16 (WebRtcSpl_DivW32W16 (s32 (- tmp1_s32)) nsk)));
          tmp_s16 = s16 (tmp_s16 + 32);
          nsk = s16 (nsk + shr tmp_s16 6)
      in if nsk < kMinStd then kMinStd else nsk)"

definition gmm_update_gaussian ::
  "gmm_test \<Rightarrow> int \<Rightarrow> int \<Rightarrow> int \<Rightarrow> int \<Rightarrow> nat \<Rightarrow> nat \<Rightarrow> VadInstT \<Rightarrow> VadInstT" where
  "gmm_update_gaussian t feature feature_minimum tmp1_s16 maxspe channel k self =
     (let gaussian = channel + k * kNumChannels;
          nmk = noise_means self ! gaussian;
          smk = speech_means self ! gaussian;
          nsk = noise_stds self ! gaussian;
          ssk = speech_stds self ! gaussian;
          self = self\<lparr>noise_means := (noise_means self)[gaussian :=
                          gmm_noise_mean t feature_minimum tmp1_s16 channel k nmk]\<rparr>
      in if vadflag t \<noteq> 0
         then self\<lparr>speech_means := (speech_means self)[gaussian := gmm_speech_mean t maxspe gaussian k smk],
                   speech_stds := (speech_stds self)[gaussian := gmm_speech_std t feature gaussian smk ssk]\<rparr>
         else self\<lparr>noise_stds := (noise_stds self)[gaussian := gmm_noise_std t feature gaussian nmk nsk]\<rparr>)"

text \<open>Returns the instance and the two global means, of speech and of noise.\<close>

definition gmm_separate :: "nat \<Rightarrow> VadInstT \<Rightarrow> VadInstT \<times> int \<times> int" where
  "gmm_separate channel self =
     (let (nm, noise_global_mean) = WeightedAverage (noise_means self) channel 0 kNoiseDataWeights;
          self = self\<lparr>noise_means := nm\<rparr>;
          (sm, speech_global_mean) = WeightedAverage (speech_means self) channel 0 kSpeechDataWeights;
          self = self\<lparr>speech_means := sm\<rparr>;
          diff = s16 (s16 (shr speech_global_mean 9) - s16 (shr noise_global_mean 9))
      in if diff < kMinimumDifference ! channel
         then
           let tmp_s16 = s16 (kMinimumDifference ! channel - diff);
               tmp1_s16 = s16 (WEBRTC_SPL_MUL_16_16_RSFT 13 tmp_s16 2);
               tmp2_s16 = s16 (WEBRTC_SPL_MUL_16_16_RSFT 3 tmp_s16 2);
               (sm, speech_global_mean) =
                 WeightedAverage (speech_means self) channel tmp1_s16 kSpeechDataWeights;
               self = self\<lparr>speech_means := sm\<rparr>;
               (nm, noise_global_mean) =
                 WeightedAverage (noise_means self) channel (s16 (- tmp2_s16)) kNoiseDataWeights;
               self = self\<lparr>noise_means := nm\<rparr>
           in (self, speech_global_mean, noise_global_mean)
         else (self, speech_global_mean, noise_global_mean))"

definition gmm_lower_means :: "int list \<Rightarrow> nat \<Rightarrow> int \<Rightarrow> int list" where
  "gmm_lower_means data channel tmp2_s16 =
     fold (\<lambda>k data. data[channel + k * kNumChannels := s16 (data ! (channel + k * kNumChannels) - tmp2_s16)])
       [0..<kNumGaussians] data"

definition gmm_limit :: "nat \<Rightarrow> int \<Rightarrow> int \<Rightarrow> VadInstT \<Rightarrow> VadInstT" where
  "gmm_limit channel speech_global_mean noise_global_mean self =
     (let tmp2_s16 = s16 (shr speech_global_mean 7);
          self = (if tmp2_s16 > kMaximumSpeech ! channel
                  then self\<lparr>speech_means := gmm_lower_means (speech_means self) channel
                                (s16 (tmp2_s16 - kMaximumSpeech ! channel))\<rparr>
                  else self);
          tmp2_s16 = s16 (shr noise_global_mean 7)
      in if tmp2_s16 > kMaximumNoise ! channel
         then self\<lparr>noise_means := gmm_lower_means (noise_means self) channel
                       (s16 (tmp2_s16 - kMaximumNoise ! channel))\<rparr>
         else self)"

definition gmm_update_channel ::
  "gmm_test \<Rightarrow> int list \<Rightarrow> nat \<Rightarrow> VadInstT \<times> int \<Rightarrow> VadInstT \<times> int" where
  "gmm_update_channel t features channel = (\<lambda>(self, maxspe).
     let (self, feature_minimum) = WebRtcVad_FindMinimum self (features ! channel) channel;
         (nm, noise_global_mean) = WeightedAverage (noise_means self) channel 0 kNoiseDataWeights;
         self = self\<lparr>noise_means := nm\<rparr>;
         tmp1_s16 = s16 (shr noise_global_mean 6);
         self = fold (gmm_update_gaussian t (features ! channel) feature_minimum tmp1_s16 maxspe channel)
                  [0..<kNumGaussians] self;
         (self, speech_global_mean, noise_global_mean) = gmm_separate channel self
     in (gmm_limit channel speech_global_mean noise_global_mean self, kMaximumSpeech ! channel))"

definition gmm_update :: "gmm_test \<Rightarrow> int list \<Rightarrow> VadInstT \<Rightarrow> VadInstT" where
  "gmm_update t features self = fst (fold (gmm_update_channel t features) [0..<kNumChannels] (self, 12800))"

definition gmm_hangover :: "int \<Rightarrow> int \<Rightarrow> int \<Rightarrow> VadInstT \<Rightarrow> VadInstT \<times> int" where
  "gmm_hangover overhead1 overhead2 flag self =
     (if flag = 0
      then
        let (self, flag) =
              (if over_hang self > 0
               then (self\<lparr>over_hang := s16 (over_hang self - 1)\<rparr>, s16 (2 + over_hang self))
               else (self, flag))
        in (self\<lparr>num_of_speech := 0\<rparr>, flag)
      else
        let self = self\<lparr>num_of_speech := s16 (num_of_speech self + 1)\<rparr>
        in if num_of_speech self > kMaxSpeechFrames
           then (self\<lparr>num_of_speech := kMaxSpeechFrames, over_hang := overhead2\<rparr>, flag)
           else (self\<lparr>over_hang := overhead1\<rparr>, flag))"

definition GmmProbability :: "VadInstT \<Rightarrow> int list \<Rightarrow> int \<Rightarrow> int \<Rightarrow> VadInstT \<times> int" where
  "GmmProbability self features total_power frame_length =
     (let (overhead1, overhead2, individualTest, totalTest) = gmm_thresholds self frame_length;
          (self, flag) =
            (if total_power > kMinEnergy
             then
               let t = gmm_decision self features individualTest totalTest;
                   self = gmm_update t features self
               in (self\<lparr>frame_counter := s32 (frame_counter self + 1)\<rparr>, vadflag t)
             else (self, 0))
      in gmm_hangover overhead1 overhead2 flag self)"

definition WebRtcVad_set_mode_core :: "VadInstT \<Rightarrow> int \<Rightarrow> VadInstT \<times> int" where
  "WebRtcVad_set_mode_core self mode =
     (if mode = 0 then
        (self\<lparr>over_hang_max_1 := kOverHangMax1Q, over_hang_max_2 := kOverHangMax2Q,
              individual := kLocalThresholdQ, total := kGlobalThresholdQ\<rparr>, 0)
      else if mode = 1 then
        (self\<lparr>over_hang_max_1 := kOverHangMax1LBR, over_hang_max_2 := kOverHangMax2LBR,
              individual := kLocalThresholdLBR, total := kGlobalThresholdLBR\<rparr>, 0)
      else if mode = 2 then
        (self\<lparr>over_hang_max_1 := kOverHangMax1AGG, over_hang_max_2 := kOverHangMax2AGG,
              individual := kLocalThresholdAGG, total := kGlobalThresholdAGG\<rparr>, 0)
      else if mode = 3 then
        (self\<lparr>over_hang_max_1 := kOverHangMax1VAG, over_hang_max_2 := kOverHangMax2VAG,
              individual := kLocalThresholdVAG, total := kGlobalThresholdVAG\<rparr>, 0)
      else (self, -1))"

text \<open>\<open>None\<close> is the \<open>NULL\<close> instance.\<close>

definition WebRtcVad_InitCore :: "VadInstT option \<Rightarrow> VadInstT option \<times> int" where
  "WebRtcVad_InitCore self =
     (case self of None \<Rightarrow> (None, -1)
      | Some self \<Rightarrow>
          let self = self\<lparr>vad := 1, frame_counter := 0, over_hang := 0, num_of_speech := 0,
                downsampling_filter_states := replicate 4 0,
                state_48_to_8 := WebRtcSpl_ResetResample48khzTo8khz,
                noise_means := kNoiseDataMeans, speech_means := kSpeechDataMeans,
                noise_stds := kNoiseDataStds, speech_stds := kSpeechDataStds,
                low_value_vector := replicate (16 * kNumChannels) 10000,
                index_vector := replicate (16 * kNumChannels) 0,
                upper_state := replicate 5 0, lower_state := replicate 5 0,
                hp_filter_state := replicate 4 0,
                mean_value := replicate kNumChannels 1600\<rparr>;
              (self, r) = WebRtcVad_set_mode_core self kDefaultMode
          in if r \<noteq> 0 then (Some self, -1)
             else (Some (self\<lparr>init_flag := kInitCheck\<rparr>), 0))"

definition WebRtcVad_CalcVad8khz :: "VadInstT \<Rightarrow> int list \<Rightarrow> int \<Rightarrow> VadInstT \<times> int" where
  "WebRtcVad_CalcVad8khz inst speech_frame frame_length =
     (let (inst, feature_vector, total_power) = WebRtcVad_CalculateFeatures inst speech_frame frame_length;
          (inst, v) = GmmProbability inst feature_vector total_power frame_length
      in (inst\<lparr>vad := v\<rparr>, v))"

definition WebRtcVad_CalcVad16khz :: "VadInstT \<Rightarrow> int list \<Rightarrow> int \<Rightarrow> VadInstT \<times> int" where
  "WebRtcVad_CalcVad16khz inst speech_frame frame_length =
     (let (speechNB, st) = WebRtcVad_Downsampling speech_frame
                             (downsampling_filter_states inst) frame_length;
          inst = inst\<lparr>downsampling_filter_states := st\<rparr>;
          len = frame_length sdiv 2
      in WebRtcVad_CalcVad8khz inst speechNB len)"

text \<open>The filter state of the first stage is the array from index 2 on.\<close>

definition WebRtcVad_CalcVad32khz :: "VadInstT \<Rightarrow> int list \<Rightarrow> int \<Rightarrow> VadInstT \<times> int" where
  "WebRtcVad_CalcVad32khz inst speech_frame frame_length =
     (let (speechWB, st) = WebRtcVad_Downsampling speech_frame
                             (drop 2 (downsampling_filter_states inst)) frame_length;
          inst = inst\<lparr>downsampling_filter_states := blit (downsampling_filter_states inst) 2 st\<rparr>;
          len = frame_length sdiv 2;
          (speechNB, st) = WebRtcVad_Downsampling speechWB (downsampling_filter_states inst) len;
          inst = inst\<lparr>downsampling_filter_states := st\<rparr>;
          len = len sdiv 2
      in WebRtcVad_CalcVad8khz inst speechNB len)"

text \<open>
  Every iteration converts \<open>speech_frame\<close> itself: the pointer is not advanced.  \<open>speech_nb\<close> has no
  initial value; every entry that is read has been written.
\<close>

definition CalcVad48khz_loop :: "int list \<Rightarrow> nat \<Rightarrow> State48khzTo8khz \<times> int list \<times> int list
    \<Rightarrow> State48khzTo8khz \<times> int list \<times> int list" where
  "CalcVad48khz_loop speech_frame num_10ms_frames =
     fold (\<lambda>i (state, tmp_mem, speech_nb).
             let (out, state, tmp_mem) = WebRtcSpl_Resample48khzTo8khz speech_frame state tmp_mem
             in (state, tmp_mem, blit speech_nb (i * 80) out))
       [0..<num_10ms_frames]"

definition WebRtcVad_CalcVad48khz :: "VadInstT \<Rightarrow> int list \<Rightarrow> int \<Rightarrow> VadInstT \<times> int" where
  "WebRtcVad_CalcVad48khz inst speech_frame frame_length =
     (let num_10ms_frames = frame_length sdiv 480;
          (state, tmp_mem, speech_nb) = CalcVad48khz_loop speech_frame (nat num_10ms_frames)
             (state_48_to_8 inst, replicate (480 + 256) 0, replicate 240 0);
          inst = inst\<lparr>state_48_to_8 := state\<rparr>
      in WebRtcVad_CalcVad8khz inst speech_nb (frame_length sdiv 6))"

section \<open>The models stay in range\<close>

lemma WeightedAverage_eq:
  assumes "length data = 12" and "c < 6"
  shows "WeightedAverage data c offset weights =
    (let x = s16 (data ! c + offset); y = s16 (data ! (c + 6) + offset)
     in (data[c := x, c + 6 := y], s32 (s32 (x * weights ! c) + y * weights ! (c + 6))))"
  using assms by (simp add: WeightedAverage_def kNumGaussians_def kNumChannels_def upt_rec Let_def)

lemma gmm_lower_means_eq:
  assumes "length data = 12" and "c < 6"
  shows "gmm_lower_means data c e = data[c := s16 (data ! c - e), c + 6 := s16 (data ! (c + 6) - e)]"
  using assms by (simp add: gmm_lower_means_def kNumGaussians_def kNumChannels_def upt_rec)

text \<open>
  The range of the two means of a channel.  The distance of the two speech means is bounded by
  the last update, their weighted average by the limit of the channel.
\<close>

definition speech_spread :: "nat \<Rightarrow> int" where
  "speech_spread c = (if c = 0 then 12800 else 11520)"

definition speech_ok :: "nat \<Rightarrow> int \<Rightarrow> int \<Rightarrow> bool" where
  "speech_ok c a b \<longleftrightarrow> 640 \<le> a \<and> 640 \<le> b \<and> \<bar>a - b\<bar> \<le> speech_spread c \<and>
     kSpeechDataWeights ! c * a + kSpeechDataWeights ! (c + 6) * b < 128 * (kMaximumSpeech ! c + 1)"

definition noise_ok :: "int \<Rightarrow> bool" where
  "noise_ok m \<longleftrightarrow> -1600 \<le> m \<and> m \<le> 9344"

definition std_ok :: "int \<Rightarrow> bool" where
  "std_ok d \<longleftrightarrow> 378 \<le> d \<and> d \<le> 32767"

definition chan_ok :: "nat \<Rightarrow> VadInstT \<Rightarrow> bool" where
  "chan_ok c self \<longleftrightarrow>
     noise_ok (noise_means self ! c) \<and> noise_ok (noise_means self ! (c + 6)) \<and>
     speech_ok c (speech_means self ! c) (speech_means self ! (c + 6)) \<and>
     std_ok (noise_stds self ! c) \<and> std_ok (noise_stds self ! (c + 6)) \<and>
     std_ok (speech_stds self ! c) \<and> std_ok (speech_stds self ! (c + 6))"

definition models_ok :: "VadInstT \<Rightarrow> bool" where
  "models_ok self \<longleftrightarrow> (\<forall>c<6. chan_ok c self)"

lemma less_6_cases:
  assumes "c < (6::nat)"
  obtains "c = 0" | "c = 1" | "c = 2" | "c = 3" | "c = 4" | "c = 5"
  using assms by linarith

lemmas channel_tables = kSpeechDataWeights_def kNoiseDataWeights_def kMaximumSpeech_def kMaximumNoise_def
  kMinimumDifference_def speech_spread_def

lemma channel_constants:
  assumes "c < 6"
  shows "kSpeechDataWeights ! c + kSpeechDataWeights ! (c + 6) = 128"
    and "kNoiseDataWeights ! c + kNoiseDataWeights ! (c + 6) = 128"
    and "0 \<le> kSpeechDataWeights ! c" and "0 \<le> kSpeechDataWeights ! (c + 6)"
    and "0 \<le> kNoiseDataWeights ! c" and "0 \<le> kNoiseDataWeights ! (c + 6)"
    and "11392 \<le> kMaximumSpeech ! c" and "kMaximumSpeech ! c \<le> 11520"
    and "kMaximumNoise ! c = 9216 - 128 * int c"
    and "544 \<le> kMinimumDifference ! c" and "kMinimumDifference ! c \<le> 576"
    and "kSpeechDataWeights ! c * speech_spread c \<le> 128 * (19553 - kMaximumSpeech ! c)"
    and "kSpeechDataWeights ! (c + 6) * speech_spread c \<le> 128 * (19553 - kMaximumSpeech ! c)"
    and "0 \<le> speech_spread c"
  using assms by (cases rule: less_6_cases; simp add: channel_tables)+

text \<open>Either mean from the weighted average and the distance.\<close>

lemma mean_from_average:
  assumes "w0 + w1 = (128::int)" and "0 \<le> w0" and "0 \<le> w1" and "\<bar>a - b\<bar> \<le> S"
  shows "w0 * a + w1 * b - w1 * S \<le> 128 * a" and "128 * a \<le> w0 * a + w1 * b + w1 * S"
    and "w0 * a + w1 * b - w0 * S \<le> 128 * b" and "128 * b \<le> w0 * a + w1 * b + w0 * S"
proof -
  have "128 * a = (w0 + w1) * a" "128 * b = (w0 + w1) * b" by (simp_all add: assms(1))
  then have e: "128 * a = w0 * a + w1 * b + w1 * (a - b)" "128 * b = w0 * a + w1 * b - w0 * (a - b)"
    by (simp_all only: distrib_right right_diff_distrib)
  have "\<bar>w1 * (a - b)\<bar> \<le> w1 * S" "\<bar>w0 * (a - b)\<bar> \<le> w0 * S"
    using assms by (simp_all add: abs_mult mult_left_mono)
  then show "w0 * a + w1 * b - w1 * S \<le> 128 * a" "128 * a \<le> w0 * a + w1 * b + w1 * S"
    "w0 * a + w1 * b - w0 * S \<le> 128 * b" "128 * b \<le> w0 * a + w1 * b + w0 * S"
    using e by linarith+
qed

lemma speech_ok_upper:
  assumes "c < 6" and "speech_ok c a b"
  shows "a \<le> 19553" and "b \<le> 19553"
proof -
  note k = channel_constants [OF assms(1)]
  have ok: "\<bar>a - b\<bar> \<le> speech_spread c"
    "kSpeechDataWeights ! c * a + kSpeechDataWeights ! (c + 6) * b < 128 * (kMaximumSpeech ! c + 1)"
    using assms(2) by (simp_all add: speech_ok_def)
  note m = mean_from_average [OF k(1,3,4) ok(1)]
  have u: "x \<le> 19553" if "128 * x \<le> W + P" "W < 128 * (M + 1)" "P \<le> 128 * (19553 - M)" for x W P M :: int
    using that by (simp add: algebra_simps)
  show "a \<le> 19553" by (rule u [OF m(2) ok(2) k(13)])
  show "b \<le> 19553" by (rule u [OF m(4) ok(2) k(12)])
qed

text \<open>The distance of a feature to a mean, the hypothesis under which the Gaussian is exact.\<close>

lemma feature_distance:
  assumes "176 \<le> x" and "x \<le> 2053"
  shows "noise_ok m \<Longrightarrow> \<bar>8 * x - m\<bar> \<le> 18146"
    and "c < 6 \<Longrightarrow> speech_ok c a b \<Longrightarrow> \<bar>8 * x - a\<bar> \<le> 18146"
    and "c < 6 \<Longrightarrow> speech_ok c a b \<Longrightarrow> \<bar>8 * x - b\<bar> \<le> 18146"
  using assms speech_ok_upper [of c a b] by (auto simp: noise_ok_def speech_ok_def abs_le_iff)

subsection \<open>One Gaussian\<close>

lemma gmm_noise_mean_bounds:
  assumes "c < 6" and "k < 2"
  shows "640 \<le> gmm_noise_mean t fm g c k m" and "gmm_noise_mean t fm g c k m \<le> 9344 - 128 * int c"
proof -
  have lo: "s16 (shl (int k + 5) 7) = 640 + 128 * int k"
    using assms by (simp add: shl_def s16_id)
  have hi: "s16 (shl (72 + int k - int c) 7) = 9216 + 128 * int k - 128 * int c"
    using assms by (simp add: shl_def s16_id)
  show "640 \<le> gmm_noise_mean t fm g c k m" "gmm_noise_mean t fm g c k m \<le> 9344 - 128 * int c"
    unfolding gmm_noise_mean_def lo hi Let_def using assms by auto
qed

definition previous_maximum :: "nat \<Rightarrow> int" where
  "previous_maximum c = (if c = 0 then 12800 else kMaximumSpeech ! (c - 1))"

lemma previous_maximum_bounds: "c < 6 \<Longrightarrow> 11392 \<le> previous_maximum c \<and> previous_maximum c \<le> speech_spread c"
  by (cases c rule: less_6_cases) (simp_all add: previous_maximum_def channel_tables)

lemma gmm_speech_mean_bounds:
  assumes "11392 \<le> maxspe" and "maxspe \<le> 12800" and "k < 2"
  shows "640 \<le> gmm_speech_mean t maxspe g k m" and "gmm_speech_mean t maxspe g k m \<le> maxspe + 640"
proof -
  have m: "640 \<le> kMinimumMean ! k" "kMinimumMean ! k \<le> 768"
    using assms(3) by (auto simp: kMinimumMean_def less_Suc_eq numeral_2_eq_2)
  have "s16 (maxspe + 640) = maxspe + 640" using assms by (simp add: s16_id)
  then show "640 \<le> gmm_speech_mean t maxspe g k m" "gmm_speech_mean t maxspe g k m \<le> maxspe + 640"
    unfolding gmm_speech_mean_def Let_def using assms m by auto
qed

lemma gmm_std_bounds:
  shows "std_ok (gmm_speech_std t x g m d)" and "std_ok (gmm_noise_std t x g m d)"
    and "384 \<le> gmm_speech_std t x g m d" and "384 \<le> gmm_noise_std t x g m d"
  unfolding gmm_speech_std_def gmm_noise_std_def Let_def std_ok_def kMinStd_def
  using s16_bounds by auto

lemma gmm_update_gaussians_eq:
  fixes t :: gmm_test and fm g maxspe x :: int
  assumes "vad_layout self" and "c < 6"
  defines "nm \<equiv> \<lambda>k. gmm_noise_mean t fm g c k (noise_means self ! (c + k * 6))"
    and "sm \<equiv> \<lambda>k. gmm_speech_mean t maxspe (c + k * 6) k (speech_means self ! (c + k * 6))"
    and "ss \<equiv> \<lambda>k. gmm_speech_std t x (c + k * 6) (speech_means self ! (c + k * 6)) (speech_stds self ! (c + k * 6))"
    and "ns \<equiv> \<lambda>k. gmm_noise_std t x (c + k * 6) (noise_means self ! (c + k * 6)) (noise_stds self ! (c + k * 6))"
  shows "fold (gmm_update_gaussian t x fm g maxspe c) [0..<kNumGaussians] self =
    (if vadflag t \<noteq> 0
     then self\<lparr>noise_means := (noise_means self)[c := nm 0, c + 6 := nm 1],
               speech_means := (speech_means self)[c := sm 0, c + 6 := sm 1],
               speech_stds := (speech_stds self)[c := ss 0, c + 6 := ss 1]\<rparr>
     else self\<lparr>noise_means := (noise_means self)[c := nm 0, c + 6 := nm 1],
               noise_stds := (noise_stds self)[c := ns 0, c + 6 := ns 1]\<rparr>)"
  using assms(1,2)
  by (simp add: kNumGaussians_def kNumChannels_def upt_rec gmm_update_gaussian_def Let_def vad_layout_def
      nm_def sm_def ss_def ns_def)

subsection \<open>Separation and limits\<close>

definition speech_pre :: "nat \<Rightarrow> int \<Rightarrow> int \<Rightarrow> bool" where
  "speech_pre c a b \<longleftrightarrow> 640 \<le> a \<and> 640 \<le> b \<and> a \<le> 19553 \<and> b \<le> 19553 \<and> \<bar>a - b\<bar> \<le> speech_spread c"

definition noise_pre :: "nat \<Rightarrow> int \<Rightarrow> bool" where
  "noise_pre c m \<longleftrightarrow> 640 \<le> m \<and> m \<le> 9344 - 128 * int c"

definition speech_average :: "nat \<Rightarrow> int \<Rightarrow> int \<Rightarrow> int" where
  "speech_average c a b = kSpeechDataWeights ! c * a + kSpeechDataWeights ! (c + 6) * b"

definition noise_average :: "nat \<Rightarrow> int \<Rightarrow> int \<Rightarrow> int" where
  "noise_average c a b = kNoiseDataWeights ! c * a + kNoiseDataWeights ! (c + 6) * b"

lemma average_shift:
  assumes "c < 6"
  shows "speech_average c (a + e) (b + e) = speech_average c a b + 128 * e"
    and "noise_average c (a + e) (b + e) = noise_average c a b + 128 * e"
proof -
  have d: "w0 * (a + e) + w1 * (b + e) = w0 * a + w1 * b + (w0 + w1) * e" for w0 w1 :: int
    by (simp add: algebra_simps)
  show "speech_average c (a + e) (b + e) = speech_average c a b + 128 * e"
    "noise_average c (a + e) (b + e) = noise_average c a b + 128 * e"
    unfolding speech_average_def noise_average_def d channel_constants(1,2) [OF assms] by simp_all
qed

lemma convex_bounds:
  assumes "w0 + w1 = (128::int)" and "0 \<le> w0" and "0 \<le> w1" and "lo \<le> a" "lo \<le> b" and "a \<le> hi" "b \<le> hi"
  shows "128 * lo \<le> w0 * a + w1 * b" and "w0 * a + w1 * b \<le> 128 * hi"
proof -
  have "w0 * lo \<le> w0 * a" "w1 * lo \<le> w1 * b" "w0 * a \<le> w0 * hi" "w1 * b \<le> w1 * hi"
    using assms by (auto intro: mult_left_mono)
  moreover have "128 * lo = w0 * lo + w1 * lo" "128 * hi = w0 * hi + w1 * hi"
    using assms(1) by (simp_all flip: distrib_right)
  ultimately show "128 * lo \<le> w0 * a + w1 * b" "w0 * a + w1 * b \<le> 128 * hi" by linarith+
qed

lemma average_bounds:
  assumes "c < 6" and "lo \<le> a" "lo \<le> b" and "a \<le> hi" "b \<le> hi"
  shows "128 * lo \<le> speech_average c a b" and "speech_average c a b \<le> 128 * hi"
    and "128 * lo \<le> noise_average c a b" and "noise_average c a b \<le> 128 * hi"
  unfolding speech_average_def noise_average_def
  using convex_bounds [OF channel_constants(1,3,4) [OF assms(1)] assms(2-5)]
    convex_bounds [OF channel_constants(2,5,6) [OF assms(1)] assms(2-5)] by blast+

text \<open>\<open>WeightedAverage\<close> without wrap-around, on a list whose two entries stay in the 16-bit range.\<close>

lemma WeightedAverage_exact:
  assumes "length data = 12" and "c < 6" and "in_s16 (data ! c + e)" and "in_s16 (data ! (c + 6) + e)"
  shows "WeightedAverage data c e kSpeechDataWeights =
      (data[c := data ! c + e, c + 6 := data ! (c + 6) + e], speech_average c (data ! c + e) (data ! (c + 6) + e))"
    and "WeightedAverage data c e kNoiseDataWeights =
      (data[c := data ! c + e, c + 6 := data ! (c + 6) + e], noise_average c (data ! c + e) (data ! (c + 6) + e))"
proof -
  let ?x = "data ! c + e" and ?y = "data ! (c + 6) + e"
  have s: "s16 ?x = ?x" "s16 ?y = ?y" using assms(3,4) by (simp_all add: in_s16_id)
  have ex: "s32 (s32 (?x * w ! c) + ?y * w ! (c + 6)) = w ! c * ?x + w ! (c + 6) * ?y"
    if "w ! c + w ! (c + 6) = 128" "0 \<le> w ! c" "0 \<le> w ! (c + 6)" for w
  proof -
    have b: "128 * (-32768) \<le> w ! c * ?x + w ! (c + 6) * ?y" "w ! c * ?x + w ! (c + 6) * ?y \<le> 128 * 32767"
      using convex_bounds [OF that, of "-32768" ?x ?y 32767] assms(3,4) by (simp_all add: in_s16_def)
    have "128 * (-32768) \<le> w ! c * ?x + w ! (c + 6) * 0" "w ! c * ?x + w ! (c + 6) * 0 \<le> 128 * 32767"
      using convex_bounds [OF that, of "-32768" ?x 0 32767] assms(3) by (simp_all add: in_s16_def)
    then have "s32 (?x * w ! c) = w ! c * ?x" by (simp add: s32_id mult.commute)
    then show ?thesis using b by (simp add: s32_id mult.commute)
  qed
  note k = channel_constants [OF assms(2)]
  show "WeightedAverage data c e kSpeechDataWeights =
      (data[c := ?x, c + 6 := ?y], speech_average c ?x ?y)"
    "WeightedAverage data c e kNoiseDataWeights = (data[c := ?x, c + 6 := ?y], noise_average c ?x ?y)"
    unfolding WeightedAverage_eq [OF assms(1,2)] Let_def s ex [OF k(1,3,4)] ex [OF k(2,5,6)]
      speech_average_def noise_average_def by simp_all
qed

text \<open>The shifts the separation applies, on unbounded integers.\<close>

definition model_gap :: "nat \<Rightarrow> int \<Rightarrow> int \<Rightarrow> int" where
  "model_gap c S N = S div 512 - N div 512"

definition gap_missing :: "nat \<Rightarrow> int \<Rightarrow> int \<Rightarrow> int" where
  "gap_missing c S N = max 0 (kMinimumDifference ! c - model_gap c S N)"

definition speech_shift :: "nat \<Rightarrow> int \<Rightarrow> int \<Rightarrow> int" where
  "speech_shift c S N = 13 * gap_missing c S N div 4"

definition noise_shift :: "nat \<Rightarrow> int \<Rightarrow> int \<Rightarrow> int" where
  "noise_shift c S N = 3 * gap_missing c S N div 4"

lemma average_pre_bounds:
  assumes "c < 6"
  shows "speech_pre c a b \<Longrightarrow> 81920 \<le> speech_average c a b \<and> speech_average c a b \<le> 2502784"
    and "noise_pre c n \<Longrightarrow> noise_pre c m \<Longrightarrow>
      81920 \<le> noise_average c n m \<and> noise_average c n m \<le> 128 * (9344 - 128 * int c)"
  using average_bounds [OF assms, of 640 a b 19553] average_bounds [OF assms, of 640 n m "9344 - 128 * int c"]
  by (simp_all add: speech_pre_def noise_pre_def)

lemma gap_missing_bounds:
  assumes "c < 6" and "speech_pre c a b" and "noise_pre c n" and "noise_pre c m"
  defines "S \<equiv> speech_average c a b" and "N \<equiv> noise_average c n m"
  shows "0 \<le> gap_missing c S N" and "gap_missing c S N \<le> 2752"
    and "0 \<le> speech_shift c S N" and "speech_shift c S N \<le> 8944"
    and "0 \<le> noise_shift c S N" and "noise_shift c S N \<le> 2064"
    and "-2176 \<le> model_gap c S N" and "model_gap c S N \<le> 4728"
proof -
  have "81920 \<le> S" "S \<le> 2502784"
    using average_pre_bounds(1) [OF assms(1,2)] by (simp_all add: S_def)
  then have s: "160 \<le> S div 512" "S div 512 \<le> 4888" by linarith+
  have "81920 \<le> N" "N \<le> 1196032"
    using average_pre_bounds(2) [OF assms(1,3,4)] by (simp_all add: N_def)
  then have n: "160 \<le> N div 512" "N div 512 \<le> 2336" by linarith+
  show g: "-2176 \<le> model_gap c S N" "model_gap c S N \<le> 4728" using s n by (simp_all add: model_gap_def)
  show m: "0 \<le> gap_missing c S N" "gap_missing c S N \<le> 2752"
    using g channel_constants(10,11) [OF assms(1)] by (simp_all add: gap_missing_def)
  show "0 \<le> speech_shift c S N" "speech_shift c S N \<le> 8944" "0 \<le> noise_shift c S N" "noise_shift c S N \<le> 2064"
    using m unfolding speech_shift_def noise_shift_def by linarith+
qed

definition shift_pair :: "int list \<Rightarrow> nat \<Rightarrow> int \<Rightarrow> int list" where
  "shift_pair data c e = data[c := data ! c + e, c + 6 := data ! (c + 6) + e]"

lemma shift_pair_0 [simp]: "shift_pair data c 0 = data"
  by (simp add: shift_pair_def)

lemma gmm_separate_eq:
  assumes lay: "vad_layout self" and c: "c < 6"
    and sp: "speech_pre c (speech_means self ! c) (speech_means self ! (c + 6))"
    and np: "noise_pre c (noise_means self ! c)" "noise_pre c (noise_means self ! (c + 6))"
  defines "S \<equiv> speech_average c (speech_means self ! c) (speech_means self ! (c + 6))"
    and "N \<equiv> noise_average c (noise_means self ! c) (noise_means self ! (c + 6))"
  shows "gmm_separate c self =
    (self\<lparr>speech_means := shift_pair (speech_means self) c (speech_shift c S N),
          noise_means := shift_pair (noise_means self) c (- noise_shift c S N)\<rparr>,
     S + 128 * speech_shift c S N, N - 128 * noise_shift c S N)"
proof -
  note g = gap_missing_bounds [OF c sp np, folded S_def N_def]
  have len: "length (speech_means self) = 12" "length (noise_means self) = 12"
    using lay by (simp_all add: vad_layout_def)
  have s0: "WeightedAverage (speech_means self) c 0 kSpeechDataWeights = (speech_means self, S)"
    using WeightedAverage_exact(1) [OF len(1) c, of 0] sp by (simp add: in_s16_def speech_pre_def S_def)
  have n0: "WeightedAverage (noise_means self) c 0 kNoiseDataWeights = (noise_means self, N)"
    using WeightedAverage_exact(2) [OF len(2) c, of 0] np by (simp add: in_s16_def noise_pre_def N_def)
  have s1: "WeightedAverage (speech_means self) c (speech_shift c S N) kSpeechDataWeights =
      (shift_pair (speech_means self) c (speech_shift c S N), S + 128 * speech_shift c S N)"
    using WeightedAverage_exact(1) [OF len(1) c, of "speech_shift c S N"] sp g
    by (simp add: in_s16_def speech_pre_def S_def average_shift [OF c] shift_pair_def)
  have n1: "WeightedAverage (noise_means self) c (- noise_shift c S N) kNoiseDataWeights =
      (shift_pair (noise_means self) c (- noise_shift c S N), N - 128 * noise_shift c S N)"
    using WeightedAverage_exact(2) [OF len(2) c, of "- noise_shift c S N"] np g average_shift(2) [OF c, of _ "- noise_shift c S N"]
    by (simp add: in_s16_def noise_pre_def N_def shift_pair_def)
  have bnd: "81920 \<le> S" "S \<le> 2502784" "81920 \<le> N" "N \<le> 1196032"
    using average_pre_bounds(1) [OF c sp] average_pre_bounds(2) [OF c np] by (simp_all add: S_def N_def)
  have d: "s16 (s16 (shr S 9) - s16 (shr N 9)) = model_gap c S N"
  proof -
    have "160 \<le> S div 512" "S div 512 \<le> 4888" "160 \<le> N div 512" "N div 512 \<le> 2336" using bnd by linarith+
    then show ?thesis by (simp add: shr_def model_gap_def s16_id)
  qed
  show ?thesis
  proof (cases "model_gap c S N < kMinimumDifference ! c")
    case True
    then have t: "s16 (kMinimumDifference ! c - model_gap c S N) = gap_missing c S N"
      using g by (simp add: gap_missing_def s16_id)
    have t1: "s16 (WEBRTC_SPL_MUL_16_16_RSFT 13 (gap_missing c S N) 2) = speech_shift c S N"
      and t2: "s16 (WEBRTC_SPL_MUL_16_16_RSFT 3 (gap_missing c S N) 2) = noise_shift c S N"
      using g by (simp_all add: WEBRTC_SPL_MUL_16_16_RSFT_def mul_16_16_exact s16_id shr_def
          speech_shift_def noise_shift_def)
    have t3: "s16 (- noise_shift c S N) = - noise_shift c S N" using g by (simp add: s16_id)
    show ?thesis by (simp add: gmm_separate_def Let_def s0 n0 d t t1 t2 t3 s1 n1 True)
  next
    case False
    then have "speech_shift c S N = 0" "noise_shift c S N = 0"
      by (simp_all add: speech_shift_def noise_shift_def gap_missing_def)
    then show ?thesis using False by (simp add: gmm_separate_def Let_def s0 n0 d)
  qed
qed

text \<open>After the separation the two averages are apart by the required distance, up to rounding.\<close>

lemma separation_gap:
  "kMinimumDifference ! c - 2 \<le> model_gap c (S + 128 * speech_shift c S N) (N - 128 * noise_shift c S N)"
proof -
  define g where "g = gap_missing c S N"
  define p where "p = 13 * g div 4"
  define q where "q = 3 * g div 4"
  have d: "x - 511 \<le> 512 * (x div 512)" "512 * (x div 512) \<le> x" for x :: int by linarith+
  have "4 * g - 1 \<le> p + q" unfolding p_def q_def by presburger
  moreover have "kMinimumDifference ! c - (S div 512 - N div 512) \<le> g"
    by (simp add: g_def gap_missing_def model_gap_def)
  ultimately show ?thesis
    using d(1) [of "S + 128 * p"] d(2) [of "N - 128 * q"] d(2) [of S] d(1) [of N]
    unfolding model_gap_def speech_shift_def noise_shift_def g_def [symmetric] p_def [symmetric] q_def [symmetric]
    by linarith
qed

text \<open>Lowering both means by the excess of their average brings the average to the limit.\<close>

definition excess :: "int \<Rightarrow> int \<Rightarrow> int" where
  "excess A M = max 0 (A div 128 - M)"

lemma excess_average:
  shows "A - 128 * excess A M < 128 * (M + 1)" and "excess A M > 0 \<Longrightarrow> 128 * M \<le> A - 128 * excess A M"
    and "0 \<le> excess A M"
proof -
  have d: "A - 127 \<le> 128 * (A div 128)" "128 * (A div 128) \<le> A" by linarith+
  show "A - 128 * excess A M < 128 * (M + 1)" "excess A M > 0 \<Longrightarrow> 128 * M \<le> A - 128 * excess A M"
    "0 \<le> excess A M"
    using d by (auto simp: excess_def max_def algebra_simps split: if_splits)
qed

lemma speech_limited:
  assumes "c < 6" and "640 \<le> a" and "640 \<le> b" and "\<bar>a - b\<bar> \<le> speech_spread c"
  defines "e \<equiv> excess (speech_average c a b) (kMaximumSpeech ! c)"
  shows "speech_ok c (a - e) (b - e)"
proof -
  note k = channel_constants [OF assms(1)]
  let ?W = "speech_average c (a - e) (b - e)"
  have W: "?W = speech_average c a b - 128 * e" using average_shift(1) [OF assms(1), of a "- e" b] by simp
  have "640 \<le> a - e \<and> 640 \<le> b - e"
  proof (cases "e > 0")
    case True
    then have lo: "128 * (kMaximumSpeech ! c) \<le> ?W"
      using excess_average(2) [of "speech_average c a b" "kMaximumSpeech ! c"] by (simp add: W e_def [symmetric])
    have d: "\<bar>(a - e) - (b - e)\<bar> \<le> speech_spread c" using assms(4) by simp
    note m = mean_from_average [OF k(1,3,4) d, folded speech_average_def]
    have l: "640 \<le> x" if "W - P \<le> 128 * x" "128 * M \<le> W" "P \<le> 128 * (19553 - M)" "11392 \<le> M" for x W P M :: int
      using that by (simp add: algebra_simps)
    show ?thesis using l [OF m(1) lo k(13) k(7)] l [OF m(3) lo k(12) k(7)] by simp
  next
    case False
    then show ?thesis using assms(2,3) excess_average(3) [of "speech_average c a b" "kMaximumSpeech ! c"]
      by (simp add: e_def)
  qed
  moreover have "?W < 128 * (kMaximumSpeech ! c + 1)"
    using excess_average(1) [of "speech_average c a b" "kMaximumSpeech ! c"] by (simp add: W e_def [symmetric])
  ultimately show ?thesis using assms(4) by (simp add: speech_ok_def speech_average_def)
qed

lemma gmm_limit_eq:
  assumes len: "length (speech_means self) = 12" "length (noise_means self) = 12" and c: "c < 6"
    and S: "0 \<le> S" "S \<le> 4194175" and N: "-204672 \<le> N" "N \<le> 128 * (9344 - 128 * int c)"
    and sp: "0 \<le> speech_means self ! c" "speech_means self ! c \<le> 32000"
      "0 \<le> speech_means self ! (c + 6)" "speech_means self ! (c + 6) \<le> 32000"
    and np: "-1599 \<le> noise_means self ! c" "noise_means self ! c \<le> 9344"
      "-1599 \<le> noise_means self ! (c + 6)" "noise_means self ! (c + 6) \<le> 9344"
  shows "gmm_limit c S N self =
    self\<lparr>speech_means := shift_pair (speech_means self) c (- excess S (kMaximumSpeech ! c)),
         noise_means := shift_pair (noise_means self) c (- excess N (kMaximumNoise ! c))\<rparr>"
proof -
  note k = channel_constants [OF c]
  have s: "s16 (shr S 7) = S div 128"
  proof -
    have "0 \<le> S div 128" "S div 128 \<le> 32767" using S by linarith+
    then show ?thesis by (simp add: shr_def s16_id)
  qed
  have n: "s16 (shr N 7) = N div 128"
  proof -
    have "N \<le> 1196032" using N(2) by simp
    then have "-1599 \<le> N div 128" "N div 128 \<le> 9344" using N(1) by linarith+
    then show ?thesis by (simp add: shr_def s16_id)
  qed
  have es: "0 \<le> excess S (kMaximumSpeech ! c)" "excess S (kMaximumSpeech ! c) \<le> 32767"
    using S k(7) unfolding excess_def by linarith+
  have "N \<le> 1196032 - 16384 * int c" using N(2) by simp
  then have "N div 128 \<le> 9344 - 128 * int c" by linarith
  then have en: "0 \<le> excess N (kMaximumNoise ! c)" "excess N (kMaximumNoise ! c) \<le> 128"
    using k(9) by (simp_all add: excess_def)
  have ls: "gmm_lower_means (speech_means self) c (excess S (kMaximumSpeech ! c)) =
      shift_pair (speech_means self) c (- excess S (kMaximumSpeech ! c))"
    using gmm_lower_means_eq [OF len(1) c] sp es by (simp add: s16_id shift_pair_def)
  have ln: "gmm_lower_means (noise_means self) c (excess N (kMaximumNoise ! c)) =
      shift_pair (noise_means self) c (- excess N (kMaximumNoise ! c))"
    using gmm_lower_means_eq [OF len(2) c] np en by (simp add: s16_id shift_pair_def)
  have xs: "S div 128 > kMaximumSpeech ! c \<Longrightarrow> s16 (S div 128 - kMaximumSpeech ! c) = excess S (kMaximumSpeech ! c)"
    using es by (simp add: excess_def s16_id)
  have xn: "N div 128 > kMaximumNoise ! c \<Longrightarrow> s16 (N div 128 - kMaximumNoise ! c) = excess N (kMaximumNoise ! c)"
    using en by (simp add: excess_def s16_id)
  have z: "\<not> S div 128 > kMaximumSpeech ! c \<Longrightarrow> excess S (kMaximumSpeech ! c) = 0"
    "\<not> N div 128 > kMaximumNoise ! c \<Longrightarrow> excess N (kMaximumNoise ! c) = 0"
    by (simp_all add: excess_def)
  show ?thesis
    unfolding gmm_limit_def Let_def s n
    by (cases "S div 128 > kMaximumSpeech ! c"; cases "N div 128 > kMaximumNoise ! c")
      (simp_all add: xs xn ls ln z)
qed

text \<open>Separation and limits together, from the ranges the update leaves.\<close>

lemma separate_limit_ok:
  assumes lay: "vad_layout self" and c: "c < 6"
    and sp: "speech_pre c (speech_means self ! c) (speech_means self ! (c + 6))"
    and np: "noise_pre c (noise_means self ! c)" "noise_pre c (noise_means self ! (c + 6))"
    and sep: "gmm_separate c self = (self1, S1, N1)"
  shows "\<exists>x y. gmm_limit c S1 N1 self1 =
    self\<lparr>speech_means := shift_pair (speech_means self) c x, noise_means := shift_pair (noise_means self) c y\<rparr> \<and>
    speech_ok c (speech_means self ! c + x) (speech_means self ! (c + 6) + x) \<and>
    noise_ok (noise_means self ! c + y) \<and> noise_ok (noise_means self ! (c + 6) + y)"
proof -
  let ?a = "speech_means self ! c" and ?b = "speech_means self ! (c + 6)"
  let ?n = "noise_means self ! c" and ?m = "noise_means self ! (c + 6)"
  define S where "S = speech_average c ?a ?b"
  define N where "N = noise_average c ?n ?m"
  define p where "p = speech_shift c S N"
  define q where "q = noise_shift c S N"
  define x where "x = excess S1 (kMaximumSpeech ! c)"
  define y where "y = excess N1 (kMaximumNoise ! c)"
  note g = gap_missing_bounds(3-6) [OF c sp np, folded S_def N_def, folded p_def q_def]
  have r: "self1 = self\<lparr>speech_means := shift_pair (speech_means self) c p,
      noise_means := shift_pair (noise_means self) c (- q)\<rparr>"
    and S1: "S1 = S + 128 * p" and N1: "N1 = N - 128 * q"
    using gmm_separate_eq [OF lay c sp np] sep by (simp_all add: S_def N_def p_def q_def)
  have len: "length (speech_means self) = 12" "length (noise_means self) = 12"
    using lay by (simp_all add: vad_layout_def)
  have bS: "81920 \<le> S" "S \<le> 2502784" and bN: "81920 \<le> N" "N \<le> 128 * (9344 - 128 * int c)"
    using average_pre_bounds(1) [OF c sp] average_pre_bounds(2) [OF c np] by (simp_all add: S_def N_def)
  have lim: "gmm_limit c S1 N1 self1 = self1\<lparr>speech_means := shift_pair (speech_means self1) c (- x),
      noise_means := shift_pair (noise_means self1) c (- y)\<rparr>"
    unfolding x_def y_def
    by (rule gmm_limit_eq)
      (use c bS bN g sp np len in \<open>simp_all add: S1 N1 r shift_pair_def speech_pre_def noise_pre_def\<close>)
  have two: "shift_pair (shift_pair data c u) c v = shift_pair data c (u + v)" if "length data = 12" for data u v
    using that c by (simp add: shift_pair_def list_update_swap [of "c + 6" c] add.assoc)
  have x: "x = excess (speech_average c (?a + p) (?b + p)) (kMaximumSpeech ! c)"
    by (simp add: x_def S1 average_shift [OF c] S_def)
  have "speech_ok c ((?a + p) - x) ((?b + p) - x)"
    unfolding x by (rule speech_limited [OF c]) (use sp g in \<open>simp_all add: speech_pre_def\<close>)
  moreover have "0 \<le> y" "y \<le> 128"
  proof -
    have "N1 \<le> 1196032 - 16384 * int c" using bN g by (simp add: N1)
    then have "N1 div 128 \<le> 9344 - 128 * int c" by linarith
    then show "0 \<le> y" "y \<le> 128" using channel_constants(9) [OF c] by (simp_all add: y_def excess_def)
  qed
  then have "noise_ok (?n + (- q - y))" "noise_ok (?m + (- q - y))"
    using np g by (simp_all add: noise_ok_def noise_pre_def)
  ultimately show ?thesis
    using lim two [OF len(1)] two [OF len(2)]
    by (intro exI [of _ "p - x"] exI [of _ "- q - y"]) (simp add: r add.commute diff_add_eq)
qed

subsection \<open>One channel, all channels\<close>

text \<open>The members of the instance the model update may change.\<close>

definition models_only :: "VadInstT \<Rightarrow> VadInstT \<Rightarrow> bool" where
  "models_only self self' \<longleftrightarrow>
     self' = self\<lparr>noise_means := noise_means self', speech_means := speech_means self',
                  noise_stds := noise_stds self', speech_stds := speech_stds self',
                  index_vector := index_vector self', low_value_vector := low_value_vector self',
                  mean_value := mean_value self'\<rparr>"

lemma models_only_refl: "models_only self self"
  by (simp add: models_only_def)

lemma models_only_trans: "models_only a b \<Longrightarrow> models_only b c \<Longrightarrow> models_only a c"
  unfolding models_only_def by (cases a; cases b; cases c) simp

definition core_inv :: "VadInstT \<Rightarrow> bool" where
  "core_inv self \<longleftrightarrow> vad_layout self \<and> minima_inv self \<and> models_ok self"

text \<open>
  The update of the two Gaussians: the lists of the models change at the entries of the channel
  only, and the values written are in range.
\<close>

definition set_pair :: "int list \<Rightarrow> nat \<Rightarrow> int \<Rightarrow> int \<Rightarrow> int list" where
  "set_pair data c x y = data[c := x, c + 6 := y]"

lemma set_pair_nth [simp]:
  assumes "length data = 12" and "c < 6"
  shows "set_pair data c x y ! c = x" and "set_pair data c x y ! (c + 6) = y"
    and "d < 6 \<Longrightarrow> d \<noteq> c \<Longrightarrow> set_pair data c x y ! d = data ! d"
    and "d < 6 \<Longrightarrow> d \<noteq> c \<Longrightarrow> set_pair data c x y ! (d + 6) = data ! (d + 6)"
    and "length (set_pair data c x y) = 12"
    and "set_pair (set_pair data c u v) c x y = set_pair data c x y"
  using assms by (simp_all add: set_pair_def list_update_swap [of "c + 6" c])

lemma shift_pair_set_pair: "shift_pair data c e = set_pair data c (data ! c + e) (data ! (c + 6) + e)"
  by (simp add: shift_pair_def set_pair_def)

lemma set_pair_same [simp]: "set_pair data c (data ! c) (data ! (c + 6)) = data"
  by (simp add: set_pair_def)

lemma gaussians_in_range:
  assumes lay: "vad_layout self" and ok: "chan_ok c self" and c: "c < 6"
  shows "\<exists>n m a b u v d e. fold (gmm_update_gaussian t x fm g (previous_maximum c) c) [0..<kNumGaussians] self =
      self\<lparr>noise_means := set_pair (noise_means self) c n m, speech_means := set_pair (speech_means self) c a b,
           noise_stds := set_pair (noise_stds self) c u v, speech_stds := set_pair (speech_stds self) c d e\<rparr> \<and>
    noise_pre c n \<and> noise_pre c m \<and> speech_pre c a b \<and> std_ok u \<and> std_ok v \<and> std_ok d \<and> std_ok e"
proof -
  let ?n = "\<lambda>k. gmm_noise_mean t fm g c k (noise_means self ! (c + k * 6))"
  let ?a = "\<lambda>k. gmm_speech_mean t (previous_maximum c) (c + k * 6) k (speech_means self ! (c + k * 6))"
  let ?d = "\<lambda>k. gmm_speech_std t x (c + k * 6) (speech_means self ! (c + k * 6)) (speech_stds self ! (c + k * 6))"
  let ?u = "\<lambda>k. gmm_noise_std t x (c + k * 6) (noise_means self ! (c + k * 6)) (noise_stds self ! (c + k * 6))"
  have pm: "11392 \<le> previous_maximum c" "previous_maximum c \<le> speech_spread c"
    using previous_maximum_bounds [OF c] by simp_all
  then have "previous_maximum c \<le> 12800" by (simp add: speech_spread_def split: if_splits)
  note sm = gmm_speech_mean_bounds [OF pm(1) this]
  have n: "noise_pre c (?n 0)" "noise_pre c (?n 1)"
    using gmm_noise_mean_bounds [OF c] by (simp_all add: noise_pre_def)
  have new: "speech_pre c (?a 0) (?a 1)"
    using sm [of 0 t c "speech_means self ! c"] sm [of 1 t "c + 6" "speech_means self ! (c + 6)"] pm
      \<open>previous_maximum c \<le> 12800\<close> by (simp add: speech_pre_def abs_le_iff)
  have so: "speech_ok c (speech_means self ! c) (speech_means self ! (c + 6))" using ok by (simp add: chan_ok_def)
  have old: "speech_pre c (speech_means self ! c) (speech_means self ! (c + 6))"
    using so speech_ok_upper [OF c so] by (simp add: speech_pre_def speech_ok_def)
  have st: "std_ok (noise_stds self ! c)" "std_ok (noise_stds self ! (c + 6))"
    "std_ok (speech_stds self ! c)" "std_ok (speech_stds self ! (c + 6))"
    using ok by (simp_all add: chan_ok_def)
  note eq = gmm_update_gaussians_eq [OF lay c, of t x fm g "previous_maximum c", folded set_pair_def]
  show ?thesis
  proof (cases "vadflag t \<noteq> 0")
    case True
    show ?thesis
      by (rule exI [of _ "?n 0"], rule exI [of _ "?n 1"], rule exI [of _ "?a 0"], rule exI [of _ "?a 1"],
          rule exI [of _ "noise_stds self ! c"], rule exI [of _ "noise_stds self ! (c + 6)"],
          rule exI [of _ "?d 0"], rule exI [of _ "?d 1"])
        (use eq True n new st gmm_std_bounds(1) in simp)
  next
    case False
    show ?thesis
      by (rule exI [of _ "?n 0"], rule exI [of _ "?n 1"], rule exI [of _ "speech_means self ! c"],
          rule exI [of _ "speech_means self ! (c + 6)"], rule exI [of _ "?u 0"], rule exI [of _ "?u 1"],
          rule exI [of _ "speech_stds self ! c"], rule exI [of _ "speech_stds self ! (c + 6)"])
        (use eq False n old st gmm_std_bounds(2) in simp)
  qed
qed

lemma FindMinimum_models:
  assumes "WebRtcVad_FindMinimum self v c = (self', m)"
  shows "noise_means self' = noise_means self" "speech_means self' = speech_means self"
    "noise_stds self' = noise_stds self" "speech_stds self' = speech_stds self" "models_only self self'"
  using assms by (auto simp: WebRtcVad_FindMinimum_def Let_def case_prod_beta models_only_def)

theorem gmm_update_channel_inv:
  assumes inv: "core_inv self" and c: "c < 6" and f: "features_ok features"
  shows "core_inv (fst (gmm_update_channel t features c (self, previous_maximum c)))"
    and "models_only self (fst (gmm_update_channel t features c (self, previous_maximum c)))"
    and "snd (gmm_update_channel t features c (self, previous_maximum c)) = previous_maximum (Suc c)"
proof -
  have lay: "vad_layout self" and mi: "minima_inv self" and mo: "models_ok self"
    using inv by (simp_all add: core_inv_def)
  have v: "-32768 \<le> features ! c" using features_ok_nth [OF f c] by simp
  obtain s1 fm where fm: "WebRtcVad_FindMinimum self (features ! c) c = (s1, fm)" by (metis surj_pair)
  note m1 = FindMinimum_models [OF fm]
  have l1: "vad_layout s1" and mi1: "minima_inv s1"
    using WebRtcVad_FindMinimum_spec [OF lay mi c v fm] by simp_all
  have ch: "chan_ok d s1" if "d < 6" for d using mo that m1 by (simp add: models_ok_def chan_ok_def)
  have len: "length (noise_means s1) = 12" "length (speech_means s1) = 12"
    "length (noise_stds s1) = 12" "length (speech_stds s1) = 12" using l1 by (simp_all add: vad_layout_def)
  obtain g where g: "WeightedAverage (noise_means s1) c 0 kNoiseDataWeights = (noise_means s1, g)"
    using WeightedAverage_exact(2) [OF len(1) c, of 0] ch [OF c]
    by (simp add: chan_ok_def noise_ok_def in_s16_def)
  obtain n m a b u w d e where
    gs: "fold (gmm_update_gaussian t (features ! c) fm (s16 (shr g 6)) (previous_maximum c) c) [0..<kNumGaussians] s1 =
      s1\<lparr>noise_means := set_pair (noise_means s1) c n m, speech_means := set_pair (speech_means s1) c a b,
         noise_stds := set_pair (noise_stds s1) c u w, speech_stds := set_pair (speech_stds s1) c d e\<rparr>"
    and pre: "noise_pre c n" "noise_pre c m" "speech_pre c a b" and st: "std_ok u" "std_ok w" "std_ok d" "std_ok e"
    using gaussians_in_range [OF l1 ch [OF c] c] by blast
  let ?s2 = "s1\<lparr>noise_means := set_pair (noise_means s1) c n m, speech_means := set_pair (speech_means s1) c a b,
         noise_stds := set_pair (noise_stds s1) c u w, speech_stds := set_pair (speech_stds s1) c d e\<rparr>"
  have l2: "vad_layout ?s2" using l1 c by (simp add: vad_layout_def)
  obtain s3 S N where sep: "gmm_separate c ?s2 = (s3, S, N)" by (metis prod_cases3)
  obtain x y where lim: "gmm_limit c S N s3 =
      ?s2\<lparr>speech_means := set_pair (speech_means s1) c (a + x) (b + x),
          noise_means := set_pair (noise_means s1) c (n + y) (m + y)\<rparr>"
    and post: "speech_ok c (a + x) (b + x)" "noise_ok (n + y)" "noise_ok (m + y)"
    using separate_limit_ok [OF l2 c _ _ _ sep] pre len c by (auto simp: shift_pair_set_pair)
  have res: "gmm_update_channel t features c (self, previous_maximum c) = (gmm_limit c S N s3, kMaximumSpeech ! c)"
    by (simp add: gmm_update_channel_def fm g gs sep Let_def)
  have "models_ok (gmm_limit c S N s3)"
    unfolding models_ok_def
  proof (intro allI impI)
    fix j :: nat
    assume j: "j < 6"
    show "chan_ok j (gmm_limit c S N s3)"
      using post st len c ch [OF j] j by (cases "j = c") (simp_all add: lim chan_ok_def)
  qed
  moreover have "vad_layout (gmm_limit c S N s3)" using l1 c by (simp add: lim vad_layout_def)
  moreover have "minima_inv (gmm_limit c S N s3)"
    using mi1 by (simp add: lim minima_inv_def chan_ages_def chan_lows_def)
  ultimately show "core_inv (fst (gmm_update_channel t features c (self, previous_maximum c)))"
    by (simp add: res core_inv_def)
  have "models_only s1 (gmm_limit c S N s3)" by (simp add: lim models_only_def)
  then show "models_only self (fst (gmm_update_channel t features c (self, previous_maximum c)))"
    using models_only_trans [OF m1(5)] by (simp add: res)
  show "snd (gmm_update_channel t features c (self, previous_maximum c)) = previous_maximum (Suc c)"
    by (simp only: res snd_conv) (simp add: previous_maximum_def)
qed

theorem gmm_update_inv:
  assumes "core_inv self" and "features_ok features"
  shows "core_inv (gmm_update t features self)" and "models_only self (gmm_update t features self)"
proof -
  have "core_inv (fst (fold (gmm_update_channel t features) [0..<n] (self, 12800))) \<and>
      models_only self (fst (fold (gmm_update_channel t features) [0..<n] (self, 12800))) \<and>
      snd (fold (gmm_update_channel t features) [0..<n] (self, 12800)) = previous_maximum n" if "n \<le> 6" for n
    using that
  proof (induction n)
    case 0
    then show ?case using assms(1) by (simp add: previous_maximum_def models_only_refl)
  next
    case (Suc n)
    then obtain s where s: "fold (gmm_update_channel t features) [0..<n] (self, 12800) = (s, previous_maximum n)"
      "core_inv s" "models_only self s"
      by (metis Suc_leD prod.collapse)
    then show ?case
      using gmm_update_channel_inv [OF s(2) _ assms(2), of n t] Suc.prems models_only_trans [OF s(3)] by simp
  qed
  from this [of 6] show "core_inv (gmm_update t features self)" "models_only self (gmm_update t features self)"
    by (simp_all add: gmm_update_def kNumChannels_def)
qed

section \<open>The decision\<close>

lemma vadflag_channel_test: "vadflag (gmm_channel_test self features it c t) \<in> {1, vadflag t}"
  by (simp add: gmm_channel_test_def Let_def case_prod_beta)

lemma gmm_decision_flag: "vadflag (gmm_decision self features it tt) \<in> {0, 1}"
proof -
  have "vadflag (fold (gmm_channel_test self features it) cs t) \<in> {0, 1}" if "vadflag t \<in> {0, 1}" for cs t
    using that
  proof (induction cs arbitrary: t)
    case (Cons c cs)
    have "vadflag (gmm_channel_test self features it c t) \<in> {0, 1}"
      using vadflag_channel_test [of self features it c t] Cons.prems by auto
    then show ?case using Cons.IH by simp
  qed simp
  then show ?thesis by (simp add: gmm_decision_def Let_def)
qed

text \<open>
  On an instance in range, each of the four Gaussians of a channel is evaluated exactly: neither
  the probability nor the update factor wraps around.
\<close>

theorem gmm_channel_probability_exact:
  assumes ok: "models_ok self" and c: "c < 6" and f: "features_ok features"
  shows "gmm_channel_probability (features ! c) (noise_means self) (noise_stds self) kNoiseDataWeights c =
    ((kNoiseDataWeights ! c * gmm_prob (features ! c) (noise_means self ! c) (noise_stds self ! c),
      gmm_delta (features ! c) (noise_means self ! c) (noise_stds self ! c)),
     (kNoiseDataWeights ! (c + 6) * gmm_prob (features ! c) (noise_means self ! (c + 6)) (noise_stds self ! (c + 6)),
      gmm_delta (features ! c) (noise_means self ! (c + 6)) (noise_stds self ! (c + 6))))"
    and "gmm_channel_probability (features ! c) (speech_means self) (speech_stds self) kSpeechDataWeights c =
    ((kSpeechDataWeights ! c * gmm_prob (features ! c) (speech_means self ! c) (speech_stds self ! c),
      gmm_delta (features ! c) (speech_means self ! c) (speech_stds self ! c)),
     (kSpeechDataWeights ! (c + 6) * gmm_prob (features ! c) (speech_means self ! (c + 6)) (speech_stds self ! (c + 6)),
      gmm_delta (features ! c) (speech_means self ! (c + 6)) (speech_stds self ! (c + 6))))"
proof -
  let ?x = "features ! c"
  have x: "176 \<le> ?x" "?x \<le> 2053" using features_ok_nth [OF f c] by simp_all
  have ch: "chan_ok c self" using ok c by (simp add: models_ok_def)
  have std: "378 \<le> d" "d \<le> 32767" if "std_ok d" for d using that by (simp_all add: std_ok_def)
  have ex: "WebRtcVad_GaussianProbability ?x m d = (gmm_prob ?x m d, gmm_delta ?x m d)"
    if "std_ok d" "\<bar>8 * ?x - m\<bar> \<le> 18146" for m d
    using that x by (intro GaussianProbability_exact) (simp_all add: std_ok_def)
  have w: "s32 (w * gmm_prob ?x m d) = w * gmm_prob ?x m d" if "0 \<le> w" "w \<le> 128" "std_ok d" for w m d
  proof -
    have "gmm_prob ?x m d \<le> 1024 * 347" "0 \<le> gmm_prob ?x m d"
      using gmm_prob_bounds [OF std [OF that(3)], of ?x m] gmm_inv_std_bounds(2) [OF std [OF that(3)]] by simp_all
    then have "0 \<le> w * gmm_prob ?x m d" "w * gmm_prob ?x m d \<le> 128 * (1024 * 347)"
      using that mult_mono [of w 128 "gmm_prob ?x m d" "1024 * 347"] by simp_all
    then show ?thesis by (simp add: s32_id)
  qed
  note k = channel_constants [OF c]
  have kw: "kNoiseDataWeights ! c \<le> 128" "kNoiseDataWeights ! (c + 6) \<le> 128"
    "kSpeechDataWeights ! c \<le> 128" "kSpeechDataWeights ! (c + 6) \<le> 128" using k(1-6) by linarith+
  have d: "\<bar>8 * ?x - noise_means self ! c\<bar> \<le> 18146" "\<bar>8 * ?x - noise_means self ! (c + 6)\<bar> \<le> 18146"
    "\<bar>8 * ?x - speech_means self ! c\<bar> \<le> 18146" "\<bar>8 * ?x - speech_means self ! (c + 6)\<bar> \<le> 18146"
    using ch feature_distance [OF x] c unfolding chan_ok_def by blast+
  have st: "std_ok (noise_stds self ! c)" "std_ok (noise_stds self ! (c + 6))"
    "std_ok (speech_stds self ! c)" "std_ok (speech_stds self ! (c + 6))" using ch by (simp_all add: chan_ok_def)
  show "gmm_channel_probability ?x (noise_means self) (noise_stds self) kNoiseDataWeights c =
    ((kNoiseDataWeights ! c * gmm_prob ?x (noise_means self ! c) (noise_stds self ! c),
      gmm_delta ?x (noise_means self ! c) (noise_stds self ! c)),
     (kNoiseDataWeights ! (c + 6) * gmm_prob ?x (noise_means self ! (c + 6)) (noise_stds self ! (c + 6)),
      gmm_delta ?x (noise_means self ! (c + 6)) (noise_stds self ! (c + 6))))"
    using ex w k(5,6) kw d st by (simp add: gmm_channel_probability_def kNumChannels_def)
  show "gmm_channel_probability ?x (speech_means self) (speech_stds self) kSpeechDataWeights c =
    ((kSpeechDataWeights ! c * gmm_prob ?x (speech_means self ! c) (speech_stds self ! c),
      gmm_delta ?x (speech_means self ! c) (speech_stds self ! c)),
     (kSpeechDataWeights ! (c + 6) * gmm_prob ?x (speech_means self ! (c + 6)) (speech_stds self ! (c + 6)),
      gmm_delta ?x (speech_means self ! (c + 6)) (speech_stds self ! (c + 6))))"
    using ex w k(3,4) kw d st by (simp add: gmm_channel_probability_def kNumChannels_def)
qed

section \<open>The hangover\<close>

text \<open>
  The smoothing as a machine on two counters: the remaining hangover and the speech frames in a
  row, of which at most six are counted.
\<close>

fun hang_step :: "int \<Rightarrow> int \<Rightarrow> bool \<Rightarrow> int \<times> int \<Rightarrow> (int \<times> int) \<times> bool" where
  "hang_step short long True (hang, run) =
     (if run < 6 then ((short, run + 1), True) else ((long, 6), True))"
| "hang_step short long False (hang, run) =
     (if hang > 0 then ((hang - 1, 0), True) else ((hang, 0), False))"

definition hang_state :: "VadInstT \<Rightarrow> int \<times> int" where
  "hang_state self = (over_hang self, num_of_speech self)"

definition hang_inv :: "VadInstT \<Rightarrow> bool" where
  "hang_inv self \<longleftrightarrow> 0 \<le> over_hang self \<and> over_hang self \<le> 14 \<and> 0 \<le> num_of_speech self \<and> num_of_speech self \<le> 6"

theorem gmm_hangover_refines:
  assumes "hang_inv self" and "gmm_hangover o1 o2 flag self = (self', v)" and "0 \<le> flag"
  shows "hang_step o1 o2 (flag \<noteq> 0) (hang_state self) = (hang_state self', v > 0)"
    and "v = (if flag = 0 \<and> 0 < over_hang self then 2 + over_hang self else flag)"
    and "self' = self\<lparr>over_hang := over_hang self', num_of_speech := num_of_speech self'\<rparr>"
  using assms
  by (auto simp: gmm_hangover_def hang_inv_def hang_state_def Let_def kMaxSpeechFrames_def s16_id split: if_splits)

text \<open>Without speech, the decision drops after at most as many frames as the hangover has.\<close>

lemma hang_step_silence:
  assumes "0 \<le> hang"
  shows "fold (\<lambda>_ s. fst (hang_step o1 o2 False s)) [0..<n] (hang, run) =
    (max 0 (hang - int n), if n = 0 then run else 0)"
  using assms by (induction n) (auto simp: max_def)

section \<open>Modes\<close>

lemmas mode_constants =
  kOverHangMax1Q_def kOverHangMax2Q_def kLocalThresholdQ_def kGlobalThresholdQ_def
  kOverHangMax1LBR_def kOverHangMax2LBR_def kLocalThresholdLBR_def kGlobalThresholdLBR_def
  kOverHangMax1AGG_def kOverHangMax2AGG_def kLocalThresholdAGG_def kGlobalThresholdAGG_def
  kOverHangMax1VAG_def kOverHangMax2VAG_def kLocalThresholdVAG_def kGlobalThresholdVAG_def

text \<open>The tables of one mode: three frame lengths each, hangovers between 2 and 14 frames.\<close>

definition mode_inv :: "VadInstT \<Rightarrow> bool" where
  "mode_inv self \<longleftrightarrow>
     (over_hang_max_1 self, over_hang_max_2 self, individual self, total self) \<in>
       {(kOverHangMax1Q, kOverHangMax2Q, kLocalThresholdQ, kGlobalThresholdQ),
        (kOverHangMax1LBR, kOverHangMax2LBR, kLocalThresholdLBR, kGlobalThresholdLBR),
        (kOverHangMax1AGG, kOverHangMax2AGG, kLocalThresholdAGG, kGlobalThresholdAGG),
        (kOverHangMax1VAG, kOverHangMax2VAG, kLocalThresholdVAG, kGlobalThresholdVAG)}"

lemma mode_inv_hang:
  assumes "mode_inv self" and "gmm_thresholds self n = (o1, o2, it, tt)"
  shows "2 \<le> o1 \<and> o1 \<le> o2 \<and> o2 \<le> 14"
  using assms by (auto simp: mode_inv_def gmm_thresholds_def Let_def mode_constants split: if_splits)

section \<open>The instance invariant\<close>

definition vad_inv :: "VadInstT \<Rightarrow> bool" where
  "vad_inv self \<longleftrightarrow> core_inv self \<and> hang_inv self \<and> mode_inv self"

lemma models_only_preserves:
  assumes "models_only self self'"
  shows "hang_inv self \<Longrightarrow> hang_inv self'" and "mode_inv self \<Longrightarrow> mode_inv self'"
    and "frame_counter self' = frame_counter self"
  using assms by (cases self; cases self'; simp add: models_only_def hang_inv_def mode_inv_def)+

lemma filters_only_preserves:
  assumes "filters_only self self'"
  shows "hang_inv self \<Longrightarrow> hang_inv self'" and "mode_inv self \<Longrightarrow> mode_inv self'"
    and "core_inv self \<Longrightarrow> length (hp_filter_state self') = 4 \<Longrightarrow> core_inv self'"
  using assms by (cases self; cases self'; simp add: filters_only_def hang_inv_def mode_inv_def core_inv_def
      vad_layout_def minima_inv_def models_ok_def chan_ok_def chan_ages_def chan_lows_def)+

lemma vad_inv_frame:
  assumes "vad_inv self"
  shows "vad_inv (self\<lparr>vad := v\<rparr>)" and "vad_inv (self\<lparr>frame_counter := k\<rparr>)" and "vad_inv (self\<lparr>init_flag := i\<rparr>)"
    and "length (S_48_24 st) = 8 \<Longrightarrow> length (S_24_24 st) = 16 \<Longrightarrow> length (S_24_16 st) = 8 \<Longrightarrow>
      length (S_16_8 st) = 8 \<Longrightarrow> vad_inv (self\<lparr>state_48_to_8 := st\<rparr>)"
    and "length d = 4 \<Longrightarrow> vad_inv (self\<lparr>downsampling_filter_states := d\<rparr>)"
  using assms by (simp_all add: vad_inv_def core_inv_def hang_inv_def mode_inv_def vad_layout_def minima_inv_def
      models_ok_def chan_ok_def chan_ages_def chan_lows_def)

lemma gmm_hangover_inv:
  assumes "vad_inv self" and "gmm_hangover o1 o2 flag self = (self', v)" and "flag \<in> {0, 1}"
    and "0 \<le> o1" and "o1 \<le> 14" and "0 \<le> o2" and "o2 \<le> 14"
  shows "vad_inv self'" and "0 \<le> v \<and> v \<le> 16"
proof -
  have h: "hang_inv self" using assms(1) by (simp add: vad_inv_def)
  have s: "self' = self\<lparr>over_hang := over_hang self', num_of_speech := num_of_speech self'\<rparr>"
    using gmm_hangover_refines(3) [OF h assms(2)] assms(3) by auto
  have "hang_inv self'"
    using assms by (auto simp: vad_inv_def gmm_hangover_def hang_inv_def Let_def kMaxSpeechFrames_def s16_id
        split: if_splits)
  moreover have "core_inv (self\<lparr>over_hang := a, num_of_speech := b\<rparr>)" "mode_inv (self\<lparr>over_hang := a, num_of_speech := b\<rparr>)" for a b
    using assms(1) by (simp_all add: vad_inv_def core_inv_def mode_inv_def vad_layout_def minima_inv_def
      models_ok_def chan_ok_def chan_ages_def chan_lows_def)
  ultimately show "vad_inv self'" using s by (metis vad_inv_def)
  show "0 \<le> v \<and> v \<le> 16" using gmm_hangover_refines(2) [OF h assms(2)] assms(3) h by (auto simp: hang_inv_def)
qed

theorem GmmProbability_inv:
  assumes inv: "vad_inv self" and f: "features_ok features"
    and res: "GmmProbability self features total_power frame_length = (self', v)"
  shows "vad_inv self'" and "0 \<le> v \<and> v \<le> 16"
proof -
  obtain o1 o2 it tt where th: "gmm_thresholds self frame_length = (o1, o2, it, tt)" by (metis prod_cases4)
  have o: "0 \<le> o1" "o1 \<le> 14" "0 \<le> o2" "o2 \<le> 14"
    using mode_inv_hang [OF _ th] inv by (auto simp: vad_inv_def)
  define t where "t = gmm_decision self features it tt"
  define mid where "mid = (if total_power > kMinEnergy
    then (gmm_update t features self)\<lparr>frame_counter := s32 (frame_counter (gmm_update t features self) + 1)\<rparr> else self)"
  define flag where "flag = (if total_power > kMinEnergy then vadflag t else 0)"
  have "vad_inv (gmm_update t features self)"
    using inv gmm_update_inv [OF _ f, of self t] models_only_preserves unfolding vad_inv_def by blast
  then have m: "vad_inv mid" using inv vad_inv_frame(2) by (simp add: mid_def)
  have fl: "flag \<in> {0, 1}" using gmm_decision_flag by (simp add: flag_def t_def)
  have h: "gmm_hangover o1 o2 flag mid = (self', v)"
    using res by (simp add: GmmProbability_def th Let_def t_def mid_def flag_def split: if_splits)
  show "vad_inv self'" "0 \<le> v \<and> v \<le> 16" using gmm_hangover_inv [OF m h fl o] by simp_all
qed

text \<open>A frame without energy leaves the models alone.\<close>

lemma GmmProbability_silence:
  assumes "total_power \<le> 10"
  shows "GmmProbability self features total_power n =
    gmm_hangover (fst (gmm_thresholds self n)) (fst (snd (gmm_thresholds self n))) 0 self"
  using assms by (simp add: GmmProbability_def kMinEnergy_def Let_def case_prod_beta)

lemma init_flag_gmm_hangover: "init_flag (fst (gmm_hangover o1 o2 fl self)) = init_flag self"
  by (simp add: gmm_hangover_def Let_def)

lemma init_flag_frames:
  shows "filters_only self self' \<Longrightarrow> init_flag self' = init_flag self"
    and "models_only self self' \<Longrightarrow> init_flag self' = init_flag self"
  by (cases self; cases self'; simp add: filters_only_def models_only_def)+

theorem CalcVad8khz_inv:
  assumes inv: "vad_inv inst" and len: "frame_len n"
    and res: "WebRtcVad_CalcVad8khz inst speech_frame n = (inst', v)"
  shows "vad_inv inst'" and "vad inst' = v" and "0 \<le> v \<and> v \<le> 16" and "init_flag inst' = init_flag inst"
proof -
  obtain i1 f p where fe: "WebRtcVad_CalculateFeatures inst speech_frame n = (i1, f, p)" by (metis prod_cases3)
  obtain i2 v2 where g: "GmmProbability i1 f p n = (i2, v2)" by (metis surj_pair)
  have fok: "features_ok f" and fo: "filters_only inst i1" and hp: "length (hp_filter_state i1) = 4"
    using CalculateFeatures_ok [OF len fe] inv by (auto simp: vad_inv_def core_inv_def vad_layout_def)
  have i1: "vad_inv i1" using filters_only_preserves [OF fo] inv hp by (simp add: vad_inv_def)
  note gi = GmmProbability_inv [OF i1 fok g]
  have "init_flag (gmm_update t f i1) = init_flag i1" for t
    using init_flag_frames(2) gmm_update_inv(2) [OF _ fok] i1 by (simp add: vad_inv_def)
  then have "init_flag (fst (GmmProbability i1 f p n)) = init_flag i1"
    by (simp add: GmmProbability_def Let_def case_prod_beta init_flag_gmm_hangover)
  then have "init_flag i2 = init_flag inst" using g init_flag_frames(1) [OF fo] by simp
  have r: "inst' = i2\<lparr>vad := v\<rparr>" "v = v2" using res by (auto simp: WebRtcVad_CalcVad8khz_def fe g)
  then show "vad_inv inst'" "vad inst' = v" "0 \<le> v \<and> v \<le> 16" "init_flag inst' = init_flag inst"
    using gi vad_inv_frame(1) \<open>init_flag i2 = init_flag inst\<close> by (simp_all add: r)
qed

lemma set_mode_inv:
  assumes "vad_inv self"
  shows "vad_inv (fst (WebRtcVad_set_mode_core self mode))"
  using assms by (simp add: WebRtcVad_set_mode_core_def vad_inv_def core_inv_def hang_inv_def mode_inv_def
      vad_layout_def minima_inv_def models_ok_def chan_ok_def chan_ages_def chan_lows_def mode_constants)

lemma window_replicate: "i + n \<le> k \<Longrightarrow> window (replicate k x) i n = replicate n x"
  by (simp add: window_def)

lemma initial_models:
  assumes "c < 6"
  shows "noise_ok (kNoiseDataMeans ! c)" "noise_ok (kNoiseDataMeans ! (c + 6))"
    "speech_ok c (kSpeechDataMeans ! c) (kSpeechDataMeans ! (c + 6))"
    "std_ok (kNoiseDataStds ! c)" "std_ok (kNoiseDataStds ! (c + 6))"
    "std_ok (kSpeechDataStds ! c)" "std_ok (kSpeechDataStds ! (c + 6))"
  using assms by (cases rule: less_6_cases; simp add: kNoiseDataMeans_def kSpeechDataMeans_def kNoiseDataStds_def
      kSpeechDataStds_def noise_ok_def speech_ok_def std_ok_def channel_tables)+

theorem InitCore_inv:
  shows "\<exists>self'. WebRtcVad_InitCore (Some self) = (Some self', 0) \<and> vad_inv self' \<and>
    init_flag self' = 42 \<and> vad self' = 1 \<and> frame_counter self' = 0 \<and> hang_state self' = (0, 0)"
proof -
  obtain self' where r: "WebRtcVad_InitCore (Some self) = (Some self', 0)"
    and s: "self' = self\<lparr>vad := 1, frame_counter := 0, over_hang := 0, num_of_speech := 0,
                downsampling_filter_states := replicate 4 0,
                state_48_to_8 := WebRtcSpl_ResetResample48khzTo8khz,
                noise_means := kNoiseDataMeans, speech_means := kSpeechDataMeans,
                noise_stds := kNoiseDataStds, speech_stds := kSpeechDataStds,
                low_value_vector := replicate (16 * kNumChannels) 10000,
                index_vector := replicate (16 * kNumChannels) 0,
                upper_state := replicate 5 0, lower_state := replicate 5 0,
                hp_filter_state := replicate 4 0, mean_value := replicate kNumChannels 1600,
                over_hang_max_1 := kOverHangMax1Q, over_hang_max_2 := kOverHangMax2Q,
                individual := kLocalThresholdQ, total := kGlobalThresholdQ, init_flag := kInitCheck\<rparr>"
    by (simp add: WebRtcVad_InitCore_def WebRtcVad_set_mode_core_def kDefaultMode_def Let_def)
  have "models_ok self'" using initial_models by (simp add: s models_ok_def chan_ok_def)
  moreover have "minima_inv self'"
    by (simp add: s minima_inv_def chan_ages_def chan_lows_def minima_ok_def kNumChannels_def window_replicate in_s16_def)
  moreover have "vad_layout self'"
    by (simp add: s vad_layout_def kNumChannels_def WebRtcSpl_ResetResample48khzTo8khz_def kNoiseDataMeans_def
        kSpeechDataMeans_def kNoiseDataStds_def kSpeechDataStds_def mode_constants)
  moreover have "mode_inv self'" "hang_inv self'" by (simp_all add: s mode_inv_def hang_inv_def)
  ultimately have "vad_inv self'" by (simp add: vad_inv_def core_inv_def)
  then show ?thesis using r by (simp add: s kInitCheck_def hang_state_def)
qed

section \<open>Sampling rates\<close>

lemma Downsampling_state: "length (snd (WebRtcVad_Downsampling xs st n)) = length st"
  by (simp add: WebRtcVad_Downsampling_def Let_def case_prod_beta)

theorem CalcVad16khz_inv:
  assumes inv: "vad_inv inst" and n: "n = 160 \<or> n = 320 \<or> n = 480"
    and res: "WebRtcVad_CalcVad16khz inst speech_frame n = (inst', v)"
  shows "vad_inv inst' \<and> vad inst' = v \<and> 0 \<le> v \<and> v \<le> 16 \<and> init_flag inst' = init_flag inst"
proof -
  obtain nb st where d: "WebRtcVad_Downsampling speech_frame (downsampling_filter_states inst) n = (nb, st)"
    by (metis surj_pair)
  have "length st = 4"
    using Downsampling_state [of speech_frame "downsampling_filter_states inst" n] d inv
    by (simp add: vad_inv_def core_inv_def vad_layout_def)
  then have "vad_inv (inst\<lparr>downsampling_filter_states := st\<rparr>)" using vad_inv_frame(5) [OF inv] by simp
  moreover have "frame_len (n sdiv 2)" using n by (auto simp: frame_len_def sdiv_nonneg)
  ultimately show ?thesis
    using CalcVad8khz_inv [of _ "n sdiv 2" nb inst' v] res by (simp add: WebRtcVad_CalcVad16khz_def d)
qed

theorem CalcVad32khz_inv:
  assumes inv: "vad_inv inst" and n: "n = 320 \<or> n = 640 \<or> n = 960"
    and res: "WebRtcVad_CalcVad32khz inst speech_frame n = (inst', v)"
  shows "vad_inv inst' \<and> vad inst' = v \<and> 0 \<le> v \<and> v \<le> 16 \<and> init_flag inst' = init_flag inst"
proof -
  let ?d = "downsampling_filter_states inst"
  obtain wb s1 where d1: "WebRtcVad_Downsampling speech_frame (drop 2 ?d) n = (wb, s1)" by (metis surj_pair)
  obtain nb s2 where d2: "WebRtcVad_Downsampling wb (blit ?d 2 s1) (n sdiv 2) = (nb, s2)" by (metis surj_pair)
  have l: "length ?d = 4" using inv by (simp add: vad_inv_def core_inv_def vad_layout_def)
  then have "length s1 = 2" using Downsampling_state [of speech_frame "drop 2 ?d" n] d1 by simp
  then have "length s2 = 4" using Downsampling_state [of wb "blit ?d 2 s1" "n sdiv 2"] d2 l by simp
  then have "vad_inv (inst\<lparr>downsampling_filter_states := s2\<rparr>)" using vad_inv_frame(5) [OF inv] by simp
  moreover have "frame_len (n sdiv 2 sdiv 2)" using n by (auto simp: frame_len_def sdiv_nonneg)
  ultimately show ?thesis
    using CalcVad8khz_inv [of _ "n sdiv 2 sdiv 2" nb inst' v] res
    by (simp add: WebRtcVad_CalcVad32khz_def d1 d2)
qed

definition resampler_ok :: "State48khzTo8khz \<Rightarrow> bool" where
  "resampler_ok st \<longleftrightarrow> length (S_48_24 st) = 8 \<and> length (S_24_24 st) = 16 \<and> length (S_24_16 st) = 8 \<and> length (S_16_8 st) = 8"

lemma resample48To8_state:
  assumes "resampler_ok st"
  shows "resampler_ok (snd (resample48To8 xs st)) \<and> length (fst (resample48To8 xs st)) = 80"
proof -
  have "length (snd (WebRtcSpl_DownBy2ShortToInt xs 480 (S_48_24 st))) = 8"
    using assms by (simp add: resampler_ok_def WebRtcSpl_DownBy2ShortToInt_def Let_def case_prod_beta)
  moreover have "length (snd (WebRtcSpl_LPBy2IntToInt ys 240 (S_24_24 st))) = 16" for ys
    using assms by (simp add: resampler_ok_def WebRtcSpl_LPBy2IntToInt_def LPBy2_def Let_def case_prod_beta)
  moreover have "length (snd (snd (WebRtcSpl_DownBy2IntToShort ys 160 (S_16_8 st)))) = 8" for ys
    using assms by (simp add: resampler_ok_def WebRtcSpl_DownBy2IntToShort_def Let_def case_prod_beta)
  ultimately show ?thesis
    using assms by (simp add: resampler_ok_def resample48To8_def Let_def case_prod_beta shr_def)
qed

lemma Resample48khzTo8khz_pure:
  assumes "resampler_ok st" and "length tmp = 736"
  shows "WebRtcSpl_Resample48khzTo8khz xs st tmp =
      (fst (resample48To8 xs st), snd (resample48To8 xs st), snd (snd (WebRtcSpl_Resample48khzTo8khz xs st tmp)))"
    and "length (snd (snd (WebRtcSpl_Resample48khzTo8khz xs st tmp))) = 736"
proof -
  obtain out st' tmp' where r: "WebRtcSpl_Resample48khzTo8khz xs st tmp = (out, st', tmp')" by (metis prod_cases3)
  have "(out, st') = resample48To8 xs st" "length tmp' = length tmp"
    using Resample48khzTo8khz_stages [OF _ _ r] assms by (simp_all add: resampler_ok_def)
  then show "WebRtcSpl_Resample48khzTo8khz xs st tmp =
      (fst (resample48To8 xs st), snd (resample48To8 xs st), snd (snd (WebRtcSpl_Resample48khzTo8khz xs st tmp)))"
    "length (snd (snd (WebRtcSpl_Resample48khzTo8khz xs st tmp))) = 736"
    using assms(2) by (simp_all add: r) (metis fst_conv snd_conv)+
qed

text \<open>The 8 kHz signal the loop builds: the same 10 ms, converted again with the state moved on.\<close>

fun repeat_frame :: "nat \<Rightarrow> int list \<Rightarrow> State48khzTo8khz \<Rightarrow> int list \<times> State48khzTo8khz" where
  "repeat_frame 0 xs st = ([], st)"
| "repeat_frame (Suc k) xs st =
     (let (ys, st) = repeat_frame k xs st; (out, st) = resample48To8 xs st in (ys @ out, st))"

lemma repeat_frame_ok:
  assumes "resampler_ok st"
  shows "resampler_ok (snd (repeat_frame k xs st)) \<and> length (fst (repeat_frame k xs st)) = 80 * k"
  using assms by (induction k) (simp_all add: Let_def case_prod_beta resample48To8_state)

lemma CalcVad48khz_loop_eq:
  assumes "resampler_ok st" and "length tmp = 736" and "80 * k \<le> 240"
  shows "\<exists>tmp'. length tmp' = 736 \<and> CalcVad48khz_loop xs k (st, tmp, replicate 240 0) =
    (snd (repeat_frame k xs st), tmp', blit (replicate 240 0) 0 (fst (repeat_frame k xs st)))"
  using assms(3)
proof (induction k)
  case 0
  then show ?case using assms(2) by (simp add: CalcVad48khz_loop_def)
next
  case (Suc k)
  define ys where "ys = fst (repeat_frame k xs st)"
  define s where "s = snd (repeat_frame k xs st)"
  have s: "resampler_ok s" and ys: "length ys = 80 * k" using repeat_frame_ok [OF assms(1)] by (simp_all add: s_def ys_def)
  obtain tmp' where t: "length tmp' = 736"
    "CalcVad48khz_loop xs k (st, tmp, replicate 240 0) = (s, tmp', blit (replicate 240 0) 0 ys)"
    using Suc by (auto simp: s_def ys_def)
  define t2 where "t2 = snd (snd (WebRtcSpl_Resample48khzTo8khz xs s tmp'))"
  have r: "WebRtcSpl_Resample48khzTo8khz xs s tmp' = (fst (resample48To8 xs s), snd (resample48To8 xs s), t2)"
    and t2: "length t2 = 736" using Resample48khzTo8khz_pure [OF s t(1)] by (simp_all add: t2_def)
  have b: "blit (blit (replicate 240 0) 0 ys) (k * 80) out = blit (replicate 240 0) 0 (ys @ out)" for out :: "int list"
    using blit_blit_append [of 0 ys "replicate 240 0" out] ys Suc.prems by (simp add: mult.commute)
  have step: "CalcVad48khz_loop xs (Suc k) z = (\<lambda>(state, tmp_mem, speech_nb).
      let (out, state, tmp_mem) = WebRtcSpl_Resample48khzTo8khz xs state tmp_mem
      in (state, tmp_mem, blit speech_nb (k * 80) out)) (CalcVad48khz_loop xs k z)" for z
    by (simp add: CalcVad48khz_loop_def)
  show ?case
    using t2 by (intro exI [of _ t2])
      (simp add: step t r b Let_def case_prod_beta s_def [symmetric] ys_def [symmetric])
qed

theorem CalcVad48khz_eq:
  assumes inv: "vad_inv inst" and n: "n = 480 \<or> n = 960 \<or> n = 1440"
  shows "WebRtcVad_CalcVad48khz inst speech_frame n =
    (let (nb, st) = repeat_frame (nat (n div 480)) speech_frame (state_48_to_8 inst)
     in WebRtcVad_CalcVad8khz (inst\<lparr>state_48_to_8 := st\<rparr>) (blit (replicate 240 0) 0 nb) (n div 6))"
proof -
  have ok: "resampler_ok (state_48_to_8 inst)"
    using inv by (simp add: vad_inv_def core_inv_def vad_layout_def resampler_ok_def)
  have q: "n sdiv 480 = n div 480" "n sdiv 6 = n div 6" "80 * nat (n div 480) \<le> 240"
    using n by (auto simp: sdiv_nonneg)
  obtain tmp' where "CalcVad48khz_loop speech_frame (nat (n div 480)) (state_48_to_8 inst, replicate 736 0, replicate 240 0) =
    (snd (repeat_frame (nat (n div 480)) speech_frame (state_48_to_8 inst)), tmp',
     blit (replicate 240 0) 0 (fst (repeat_frame (nat (n div 480)) speech_frame (state_48_to_8 inst))))"
    using CalcVad48khz_loop_eq [OF ok _ q(3), of "replicate 736 0"] by auto
  then show ?thesis by (simp add: WebRtcVad_CalcVad48khz_def q Let_def case_prod_beta)
qed

theorem CalcVad48khz_inv:
  assumes inv: "vad_inv inst" and n: "n = 480 \<or> n = 960 \<or> n = 1440"
    and res: "WebRtcVad_CalcVad48khz inst speech_frame n = (inst', v)"
  shows "vad_inv inst' \<and> vad inst' = v \<and> 0 \<le> v \<and> v \<le> 16 \<and> init_flag inst' = init_flag inst"
proof -
  have ok: "resampler_ok (state_48_to_8 inst)"
    using inv by (simp add: vad_inv_def core_inv_def vad_layout_def resampler_ok_def)
  define r where "r = repeat_frame (nat (n div 480)) speech_frame (state_48_to_8 inst)"
  have "vad_inv (inst\<lparr>state_48_to_8 := snd r\<rparr>)"
    using vad_inv_frame(4) [OF inv, of "snd r"] repeat_frame_ok [OF ok] by (simp add: r_def resampler_ok_def)
  moreover have "frame_len (n div 6)" using n by (auto simp: frame_len_def)
  ultimately show ?thesis
    using CalcVad8khz_inv [of _ "n div 6" "blit (replicate 240 0) 0 (fst r)" inst' v] res
      CalcVad48khz_eq [OF inv n, of speech_frame] by (simp add: r_def Let_def case_prod_beta)
qed

text \<open>Only the first 480 samples of the frame are read.\<close>

lemma resample48To8_prefix:
  assumes "length xs = 480"
  shows "resample48To8 (xs @ ys) st = resample48To8 xs st"
proof -
  have "WebRtcSpl_DownBy2ShortToInt (xs @ ys) 480 s = WebRtcSpl_DownBy2ShortToInt xs 480 s" for s
    using assms by (simp add: WebRtcSpl_DownBy2ShortToInt_def evens_odds_append shr_def)
  then show ?thesis by (simp add: resample48To8_def)
qed

lemma repeat_frame_prefix: "length xs = 480 \<Longrightarrow> repeat_frame k (xs @ ys) st = repeat_frame k xs st"
  by (induction k) (simp_all add: resample48To8_prefix)

end
