(* ===== verification/Vad_Api.thy ===== *)
theory Vad_Api
  imports Vad_Core
begin

text \<open>
  \<open>webrtc_vad.c\<close>: the interface of the voice activity detector.  A handle is an instance or
  \<open>NULL\<close> (\<open>None\<close>); every operation returns the instance it leaves and the C return value.

  The locale \<open>frame_detector\<close> states what the interface needs of a detector for one sampling rate;
  the four \<open>WebRtcVad_CalcVad\<close> functions are its interpretations.  \<open>vad_reachable\<close> collects the
  instances a caller can produce, in any order of calls and with any arguments.
\<close>

definition kValidRates :: "int list" where "kValidRates = [8000, 16000, 32000, 48000]"
definition kMaxFrameLengthMs :: int where "kMaxFrameLengthMs = 30"

section \<open>The operations\<close>

text \<open>
  \<open>malloc\<close> is the parameter \<open>mem\<close>: the contents of the memory it returns, or \<open>NULL\<close>.  The result is
  \<open>*handle\<close> and the return value; a \<open>NULL\<close> argument is \<open>handle = False\<close>.
\<close>

definition WebRtcVad_Create :: "bool \<Rightarrow> VadInstT option \<Rightarrow> VadInstT option \<times> int" where
  "WebRtcVad_Create handle mem =
     (if \<not> handle then (None, -1)
      else case mem of None \<Rightarrow> (None, -1)
           | Some self \<Rightarrow> (Some (self\<lparr>init_flag := 0\<rparr>), 0))"

definition WebRtcVad_Init :: "VadInstT option \<Rightarrow> VadInstT option \<times> int" where
  "WebRtcVad_Init handle = WebRtcVad_InitCore handle"

definition WebRtcVad_set_mode :: "VadInstT option \<Rightarrow> int \<Rightarrow> VadInstT option \<times> int" where
  "WebRtcVad_set_mode handle mode =
     (case handle of None \<Rightarrow> (None, -1)
      | Some self \<Rightarrow>
          if init_flag self \<noteq> kInitCheck then (Some self, -1)
          else let (self, r) = WebRtcVad_set_mode_core self mode in (Some self, r))"

fun valid_length_loop :: "int \<Rightarrow> int \<Rightarrow> int list \<Rightarrow> int" where
  "valid_length_loop rate frame_length [] = -1"
| "valid_length_loop rate frame_length (valid_length_ms # ms) =
     (let valid_length = rate sdiv 1000 * valid_length_ms
      in if frame_length = valid_length then 0 else valid_length_loop rate frame_length ms)"

fun valid_rate_loop :: "int \<Rightarrow> int \<Rightarrow> int list \<Rightarrow> int" where
  "valid_rate_loop rate frame_length [] = -1"
| "valid_rate_loop rate frame_length (valid # rates) =
     (if valid = rate then valid_length_loop valid frame_length (map (\<lambda>i. 10 * i) [1..kMaxFrameLengthMs div 10])
      else valid_rate_loop rate frame_length rates)"

definition WebRtcVad_ValidRateAndFrameLength :: "int \<Rightarrow> int \<Rightarrow> int" where
  "WebRtcVad_ValidRateAndFrameLength rate frame_length = valid_rate_loop rate frame_length kValidRates"

definition WebRtcVad_Process :: "VadInstT option \<Rightarrow> int \<Rightarrow> int list option \<Rightarrow> int \<Rightarrow> VadInstT option \<times> int" where
  "WebRtcVad_Process handle fs audio_frame frame_length =
     (case handle of None \<Rightarrow> (None, -1)
      | Some self \<Rightarrow>
          if init_flag self \<noteq> kInitCheck then (Some self, -1)
          else case audio_frame of None \<Rightarrow> (Some self, -1)
          | Some audio_frame \<Rightarrow>
              if WebRtcVad_ValidRateAndFrameLength fs frame_length \<noteq> 0 then (Some self, -1)
              else
                let (self, v) =
                      (if fs = 48000 then WebRtcVad_CalcVad48khz self audio_frame frame_length
                       else if fs = 32000 then WebRtcVad_CalcVad32khz self audio_frame frame_length
                       else if fs = 16000 then WebRtcVad_CalcVad16khz self audio_frame frame_length
                       else if fs = 8000 then WebRtcVad_CalcVad8khz self audio_frame frame_length
                       else (self, -1))
                in (Some self, if v > 0 then 1 else v))"

section \<open>Rates and frame lengths\<close>

definition rate_frame_lengths :: "int \<Rightarrow> int set" where
  "rate_frame_lengths rate = {rate div 100, rate div 50, 3 * rate div 100}"

lemma ValidRateAndFrameLength_iff:
  "WebRtcVad_ValidRateAndFrameLength rate n = 0 \<longleftrightarrow>
    rate \<in> {8000, 16000, 32000, 48000} \<and> n \<in> rate_frame_lengths rate"
proof -
  have m: "map (\<lambda>i. 10 * i) [1..kMaxFrameLengthMs div 10] = [10, 20, 30]"
    by (simp add: kMaxFrameLengthMs_def upto.simps)
  show ?thesis
    by (auto simp: WebRtcVad_ValidRateAndFrameLength_def kValidRates_def m rate_frame_lengths_def sdiv_nonneg)
qed

section \<open>Detectors for one rate\<close>

text \<open>What the interface relies on: the invariant is kept and the decision is not negative.\<close>

locale frame_detector =
  fixes inv :: "'s \<Rightarrow> bool"
    and calc :: "'s \<Rightarrow> int list \<Rightarrow> int \<Rightarrow> 's \<times> int"
    and lengths :: "int set"
  assumes calc_inv: "inv s \<Longrightarrow> n \<in> lengths \<Longrightarrow> inv (fst (calc s xs n))"
    and calc_nonneg: "inv s \<Longrightarrow> n \<in> lengths \<Longrightarrow> 0 \<le> snd (calc s xs n)"
begin

lemma decision_bit:
  assumes "inv s" and "n \<in> lengths"
  shows "(if snd (calc s xs n) > 0 then 1 else snd (calc s xs n)) \<in> {0, 1}"
  using calc_nonneg [OF assms, of xs] by auto

lemma stream_inv:
  assumes "inv s" and "\<forall>(xs, n)\<in>set frames. n \<in> lengths"
  shows "inv (fold (\<lambda>(xs, n) s. fst (calc s xs n)) frames s)"
  using assms
proof (induction frames arbitrary: s)
  case (Cons f frames)
  obtain xs n where f: "f = (xs, n)" by (cases f)
  then have "inv (fst (calc s xs n))" using Cons.prems by (simp add: calc_inv)
  then show ?case using Cons.IH Cons.prems f by simp
qed simp

end

definition vad_ready :: "VadInstT \<Rightarrow> bool" where
  "vad_ready self \<longleftrightarrow> vad_inv self \<and> init_flag self = 42"

interpretation r8: frame_detector vad_ready WebRtcVad_CalcVad8khz "rate_frame_lengths 8000"
proof
  fix s n xs
  assume "vad_ready s" and "n \<in> rate_frame_lengths 8000"
  then show "vad_ready (fst (WebRtcVad_CalcVad8khz s xs n))" "0 \<le> snd (WebRtcVad_CalcVad8khz s xs n)"
    using CalcVad8khz_inv [of s n xs, OF _ _ prod.collapse [symmetric]]
    by (auto simp: vad_ready_def rate_frame_lengths_def frame_len_def)
qed

interpretation r16: frame_detector vad_ready WebRtcVad_CalcVad16khz "rate_frame_lengths 16000"
proof
  fix s n xs
  assume "vad_ready s" and "n \<in> rate_frame_lengths 16000"
  then show "vad_ready (fst (WebRtcVad_CalcVad16khz s xs n))" "0 \<le> snd (WebRtcVad_CalcVad16khz s xs n)"
    using CalcVad16khz_inv [of s n xs, OF _ _ prod.collapse [symmetric]]
    by (auto simp: vad_ready_def rate_frame_lengths_def)
qed

interpretation r32: frame_detector vad_ready WebRtcVad_CalcVad32khz "rate_frame_lengths 32000"
proof
  fix s n xs
  assume "vad_ready s" and "n \<in> rate_frame_lengths 32000"
  then show "vad_ready (fst (WebRtcVad_CalcVad32khz s xs n))" "0 \<le> snd (WebRtcVad_CalcVad32khz s xs n)"
    using CalcVad32khz_inv [of s n xs, OF _ _ prod.collapse [symmetric]]
    by (auto simp: vad_ready_def rate_frame_lengths_def)
qed

interpretation r48: frame_detector vad_ready WebRtcVad_CalcVad48khz "rate_frame_lengths 48000"
proof
  fix s n xs
  assume "vad_ready s" and "n \<in> rate_frame_lengths 48000"
  then show "vad_ready (fst (WebRtcVad_CalcVad48khz s xs n))" "0 \<le> snd (WebRtcVad_CalcVad48khz s xs n)"
    using CalcVad48khz_inv [of s n xs, OF _ _ prod.collapse [symmetric]]
    by (auto simp: vad_ready_def rate_frame_lengths_def)
qed

section \<open>Process\<close>

theorem Process_ready:
  assumes "vad_ready self" and "WebRtcVad_ValidRateAndFrameLength fs n = 0"
    and "WebRtcVad_Process (Some self) fs (Some frame) n = (h, r)"
  shows "\<exists>self'. h = Some self' \<and> vad_ready self'" and "r \<in> {0, 1}"
proof -
  have i: "init_flag self = kInitCheck" using assms(1) by (simp add: vad_ready_def kInitCheck_def)
  have fs: "fs \<in> {8000, 16000, 32000, 48000}" and n: "n \<in> rate_frame_lengths fs"
    using assms(2) by (simp_all add: ValidRateAndFrameLength_iff)
  have "(\<exists>self'. h = Some self' \<and> vad_ready self') \<and> r \<in> {0, 1}"
    using fs
  proof (elim insertE)
    assume fs: "fs = 8000"
    then show ?thesis
      using assms i n r8.calc_inv [OF assms(1), of n frame] r8.decision_bit [OF assms(1), of n frame]
      by (auto simp: WebRtcVad_Process_def Let_def case_prod_beta)
  next
    assume fs: "fs = 16000"
    then show ?thesis
      using assms i n r16.calc_inv [OF assms(1), of n frame] r16.decision_bit [OF assms(1), of n frame]
      by (auto simp: WebRtcVad_Process_def Let_def case_prod_beta)
  next
    assume fs: "fs = 32000"
    then show ?thesis
      using assms i n r32.calc_inv [OF assms(1), of n frame] r32.decision_bit [OF assms(1), of n frame]
      by (auto simp: WebRtcVad_Process_def Let_def case_prod_beta)
  next
    assume fs: "fs = 48000"
    then show ?thesis
      using assms i n r48.calc_inv [OF assms(1), of n frame] r48.decision_bit [OF assms(1), of n frame]
      by (auto simp: WebRtcVad_Process_def Let_def case_prod_beta)
  qed simp
  then show "\<exists>self'. h = Some self' \<and> vad_ready self'" "r \<in> {0, 1}" by blast+
qed

text \<open>The arguments the interface refuses, each with \<open>-1\<close> and the instance as it was.\<close>

definition process_rejects :: "VadInstT option \<Rightarrow> int \<Rightarrow> int list option \<Rightarrow> int \<Rightarrow> bool" where
  "process_rejects handle fs audio_frame n \<longleftrightarrow>
     handle = None \<or> init_flag (the handle) \<noteq> 42 \<or> audio_frame = None \<or>
     fs \<notin> {8000, 16000, 32000, 48000} \<or> n \<notin> rate_frame_lengths fs"

lemma Process_rejected:
  assumes "process_rejects handle fs audio_frame n"
  shows "WebRtcVad_Process handle fs audio_frame n = (handle, -1)"
  using assms ValidRateAndFrameLength_iff [of fs n]
  by (auto simp: WebRtcVad_Process_def process_rejects_def kInitCheck_def split: option.splits)

section \<open>Sequences of calls\<close>

inductive vad_reachable :: "VadInstT \<Rightarrow> bool" where
  created: "WebRtcVad_Create True (Some mem) = (Some self, 0) \<Longrightarrow> vad_reachable self"
| init: "vad_reachable self \<Longrightarrow> WebRtcVad_Init (Some self) = (Some self', r) \<Longrightarrow> vad_reachable self'"
| set_mode: "vad_reachable self \<Longrightarrow> WebRtcVad_set_mode (Some self) mode = (Some self', r) \<Longrightarrow> vad_reachable self'"
| process: "vad_reachable self \<Longrightarrow> WebRtcVad_Process (Some self) fs frame n = (Some self', r) \<Longrightarrow> vad_reachable self'"

lemma set_mode_init_flag: "init_flag (fst (WebRtcVad_set_mode_core self mode)) = init_flag self"
  by (simp add: WebRtcVad_set_mode_core_def)

lemma vad_reachable_ready: "vad_reachable self \<Longrightarrow> init_flag self = 42 \<longrightarrow> vad_ready self"
proof (induction rule: vad_reachable.induct)
  case (created mem self)
  then show ?case by (auto simp: WebRtcVad_Create_def)
next
  case (init self self' r)
  then show ?case using InitCore_inv [of self] by (auto simp: WebRtcVad_Init_def vad_ready_def)
next
  case (set_mode self mode self' r)
  then show ?case
    using set_mode_inv [of self mode] set_mode_init_flag [of self mode]
    by (auto simp: WebRtcVad_set_mode_def vad_ready_def kInitCheck_def Let_def case_prod_beta split: if_splits)
next
  case (process self fs frame n self' r)
  show ?case
  proof (cases "process_rejects (Some self) fs frame n")
    case True
    then show ?thesis using Process_rejected process by auto
  next
    case False
    then obtain xs where "frame = Some xs" "init_flag self = 42" "WebRtcVad_ValidRateAndFrameLength fs n = 0"
      by (auto simp: process_rejects_def ValidRateAndFrameLength_iff)
    then show ?thesis using Process_ready(1) process by (metis option.inject)
  qed
qed

end
