(* ===== verification/Vad_Properties.thy ===== *)
theory Vad_Properties
  imports Vad_Api
begin

text \<open>
  The properties of the detector that are stated for one of its parts: the models, the tracking of
  the minima, the hangover, the modes, the front end.  Each follows from the lemmas of the theory of
  that part; the witnesses run on a freshly initialised instance.
\<close>

section \<open>Concrete instances for the witnesses\<close>

text \<open>Freshly allocated memory, here all zero, and the instance \<open>WebRtcVad_Init\<close> makes of it.\<close>

definition vad_memory :: VadInstT where
  "vad_memory = \<lparr>vad = 0, downsampling_filter_states = replicate 4 0,
     state_48_to_8 = WebRtcSpl_ResetResample48khzTo8khz, noise_means = replicate 12 0, speech_means = replicate 12 0,
     noise_stds = replicate 12 0, speech_stds = replicate 12 0, frame_counter = 0, over_hang = 0, num_of_speech = 0,
     index_vector = replicate 96 0, low_value_vector = replicate 96 0, mean_value = replicate 6 0,
     upper_state = replicate 5 0, lower_state = replicate 5 0, hp_filter_state = replicate 4 0,
     over_hang_max_1 = replicate 3 0, over_hang_max_2 = replicate 3 0, individual = replicate 3 0,
     total = replicate 3 0, init_flag = 0\<rparr>"

definition vad_fresh :: VadInstT where
  "vad_fresh = the (fst (WebRtcVad_Init (Some vad_memory)))"

lemma vad_fresh_init: "WebRtcVad_Init (Some vad_memory) = (Some vad_fresh, 0)"
  using InitCore_inv [of vad_memory] by (auto simp: vad_fresh_def WebRtcVad_Init_def)

lemma vad_fresh_reachable: "vad_reachable vad_fresh"
proof -
  have "WebRtcVad_Create True (Some vad_memory) = (Some vad_memory, 0)"
    by (simp add: WebRtcVad_Create_def vad_memory_def)
  then show ?thesis by (rule vad_reachable.init [OF vad_reachable.created vad_fresh_init])
qed

lemma vad_fresh_ready: "vad_inv vad_fresh" "init_flag vad_fresh = 42"
  using InitCore_inv [of vad_memory] vad_fresh_init by (auto simp: WebRtcVad_Init_def)

lemma vad_fresh_parts: "vad_layout vad_fresh" "minima_inv vad_fresh" "models_ok vad_fresh"
  using vad_fresh_ready(1) by (simp_all add: vad_inv_def core_inv_def)

lemma features_witness: "features_ok [200, 300, 400, 500, 600, 700]"
  by (simp add: features_ok_def)

section \<open>Properties\<close>

text \<open>
  C5.  In every reachable initialised instance, and for every feature vector the filter bank can
  produce, the likelihoods of the two Gaussians of a channel are computed without any overflow: the
  C arithmetic on 16 and 32 bits gives what the same formulas give over the integers.
\<close>

theorem vad_likelihoods_exact:
  assumes "vad_reachable self" and "init_flag self = 42" and "c < 6" and "features_ok features"
  shows "gmm_channel_probability (features ! c) (noise_means self) (noise_stds self) kNoiseDataWeights c =
    ((kNoiseDataWeights ! c * gmm_prob (features ! c) (noise_means self ! c) (noise_stds self ! c),
      gmm_delta (features ! c) (noise_means self ! c) (noise_stds self ! c)),
     (kNoiseDataWeights ! (c + 6) * gmm_prob (features ! c) (noise_means self ! (c + 6)) (noise_stds self ! (c + 6)),
      gmm_delta (features ! c) (noise_means self ! (c + 6)) (noise_stds self ! (c + 6)))) \<and>
   gmm_channel_probability (features ! c) (speech_means self) (speech_stds self) kSpeechDataWeights c =
    ((kSpeechDataWeights ! c * gmm_prob (features ! c) (speech_means self ! c) (speech_stds self ! c),
      gmm_delta (features ! c) (speech_means self ! c) (speech_stds self ! c)),
     (kSpeechDataWeights ! (c + 6) * gmm_prob (features ! c) (speech_means self ! (c + 6)) (speech_stds self ! (c + 6)),
      gmm_delta (features ! c) (speech_means self ! (c + 6)) (speech_stds self ! (c + 6))))"
proof -
  have "models_ok self" using vad_reachable_ready [OF assms(1)] assms(2) by (simp add: vad_ready_def vad_inv_def core_inv_def)
  then show ?thesis using gmm_channel_probability_exact assms(3,4) by blast
qed

theorem vad_likelihoods_exact_witness:
  "fst (fst (gmm_channel_probability 200 (noise_means vad_fresh) (noise_stds vad_fresh) kNoiseDataWeights 0)) =
    kNoiseDataWeights ! 0 * gmm_prob 200 (noise_means vad_fresh ! 0) (noise_stds vad_fresh ! 0)"
  using vad_likelihoods_exact [OF vad_fresh_reachable vad_fresh_ready(2) _ features_witness, of 0] by simp

text \<open>
  C6.  Updating the models of a channel after a frame keeps the invariant of the instance, whatever the
  decision was: the layout, the sorted minima, and the ranges of the means and standard deviations; and
  it changes the models and the minima only.
\<close>

theorem vad_update_keeps_invariant:
  assumes "core_inv self" and "features_ok features"
  shows "core_inv (gmm_update t features self) \<and> models_only self (gmm_update t features self)"
  using gmm_update_inv [OF assms] by blast

theorem vad_update_keeps_invariant_witness:
  "core_inv (gmm_update (gmm_decision vad_fresh [200, 300, 400, 500, 600, 700] 24 57) [200, 300, 400, 500, 600, 700] vad_fresh)"
  using vad_update_keeps_invariant [OF _ features_witness] vad_fresh_ready(1) by (simp add: vad_inv_def)

text \<open>
  C7.  The smoothed minimum of a channel.  \<open>WebRtcVad_FindMinimum\<close> keeps the sixteen smallest values of
  the aged list and the new value, sorted; leaves the other channels alone; and moves the running mean
  to a value between the old mean and the current median.
\<close>

theorem find_minimum_tracks_lowest:
  assumes "vad_layout self" and "minima_inv self" and "c < 6" and "-32768 \<le> v"
    and "WebRtcVad_FindMinimum self v c = (self', m)"
  shows "minima_inv self' \<and>
    chan_lows self' c = take 16 (sort (aged_lows self c @ [v])) \<and>
    (\<forall>c'<6. c' \<noteq> c \<longrightarrow> chan_lows self' c' = chan_lows self c' \<and> chan_ages self' c' = chan_ages self c') \<and>
    mean_value self' = (mean_value self)[c := m] \<and>
    min (mean_value self ! c) (current_median (frame_counter self) (chan_lows self' c)) \<le> m \<and>
    m \<le> max (mean_value self ! c) (current_median (frame_counter self) (chan_lows self' c))"
  using WebRtcVad_FindMinimum_spec [OF assms] by blast

theorem find_minimum_tracks_lowest_witness:
  "chan_lows (fst (WebRtcVad_FindMinimum vad_fresh 300 2)) 2 = take 16 (sort (aged_lows vad_fresh 2 @ [300]))"
  using find_minimum_tracks_lowest [OF vad_fresh_parts(1,2) _ _ prod.collapse [symmetric], of 2 300] by simp

text \<open>
  The hand-unrolled binary search and the shifting loop of \<open>WebRtcVad_FindMinimum\<close> are an insertion
  into a sorted list of sixteen entries; a value that is not smaller than the last entry is dropped.
\<close>

lemma find_minimum_insertion:
  assumes "sorted sv" and "length sv = 16" and "length age = 16"
  shows "FindMinimum_insert (FindMinimum_position sv v) v age sv =
      (insert_age (insert_position sv v) age, take 16 (sort (sv @ [v]))) \<and>
    FindMinimum_position sv v = (if v < sv ! 15 then int (insert_position sv v) else -1)"
  using FindMinimum_insert_sort [OF assms] FindMinimum_position_correct [OF assms(1,2)] by simp



lemma silent_frame:
  assumes "hang_inv self" and "p \<le> 10"
  shows "GmmProbability self features p n =
    (self\<lparr>over_hang := max 0 (over_hang self - 1), num_of_speech := 0\<rparr>, if 0 < over_hang self then 2 + over_hang self else 0)"
proof -
  obtain self' v where e: "gmm_hangover (fst (gmm_thresholds self n)) (fst (snd (gmm_thresholds self n))) 0 self = (self', v)"
    by fastforce
  note r = gmm_hangover_refines [OF assms(1) e]
  have "over_hang self' = max 0 (over_hang self - 1)" "num_of_speech self' = 0"
    using r(1) assms(1) by (auto simp: hang_state_def hang_inv_def split: if_splits)
  then show ?thesis using r(2,3) GmmProbability_silence [OF assms(2)] e by simp
qed

lemma silent_frames:
  assumes "hang_inv self" and "\<forall>(f, p)\<in>set frames. p \<le> 10"
  shows "fold (\<lambda>(f, p) s. fst (GmmProbability s f p n)) frames self =
    (if frames = [] then self else self\<lparr>over_hang := max 0 (over_hang self - int (length frames)), num_of_speech := 0\<rparr>)"
  using assms
proof (induction frames arbitrary: self)
  case (Cons x frames)
  obtain f p where x: "x = (f, p)" "p \<le> 10" using Cons.prems(2) by (cases x) auto
  let ?s = "self\<lparr>over_hang := max 0 (over_hang self - 1), num_of_speech := 0\<rparr>"
  have s: "fst (GmmProbability self f p n) = ?s" using silent_frame [OF Cons.prems(1) x(2)] by simp
  have "hang_inv ?s" using Cons.prems(1) by (auto simp: hang_inv_def)
  then show ?case using Cons.IH [of ?s] Cons.prems(2) Cons.prems(1) by (auto simp: x(1) s hang_inv_def max_def)
qed simp

text \<open>
  C9.  Silence is reported in the end.  Whatever was detected before, after at most fourteen frames with
  no energy the decision is 0; such frames change nothing but the hangover counters.
\<close>

theorem silence_is_reported:
  assumes "vad_reachable self" and "init_flag self = 42" and "\<forall>(f, p)\<in>set frames. p \<le> 10" and "14 \<le> length frames"
    and "p \<le> 10"
  shows "fold (\<lambda>(f, p) s. fst (GmmProbability s f p n)) frames self = self\<lparr>over_hang := 0, num_of_speech := 0\<rparr> \<and>
    snd (GmmProbability (fold (\<lambda>(f, p) s. fst (GmmProbability s f p n)) frames self) features p n) = 0"
proof -
  have inv: "hang_inv self" using vad_reachable_ready [OF assms(1)] assms(2) by (simp add: vad_ready_def vad_inv_def)
  let ?s = "self\<lparr>over_hang := 0, num_of_speech := 0\<rparr>"
  have "frames \<noteq> []" using assms(4) by auto
  moreover have "max 0 (over_hang self - int (length frames)) = 0" using inv assms(4) by (simp add: hang_inv_def)
  ultimately have f: "fold (\<lambda>(f, p) s. fst (GmmProbability s f p n)) frames self = ?s"
    using silent_frames [OF inv assms(3)] by simp
  have "hang_inv ?s" by (simp add: hang_inv_def)
  then show ?thesis using silent_frame [OF _ assms(5), of ?s] by (simp add: f)
qed

theorem silence_is_reported_witness:
  "snd (GmmProbability (fold (\<lambda>(f, p) s. fst (GmmProbability s f p 80)) (replicate 14 ([], 0)) vad_fresh) [] 10 80) = 0"
  by (rule conjunct2 [OF silence_is_reported [OF vad_fresh_reachable vad_fresh_ready(2)]]) simp_all

text \<open>
  The modes.  On an initialised instance \<open>WebRtcVad_set_mode\<close> accepts 0 to 3, installs one of the
  four settings and keeps everything else; any other value is refused with -1 and changes nothing, as is
  any call on a \<open>NULL\<close> or uninitialised instance.
\<close>

lemma set_mode_contract:
  "WebRtcVad_set_mode None mode = (None, -1) \<and>
   (init_flag self \<noteq> 42 \<longrightarrow> WebRtcVad_set_mode (Some self) mode = (Some self, -1)) \<and>
   (init_flag self = 42 \<and> mode \<notin> {0, 1, 2, 3} \<longrightarrow> WebRtcVad_set_mode (Some self) mode = (Some self, -1)) \<and>
   (init_flag self = 42 \<and> mode \<in> {0, 1, 2, 3} \<longrightarrow>
      (\<exists>self'. WebRtcVad_set_mode (Some self) mode = (Some self', 0) \<and> mode_inv self' \<and>
         self' = self\<lparr>over_hang_max_1 := over_hang_max_1 self', over_hang_max_2 := over_hang_max_2 self',
                      individual := individual self', total := total self'\<rparr>))"
  by (auto simp: WebRtcVad_set_mode_def WebRtcVad_set_mode_core_def kInitCheck_def mode_inv_def)

text \<open>
  C10.  Initialisation does not depend on what the memory held: every instance gets the invariant, the
  initial decision, empty counters and the mark of an initialised instance.
\<close>

theorem init_establishes_invariant:
  "\<exists>self'. WebRtcVad_Init (Some mem) = (Some self', 0) \<and> vad_ready self' \<and> vad self' = 1 \<and> frame_counter self' = 0 \<and>
    hang_state self' = (0, 0)"
  using InitCore_inv [of mem] by (auto simp: WebRtcVad_Init_def vad_ready_def)

text \<open>
  The table of rates: a rate and a frame length are accepted exactly when the rate is 8, 16, 32 or 48
  kHz and the frame is 10, 20 or 30 ms long.
\<close>

lemma valid_rates_exactly:
  "WebRtcVad_ValidRateAndFrameLength rate n = 0 \<longleftrightarrow>
    (rate, n) \<in> {(8000, 80), (8000, 160), (8000, 240), (16000, 160), (16000, 320), (16000, 480),
      (32000, 320), (32000, 640), (32000, 960), (48000, 480), (48000, 960), (48000, 1440)}"
proof -
  consider "rate = 8000" | "rate = 16000" | "rate = 32000" | "rate = 48000" | "rate \<notin> {8000, 16000, 32000, 48000}" by blast
  then show ?thesis by cases (simp_all add: ValidRateAndFrameLength_iff rate_frame_lengths_def)
qed

text \<open>
  C11.  The features.  Whatever the samples are, the six logarithmic band energies of a frame of 10, 20
  or 30 ms at 8 kHz are between 176 and 2053, the total energy is not negative, and only the filter states
  of the instance change.
\<close>

theorem features_in_range:
  assumes "frame_len n" and "WebRtcVad_CalculateFeatures self data_in n = (self', features, total_energy)"
  shows "length features = 6 \<and> (\<forall>x\<in>set features. 176 \<le> x \<and> x \<le> 2053) \<and> 0 \<le> total_energy \<and> filters_only self self'"
  using CalculateFeatures_ok [OF assms] by (simp add: features_ok_def)

theorem features_in_range_witness:
  "length (fst (snd (WebRtcVad_CalculateFeatures vad_fresh (replicate 80 0) 80))) = 6"
proof -
  obtain s f e where r: "WebRtcVad_CalculateFeatures vad_fresh (replicate 80 0) 80 = (s, f, e)" by (rule prod_cases3)
  show ?thesis using features_in_range [OF _ r] by (simp add: r frame_len_def)
qed

text \<open>
  The noise and the speech model of a channel are kept apart.  After the separation step the
  weighted averages of the two models, in the units of the comparison, differ by at least the minimum of
  the channel, up to a rounding error of 2; and the two sums handed to the limiting step are those
  averages.
\<close>

lemma models_kept_apart:
  assumes "vad_layout self" and "c < 6"
    and "speech_pre c (speech_means self ! c) (speech_means self ! (c + 6))"
    and "noise_pre c (noise_means self ! c)" and "noise_pre c (noise_means self ! (c + 6))"
    and "gmm_separate c self = (self', S, N)"
  shows "kMinimumDifference ! c - 2 \<le> S div 512 - N div 512 \<and>
    S = speech_average c (speech_means self' ! c) (speech_means self' ! (c + 6)) \<and>
    N = noise_average c (noise_means self' ! c) (noise_means self' ! (c + 6))"
proof -
  define S0 N0 where "S0 = speech_average c (speech_means self ! c) (speech_means self ! (c + 6))"
    and "N0 = noise_average c (noise_means self ! c) (noise_means self ! (c + 6))"
  have len: "length (speech_means self) = 12" "length (noise_means self) = 12" using assms(1) by (simp_all add: vad_layout_def)
  have r: "self' = self\<lparr>speech_means := shift_pair (speech_means self) c (speech_shift c S0 N0),
        noise_means := shift_pair (noise_means self) c (- noise_shift c S0 N0)\<rparr>"
    "S = S0 + 128 * speech_shift c S0 N0" "N = N0 - 128 * noise_shift c S0 N0"
    using gmm_separate_eq [OF assms(1-5)] assms(6) by (simp_all add: S0_def N0_def)
  have "kMinimumDifference ! c - 2 \<le> S div 512 - N div 512"
    using separation_gap [of c S0 N0] by (simp add: r model_gap_def)
  moreover have "S = speech_average c (speech_means self' ! c) (speech_means self' ! (c + 6))"
    "N = noise_average c (noise_means self' ! c) (noise_means self' ! (c + 6))"
    using average_shift [OF assms(2)] len assms(2)
    by (simp_all add: r shift_pair_set_pair S0_def N0_def) (metis add_uminus_conv_diff mult_minus_right)
  ultimately show ?thesis by blast
qed

text \<open>
  At 48 kHz only the first 10 ms of a frame are looked at.  The loop over the 10 ms pieces of a
  longer frame passes the same pointer to the resampler every time, so two frames of 20 or 30 ms that
  agree on their first 480 samples give the same state and the same decision.
\<close>

lemma frame_48khz_prefix_only:
  assumes "vad_reachable self" and "init_flag self = 42" and "n \<in> {960, 1440}"
    and "length xs = 480" and "length (xs @ ys) = nat n" and "length (xs @ zs) = nat n"
  shows "WebRtcVad_Process (Some self) 48000 (Some (xs @ ys)) n = WebRtcVad_Process (Some self) 48000 (Some (xs @ zs)) n"
proof -
  have inv: "vad_inv self" using vad_reachable_ready [OF assms(1)] assms(2) by (simp add: vad_ready_def)
  have n: "n = 480 \<or> n = 960 \<or> n = 1440" using assms(3) by auto
  have "WebRtcVad_CalcVad48khz self (xs @ ys) n = WebRtcVad_CalcVad48khz self (xs @ zs) n"
    using repeat_frame_prefix [OF assms(4)] by (simp add: CalcVad48khz_eq [OF inv n])
  then show ?thesis by (simp add: WebRtcVad_Process_def)
qed

end
