(* ===== verification/Spl_Properties.thy ===== *)
theory Spl_Properties
  imports Spl_Vector Spl_Resample Vad_Sp
begin

text \<open>
  The properties of the signal processing library the detector uses: energies, normalisation, saturating
  arithmetic, division, extrema, and the resampling from 48 to 8 kHz.
\<close>

section \<open>Properties\<close>

text \<open>
  C39.  Resampling from 48 to 8 kHz works in place: although the stages overwrite the scratch buffer they
  read from, the output and the new filter states are those of the four stages applied one after the
  other to separate lists.
\<close>

theorem resample_48_to_8_in_place:
  assumes "length (S_24_16 state) = 8" and "496 \<le> length tmpmem"
    and "WebRtcSpl_Resample48khzTo8khz inp state tmpmem = (out, state', tmpmem')"
  shows "(out, state') = resample48To8 inp state \<and> length tmpmem' = length tmpmem"
  using Resample48khzTo8khz_stages [OF assms] by blast

theorem resample_48_to_8_in_place_witness:
  "fst (WebRtcSpl_Resample48khzTo8khz (replicate 480 1) WebRtcSpl_ResetResample48khzTo8khz (replicate 736 0)) =
   fst (resample48To8 (replicate 480 1) WebRtcSpl_ResetResample48khzTo8khz)"
proof -
  obtain out s t where r: "WebRtcSpl_Resample48khzTo8khz (replicate 480 1) WebRtcSpl_ResetResample48khzTo8khz (replicate 736 0) = (out, s, t)"
    by (rule prod_cases3)
  have "(out, s) = resample48To8 (replicate 480 1) WebRtcSpl_ResetResample48khzTo8khz"
    using resample_48_to_8_in_place [OF _ _ r] by (simp add: WebRtcSpl_ResetResample48khzTo8khz_def)
  then show ?thesis by (metis r fst_conv)
qed

text \<open>
  C40.  The three fractional resamplers.  With the output written over memory in front of the input, as
  their callers do, \<open>K\<close> blocks give the \<open>K\<close> block outputs of the original input.
\<close>

theorem fractional_resamplers_in_place:
  assumes "0 < K"
  shows "(Out + 2 \<le> In \<and> In + 3 * (K - 1) + 9 \<le> length mem \<longrightarrow>
      WebRtcSpl_Resample48khzTo32khz mem In Out K = blit mem Out (block_resample body48To32 9 3 2 (drop In mem) K)) \<and>
    (Out + 3 \<le> In \<and> In + 4 * (K - 1) + 10 \<le> length mem \<longrightarrow>
      WebRtcSpl_Resample32khzTo24khz mem In Out K = blit mem Out (block_resample body32To24 10 4 3 (drop In mem) K)) \<and>
    (Out + 8 \<le> In \<and> In + 11 * (K - 1) + 18 \<le> length mem \<longrightarrow>
      WebRtcSpl_Resample44khzTo32khz mem In Out K = blit mem Out (block_resample body44To32 18 11 8 (drop In mem) K))"
  unfolding WebRtcSpl_Resample48khzTo32khz_def WebRtcSpl_Resample32khzTo24khz_def WebRtcSpl_Resample44khzTo32khz_def
  by (intro conjI impI; elim conjE; erule r48.block_loop_blit r32.block_loop_blit r44.block_loop_blit; simp)

theorem fractional_resamplers_in_place_witness:
  "WebRtcSpl_Resample48khzTo32khz (replicate 40 7) 8 0 3 =
    blit (replicate 40 7) 0 (block_resample body48To32 9 3 2 (drop 8 (replicate 40 7)) 3)"
  using fractional_resamplers_in_place [of 3 0 8 "replicate 40 7"] by simp

text \<open>
  Downsampling by two is a streaming filter: two frames handed over one after the other, with the
  state carried along, give what the concatenated frame gives.
\<close>

lemma downsampling_streams:
  assumes "length xs = 2 * k" and "length ys = 2 * m" and "length st = 2"
  shows "WebRtcVad_Downsampling (xs @ ys) st (2 * int (k + m)) =
    (let (o1, st1) = WebRtcVad_Downsampling xs st (2 * int k);
         (o2, st2) = WebRtcVad_Downsampling ys st1 (2 * int m) in (o1 @ o2, st2))"
proof -
  have half: "nat (shr (2 * int n) 1) = n" for n by (simp add: shr_def)
  obtain a b where st: "st = [a, b]" using assms(3) by (auto simp: length_Suc_conv numeral_2_eq_2)
  obtain o1 a1 b1 where 1: "Downsampling_loop a b xs = (o1, a1, b1)" by (rule prod_cases3)
  obtain o2 a2 b2 where 2: "Downsampling_loop a1 b1 ys = (o2, a2, b2)" by (rule prod_cases3)
  have "Downsampling_loop a b (xs @ ys) = (o1 @ o2, a2, b2)"
    using Downsampling_loop_append [of xs a b ys] assms(1) by (simp add: 1 2)
  then show ?thesis
    unfolding WebRtcVad_Downsampling_def half using assms(1,2) by (simp add: st 1 2 del: of_nat_add)
qed

text \<open>
  The energy of a vector is exact: if no sample is -32768, the result is the sum of the scaled
  squares, it does not overflow, and the scaling is a valid shift.
\<close>

lemma energy_is_exact:
  assumes "\<forall>x\<in>set xs. -32767 \<le> x \<and> x \<le> 32767" and "length xs \<le> 2147483647"
    and "WebRtcSpl_Energy xs (int (length xs)) = (en, scaling)"
  shows "en = sum_list (map (\<lambda>x. shr (x * x) (nat scaling)) xs) \<and> 0 \<le> en \<and> en \<le> 2147483647 \<and> 0 \<le> scaling \<and> scaling \<le> 31"
  using Energy_exact [OF assms] by blast

text \<open>
  The sample -32768 breaks the scaling: its absolute value does not fit, so two such samples already
  overflow the sum, and four of them have energy 0.
\<close>

lemma energy_of_minimum_wraps:
  "WebRtcSpl_Energy [-32768, -32768] 2 = (-2147483648, 0) \<and>
   WebRtcSpl_Energy [-32768, -32768, -32768, -32768] 4 = (0, 0)"
  using Energy_min_sample by blast

text \<open>
  Normalisation.  For a positive 32-bit number the shift of \<open>WebRtcSpl_NormW32\<close> moves its highest bit
  to bit 30, that of \<open>WebRtcSpl_NormU32\<close> to bit 31, and \<open>WebRtcSpl_GetSizeInBits\<close> is the number of bits.
\<close>

lemma normalisation_shifts:
  assumes "0 < a" and "a < 2147483648"
  shows "2 ^ 30 \<le> a * 2 ^ nat (WebRtcSpl_NormW32 a) \<and> a * 2 ^ nat (WebRtcSpl_NormW32 a) < 2 ^ 31 \<and>
    2 ^ 31 \<le> a * 2 ^ nat (WebRtcSpl_NormU32 a) \<and> a * 2 ^ nat (WebRtcSpl_NormU32 a) < 2 ^ 32 \<and>
    2 ^ nat (WebRtcSpl_GetSizeInBits a - 1) \<le> a \<and> a < 2 ^ nat (WebRtcSpl_GetSizeInBits a)"
proof -
  obtain z where z: "WebRtcSpl_NormW32 a = int z" "1073741824 \<le> shl a z" "shl a z < 2147483648"
    using NormW32_pos assms by blast
  obtain y where y: "WebRtcSpl_NormU32 a = int y" "2147483648 \<le> shl a y" "shl a y < 4294967296"
    by (rule NormU32_pos [of a]) (use assms in simp_all)
  obtain b where b: "WebRtcSpl_GetSizeInBits a = int (Suc b)" "shr a b = 1"
    by (rule GetSizeInBits_pos [of a]) (use assms in simp_all)
  have "a div 2 ^ b = 1" using b(2) by (simp add: shr_def)
  then have a: "2 ^ b + a mod 2 ^ b = a" using div_mult_mod_eq [of a "2 ^ b"] by simp
  have m: "0 \<le> a mod 2 ^ b" "a mod 2 ^ b < 2 ^ b" by simp_all
  have "2 ^ b \<le> a" "a < 2 * 2 ^ b" using a m by linarith+
  moreover have "nat (int (Suc b)) = Suc b" "nat (int (Suc b) - 1) = b" by simp_all
  ultimately show ?thesis using z y by (simp add: shl_def b(1) del: of_nat_Suc)
qed

text \<open>
  Saturating arithmetic.  The overflow tests on wrapped 32-bit sums and differences, and the chain of
  comparisons for 16 bits, clamp the exact result to the range of the type.
\<close>

lemma saturation_clamps:
  assumes "in_s32 a" and "in_s32 b"
  shows "WebRtcSpl_AddSatW32 a b = max (-2147483648) (min 2147483647 (a + b)) \<and>
    WebRtcSpl_SubSatW32 a b = max (-2147483648) (min 2147483647 (a - b)) \<and>
    WebRtcSpl_SatW32ToW16 a = max (-32768) (min 32767 a)"
  using AddSatW32_clamp [OF assms] SubSatW32_clamp [OF assms] SatW32ToW16_clamp [of a] by (simp add: clamp_def max_def min_def)

text \<open>
  The bitwise long division returns the quotient of a proper fraction in Q31, rounded down, provided
  the denominator is at most \<open>2 ^ 30\<close>: beyond that, doubling the remainder overflows.
\<close>

lemma division_q31:
  assumes "0 \<le> num" and "num < den" and "den \<le> 1073741824"
  shows "WebRtcSpl_DivResultInQ31 num den = num * 2 ^ 31 div den"
  using DivResultInQ31_correct [OF assms] by simp

definition first_max :: "nat \<Rightarrow> int list \<Rightarrow> bool" where
  "first_max k xs \<longleftrightarrow> k < length xs \<and> (\<forall>x\<in>set xs. x \<le> xs ! k) \<and> (\<forall>j<k. xs ! j < xs ! k)"

lemma max_index_first:
  assumes "\<forall>x\<in>set xs. lo \<le> x" and "xs \<noteq> []"
  shows "first_max (nat (max_index_loop 0 0 lo xs)) xs"
  using max_index_loop_correct [OF refl, of 0 0 lo xs]
proof
  assume a: "max_index_loop 0 0 lo xs = 0 \<and> (\<forall>x\<in>set xs. x \<le> lo)"
  have "xs ! 0 \<in> set xs" using assms(2) by simp
  then have "xs ! 0 = lo" using a assms(1) by (meson order_antisym)
  then show ?thesis using a assms(2) by (simp add: first_max_def)
next
  assume "\<exists>k<length xs. max_index_loop 0 0 lo xs = 0 + int k \<and> lo < xs ! k \<and> (\<forall>x\<in>set xs. x \<le> xs ! k) \<and> (\<forall>j<k. xs ! j < xs ! k)"
  then show ?thesis by (auto simp: first_max_def)
qed

lemma min_index_first:
  assumes "\<forall>x\<in>set xs. x \<le> hi" and "xs \<noteq> []"
  shows "first_max (nat (min_index_loop 0 0 hi xs)) (map uminus xs)"
  unfolding min_index_loop_neg using assms by (intro max_index_first) auto

text \<open>
  \<open>WebRtcSpl_MaxIndexW16\<close> and \<open>WebRtcSpl_MinIndexW16\<close> return the first position of the extremum of
  the vector; \<open>WebRtcSpl_MaxValueW16C\<close> and \<open>WebRtcSpl_MinValueW16C\<close> return the extremum itself.
\<close>

lemma extremum_search:
  assumes "list_all in_s16 xs" and "xs \<noteq> []" and "len = int (length xs)"
  shows "first_max (nat (WebRtcSpl_MaxIndexW16 (Some xs) len)) xs \<and>
    first_max (nat (WebRtcSpl_MinIndexW16 (Some xs) len)) (map uminus xs) \<and>
    WebRtcSpl_MaxValueW16C (Some xs) len = Max (set xs) \<and> WebRtcSpl_MinValueW16C (Some xs) len = Min (set xs)"
proof -
  have lo: "\<forall>x\<in>set xs. -32768 \<le> x" and hi: "\<forall>x\<in>set xs. x \<le> 32767"
    using assms(1) by (auto simp: list_all_iff in_s16_def)
  have "max_loop (-32768) xs = Max (set xs)" "min_loop 32767 xs = Min (set xs)"
    using lo hi assms(2) by (simp_all add: max_loop_eq_Max min_loop_eq_Min max_absorb2 min_absorb2)
  then show ?thesis
    using max_index_first [OF lo assms(2)] min_index_first [OF hi assms(2)] assms(2,3)
    by (simp add: WebRtcSpl_MaxIndexW16_def WebRtcSpl_MinIndexW16_def WebRtcSpl_MaxValueW16C_def
        WebRtcSpl_MinValueW16C_def WEBRTC_SPL_WORD16_MIN_def WEBRTC_SPL_WORD16_MAX_def)
qed

end
