(* ===== verification/Circlebuf.thy ===== *)
theory Circlebuf
  imports C_Prelude
begin

text \<open>
  \<open>ext_circlebuffer.c\<close> of the audio HAL: the ring buffer between the stream writers and the
  mixing and sharing threads.

  The mutex is the flag \<open>rb_lock\<close>: an operation that takes a mutex already held never returns, which
  is the error \<open>Blocked\<close>.  A \<open>memcpy\<close> outside one of its two arrays is the error \<open>Bad_access\<close>.
  Every operation is total: it returns an error or the new state.

  The contract of a byte queue is the locale \<open>byte_fifo\<close>; the ring buffer in its default mode is an
  interpretation.
\<close>

type_synonym byte = "8 word"

definition AUDIO_CIRCLEBUF_DEFAULT_SIZE :: int where "AUDIO_CIRCLEBUF_DEFAULT_SIZE = 4096"
definition EINVAL :: int where "EINVAL = 22"
definition ENOENT :: int where "ENOENT = 2"
definition ENOMEM :: int where "ENOMEM = 12"
definition ENODEV :: int where "ENODEV = 19"
definition ENOSYS :: int where "ENOSYS = 38"
definition EIO :: int where "EIO = 5"
definition EPIPE :: int where "EPIPE = 32"

record circlebuf =
  rb_data :: "byte list"
  rb_size :: int
  rb_used :: int
  rb_read_offset :: int
  rb_write_offset :: int
  rb_over_write :: bool
  rb_chann :: int
  rb_fmt :: int
  rb_rate :: int
  rb_lock :: bool

section \<open>Operations\<close>

text \<open>\<open>calloc\<close> and \<open>malloc\<close> are parameters: whether the first succeeds, and what the second returns.\<close>

definition audio_circlebuf_create :: "bool \<Rightarrow> (int \<Rightarrow> byte list option) \<Rightarrow> int \<Rightarrow> circlebuf option" where
  "audio_circlebuf_create calloc malloc len =
     (if \<not> calloc then None
      else let sz = (if len = 0 then AUDIO_CIRCLEBUF_DEFAULT_SIZE else len)
           in case malloc sz of None \<Rightarrow> None
              | Some mem \<Rightarrow> Some \<lparr>rb_data = mem, rb_size = sz, rb_used = 0, rb_read_offset = 0,
                  rb_write_offset = 0, rb_over_write = False, rb_chann = 0, rb_fmt = 0, rb_rate = 0,
                  rb_lock = False\<rparr>)"

text \<open>
  \<open>pcm_format_to_bits\<close> of tinyalsa is a parameter.  The macro is evaluated on \<open>uint32_t\<close> arguments,
  so it wraps modulo \<open>2 ^ 32\<close>; its product with \<open>len\<close> is converted to \<open>int32_t\<close>.
\<close>

definition OUT_PERIOD_MS :: int where "OUT_PERIOD_MS = 20"

definition MIX_THRESHOLD_BYTES_BY_RATE :: "(int \<Rightarrow> int) \<Rightarrow> int \<Rightarrow> int \<Rightarrow> int \<Rightarrow> int" where
  "MIX_THRESHOLD_BYTES_BY_RATE pcm_format_to_bits ch format rate =
     u32 (u32 (ch * shr (pcm_format_to_bits format) 3) * u32 (rate * OUT_PERIOD_MS)) div 1000"

definition audio_circlebuf_create_pcm ::
    "(int \<Rightarrow> int) \<Rightarrow> bool \<Rightarrow> (int \<Rightarrow> byte list option) \<Rightarrow> int \<Rightarrow> int \<Rightarrow> int \<Rightarrow> int \<Rightarrow> circlebuf option" where
  "audio_circlebuf_create_pcm pcm_format_to_bits calloc malloc channel format rate periods =
     (let len = s32 (u32 (MIX_THRESHOLD_BYTES_BY_RATE pcm_format_to_bits channel format rate * u32 periods))
      in if \<not> calloc then None
         else let sz = (if len = 0 then AUDIO_CIRCLEBUF_DEFAULT_SIZE else len)
              in case malloc sz of None \<Rightarrow> None
                 | Some mem \<Rightarrow> Some \<lparr>rb_data = mem, rb_size = sz, rb_used = 0, rb_read_offset = 0,
                     rb_write_offset = 0, rb_over_write = False, rb_chann = s32 channel, rb_fmt = format,
                     rb_rate = rate, rb_lock = False\<rparr>)"

definition audio_circlebuf_set_over_write :: "circlebuf \<Rightarrow> bool \<Rightarrow> circlebuf" where
  "audio_circlebuf_set_over_write rbuf ov = rbuf\<lparr>rb_over_write := ov\<rparr>"

definition audio_circlebuf_is_over_write :: "circlebuf \<Rightarrow> bool" where
  "audio_circlebuf_is_over_write rbuf = rb_over_write rbuf"

definition audio_circlebuf_skip :: "circlebuf \<Rightarrow> int \<Rightarrow> circlebuf" where
  "audio_circlebuf_skip rb len =
     (if len \<ge> rb_used rb
      then rb\<lparr>rb_read_offset := rb_write_offset rb, rb_used := 0\<rparr>
      else
        let rb = rb\<lparr>rb_used := rb_used rb - len\<rparr>
        in if len > rb_size rb - rb_read_offset rb
           then rb\<lparr>rb_read_offset := len - (rb_size rb - rb_read_offset rb)\<rparr>
           else rb\<lparr>rb_read_offset := rb_read_offset rb + len\<rparr>)"

text \<open>
  \<open>out\<close> is the array the caller passes, from index \<open>at\<close> on.  The result is the buffer, the array and
  the return value.
\<close>

definition audio_circlebuf_read ::
    "circlebuf option \<Rightarrow> byte list \<Rightarrow> int \<Rightarrow> int \<Rightarrow> c_error + circlebuf option \<times> byte list \<times> int" where
  "audio_circlebuf_read rb out at len =
     (case rb of None \<Rightarrow> Inr (None, out, - EINVAL)
      | Some rb \<Rightarrow>
          if rb_lock rb then Inl Blocked
          else
            let read_size = (if len > rb_used rb then rb_used rb else len);
                to_end = rb_size rb - rb_read_offset rb
            in and_then
                 (if read_size > to_end
                  then and_then (memcpy out at (rb_data rb) (rb_read_offset rb) to_end) (\<lambda>out.
                       let start_size = read_size - to_end
                       in and_then (memcpy out (at + to_end) (rb_data rb) 0 start_size) (\<lambda>out.
                          Inr (rb\<lparr>rb_read_offset := start_size\<rparr>, out)))
                  else and_then (memcpy out at (rb_data rb) (rb_read_offset rb) read_size) (\<lambda>out.
                       Inr (rb\<lparr>rb_read_offset := rb_read_offset rb + read_size\<rparr>, out)))
                 (\<lambda>(rb, out). Inr (Some (rb\<lparr>rb_used := rb_used rb - read_size\<rparr>), out, read_size)))"

text \<open>
  The branch for a chunk larger than the whole buffer returns with the mutex held.
\<close>

definition circlebuf_store :: "circlebuf \<Rightarrow> byte list \<Rightarrow> int \<Rightarrow> c_error + circlebuf" where
  "circlebuf_store rb inp write_size =
     (let to_end = rb_size rb - rb_write_offset rb
      in if write_size > to_end
         then and_then (memcpy (rb_data rb) (rb_write_offset rb) inp 0 to_end) (\<lambda>d.
              let from_start = write_size - to_end
              in and_then (memcpy d 0 inp to_end from_start) (\<lambda>d.
                 Inr (rb\<lparr>rb_data := d, rb_write_offset := from_start\<rparr>)))
         else and_then (memcpy (rb_data rb) (rb_write_offset rb) inp 0 write_size) (\<lambda>d.
              Inr (rb\<lparr>rb_data := d, rb_write_offset := rb_write_offset rb + write_size\<rparr>)))"

definition audio_circlebuf_write ::
    "circlebuf option \<Rightarrow> byte list option \<Rightarrow> int \<Rightarrow> c_error + circlebuf option \<times> int" where
  "audio_circlebuf_write rb inp len =
     (case (rb, inp) of
        (Some rb, Some inp) \<Rightarrow>
          if len = 0 then Inr (Some rb, 0)
          else if rb_lock rb then Inl Blocked
          else
            let available_size = rb_size rb - rb_used rb;
                write_size = (if len > available_size then available_size else len)
            in if write_size < len \<and> rb_over_write rb \<and> len > rb_size rb
               then
                 let write_size = rb_size rb
                 in and_then (memcpy (rb_data rb) 0 inp (len - write_size) write_size) (\<lambda>d.
                    Inr (Some (rb\<lparr>rb_read_offset := 0, rb_write_offset := 0, rb_data := d,
                                  rb_used := write_size, rb_lock := True\<rparr>), len))
               else
                 let (rb, write_size) =
                       (if write_size < len \<and> rb_over_write rb
                        then
                          let diff = len - write_size;
                              ro = rb_read_offset rb + diff;
                              ro = (if ro \<ge> rb_size rb then ro - rb_size rb else ro)
                          in (rb\<lparr>rb_read_offset := ro, rb_used := rb_used rb - diff\<rparr>, write_size + diff)
                        else (rb, write_size))
                 in and_then (circlebuf_store rb inp write_size) (\<lambda>rb.
                    Inr (Some (rb\<lparr>rb_used := rb_used rb + write_size\<rparr>), write_size))
      | _ \<Rightarrow> Inr (rb, 0))"

definition audio_circlebuf_used :: "circlebuf \<Rightarrow> int" where
  "audio_circlebuf_used rb = rb_used rb"

definition audio_circlebuf_size :: "circlebuf \<Rightarrow> int" where
  "audio_circlebuf_size rb = rb_size rb"

definition audio_circlebuf_available :: "circlebuf \<Rightarrow> int" where
  "audio_circlebuf_available rb = rb_size rb - rb_used rb"

definition audio_circlebuf_clear :: "circlebuf \<Rightarrow> circlebuf" where
  "audio_circlebuf_clear rb = rb\<lparr>rb_read_offset := 0, rb_write_offset := 0, rb_used := 0\<rparr>"

definition audio_circlebuf_get_ch :: "circlebuf option \<Rightarrow> int" where
  "audio_circlebuf_get_ch rb = (case rb of None \<Rightarrow> - EINVAL | Some rb \<Rightarrow> rb_chann rb)"

definition audio_circlebuf_get_fmt :: "circlebuf option \<Rightarrow> int" where
  "audio_circlebuf_get_fmt rb = (case rb of None \<Rightarrow> - EINVAL | Some rb \<Rightarrow> rb_fmt rb)"

text \<open>
  The copy between two buffers.  The source takes the contiguous part of the destination from its
  own offsets, advances \<open>write_offset\<close> twice when the source wraps, reads the source at the offset of
  the destination in the wrapped branches, and sets \<open>used\<close> to the number of bytes copied.
\<close>

definition circlebuf_read_into :: "circlebuf \<Rightarrow> circlebuf \<Rightarrow> int \<Rightarrow> int \<Rightarrow> c_error + circlebuf \<times> circlebuf" where
  "circlebuf_read_into src dst at n =
     and_then (audio_circlebuf_read (Some src) (rb_data dst) at n) (\<lambda>(src', d, r).
       Inr (the src', dst\<lparr>rb_data := d\<rparr>))"

definition copy_contiguous :: "circlebuf \<Rightarrow> circlebuf \<Rightarrow> int \<Rightarrow> c_error + circlebuf" where
  "copy_contiguous src dst to_copy =
     (if rb_read_offset src < rb_write_offset src
      then and_then (memcpy (rb_data dst) (rb_write_offset dst) (rb_data src) (rb_read_offset src) to_copy)
             (\<lambda>d. Inr (dst\<lparr>rb_data := d\<rparr>))
      else
        let to_end = rb_size src - rb_read_offset src
        in and_then (memcpy (rb_data dst) (rb_write_offset dst) (rb_data src) (rb_read_offset src) to_end) (\<lambda>d.
           let dst = dst\<lparr>rb_write_offset := rb_write_offset dst + to_end\<rparr>
           in and_then (memcpy d (rb_write_offset dst) (rb_data src) 0 (to_copy - to_end)) (\<lambda>d.
              Inr (dst\<lparr>rb_data := d\<rparr>))))"

definition copy_wrapped :: "circlebuf \<Rightarrow> circlebuf \<Rightarrow> int \<Rightarrow> int \<Rightarrow> c_error + circlebuf" where
  "copy_wrapped src dst contiguous remainder =
     (let store = (\<lambda>d. Inr (dst\<lparr>rb_data := d\<rparr>)) in
      if rb_read_offset src < rb_write_offset src
      then and_then (memcpy (rb_data dst) (rb_write_offset dst) (rb_data src) (rb_read_offset src) contiguous) (\<lambda>d.
           and_then (memcpy d 0 (rb_data src) (rb_read_offset src + contiguous) remainder) store)
      else
        let to_end = rb_size src - rb_read_offset src
        in if to_end > contiguous
           then and_then (memcpy (rb_data dst) (rb_write_offset dst) (rb_data src) (rb_read_offset dst) contiguous) (\<lambda>d.
                let diff = to_end - contiguous
                in if diff > remainder
                   then and_then (memcpy d 0 (rb_data src) (rb_read_offset dst + contiguous) remainder) store
                   else and_then (memcpy d 0 (rb_data src) (rb_read_offset dst + contiguous) diff) (\<lambda>d.
                        and_then (memcpy d diff (rb_data src) 0 (remainder - diff)) store))
           else and_then (memcpy (rb_data dst) (rb_write_offset dst) (rb_data src) (rb_read_offset dst) to_end) (\<lambda>d.
                let diff = contiguous - to_end
                in if diff \<noteq> 0
                   then and_then (memcpy d (rb_write_offset dst + to_end) (rb_data src) 0 diff) (\<lambda>d.
                        and_then (memcpy d 0 (rb_data src) diff remainder) store)
                   else store d))"

definition audio_circlebuf_copy_internal ::
    "circlebuf option \<Rightarrow> circlebuf option \<Rightarrow> int \<Rightarrow> bool
      \<Rightarrow> c_error + circlebuf option \<times> circlebuf option \<times> int" where
  "audio_circlebuf_copy_internal src dst len move =
     (case (src, dst) of
        (Some src, Some dst) \<Rightarrow>
          if len = 0 then Inr (Some src, Some dst, 0)
          else
            let to_copy = audio_circlebuf_available dst;
                to_copy = (if len < to_copy then len else to_copy);
                available = audio_circlebuf_used src;
                to_copy = (if available < to_copy then available else to_copy);
                contiguous = (if rb_write_offset dst > rb_read_offset dst
                              then rb_size dst - rb_write_offset dst
                              else rb_read_offset dst - rb_write_offset dst)
            in and_then
                 (if contiguous \<ge> to_copy
                  then and_then
                         (if move then circlebuf_read_into src dst (rb_write_offset dst) to_copy
                          else and_then (copy_contiguous src dst to_copy) (\<lambda>dst. Inr (src, dst)))
                         (\<lambda>(src, dst). Inr (src, dst\<lparr>rb_write_offset := rb_write_offset dst + to_copy\<rparr>))
                  else
                    let remainder = to_copy - contiguous
                    in and_then
                         (if move
                          then and_then (circlebuf_read_into src dst (rb_write_offset dst) contiguous) (\<lambda>(src, dst).
                               circlebuf_read_into src dst 0 remainder)
                          else and_then (copy_wrapped src dst contiguous remainder) (\<lambda>dst. Inr (src, dst)))
                         (\<lambda>(src, dst). Inr (src, dst\<lparr>rb_write_offset := remainder\<rparr>)))
                 (\<lambda>(src, dst). Inr (Some src, Some (dst\<lparr>rb_used := to_copy\<rparr>), to_copy))
      | _ \<Rightarrow> Inr (src, dst, 0))"

definition audio_circlebuf_move :: "circlebuf option \<Rightarrow> circlebuf option \<Rightarrow> int
    \<Rightarrow> c_error + circlebuf option \<times> circlebuf option \<times> int" where
  "audio_circlebuf_move src dst len = audio_circlebuf_copy_internal src dst len True"

definition audio_circlebuf_copy :: "circlebuf option \<Rightarrow> circlebuf option \<Rightarrow> int
    \<Rightarrow> c_error + circlebuf option \<times> circlebuf option \<times> int" where
  "audio_circlebuf_copy src dst len = audio_circlebuf_copy_internal src dst len False"

section \<open>The ring as a queue of bytes\<close>

text \<open>\<open>n\<close> elements of the ring from position \<open>r\<close> on, and the array after storing \<open>xs\<close> at \<open>w\<close>.\<close>

definition ring :: "'a list \<Rightarrow> int \<Rightarrow> nat \<Rightarrow> 'a list" where
  "ring d r n = map (\<lambda>i. d ! nat ((r + int i) mod int (length d))) [0..<n]"

definition ring_store :: "'a list \<Rightarrow> int \<Rightarrow> 'a list \<Rightarrow> 'a list" where
  "ring_store d w xs =
     (let e = length d - nat w
      in if length xs > e then blit (blit d (nat w) (take e xs)) 0 (drop e xs) else blit d (nat w) xs)"

lemma length_ring [simp]: "length (ring d r n) = n"
  by (simp add: ring_def)

lemma nth_ring: "i < n \<Longrightarrow> ring d r n ! i = d ! nat ((r + int i) mod int (length d))"
  by (simp add: ring_def)

lemma ring_0 [simp]: "ring d r 0 = []"
  by (simp add: ring_def)

lemma ring_add: "ring d r (m + n) = ring d r m @ ring d (r + int m) n"
  by (rule nth_equalityI) (auto simp: nth_ring nth_append add.assoc)

lemma ring_cong: "r mod int (length d) = r' mod int (length d) \<Longrightarrow> ring d r n = ring d r' n"
  unfolding ring_def by (metis mod_add_left_eq)

lemma ring_window:
  assumes "0 \<le> r" and "nat r + n \<le> length d"
  shows "ring d r n = window d (nat r) n"
proof (rule nth_equalityI)
  fix i
  assume "i < length (ring d r n)"
  then have i: "i < n" by simp
  then have "(r + int i) mod int (length d) = r + int i" using assms by (intro mod_pos_pos_trivial) auto
  moreover have "nat (r + int i) = nat r + i" using assms(1) by (simp add: nat_add_distrib)
  ultimately show "ring d r n ! i = window d (nat r) n ! i" using i assms by (simp add: nth_ring)
qed (use assms in simp)

lemma length_ring_store [simp]:
  "0 \<le> w \<Longrightarrow> nat w \<le> length d \<Longrightarrow> length xs \<le> length d \<Longrightarrow> length (ring_store d w xs) = length d"
  by (auto simp: ring_store_def Let_def)

lemma nth_ring_store:
  assumes "0 \<le> w" and "nat w \<le> length d" and "length xs \<le> length d" and "p < length d"
  shows "ring_store d w xs ! p =
    (let k = nat ((int p - w) mod int (length d)) in if k < length xs then xs ! k else d ! p)"
proof -
  define N where "N = length d"
  define k where "k = nat ((int p - w) mod int N)"
  have k: "k = (if nat w \<le> p then p - nat w else N + p - nat w)"
  proof (cases "nat w \<le> p")
    case True
    then have "(int p - w) mod int N = int p - w" using assms by (intro mod_pos_pos_trivial) (auto simp: N_def)
    then show ?thesis using True assms(1) by (simp add: k_def nat_diff_distrib)
  next
    case False
    then have "(int p - w) mod int N = (int p - w + int N) mod int N" by simp
    also have "\<dots> = int p - w + int N" using False assms by (intro mod_pos_pos_trivial) (auto simp: N_def)
    finally show ?thesis using False assms by (simp add: k_def N_def)
  qed
  have lt: "nat w \<le> p \<Longrightarrow> p - nat w < length d - nat w" using assms(4) by (simp add: diff_less_mono)
  show ?thesis
    unfolding Let_def N_def [symmetric] k_def [symmetric] unfolding k
    using assms lt by (auto simp: ring_store_def Let_def nth_blit N_def)
qed

text \<open>Storing at the write position appends to the queue that starts \<open>u\<close> elements before it.\<close>

lemma ring_store_append:
  assumes "0 < length d" and "0 \<le> w" and "nat w \<le> length d" and "u + length xs \<le> length d"
    and "(r + int u) mod int (length d) = w mod int (length d)"
  shows "ring (ring_store d w xs) r (u + length xs) = ring d r u @ xs"
proof (rule nth_equalityI)
  let ?N = "int (length d)"
  have len: "length (ring_store d w xs) = length d" using assms by simp
  show "length (ring (ring_store d w xs) r (u + length xs)) = length (ring d r u @ xs)" by simp
  fix i
  assume "i < length (ring (ring_store d w xs) r (u + length xs))"
  then have i: "i < u + length xs" by simp
  define p where "p = nat ((r + int i) mod ?N)"
  have p: "p < length d" "int p = (r + int i) mod ?N" using assms(1) by (simp_all add: p_def nat_less_iff)
  have "(int p - w) mod ?N = ((r + int u) + (int i - int u) - w) mod ?N"
    unfolding p(2) by (simp add: mod_diff_left_eq)
  also have "\<dots> = ((r + int u) mod ?N + (int i - int u) - w) mod ?N"
    by (metis mod_add_left_eq mod_diff_left_eq)
  also have "\<dots> = (int i - int u) mod ?N"
    unfolding assms(5) by (metis add_diff_cancel_left' diff_add_eq mod_add_left_eq mod_diff_left_eq)
  finally have k: "(int p - w) mod ?N = (int i - int u) mod ?N" .
  have st: "ring (ring_store d w xs) r (u + length xs) ! i = ring_store d w xs ! p"
    using i len by (simp add: nth_ring p_def)
  show "ring (ring_store d w xs) r (u + length xs) ! i = (ring d r u @ xs) ! i"
  proof (cases "i < u")
    case True
    have "(int i - int u) mod ?N = (int i - int u + ?N) mod ?N" by simp
    also have "\<dots> = int i - int u + ?N" using True assms(4) by (intro mod_pos_pos_trivial) auto
    finally have "\<not> nat ((int p - w) mod ?N) < length xs" using k True assms(4) by simp
    then have "ring_store d w xs ! p = d ! p" using nth_ring_store [OF assms(2,3) _ p(1), of xs] assms(4) by (simp add: Let_def)
    then show ?thesis using st True by (simp add: nth_append nth_ring p_def)
  next
    case False
    then have "(int i - int u) mod ?N = int i - int u" using i assms(4) by (intro mod_pos_pos_trivial) auto
    then have "nat ((int p - w) mod ?N) = i - u" using k False by simp
    moreover have "i - u < length xs" using i False by linarith
    ultimately have "ring_store d w xs ! p = xs ! (i - u)"
      using nth_ring_store [OF assms(2,3) _ p(1), of xs] assms(4) by (simp add: Let_def)
    then show ?thesis using st False by (simp add: nth_append)
  qed
qed

section \<open>The invariant and the abstraction\<close>

definition rb_ok :: "circlebuf \<Rightarrow> bool" where
  "rb_ok rb \<longleftrightarrow> 0 < rb_size rb \<and> int (length (rb_data rb)) = rb_size rb \<and>
     0 \<le> rb_used rb \<and> rb_used rb \<le> rb_size rb \<and> 0 \<le> rb_read_offset rb \<and> rb_read_offset rb \<le> rb_size rb \<and>
     0 \<le> rb_write_offset rb \<and> rb_write_offset rb \<le> rb_size rb \<and>
     (rb_read_offset rb + rb_used rb) mod rb_size rb = rb_write_offset rb mod rb_size rb"

definition contents :: "circlebuf \<Rightarrow> byte list" where
  "contents rb = ring (rb_data rb) (rb_read_offset rb) (nat (rb_used rb))"

lemma length_contents: "rb_ok rb \<Longrightarrow> int (length (contents rb)) = rb_used rb"
  by (simp add: contents_def rb_ok_def)

text \<open>Dropping \<open>n\<close> elements: any read offset congruent to the old one plus \<open>n\<close> is right.\<close>

lemma contents_advance:
  assumes "rb_ok rb" and "0 \<le> n" and "n \<le> rb_used rb" and "ro mod rb_size rb = (rb_read_offset rb + n) mod rb_size rb"
    and "0 \<le> ro" and "ro \<le> rb_size rb"
  defines "rb' \<equiv> rb\<lparr>rb_read_offset := ro, rb_used := rb_used rb - n\<rparr>"
  shows "contents rb = ring (rb_data rb) (rb_read_offset rb) (nat n) @ contents rb'" and "rb_ok rb'"
proof -
  have "nat (rb_used rb) = nat n + nat (rb_used rb - n)" using assms(2,3) by simp
  then have "contents rb = ring (rb_data rb) (rb_read_offset rb) (nat n)
      @ ring (rb_data rb) (rb_read_offset rb + n) (nat (rb_used rb - n))"
    using assms(2) ring_add [of "rb_data rb" "rb_read_offset rb" "nat n" "nat (rb_used rb - n)"]
    unfolding contents_def by (simp only: int_nat_eq if_True)
  moreover have "ring (rb_data rb) (rb_read_offset rb + n) (nat (rb_used rb - n)) = contents rb'"
    using assms(1,4) ring_cong [of "rb_read_offset rb + n" "rb_data rb" ro] by (simp add: contents_def rb'_def rb_ok_def)
  ultimately show "contents rb = ring (rb_data rb) (rb_read_offset rb) (nat n) @ contents rb'" by simp
  have "(ro + (rb_used rb - n)) mod rb_size rb = (rb_read_offset rb + n + (rb_used rb - n)) mod rb_size rb"
    by (rule mod_add_cong [OF assms(4) refl])
  then show "rb_ok rb'" using assms(1-3,5,6) by (simp add: rb_ok_def rb'_def)
qed

section \<open>Read\<close>

lemma blit_two:
  assumes "off + length xs + length ys \<le> length d"
  shows "blit (blit d off xs) (off + length xs) ys = blit d off (xs @ ys)"
  using assms blit_blit_append [of off xs d ys] by simp

lemma audio_circlebuf_read_eq:
  assumes ok: "rb_ok rb" and un: "\<not> rb_lock rb" and len: "0 \<le> len" and at: "0 \<le> at"
    and room: "at + min len (rb_used rb) \<le> int (length out)"
  defines "n \<equiv> min len (rb_used rb)"
  shows "\<exists>rb'. audio_circlebuf_read (Some rb) out at len =
      Inr (Some rb', blit out (nat at) (take (nat n) (contents rb)), n) \<and>
    rb_ok rb' \<and> \<not> rb_lock rb' \<and> contents rb' = drop (nat n) (contents rb) \<and>
    rb_size rb' = rb_size rb \<and> rb_over_write rb' = rb_over_write rb \<and> rb_used rb' = rb_used rb - n"
proof -
  define e where "e = rb_size rb - rb_read_offset rb"
  define ro where "ro = (if n > e then n - e else rb_read_offset rb + n)"
  define rb' where "rb' = rb\<lparr>rb_read_offset := ro, rb_used := rb_used rb - n\<rparr>"
  have n: "0 \<le> n" "n \<le> rb_used rb" "n \<le> rb_size rb" "0 \<le> e" "at + n \<le> int (length out)"
    using ok len room by (auto simp: n_def e_def rb_ok_def)
  have sz: "int (length (rb_data rb)) = rb_size rb" "0 < rb_size rb" using ok by (simp_all add: rb_ok_def)
  have en: "nat (rb_read_offset rb) + nat e = length (rb_data rb)"
    using sz ok by (simp add: e_def rb_ok_def flip: nat_add_distrib)
  have ro: "0 \<le> ro" "ro \<le> rb_size rb" "ro mod rb_size rb = (rb_read_offset rb + n) mod rb_size rb"
  proof -
    show "0 \<le> ro" "ro \<le> rb_size rb" using n ok by (auto simp: ro_def e_def rb_ok_def)
    have "(n - e) mod rb_size rb = (rb_read_offset rb + n - rb_size rb) mod rb_size rb"
      by (simp add: e_def algebra_simps)
    then show "ro mod rb_size rb = (rb_read_offset rb + n) mod rb_size rb" by (simp add: ro_def)
  qed
  note adv = contents_advance [OF ok n(1,2) ro(3,1,2), folded rb'_def]
  have tk: "take (nat n) (contents rb) = ring (rb_data rb) (rb_read_offset rb) (nat n)"
    "drop (nat n) (contents rb) = contents rb'" by (simp_all add: adv(1))
  have rs: "(if len > rb_used rb then rb_used rb else len) = n" by (simp add: n_def min_def)
  have "audio_circlebuf_read (Some rb) out at len = Inr (Some rb', blit out (nat at) (take (nat n) (contents rb)), n)"
  proof (cases "n > e")
    case True
    have m1: "memcpy out at (rb_data rb) (rb_read_offset rb) e =
        Inr (blit out (nat at) (window (rb_data rb) (nat (rb_read_offset rb)) (nat e)))"
      using n at True sz ok by (intro memcpy_ok) (simp_all add: e_def rb_ok_def)
    let ?o = "blit out (nat at) (window (rb_data rb) (nat (rb_read_offset rb)) (nat e))"
    have we: "length (window (rb_data rb) (nat (rb_read_offset rb)) (nat e)) = nat e"
      using en by (intro length_window) simp
    have lo: "length ?o = length out" using we n at True by (intro length_blit) simp
    have m2: "memcpy ?o (at + e) (rb_data rb) 0 (n - e) = Inr (blit ?o (nat (at + e)) (window (rb_data rb) 0 (nat (n - e))))"
      using memcpy_ok [of "n - e" "at + e" 0 ?o "rb_data rb"] n at True sz lo by simp
    have w0: "length (window (rb_data rb) 0 (nat (n - e))) = nat (n - e)" using n sz True by (intro length_window) simp
    have "int (nat at + nat e + nat (n - e)) \<le> int (length out)" using n at True by simp
    then have fit: "nat at + nat e + nat (n - e) \<le> length out" by (simp only: of_nat_le_iff)
    have "nat (at + e) = nat at + length (window (rb_data rb) (nat (rb_read_offset rb)) (nat e))"
      using at n we by (simp add: nat_add_distrib)
    then have two: "blit ?o (nat (at + e)) (window (rb_data rb) 0 (nat (n - e)))
        = blit out (nat at) (window (rb_data rb) (nat (rb_read_offset rb)) (nat e) @ window (rb_data rb) 0 (nat (n - e)))"
      using blit_two [of "nat at" "window (rb_data rb) (nat (rb_read_offset rb)) (nat e)"
          "window (rb_data rb) 0 (nat (n - e))" out] we w0 fit by simp
    have nn: "nat n = nat e + nat (n - e)" using n True by simp
    have r1: "ring (rb_data rb) (rb_read_offset rb) (nat e) = window (rb_data rb) (nat (rb_read_offset rb)) (nat e)"
      using en ok by (intro ring_window) (simp_all add: rb_ok_def)
    have "ring (rb_data rb) (rb_read_offset rb + int (nat e)) (nat (n - e)) = ring (rb_data rb) 0 (nat (n - e))"
      using n sz by (intro ring_cong) (simp add: e_def)
    also have "\<dots> = window (rb_data rb) 0 (nat (n - e))"
      using ring_window [of 0 "nat (n - e)" "rb_data rb"] n sz True by simp
    finally have r2: "ring (rb_data rb) (rb_read_offset rb + int (nat e)) (nat (n - e))
        = window (rb_data rb) 0 (nat (n - e))" .
    have "take (nat n) (contents rb) = ring (rb_data rb) (rb_read_offset rb) (nat e + nat (n - e))"
      using tk(1) by (simp only: nn [symmetric])
    also have "\<dots> = window (rb_data rb) (nat (rb_read_offset rb)) (nat e) @ window (rb_data rb) 0 (nat (n - e))"
      by (simp only: ring_add r1 r2)
    finally have "take (nat n) (contents rb) =
        window (rb_data rb) (nat (rb_read_offset rb)) (nat e) @ window (rb_data rb) 0 (nat (n - e))" .
    then show ?thesis
      using True un by (simp add: audio_circlebuf_read_def rs Let_def e_def [symmetric] m1 m2 two rb'_def ro_def)
  next
    case False
    have m1: "memcpy out at (rb_data rb) (rb_read_offset rb) n =
        Inr (blit out (nat at) (window (rb_data rb) (nat (rb_read_offset rb)) (nat n)))"
      using n at False sz ok by (intro memcpy_ok) (simp_all add: e_def rb_ok_def)
    have "take (nat n) (contents rb) = window (rb_data rb) (nat (rb_read_offset rb)) (nat n)"
      unfolding tk(1) using n False en ok by (intro ring_window) (auto simp: rb_ok_def)
    then show ?thesis
      using False un by (simp add: audio_circlebuf_read_def rs Let_def e_def [symmetric] m1 rb'_def ro_def)
  qed
  then show ?thesis using adv(2) un tk(2) by (intro exI [of _ rb']) (simp add: rb'_def)
qed

section \<open>Write\<close>

lemma circlebuf_store_eq:
  assumes ok: "rb_ok rb" and n: "0 \<le> n" "n \<le> rb_size rb - rb_used rb" and inp: "n \<le> int (length inp)"
  shows "\<exists>rb'. circlebuf_store rb inp n = Inr rb' \<and>
    rb_ok (rb'\<lparr>rb_used := rb_used rb' + n\<rparr>) \<and>
    contents (rb'\<lparr>rb_used := rb_used rb' + n\<rparr>) = contents rb @ take (nat n) inp \<and>
    rb_used rb' = rb_used rb \<and> rb_size rb' = rb_size rb \<and> rb_lock rb' = rb_lock rb \<and>
    rb_over_write rb' = rb_over_write rb"
proof -
  define e where "e = rb_size rb - rb_write_offset rb"
  define wo where "wo = (if n > e then n - e else rb_write_offset rb + n)"
  define xs where "xs = take (nat n) inp"
  define rb' where "rb' = rb\<lparr>rb_data := ring_store (rb_data rb) (rb_write_offset rb) xs, rb_write_offset := wo\<rparr>"
  have sz: "int (length (rb_data rb)) = rb_size rb" "0 < rb_size rb" "0 \<le> rb_write_offset rb"
    "rb_write_offset rb \<le> rb_size rb" "0 \<le> rb_used rb" "0 \<le> e" using ok by (simp_all add: rb_ok_def e_def)
  have xs: "length xs = nat n" using n inp by (simp add: xs_def)
  have e: "length (rb_data rb) - nat (rb_write_offset rb) = nat e" using sz by (simp add: e_def)
  have store: "circlebuf_store rb inp n = Inr rb'"
  proof (cases "n > e")
    case True
    have m1: "memcpy (rb_data rb) (rb_write_offset rb) inp 0 e =
        Inr (blit (rb_data rb) (nat (rb_write_offset rb)) (window inp 0 (nat e)))"
      using memcpy_ok [of e "rb_write_offset rb" 0 "rb_data rb" inp] sz inp True by (simp add: e_def)
    let ?d = "blit (rb_data rb) (nat (rb_write_offset rb)) (window inp 0 (nat e))"
    have "length (window inp 0 (nat e)) = nat e" using inp True by (intro length_window) simp
    then have ld: "length ?d = length (rb_data rb)" using sz by (intro length_blit) (simp add: e_def)
    have m2: "memcpy ?d 0 inp e (n - e) = Inr (blit ?d 0 (window inp (nat e) (nat (n - e))))"
      using memcpy_ok [of "n - e" 0 e ?d inp] sz inp n True ld by simp
    have parts: "window inp 0 (nat e) = take (nat e) xs" "window inp (nat e) (nat (n - e)) = drop (nat e) xs"
      using True by (simp_all add: window_def xs_def min_def drop_take nat_diff_distrib sz)
    have "nat e < length xs" using True xs sz by simp
    then have "ring_store (rb_data rb) (rb_write_offset rb) xs = blit ?d 0 (window inp (nat e) (nat (n - e)))"
      unfolding ring_store_def Let_def e parts by simp
    then show ?thesis using True m1 m2 by (simp add: circlebuf_store_def Let_def e_def [symmetric] rb'_def wo_def)
  next
    case False
    have m1: "memcpy (rb_data rb) (rb_write_offset rb) inp 0 n =
        Inr (blit (rb_data rb) (nat (rb_write_offset rb)) (window inp 0 (nat n)))"
      using memcpy_ok [of n "rb_write_offset rb" 0 "rb_data rb" inp] sz inp n False by (simp add: e_def)
    have "ring_store (rb_data rb) (rb_write_offset rb) xs = blit (rb_data rb) (nat (rb_write_offset rb)) (window inp 0 (nat n))"
      unfolding ring_store_def Let_def e using False xs by (simp add: window_def xs_def)
    then show ?thesis using False m1 by (simp add: circlebuf_store_def Let_def e_def [symmetric] rb'_def wo_def)
  qed
  have wo: "0 \<le> wo" "wo \<le> rb_size rb" "wo mod rb_size rb = (rb_write_offset rb + n) mod rb_size rb"
  proof -
    show "0 \<le> wo" "wo \<le> rb_size rb" using n sz by (auto simp: wo_def e_def)
    have "(n - e) mod rb_size rb = (rb_write_offset rb + n - rb_size rb) mod rb_size rb"
      by (simp add: e_def algebra_simps)
    then show "wo mod rb_size rb = (rb_write_offset rb + n) mod rb_size rb" by (simp add: wo_def)
  qed
  have pos: "(rb_read_offset rb + rb_used rb) mod rb_size rb = rb_write_offset rb mod rb_size rb"
    using ok by (simp add: rb_ok_def)
  have "(rb_read_offset rb + rb_used rb + n) mod rb_size rb = (rb_write_offset rb + n) mod rb_size rb"
    by (rule mod_add_cong [OF pos refl])
  then have ok': "rb_ok (rb'\<lparr>rb_used := rb_used rb' + n\<rparr>)"
    using ok wo n xs sz by (simp add: rb_ok_def rb'_def add.assoc)
  have u: "nat (rb_used rb + n) = nat (rb_used rb) + length xs" using xs n sz by (simp add: nat_add_distrib)
  have "int (nat (rb_used rb) + length xs) \<le> int (length (rb_data rb))" using xs n sz by simp
  then have fit: "nat (rb_used rb) + length xs \<le> length (rb_data rb)" by (simp only: of_nat_le_iff)
  have "ring (ring_store (rb_data rb) (rb_write_offset rb) xs) (rb_read_offset rb) (nat (rb_used rb) + length xs)
      = ring (rb_data rb) (rb_read_offset rb) (nat (rb_used rb)) @ xs"
    by (rule ring_store_append) (use sz fit pos in auto)
  then have "contents (rb'\<lparr>rb_used := rb_used rb' + n\<rparr>) = contents rb @ xs"
    by (simp add: contents_def rb'_def u)
  then show ?thesis using store ok' by (intro exI [of _ rb']) (simp add: rb'_def xs_def)
qed

lemma write_plain:
  assumes ok: "rb_ok rb" and un: "\<not> rb_lock rb" and len: "0 < len" "len \<le> int (length inp)"
    and mode: "\<not> rb_over_write rb \<or> len \<le> rb_size rb - rb_used rb"
  defines "n \<equiv> min len (rb_size rb - rb_used rb)"
  shows "\<exists>rb'. audio_circlebuf_write (Some rb) (Some inp) len = Inr (Some rb', n) \<and> rb_ok rb' \<and> \<not> rb_lock rb' \<and>
    contents rb' = contents rb @ take (nat n) inp \<and> rb_size rb' = rb_size rb \<and> rb_over_write rb' = rb_over_write rb \<and>
    rb_used rb' = rb_used rb + n"
proof -
  have n: "0 \<le> n" "n \<le> rb_size rb - rb_used rb" "n \<le> int (length inp)"
    using ok len by (auto simp: n_def rb_ok_def)
  obtain r where r: "circlebuf_store rb inp n = Inr r" "rb_ok (r\<lparr>rb_used := rb_used r + n\<rparr>)"
    "contents (r\<lparr>rb_used := rb_used r + n\<rparr>) = contents rb @ take (nat n) inp" "rb_used r = rb_used rb"
    "rb_size r = rb_size rb" "rb_lock r = rb_lock rb" "rb_over_write r = rb_over_write rb"
    using circlebuf_store_eq [OF ok n] by blast
  have ws: "(if len > rb_size rb - rb_used rb then rb_size rb - rb_used rb else len) = n" by (simp add: n_def min_def)
  have "\<not> (n < len \<and> rb_over_write rb)" using mode by (auto simp: n_def)
  then have "audio_circlebuf_write (Some rb) (Some inp) len = Inr (Some (r\<lparr>rb_used := rb_used r + n\<rparr>), n)"
    using len un r(1) by (auto simp: audio_circlebuf_write_def Let_def ws)
  then show ?thesis using r un by (intro exI [of _ "r\<lparr>rb_used := rb_used r + n\<rparr>"]) simp
qed

lemma write_overwrite:
  assumes ok: "rb_ok rb" and un: "\<not> rb_lock rb" and mode: "rb_over_write rb"
    and len: "rb_size rb - rb_used rb < len" "len \<le> rb_size rb" "len \<le> int (length inp)"
  defines "lost \<equiv> len - (rb_size rb - rb_used rb)"
  shows "\<exists>rb'. audio_circlebuf_write (Some rb) (Some inp) len = Inr (Some rb', len) \<and> rb_ok rb' \<and> \<not> rb_lock rb' \<and>
    contents rb' = drop (nat lost) (contents rb) @ take (nat len) inp \<and> rb_used rb' = rb_size rb"
proof -
  define ro where "ro = (if rb_read_offset rb + lost \<ge> rb_size rb then rb_read_offset rb + lost - rb_size rb
    else rb_read_offset rb + lost)"
  define mid where "mid = rb\<lparr>rb_read_offset := ro, rb_used := rb_used rb - lost\<rparr>"
  have b: "0 < rb_size rb" "0 \<le> rb_used rb" "rb_used rb \<le> rb_size rb" "0 \<le> rb_read_offset rb"
    "rb_read_offset rb \<le> rb_size rb" using ok by (simp_all add: rb_ok_def)
  have lost: "0 \<le> lost" "lost \<le> rb_used rb" using len b by (simp_all add: lost_def)
  have ro: "0 \<le> ro" "ro \<le> rb_size rb" "ro mod rb_size rb = (rb_read_offset rb + lost) mod rb_size rb"
    using b lost by (auto simp: ro_def)
  note adv = contents_advance [OF ok lost ro(3,1,2), folded mid_def]
  have fits: "0 \<le> len" "len \<le> rb_size mid - rb_used mid" using len b by (simp_all add: mid_def lost_def)
  obtain r where r: "circlebuf_store mid inp len = Inr r" "rb_ok (r\<lparr>rb_used := rb_used r + len\<rparr>)"
    "contents (r\<lparr>rb_used := rb_used r + len\<rparr>) = contents mid @ take (nat len) inp" "rb_used r = rb_used mid"
    "rb_lock r = rb_lock mid"
    using circlebuf_store_eq [OF adv(2) fits len(3)] by blast
  have "drop (nat lost) (contents rb) = contents mid" by (simp add: adv(1))
  moreover have "rb_size rb - rb_used rb + lost = len" by (simp add: lost_def)
  then have "audio_circlebuf_write (Some rb) (Some inp) len = Inr (Some (r\<lparr>rb_used := rb_used r + len\<rparr>), len)"
    using len b mode un r(1) by (simp add: audio_circlebuf_write_def Let_def lost_def [symmetric] ro_def [symmetric]
        mid_def [symmetric])
  moreover have "rb_used mid + len = rb_size rb" by (simp add: mid_def lost_def)
  ultimately show ?thesis
    using r un by (intro exI [of _ "r\<lparr>rb_used := rb_used r + len\<rparr>"]) (simp add: mid_def)
qed

text \<open>A chunk larger than the buffer: its tail is kept, but the mutex is not released.\<close>

lemma write_oversized:
  assumes ok: "rb_ok rb" and un: "\<not> rb_lock rb" and mode: "rb_over_write rb"
    and len: "rb_size rb < len" "len \<le> int (length inp)"
  shows "\<exists>rb'. audio_circlebuf_write (Some rb) (Some inp) len = Inr (Some rb', len) \<and> rb_lock rb' \<and>
    contents rb' = drop (nat (len - rb_size rb)) (take (nat len) inp)"
proof -
  have b: "0 < rb_size rb" "0 \<le> rb_used rb" "rb_used rb \<le> rb_size rb" "int (length (rb_data rb)) = rb_size rb"
    using ok by (simp_all add: rb_ok_def)
  let ?w = "window inp (nat (len - rb_size rb)) (nat (rb_size rb))"
  have m: "memcpy (rb_data rb) 0 inp (len - rb_size rb) (rb_size rb) = Inr (blit (rb_data rb) 0 ?w)"
    using memcpy_ok [of "rb_size rb" 0 "len - rb_size rb" "rb_data rb" inp] b len by simp
  have "int (nat (len - rb_size rb) + nat (rb_size rb)) = int (nat len)" using b len by simp
  then have nn: "nat (len - rb_size rb) + nat (rb_size rb) = nat len" by (simp only: of_nat_eq_iff)
  have lw: "length ?w = nat (rb_size rb)" using nn len by (intro length_window) simp
  have ld: "length (rb_data rb) = nat (rb_size rb)" using b by linarith
  have whole: "blit (rb_data rb) 0 ?w = ?w" using lw ld by (simp add: blit_def)
  have "drop (nat (len - rb_size rb)) (take (nat len) inp) = ?w"
    by (simp add: window_def drop_take nn [symmetric])
  moreover have "ring ?w 0 (nat (rb_size rb)) = ?w"
    using ring_window [of 0 "nat (rb_size rb)" ?w] lw by (simp add: window_def)
  moreover have "audio_circlebuf_write (Some rb) (Some inp) len = Inr (Some (rb\<lparr>rb_read_offset := 0, rb_write_offset := 0,
      rb_data := ?w, rb_used := rb_size rb, rb_lock := True\<rparr>), len)"
    using b len mode un m by (simp add: audio_circlebuf_write_def Let_def whole)
  ultimately show ?thesis by (simp add: contents_def)
qed

section \<open>Create, skip, clear\<close>

lemma create_ok:
  assumes "audio_circlebuf_create calloc malloc len = Some rb"
    and "\<And>n mem. malloc n = Some mem \<Longrightarrow> 0 < n \<and> int (length mem) = n"
  shows "rb_ok rb \<and> \<not> rb_lock rb \<and> \<not> rb_over_write rb \<and> contents rb = [] \<and>
    rb_size rb = (if len = 0 then 4096 else len)"
  using assms(1) by (auto simp: audio_circlebuf_create_def AUDIO_CIRCLEBUF_DEFAULT_SIZE_def Let_def rb_ok_def contents_def
      dest: assms(2) split: if_splits option.splits)

lemma skip_ok:
  assumes ok: "rb_ok rb" and len: "0 \<le> len"
  shows "rb_ok (audio_circlebuf_skip rb len) \<and> contents (audio_circlebuf_skip rb len) = drop (nat len) (contents rb)"
proof (cases "len \<ge> rb_used rb")
  case True
  have "length (contents rb) \<le> nat len" using True length_contents [OF ok] len by linarith
  then show ?thesis using True ok by (simp add: audio_circlebuf_skip_def rb_ok_def contents_def)
next
  case False
  define ro where "ro = (if len > rb_size rb - rb_read_offset rb then len - (rb_size rb - rb_read_offset rb)
    else rb_read_offset rb + len)"
  have b: "0 < rb_size rb" "0 \<le> rb_used rb" "rb_used rb \<le> rb_size rb" "0 \<le> rb_read_offset rb"
    "rb_read_offset rb \<le> rb_size rb" using ok by (simp_all add: rb_ok_def)
  have "(len - (rb_size rb - rb_read_offset rb)) mod rb_size rb = (rb_read_offset rb + len - rb_size rb) mod rb_size rb"
    by (simp add: algebra_simps)
  then have ro: "ro mod rb_size rb = (rb_read_offset rb + len) mod rb_size rb" "0 \<le> ro" "ro \<le> rb_size rb"
    using b False len by (auto simp: ro_def)
  have "audio_circlebuf_skip rb len = rb\<lparr>rb_read_offset := ro, rb_used := rb_used rb - len\<rparr>"
    using False by (simp add: audio_circlebuf_skip_def Let_def ro_def)
  then show ?thesis using contents_advance [OF ok len _ ro] False by simp
qed

lemma clear_ok: "rb_ok rb \<Longrightarrow> rb_ok (audio_circlebuf_clear rb) \<and> contents (audio_circlebuf_clear rb) = []"
  by (simp add: audio_circlebuf_clear_def rb_ok_def contents_def)

section \<open>The contract of a byte queue\<close>

datatype 'b fifo_op = Put "'b list" | Get nat

text \<open>A run: the final state, the bytes accepted and the bytes delivered.\<close>

fun fifo_run :: "('s \<Rightarrow> 'b list \<Rightarrow> 's \<times> nat) \<Rightarrow> ('s \<Rightarrow> nat \<Rightarrow> 's \<times> 'b list) \<Rightarrow> 's \<Rightarrow> 'b fifo_op list
    \<Rightarrow> 's \<times> 'b list \<times> 'b list" where
  "fifo_run put get s [] = (s, [], [])"
| "fifo_run put get s (Put xs # ops) =
     (let (s1, n) = put s xs; (s2, acc, del) = fifo_run put get s1 ops in (s2, take n xs @ acc, del))"
| "fifo_run put get s (Get n # ops) =
     (let (s1, ys) = get s n; (s2, acc, del) = fifo_run put get s1 ops in (s2, acc, ys @ del))"

locale byte_fifo =
  fixes ok :: "'s \<Rightarrow> bool"
    and queue :: "'s \<Rightarrow> 'b list"
    and capacity :: "'s \<Rightarrow> nat"
    and put :: "'s \<Rightarrow> 'b list \<Rightarrow> 's \<times> nat"
    and get :: "'s \<Rightarrow> nat \<Rightarrow> 's \<times> 'b list"
  assumes ok_put: "ok s \<Longrightarrow> ok (fst (put s xs))"
    and ok_get: "ok s \<Longrightarrow> ok (fst (get s n))"
    and put_count: "ok s \<Longrightarrow> snd (put s xs) = min (length xs) (capacity s - length (queue s))"
    and put_queue: "ok s \<Longrightarrow> queue (fst (put s xs)) = queue s @ take (snd (put s xs)) xs"
    and get_out: "ok s \<Longrightarrow> snd (get s n) = take n (queue s)"
    and get_queue: "ok s \<Longrightarrow> queue (fst (get s n)) = drop n (queue s)"
    and put_capacity: "ok s \<Longrightarrow> capacity (fst (put s xs)) = capacity s"
    and get_capacity: "ok s \<Longrightarrow> capacity (fst (get s n)) = capacity s"
    and bounded: "ok s \<Longrightarrow> length (queue s) \<le> capacity s"
begin

lemma run_in_order:
  assumes "ok s" and "fifo_run put get s ops = (s', acc, del)"
  shows "ok s' \<and> capacity s' = capacity s \<and> queue s @ acc = del @ queue s'"
  using assms
proof (induction ops arbitrary: s acc del)
  case (Cons op ops)
  show ?case
  proof (cases op)
    case (Put xs)
    obtain acc1 where r: "fifo_run put get (fst (put s xs)) ops = (s', acc1, del)"
      and acc: "acc = take (snd (put s xs)) xs @ acc1"
      using Cons.prems(2) Put by (auto simp: Let_def case_prod_beta) (metis prod.collapse)
    show ?thesis
      using Cons.IH [OF ok_put [OF Cons.prems(1)] r] Cons.prems(1) by (simp add: put_queue put_capacity acc)
  next
    case (Get n)
    obtain del1 where r: "fifo_run put get (fst (get s n)) ops = (s', acc, del1)"
      and del: "del = snd (get s n) @ del1"
      using Cons.prems(2) Get by (auto simp: Let_def case_prod_beta) (metis prod.collapse)
    have IH: "ok s'" "capacity s' = capacity s" "drop n (queue s) @ acc = del1 @ queue s'"
      using Cons.IH [OF ok_get [OF Cons.prems(1)] r] Cons.prems(1) by (simp_all add: get_queue get_capacity)
    have "queue s @ acc = take n (queue s) @ drop n (queue s) @ acc" by (simp flip: append_assoc)
    then show ?thesis using IH Cons.prems(1) by (simp add: del get_out)
  qed
qed simp

lemma put_all:
  assumes "ok s" and "length (queue s) + length xs \<le> capacity s"
  shows "queue (fst (put s xs)) = queue s @ xs"
  using assms by (simp add: put_queue put_count)

lemma put_get:
  assumes "ok s" and "queue s = []" and "length xs \<le> capacity s"
  shows "snd (get (fst (put s xs)) (length xs)) = xs"
  using assms by (simp add: get_out ok_put put_queue put_count)

end

text \<open>
  The ring buffer in its default mode, as the sharing and streaming threads use it: a write of a
  whole chunk, a read of up to \<open>n\<close> bytes into an array of \<open>n\<close> bytes.
\<close>

definition cb_put :: "circlebuf \<Rightarrow> byte list \<Rightarrow> circlebuf \<times> nat" where
  "cb_put rb xs =
     (case audio_circlebuf_write (Some rb) (Some xs) (int (length xs)) of
        Inr (Some rb', n) \<Rightarrow> (rb', nat n) | _ \<Rightarrow> (rb, 0))"

definition cb_get :: "circlebuf \<Rightarrow> nat \<Rightarrow> circlebuf \<times> byte list" where
  "cb_get rb n =
     (case audio_circlebuf_read (Some rb) (replicate n 0) 0 (int n) of
        Inr (Some rb', out, r) \<Rightarrow> (rb', take (nat r) out) | _ \<Rightarrow> (rb, []))"

definition cb_ok :: "circlebuf \<Rightarrow> bool" where
  "cb_ok rb \<longleftrightarrow> rb_ok rb \<and> \<not> rb_lock rb \<and> \<not> rb_over_write rb"

lemma cb_put_spec:
  assumes "cb_ok rb"
  shows "cb_ok (fst (cb_put rb xs)) \<and> snd (cb_put rb xs) = min (length xs) (nat (rb_size rb) - length (contents rb)) \<and>
    contents (fst (cb_put rb xs)) = contents rb @ take (snd (cb_put rb xs)) xs \<and> rb_size (fst (cb_put rb xs)) = rb_size rb"
proof (cases "xs = []")
  case True
  then show ?thesis using assms by (simp add: cb_put_def audio_circlebuf_write_def)
next
  case False
  have ok: "rb_ok rb" "\<not> rb_lock rb" "\<not> rb_over_write rb" using assms by (simp_all add: cb_ok_def)
  let ?n = "min (int (length xs)) (rb_size rb - rb_used rb)"
  obtain rb' where w: "audio_circlebuf_write (Some rb) (Some xs) (int (length xs)) = Inr (Some rb', ?n)"
    "rb_ok rb'" "\<not> rb_lock rb'" "contents rb' = contents rb @ take (nat ?n) xs" "rb_size rb' = rb_size rb"
    "rb_over_write rb' = rb_over_write rb"
    using write_plain [OF ok(1,2), of "int (length xs)" xs] ok(3) False by auto
  have "nat ?n = min (length xs) (nat (rb_size rb) - length (contents rb))"
    using length_contents [OF ok(1)] ok(1) by (simp add: rb_ok_def min_def) linarith
  then show ?thesis using w ok(3) by (simp add: cb_put_def cb_ok_def)
qed

lemma cb_get_spec:
  assumes "cb_ok rb"
  shows "cb_ok (fst (cb_get rb n)) \<and> snd (cb_get rb n) = take n (contents rb) \<and>
    contents (fst (cb_get rb n)) = drop n (contents rb) \<and> rb_size (fst (cb_get rb n)) = rb_size rb"
proof -
  have ok: "rb_ok rb" "\<not> rb_lock rb" "\<not> rb_over_write rb" using assms by (simp_all add: cb_ok_def)
  let ?k = "min (int n) (rb_used rb)"
  have u: "rb_used rb = int (length (contents rb))" using length_contents [OF ok(1)] by simp
  obtain rb' where r: "audio_circlebuf_read (Some rb) (replicate n 0) 0 (int n) =
      Inr (Some rb', blit (replicate n 0) 0 (take (nat ?k) (contents rb)), ?k)" "rb_ok rb'" "\<not> rb_lock rb'"
    "contents rb' = drop (nat ?k) (contents rb)" "rb_size rb' = rb_size rb" "rb_over_write rb' = rb_over_write rb"
    using audio_circlebuf_read_eq [OF ok(1,2), of "int n" 0 "replicate n 0"] by auto
  have "take (nat ?k) (blit (replicate n 0) 0 (take (nat ?k) (contents rb))) = take n (contents rb)"
    using u by (auto simp: blit_def min_def)
  moreover have "drop (nat ?k) (contents rb) = drop n (contents rb)" using u by (auto simp: min_def)
  ultimately show ?thesis using r ok(3) by (simp add: cb_get_def cb_ok_def)
qed

interpretation cb: byte_fifo cb_ok contents "\<lambda>rb. nat (rb_size rb)" cb_put cb_get
proof
  fix s
  assume "cb_ok s"
  then show "length (contents s) \<le> nat (rb_size s)"
    using length_contents [of s] by (simp add: cb_ok_def rb_ok_def) linarith
qed (simp_all add: cb_put_spec cb_get_spec)

section \<open>Moving between buffers\<close>

lemma circlebuf_read_into_eq:
  assumes "rb_ok src" and "\<not> rb_lock src" and "0 \<le> n" and "n \<le> rb_used src" and "0 \<le> at"
    and "at + n \<le> int (length (rb_data dst))"
  shows "\<exists>src'. circlebuf_read_into src dst at n =
      Inr (src', dst\<lparr>rb_data := blit (rb_data dst) (nat at) (take (nat n) (contents src))\<rparr>) \<and>
    rb_ok src' \<and> \<not> rb_lock src' \<and> contents src' = drop (nat n) (contents src) \<and> rb_used src' = rb_used src - n"
proof -
  have m: "min n (rb_used src) = n" using assms(4) by simp
  obtain src' where "audio_circlebuf_read (Some src) (rb_data dst) at n =
      Inr (Some src', blit (rb_data dst) (nat at) (take (nat n) (contents src)), n)"
    "rb_ok src'" "\<not> rb_lock src'" "contents src' = drop (nat n) (contents src)" "rb_used src' = rb_used src - n"
    using audio_circlebuf_read_eq [OF assms(1-3,5), of "rb_data dst"] assms(6) unfolding m by blast
  then show ?thesis by (intro exI [of _ src']) (simp add: circlebuf_read_into_def)
qed

lemma move_to_cleared:
  assumes src: "rb_ok src" "\<not> rb_lock src" and dst: "rb_ok dst" and len: "0 < len"
  defines "n \<equiv> min (min len (rb_size dst)) (rb_used src)"
  shows "\<exists>src' dst'. audio_circlebuf_move (Some src) (Some (audio_circlebuf_clear dst)) len = Inr (Some src', Some dst', n) \<and>
    rb_ok src' \<and> rb_ok dst' \<and> contents src' = drop (nat n) (contents src) \<and> contents dst' = take (nat n) (contents src)"
proof -
  let ?d = "audio_circlebuf_clear dst"
  have d: "rb_write_offset ?d = 0" "rb_read_offset ?d = 0" "rb_used ?d = 0" "rb_size ?d = rb_size dst"
    "rb_data ?d = rb_data dst" by (simp_all add: audio_circlebuf_clear_def)
  have sz: "int (length (rb_data dst)) = rb_size dst" "0 < rb_size dst" using dst by (simp_all add: rb_ok_def)
  have n: "0 \<le> n" "n \<le> rb_used src" "n \<le> rb_size dst" using src len sz by (auto simp: n_def rb_ok_def)
  have tc: "(if rb_used src < (if len < rb_size dst then len else rb_size dst) then rb_used src
      else if len < rb_size dst then len else rb_size dst) = n" by (auto simp: n_def)
  obtain s1 where s1: "circlebuf_read_into src ?d 0 0 = Inr (s1, ?d)" "rb_ok s1" "\<not> rb_lock s1"
    "contents s1 = contents src" "rb_used s1 = rb_used src"
    using circlebuf_read_into_eq [OF src, of 0 0 ?d] src(1) by (auto simp: rb_ok_def d)
  obtain s2 where s2: "circlebuf_read_into s1 ?d 0 n =
      Inr (s2, ?d\<lparr>rb_data := blit (rb_data dst) 0 (take (nat n) (contents src))\<rparr>)"
    "rb_ok s2" "contents s2 = drop (nat n) (contents src)"
    using circlebuf_read_into_eq [OF s1(2,3) n(1), of 0 ?d] n sz s1 by (auto simp: d)
  define dst' where "dst' = ?d\<lparr>rb_data := blit (rb_data dst) 0 (take (nat n) (contents src)), rb_write_offset := n, rb_used := n\<rparr>"
  have lt: "length (take (nat n) (contents src)) = nat n" using length_contents [OF src(1)] n by simp
  have "nat n \<le> length (rb_data dst)" using n sz by linarith
  then have ok: "rb_ok dst'" "contents dst' = take (nat n) (contents src)"
    using n sz lt ring_window [of 0 "nat n" "blit (rb_data dst) 0 (take (nat n) (contents src))"]
      window_blit_same [of 0 "take (nat n) (contents src)" "rb_data dst"]
    by (simp_all add: dst'_def rb_ok_def contents_def d)
  show ?thesis
  proof (cases "n = 0")
    case True
    have "audio_circlebuf_move (Some src) (Some ?d) len = Inr (Some s1, Some dst', n)"
      using s1 len True
      by (simp add: audio_circlebuf_move_def audio_circlebuf_copy_internal_def audio_circlebuf_available_def
          audio_circlebuf_used_def Let_def d tc dst'_def)
    then show ?thesis using s1 ok True by auto
  next
    case False
    then have "audio_circlebuf_move (Some src) (Some ?d) len = Inr (Some s2, Some dst', n)"
      using s1 s2 len n
      by (simp add: audio_circlebuf_move_def audio_circlebuf_copy_internal_def audio_circlebuf_available_def
          audio_circlebuf_used_def Let_def d tc dst'_def)
    then show ?thesis using s2 ok by blast
  qed
qed

end
