(* ===== verification/Audio_Extra.thy ===== *)
theory Audio_Extra
  imports C_Prelude Complex_Main
begin

text \<open>
  \<open>audio_extra.c\<close> of the audio HAL: name tables, the name of the sound card split into its parts,
  the wait with a deadline, the selection of slots of a frame and the software gain.

  The file system (\<open>access\<close>), the semaphore and the constants of the Android and tinyalsa headers
  are parameters.  A sample is an \<open>int\<close> in the range of \<open>int16_t\<close>.  A \<open>float\<close> is a rational number,
  and the product of two floats is the parameter \<open>fmul\<close>, which rounds.
\<close>

definition MIXER_PATH_MAX_LENGTH :: nat where "MIXER_PATH_MAX_LENGTH = 128"
definition HW_INFO_ARRAY_MAX_SIZE :: nat where "HW_INFO_ARRAY_MAX_SIZE = 32"
definition MAX_AUDIO_DEVICES :: nat where "MAX_AUDIO_DEVICES = 16"

section \<open>Configuration files\<close>

definition kConfigLocationList :: "string list" where
  "kConfigLocationList = [''/odm/etc'', ''/vendor/etc'', ''/system/etc'']"

text \<open>\<open>snprintf\<close> into an array of \<open>n\<close> bytes keeps \<open>n - 1\<close> characters.  \<open>access\<close> tells which files exist.\<close>

fun resolve_loop :: "(string \<Rightarrow> bool) \<Rightarrow> string \<Rightarrow> string list \<Rightarrow> string \<times> bool" where
  "resolve_loop access file_name [] = (file_name, False)"
| "resolve_loop access file_name (dir # dirs) =
     (let full_config_path = take (MIXER_PATH_MAX_LENGTH - 1) (dir @ ''/'' @ file_name)
      in if access full_config_path then (full_config_path, True)
         else resolve_loop access file_name dirs)"

definition audio_extra_utils_resolve_config_file :: "(string \<Rightarrow> bool) \<Rightarrow> string \<Rightarrow> string \<times> bool" where
  "audio_extra_utils_resolve_config_file access file_name = resolve_loop access file_name kConfigLocationList"

section \<open>The name of the sound card\<close>

record snd_card_split =
  chip :: string
  codec :: string
  board :: string

text \<open>\<open>strtok_r (_, "-", _)\<close>: the next token and what is left, or \<open>NULL\<close>.\<close>

definition strtok :: "string \<Rightarrow> (string \<times> string) option" where
  "strtok s =
     (let s = dropWhile (\<lambda>c. c = CHR ''-'') s
      in if s = [] then None
         else Some (takeWhile (\<lambda>c. c \<noteq> CHR ''-'') s, drop 1 (dropWhile (\<lambda>c. c \<noteq> CHR ''-'') s)))"

definition strlcpy :: "string \<Rightarrow> string" where
  "strlcpy s = take (HW_INFO_ARRAY_MAX_SIZE - 1) s"

text \<open>\<open>strdup\<close> is called before the argument is compared with \<open>NULL\<close>.\<close>

definition audio_extra_set_snd_card_split :: "snd_card_split \<Rightarrow> string option \<Rightarrow> c_error + snd_card_split" where
  "audio_extra_set_snd_card_split cur in_snd_card_name =
     (case in_snd_card_name of None \<Rightarrow> Inl Null_pointer
      | Some snd_card_name \<Rightarrow>
          Inr (case strtok snd_card_name of None \<Rightarrow> cur
               | Some (c, rest) \<Rightarrow>
                   let cur = cur\<lparr>chip := strlcpy c\<rparr>
                   in case strtok rest of None \<Rightarrow> cur
                      | Some (b, rest) \<Rightarrow>
                          let cur = cur\<lparr>board := strlcpy b\<rparr>
                          in case strtok rest of None \<Rightarrow> cur
                             | Some (k, rest) \<Rightarrow> cur\<lparr>codec := strlcpy k\<rparr>))"

section \<open>Devices, routes and names\<close>

text \<open>\<open>dev_manager\<close> is the list of the flags \<open>flag_exist\<close>; \<open>None\<close> is a \<open>NULL\<close> device.\<close>

definition audio_extra_utils_get_snd_card_num :: "bool list option \<Rightarrow> int" where
  "audio_extra_utils_get_snd_card_num adev =
     (case adev of None \<Rightarrow> -1
      | Some flags \<Rightarrow> fold (\<lambda>flag_exist n. if flag_exist then n + 1 else n) (take MAX_AUDIO_DEVICES flags) 0)"

fun audio_route_loop :: "(int \<times> 'r) list \<Rightarrow> int \<Rightarrow> 'r option" where
  "audio_route_loop [] card_id = None"
| "audio_route_loop (ar_l # rest) card_id =
     (if card_id = fst ar_l then Some (snd ar_l) else audio_route_loop rest card_id)"

definition audio_extra_get_audio_route :: "(int \<times> 'r) list option \<Rightarrow> int \<Rightarrow> 'r option" where
  "audio_extra_get_audio_route adev card_id =
     (case adev of None \<Rightarrow> None | Some audio_route_list \<Rightarrow> audio_route_loop audio_route_list card_id)"

text \<open>
  The tables pair a name with the value of the constant of that name; the values are those of the
  headers, given by the parameter \<open>enum\<close>.
\<close>

definition android_format_names :: "string list" where
  "android_format_names = [''AUDIO_FORMAT_PCM_16_BIT'', ''AUDIO_FORMAT_PCM_24_BIT_PACKED'',
     ''AUDIO_FORMAT_PCM_8_24_BIT'', ''AUDIO_FORMAT_PCM_32_BIT'']"

definition alsa_format_names :: "string list" where
  "alsa_format_names = [''PCM_FORMAT_S16_LE'', ''PCM_FORMAT_S24_3LE'', ''PCM_FORMAT_S24_LE'', ''PCM_FORMAT_S32_LE'']"

definition channel_names :: "string list" where
  "channel_names = [''AUDIO_CHANNEL_OUT_STEREO'', ''AUDIO_CHANNEL_OUT_5POINT1'', ''AUDIO_CHANNEL_OUT_7POINT1'',
     ''AUDIO_CHANNEL_IN_MONO'', ''AUDIO_CHANNEL_IN_STEREO'', ''AUDIO_CHANNEL_IN_FRONT_BACK'',
     ''AUDIO_CHANNEL_INDEX_MASK_1'', ''AUDIO_CHANNEL_INDEX_MASK_2'', ''AUDIO_CHANNEL_INDEX_MASK_3'',
     ''AUDIO_CHANNEL_INDEX_MASK_4'', ''AUDIO_CHANNEL_INDEX_MASK_5'', ''AUDIO_CHANNEL_INDEX_MASK_6'',
     ''AUDIO_CHANNEL_INDEX_MASK_7'', ''AUDIO_CHANNEL_INDEX_MASK_8'']"

fun get_format_name :: "(string \<times> int) list \<Rightarrow> int \<Rightarrow> string option" where
  "get_format_name [] format = None"
| "get_format_name (entry # table) format =
     (if snd entry = format then Some (fst entry) else get_format_name table format)"

definition enum_table :: "(string \<Rightarrow> int) \<Rightarrow> string list \<Rightarrow> (string \<times> int) list" where
  "enum_table enum names = map (\<lambda>n. (n, enum n)) names"

definition audio_extra_get_android_format_name :: "(string \<Rightarrow> int) \<Rightarrow> int \<Rightarrow> string option" where
  "audio_extra_get_android_format_name enum format = get_format_name (enum_table enum android_format_names) format"

definition audio_extra_get_alsa_format_name :: "(string \<Rightarrow> int) \<Rightarrow> int \<Rightarrow> string option" where
  "audio_extra_get_alsa_format_name enum format = get_format_name (enum_table enum alsa_format_names) format"

definition audio_extra_get_channel_name :: "(string \<Rightarrow> int) \<Rightarrow> int \<Rightarrow> string option" where
  "audio_extra_get_channel_name enum channel_mask = get_format_name (enum_table enum channel_names) channel_mask"

section \<open>Waiting with a deadline\<close>

datatype sem_outcome = Sem_ok | Sem_eintr | Sem_etimedout | Sem_error

definition OS_SYNC_RELEASED :: int where "OS_SYNC_RELEASED = 0"
definition OS_SYNC_TIMEOUT :: int where "OS_SYNC_TIMEOUT = 1"
definition OS_SYNC_FAILED :: int where "OS_SYNC_FAILED = 0xffffffff"

text \<open>The deadline from the current time, in seconds and nanoseconds.\<close>

definition semwait_deadline :: "int \<times> int \<Rightarrow> int \<Rightarrow> int \<times> int" where
  "semwait_deadline now timeout_ms =
     (let tv_sec = fst now + timeout_ms div 1000;
          tv_nsec = snd now + u32 (timeout_ms mod 1000 * 1000000)
      in if tv_nsec \<ge> 1000000000 then (tv_sec + 1, tv_nsec - 1000000000) else (tv_sec, tv_nsec))"

text \<open>
  \<open>results\<close> are the results of the calls of \<open>sem_timedwait\<close> in turn; \<open>None\<close> when the loop has not
  returned after all of them.
\<close>

fun semwait_loop :: "sem_outcome list \<Rightarrow> int option" where
  "semwait_loop [] = None"
| "semwait_loop (Sem_eintr # results) = semwait_loop results"
| "semwait_loop (Sem_etimedout # results) = Some OS_SYNC_TIMEOUT"
| "semwait_loop (Sem_error # results) = Some OS_SYNC_FAILED"
| "semwait_loop (Sem_ok # results) = Some OS_SYNC_RELEASED"

definition audio_extra_semwait ::
    "(int \<times> int \<Rightarrow> sem_outcome list) \<Rightarrow> int \<times> int \<Rightarrow> int \<Rightarrow> int option" where
  "audio_extra_semwait sem_timedwait now timeout_ms =
     semwait_loop (sem_timedwait (semwait_deadline now timeout_ms))"

section \<open>Dumping samples\<close>

text \<open>
  The two static variables of \<open>dump_out_data\<close>.  \<open>fclose\<close> does not reset the pointer, so a pointer to a
  closed stream is a value of its own.  The result says whether the dump was stopped: \<open>*size\<close> and the
  property \<open>media.audio.record\<close> are set to 0.
\<close>

datatype dump_file = Dump_null | Dump_open | Dump_closed

record dump_state =
  dump_fd :: dump_file
  dump_offset :: int

definition dump_out_data :: "bool \<Rightarrow> dump_state \<Rightarrow> nat \<Rightarrow> c_error + dump_state \<times> bool" where
  "dump_out_data fopen_ok s bytes =
     (if dump_fd s = Dump_null \<and> \<not> fopen_ok then Inr (s\<lparr>dump_offset := 0\<rparr>, False)
      else
        let s = (if dump_fd s = Dump_null then s\<lparr>dump_fd := Dump_open\<rparr> else s)
        in if dump_fd s = Dump_closed then Inl Closed_stream
           else
             let s = s\<lparr>dump_offset := s32 (dump_offset s + int bytes)\<rparr>
             in if dump_offset s \<ge> 100 * 1024 * 1024
                then Inr (s\<lparr>dump_fd := Dump_closed, dump_offset := 0\<rparr>, True)
                else Inr (s, False))"

section \<open>Slots and gain\<close>

text \<open>A loop of copies of \<open>width\<close> samples, shared with the copy of areas in \<open>audio_sharing.c\<close>.\<close>

fun copy_loop :: "(int \<Rightarrow> int) \<Rightarrow> (int \<Rightarrow> int) \<Rightarrow> int \<Rightarrow> 'a list \<Rightarrow> int list \<Rightarrow> 'a list \<Rightarrow> c_error + 'a list" where
  "copy_loop dpos spos width src [] dst = Inr dst"
| "copy_loop dpos spos width src (i # is) dst =
     and_then (memcpy dst (dpos i) src (spos i) width) (\<lambda>dst. copy_loop dpos spos width src is dst)"

definition audio_extra_select_slot_16 ::
    "int list \<Rightarrow> int \<Rightarrow> int list \<Rightarrow> int \<Rightarrow> int \<Rightarrow> c_error + int list \<times> int" where
  "audio_extra_select_slot_16 dst dst_ch src src_ch src_frames =
     (if src_ch = 0 then Inl Div_by_zero
      else
        let n = max 0 (src_frames sdiv src_ch); src_slot_base = 0
        in and_then (copy_loop (\<lambda>i. i * dst_ch) (\<lambda>i. i * src_ch + src_slot_base) dst_ch src [0..n - 1] dst)
             (\<lambda>dst. Inr (dst, n * dst_ch)))"

text \<open>The conversion of a float to \<open>int16_t\<close> truncates.\<close>

definition trunc_int :: "rat \<Rightarrow> int" where
  "trunc_int m = (if m \<ge> 0 then \<lfloor>m\<rfloor> else \<lceil>m\<rceil>)"

definition CAL_SW_GAIN_16 :: "(rat \<Rightarrow> rat \<Rightarrow> rat) \<Rightarrow> rat \<Rightarrow> int \<Rightarrow> int" where
  "CAL_SW_GAIN_16 fmul ratio buffer =
     (let multiplied = fmul (of_int buffer) ratio
      in if multiplied > 32767 then 32767
         else if multiplied < -32768 then -32768
         else trunc_int multiplied)"

definition audio_extra_sw_slot_gain_16 ::
    "(rat \<Rightarrow> rat \<Rightarrow> rat) \<Rightarrow> int \<Rightarrow> int \<Rightarrow> rat \<Rightarrow> int list \<Rightarrow> nat \<Rightarrow> c_error + int list" where
  "audio_extra_sw_slot_gain_16 fmul slots slots_mask amplitude_ratio buffer bytes =
     (if amplitude_ratio < 0 then Inr buffer
      else if slots \<le> 0 then Inr buffer
      else
        let int16_size = bytes div 2
        in if int16_size > length buffer then Inl Bad_access
           else Inr (map (\<lambda>i. if i < int16_size
                              then let j = int i mod slots;
                                       ratio = (if shr slots_mask (nat j) AND 1 \<noteq> 0 then amplitude_ratio else 1)
                                   in CAL_SW_GAIN_16 fmul ratio (buffer ! i)
                              else buffer ! i) [0..<length buffer]))"

definition audio_extra_sw_gain_16 :: "(rat \<Rightarrow> rat \<Rightarrow> rat) \<Rightarrow> rat \<Rightarrow> int list \<Rightarrow> nat \<Rightarrow> c_error + int list" where
  "audio_extra_sw_gain_16 fmul amplitude_ratio buffer bytes =
     (if amplitude_ratio < 0 then Inr buffer
      else
        let int16_size = bytes div 2
        in if int16_size > length buffer then Inl Bad_access
           else Inr (map (CAL_SW_GAIN_16 fmul amplitude_ratio) (take int16_size buffer) @ drop int16_size buffer))"

section \<open>Lemmas\<close>

lemma get_format_name_table:
  assumes "inj_on enum (set names)" and "n \<in> set names"
  shows "get_format_name (enum_table enum names) (enum n) = Some n"
  using assms by (induction names) (auto simp: enum_table_def inj_on_def)

lemma get_format_name_None:
  "get_format_name (enum_table enum names) v = None \<longleftrightarrow> v \<notin> enum ` set names"
  by (induction names) (auto simp: enum_table_def)

lemma semwait_deadline_normal:
  assumes "0 \<le> snd now" and "snd now < 1000000000" and "0 \<le> timeout_ms"
  shows "0 \<le> snd (semwait_deadline now timeout_ms) \<and> snd (semwait_deadline now timeout_ms) < 1000000000 \<and>
    fst (semwait_deadline now timeout_ms) * 1000000000 + snd (semwait_deadline now timeout_ms) =
      fst now * 1000000000 + snd now + timeout_ms * 1000000"
proof -
  have m: "0 \<le> timeout_ms mod 1000" "timeout_ms mod 1000 < 1000" by simp_all
  then have u: "u32 (timeout_ms mod 1000 * 1000000) = timeout_ms mod 1000 * 1000000" by (intro u32_id) simp_all
  have "timeout_ms div 1000 * 1000000000 + timeout_ms mod 1000 * 1000000 = timeout_ms * 1000000"
    using div_mult_mod_eq [of timeout_ms 1000] by linarith
  then show ?thesis using assms m unfolding semwait_deadline_def Let_def u by auto
qed

lemma semwait_loop_interrupted: "semwait_loop (replicate n Sem_eintr @ r # rs) = semwait_loop (r # rs)" if "r \<noteq> Sem_eintr"
  by (induction n) simp_all

lemma copy_loop_append:
  "copy_loop dpos spos w src (is @ js) dst = and_then (copy_loop dpos spos w src is dst) (copy_loop dpos spos w src js)"
proof (induction "is" arbitrary: dst)
  case (Cons i "is")
  then show ?case by (cases "memcpy dst (dpos i) src (spos i) w") simp_all
qed simp

text \<open>
  Copies of \<open>w\<close> samples from frames of \<open>ss\<close> to frames of \<open>ds\<close> samples, at offset \<open>off\<close> in the frame:
  every copy stays inside the arrays, and no copy disturbs another.
\<close>

lemma copy_loop_strided:
  assumes w: "0 \<le> w" "w \<le> ss" and off: "0 \<le> off" "off + w \<le> ds"
    and src: "int n * ss \<le> int (length src)" and dst: "int n * ds \<le> int (length dst)"
  shows "\<exists>dst'. copy_loop (\<lambda>i. i * ds + off) (\<lambda>i. i * ss) w src [0..int n - 1] dst = Inr dst' \<and>
    length dst' = length dst \<and>
    (\<forall>i<n. \<forall>j<nat w. dst' ! nat (int i * ds + off + int j) = src ! nat (int i * ss + int j))"
  using src dst
proof (induction n)
  case 0
  then show ?case by simp
next
  case (Suc n)
  have sn: "int n * ss + ss \<le> int (length src)" "int n * ds + ds \<le> int (length dst)"
    using Suc.prems by (simp_all add: distrib_right)
  obtain d where d: "copy_loop (\<lambda>i. i * ds + off) (\<lambda>i. i * ss) w src [0..int n - 1] dst = Inr d"
    "length d = length dst"
    "\<forall>i<n. \<forall>j<nat w. d ! nat (int i * ds + off + int j) = src ! nat (int i * ss + int j)"
    using Suc.IH sn w off by auto
  have pos: "0 \<le> int n * ds" "0 \<le> int n * ss" using w off by simp_all
  let ?p = "nat (int n * ds + off)" and ?x = "window src (nat (int n * ss)) (nat w)"
  define d' where "d' = blit d ?p ?x"
  have m: "memcpy d (int n * ds + off) src (int n * ss) w = Inr d'"
    unfolding d'_def using w off sn d(2) pos by (intro memcpy_ok) simp_all
  have upt: "[0..int (Suc n) - 1] = [0..int n - 1] @ [int n]"
    using upto_rec2 [of 0 "int n"] by simp
  have run: "copy_loop (\<lambda>i. i * ds + off) (\<lambda>i. i * ss) w src [0..int (Suc n) - 1] dst = Inr d'"
    unfolding upt copy_loop_append d(1) by (simp add: m)
  have "int (nat (int n * ss) + nat w) \<le> int (length src)" using pos w sn by simp
  then have lw: "length ?x = nat w" and fits: "nat (int n * ss) + nat w \<le> length src"
    by (simp_all only: of_nat_le_iff length_window)
  have "int (?p + nat w) \<le> int (length d)" using pos w off sn d(2) by simp
  then have fitd: "?p + length ?x \<le> length d" unfolding lw by (simp only: of_nat_le_iff)
  have new: "d' ! nat (int n * ds + off + int j) = src ! nat (int n * ss + int j)" if "j < nat w" for j
  proof -
    have "nat (int n * ds + off + int j) = ?p + j" "nat (int n * ss + int j) = nat (int n * ss) + j"
      using pos off by (simp_all add: nat_add_distrib)
    then show ?thesis using that fitd lw fits unfolding d'_def by (simp add: nth_blit)
  qed
  have old: "d' ! nat (int i * ds + off + int j) = d ! nat (int i * ds + off + int j)" if "i < n" "j < nat w" for i j
  proof -
    have "(int i + 1) * ds \<le> int n * ds" using that(1) w off by (intro mult_right_mono) simp_all
    then have lt: "int i * ds + off + int j < int n * ds + off" using that(2) off w by (simp add: distrib_right)
    have nn: "0 \<le> int i * ds" using w off by simp
    define q where "q = nat (int i * ds + off + int j)"
    have "q < ?p" using lt off nn unfolding q_def by linarith
    then have "q < length d" using fitd by linarith
    then show ?thesis using \<open>q < ?p\<close> fitd nth_blit [of ?p ?x d q] unfolding d'_def q_def [symmetric] by simp
  qed
  have "\<forall>i<Suc n. \<forall>j<nat w. d' ! nat (int i * ds + off + int j) = src ! nat (int i * ss + int j)"
    using new old d(3) by (auto simp: less_Suc_eq)
  moreover have "length d' = length dst" using fitd d(2) by (simp add: d'_def)
  ultimately show ?case using run by blast
qed

lemma select_slot_frames:
  assumes "0 \<le> dst_ch" and "dst_ch \<le> src_ch" and "0 < src_ch" and "0 \<le> samples"
    and "samples \<le> int (length src)" and "samples div src_ch * dst_ch \<le> int (length dst)"
  shows "\<exists>dst'. audio_extra_select_slot_16 dst dst_ch src src_ch samples = Inr (dst', samples div src_ch * dst_ch) \<and>
    length dst' = length dst \<and>
    (\<forall>i<nat (samples div src_ch). \<forall>j<nat dst_ch. dst' ! nat (int i * dst_ch + int j) = src ! nat (int i * src_ch + int j))"
proof -
  define n where "n = nat (samples div src_ch)"
  have q: "samples sdiv src_ch = samples div src_ch" "0 \<le> samples div src_ch"
    using assms by (simp_all add: sdiv_nonneg pos_imp_zdiv_nonneg_iff)
  have "samples div src_ch * src_ch \<le> samples" using div_mult_le_self assms(3) by blast
  then have b: "int n * src_ch \<le> int (length src)" "int n * dst_ch \<le> int (length dst)"
    using q assms by (simp_all add: n_def)
  show ?thesis
    using copy_loop_strided [of dst_ch src_ch 0 dst_ch n src dst] assms b q
    by (auto simp: audio_extra_select_slot_16_def Let_def n_def)
qed

text \<open>The gain saturates, and a ratio of one is neutral where the float product is exact.\<close>

lemma CAL_SW_GAIN_16_in_s16: "in_s16 (CAL_SW_GAIN_16 fmul ratio x)"
proof -
  define m where "m = fmul (of_int x) ratio"
  have "-32768 \<le> trunc_int m" "trunc_int m \<le> 32767" if "m \<le> 32767" "-32768 \<le> m"
    using that unfolding trunc_int_def by (auto simp: le_floor_iff floor_le_iff le_ceiling_iff ceiling_le_iff)
  then show ?thesis by (auto simp: CAL_SW_GAIN_16_def in_s16_def m_def [symmetric] Let_def)
qed

lemma CAL_SW_GAIN_16_unity:
  assumes "in_s16 x" and "fmul (of_int x) 1 = of_int x"
  shows "CAL_SW_GAIN_16 fmul 1 x = x"
  using assms by (auto simp: CAL_SW_GAIN_16_def in_s16_def trunc_int_def Let_def)

lemma sw_slot_gain_spec:
  assumes "0 \<le> ratio" and "0 < slots" and "bytes div 2 \<le> length buffer" and "\<forall>x. fmul x 1 = x"
    and "list_all in_s16 buffer" and "audio_extra_sw_slot_gain_16 fmul slots slots_mask ratio buffer bytes = Inr out"
  shows "length out = length buffer \<and> list_all in_s16 out \<and>
    (\<forall>i<length buffer. out ! i =
      (if i < bytes div 2 \<and> shr slots_mask (nat (int i mod slots)) AND 1 \<noteq> 0
       then CAL_SW_GAIN_16 fmul ratio (buffer ! i) else buffer ! i))"
proof -
  have out: "out = map (\<lambda>i. if i < bytes div 2
      then CAL_SW_GAIN_16 fmul (if shr slots_mask (nat (int i mod slots)) AND 1 \<noteq> 0 then ratio else 1) (buffer ! i)
      else buffer ! i) [0..<length buffer]"
    using assms unfolding audio_extra_sw_slot_gain_16_def Let_def by auto
  have b: "in_s16 (buffer ! i)" if "i < length buffer" for i using assms(5) that by (simp add: list_all_length)
  have "list_all in_s16 out" using b by (auto simp: out list_all_iff CAL_SW_GAIN_16_in_s16)
  moreover have "CAL_SW_GAIN_16 fmul 1 (buffer ! i) = buffer ! i" if "i < length buffer" for i
    using b [OF that] assms(4) by (simp add: CAL_SW_GAIN_16_unity)
  ultimately show ?thesis by (simp add: out)
qed

text \<open>The parts of a card name are recovered, cut to 31 characters.\<close>

definition card_part :: "string \<Rightarrow> bool" where
  "card_part t \<longleftrightarrow> t \<noteq> [] \<and> CHR ''-'' \<notin> set t"

lemma strtok_part:
  assumes "card_part t" and "rest = [] \<or> hd rest = CHR ''-''"
  shows "strtok (t @ rest) = Some (t, drop 1 rest)"
proof -
  have ne: "\<forall>c\<in>set t. c \<noteq> CHR ''-''" using assms(1) by (auto simp: card_part_def)
  have "dropWhile (\<lambda>c. c = CHR ''-'') (t @ rest) = t @ rest"
    using assms(1) by (cases t) (auto simp: card_part_def)
  moreover have "takeWhile (\<lambda>c. c \<noteq> CHR ''-'') (t @ rest) = t"
    using ne assms(2) by (cases rest) (simp_all add: takeWhile_append)
  moreover have "dropWhile (\<lambda>c. c \<noteq> CHR ''-'') (t @ rest) = rest"
    using ne assms(2) by (cases rest) (simp_all add: dropWhile_append)
  moreover have "t @ rest \<noteq> []" using assms(1) by (simp add: card_part_def)
  ultimately show ?thesis by (simp add: strtok_def Let_def)
qed

lemma set_snd_card_split_parts:
  assumes "card_part c" and "card_part b" and "card_part k" and "rest = [] \<or> hd rest = CHR ''-''"
  shows "audio_extra_set_snd_card_split cur (Some (c @ ''-'' @ b @ ''-'' @ k @ rest)) =
    Inr (cur\<lparr>chip := take 31 c, board := take 31 b, codec := take 31 k\<rparr>)"
proof -
  have 1: "strtok (c @ CHR ''-'' # b @ CHR ''-'' # k @ rest) = Some (c, b @ CHR ''-'' # k @ rest)"
    using strtok_part [OF assms(1), of "CHR ''-'' # b @ CHR ''-'' # k @ rest"] by simp
  have 2: "strtok (b @ CHR ''-'' # k @ rest) = Some (b, k @ rest)"
    using strtok_part [OF assms(2), of "CHR ''-'' # k @ rest"] by simp
  have 3: "strtok (k @ rest) = Some (k, drop 1 rest)" by (rule strtok_part [OF assms(3,4)])
  show ?thesis
    by (simp add: audio_extra_set_snd_card_split_def 1 2 3 Let_def strlcpy_def HW_INFO_ARRAY_MAX_SIZE_def)
qed

text \<open>The configuration file found is the first that exists, in the order of the list.\<close>

lemma resolve_loop_found:
  assumes "resolve_loop access f dirs = (g, True)" and "\<forall>dir\<in>set dirs. length dir + length f \<le> 126"
  shows "access g \<and> (\<exists>dir\<in>set dirs. g = dir @ ''/'' @ f)"
  using assms
proof (induction dirs)
  case (Cons dir dirs)
  then show ?case
    by (cases "access (dir @ ''/'' @ f)") (auto simp: Let_def MIXER_PATH_MAX_LENGTH_def)
qed simp

lemma resolve_config_file_found:
  assumes "audio_extra_utils_resolve_config_file access f = (g, True)" and "length f \<le> 115"
  shows "access g \<and> (\<exists>dir\<in>set kConfigLocationList. g = dir @ ''/'' @ f)"
proof (rule resolve_loop_found)
  show "resolve_loop access f kConfigLocationList = (g, True)"
    using assms(1) by (simp add: audio_extra_utils_resolve_config_file_def)
  show "\<forall>dir\<in>set kConfigLocationList. length dir + length f \<le> 126"
    using assms(2) by (simp add: kConfigLocationList_def)
qed

text \<open>The dump stops once 100 MiB are written; every later call works on the closed stream.\<close>

lemma dump_below_limit:
  assumes "dump_fd s \<noteq> Dump_closed" and "fopen_ok" and "0 \<le> dump_offset s" and "dump_offset s + int bytes < 104857600"
  shows "dump_out_data fopen_ok s bytes =
    Inr (s\<lparr>dump_fd := Dump_open, dump_offset := dump_offset s + int bytes\<rparr>, False)"
proof -
  have "s32 (dump_offset s + int bytes) = dump_offset s + int bytes" using assms by (intro s32_id) simp_all
  then show ?thesis using assms by (cases "dump_fd s") (simp_all add: dump_out_data_def Let_def)
qed

lemma dump_at_limit:
  assumes "dump_fd s \<noteq> Dump_closed" and "fopen_ok" and "0 \<le> dump_offset s" and "dump_offset s + int bytes \<ge> 104857600"
    and "dump_offset s + int bytes \<le> 2147483647"
  shows "dump_out_data fopen_ok s bytes = Inr (s\<lparr>dump_fd := Dump_closed, dump_offset := 0\<rparr>, True)"
proof -
  have "s32 (dump_offset s + int bytes) = dump_offset s + int bytes" using assms by (intro s32_id) simp_all
  then show ?thesis using assms by (cases "dump_fd s") (simp_all add: dump_out_data_def Let_def)
qed

lemma dump_closed_fails: "dump_fd s = Dump_closed \<Longrightarrow> dump_out_data fopen_ok s bytes = Inl Closed_stream"
  by (simp add: dump_out_data_def)

end
