(* ===== verification/Audio_Sharing.thy ===== *)
theory Audio_Sharing
  imports Circlebuf Audio_Extra
begin

text \<open>
  \<open>audio_sharing.c\<close> of the audio HAL: streams of one sound card are mirrored to another one.  A source
  is switched to a sink by \<open>au_sharing_duplicate_update\<close>; the data goes through the ring buffer of the
  sink to a thread, one loop per sink, that plays it.

  The sound cards are parameters: whether \<open>pcm_open\<close> gives a usable device, and what number the
  platform has for a card.  What a loop plays is part of its result.  One iteration of a loop is one
  function; \<open>shr_step\<close> interleaves the iterations of the four threads with the calls of the HAL.
\<close>

datatype mirror_direct =
  MIRROR_CLOSE | MIRROR_PRI2SEC | MIRROR_SEC2PRI | MIRROR_PRI2VDEV | MIRROR_SEC2VDEV

datatype au_shr_addr = SSA_SRC_PRI_EP | SSA_SRC_SEC_EP | SSB_SRC_PRI_EP | SSB_SRC_SEC_EP

fun addr_index :: "au_shr_addr \<Rightarrow> nat" where
  "addr_index SSA_SRC_PRI_EP = 0"
| "addr_index SSA_SRC_SEC_EP = 1"
| "addr_index SSB_SRC_PRI_EP = 2"
| "addr_index SSB_SRC_SEC_EP = 3"

record au_shr_dst =
  dst_rbuf :: "circlebuf option"
  dst_sem :: int
  dst_pcm_hdl :: bool
  dst_pcm_vi2s :: bool
  dst_pcm :: bool
  dst_hold :: bool
  dst_ref_cnt :: int
  dst_first_done :: bool
  dst_addr :: nat

record au_shr_src =
  src_bus_num :: int
  src_channels :: int
  src_dup_sink :: au_shr_addr
  src_duplicate :: bool
  src_allocated :: bool

record au_sharing =
  shr_dsts :: "au_shr_dst list"
  shr_srcs :: "au_shr_src list"

definition HIFI_SAMPLING_RATE :: int where "HIFI_SAMPLING_RATE = 48000"
definition mute_period :: int where "mute_period = 100 div OUT_PERIOD_MS"

text \<open>A 16-bit little-endian sample is two bytes.\<close>

fun s16_of_bytes :: "byte list \<Rightarrow> int list" where
  "s16_of_bytes (lo # hi # bs) = s16 (uint lo + 256 * uint hi) # s16_of_bytes bs"
| "s16_of_bytes _ = []"

definition bytes_of_s16 :: "int \<Rightarrow> byte list" where
  "bytes_of_s16 x = [word_of_int x, word_of_int (x div 256)]"

section \<open>The virtual device\<close>

text \<open>\<open>card_id\<close> is what \<open>sd_platform_get_card_id\<close> returns; \<open>pcm_open\<close> of tinyalsa never returns \<open>NULL\<close>.\<close>

definition start_ne_sharing_stream :: "int \<Rightarrow> au_shr_dst \<Rightarrow> au_shr_dst \<times> int" where
  "start_ne_sharing_stream card_id dst =
     (if card_id < 0 then (dst, -1) else (dst\<lparr>dst_pcm_vi2s := True\<rparr>, 0))"

definition stop_ne_sharing_stream :: "au_shr_dst \<Rightarrow> au_shr_dst" where
  "stop_ne_sharing_stream dst = (if dst_pcm_vi2s dst then dst\<lparr>dst_pcm_vi2s := False\<rparr> else dst)"

text \<open>The result of \<open>start_ne_sharing_stream\<close> is not looked at; \<open>pcm_write\<close> dereferences its argument.\<close>

definition virtual_i2s_sync_write :: "int \<Rightarrow> au_shr_dst \<Rightarrow> 'd \<Rightarrow> c_error + au_shr_dst \<times> 'd" where
  "virtual_i2s_sync_write card_id dst_p data =
     (let dst_p = (if \<not> dst_pcm_vi2s dst_p then fst (start_ne_sharing_stream card_id dst_p) else dst_p)
      in if dst_pcm_vi2s dst_p then Inr (dst_p, data) else Inl Null_pointer)"

section \<open>The playback threads\<close>

text \<open>
  The local arrays of a loop, kept from one iteration to the next: \<open>tmp\<close> and \<open>write_buf\<close> (as samples)
  of 16 KiB each, and the number of periods muted so far.
\<close>

record loop_state =
  lp_tmp :: "byte list"
  lp_write_buf :: "int list"
  lp_periods :: int

definition period_bytes :: "int \<Rightarrow> int" where
  "period_bytes ch = (ch * 2 * OUT_PERIOD_MS * HIFI_SAMPLING_RATE) div 1000"

text \<open>After \<open>sem_wait\<close>: open the device and start a new run of periods.\<close>

definition rear_wake :: "bool \<Rightarrow> au_shr_dst \<times> loop_state \<Rightarrow> au_shr_dst \<times> loop_state" where
  "rear_wake ready = (\<lambda>(dstp, l).
     let dstp = (if \<not> dst_pcm dstp then dstp\<lparr>dst_pcm := ready\<rparr> else dstp)
     in (dstp\<lparr>dst_first_done := False\<rparr>, l\<lparr>lp_periods := 0\<rparr>))"

definition main_wake :: "bool \<Rightarrow> au_shr_dst \<times> loop_state \<Rightarrow> au_shr_dst \<times> loop_state" where
  "main_wake opened = (\<lambda>(dstp, l).
     let dstp = (if \<not> dst_pcm_hdl dstp then dstp\<lparr>dst_pcm_hdl := opened\<rparr> else dstp)
     in (dstp\<lparr>dst_first_done := False\<rparr>, l\<lparr>lp_periods := 0\<rparr>))"

text \<open>\<open>audio_circlebuf_read (dstp->rbuf, tmp, period_bytes)\<close>.\<close>

definition read_period :: "int \<Rightarrow> au_shr_dst \<times> loop_state \<Rightarrow> c_error + (au_shr_dst \<times> loop_state) \<times> int" where
  "read_period n = (\<lambda>(dstp, l).
     and_then (audio_circlebuf_read (dst_rbuf dstp) (lp_tmp l) 0 n) (\<lambda>(rbuf, tmp, read_sz).
       Inr ((dstp\<lparr>dst_rbuf := rbuf\<rparr>, l\<lparr>lp_tmp := tmp\<rparr>), read_sz)))"

definition clear_rbuf :: "au_shr_dst \<Rightarrow> au_shr_dst" where
  "clear_rbuf dstp = dstp\<lparr>dst_rbuf := map_option audio_circlebuf_clear (dst_rbuf dstp)\<rparr>"

text \<open>
  The end of an iteration: \<open>True\<close> when the loop is left, after which the device is closed.
\<close>

definition rear_leave :: "au_shr_dst \<Rightarrow> au_shr_dst \<times> bool" where
  "rear_leave dstp =
     (if dst_hold dstp
      then let dstp = clear_rbuf dstp
           in (if dst_pcm dstp then clear_rbuf (dstp\<lparr>dst_pcm := False\<rparr>) else dstp, True)
      else (dstp, False))"

definition main_leave :: "au_shr_dst \<Rightarrow> au_shr_dst \<times> bool" where
  "main_leave dstp =
     (if dst_hold dstp
      then let dstp = clear_rbuf dstp
           in (if dst_pcm_hdl dstp then clear_rbuf (dstp\<lparr>dst_pcm_hdl := False\<rparr>) else dstp, True)
      else (dstp, False))"

text \<open>
  One iteration of \<open>ssa_rear_loop\<close>.  The result is the state, what was played, and whether the loop
  is left.  While the first periods are dropped, \<open>hold\<close> is not looked at.
\<close>

definition ssa_rear_iter :: "bool \<Rightarrow> au_shr_dst \<times> loop_state
    \<Rightarrow> c_error + (au_shr_dst \<times> loop_state) \<times> int list option \<times> bool" where
  "ssa_rear_iter ready s =
     (let n = period_bytes 4 in
      and_then (read_period n s) (\<lambda>((dstp, l), read_sz).
        if lp_periods l < mute_period
        then Inr ((dstp, l\<lparr>lp_tmp := blit (lp_tmp l) 0 (replicate (nat n) 0), lp_periods := lp_periods l + 1\<rparr>),
                  None, False)
        else and_then (audio_extra_select_slot_16 (lp_write_buf l) 2 (s16_of_bytes (lp_tmp l)) 4 (n div 2))
               (\<lambda>(write_buf, convert_frames).
                 let l = l\<lparr>lp_write_buf := write_buf\<rparr>;
                     (dstp, out) =
                       (if dst_pcm dstp \<and> read_sz = n
                        then (dstp\<lparr>dst_first_done := True\<rparr>, Some (take (nat convert_frames) write_buf))
                        else (if \<not> dst_pcm dstp then dstp\<lparr>dst_pcm := ready\<rparr> else dstp, None));
                     (dstp, left) = rear_leave dstp
                 in Inr ((dstp, l), out, left))))"

text \<open>\<open>ssb_rear_loop\<close> and \<open>ssb_main_loop\<close> differ in the card they open only.\<close>

definition ssb_iter :: "bool \<Rightarrow> au_shr_dst \<times> loop_state
    \<Rightarrow> c_error + (au_shr_dst \<times> loop_state) \<times> int list option \<times> bool" where
  "ssb_iter ready s =
     (let n = period_bytes 2 in
      and_then (read_period n s) (\<lambda>((dstp, l), read_sz).
        let l = (if lp_periods l < mute_period
                 then l\<lparr>lp_tmp := blit (lp_tmp l) 0 (replicate (nat n) 0), lp_periods := lp_periods l + 1\<rparr>
                 else l);
            (dstp, out) =
              (if dst_pcm dstp \<and> read_sz = n
               then (dstp\<lparr>dst_first_done := True\<rparr>, Some (s16_of_bytes (take (nat read_sz) (lp_tmp l))))
               else (if \<not> dst_pcm dstp then dstp\<lparr>dst_pcm := ready\<rparr> else dstp, None));
            (dstp, left) = rear_leave dstp
        in Inr ((dstp, l), out, left)))"

definition ssb_rear_iter :: "bool \<Rightarrow> au_shr_dst \<times> loop_state
    \<Rightarrow> c_error + (au_shr_dst \<times> loop_state) \<times> int list option \<times> bool" where
  "ssb_rear_iter = ssb_iter"

definition ssb_main_iter :: "bool \<Rightarrow> au_shr_dst \<times> loop_state
    \<Rightarrow> c_error + (au_shr_dst \<times> loop_state) \<times> int list option \<times> bool" where
  "ssb_main_iter = ssb_iter"

text \<open>\<open>frames\<close> counts samples; the unsigned \<open>dst_offset\<close> is never negative.\<close>

definition pcm_16_areas_copy ::
    "int \<Rightarrow> int list option \<Rightarrow> int \<Rightarrow> int list option \<Rightarrow> int \<Rightarrow> int \<Rightarrow> c_error + int list option \<times> int" where
  "pcm_16_areas_copy frames src src_ch dst dst_ch dst_offset =
     (case (src, dst) of
        (Some srcp, Some dstp) \<Rightarrow>
          if src_ch = 0 then Inl Div_by_zero
          else and_then (copy_loop (\<lambda>i. i * dst_ch + dst_offset * src_ch) (\<lambda>i. i * src_ch) src_ch srcp
                           [0..frames div src_ch - 1] dstp)
                 (\<lambda>dstp. Inr (Some dstp, 0))
      | _ \<Rightarrow> Inr (dst, - EINVAL))"

definition ssa_main_iter :: "au_shr_dst \<times> loop_state
    \<Rightarrow> c_error + (au_shr_dst \<times> loop_state) \<times> int list option \<times> bool" where
  "ssa_main_iter s =
     (let n = period_bytes 2 in
      and_then (read_period n s) (\<lambda>((dstp, l), read_sz).
        let l = (if lp_periods l < mute_period
                 then l\<lparr>lp_tmp := blit (lp_tmp l) 0 (replicate (nat n) 0), lp_periods := lp_periods l + 1\<rparr>
                 else l)
        in and_then (pcm_16_areas_copy (n div 2) (Some (s16_of_bytes (lp_tmp l))) 2 (Some (lp_write_buf l)) 4 0)
             (\<lambda>(write_buf, ret).
               let l = l\<lparr>lp_write_buf := the write_buf\<rparr>;
                   (dstp, out) =
                     (if dst_pcm_hdl dstp \<and> read_sz = n
                      then (dstp\<lparr>dst_first_done := True\<rparr>, Some (take (nat n) (lp_write_buf l)))
                      else (dstp, None));
                   (dstp, left) = main_leave dstp
               in Inr ((dstp, l), out, left))))"

section \<open>Sources and sinks\<close>

definition dst_at :: "au_sharing \<Rightarrow> au_shr_addr \<Rightarrow> au_shr_dst" where
  "dst_at g a = shr_dsts g ! addr_index a"

definition set_dst :: "au_sharing \<Rightarrow> au_shr_addr \<Rightarrow> au_shr_dst \<Rightarrow> au_sharing" where
  "set_dst g a d = g\<lparr>shr_dsts := (shr_dsts g)[addr_index a := d]\<rparr>"

definition set_src :: "au_sharing \<Rightarrow> nat \<Rightarrow> au_shr_src \<Rightarrow> au_sharing" where
  "set_src g i s = g\<lparr>shr_srcs := (shr_srcs g)[i := s]\<rparr>"

definition au_sharing_close_dst :: "au_sharing \<Rightarrow> nat \<Rightarrow> au_sharing \<times> int" where
  "au_sharing_close_dst g i =
     (let src = shr_srcs g ! i
      in if src_duplicate src
         then
           let dst_p = dst_at g (src_dup_sink src)
           in if \<not> dst_hold dst_p
              then
                let dst_p = dst_p\<lparr>dst_ref_cnt := dst_ref_cnt dst_p - 1\<rparr>;
                    dst_p = (if dst_ref_cnt dst_p = 0 then dst_p\<lparr>dst_hold := True\<rparr> else dst_p)
                in (set_dst g (src_dup_sink src) dst_p, 0)
              else (g, 0)
         else (g, 0))"

text \<open>
  \<open>rbuf\<close> gives the ring buffer \<open>audio_circlebuf_create_pcm\<close> returns for a number of channels.
  The threads are created here; their loops are the functions above.
\<close>

definition dst_channels :: "au_shr_addr \<Rightarrow> int" where
  "dst_channels a = (case a of SSA_SRC_SEC_EP \<Rightarrow> 4 | SSA_SRC_PRI_EP \<Rightarrow> 4 | SSB_SRC_PRI_EP \<Rightarrow> 2 | SSB_SRC_SEC_EP \<Rightarrow> 2)"

definition init_dst :: "(int \<Rightarrow> circlebuf option) \<Rightarrow> au_shr_addr \<Rightarrow> au_shr_dst \<Rightarrow> au_shr_dst" where
  "init_dst rbuf a d = d\<lparr>dst_pcm := False, dst_pcm_vi2s := False, dst_hold := True, dst_ref_cnt := 0,
     dst_first_done := False, dst_addr := addr_index a, dst_sem := 0, dst_rbuf := rbuf (dst_channels a)\<rparr>"

definition dsts_init :: "(int \<Rightarrow> circlebuf option) \<Rightarrow> au_sharing \<Rightarrow> au_sharing" where
  "dsts_init rbuf g =
     g\<lparr>shr_dsts := map2 (init_dst rbuf) [SSA_SRC_PRI_EP, SSA_SRC_SEC_EP, SSB_SRC_PRI_EP, SSB_SRC_SEC_EP] (shr_dsts g),
       shr_srcs := map (\<lambda>s. s\<lparr>src_allocated := False\<rparr>) (shr_srcs g)\<rparr>"

definition au_sharing_init :: "(int \<Rightarrow> circlebuf option) \<Rightarrow> au_sharing \<Rightarrow> au_sharing" where
  "au_sharing_init rbuf g = dsts_init rbuf g"

text \<open>The search does not stop at the first free source: the last one is taken.\<close>

fun get_src_loop :: "nat \<Rightarrow> au_shr_src list \<Rightarrow> nat option \<Rightarrow> nat option" where
  "get_src_loop i [] src_p = src_p"
| "get_src_loop i (s # ss) src_p = get_src_loop (i + 1) ss (if \<not> src_allocated s then Some i else src_p)"

definition au_sharing_get_src :: "au_sharing \<Rightarrow> int \<Rightarrow> int \<Rightarrow> au_sharing \<times> nat option" where
  "au_sharing_get_src g bus_num channels =
     (case get_src_loop 0 (shr_srcs g) None of None \<Rightarrow> (g, None)
      | Some i \<Rightarrow> (set_src g i ((shr_srcs g ! i)\<lparr>src_bus_num := bus_num, src_channels := channels,
                     src_duplicate := False, src_allocated := True\<rparr>), Some i))"

definition au_sharing_release_src :: "au_sharing \<Rightarrow> nat \<Rightarrow> au_sharing \<times> int" where
  "au_sharing_release_src g i =
     au_sharing_close_dst (set_src g i ((shr_srcs g ! i)\<lparr>src_allocated := False\<rparr>)) i"

definition mirror_matches :: "mirror_direct \<Rightarrow> int \<Rightarrow> bool" where
  "mirror_matches direct bus_num \<longleftrightarrow>
     direct = MIRROR_PRI2SEC \<and> (bus_num = 0 \<or> bus_num = 101) \<or>
     direct = MIRROR_SEC2PRI \<and> (bus_num = 100 \<or> bus_num = 102) \<or>
     direct = MIRROR_SEC2VDEV \<and> (bus_num = 100 \<or> bus_num = 102)"

definition au_sharing_duplicate_update ::
    "au_sharing \<Rightarrow> nat \<Rightarrow> au_shr_addr \<Rightarrow> mirror_direct \<Rightarrow> bool \<Rightarrow> au_sharing" where
  "au_sharing_duplicate_update g i target direct enable =
     (let src = shr_srcs g ! i
      in if \<not> enable \<and> src_duplicate src
         then
           let g = set_src g i (src\<lparr>src_duplicate := False\<rparr>);
               dst_p = dst_at g (src_dup_sink src)
           in set_dst g (src_dup_sink src)
                (if dst_pcm_vi2s dst_p then stop_ne_sharing_stream dst_p
                 else dst_p\<lparr>dst_ref_cnt := dst_ref_cnt dst_p - 1, dst_hold := True\<rparr>)
         else if enable \<and> \<not> src_duplicate src
         then
           if mirror_matches direct (src_bus_num src)
           then
             let dst_p = dst_at g target;
                 dst_p = dst_p\<lparr>dst_ref_cnt := dst_ref_cnt dst_p + 1\<rparr>;
                 dst_p = (if dst_ref_cnt dst_p = 1
                          then dst_p\<lparr>dst_hold := False, dst_sem := dst_sem dst_p + 1\<rparr> else dst_p)
             in set_src (set_dst g target dst_p) i (src\<lparr>src_dup_sink := target, src_duplicate := True\<rparr>)
           else if direct = MIRROR_PRI2VDEV
           then set_src g i (src\<lparr>src_dup_sink := target, src_duplicate := True\<rparr>)
           else g
         else g)"

section \<open>Duplicating data\<close>

text \<open>\<open>amplitude\<close> is the map from bus addresses to the gain of their stream; a missing bus is a \<open>NULL\<close> stream.\<close>

definition get_amplitude_ratio :: "(string \<Rightarrow> rat option) \<Rightarrow> string \<Rightarrow> c_error + rat" where
  "get_amplitude_ratio amplitude bus_address =
     (case amplitude bus_address of None \<Rightarrow> Inl Null_pointer | Some r \<Rightarrow> Inr r)"

definition gain_bytes :: "(rat \<Rightarrow> rat \<Rightarrow> rat) \<Rightarrow> rat \<Rightarrow> byte list \<Rightarrow> nat \<Rightarrow> c_error + byte list" where
  "gain_bytes fmul ratio buffer bytes =
     and_then (audio_extra_sw_gain_16 fmul ratio (s16_of_bytes buffer) bytes) (\<lambda>samples.
       Inr (concat (map bytes_of_s16 samples) @ drop (2 * length samples) buffer))"

definition copy_buf_and_apply_volume ::
    "(rat \<Rightarrow> rat \<Rightarrow> rat) \<Rightarrow> (string \<Rightarrow> rat option) \<Rightarrow> byte list \<Rightarrow> byte list \<Rightarrow> int \<Rightarrow> string \<Rightarrow> c_error + byte list" where
  "copy_buf_and_apply_volume fmul amplitude write_buf source len bus_address =
     and_then (get_amplitude_ratio amplitude bus_address) (\<lambda>amplitude_ratio.
     and_then (memcpy write_buf 0 source 0 len) (\<lambda>write_buf.
       gain_bytes fmul amplitude_ratio write_buf (nat len)))"

definition rbuf_write_async :: "circlebuf option \<Rightarrow> byte list \<Rightarrow> int \<Rightarrow> c_error + circlebuf option \<times> int" where
  "rbuf_write_async rbuf data count =
     and_then (audio_circlebuf_write rbuf (Some data) (s32 count)) (\<lambda>(rbuf, n). Inr (rbuf, 0))"

datatype dup_action = Mirror string | Send_vi2s | Select_vi2s | No_action

fun dup_action_of :: "au_shr_addr \<Rightarrow> mirror_direct \<Rightarrow> dup_action" where
  "dup_action_of SSA_SRC_SEC_EP MIRROR_SEC2PRI = Mirror ''bus0_media_out''"
| "dup_action_of SSA_SRC_SEC_EP MIRROR_SEC2VDEV = Send_vi2s"
| "dup_action_of SSA_SRC_PRI_EP MIRROR_PRI2SEC = Mirror ''bus100_rear_seat1''"
| "dup_action_of SSA_SRC_PRI_EP MIRROR_PRI2VDEV = Select_vi2s"
| "dup_action_of SSB_SRC_SEC_EP MIRROR_SEC2PRI = Mirror ''bus101_rear_seat''"
| "dup_action_of SSB_SRC_SEC_EP MIRROR_PRI2VDEV = Send_vi2s"
| "dup_action_of SSB_SRC_PRI_EP MIRROR_PRI2SEC = Mirror ''bus102_rear_seat''"
| "dup_action_of SSB_SRC_PRI_EP MIRROR_PRI2VDEV = Send_vi2s"
| "dup_action_of _ _ = No_action"

text \<open>
  \<open>write_buf\<close> is the local array of 16 KiB.  The result is the sharing state and what was written to
  the virtual device.
\<close>

definition au_sharing_duplicate ::
    "(rat \<Rightarrow> rat \<Rightarrow> rat) \<Rightarrow> (string \<Rightarrow> rat option) \<Rightarrow> int \<Rightarrow> byte list \<Rightarrow> au_sharing \<Rightarrow> nat \<Rightarrow> byte list \<Rightarrow> int
      \<Rightarrow> au_shr_addr \<Rightarrow> mirror_direct \<Rightarrow> c_error + au_sharing \<times> int list option" where
  "au_sharing_duplicate fmul amplitude card_id write_buf g i buf len location direct =
     (let onoff = (direct \<noteq> MIRROR_CLOSE);
          g = au_sharing_duplicate_update g i location direct onoff;
          src = shr_srcs g ! i;
          sink = src_dup_sink src
      in if \<not> src_duplicate src then Inr (g, None)
         else case dup_action_of location direct of
           Mirror bus \<Rightarrow>
             and_then (copy_buf_and_apply_volume fmul amplitude write_buf buf len bus) (\<lambda>write_buf.
             and_then (rbuf_write_async (dst_rbuf (dst_at g sink)) write_buf len) (\<lambda>(rbuf, r).
               Inr (set_dst g sink ((dst_at g sink)\<lparr>dst_rbuf := rbuf\<rparr>), None)))
         | Send_vi2s \<Rightarrow>
             and_then (virtual_i2s_sync_write card_id (dst_at g sink) (s16_of_bytes (take (nat len) buf))) (\<lambda>(d, out).
               Inr (set_dst g sink d, Some out))
         | Select_vi2s \<Rightarrow>
             and_then (audio_extra_select_slot_16 (s16_of_bytes write_buf) 2 (s16_of_bytes buf) 4 (len div 2))
               (\<lambda>(samples, convert_frames).
             and_then (virtual_i2s_sync_write card_id (dst_at g sink) (take (nat convert_frames) samples)) (\<lambda>(d, out).
               Inr (set_dst g sink d, Some out)))
         | No_action \<Rightarrow> Inr (g, None))"

definition AUDIO_SHARING_NE :: int where "AUDIO_SHARING_NE = 0"
definition AUDIO_SHARING_FE :: int where "AUDIO_SHARING_FE = 1"

text \<open>The two flags of the device: near end and far end.\<close>

definition au_sharing_enable :: "int \<Rightarrow> bool \<times> bool \<Rightarrow> bool \<times> bool" where
  "au_sharing_enable endpoint adev =
     (if endpoint = AUDIO_SHARING_NE then (True, False)
      else if endpoint = AUDIO_SHARING_FE then (False, True) else (False, False))"

definition au_sharing_disable :: "int \<Rightarrow> bool \<times> bool \<Rightarrow> bool \<times> bool" where
  "au_sharing_disable endpoint adev =
     (if endpoint = AUDIO_SHARING_NE then (False, snd adev)
      else if endpoint = AUDIO_SHARING_FE then (fst adev, False) else adev)"

definition au_sharing_get_state :: "au_sharing \<Rightarrow> string \<Rightarrow> bool" where
  "au_sharing_get_state handler bus_addr =
     (if bus_addr = ''bus100_rear_seat1'' then dst_hold (dst_at handler SSA_SRC_PRI_EP)
      else if bus_addr = ''bus101_rear_seat'' then dst_hold (dst_at handler SSB_SRC_SEC_EP)
      else if bus_addr = ''bus102_rear_seat'' then dst_hold (dst_at handler SSB_SRC_PRI_EP)
      else True)"

section \<open>Samples and bytes\<close>

lemma length_s16_of_bytes [simp]: "length (s16_of_bytes bs) = length bs div 2"
  by (induction bs rule: s16_of_bytes.induct) simp_all

lemma length_bytes_of_s16 [simp]: "length (bytes_of_s16 x) = 2"
  by (simp add: bytes_of_s16_def)

lemma length_concat_bytes [simp]: "length (concat (map bytes_of_s16 xs)) = 2 * length xs"
  by (induction xs) simp_all

lemma s16_of_bytes_of_s16:
  assumes "in_s16 x"
  shows "s16_of_bytes (bytes_of_s16 x @ bs) = x # s16_of_bytes bs"
proof -
  have "uint (word_of_int x :: byte) + 256 * uint (word_of_int (x div 256) :: byte) = x mod 65536"
    using zmod_zmult2_eq [of 256 x 256] by (simp add: uint_word_of_int)
  moreover have "s16 (x mod 65536) = s16 x" by (simp add: s16_def mod_simps)
  moreover have "s16 x = x" using assms by (rule in_s16_id)
  ultimately show ?thesis by (simp add: bytes_of_s16_def)
qed

lemma s16_bytes_roundtrip: "list_all in_s16 xs \<Longrightarrow> s16_of_bytes (concat (map bytes_of_s16 xs)) = xs"
  by (induction xs) (simp_all add: s16_of_bytes_of_s16)

lemma s16_of_bytes_take: "s16_of_bytes (take (2 * k) bs) = take k (s16_of_bytes bs)"
proof (induction k arbitrary: bs)
  case (Suc k)
  then show ?case by (cases bs rule: s16_of_bytes.cases) simp_all
qed simp

lemma s16_of_bytes_in_s16: "list_all in_s16 (s16_of_bytes bs)"
  by (induction bs rule: s16_of_bytes.induct) simp_all

section \<open>The system of threads\<close>

text \<open>
  The sharing state, the locals of the four threads, and which of them are past \<open>sem_wait\<close>.  A thread
  is identified by the sink it serves.
\<close>

record shr_sys =
  sys_g :: au_sharing
  sys_loops :: "loop_state list"
  sys_awake :: "bool list"

definition shr_wake :: "au_shr_addr \<Rightarrow> bool \<Rightarrow> au_shr_dst \<times> loop_state \<Rightarrow> au_shr_dst \<times> loop_state" where
  "shr_wake a = (case a of SSA_SRC_SEC_EP \<Rightarrow> main_wake | _ \<Rightarrow> rear_wake)"

definition shr_iter :: "au_shr_addr \<Rightarrow> bool \<Rightarrow> au_shr_dst \<times> loop_state
    \<Rightarrow> c_error + (au_shr_dst \<times> loop_state) \<times> int list option \<times> bool" where
  "shr_iter a ready s =
     (case a of SSA_SRC_PRI_EP \<Rightarrow> ssa_rear_iter ready s
      | SSA_SRC_SEC_EP \<Rightarrow> ssa_main_iter s
      | SSB_SRC_PRI_EP \<Rightarrow> ssb_rear_iter ready s
      | SSB_SRC_SEC_EP \<Rightarrow> ssb_main_iter ready s)"

text \<open>Up to \<open>n\<close> iterations of the inner loop of a thread; \<open>True\<close> when the loop was left.\<close>

fun thread_run :: "('s \<Rightarrow> c_error + 's \<times> 'o \<times> bool) \<Rightarrow> nat \<Rightarrow> 's \<Rightarrow> c_error + 's \<times> bool" where
  "thread_run iter 0 s = Inr (s, False)"
| "thread_run iter (Suc n) s =
     and_then (iter s) (\<lambda>(s, out, left). if left then Inr (s, True) else thread_run iter n s)"

definition set_thread :: "shr_sys \<Rightarrow> au_shr_addr \<Rightarrow> au_shr_dst \<times> loop_state \<Rightarrow> bool \<Rightarrow> shr_sys" where
  "set_thread s a = (\<lambda>(d, l) awake. s\<lparr>sys_g := set_dst (sys_g s) a d, sys_loops := (sys_loops s)[addr_index a := l],
     sys_awake := (sys_awake s)[addr_index a := awake]\<rparr>)"

text \<open>
  The steps: a thread gets its semaphore, a thread does one iteration, the HAL takes a source, gives it
  back or writes data.  The buffer the HAL writes has at least \<open>len\<close> bytes.
\<close>

inductive shr_step :: "(rat \<Rightarrow> rat \<Rightarrow> rat) \<Rightarrow> (string \<Rightarrow> rat option) \<Rightarrow> int \<Rightarrow> shr_sys \<Rightarrow> shr_sys \<Rightarrow> bool"
  for fmul :: "rat \<Rightarrow> rat \<Rightarrow> rat" and amplitude :: "string \<Rightarrow> rat option" and card_id :: int
  where
  wake: "\<not> sys_awake s ! addr_index a \<Longrightarrow> 0 < dst_sem (dst_at (sys_g s) a) \<Longrightarrow>
    d = dst_at (sys_g s) a \<Longrightarrow>
    shr_step fmul amplitude card_id s
      (set_thread s a (shr_wake a ready (d\<lparr>dst_sem := dst_sem d - 1\<rparr>, sys_loops s ! addr_index a)) True)"
| iter: "sys_awake s ! addr_index a \<Longrightarrow>
    shr_iter a ready (dst_at (sys_g s) a, sys_loops s ! addr_index a) = Inr (t, out, left) \<Longrightarrow>
    shr_step fmul amplitude card_id s (set_thread s a t (\<not> left))"
| get_src: "au_sharing_get_src (sys_g s) bus_num channels = (g, r) \<Longrightarrow>
    shr_step fmul amplitude card_id s (s\<lparr>sys_g := g\<rparr>)"
| release_src: "i < 4 \<Longrightarrow> src_allocated (shr_srcs (sys_g s) ! i) \<Longrightarrow>
    au_sharing_release_src (sys_g s) i = (g, r) \<Longrightarrow> shr_step fmul amplitude card_id s (s\<lparr>sys_g := g\<rparr>)"
| duplicate: "i < 4 \<Longrightarrow> src_allocated (shr_srcs (sys_g s) ! i) \<Longrightarrow> 0 \<le> len \<Longrightarrow> len \<le> int (length buf) \<Longrightarrow>
    length write_buf = 16384 \<Longrightarrow>
    au_sharing_duplicate fmul amplitude card_id write_buf (sys_g s) i buf len location direct = Inr (g, out) \<Longrightarrow>
    shr_step fmul amplitude card_id s (s\<lparr>sys_g := g\<rparr>)"

section \<open>The invariant\<close>

definition dst_ok :: "au_shr_dst \<Rightarrow> bool" where
  "dst_ok d \<longleftrightarrow> (\<exists>rb. dst_rbuf d = Some rb \<and> cb_ok rb)"

definition loop_ok :: "loop_state \<Rightarrow> bool" where
  "loop_ok l \<longleftrightarrow> length (lp_tmp l) = 16384 \<and> length (lp_write_buf l) = 8192 \<and> 0 \<le> lp_periods l"

definition g_ok :: "au_sharing \<Rightarrow> bool" where
  "g_ok g \<longleftrightarrow> length (shr_dsts g) = 4 \<and> length (shr_srcs g) = 4 \<and> (\<forall>d\<in>set (shr_dsts g). dst_ok d)"

definition sys_ok :: "shr_sys \<Rightarrow> bool" where
  "sys_ok s \<longleftrightarrow> g_ok (sys_g s) \<and> length (sys_loops s) = 4 \<and> length (sys_awake s) = 4 \<and>
     (\<forall>l\<in>set (sys_loops s). loop_ok l)"

lemma addr_index_less [simp]: "addr_index a < 4"
  by (cases a) simp_all

lemma g_ok_dst: "g_ok g \<Longrightarrow> dst_ok (dst_at g a)"
  by (simp add: g_ok_def dst_at_def)

lemma set_mem_update: "x \<in> set (xs[i := y]) \<Longrightarrow> x = y \<or> x \<in> set xs"
  using set_update_subset_insert [of xs i y] by blast

lemma g_ok_set_dst: "g_ok g \<Longrightarrow> dst_ok d \<Longrightarrow> g_ok (set_dst g a d)"
  by (auto simp: g_ok_def set_dst_def dest: set_mem_update)

lemma g_ok_set_src: "g_ok g \<Longrightarrow> g_ok (set_src g i x)"
  by (simp add: g_ok_def set_src_def)

lemma dst_at_set_src [simp]: "dst_at (set_src g i x) a = dst_at g a"
  by (simp add: dst_at_def set_src_def)

lemma dst_ok_update [simp]:
  "dst_ok (d\<lparr>dst_sem := x\<rparr>) = dst_ok d" "dst_ok (d\<lparr>dst_pcm := b\<rparr>) = dst_ok d" "dst_ok (d\<lparr>dst_pcm_hdl := b\<rparr>) = dst_ok d"
  "dst_ok (d\<lparr>dst_pcm_vi2s := b\<rparr>) = dst_ok d" "dst_ok (d\<lparr>dst_hold := b\<rparr>) = dst_ok d"
  "dst_ok (d\<lparr>dst_ref_cnt := x\<rparr>) = dst_ok d" "dst_ok (d\<lparr>dst_first_done := b\<rparr>) = dst_ok d"
  by (simp_all add: dst_ok_def)

lemma dst_ok_clear: "dst_ok d \<Longrightarrow> dst_ok (clear_rbuf d)"
  using clear_ok by (auto simp: dst_ok_def clear_rbuf_def cb_ok_def audio_circlebuf_clear_def)

lemma dst_ok_rbuf: "cb_ok rb \<Longrightarrow> dst_ok (d\<lparr>dst_rbuf := Some rb\<rparr>)"
  by (simp add: dst_ok_def)

section \<open>One iteration of a thread\<close>

lemma read_period_ok:
  assumes "dst_rbuf d = Some rb" and "cb_ok rb" and "loop_ok l" and "0 \<le> n" and "n \<le> 16384"
  shows "\<exists>rb'. read_period n (d, l) = Inr ((d\<lparr>dst_rbuf := Some rb'\<rparr>,
      l\<lparr>lp_tmp := blit (lp_tmp l) 0 (take (nat n) (contents rb))\<rparr>), min n (int (length (contents rb)))) \<and>
    cb_ok rb' \<and> contents rb' = drop (nat n) (contents rb)"
proof -
  have ok: "rb_ok rb" "\<not> rb_lock rb" using assms(2) by (simp_all add: cb_ok_def)
  let ?k = "min n (rb_used rb)"
  have u: "rb_used rb = int (length (contents rb))" using length_contents [OF ok(1)] by simp
  have k: "take (nat ?k) (contents rb) = take (nat n) (contents rb)" "drop (nat ?k) (contents rb) = drop (nat n) (contents rb)"
    using u by (auto simp: min_def)
  obtain rb' where r: "audio_circlebuf_read (Some rb) (lp_tmp l) 0 n =
      Inr (Some rb', blit (lp_tmp l) 0 (take (nat ?k) (contents rb)), ?k)" "rb_ok rb'" "\<not> rb_lock rb'"
    "contents rb' = drop (nat ?k) (contents rb)" "rb_over_write rb' = rb_over_write rb"
    using audio_circlebuf_read_eq [OF ok assms(4), of 0 "lp_tmp l"] assms(3,5) by (auto simp: loop_ok_def min_le_iff_disj)
  show ?thesis
    using r [unfolded k] assms(1,2) u
    by (intro exI [of _ rb']) (simp add: read_period_def cb_ok_def)
qed

lemma period_bytes_eq: "period_bytes 2 = 3840" "period_bytes 4 = 7680" "mute_period = 5"
  by (simp_all add: period_bytes_def mute_period_def OUT_PERIOD_MS_def HIFI_SAMPLING_RATE_def)

lemma loop_ok_read: "loop_ok l \<Longrightarrow> loop_ok (l\<lparr>lp_tmp := blit (lp_tmp l) 0 (take n xs)\<rparr>)" if "n \<le> 16384"
  using that by (simp add: loop_ok_def length_blit)

lemma loop_ok_mute:
  "loop_ok l \<Longrightarrow> n \<le> 16384 \<Longrightarrow> loop_ok (l\<lparr>lp_tmp := blit (lp_tmp l) 0 (replicate n 0), lp_periods := lp_periods l + 1\<rparr>)"
  by (simp add: loop_ok_def)

lemma rear_leave_ok:
  assumes "dst_ok d" and "rear_leave d = (d', left)"
  shows "dst_ok d' \<and> dst_hold d' = dst_hold d \<and> left = dst_hold d"
    and "left \<Longrightarrow> \<not> dst_pcm d' \<and> (\<exists>rb. dst_rbuf d' = Some rb \<and> contents rb = [])"
  using assms clear_ok dst_ok_clear [OF assms(1)]
  by (auto simp: rear_leave_def clear_rbuf_def dst_ok_def cb_ok_def Let_def audio_circlebuf_clear_def contents_def split: if_splits)

lemma main_leave_ok:
  assumes "dst_ok d" and "main_leave d = (d', left)"
  shows "dst_ok d' \<and> dst_hold d' = dst_hold d \<and> left = dst_hold d"
    and "left \<Longrightarrow> \<not> dst_pcm_hdl d' \<and> (\<exists>rb. dst_rbuf d' = Some rb \<and> contents rb = [])"
  using assms clear_ok dst_ok_clear [OF assms(1)]
  by (auto simp: main_leave_def clear_rbuf_def dst_ok_def cb_ok_def Let_def audio_circlebuf_clear_def contents_def split: if_splits)

text \<open>
  The result of an iteration, for every thread: no memory error, the invariant, and the loop is left
  exactly when \<open>hold\<close> is seen, which the muted periods of \<open>ssa_rear_loop\<close> do not do.
\<close>

definition iter_ok :: "au_shr_addr \<Rightarrow> au_shr_dst \<times> loop_state \<Rightarrow> (au_shr_dst \<times> loop_state) \<times> int list option \<times> bool \<Rightarrow> bool" where
  "iter_ok a = (\<lambda>(d, l) ((d', l'), out, left).
     dst_ok d' \<and> loop_ok l' \<and> dst_hold d' = dst_hold d \<and>
     (if a = SSA_SRC_PRI_EP \<and> lp_periods l < 5 then \<not> left \<and> lp_periods l' = lp_periods l + 1
      else left = dst_hold d) \<and>
     (left \<longrightarrow> \<not> (if a = SSA_SRC_SEC_EP then dst_pcm_hdl d' else dst_pcm d') \<and>
        (\<exists>rb. dst_rbuf d' = Some rb \<and> contents rb = [])))"

lemma ssb_iter_ok:
  assumes "dst_ok d" and "loop_ok l" and "a = SSB_SRC_PRI_EP \<or> a = SSB_SRC_SEC_EP"
  shows "\<exists>r. ssb_iter ready (d, l) = Inr r \<and> iter_ok a (d, l) r"
proof -
  obtain rb where rb: "dst_rbuf d = Some rb" "cb_ok rb" using assms(1) by (auto simp: dst_ok_def)
  let ?l1 = "l\<lparr>lp_tmp := blit (lp_tmp l) 0 (take 3840 (contents rb))\<rparr>"
  obtain rb' where r: "read_period 3840 (d, l) = Inr ((d\<lparr>dst_rbuf := Some rb'\<rparr>, ?l1), min 3840 (int (length (contents rb))))"
    "cb_ok rb'"
    using read_period_ok [OF rb assms(2), of 3840] by auto
  have l1: "loop_ok ?l1" by (rule loop_ok_read [OF _ assms(2)]) simp
  note l2 = loop_ok_mute [OF l1, of 3840]
  define l2 where "l2 = (if lp_periods ?l1 < 5 then ?l1\<lparr>lp_tmp := blit (lp_tmp ?l1) 0 (replicate 3840 0),
    lp_periods := lp_periods ?l1 + 1\<rparr> else ?l1)"
  define p where "p = (let d1 = d\<lparr>dst_rbuf := Some rb'\<rparr>; sz = min 3840 (int (length (contents rb)))
    in if dst_pcm d1 \<and> sz = 3840 then (d1\<lparr>dst_first_done := True\<rparr>, Some (s16_of_bytes (take (nat sz) (lp_tmp l2))))
       else (if \<not> dst_pcm d1 then d1\<lparr>dst_pcm := ready\<rparr> else d1, None))"
  obtain d2 left where e: "rear_leave (fst p) = (d2, left)" by fastforce
  have "ssb_iter ready (d, l) = Inr ((d2, l2), snd p, left)"
    using r(1) e by (auto simp: ssb_iter_def period_bytes_eq Let_def l2_def p_def split: if_splits)
  moreover have p: "dst_ok (fst p)" "dst_hold (fst p) = dst_hold d"
    using r(2) by (simp_all add: p_def Let_def dst_ok_rbuf)
  moreover have "loop_ok l2" using l1 l2 by (simp add: l2_def)
  ultimately show ?thesis using rear_leave_ok [OF p(1) e] assms(3) by (auto simp: iter_ok_def)
qed

text \<open>The copy of areas puts frame \<open>i\<close> of the source at the offset in frame \<open>i\<close> of the destination.\<close>

lemma areas_copy_frames:
  assumes "0 < src_ch" and "0 \<le> offset" and "offset * src_ch + src_ch \<le> dst_ch" and "0 \<le> frames"
    and "frames \<le> int (length src)" and "frames div src_ch * dst_ch \<le> int (length dst)"
  shows "\<exists>dst'. pcm_16_areas_copy frames (Some src) src_ch (Some dst) dst_ch offset = Inr (Some dst', 0) \<and>
    length dst' = length dst \<and>
    (\<forall>i<nat (frames div src_ch). \<forall>j<nat src_ch.
       dst' ! nat (int i * dst_ch + offset * src_ch + int j) = src ! nat (int i * src_ch + int j))"
proof -
  define n where "n = nat (frames div src_ch)"
  have q: "0 \<le> frames div src_ch" using assms(1,4) by (simp add: pos_imp_zdiv_nonneg_iff)
  have "frames div src_ch * src_ch \<le> frames" using div_mult_le_self assms(1) by blast
  then have b: "int n * src_ch \<le> int (length src)" "int n * dst_ch \<le> int (length dst)"
    using q assms by (simp_all add: n_def)
  show ?thesis
    using copy_loop_strided [of src_ch src_ch "offset * src_ch" dst_ch n src dst] assms b q
    by (auto simp: pcm_16_areas_copy_def n_def)
qed

lemma ssa_main_iter_ok:
  assumes "dst_ok d" and "loop_ok l"
  shows "\<exists>r. ssa_main_iter (d, l) = Inr r \<and> iter_ok SSA_SRC_SEC_EP (d, l) r"
proof -
  obtain rb where rb: "dst_rbuf d = Some rb" "cb_ok rb" using assms(1) by (auto simp: dst_ok_def)
  let ?l1 = "l\<lparr>lp_tmp := blit (lp_tmp l) 0 (take 3840 (contents rb))\<rparr>"
  obtain rb' where r: "read_period 3840 (d, l) = Inr ((d\<lparr>dst_rbuf := Some rb'\<rparr>, ?l1), min 3840 (int (length (contents rb))))"
    "cb_ok rb'"
    using read_period_ok [OF rb assms(2), of 3840] by auto
  have l1: "loop_ok ?l1" by (rule loop_ok_read [OF _ assms(2)]) simp
  define l2 where "l2 = (if lp_periods ?l1 < 5 then ?l1\<lparr>lp_tmp := blit (lp_tmp ?l1) 0 (replicate (nat 3840) 0),
    lp_periods := lp_periods ?l1 + 1\<rparr> else ?l1)"
  have ok2: "loop_ok l2" using l1 loop_ok_mute [OF l1, of 3840] by (simp add: l2_def)
  obtain wb where wb: "pcm_16_areas_copy 1920 (Some (s16_of_bytes (lp_tmp l2))) 2 (Some (lp_write_buf l2)) 4 0 = Inr (Some wb, 0)"
    "length wb = 8192"
    using areas_copy_frames [of 2 0 4 1920 "s16_of_bytes (lp_tmp l2)" "lp_write_buf l2"] ok2 by (auto simp: loop_ok_def)
  define p where "p = (let d1 = d\<lparr>dst_rbuf := Some rb'\<rparr>; sz = min 3840 (int (length (contents rb)))
    in if dst_pcm_hdl d1 \<and> sz = 3840 then (d1\<lparr>dst_first_done := True\<rparr>, Some (take 3840 wb)) else (d1, None))"
  obtain d2 left where e: "main_leave (fst p) = (d2, left)" by fastforce
  have half: "(3840 :: int) div 2 = 1920" by simp
  have "ssa_main_iter (d, l) = Inr ((d2, l2\<lparr>lp_write_buf := wb\<rparr>), snd p, left)"
    unfolding ssa_main_iter_def period_bytes_eq r(1) and_then_simps prod.case Let_def l2_def [symmetric] half wb(1)
    using e by (auto simp: p_def Let_def split: if_splits)
  moreover have p: "dst_ok (fst p)" "dst_hold (fst p) = dst_hold d"
    using r(2) by (simp_all add: p_def Let_def dst_ok_rbuf)
  moreover have "loop_ok (l2\<lparr>lp_write_buf := wb\<rparr>)" using ok2 wb(2) by (simp add: loop_ok_def)
  ultimately show ?thesis using main_leave_ok [OF p(1) e] by (auto simp: iter_ok_def)
qed

text \<open>
  What \<open>ssa_rear_loop\<close> plays once the muted periods are over: slots 0 and 1 of the four slots of each of
  the 960 frames of a period, taken from the front of the queue.
\<close>

definition slots_01 :: "int list \<Rightarrow> int list" where
  "slots_01 xs = concat (map (\<lambda>i. [xs ! (4 * i), xs ! (4 * i + 1)]) [0..<960])"

lemma length_slots_01 [simp]: "length (slots_01 xs) = 1920"
  by (simp add: slots_01_def length_concat comp_def sum_list_triv)

lemma nth_pairs: "i < n \<Longrightarrow> j < 2 \<Longrightarrow> concat (map (\<lambda>i. [f i, g i]) [0..<n]) ! (2 * i + j) = (if j = 0 then f i else g i)"
proof (induction n)
  case (Suc n)
  have len: "length (concat (map (\<lambda>i. [f i, g i]) [0..<n])) = 2 * n" by (simp add: length_concat comp_def sum_list_triv)
  show ?case
  proof (cases "i < n")
    case True
    then show ?thesis using Suc len by (simp add: nth_append)
  next
    case False
    then have "i = n" using Suc.prems(1) by simp
    then show ?thesis using Suc.prems(2) len by (auto simp: nth_append less_2_cases_iff)
  qed
qed simp

lemma slots_01_eqI:
  assumes "1920 \<le> length wb" and "\<And>i j. i < 960 \<Longrightarrow> j < 2 \<Longrightarrow> wb ! (2 * i + j) = xs ! (4 * i + j)"
  shows "take 1920 wb = slots_01 xs"
proof (rule nth_equalityI)
  show "length (take 1920 wb) = length (slots_01 xs)" using assms(1) by simp
next
  fix k assume "k < length (take 1920 wb)"
  then have k: "k < 1920" by simp
  define i j where "i = k div 2" and "j = k mod 2"
  have ij: "k = 2 * i + j" "i < 960" "j < 2" using k unfolding i_def j_def by auto
  have "slots_01 xs ! (2 * i + j) = xs ! (4 * i + j)"
    unfolding slots_01_def using nth_pairs [OF ij(2,3), of "\<lambda>i. xs ! (4 * i)" "\<lambda>i. xs ! (4 * i + 1)"] ij(3)
    by (auto simp: less_2_cases_iff)
  then show "take 1920 wb ! k = slots_01 xs ! k" using assms(2) [OF ij(2,3)] k ij(1) by simp
qed

lemma ssa_rear_iter_eq:
  assumes rb: "dst_rbuf d = Some rb" "cb_ok rb" and l: "loop_ok l" and played: "5 \<le> lp_periods l"
  shows "\<exists>rb' wb. cb_ok rb' \<and> contents rb' = drop 7680 (contents rb) \<and> length wb = 8192 \<and>
    take 1920 wb = slots_01 (s16_of_bytes (blit (lp_tmp l) 0 (take 7680 (contents rb)))) \<and>
    ssa_rear_iter ready (d, l) =
      (let d1 = d\<lparr>dst_rbuf := Some rb'\<rparr>;
           (d2, out) = (if dst_pcm d1 \<and> 7680 \<le> length (contents rb)
                        then (d1\<lparr>dst_first_done := True\<rparr>, Some (take 1920 wb))
                        else (if \<not> dst_pcm d1 then d1\<lparr>dst_pcm := ready\<rparr> else d1, None));
           (d3, left) = rear_leave d2
       in Inr ((d3, l\<lparr>lp_tmp := blit (lp_tmp l) 0 (take 7680 (contents rb)), lp_write_buf := wb\<rparr>), out, left))"
proof -
  let ?l1 = "l\<lparr>lp_tmp := blit (lp_tmp l) 0 (take 7680 (contents rb))\<rparr>"
  obtain rb' where r: "read_period 7680 (d, l) = Inr ((d\<lparr>dst_rbuf := Some rb'\<rparr>, ?l1), min 7680 (int (length (contents rb))))"
    "cb_ok rb'" "contents rb' = drop 7680 (contents rb)"
    using read_period_ok [OF rb l, of 7680] by auto
  have l1: "loop_ok ?l1" by (rule loop_ok_read [OF _ l]) simp
  let ?src = "s16_of_bytes (lp_tmp ?l1)"
  obtain wb where wb: "audio_extra_select_slot_16 (lp_write_buf ?l1) 2 ?src 4 3840 = Inr (wb, 1920)" "length wb = 8192"
    "\<forall>i<960. \<forall>j<2. wb ! nat (int i * 2 + int j) = ?src ! nat (int i * 4 + int j)"
    using select_slot_frames [of 2 4 3840 ?src "lp_write_buf ?l1"] l1 by (auto simp: loop_ok_def)
  have idx: "nat (int i * 2 + int j) = 2 * i + j" "nat (int i * 4 + int j) = 4 * i + j" for i j by linarith+
  have t: "take 1920 wb = slots_01 ?src" using wb(2,3) unfolding idx by (intro slots_01_eqI) simp_all
  have sz: "(min 7680 (int (length (contents rb))) = 7680) = (7680 \<le> length (contents rb))" by linarith
  have half: "(7680 :: int) div 2 = 3840" "nat 1920 = 1920" by simp_all
  have "ssa_rear_iter ready (d, l) =
      (let d1 = d\<lparr>dst_rbuf := Some rb'\<rparr>;
           (d2, out) = (if dst_pcm d1 \<and> 7680 \<le> length (contents rb)
                        then (d1\<lparr>dst_first_done := True\<rparr>, Some (take 1920 wb))
                        else (if \<not> dst_pcm d1 then d1\<lparr>dst_pcm := ready\<rparr> else d1, None));
           (d3, left) = rear_leave d2
       in Inr ((d3, ?l1\<lparr>lp_write_buf := wb\<rparr>), out, left))"
    unfolding ssa_rear_iter_def period_bytes_eq r(1) and_then_simps prod.case Let_def half wb(1) sz
    using played by simp
  then show ?thesis using r(2,3) wb(2) t by auto
qed

lemma slots_01_prefix: "3840 \<le> length xs \<Longrightarrow> slots_01 (take 3840 xs) = slots_01 xs"
  unfolding slots_01_def by (intro arg_cong [where f = concat] map_cong) auto

lemma slots_01_blit:
  assumes "length bs = 7680" and "7680 \<le> length tmp"
  shows "slots_01 (s16_of_bytes (blit tmp 0 bs)) = slots_01 (s16_of_bytes bs)"
proof -
  have "take (2 * 3840) (blit tmp 0 bs) = bs" using assms by (simp add: blit_def)
  then have "take 3840 (s16_of_bytes (blit tmp 0 bs)) = s16_of_bytes bs" by (metis s16_of_bytes_take)
  then show ?thesis using slots_01_prefix [of "s16_of_bytes (blit tmp 0 bs)"] assms by simp
qed

lemma rear_iter_plays:
  assumes "dst_rbuf d = Some rb" and "cb_ok rb" and l: "loop_ok l" and "5 \<le> lp_periods l" and "dst_pcm d" and "\<not> dst_hold d"
    and n: "7680 \<le> length (contents rb)"
  shows "\<exists>rb' l'. ssa_rear_iter ready (d, l) =
      Inr ((d\<lparr>dst_rbuf := Some rb', dst_first_done := True\<rparr>, l'), Some (slots_01 (s16_of_bytes (take 7680 (contents rb)))), False) \<and>
    cb_ok rb' \<and> contents rb' = drop 7680 (contents rb)"
proof -
  have "slots_01 (s16_of_bytes (blit (lp_tmp l) 0 (take 7680 (contents rb)))) = slots_01 (s16_of_bytes (take 7680 (contents rb)))"
    using l n by (intro slots_01_blit) (simp_all add: loop_ok_def)
  then show ?thesis using ssa_rear_iter_eq [OF assms(1-4), of ready] assms(5-7) by (auto simp: rear_leave_def)
qed

lemma ssa_rear_iter_ok:
  assumes "dst_ok d" and l: "loop_ok l"
  shows "\<exists>r. ssa_rear_iter ready (d, l) = Inr r \<and> iter_ok SSA_SRC_PRI_EP (d, l) r"
proof -
  obtain rb where rb: "dst_rbuf d = Some rb" "cb_ok rb" using assms(1) by (auto simp: dst_ok_def)
  let ?l1 = "l\<lparr>lp_tmp := blit (lp_tmp l) 0 (take 7680 (contents rb))\<rparr>"
  have l1: "loop_ok ?l1" by (rule loop_ok_read [OF _ l]) simp
  show ?thesis
  proof (cases "lp_periods l < 5")
    case True
    obtain rb' where r: "read_period 7680 (d, l) = Inr ((d\<lparr>dst_rbuf := Some rb'\<rparr>, ?l1), min 7680 (int (length (contents rb))))"
      "cb_ok rb'"
      using read_period_ok [OF rb l, of 7680] by auto
    show ?thesis
      using True loop_ok_mute [OF l1, of 7680] dst_ok_rbuf [OF r(2)]
      by (simp add: ssa_rear_iter_def period_bytes_eq r(1) iter_ok_def)
  next
    case False
    then have "5 \<le> lp_periods l" by simp
    from ssa_rear_iter_eq [OF rb l this, of ready] obtain rb' wb where e: "cb_ok rb'" "length wb = 8192"
      "ssa_rear_iter ready (d, l) =
      (let d1 = d\<lparr>dst_rbuf := Some rb'\<rparr>;
           (d2, out) = (if dst_pcm d1 \<and> 7680 \<le> length (contents rb)
                        then (d1\<lparr>dst_first_done := True\<rparr>, Some (take 1920 wb))
                        else (if \<not> dst_pcm d1 then d1\<lparr>dst_pcm := ready\<rparr> else d1, None));
           (d3, left) = rear_leave d2
       in Inr ((d3, ?l1\<lparr>lp_write_buf := wb\<rparr>), out, left))" by auto
    define p where "p = (let d1 = d\<lparr>dst_rbuf := Some rb'\<rparr>
      in if dst_pcm d1 \<and> 7680 \<le> length (contents rb) then (d1\<lparr>dst_first_done := True\<rparr>, Some (take 1920 wb))
         else (if \<not> dst_pcm d1 then d1\<lparr>dst_pcm := ready\<rparr> else d1, None))"
    obtain d2 left where le: "rear_leave (fst p) = (d2, left)" by fastforce
    have "ssa_rear_iter ready (d, l) = Inr ((d2, ?l1\<lparr>lp_write_buf := wb\<rparr>), snd p, left)"
      unfolding e(3) using le by (auto simp: p_def Let_def split: if_splits)
    moreover have p: "dst_ok (fst p)" "dst_hold (fst p) = dst_hold d"
      using e(1) by (simp_all add: p_def Let_def dst_ok_rbuf)
    moreover have "loop_ok (?l1\<lparr>lp_write_buf := wb\<rparr>)" using l1 e(2) by (simp add: loop_ok_def)
    ultimately show ?thesis using rear_leave_ok [OF p(1) le] False by (auto simp: iter_ok_def)
  qed
qed

lemma shr_iter_ok:
  assumes "dst_ok d" and "loop_ok l"
  shows "\<exists>r. shr_iter a ready (d, l) = Inr r \<and> iter_ok a (d, l) r"
  using ssa_rear_iter_ok [OF assms] ssa_main_iter_ok [OF assms] ssb_iter_ok [OF assms]
  by (cases a) (simp_all add: shr_iter_def ssb_rear_iter_def ssb_main_iter_def)

text \<open>
  The contract of a playback thread.  An iteration never fails and keeps the invariant and the request to
  hold; under that request it either leaves, with the sink closed, or uses up one of its muted periods.
\<close>

locale playback_thread =
  fixes iter :: "'s \<Rightarrow> c_error + 's \<times> 'o \<times> bool"
    and ok :: "'s \<Rightarrow> bool"
    and held :: "'s \<Rightarrow> bool"
    and muted :: "'s \<Rightarrow> nat"
    and closed :: "'s \<Rightarrow> bool"
  assumes progress: "ok s \<Longrightarrow> \<exists>s' out left. iter s = Inr (s', out, left) \<and> ok s' \<and> held s' = held s \<and>
      (left \<longrightarrow> held s) \<and> (held s \<longrightarrow> (if left then closed s' else muted s' < muted s))"
begin

lemma run_total:
  assumes "ok s"
  shows "\<exists>s' left. thread_run iter n s = Inr (s', left) \<and> ok s' \<and> held s' = held s"
  using assms
proof (induction n arbitrary: s)
  case 0
  then show ?case by (intro exI [of _ s] exI [of _ False]) simp
next
  case (Suc n)
  obtain s1 out left where i: "iter s = Inr (s1, out, left)" "ok s1" "held s1 = held s" using progress [OF Suc.prems] by blast
  show ?case using Suc.IH [OF i(2)] i by (cases left) auto
qed

lemma run_leaves:
  assumes "ok s" and "held s" and "muted s < n"
  shows "\<exists>s'. thread_run iter n s = Inr (s', True) \<and> ok s' \<and> closed s'"
  using assms
proof (induction n arbitrary: s)
  case (Suc n)
  obtain s1 out left where i: "iter s = Inr (s1, out, left)" "ok s1" "held s1 = held s"
    "held s \<longrightarrow> (if left then closed s1 else muted s1 < muted s)"
    using progress [OF Suc.prems(1)] by blast
  show ?case
  proof (cases left)
    case True
    then show ?thesis using i Suc.prems(2) by simp
  next
    case False
    then have "held s1" "muted s1 < n" using i(3,4) Suc.prems(2,3) by auto
    then show ?thesis using Suc.IH [OF i(2)] i(1) False by simp
  qed
qed simp

lemma run_unheld:
  assumes "ok s" and "\<not> held s"
  shows "\<exists>s'. thread_run iter n s = Inr (s', False) \<and> ok s'"
  using assms
proof (induction n arbitrary: s)
  case (Suc n)
  obtain s1 out left where i: "iter s = Inr (s1, out, left)" "ok s1" "held s1 = held s" "left \<longrightarrow> held s"
    using progress [OF Suc.prems(1)] by blast
  then have "\<not> left" "\<not> held s1" using Suc.prems(2) by auto
  then show ?case using Suc.IH [OF i(2)] i(1) by simp
qed simp

end

definition thread_ok :: "au_shr_dst \<times> loop_state \<Rightarrow> bool" where
  "thread_ok = (\<lambda>(d, l). dst_ok d \<and> loop_ok l)"

definition thread_muted :: "au_shr_addr \<Rightarrow> au_shr_dst \<times> loop_state \<Rightarrow> nat" where
  "thread_muted a = (\<lambda>(d, l). if a = SSA_SRC_PRI_EP then nat (5 - lp_periods l) else 0)"

definition thread_closed :: "au_shr_addr \<Rightarrow> au_shr_dst \<times> loop_state \<Rightarrow> bool" where
  "thread_closed a = (\<lambda>(d, l). \<not> (if a = SSA_SRC_SEC_EP then dst_pcm_hdl d else dst_pcm d) \<and>
     (\<exists>rb. dst_rbuf d = Some rb \<and> contents rb = []))"

interpretation pt: playback_thread "shr_iter a ready" thread_ok "dst_hold \<circ> fst" "thread_muted a" "thread_closed a" for a ready
proof
  fix s assume "thread_ok s"
  then obtain d l where s: "s = (d, l)" "dst_ok d" "loop_ok l" by (cases s) (auto simp: thread_ok_def)
  obtain d1 l1 out left where e: "shr_iter a ready (d, l) = Inr ((d1, l1), out, left)" and
    ok: "iter_ok a (d, l) ((d1, l1), out, left)"
    using shr_iter_ok [OF s(2,3)] by (metis prod.collapse)
  show "\<exists>s' out left. shr_iter a ready s = Inr (s', out, left) \<and> thread_ok s' \<and> (dst_hold \<circ> fst) s' = (dst_hold \<circ> fst) s \<and>
      (left \<longrightarrow> (dst_hold \<circ> fst) s) \<and>
      ((dst_hold \<circ> fst) s \<longrightarrow> (if left then thread_closed a s' else thread_muted a s' < thread_muted a s))"
    using e ok [unfolded iter_ok_def prod.case] s
    by (intro exI [of _ "(d1, l1)"] exI [of _ out] exI [of _ left])
      (auto simp: thread_ok_def thread_muted_def thread_closed_def split: if_splits)
qed

section \<open>The calls of the HAL\<close>

lemma greatest_index:
  fixes n :: nat
  assumes "\<exists>k. k < n \<and> Q k"
  shows "(GREATEST k. k < n \<and> Q k) < n \<and> Q (GREATEST k. k < n \<and> Q k)"
    and "k < n \<Longrightarrow> Q k \<Longrightarrow> k \<le> (GREATEST k. k < n \<and> Q k)"
proof -
  obtain k0 where "k0 < n \<and> Q k0" using assms by blast
  then show "(GREATEST k. k < n \<and> Q k) < n \<and> Q (GREATEST k. k < n \<and> Q k)"
    by (rule GreatestI_nat [where b = n]) simp
  show "k \<le> (GREATEST k. k < n \<and> Q k)" if "k < n" "Q k"
    using that by (intro Greatest_le_nat [where b = n]) simp_all
qed

lemma get_src_loop_eq:
  "get_src_loop i ss acc =
     (if \<exists>k<length ss. \<not> src_allocated (ss ! k)
      then Some (i + (GREATEST k. k < length ss \<and> \<not> src_allocated (ss ! k))) else acc)"
proof (induction ss arbitrary: i acc)
  case (Cons s ss)
  let ?P = "\<lambda>xs k. k < length xs \<and> \<not> src_allocated (xs ! k)"
  show ?case
  proof (cases "\<exists>k. ?P ss k")
    case True
    note g = greatest_index [OF True]
    have "(GREATEST k. ?P (s # ss) k) = Suc (GREATEST k. ?P ss k)"
    proof (rule Greatest_equality)
      show "?P (s # ss) (Suc (GREATEST k. ?P ss k))" using g(1) by simp
    next
      fix k assume "?P (s # ss) k"
      then show "k \<le> Suc (GREATEST k. ?P ss k)" using g(2) [of "k - 1"] by (cases k) simp_all
    qed
    moreover have "\<exists>k. ?P (s # ss) k" using True by (metis Suc_less_eq length_Cons nth_Cons_Suc)
    ultimately show ?thesis using Cons True by simp
  next
    case False
    then have none: "?P (s # ss) k \<longleftrightarrow> k = 0 \<and> \<not> src_allocated s" for k by (cases k) auto
    have "(GREATEST k. k = (0 :: nat)) = 0" by (rule Greatest_equality) simp_all
    then show ?thesis using Cons False unfolding none by auto
  qed
qed simp

lemma get_src_spec:
  assumes "au_sharing_get_src g bus_num channels = (g', r)"
  shows "case r of None \<Rightarrow> g' = g \<and> (\<forall>s\<in>set (shr_srcs g). src_allocated s)
    | Some i \<Rightarrow> i < length (shr_srcs g) \<and> \<not> src_allocated (shr_srcs g ! i) \<and>
        (\<forall>k<length (shr_srcs g). i < k \<longrightarrow> src_allocated (shr_srcs g ! k)) \<and>
        shr_dsts g' = shr_dsts g \<and>
        shr_srcs g' = (shr_srcs g)[i := (shr_srcs g ! i)\<lparr>src_bus_num := bus_num, src_channels := channels,
          src_duplicate := False, src_allocated := True\<rparr>]"
proof -
  let ?P = "\<lambda>k. k < length (shr_srcs g) \<and> \<not> src_allocated (shr_srcs g ! k)"
  note eq = get_src_loop_eq [of 0 "shr_srcs g" None]
  show ?thesis
  proof (cases "\<exists>k. ?P k")
    case True
    define i where "i = (GREATEST k. ?P k)"
    have i: "?P i" "\<forall>k. ?P k \<longrightarrow> k \<le> i" using greatest_index [OF True] by (auto simp: i_def)
    have "get_src_loop 0 (shr_srcs g) None = Some i" using eq True by (simp add: i_def)
    then have "r = Some i" "g' = set_src g i ((shr_srcs g ! i)\<lparr>src_bus_num := bus_num, src_channels := channels,
        src_duplicate := False, src_allocated := True\<rparr>)"
      using assms by (simp_all add: au_sharing_get_src_def)
    then show ?thesis using i by (auto simp: set_src_def dest: leD)
  next
    case False
    then have "get_src_loop 0 (shr_srcs g) None = None" unfolding eq by (simp only: if_False)
    then have "r = None" "g' = g" using assms by (simp_all add: au_sharing_get_src_def)
    then show ?thesis using False by (auto simp: all_set_conv_all_nth)
  qed
qed

lemma get_src_ok: "g_ok g \<Longrightarrow> au_sharing_get_src g bus_num channels = (g', r) \<Longrightarrow> g_ok g'"
  by (auto simp: au_sharing_get_src_def g_ok_set_src split: option.splits)

lemma close_dst_ok: "g_ok g \<Longrightarrow> au_sharing_close_dst g i = (g', r) \<Longrightarrow> g_ok g'"
  using g_ok_dst [of g] by (auto simp: au_sharing_close_dst_def Let_def intro!: g_ok_set_dst split: if_splits)

lemma release_src_ok: "g_ok g \<Longrightarrow> au_sharing_release_src g i = (g', r) \<Longrightarrow> g_ok g'"
  unfolding au_sharing_release_src_def by (rule close_dst_ok [OF g_ok_set_src])

lemma duplicate_update_ok: "g_ok g \<Longrightarrow> g_ok (au_sharing_duplicate_update g i target direct enable)"
  using g_ok_dst [of g]
  by (auto simp: au_sharing_duplicate_update_def stop_ne_sharing_stream_def Let_def intro!: g_ok_set_dst g_ok_set_src)

text \<open>The bytes that reach the ring buffer of a sink: the source with the gain applied to every sample.\<close>

definition gained :: "(rat \<Rightarrow> rat \<Rightarrow> rat) \<Rightarrow> rat \<Rightarrow> byte list \<Rightarrow> byte list" where
  "gained fmul ratio bs = concat (map bytes_of_s16 (map (CAL_SW_GAIN_16 fmul ratio) (s16_of_bytes bs)))"

lemma gain_bytes_eq:
  assumes "n \<le> length buffer"
  shows "\<exists>w. gain_bytes fmul ratio buffer n = Inr w \<and> length w = length buffer \<and>
    (even n \<longrightarrow> 0 \<le> ratio \<longrightarrow> take n w = gained fmul ratio (take n buffer))"
proof -
  define k where "k = n div 2"
  have k: "k \<le> length buffer div 2" unfolding k_def using assms by (rule div_le_mono)
  let ?S = "s16_of_bytes buffer"
  define xs where "xs = (if ratio < 0 then ?S else map (CAL_SW_GAIN_16 fmul ratio) (take k ?S) @ drop k ?S)"
  have len: "length xs = length buffer div 2" using k by (simp add: xs_def)
  have g: "audio_extra_sw_gain_16 fmul ratio ?S n = Inr xs"
    using k by (simp add: audio_extra_sw_gain_16_def xs_def k_def Let_def)
  have "take n (concat (map bytes_of_s16 xs) @ drop (2 * length xs) buffer) = gained fmul ratio (take n buffer)"
    if "even n" "0 \<le> ratio"
  proof -
    have n: "n = 2 * k" using that(1) by (simp add: k_def)
    show ?thesis using that(2) k length_concat_bytes [of "map (CAL_SW_GAIN_16 fmul ratio) (take k ?S)"]
      by (simp add: xs_def n gained_def s16_of_bytes_take)
  qed
  then show ?thesis using len by (simp add: gain_bytes_def g)
qed

lemma copy_buf_eq:
  assumes "amplitude bus = Some ratio" and "0 \<le> len" and "len \<le> int (length write_buf)" and "len \<le> int (length source)"
  shows "\<exists>w. copy_buf_and_apply_volume fmul amplitude write_buf source len bus = Inr w \<and> length w = length write_buf \<and>
    (even len \<longrightarrow> 0 \<le> ratio \<longrightarrow> take (nat len) w = gained fmul ratio (take (nat len) source))"
proof -
  let ?b = "blit write_buf 0 (window source 0 (nat len))"
  have m: "memcpy write_buf 0 source 0 len = Inr ?b" using memcpy_ok [of len 0 0 write_buf source] assms by simp
  have w: "window source 0 (nat len) = take (nat len) source" by (simp add: window_def)
  have lb: "length ?b = length write_buf" using assms by (simp add: w)
  have "nat len \<le> length ?b" using assms(3) lb by linarith
  moreover have "take (nat len) ?b = take (nat len) source" using assms by (simp add: w blit_def)
  ultimately show ?thesis
    using gain_bytes_eq [of "nat len" ?b fmul ratio] lb assms(1,2)
    by (auto simp: copy_buf_and_apply_volume_def get_amplitude_ratio_def m even_nat_iff)
qed

lemma rbuf_write_async_eq:
  assumes "cb_ok rb" and "0 \<le> len" and "len \<le> 2147483647" and "len \<le> int (length w)"
  shows "\<exists>rb'. rbuf_write_async (Some rb) w len = Inr (Some rb', 0) \<and> cb_ok rb' \<and>
    contents rb' = contents rb @ take (nat (rb_size rb) - length (contents rb)) (take (nat len) w)"
proof (cases "len = 0")
  case True
  then show ?thesis using assms(1) by (simp add: rbuf_write_async_def audio_circlebuf_write_def s32_def)
next
  case False
  have ok: "rb_ok rb" "\<not> rb_lock rb" "\<not> rb_over_write rb" using assms(1) by (simp_all add: cb_ok_def)
  let ?n = "min len (rb_size rb - rb_used rb)"
  obtain rb' where r: "audio_circlebuf_write (Some rb) (Some w) len = Inr (Some rb', ?n)" "rb_ok rb'" "\<not> rb_lock rb'"
    "contents rb' = contents rb @ take (nat ?n) w" "rb_over_write rb' = rb_over_write rb"
    using write_plain [OF ok(1,2), of len w] ok(3) False assms by auto
  have "nat ?n = min (nat (rb_size rb) - length (contents rb)) (nat len)"
    using length_contents [OF ok(1)] ok(1) assms(2) by (simp add: rb_ok_def min_def) linarith
  then have "take (nat ?n) w = take (nat (rb_size rb) - length (contents rb)) (take (nat len) w)" by simp
  moreover have "s32 len = len" using assms(2,3) by (intro s32_id) simp_all
  ultimately show ?thesis using r ok(3) by (simp add: rbuf_write_async_def cb_ok_def)
qed

lemma addr_index_inj: "addr_index a = addr_index b \<longleftrightarrow> a = b"
  by (cases a; cases b) simp_all

lemma dst_at_set_dst: "g_ok g \<Longrightarrow> dst_at (set_dst g a d) b = (if a = b then d else dst_at g b)"
  by (simp add: dst_at_def set_dst_def g_ok_def nth_list_update addr_index_inj)

lemma update_keeps_rbuf:
  "g_ok g \<Longrightarrow> dst_rbuf (dst_at (au_sharing_duplicate_update g i target direct enable) a) = dst_rbuf (dst_at g a)"
  by (simp add: au_sharing_duplicate_update_def stop_ne_sharing_stream_def Let_def dst_at_set_dst g_ok_set_src)

text \<open>A mirrored write: the sink gets the amplified bytes that fit, in order, after what it holds.\<close>

lemma duplicate_mirror:
  fixes i :: nat
  assumes g: "g_ok g" and wb: "length write_buf = 16384" and len: "0 \<le> len" "len \<le> 16384" "len \<le> int (length buf)"
    and mir: "dup_action_of location direct = Mirror bus" "amplitude bus = Some ratio"
  defines "g1 \<equiv> au_sharing_duplicate_update g i location direct (direct \<noteq> MIRROR_CLOSE)"
  assumes dup: "src_duplicate (shr_srcs g1 ! i)"
  defines "sink \<equiv> src_dup_sink (shr_srcs g1 ! i)"
  shows "\<exists>g2 rb rb'. au_sharing_duplicate fmul amplitude card_id write_buf g i buf len location direct = Inr (g2, None) \<and>
    g_ok g2 \<and> dst_rbuf (dst_at g sink) = Some rb \<and> dst_rbuf (dst_at g2 sink) = Some rb' \<and>
    (even len \<longrightarrow> 0 \<le> ratio \<longrightarrow>
      contents rb' = contents rb @ take (nat (rb_size rb) - length (contents rb)) (gained fmul ratio (take (nat len) buf)))"
proof -
  have g1: "g_ok g1" unfolding g1_def using g by (rule duplicate_update_ok)
  obtain rb where rb: "dst_rbuf (dst_at g1 sink) = Some rb" "cb_ok rb" using g_ok_dst [OF g1, of sink] by (auto simp: dst_ok_def)
  have rb0: "dst_rbuf (dst_at g sink) = Some rb" using rb(1) update_keeps_rbuf [OF g] by (simp add: g1_def)
  obtain w where w: "copy_buf_and_apply_volume fmul amplitude write_buf buf len bus = Inr w" "length w = 16384"
    "even len \<longrightarrow> 0 \<le> ratio \<longrightarrow> take (nat len) w = gained fmul ratio (take (nat len) buf)"
    using copy_buf_eq [of amplitude bus ratio len write_buf buf fmul] mir(2) wb len by auto
  obtain rb' where rb': "rbuf_write_async (Some rb) w len = Inr (Some rb', 0)" "cb_ok rb'"
    "contents rb' = contents rb @ take (nat (rb_size rb) - length (contents rb)) (take (nat len) w)"
    using rbuf_write_async_eq [OF rb(2) len(1), of w] len w(2) by auto
  let ?g2 = "set_dst g1 sink ((dst_at g1 sink)\<lparr>dst_rbuf := Some rb'\<rparr>)"
  have run: "au_sharing_duplicate fmul amplitude card_id write_buf g i buf len location direct = Inr (?g2, None)"
    using dup mir(1) w(1) rb'(1) rb(1)
    by (simp add: au_sharing_duplicate_def Let_def g1_def [symmetric] sink_def [symmetric])
  have "g_ok ?g2" by (rule g_ok_set_dst [OF g1 dst_ok_rbuf [OF rb'(2)]])
  moreover have "contents rb' = contents rb @ take (nat (rb_size rb) - length (contents rb)) (gained fmul ratio (take (nat len) buf))"
    if "even len" "0 \<le> ratio"
    using rb'(3) w(3) that by (simp only: mp)
  moreover have "dst_rbuf (dst_at ?g2 sink) = Some rb'" by (simp add: dst_at_set_dst [OF g1])
  ultimately show ?thesis using run rb0 by blast
qed

lemma vi2s_write_ok:
  assumes "dst_ok d" and "0 \<le> card_id"
  shows "\<exists>d'. virtual_i2s_sync_write card_id d x = Inr (d', x) \<and> dst_ok d'"
  using assms by (simp add: virtual_i2s_sync_write_def start_ne_sharing_stream_def Let_def)

definition buses_registered :: "(string \<Rightarrow> rat option) \<Rightarrow> bool" where
  "buses_registered amplitude \<longleftrightarrow>
     (\<forall>b\<in>{''bus0_media_out'', ''bus100_rear_seat1'', ''bus101_rear_seat'', ''bus102_rear_seat''}. amplitude b \<noteq> None)"

lemma dup_action_bus: "dup_action_of location direct = Mirror bus \<Longrightarrow> buses_registered amplitude \<Longrightarrow> \<exists>r. amplitude bus = Some r"
  by (induction location direct rule: dup_action_of.induct) (auto simp: buses_registered_def)

lemma duplicate_total:
  assumes g: "g_ok g" and wb: "length write_buf = 16384" and len: "0 \<le> len" "len \<le> 16384" "len \<le> int (length buf)"
    and env: "buses_registered amplitude" "0 \<le> card_id"
  shows "\<exists>g2 out. au_sharing_duplicate fmul amplitude card_id write_buf g i buf len location direct = Inr (g2, out) \<and> g_ok g2"
proof -
  define g1 where "g1 = au_sharing_duplicate_update g i location direct (direct \<noteq> MIRROR_CLOSE)"
  define sink where "sink = src_dup_sink (shr_srcs g1 ! i)"
  note eq = au_sharing_duplicate_def [of fmul amplitude card_id write_buf g i buf len location direct, unfolded Let_def,
    folded g1_def, folded sink_def]
  have g1: "g_ok g1" unfolding g1_def using g by (rule duplicate_update_ok)
  note d1 = g_ok_dst [OF g1, of sink]
  show ?thesis
  proof (cases "src_duplicate (shr_srcs g1 ! i)")
    case False
    then show ?thesis using g1 by (simp add: eq)
  next
    case True
    show ?thesis
    proof (cases "dup_action_of location direct")
      case (Mirror bus)
      then obtain r where "amplitude bus = Some r" using dup_action_bus env(1) by blast
      then show ?thesis using duplicate_mirror [OF g wb len Mirror _ True [unfolded g1_def]] by blast
    next
      case Send_vi2s
      obtain d' where "virtual_i2s_sync_write card_id (dst_at g1 sink) (s16_of_bytes (take (nat len) buf)) =
          Inr (d', s16_of_bytes (take (nat len) buf))" "dst_ok d'"
        using vi2s_write_ok [OF d1 env(2), of "s16_of_bytes (take (nat len) buf)"] by auto
      then show ?thesis using True Send_vi2s g1 by (simp add: eq g_ok_set_dst)
    next
      case Select_vi2s
      have "len div 2 \<le> int (length buf) div 2" using len(3) by (rule zdiv_mono1) simp
      then have b: "len div 2 \<le> int (length (s16_of_bytes buf))" by (simp add: zdiv_int)
      have "len div 2 div 4 \<le> 16384 div 2 div 4" using len(2) by (intro zdiv_mono1) simp_all
      then have c: "len div 2 div 4 * 2 \<le> int (length (s16_of_bytes write_buf))" using wb by simp
      have "0 \<le> len div 2" using len(1) by simp
      then obtain w n where w: "audio_extra_select_slot_16 (s16_of_bytes write_buf) 2 (s16_of_bytes buf) 4 (len div 2) = Inr (w, n)"
        using select_slot_frames [OF _ _ _ _ b c] by auto
      obtain d' where "virtual_i2s_sync_write card_id (dst_at g1 sink) (take (nat n) w) = Inr (d', take (nat n) w)" "dst_ok d'"
        using vi2s_write_ok [OF d1 env(2), of "take (nat n) w"] by auto
      then show ?thesis using True Select_vi2s w g1 by (simp add: eq g_ok_set_dst)
    next
      case No_action
      then show ?thesis using True g1 by (simp add: eq)
    qed
  qed
qed

text \<open>A mirrored write longer than the local array overruns it.\<close>

lemma duplicate_overrun:
  fixes i :: nat
  assumes "length write_buf = 16384" and "16384 < len" and "dup_action_of location direct = Mirror bus"
    and "amplitude bus \<noteq> None"
    and "src_duplicate (shr_srcs (au_sharing_duplicate_update g i location direct (direct \<noteq> MIRROR_CLOSE)) ! i)"
  shows "au_sharing_duplicate fmul amplitude card_id write_buf g i buf len location direct = Inl Bad_access"
proof -
  have "copy_buf_and_apply_volume fmul amplitude write_buf buf len bus = Inl Bad_access"
    using assms(1,2,4) by (auto simp: copy_buf_and_apply_volume_def get_amplitude_ratio_def memcpy_def)
  then show ?thesis using assms(3,5) by (simp add: au_sharing_duplicate_def Let_def)
qed

lemma vi2s_keeps_ok: "dst_ok d \<Longrightarrow> virtual_i2s_sync_write card_id d x = Inr (d', y) \<Longrightarrow> dst_ok d'"
  by (auto simp: virtual_i2s_sync_write_def start_ne_sharing_stream_def Let_def split: if_splits)

lemma duplicate_ok:
  assumes g: "g_ok g" and wb: "length write_buf = 16384" and len: "0 \<le> len" "len \<le> int (length buf)"
    and run: "au_sharing_duplicate fmul amplitude card_id write_buf g i buf len location direct = Inr (g2, out)"
  shows "g_ok g2"
proof -
  define g1 where "g1 = au_sharing_duplicate_update g i location direct (direct \<noteq> MIRROR_CLOSE)"
  define sink where "sink = src_dup_sink (shr_srcs g1 ! i)"
  note eq = run [unfolded au_sharing_duplicate_def Let_def, folded g1_def, folded sink_def]
  have g1: "g_ok g1" unfolding g1_def using g by (rule duplicate_update_ok)
  note d1 = g_ok_dst [OF g1, of sink]
  show ?thesis
  proof (cases "src_duplicate (shr_srcs g1 ! i)")
    case True
    show ?thesis
    proof (cases "dup_action_of location direct")
      case (Mirror bus)
      have "amplitude bus \<noteq> None"
        using eq True Mirror by (cases "amplitude bus") (auto simp: copy_buf_and_apply_volume_def get_amplitude_ratio_def)
      then obtain r where r: "amplitude bus = Some r" by blast
      have "len \<le> 16384"
        using duplicate_overrun [OF wb _ Mirror, of len amplitude g i fmul card_id buf] run r True by (force simp: g1_def)
      then show ?thesis using duplicate_mirror [of g write_buf len buf location direct bus amplitude r i fmul card_id]
        g wb len Mirror r True run by (auto simp: g1_def)
    next
      case Send_vi2s
      then show ?thesis using eq True g_ok_set_dst [OF g1 vi2s_keeps_ok [OF d1]]
        by (auto simp: and_then_def split: sum.splits prod.splits)
    next
      case Select_vi2s
      then show ?thesis using eq True g_ok_set_dst [OF g1 vi2s_keeps_ok [OF d1]]
        by (auto simp: and_then_def split: sum.splits prod.splits)
    qed (use eq True g1 in simp)
  qed (use eq g1 in simp)
qed

section \<open>Every interleaving keeps the invariant\<close>

lemma sys_ok_set_thread:
  "sys_ok s \<Longrightarrow> dst_ok d \<Longrightarrow> loop_ok l \<Longrightarrow> sys_ok (set_thread s a (d, l) b)"
  by (auto simp: sys_ok_def set_thread_def g_ok_set_dst dest: set_mem_update)

lemma sys_ok_parts: "sys_ok s \<Longrightarrow> dst_ok (dst_at (sys_g s) a)" "sys_ok s \<Longrightarrow> loop_ok (sys_loops s ! addr_index a)"
  by (simp_all add: sys_ok_def g_ok_dst)

lemma sys_ok_g: "sys_ok s \<Longrightarrow> g_ok g \<Longrightarrow> sys_ok (s\<lparr>sys_g := g\<rparr>)"
  by (simp add: sys_ok_def)

lemma wake_ok:
  "dst_ok d \<Longrightarrow> loop_ok l \<Longrightarrow> shr_wake a ready (d, l) = (d', l') \<Longrightarrow> dst_ok d' \<and> loop_ok l'"
  by (auto simp: shr_wake_def main_wake_def rear_wake_def Let_def loop_ok_def split: au_shr_addr.splits if_splits)

lemma shr_step_ok: "shr_step fmul amplitude card_id s s' \<Longrightarrow> sys_ok s \<Longrightarrow> sys_ok s'"
proof (induction rule: shr_step.induct)
  case (wake s a d ready)
  obtain d' l' where e: "shr_wake a ready (d\<lparr>dst_sem := dst_sem d - 1\<rparr>, sys_loops s ! addr_index a) = (d', l')" by fastforce
  have "dst_ok d'" "loop_ok l'" using wake_ok [OF _ _ e] sys_ok_parts [OF wake.prems] wake(3) by simp_all
  then show ?case using sys_ok_set_thread [OF wake.prems] by (simp add: e)
next
  case (iter s a ready t out left)
  obtain d' l' where t: "t = (d', l')" by fastforce
  have "dst_ok d' \<and> loop_ok l'"
    using iter(2) shr_iter_ok [OF sys_ok_parts(1) [OF iter.prems, of a] sys_ok_parts(2) [OF iter.prems, of a], of a ready]
    by (auto simp: iter_ok_def t)
  then show ?case using sys_ok_set_thread [OF iter.prems] by (simp add: t)
qed (auto simp: sys_ok_def intro: sys_ok_g get_src_ok release_src_ok duplicate_ok)

lemma shr_steps_ok: "(shr_step fmul amplitude card_id)\<^sup>*\<^sup>* s s' \<Longrightarrow> sys_ok s \<Longrightarrow> sys_ok s'"
  by (induction rule: rtranclp_induct) (auto intro: shr_step_ok)

text \<open>
  The reference count.  Closing one source puts the sink on hold, whatever the count; a count that is not
  zero keeps a sink on hold when the next source opens it.
\<close>

lemma close_dup_holds:
  fixes i :: nat and target :: au_shr_addr and direct :: mirror_direct
  assumes "g_ok g" and "i < 4" and "src_duplicate (shr_srcs g ! i)" and "\<not> dst_pcm_vi2s (dst_at g (src_dup_sink (shr_srcs g ! i)))"
  defines "a \<equiv> src_dup_sink (shr_srcs g ! i)"
  defines "g' \<equiv> au_sharing_duplicate_update g i target direct False"
  shows "dst_hold (dst_at g' a)" and "dst_ref_cnt (dst_at g' a) = dst_ref_cnt (dst_at g a) - 1"
    and "\<not> src_duplicate (shr_srcs g' ! i)"
  using assms g_ok_set_src [OF assms(1)]
  by (simp_all add: au_sharing_duplicate_update_def Let_def dst_at_set_dst set_dst_def set_src_def g_ok_def dst_at_def)

lemma open_dup:
  fixes i :: nat and a :: au_shr_addr
  assumes "g_ok g" and "i < 4" and "\<not> src_duplicate (shr_srcs g ! i)" and "mirror_matches direct (src_bus_num (shr_srcs g ! i))"
  defines "g' \<equiv> au_sharing_duplicate_update g i a direct True"
  shows "dst_ref_cnt (dst_at g' a) = dst_ref_cnt (dst_at g a) + 1"
    and "dst_hold (dst_at g' a) = (dst_hold (dst_at g a) \<and> dst_ref_cnt (dst_at g a) \<noteq> 0)"
    and "dst_sem (dst_at g' a) = dst_sem (dst_at g a) + (if dst_ref_cnt (dst_at g a) = 0 then 1 else 0)"
    and "src_duplicate (shr_srcs g' ! i)"
  using assms by (simp_all add: au_sharing_duplicate_update_def Let_def dst_at_set_dst) (simp add: set_dst_def set_src_def g_ok_def)

text \<open>The state after the initialisation.\<close>

lemma init_ok:
  assumes "length (shr_dsts g) = 4" and "length (shr_srcs g) = 4" and "\<And>ch. ch \<in> {2, 4} \<Longrightarrow> \<exists>rb. rbuf ch = Some rb \<and> cb_ok rb"
  shows "g_ok (au_sharing_init rbuf g)"
proof -
  have "length (map2 (init_dst rbuf) as (shr_dsts g)) = min (length as) 4" for as using assms(1) by simp
  moreover have "dst_ok (init_dst rbuf a d)" for a d
    using assms(3) [of "dst_channels a"] by (cases a) (simp_all add: init_dst_def dst_ok_def dst_channels_def)
  ultimately show ?thesis using assms(1,2) by (auto simp: au_sharing_init_def dsts_init_def g_ok_def)
qed

lemma create_pcm_ok:
  assumes "audio_circlebuf_create_pcm bits calloc malloc ch fmt rate periods = Some rb"
    and "\<And>n mem. malloc n = Some mem \<Longrightarrow> 0 < n \<and> int (length mem) = n"
  shows "cb_ok rb \<and> contents rb = []"
  using assms(1) by (auto simp: audio_circlebuf_create_pcm_def Let_def cb_ok_def rb_ok_def contents_def
      dest: assms(2) split: if_splits option.splits)

end
