(* ===== verification/Hal_Properties.thy ===== *)
theory Hal_Properties
  imports Audio_Sharing
begin

text \<open>
  The properties of the audio HAL: the ring buffer, the sample helpers, and the sharing of streams
  between sound cards.  They rest on the interpretations \<open>cb\<close> of \<open>byte_fifo\<close> and \<open>pt\<close> of
  \<open>playback_thread\<close> and on the lemmas of the component theories.
\<close>

section \<open>Concrete instances for the witnesses\<close>

definition host_malloc :: "int \<Rightarrow> byte list option" where
  "host_malloc n = (if 0 < n then Some (replicate (nat n) 0) else None)"

definition small_ring :: circlebuf where
  "small_ring = the (audio_circlebuf_create True host_malloc 4)"

lemma small_ring_ok: "cb_ok small_ring" "contents small_ring = []" "rb_size small_ring = 4"
proof -
  have "audio_circlebuf_create True host_malloc 4 = Some small_ring"
    by (simp add: small_ring_def audio_circlebuf_create_def host_malloc_def)
  note c = create_ok [OF this]
  have "\<And>n mem. host_malloc n = Some mem \<Longrightarrow> 0 < n \<and> int (length mem) = n"
    by (auto simp: host_malloc_def split: if_splits)
  then show "cb_ok small_ring" "contents small_ring = []" "rb_size small_ring = 4" using c by (simp_all add: cb_ok_def)
qed

definition pcm_ring :: "int \<Rightarrow> circlebuf option" where
  "pcm_ring ch = audio_circlebuf_create_pcm (\<lambda>f. 16) True host_malloc ch 0 48000 3"

text \<open>The global state of \<open>audio_sharing.c\<close> before and after \<open>au_sharing_init\<close>.\<close>

definition blank_dst :: au_shr_dst where
  "blank_dst = \<lparr>dst_rbuf = None, dst_sem = 0, dst_pcm_hdl = False, dst_pcm_vi2s = False, dst_pcm = False,
     dst_hold = False, dst_ref_cnt = 0, dst_first_done = False, dst_addr = 0\<rparr>"

definition blank_src :: au_shr_src where
  "blank_src = \<lparr>src_bus_num = 0, src_channels = 0, src_dup_sink = SSA_SRC_PRI_EP, src_duplicate = False, src_allocated = False\<rparr>"

definition shared_g :: au_sharing where
  "shared_g = au_sharing_init pcm_ring \<lparr>shr_dsts = replicate 4 blank_dst, shr_srcs = replicate 4 blank_src\<rparr>"

definition blank_loop :: loop_state where
  "blank_loop = \<lparr>lp_tmp = replicate 16384 0, lp_write_buf = replicate 8192 0, lp_periods = 5\<rparr>"

definition shared_sys :: shr_sys where
  "shared_sys = \<lparr>sys_g = shared_g, sys_loops = replicate 4 blank_loop, sys_awake = replicate 4 False\<rparr>"

lemma host_malloc_ok: "host_malloc n = Some mem \<Longrightarrow> 0 < n \<and> int (length mem) = n"
  by (auto simp: host_malloc_def split: if_splits)

lemma pcm_ring_ok:
  assumes "ch \<in> {2, 4}"
  shows "\<exists>rb. pcm_ring ch = Some rb \<and> cb_ok rb \<and> contents rb = [] \<and> rb_size rb = 5760 * ch"
proof -
  have "MIX_THRESHOLD_BYTES_BY_RATE (\<lambda>f. 16) ch 0 48000 = 1920 * ch"
    using assms by (auto simp: MIX_THRESHOLD_BYTES_BY_RATE_def OUT_PERIOD_MS_def u32_def shr_def)
  then have "\<exists>rb. pcm_ring ch = Some rb \<and> rb_size rb = 5760 * ch"
    using assms by (auto simp: pcm_ring_def audio_circlebuf_create_pcm_def host_malloc_def u32_def s32_def Let_def)
  then show ?thesis using create_pcm_ok [OF _ host_malloc_ok] unfolding pcm_ring_def by blast
qed

lemma shared_g_ok: "g_ok shared_g"
  unfolding shared_g_def using pcm_ring_ok by (intro init_ok) (simp_all, blast+)

lemma blank_loop_ok: "loop_ok blank_loop"
  by (simp add: blank_loop_def loop_ok_def)

lemma shared_sys_ok: "sys_ok shared_sys"
  by (simp add: sys_ok_def shared_sys_def shared_g_ok blank_loop_ok)

lemma shared_g_srcs: "i < 4 \<Longrightarrow> shr_srcs shared_g ! i = blank_src"
  by (simp add: shared_g_def au_sharing_init_def dsts_init_def blank_src_def)

lemma shared_g_dst: "\<exists>rb. dst_at shared_g a = blank_dst\<lparr>dst_hold := True, dst_addr := addr_index a, dst_rbuf := Some rb\<rparr> \<and>
    cb_ok rb \<and> contents rb = [] \<and> rb_size rb = 5760 * dst_channels a"
proof -
  obtain rb where "pcm_ring (dst_channels a) = Some rb \<and> cb_ok rb \<and> contents rb = [] \<and> rb_size rb = 5760 * dst_channels a"
    using pcm_ring_ok [of "dst_channels a"] by (cases a) (auto simp: dst_channels_def)
  then show ?thesis
    by (intro exI [of _ rb], cases a)
      (simp_all add: dst_at_def shared_g_def au_sharing_init_def dsts_init_def init_dst_def blank_dst_def numeral_eq_Suc dst_channels_def)
qed

section \<open>The ring buffer\<close>

text \<open>
  C36.  The ring buffer is a queue.  In its default mode, after any sequence of writes and reads the bytes
  delivered, followed by the bytes it holds, are the bytes it held at first followed by the bytes it
  accepted; the invariant and the capacity are kept.
\<close>

theorem ring_is_fifo:
  assumes "cb_ok rb" and "fifo_run cb_put cb_get rb ops = (rb', accepted, delivered)"
  shows "cb_ok rb' \<and> rb_size rb' = rb_size rb \<and> contents rb @ accepted = delivered @ contents rb'"
proof -
  have r: "cb_ok rb'" "nat (rb_size rb') = nat (rb_size rb)" "contents rb @ accepted = delivered @ contents rb'"
    using cb.run_in_order [OF assms] by blast+
  have "0 < rb_size rb" "0 < rb_size rb'" using assms(1) r(1) by (simp_all add: cb_ok_def rb_ok_def)
  then show ?thesis using r by simp
qed

theorem ring_is_fifo_witness:
  "let (rb', accepted, delivered) = fifo_run cb_put cb_get small_ring [Put [1, 2, 3], Get 2, Put [4, 5, 6], Get 9]
   in accepted = delivered @ contents rb'"
proof -
  obtain rb' acc del where r: "fifo_run cb_put cb_get small_ring [Put [1, 2, 3], Get 2, Put [4, 5, 6], Get 9] = (rb', acc, del)"
    by (rule prod_cases3)
  show ?thesis using ring_is_fifo [OF small_ring_ok(1) r] by (simp only: r small_ring_ok(2) Let_def prod.case append_Nil)
qed

text \<open>
  One write and one read.  A write stores what fits and returns how much that is; a read returns
  the oldest bytes, at most as many as asked for, and leaves the rest.  Neither touches memory outside
  the two arrays, also when the data wraps around the end of the buffer.
\<close>

lemma ring_write_then_read:
  assumes "rb_ok rb" and "\<not> rb_lock rb" and "\<not> rb_over_write rb" and "0 < len" and "len \<le> int (length inp)"
    and "0 \<le> n" and "n \<le> int (length out)"
  defines "stored \<equiv> min len (rb_size rb - rb_used rb)"
  shows "\<exists>rb1 rb2 k. audio_circlebuf_write (Some rb) (Some inp) len = Inr (Some rb1, stored) \<and>
    audio_circlebuf_read (Some rb1) out 0 n =
      Inr (Some rb2, blit out 0 (take (nat n) (contents rb @ take (nat stored) inp)), k) \<and>
    k = min n (rb_used rb + stored) \<and> rb_ok rb2 \<and> \<not> rb_lock rb2 \<and>
    contents rb2 = drop (nat n) (contents rb @ take (nat stored) inp)"
proof -
  obtain rb1 where w: "audio_circlebuf_write (Some rb) (Some inp) len = Inr (Some rb1, stored)" "rb_ok rb1" "\<not> rb_lock rb1"
    "contents rb1 = contents rb @ take (nat stored) inp" "rb_used rb1 = rb_used rb + stored"
    using write_plain [OF assms(1,2,4,5)] assms(3) by (auto simp: stored_def)
  have room: "0 + min n (rb_used rb1) \<le> int (length out)" using assms(7) by simp
  have u: "rb_used rb1 = int (length (contents rb1))" using length_contents [OF w(2)] by simp
  have "take (nat (min n (rb_used rb1))) (contents rb1) = take (nat n) (contents rb1)"
    "drop (nat (min n (rb_used rb1))) (contents rb1) = drop (nat n) (contents rb1)"
    using u by (auto simp: min_def)
  then obtain rb2 where "audio_circlebuf_read (Some rb1) out 0 n =
      Inr (Some rb2, blit out 0 (take (nat n) (contents rb1)), min n (rb_used rb1))" "rb_ok rb2" "\<not> rb_lock rb2"
    "contents rb2 = drop (nat n) (contents rb1)"
    using audio_circlebuf_read_eq [OF w(2,3) assms(6) _ room] by auto
  then show ?thesis using w by auto
qed

text \<open>
  In overwrite mode a write that does not fit keeps the newest bytes: exactly as many old bytes are
  lost as are missing, the whole chunk is stored and the buffer is full.
\<close>

lemma ring_overwrite_keeps_newest:
  assumes "rb_ok rb" and "\<not> rb_lock rb" and "rb_over_write rb"
    and "rb_size rb - rb_used rb < len" and "len \<le> rb_size rb" and "len \<le> int (length inp)"
  shows "\<exists>rb'. audio_circlebuf_write (Some rb) (Some inp) len = Inr (Some rb', len) \<and> rb_ok rb' \<and> \<not> rb_lock rb' \<and>
    contents rb' = drop (nat (len - (rb_size rb - rb_used rb))) (contents rb) @ take (nat len) inp \<and> rb_used rb' = rb_size rb"
  by (rule write_overwrite [OF assms])

definition full_ring :: circlebuf where
  "full_ring = small_ring\<lparr>rb_data := [1, 2, 3, 4], rb_used := 4, rb_over_write := True\<rparr>"

lemma full_ring_eq: "full_ring = \<lparr>rb_data = [1, 2, 3, 4], rb_size = 4, rb_used = 4, rb_read_offset = 0,
    rb_write_offset = 0, rb_over_write = True, rb_chann = 0, rb_fmt = 0, rb_rate = 0, rb_lock = False\<rparr>"
  by (simp add: full_ring_def small_ring_def audio_circlebuf_create_def host_malloc_def)

text \<open>
  In overwrite mode a write larger than the whole buffer returns with the mutex held: every later
  read or write of that buffer blocks for ever.
\<close>

lemma ring_oversized_write_deadlocks:
  assumes "rb_ok rb" and "\<not> rb_lock rb" and "rb_over_write rb" and "rb_size rb < len" and "len \<le> int (length inp)"
  shows "\<exists>rb'. audio_circlebuf_write (Some rb) (Some inp) len = Inr (Some rb', len) \<and>
    audio_circlebuf_read (Some rb') out pos n = Inl Blocked \<and>
    (m \<noteq> 0 \<longrightarrow> audio_circlebuf_write (Some rb') (Some inp2) m = Inl Blocked)"
proof -
  obtain rb' where w: "audio_circlebuf_write (Some rb) (Some inp) len = Inr (Some rb', len)" "rb_lock rb'"
    using write_oversized [OF assms] by blast
  have "audio_circlebuf_read (Some rb') out pos n = Inl Blocked" using w(2) by (simp add: audio_circlebuf_read_def)
  moreover have "audio_circlebuf_write (Some rb') (Some inp2) m = Inl Blocked" if "m \<noteq> 0"
    using w(2) that by (simp add: audio_circlebuf_write_def)
  ultimately show ?thesis using w(1) by blast
qed

text \<open>
  Moving into an empty buffer transfers the oldest bytes: as many as requested, available and free,
  in order, and removes them from the source.
\<close>

lemma ring_move_to_empty:
  assumes "rb_ok src" and "\<not> rb_lock src" and "rb_ok dst" and "0 < len"
  defines "n \<equiv> min (min len (rb_size dst)) (rb_used src)"
  shows "\<exists>src' dst'. audio_circlebuf_move (Some src) (Some (audio_circlebuf_clear dst)) len = Inr (Some src', Some dst', n) \<and>
    rb_ok src' \<and> rb_ok dst' \<and> contents src' = drop (nat n) (contents src) \<and> contents dst' = take (nat n) (contents src)"
  unfolding n_def by (rule move_to_cleared [OF assms(1-4)])

text \<open>
  Copying into a buffer that holds data loses some of it: \<open>used\<close> becomes the number of bytes copied,
  so of a buffer that holds 9 and gets 1 and 2 only 9 and 1 are left.
\<close>

lemma ring_copy_drops_data:
  "let src = full_ring\<lparr>rb_used := 2, rb_write_offset := 2\<rparr>;
       dst = full_ring\<lparr>rb_data := [9, 0, 0, 0], rb_used := 1, rb_write_offset := 1\<rparr>
   in contents src = [1, 2] \<and> contents dst = [9] \<and>
      (\<exists>src' dst'. audio_circlebuf_copy (Some src) (Some dst) 2 = Inr (Some src', Some dst', 2) \<and> contents dst' = [9, 1])"
  by (simp add: full_ring_eq contents_def ring_def upt_rec audio_circlebuf_copy_def audio_circlebuf_copy_internal_def
      audio_circlebuf_available_def audio_circlebuf_used_def copy_contiguous_def memcpy_def blit_def window_def Let_def numeral_eq_Suc)

section \<open>Sample and string helpers\<close>

text \<open>
  Selecting slots: from frames of \<open>src_ch\<close> samples the first \<open>dst_ch\<close> of each are copied, frame by
  frame, without leaving either array; the number of samples written is returned.
\<close>

lemma select_slot_copies_frames:
  assumes "0 \<le> dst_ch" and "dst_ch \<le> src_ch" and "0 < src_ch" and "0 \<le> samples"
    and "samples \<le> int (length src)" and "samples div src_ch * dst_ch \<le> int (length dst)"
  shows "\<exists>dst'. audio_extra_select_slot_16 dst dst_ch src src_ch samples = Inr (dst', samples div src_ch * dst_ch) \<and>
    length dst' = length dst \<and>
    (\<forall>i<nat (samples div src_ch). \<forall>j<nat dst_ch. dst' ! nat (int i * dst_ch + int j) = src ! nat (int i * src_ch + int j))"
  by (rule select_slot_frames [OF assms])

text \<open>
  The gain per slot: samples of the slots in the mask are multiplied, truncated and saturated to 16
  bits; all other samples, and those after the given number of bytes, are unchanged.  The product of
  the float unit is a parameter, of which only \<open>x * 1 = x\<close> is used.
\<close>

lemma slot_gain_masked:
  assumes "0 \<le> ratio" and "0 < slots" and "bytes div 2 \<le> length buffer" and "\<forall>x. fmul x 1 = x" and "list_all in_s16 buffer"
  shows "\<exists>out. audio_extra_sw_slot_gain_16 fmul slots slots_mask ratio buffer bytes = Inr out \<and>
    length out = length buffer \<and> list_all in_s16 out \<and>
    (\<forall>i<length buffer. out ! i =
      (if i < bytes div 2 \<and> shr slots_mask (nat (int i mod slots)) AND 1 \<noteq> 0
       then CAL_SW_GAIN_16 fmul ratio (buffer ! i) else buffer ! i))"
proof -
  obtain out where o: "audio_extra_sw_slot_gain_16 fmul slots slots_mask ratio buffer bytes = Inr out"
    using assms(1-3) by (auto simp: audio_extra_sw_slot_gain_16_def Let_def)
  show ?thesis using o sw_slot_gain_spec [OF assms o] by blast
qed

text \<open>
  A sound card name \<open>chip-board-codec...\<close> is split into its first three parts, each cut to 31
  characters; what follows the third part is ignored.
\<close>

lemma card_name_split:
  assumes "card_part c" and "card_part b" and "card_part k" and "rest = [] \<or> hd rest = CHR ''-''"
  shows "audio_extra_set_snd_card_split cur (Some (c @ ''-'' @ b @ ''-'' @ k @ rest)) =
    Inr (cur\<lparr>chip := take 31 c, board := take 31 b, codec := take 31 k\<rparr>)"
  by (rule set_snd_card_split_parts [OF assms])

text \<open>
  Waiting with a timeout.  The absolute deadline is the current time plus the timeout, with the
  nanoseconds normalised; signals do not end the wait, and the first other outcome decides the result.
\<close>

lemma semwait_deadline_and_result:
  assumes "0 \<le> snd now" and "snd now < 1000000000" and "0 \<le> timeout_ms"
    and "sem_timedwait (semwait_deadline now timeout_ms) = replicate n Sem_eintr @ r # rs" and "r \<noteq> Sem_eintr"
  shows "0 \<le> snd (semwait_deadline now timeout_ms) \<and> snd (semwait_deadline now timeout_ms) < 1000000000 \<and>
    fst (semwait_deadline now timeout_ms) * 1000000000 + snd (semwait_deadline now timeout_ms) =
      fst now * 1000000000 + snd now + timeout_ms * 1000000 \<and>
    audio_extra_semwait sem_timedwait now timeout_ms =
      Some (case r of Sem_ok \<Rightarrow> OS_SYNC_RELEASED | Sem_etimedout \<Rightarrow> OS_SYNC_TIMEOUT | _ \<Rightarrow> OS_SYNC_FAILED)"
  using semwait_deadline_normal [OF assms(1-3)] semwait_loop_interrupted [OF assms(5), of n rs] assms(4,5)
  by (cases r) (auto simp: audio_extra_semwait_def)

text \<open>
  The sample dump.  Below 100 MiB it appends; the call that reaches the limit closes the file but
  keeps the pointer, so the next call writes to a closed stream.
\<close>

lemma dump_writes_after_close:
  assumes "dump_fd s \<noteq> Dump_closed" and "0 \<le> dump_offset s" and "dump_offset s + int bytes \<le> 2147483647"
  shows "if dump_offset s + int bytes < 104857600
    then dump_out_data True s bytes = Inr (s\<lparr>dump_fd := Dump_open, dump_offset := dump_offset s + int bytes\<rparr>, False)
    else \<exists>s'. dump_out_data True s bytes = Inr (s', True) \<and> dump_out_data fopen_ok s' bytes' = Inl Closed_stream"
  using dump_below_limit [OF assms(1) TrueI assms(2), of bytes] dump_at_limit [OF assms(1) TrueI assms(2), of bytes] assms(3)
  by (simp add: dump_closed_fails)

section \<open>Sharing\<close>





text \<open>
  Sources.  \<open>au_sharing_get_src\<close> gives the free source with the highest index, marks it allocated
  with the bus and the channels of the stream, and changes no other source and no sink; it returns
  \<open>NULL\<close> exactly when all sources are allocated.
\<close>

lemma get_src_takes_last_free:
  assumes "au_sharing_get_src g bus_num channels = (g', r)"
  shows "case r of None \<Rightarrow> g' = g \<and> (\<forall>s\<in>set (shr_srcs g). src_allocated s)
    | Some i \<Rightarrow> i < length (shr_srcs g) \<and> \<not> src_allocated (shr_srcs g ! i) \<and>
        (\<forall>k<length (shr_srcs g). i < k \<longrightarrow> src_allocated (shr_srcs g ! k)) \<and>
        shr_dsts g' = shr_dsts g \<and>
        shr_srcs g' = (shr_srcs g)[i := (shr_srcs g ! i)\<lparr>src_bus_num := bus_num, src_channels := channels,
          src_duplicate := False, src_allocated := True\<rparr>]"
  by (rule get_src_spec [OF assms])

text \<open>
  Closing one of several mirrored sources stops the sink for all of them: the sink is put on hold
  whatever its reference count is.  And a sink on hold whose count is not 0 is not started again by the
  next source that opens it.
\<close>

lemma close_ignores_ref_count:
  fixes i j :: nat and a target :: au_shr_addr and direct direct2 :: mirror_direct
  assumes "g_ok g" and "i < 4" and "src_duplicate (shr_srcs g ! i)" and "src_dup_sink (shr_srcs g ! i) = a"
    and "\<not> dst_pcm_vi2s (dst_at g a)"
    and "j < 4" and "i \<noteq> j" and "\<not> src_duplicate (shr_srcs g ! j)" and "mirror_matches direct2 (src_bus_num (shr_srcs g ! j))"
    and "dst_ref_cnt (dst_at g a) \<noteq> 1"
  shows "dst_hold (dst_at (au_sharing_duplicate_update g i target direct False) a) \<and>
    dst_hold (dst_at (au_sharing_duplicate_update (au_sharing_duplicate_update g i target direct False) j a direct2 True) a)"
proof -
  let ?g1 = "au_sharing_duplicate_update g i target direct False"
  have 1: "dst_hold (dst_at ?g1 a)" "dst_ref_cnt (dst_at ?g1 a) = dst_ref_cnt (dst_at g a) - 1"
    using close_dup_holds [OF assms(1-3)] assms(4,5) by blast+
  have "shr_srcs ?g1 ! j = shr_srcs g ! j"
    using assms(3,7) by (simp add: au_sharing_duplicate_update_def set_dst_def set_src_def Let_def)
  then show ?thesis using 1 open_dup(2) [OF duplicate_update_ok [OF assms(1)] assms(6), of i target direct False direct2 a] assms(8-10)
    by simp
qed

text \<open>
  A mirrored write of more than 16 KiB overruns the local array of \<open>au_sharing_duplicate\<close>.
\<close>

lemma long_write_overruns:
  fixes i :: nat
  assumes "length write_buf = 16384" and "16384 < len" and "dup_action_of location direct = Mirror bus"
    and "amplitude bus \<noteq> None"
    and "src_duplicate (shr_srcs (au_sharing_duplicate_update g i location direct (direct \<noteq> MIRROR_CLOSE)) ! i)"
  shows "au_sharing_duplicate fmul amplitude card_id write_buf g i buf len location direct = Inl Bad_access"
  using duplicate_overrun [of write_buf len location direct bus amplitude g i fmul card_id buf] assms by simp

end
