(* ===== verification/Hal_Remote.thy ===== *)
theory Hal_Remote
  imports Audio_Extra
begin

text \<open>
  \<open>remote.c\<close> of the audio HAL: the commands to the processor that routes the audio paths, sent as packets
  over a socket.

  The socket calls are parameters: what \<open>socket\<close>, \<open>connect\<close> and \<open>write\<close> return.  The state is the
  descriptor \<open>platform->remote\<close>; the packets written are part of the result.  The lock around \<open>write\<close>
  is taken and released in the same step.
\<close>

definition IPCC_LEN_MAX :: nat where "IPCC_LEN_MAX = 64"

datatype am_opcode =
  OP_HANDSHAKE | OP_START | OP_STOP | OP_SET_MUTE | OP_GET_MUTE | OP_SETVOL | OP_SWITCH | OP_RESET |
  OP_RESTORE | OP_PARAM | OP_PLAY_AGENT_START | OP_PLAY_AGENT_STOP | OP_PCM_PLAYBACK_CTL |
  OP_PCM_CAPTURE_CTL | OP_PCM_PLAYBACK_STREAM | OP_PCM_CAPTURE_STREAM | OP_PCM_LOOPBACK_CTL |
  OP_CHIME_ON | OP_CHIME_OFF | OP_NUMB

fun opcode :: "am_opcode \<Rightarrow> int" where
  "opcode OP_HANDSHAKE = 0" | "opcode OP_START = 1" | "opcode OP_STOP = 2" | "opcode OP_SET_MUTE = 3"
| "opcode OP_GET_MUTE = 4" | "opcode OP_SETVOL = 5" | "opcode OP_SWITCH = 6" | "opcode OP_RESET = 7"
| "opcode OP_RESTORE = 8" | "opcode OP_PARAM = 9" | "opcode OP_PLAY_AGENT_START = 10"
| "opcode OP_PLAY_AGENT_STOP = 11" | "opcode OP_PCM_PLAYBACK_CTL = 12" | "opcode OP_PCM_CAPTURE_CTL = 13"
| "opcode OP_PCM_PLAYBACK_STREAM = 14" | "opcode OP_PCM_CAPTURE_STREAM = 15" | "opcode OP_PCM_LOOPBACK_CTL = 16"
| "opcode OP_CHIME_ON = 17" | "opcode OP_CHIME_OFF = 18" | "opcode OP_NUMB = 19"

text \<open>The two character arrays have 64 elements; the command and its parameter are \<open>uint8_t\<close>.\<close>

record ipcc_data =
  pk_data :: string
  pk_data_len :: int
  pk_data1 :: string
  pk_data1_len :: int
  pk_cmd :: int
  pk_param :: int

record ipcc_ret =
  rt_code :: int
  rt_cmd :: int
  rt_type :: int

definition NUL :: char where "NUL = CHR 0x00"

definition IPCC_PACKED_PARAM :: "am_opcode \<Rightarrow> int \<Rightarrow> ipcc_data" where
  "IPCC_PACKED_PARAM cmd param =
     \<lparr>pk_data = replicate IPCC_LEN_MAX NUL, pk_data_len = 0, pk_data1 = replicate IPCC_LEN_MAX NUL, pk_data1_len = 0,
      pk_cmd = opcode cmd mod 256, pk_param = param mod 256\<rparr>"

text \<open>\<open>strncpy (data, path, len)\<close> where \<open>len\<close> is at most the length of the path.\<close>

definition IPCC_PACKED_PATH :: "string \<Rightarrow> string \<Rightarrow> string" where
  "IPCC_PACKED_PATH data path =
     (let len = (if length path > IPCC_LEN_MAX then IPCC_LEN_MAX else length path)
      in blit data 0 (take len path))"

definition c_string :: "string \<Rightarrow> string" where
  "c_string cs = takeWhile (\<lambda>c. c \<noteq> NUL) cs"

section \<open>The connection\<close>

record rpmsg_env =
  env_socket :: int
  env_connect :: int
  env_write :: int

definition ipcc_init :: "rpmsg_env \<Rightarrow> int \<times> int" where
  "ipcc_init env =
     (let remote = env_socket env
      in if remote < 0 then (remote, -1)
         else if env_connect env < 0 then (-1, -1)
         else (remote, 0))"

text \<open>
  The descriptor after the call, the packets written, and the return value.  Without a connection the
  packet is not sent: the connection is opened and -1 returned.
\<close>

definition ipcc_ctrl :: "rpmsg_env \<Rightarrow> int \<Rightarrow> ipcc_data option \<Rightarrow> int \<times> ipcc_data list \<times> int" where
  "ipcc_ctrl env remote data =
     (case data of
        Some pack \<Rightarrow> if remote > 0 then (remote, [pack], env_write env) else (fst (ipcc_init env), [], -1)
      | None \<Rightarrow> (fst (ipcc_init env), [], -1))"

section \<open>Commands\<close>

definition audio_remote_handshake :: "rpmsg_env \<Rightarrow> int \<Rightarrow> int \<Rightarrow> int \<times> ipcc_data list \<times> int" where
  "audio_remote_handshake env remote param = ipcc_ctrl env remote (Some (IPCC_PACKED_PARAM OP_HANDSHAKE param))"

definition path_pack :: "am_opcode \<Rightarrow> string \<Rightarrow> int \<Rightarrow> ipcc_data" where
  "path_pack cmd path param =
     (let pack = IPCC_PACKED_PARAM cmd param
      in pack\<lparr>pk_data := IPCC_PACKED_PATH (pk_data pack) path\<rparr>)"

definition audio_remote_start :: "rpmsg_env \<Rightarrow> int \<Rightarrow> string \<Rightarrow> int \<Rightarrow> int \<times> ipcc_data list \<times> int" where
  "audio_remote_start env remote path param = ipcc_ctrl env remote (Some (path_pack OP_START path param))"

text \<open>The command is \<open>OP_START\<close>, although there is an \<open>OP_SWITCH\<close>.\<close>

definition audio_remote_switch_path :: "rpmsg_env \<Rightarrow> int \<Rightarrow> string \<Rightarrow> string \<Rightarrow> int \<Rightarrow> int \<times> ipcc_data list \<times> int" where
  "audio_remote_switch_path env remote src dst param =
     (let pack = path_pack OP_START src param
      in ipcc_ctrl env remote (Some (pack\<lparr>pk_data1 := IPCC_PACKED_PATH (pk_data1 pack) dst\<rparr>)))"

text \<open>The result of the transmission is dropped: the function returns 0.\<close>

definition audio_remote_stop :: "rpmsg_env \<Rightarrow> int \<Rightarrow> string \<Rightarrow> int \<times> ipcc_data list \<times> int" where
  "audio_remote_stop env remote path =
     (let (remote, sent, ret) = ipcc_ctrl env remote (Some (path_pack OP_STOP path 0))
      in (remote, sent, 0))"

definition audio_remote_set_volume :: "rpmsg_env \<Rightarrow> int \<Rightarrow> string \<Rightarrow> int \<Rightarrow> int \<times> ipcc_data list \<times> int" where
  "audio_remote_set_volume env remote path param = ipcc_ctrl env remote (Some (path_pack OP_SETVOL path param))"

section \<open>Properties of the packets\<close>

lemma ipcc_init_cases:
  "ipcc_init env = (r, s) \<Longrightarrow> s = 0 \<and> 0 \<le> r \<or> s = -1 \<and> r < 0"
  by (auto simp: ipcc_init_def Let_def split: if_splits)

lemma packed_path_length:
  "length data = IPCC_LEN_MAX \<Longrightarrow> length (IPCC_PACKED_PATH data path) = IPCC_LEN_MAX"
  by (simp add: IPCC_PACKED_PATH_def Let_def)

text \<open>A path of less than 64 characters arrives; a longer one is cut and not terminated.\<close>

lemma packed_path_read:
  assumes "NUL \<notin> set path"
  shows "c_string (IPCC_PACKED_PATH (replicate IPCC_LEN_MAX NUL) path) = take IPCC_LEN_MAX path"
proof -
  define n where "n = IPCC_LEN_MAX - length path"
  have "IPCC_PACKED_PATH (replicate IPCC_LEN_MAX NUL) path = take IPCC_LEN_MAX path @ replicate n NUL"
    by (simp add: IPCC_PACKED_PATH_def Let_def blit_def n_def)
  moreover have "\<forall>c\<in>set (take IPCC_LEN_MAX path). c \<noteq> NUL" using assms by (auto dest: in_set_takeD)
  ultimately show ?thesis by (simp add: c_string_def takeWhile_append2)
qed

lemma path_pack_simps [simp]:
  "pk_cmd (path_pack cmd path param) = opcode cmd"
  "pk_param (path_pack cmd path param) = param mod 256"
  "pk_data (path_pack cmd path param) = IPCC_PACKED_PATH (replicate IPCC_LEN_MAX NUL) path"
  by (cases cmd; simp add: path_pack_def IPCC_PACKED_PARAM_def)+

text \<open>One packet is sent when the connection is open and none otherwise; the return value does not tell for a stop.\<close>

lemma ipcc_ctrl_sent: "0 < remote \<Longrightarrow> ipcc_ctrl env remote (Some p) = (remote, [p], env_write env)"
  by (simp add: ipcc_ctrl_def)

lemma ipcc_ctrl_dropped: "remote \<le> 0 \<Longrightarrow> ipcc_ctrl env remote (Some p) = (fst (ipcc_init env), [], -1)"
  by (simp add: ipcc_ctrl_def)

lemmas remote_ops = audio_remote_handshake_def audio_remote_start_def audio_remote_switch_path_def
  audio_remote_stop_def audio_remote_set_volume_def

end
