(* ===== verification/Bus_Volume.thy ===== *)
theory Bus_Volume
  imports Hal_Remote
begin

text \<open>
  The part of \<open>audio_hw.c\<close> that keeps the state of the output buses: volume, ducking, muting, the chime of
  the instrument cluster and the slot of the DSP a bus plays on; the reference counts of the remote audio
  paths; opening a PCM device with retries.  The thread of \<open>remote.c\<close> that switches the chime is here too,
  because it writes the same state.

  The calls of the DSP library are commands: an operation returns the commands it issued, in order, and
  \<open>dsp\<close> gives the return value of each.  The locks of the buses are taken and released around one read
  or one write, which is one step here.  A bus number is used as an index without a check; outside the
  arrays it is the error \<open>Bad_access\<close>.
\<close>

definition MAX_BUS_NUM :: nat where "MAX_BUS_NUM = 16"
definition HIFI_PATH_FIXED_VOL :: int where "HIFI_PATH_FIXED_VOL = 100"

datatype dsp_channel_type =
  CHANNEL_MEDIA_MUSIC | CHANNEL_MEDIA_TUNER | CHANNEL_BT_PHONE | CHANNEL_CARPLAY_PHONE | CHANNEL_TBOX |
  CHANNEL_SIRI | CHANNEL_NAVI | CHANNEL_BEEP | CHANNEL_VR | CHANNEL_NULL

datatype dsp_cmd =
  Set_volume dsp_channel_type int | Set_secondary_mono_all bool | Set_phone_mono_all bool | Set_navi_mono_all bool

text \<open>The arrays have 16 elements, the last two 4; volumes, slots and focus buses are \<open>uint8_t\<close>.\<close>

record audio_bus_status =
  is_ducked :: "bool list"
  is_muted :: "bool list"
  in_zoneId :: "int list"
  bus_vol :: "int list"
  bus_active :: "int list"
  slot_index :: "int list"
  slot_in_use :: "int list"
  is_chime_on :: bool
  focus_bus :: "int list"

text \<open>The loop of \<open>adev_open\<close>; \<open>slots\<close> are the first slots of \<open>output_maps\<close>.\<close>

definition bus_status_init :: "int list \<Rightarrow> audio_bus_status \<Rightarrow> audio_bus_status" where
  "bus_status_init slots st =
     st\<lparr>is_chime_on := False, is_ducked := replicate MAX_BUS_NUM False, is_muted := replicate MAX_BUS_NUM False,
        in_zoneId := replicate MAX_BUS_NUM 15, bus_vol := replicate MAX_BUS_NUM 0,
        slot_index := map (\<lambda>s. s mod 256) (take MAX_BUS_NUM slots),
        slot_in_use := replicate 4 0, focus_bus := replicate 4 255\<rparr>"

section \<open>Addresses\<close>

definition strncmp_eq :: "string \<Rightarrow> string \<Rightarrow> nat \<Rightarrow> bool" where
  "strncmp_eq s t n \<longleftrightarrow> take n s = take n t"

definition out_is_rear_seat_or_sharing_addr :: "string \<Rightarrow> bool" where
  "out_is_rear_seat_or_sharing_addr address \<longleftrightarrow>
     strncmp_eq address ''bus100_'' 7 \<or> strncmp_eq address ''bus101_'' 7 \<or> strncmp_eq address ''bus102_'' 7 \<or>
     strncmp_eq address ''bus103_'' 7 \<or> strncmp_eq address ''bus9_'' 5"

definition out_is_rear_seat_addr :: "string \<Rightarrow> bool" where
  "out_is_rear_seat_addr address \<longleftrightarrow>
     strncmp_eq address ''bus100'' 6 \<or> strncmp_eq address ''bus101'' 6 \<or> strncmp_eq address ''bus102'' 6"

definition out_is_main_seat_addr :: "string \<Rightarrow> bool" where
  "out_is_main_seat_addr address \<longleftrightarrow> strncmp_eq address ''bus101'' 6"

definition out_is_ssa_sharing_bus :: "string \<Rightarrow> bool" where
  "out_is_ssa_sharing_bus address \<longleftrightarrow> strncmp_eq address ''bus9_'' 5"

definition out_is_ssb_sharing_bus :: "string \<Rightarrow> bool" where
  "out_is_ssb_sharing_bus address \<longleftrightarrow> strncmp_eq address ''bus103_'' 7"

section \<open>Volume\<close>

text \<open>The \<open>switch\<close> on the slot, the same in the five branches of \<open>set_bus_volume\<close>.\<close>

definition slot_channel :: "int \<Rightarrow> dsp_channel_type option" where
  "slot_channel slot =
     (if slot = 0 then Some CHANNEL_MEDIA_MUSIC else if slot = 2 then Some CHANNEL_BEEP
      else if slot = 4 then Some CHANNEL_BT_PHONE else if slot = 6 then Some CHANNEL_NAVI else None)"

definition slot_set_volume :: "(dsp_cmd \<Rightarrow> int) \<Rightarrow> int \<Rightarrow> int \<Rightarrow> dsp_cmd list \<times> int" where
  "slot_set_volume dsp slot v =
     (case slot_channel slot of None \<Rightarrow> ([], 0) | Some c \<Rightarrow> ([Set_volume c v], dsp (Set_volume c v)))"

text \<open>The loudest of the buses in focus.\<close>

fun focus_loop :: "int list \<Rightarrow> int list \<Rightarrow> int \<Rightarrow> c_error + int" where
  "focus_loop vols [] v = Inr v"
| "focus_loop vols (f # fs) v =
     (if f \<noteq> 255
      then and_then (arr_get vols f) (\<lambda>w. focus_loop vols fs (if w \<ge> v then w else v))
      else focus_loop vols fs v)"

text \<open>\<open>volume * 0.8\<close> in double precision, converted to \<open>uint8_t\<close>, is four fifths rounded down for every \<open>uint8_t\<close>.\<close>

definition set_bus_volume :: "(dsp_cmd \<Rightarrow> int) \<Rightarrow> audio_bus_status \<Rightarrow> int \<Rightarrow> c_error + dsp_cmd list \<times> int" where
  "set_bus_volume dsp st which_bus =
     and_then (arr_get (is_ducked st) which_bus) (\<lambda>ducked.
     and_then (arr_get (is_muted st) which_bus) (\<lambda>muted.
     and_then (arr_get (bus_vol st) which_bus) (\<lambda>vol.
     and_then (arr_get (slot_index st) which_bus) (\<lambda>slot.
       if is_chime_on st
       then if muted then Inr (slot_set_volume dsp slot 0)
            else Inr (slot_set_volume dsp slot (if vol > 8 then 8 else vol))
       else if muted then Inr (slot_set_volume dsp slot 0)
       else if ducked
       then and_then (focus_loop (bus_vol st) (focus_bus st) 0) (\<lambda>v.
              Inr (slot_set_volume dsp slot (if v - vol > 12 then vol else vol * 4 div 5)))
       else Inr (slot_set_volume dsp slot vol)))))"

definition set_device_address_is_ducked ::
    "(dsp_cmd \<Rightarrow> int) \<Rightarrow> audio_bus_status \<Rightarrow> int \<Rightarrow> bool \<Rightarrow> c_error + audio_bus_status \<times> dsp_cmd list" where
  "set_device_address_is_ducked dsp st bus_id ducked =
     and_then (arr_set (is_ducked st) bus_id ducked) (\<lambda>ds.
       let st = st\<lparr>is_ducked := ds\<rparr>
       in and_then (arr_get (bus_active st) bus_id) (\<lambda>active.
          if active = 1 then and_then (set_bus_volume dsp st bus_id) (\<lambda>(cmds, ret). Inr (st, cmds))
          else Inr (st, [])))"

text \<open>Unlike ducking, muting does not ask whether the bus is active.\<close>

definition set_device_address_is_muted ::
    "(dsp_cmd \<Rightarrow> int) \<Rightarrow> audio_bus_status \<Rightarrow> int \<Rightarrow> bool \<Rightarrow> c_error + audio_bus_status \<times> dsp_cmd list" where
  "set_device_address_is_muted dsp st bus_id muted =
     and_then (arr_set (is_muted st) bus_id muted) (\<lambda>ms.
       let st = st\<lparr>is_muted := ms\<rparr>
       in and_then (set_bus_volume dsp st bus_id) (\<lambda>(cmds, ret). Inr (st, cmds)))"

text \<open>
  \<open>adev_set_audio_port_config\<close> on the stream the map of the device has for the address.  The step of
  \<open>struct audio_gain\<close> is unsigned, so the division is unsigned; \<open>curve\<close> is the expression with \<open>pow\<close>.
\<close>

record out_gain =
  og_bus_address :: string
  og_bus_num :: int
  og_min_value :: int
  og_max_value :: int
  og_step_value :: int
  og_amplitude_ratio :: rat
  og_target_gain_mb :: int

definition port_addresses :: "string list" where
  "port_addresses = [''bus0_media_out'', ''bus1_voice_command_out'', ''bus2_phone_out'', ''bus3_navi_out'',
     ''bus4_call_ring_out'', ''bus6_notification_out'', ''bus100_rear_seat1'']"

definition gain_index :: "out_gain \<Rightarrow> int \<Rightarrow> int" where
  "gain_index out mb = s32 (u32 (mb - og_min_value out) div og_step_value out)"

definition adev_set_audio_port_config ::
    "(int \<Rightarrow> int \<Rightarrow> int \<Rightarrow> int \<Rightarrow> rat) \<Rightarrow> (dsp_cmd \<Rightarrow> int) \<Rightarrow> audio_bus_status \<Rightarrow> out_gain option \<Rightarrow> int
      \<Rightarrow> c_error + audio_bus_status \<times> out_gain option \<times> dsp_cmd list \<times> int" where
  "adev_set_audio_port_config curve dsp st stream mb =
     (case stream of
        Some out \<Rightarrow>
          if og_bus_address out \<in> set port_addresses
          then if og_step_value out = 0 then Inl Div_by_zero
          else
            let gainIndex = gain_index out mb;
                totalSteps = s32 (u32 (og_max_value out - og_min_value out) div og_step_value out);
                out = out\<lparr>og_amplitude_ratio := curve (og_min_value out sdiv 100) (og_max_value out sdiv 100) gainIndex totalSteps,
                          og_target_gain_mb := mb\<rparr>
            in and_then (arr_set (bus_vol st) (og_bus_num out) (gainIndex mod 256)) (\<lambda>vols.
               let st = st\<lparr>bus_vol := vols\<rparr>
               in and_then (arr_get (bus_active st) (og_bus_num out)) (\<lambda>active.
                  if active = 1
                  then and_then (set_bus_volume dsp st (og_bus_num out)) (\<lambda>(cmds, ret). Inr (st, Some out, cmds, ret))
                  else Inr (st, Some out, [], 0)))
          else Inr (st, stream, [], -22)
      | None \<Rightarrow> Inr (st, stream, [], -22))"

section \<open>The chime\<close>

datatype focus_cmd = Request_safety_focus | Abandon_safety_focus

text \<open>
  One iteration of \<open>audio_ipcc_thread_loop\<close>: \<open>ret\<close> and \<open>data\<close> are what \<open>read\<close> gives.  A packet has
  140 bytes with the command at offset 136.
\<close>

definition ipcc_data_size :: int where "ipcc_data_size = 140"

definition audio_ipcc_iter ::
    "rpmsg_env \<Rightarrow> int \<Rightarrow> audio_bus_status \<Rightarrow> int \<Rightarrow> (8 word) list \<Rightarrow> int \<times> audio_bus_status \<times> focus_cmd list" where
  "audio_ipcc_iter env remote st ret data =
     (if remote > 0
      then
        if ret \<le> 0 then (remote, st, [])
        else if ret = ipcc_data_size
        then let cmd = uint (data ! 136)
             in if cmd = opcode OP_CHIME_ON then (remote, st\<lparr>is_chime_on := True\<rparr>, [Request_safety_focus])
                else if cmd = opcode OP_CHIME_OFF then (remote, st\<lparr>is_chime_on := False\<rparr>, [Abandon_safety_focus])
                else (remote, st, [])
        else (remote, st, [])
      else (fst (ipcc_init env), st, []))"

section \<open>Remote paths\<close>

definition HIFI_PLAYBACK_TO_MAIN_SPK_48K :: string where
  "HIFI_PLAYBACK_TO_MAIN_SPK_48K = ''PATH_HIFI_PLAYBACK_TO_MAIN_SPK_48K''"

definition NAV_PLAYBACK_TO_MAIN_SPK_48K :: string where
  "NAV_PLAYBACK_TO_MAIN_SPK_48K = ''PATH_NAV_PLAYBACK_TO_MAIN_SPK_48K''"

type_synonym path_state = "string \<times> int"

definition paths0 :: "path_state list" where
  "paths0 = [(HIFI_PLAYBACK_TO_MAIN_SPK_48K, 0)]"

definition select_path :: "int \<Rightarrow> (string \<times> bool) option" where
  "select_path bus_num =
     (if bus_num = 0 \<or> bus_num = 5 \<or> bus_num = 9 then Some (HIFI_PLAYBACK_TO_MAIN_SPK_48K, False)
      else if bus_num = 3 then Some (NAV_PLAYBACK_TO_MAIN_SPK_48K, True) else None)"

fun open_path_loop :: "string \<Rightarrow> path_state list \<Rightarrow> bool \<Rightarrow> path_state list \<times> bool" where
  "open_path_loop sel [] apply_it = ([], apply_it)"
| "open_path_loop sel ((name, ref) # ps) apply_it =
     (if name = sel then let ref = s32 (ref + 1) in ((name, ref) # ps, ref > 0)
      else let (ps, a) = open_path_loop sel ps apply_it in ((name, ref) # ps, a))"

fun close_path_loop :: "string \<Rightarrow> path_state list \<Rightarrow> bool \<Rightarrow> path_state list \<times> bool" where
  "close_path_loop sel [] apply_it = ([], apply_it)"
| "close_path_loop sel ((name, ref) # ps) apply_it =
     (if name = sel
      then let ref = s32 (ref - 1) in ((name, if ref < 0 then 0 else ref) # ps, ref = 0)
      else let (ps, a) = close_path_loop sel ps apply_it in ((name, ref) # ps, a))"

definition open_output_path ::
    "rpmsg_env \<Rightarrow> int \<times> path_state list \<Rightarrow> int \<Rightarrow> (int \<times> path_state list) \<times> ipcc_data list" where
  "open_output_path env = (\<lambda>(remote, ps) bus_num.
     case select_path bus_num of None \<Rightarrow> ((remote, ps), [])
     | Some (sel, a) \<Rightarrow>
         let (ps, a) = open_path_loop sel ps a
         in if a then let (remote, sent, ret) = audio_remote_start env remote sel HIFI_PATH_FIXED_VOL in ((remote, ps), sent)
            else ((remote, ps), []))"

definition close_output_path ::
    "rpmsg_env \<Rightarrow> int \<times> path_state list \<Rightarrow> int \<Rightarrow> (int \<times> path_state list) \<times> ipcc_data list" where
  "close_output_path env = (\<lambda>(remote, ps) bus_num.
     case select_path bus_num of None \<Rightarrow> ((remote, ps), [])
     | Some (sel, a) \<Rightarrow>
         let (ps, a) = close_path_loop sel ps a
         in if a then let (remote, sent, ret) = audio_remote_stop env remote sel in ((remote, ps), sent)
            else ((remote, ps), []))"

section \<open>Opening a PCM device\<close>

text \<open>
  \<open>attempt k\<close> is what the \<open>k\<close>-th call of \<open>pcm_open\<close> gives and \<open>prepare\<close> what \<open>pcm_prepare\<close> returns.  The
  result is whether a device is open, and the number of attempts.
\<close>

datatype open_outcome = Open_null | Open_not_ready | Open_ready

fun open_retry_loop :: "(nat \<Rightarrow> open_outcome) \<Rightarrow> nat \<Rightarrow> nat \<Rightarrow> bool \<times> nat" where
  "open_retry_loop attempt k retry_count =
     (if attempt k = Open_ready then (True, Suc k)
      else case retry_count of 0 \<Rightarrow> (False, Suc k) | Suc n \<Rightarrow> open_retry_loop attempt (Suc k) n)"

definition pcm_open_prepare_helper :: "(nat \<Rightarrow> open_outcome) \<Rightarrow> int \<Rightarrow> nat \<Rightarrow> bool \<times> nat" where
  "pcm_open_prepare_helper attempt prepare pcm_open_retry_count =
     (let (opened, n) = open_retry_loop attempt 0 pcm_open_retry_count
      in if opened then (\<not> prepare < 0, n) else (False, n))"

declare open_retry_loop.simps [simp del]

section \<open>The level a bus gets\<close>

definition bus_ok :: "audio_bus_status \<Rightarrow> bool" where
  "bus_ok st \<longleftrightarrow> length (is_ducked st) = 16 \<and> length (is_muted st) = 16 \<and> length (bus_vol st) = 16 \<and>
     length (bus_active st) = 16 \<and> length (slot_index st) = 16 \<and> length (slot_in_use st) = 4 \<and>
     (\<forall>v\<in>set (bus_vol st). 0 \<le> v \<and> v \<le> 255) \<and> (\<forall>f\<in>set (focus_bus st). f = 255 \<or> 0 \<le> f \<and> f < 16)"

text \<open>The specification: the loudest bus in focus, and the level of a bus from its state.\<close>

definition focus_level :: "audio_bus_status \<Rightarrow> int" where
  "focus_level st = Max (insert 0 ((\<lambda>f. bus_vol st ! nat f) ` {f \<in> set (focus_bus st). f \<noteq> 255}))"

definition bus_level :: "audio_bus_status \<Rightarrow> nat \<Rightarrow> int" where
  "bus_level st b =
     (let vol = bus_vol st ! b
      in if is_muted st ! b then 0
         else if is_chime_on st then min 8 vol
         else if is_ducked st ! b \<and> focus_level st \<le> vol + 12 then vol * 4 div 5
         else vol)"

lemma bus_ok_init:
  assumes "length slots = 16" and "length (bus_active st) = 16"
  shows "bus_ok (bus_status_init slots st)"
  using assms by (auto simp: bus_ok_def bus_status_init_def MAX_BUS_NUM_def)

lemma bus_ok_vol: "bus_ok st \<Longrightarrow> b < 16 \<Longrightarrow> 0 \<le> bus_vol st ! b \<and> bus_vol st ! b \<le> 255"
  by (auto simp: bus_ok_def)

lemma Max_insert_larger:
  "finite S \<Longrightarrow> Max (insert v (insert w S)) = Max (insert (if w \<ge> v then w else v) S)" for v :: int
  by (cases "S = {}") (simp_all add: max_def)

lemma focus_loop_max:
  assumes "\<forall>f\<in>set fs. f = 255 \<or> 0 \<le> f \<and> f < int (length vols)"
  shows "focus_loop vols fs v = Inr (Max (insert v ((\<lambda>f. vols ! nat f) ` {f \<in> set fs. f \<noteq> 255})))"
  using assms
proof (induction fs arbitrary: v)
  case (Cons f fs)
  let ?S = "(\<lambda>f. vols ! nat f) ` {f \<in> set fs. f \<noteq> 255}"
  show ?case
  proof (cases "f = 255")
    case True
    then have "{g \<in> set (f # fs). g \<noteq> 255} = {g \<in> set fs. g \<noteq> 255}" by auto
    then show ?thesis using Cons True by simp
  next
    case False
    then have "{g \<in> set (f # fs). g \<noteq> 255} = insert f {g \<in> set fs. g \<noteq> 255}" by auto
    then have S: "(\<lambda>f. vols ! nat f) ` {g \<in> set (f # fs). g \<noteq> 255} = insert (vols ! nat f) ?S" by simp
    have "Max (insert v (insert w ?S)) = Max (insert (if w \<ge> v then w else v) ?S)" for w
      by (rule Max_insert_larger) simp
    moreover have "focus_loop vols (f # fs) v = focus_loop vols fs (if vols ! nat f \<ge> v then vols ! nat f else v)"
      using Cons.prems False by simp
    ultimately show ?thesis using Cons.IH Cons.prems by (simp only: S) simp
  qed
qed simp

lemma set_bus_volume_level:
  assumes "bus_ok st" and "0 \<le> b" and "b < 16"
  shows "set_bus_volume dsp st b = Inr (slot_set_volume dsp (slot_index st ! nat b) (bus_level st (nat b)))"
proof -
  have f: "focus_loop (bus_vol st) (focus_bus st) 0 = Inr (focus_level st)"
    unfolding focus_level_def by (rule focus_loop_max) (use assms in \<open>auto simp: bus_ok_def\<close>)
  show ?thesis using assms by (simp add: set_bus_volume_def f bus_level_def bus_ok_def Let_def)
qed

text \<open>No mode makes a bus louder than its volume, and the chime caps every bus.\<close>

lemma bus_level_bounds:
  assumes "bus_ok st" and "b < 16"
  shows "0 \<le> bus_level st b" and "bus_level st b \<le> bus_vol st ! b"
    and "is_chime_on st \<Longrightarrow> bus_level st b \<le> 8" and "is_muted st ! b \<Longrightarrow> bus_level st b = 0"
  using bus_ok_vol [OF assms] by (auto simp: bus_level_def Let_def)

lemma bus_ok_updates:
  assumes "bus_ok st"
  shows "bus_ok (st\<lparr>is_ducked := (is_ducked st)[i := d]\<rparr>)" and "bus_ok (st\<lparr>is_muted := (is_muted st)[i := d]\<rparr>)"
    and "0 \<le> v \<Longrightarrow> v \<le> 255 \<Longrightarrow> bus_ok (st\<lparr>bus_vol := (bus_vol st)[i := v]\<rparr>)"
    and "bus_ok (st\<lparr>is_chime_on := c\<rparr>)"
  using assms by (auto simp: bus_ok_def dest!: set_update_subset_insert [THEN subsetD])

section \<open>Sequences of changes\<close>

text \<open>
  The contract of an operation on one bus: it never fails on a bus of the arrays, keeps the invariant and
  issues levels that are within the volume of the bus and within the cap of the chime.
\<close>

definition level_ok :: "audio_bus_status \<Rightarrow> int \<Rightarrow> dsp_cmd \<Rightarrow> bool" where
  "level_ok st b c = (case c of Set_volume ch v \<Rightarrow>
     slot_channel (slot_index st ! nat b) = Some ch \<and> 0 \<le> v \<and> v \<le> bus_vol st ! nat b \<and>
     (is_chime_on st \<longrightarrow> v \<le> 8) \<and> (is_muted st ! nat b \<longrightarrow> v = 0) | _ \<Rightarrow> False)"

lemma slot_set_volume_ok:
  "bus_ok st \<Longrightarrow> 0 \<le> b \<Longrightarrow> b < 16 \<Longrightarrow>
   list_all (level_ok st b) (fst (slot_set_volume dsp (slot_index st ! nat b) (bus_level st (nat b))))"
  using bus_level_bounds [of st "nat b"]
  by (auto simp: slot_set_volume_def level_ok_def split: option.split)

locale bus_operation =
  fixes step :: "audio_bus_status \<Rightarrow> int \<Rightarrow> c_error + audio_bus_status \<times> dsp_cmd list"
  assumes step_ok: "bus_ok st \<Longrightarrow> 0 \<le> b \<Longrightarrow> b < 16 \<Longrightarrow>
    \<exists>st' cmds. step st b = Inr (st', cmds) \<and> bus_ok st' \<and> list_all (level_ok st' b) cmds"
begin

text \<open>A run of the operation over a list of buses, with the commands it issues.\<close>

fun run :: "audio_bus_status \<Rightarrow> int list \<Rightarrow> c_error + audio_bus_status \<times> dsp_cmd list" where
  "run st [] = Inr (st, [])"
| "run st (b # bs) = and_then (step st b) (\<lambda>(st, cmds). and_then (run st bs) (\<lambda>(st, rest). Inr (st, cmds @ rest)))"

lemma run_ok:
  assumes "bus_ok st" and "\<forall>b\<in>set bs. 0 \<le> b \<and> b < 16"
  shows "\<exists>st' cmds. run st bs = Inr (st', cmds) \<and> bus_ok st'"
  using assms
proof (induction bs arbitrary: st)
  case (Cons b bs)
  then obtain st1 cmds where "step st b = Inr (st1, cmds)" "bus_ok st1" using step_ok [of st b] by auto
  then show ?case using Cons.IH [of st1] Cons.prems by auto
qed simp

end

interpretation duck: bus_operation "\<lambda>st b. set_device_address_is_ducked dsp st b d" for dsp d
proof unfold_locales
  fix st and b :: int assume st: "bus_ok st" "0 \<le> b" "b < 16"
  note ok = bus_ok_updates(1) [OF st(1), of "nat b" d]
  show "\<exists>st' cmds. set_device_address_is_ducked dsp st b d = Inr (st', cmds) \<and> bus_ok st' \<and> list_all (level_ok st' b) cmds"
    using st ok slot_set_volume_ok [OF ok st(2,3), of dsp] set_bus_volume_level [OF ok st(2,3), of dsp]
    by (auto simp: set_device_address_is_ducked_def Let_def bus_ok_def case_prod_beta)
qed

interpretation mute: bus_operation "\<lambda>st b. set_device_address_is_muted dsp st b d" for dsp d
proof unfold_locales
  fix st and b :: int assume st: "bus_ok st" "0 \<le> b" "b < 16"
  note ok = bus_ok_updates(2) [OF st(1), of "nat b" d]
  show "\<exists>st' cmds. set_device_address_is_muted dsp st b d = Inr (st', cmds) \<and> bus_ok st' \<and> list_all (level_ok st' b) cmds"
    using st ok slot_set_volume_ok [OF ok st(2,3), of dsp] set_bus_volume_level [OF ok st(2,3), of dsp]
    by (auto simp: set_device_address_is_muted_def Let_def bus_ok_def case_prod_beta)
qed

text \<open>A port configuration on the stream of bus \<open>b\<close>, whatever its gain stage.\<close>

interpretation port: bus_operation
  "\<lambda>st b. and_then (adev_set_audio_port_config curve dsp st (Some (out\<lparr>og_bus_num := b, og_step_value := int step + 1\<rparr>)) mb)
     (\<lambda>(st, stream, cmds, ret). Inr (st, cmds))"
  for curve dsp out mb step
proof unfold_locales
  fix st and b :: int assume st: "bus_ok st" "0 \<le> b" "b < 16"
  let ?out = "out\<lparr>og_bus_num := b, og_step_value := int step + 1\<rparr>"
  let ?v = "gain_index ?out mb mod 256"
  have "0 \<le> ?v" "?v \<le> 255" using pos_mod_bound [of 256 "gain_index ?out mb"] by auto
  note ok = bus_ok_updates(3) [OF st(1) this, of "nat b"]
  show "\<exists>st' cmds. and_then (adev_set_audio_port_config curve dsp st (Some ?out) mb) (\<lambda>(st, stream, cmds, ret). Inr (st, cmds))
      = Inr (st', cmds) \<and> bus_ok st' \<and> list_all (level_ok st' b) cmds"
  proof (cases "og_bus_address out \<in> set port_addresses")
    case True
    note lens = st(1) [unfolded bus_ok_def]
    show ?thesis
      using st(2,3) lens ok slot_set_volume_ok [OF ok st(2,3), of dsp] set_bus_volume_level [OF ok st(2,3), of dsp] True
      by (simp add: adev_set_audio_port_config_def Let_def case_prod_beta)
  qed (use st in \<open>simp add: adev_set_audio_port_config_def\<close>)
qed

text \<open>The changes of the state from outside: focus, mute, volume and chime.\<close>

datatype bus_event = Duck int bool | Mute int bool | Port out_gain int | Ipcc int "(8 word) list"

definition bus_event_step :: "(int \<Rightarrow> int \<Rightarrow> int \<Rightarrow> int \<Rightarrow> rat) \<Rightarrow> (dsp_cmd \<Rightarrow> int) \<Rightarrow> rpmsg_env
    \<Rightarrow> audio_bus_status \<Rightarrow> bus_event \<Rightarrow> c_error + audio_bus_status \<times> dsp_cmd list" where
  "bus_event_step curve dsp env st ev =
     (case ev of
        Duck b d \<Rightarrow> set_device_address_is_ducked dsp st b d
      | Mute b m \<Rightarrow> set_device_address_is_muted dsp st b m
      | Port out mb \<Rightarrow> and_then (adev_set_audio_port_config curve dsp st (Some out) mb) (\<lambda>(st, stream, cmds, ret). Inr (st, cmds))
      | Ipcc ret data \<Rightarrow> Inr (fst (snd (audio_ipcc_iter env 1 st ret data)), []))"

text \<open>A bus of the table, and a gain stage with a step.\<close>

fun event_bus :: "bus_event \<Rightarrow> int" where
  "event_bus (Duck b d) = b"
| "event_bus (Mute b m) = b"
| "event_bus (Port out mb) = og_bus_num out"
| "event_bus (Ipcc ret data) = 0"

fun event_valid :: "bus_event \<Rightarrow> bool" where
  "event_valid (Duck b d) \<longleftrightarrow> 0 \<le> b \<and> b < 16"
| "event_valid (Mute b m) \<longleftrightarrow> 0 \<le> b \<and> b < 16"
| "event_valid (Port out mb) \<longleftrightarrow> 0 \<le> og_bus_num out \<and> og_bus_num out < 16 \<and> 0 < og_step_value out"
| "event_valid (Ipcc ret data) \<longleftrightarrow> True"

inductive bus_run :: "(int \<Rightarrow> int \<Rightarrow> int \<Rightarrow> int \<Rightarrow> rat) \<Rightarrow> (dsp_cmd \<Rightarrow> int) \<Rightarrow> rpmsg_env
    \<Rightarrow> audio_bus_status \<Rightarrow> bus_event list \<Rightarrow> audio_bus_status \<Rightarrow> bool"
  for curve dsp env where
  bus_run_Nil: "bus_run curve dsp env st [] st"
| bus_run_snoc: "bus_run curve dsp env st evs st' \<Longrightarrow> bus_event_step curve dsp env st' ev = Inr (st'', cmds)
    \<Longrightarrow> bus_run curve dsp env st (evs @ [ev]) st''"

inductive_cases bus_run_snocE: "bus_run curve dsp env st (evs @ [ev]) st'"

lemma bus_event_step_ok:
  assumes "bus_ok st" and "event_valid ev"
  shows "\<exists>st' cmds. bus_event_step curve dsp env st ev = Inr (st', cmds) \<and> bus_ok st' \<and>
    list_all (level_ok st' (event_bus ev)) cmds"
proof (cases ev)
  case (Duck b d)
  then show ?thesis using assms duck.step_ok [OF assms(1), of b dsp d] by (simp add: bus_event_step_def)
next
  case (Mute b m)
  then show ?thesis using assms mute.step_ok [OF assms(1), of b dsp m] by (simp add: bus_event_step_def)
next
  case (Port out mb)
  define k where "k = nat (og_step_value out - 1)"
  have "out = out\<lparr>og_bus_num := og_bus_num out, og_step_value := int k + 1\<rparr>" using assms(2) Port by (simp add: k_def)
  then show ?thesis
    using assms Port port.step_ok [OF assms(1), where b = "og_bus_num out" and out = out and step = k and mb = mb and curve = curve and dsp = dsp] by (simp add: bus_event_step_def)
next
  case (Ipcc ret data)
  then show ?thesis using assms(1) bus_ok_updates(4) [OF assms(1)]
    by (auto simp: bus_event_step_def audio_ipcc_iter_def Let_def)
qed

lemma bus_run_ok:
  "bus_run curve dsp env st evs st' \<Longrightarrow> bus_ok st \<Longrightarrow> list_all event_valid evs \<Longrightarrow> bus_ok st'"
proof (induction rule: bus_run.induct)
  case (bus_run_snoc st evs st' ev st'' cmds)
  then have "bus_ok st'" "event_valid ev" by simp_all
  then show ?case using bus_event_step_ok [of st' ev curve dsp env] bus_run_snoc.hyps(2) by auto
qed

section \<open>Paths and retries\<close>

text \<open>
  The abstract path: the number of streams that use it.  It is started by every open, and stopped by the
  close of the last stream only; closing an unused path does nothing.
\<close>

datatype path_event = P_open int | P_close int

definition path_step :: "rpmsg_env \<Rightarrow> int \<times> path_state list \<Rightarrow> path_event \<Rightarrow> (int \<times> path_state list) \<times> ipcc_data list" where
  "path_step env s ev = (case ev of P_open b \<Rightarrow> open_output_path env s b | P_close b \<Rightarrow> close_output_path env s b)"

fun path_run :: "rpmsg_env \<Rightarrow> int \<times> path_state list \<Rightarrow> path_event list \<Rightarrow> (int \<times> path_state list) \<times> ipcc_data list" where
  "path_run env s [] = (s, [])"
| "path_run env s (ev # evs) =
     (let (s, sent) = path_step env s ev; (s, rest) = path_run env s evs in (s, sent @ rest))"

definition hifi_bus :: "int \<Rightarrow> bool" where
  "hifi_bus b \<longleftrightarrow> b = 0 \<or> b = 5 \<or> b = 9"

fun users_step :: "nat \<Rightarrow> path_event \<Rightarrow> nat \<times> (am_opcode \<times> string) list" where
  "users_step n (P_open b) =
     (if hifi_bus b then (n + 1, [(OP_START, HIFI_PLAYBACK_TO_MAIN_SPK_48K)])
      else if b = 3 then (n, [(OP_START, NAV_PLAYBACK_TO_MAIN_SPK_48K)]) else (n, []))"
| "users_step n (P_close b) =
     (if hifi_bus b then (n - 1, if n = 1 then [(OP_STOP, HIFI_PLAYBACK_TO_MAIN_SPK_48K)] else [])
      else if b = 3 then (n, [(OP_STOP, NAV_PLAYBACK_TO_MAIN_SPK_48K)]) else (n, []))"

fun users_run :: "nat \<Rightarrow> path_event list \<Rightarrow> nat \<times> (am_opcode \<times> string) list" where
  "users_run n [] = (n, [])"
| "users_run n (ev # evs) = (let (n, out) = users_step n ev; (n, rest) = users_run n evs in (n, out @ rest))"

definition cmd_pack :: "am_opcode \<times> string \<Rightarrow> ipcc_data" where
  "cmd_pack = (\<lambda>(cmd, path). path_pack cmd path (if cmd = OP_START then HIFI_PATH_FIXED_VOL else 0))"

lemma hifi_not_nav [simp]:
  "HIFI_PLAYBACK_TO_MAIN_SPK_48K \<noteq> NAV_PLAYBACK_TO_MAIN_SPK_48K"
  "NAV_PLAYBACK_TO_MAIN_SPK_48K \<noteq> HIFI_PLAYBACK_TO_MAIN_SPK_48K"
  by (simp_all add: HIFI_PLAYBACK_TO_MAIN_SPK_48K_def NAV_PLAYBACK_TO_MAIN_SPK_48K_def)

lemma path_step_users:
  assumes "0 < remote" and "n + 1 < 2 ^ 31"
  shows "path_step env (remote, [(HIFI_PLAYBACK_TO_MAIN_SPK_48K, int n)]) ev =
    ((remote, [(HIFI_PLAYBACK_TO_MAIN_SPK_48K, int (fst (users_step n ev)))]), map cmd_pack (snd (users_step n ev)))"
proof -
  have up: "s32 (int n + 1) = int n + 1" and down: "s32 (int n - 1) = int n - 1"
    using assms(2) by (simp_all add: s32_id)
  show ?thesis
    by (cases ev) (use assms(1) up down in \<open>auto simp: path_step_def open_output_path_def close_output_path_def
      select_path_def hifi_bus_def cmd_pack_def remote_ops ipcc_ctrl_def Let_def\<close>)
qed

lemma users_step_le: "fst (users_step n ev) \<le> n + 1"
  by (cases ev) auto

lemma path_run_users:
  assumes "0 < remote" and "n + length evs < 2 ^ 31"
  shows "path_run env (remote, [(HIFI_PLAYBACK_TO_MAIN_SPK_48K, int n)]) evs =
    ((remote, [(HIFI_PLAYBACK_TO_MAIN_SPK_48K, int (fst (users_run n evs)))]), map cmd_pack (snd (users_run n evs)))"
  using assms(2)
proof (induction evs arbitrary: n)
  case (Cons ev evs)
  have "fst (users_step n ev) + length evs < 2 ^ 31" using users_step_le [of n ev] Cons.prems by simp
  then show ?case
    using Cons.IH [of "fst (users_step n ev)"] path_step_users [OF assms(1), of n env ev] Cons.prems
    by (simp add: case_prod_beta Let_def)
qed simp

text \<open>The retries: at most one more than the count, and the first usable device is taken.\<close>

lemma ex_le_Suc_shift: "(\<exists>i\<le>Suc n. P i) \<longleftrightarrow> P 0 \<or> (\<exists>i\<le>n. P (Suc i))"
  by (metis Suc_le_mono le0 not0_implies_Suc)

lemma open_retry_loop_spec:
  "open_retry_loop attempt k n =
     (if \<exists>i\<le>n. attempt (k + i) = Open_ready then (True, Suc k + (LEAST i. attempt (k + i) = Open_ready))
      else (False, Suc (k + n)))"
proof (induction n arbitrary: k)
  case 0
  show ?case
    by (subst open_retry_loop.simps) (auto intro!: Least_equality [symmetric])
next
  case (Suc n)
  show ?case
  proof (cases "attempt k = Open_ready")
    case True
    then have "(LEAST i. attempt (k + i) = Open_ready) = 0" by (intro Least_equality) auto
    then show ?thesis using True by (subst open_retry_loop.simps) (auto intro: exI [of _ 0])
  next
    case False
    have shift: "(\<exists>i\<le>Suc n. attempt (k + i) = Open_ready) \<longleftrightarrow> (\<exists>i\<le>n. attempt (Suc k + i) = Open_ready)"
      using False by (subst ex_le_Suc_shift) simp
    have least: "(LEAST i. attempt (k + i) = Open_ready) = Suc (LEAST i. attempt (Suc k + i) = Open_ready)"
      if "attempt (Suc k + i) = Open_ready" for i
      using Least_Suc [of "\<lambda>i. attempt (k + i) = Open_ready" "Suc i"] that False by simp
    show ?thesis using Suc.IH [of "Suc k"] False shift least by (subst open_retry_loop.simps) auto
  qed
qed

section \<open>Behaviour at the limits\<close>

text \<open>The rear seat passes the test of the address, but its bus number is outside the arrays.\<close>

lemma rear_port_out_of_range:
  assumes "bus_ok st" and "og_bus_address out = ''bus100_rear_seat1''" and "og_bus_num out = 100" and "og_step_value out \<noteq> 0"
  shows "adev_set_audio_port_config curve dsp st (Some out) mb = Inl Bad_access"
  using assms by (simp add: adev_set_audio_port_config_def port_addresses_def bus_ok_def Let_def)

text \<open>Muting a bus that is not active sends a command to the channel of its slot all the same.\<close>

lemma mute_inactive_bus:
  assumes "bus_ok st" and "b < 16" and "bus_active st ! b = 0" and "slot_index st ! b = 0"
  shows "\<exists>st'. set_device_address_is_muted dsp st (int b) True = Inr (st', [Set_volume CHANNEL_MEDIA_MUSIC 0])"
    and "\<exists>st'. set_device_address_is_ducked dsp st (int b) True = Inr (st', [])"
proof -
  note ok = bus_ok_updates(2) [OF assms(1), of b True]
  have "set_bus_volume dsp (st\<lparr>is_muted := (is_muted st)[b := True]\<rparr>) (int b) =
      Inr ([Set_volume CHANNEL_MEDIA_MUSIC 0], dsp (Set_volume CHANNEL_MEDIA_MUSIC 0))"
    using set_bus_volume_level [OF ok, of "int b" dsp] assms
    by (simp add: slot_set_volume_def slot_channel_def bus_level_def bus_ok_def)
  then show "\<exists>st'. set_device_address_is_muted dsp st (int b) True = Inr (st', [Set_volume CHANNEL_MEDIA_MUSIC 0])"
    using assms by (simp add: set_device_address_is_muted_def bus_ok_def Let_def)
  show "\<exists>st'. set_device_address_is_ducked dsp st (int b) True = Inr (st', [])"
    using assms by (simp add: set_device_address_is_ducked_def bus_ok_def Let_def)
qed

end
