(* ===== verification/Hal_Streamer.thy ===== *)
theory Hal_Streamer
  imports Audio_Sharing Bus_Volume
begin

text \<open>
  \<open>hal_streamer.c\<close> of the audio HAL: the output streams of one sound card are written into ring buffers,
  one per bus, and a thread mixes one period of every bus into the slots of the 8-channel frames of the
  card; the input streams are filled by a capture thread.

  Parameters: \<open>bits\<close> is \<open>pcm_format_to_bits\<close>, \<open>rbuf\<close> what \<open>audio_circlebuf_create_pcm\<close> returns for channels,
  format and rate, \<open>attempt\<close> and \<open>prepare\<close> what the sound driver returns, \<open>created\<close> the result of
  \<open>pthread_create\<close>, \<open>dsp\<close> the results of the DSP library, \<open>slot0\<close> the first slot the platform has for a
  bus.  What a thread or a call writes to the card is part of its result.  A stream refers to its handle
  by the index in the table.  A loop that polls a ring buffer is given the states it sees, and has no
  result when it has not ended after them.
\<close>

definition MAX_CLIENT_NUM :: nat where "MAX_CLIENT_NUM = 16"
definition MAX_STREAMERS :: nat where "MAX_STREAMERS = 8"
definition PCM_DATA_DEFAULT_BYTES :: nat where "PCM_DATA_DEFAULT_BYTES = 16 * 1024"
definition PROXY_OPEN_RETRY_COUNT :: nat where "PROXY_OPEN_RETRY_COUNT = 100"
definition READ_TIMEOUT_LIMITS :: nat where "READ_TIMEOUT_LIMITS = 10"
definition PCM_FORMAT_S16_LE :: int where "PCM_FORMAT_S16_LE = 0"

datatype stream_direction = PLAYBACK_STREAM | CAPTURE_STREAM
datatype in_device = AUDIO_DEVICE_IN_BUILTIN_MIC | AUDIO_DEVICE_IN_TELEPHONY_RX | IN_DEVICE_OTHER

definition FOUR_MIC_CAP :: nat where "FOUR_MIC_CAP = 0"
definition BUILD_IN_MIC_CAP :: nat where "BUILD_IN_MIC_CAP = 2"
definition EXT_MIC_CAP :: nat where "EXT_MIC_CAP = 3"

text \<open>\<open>bus_state\<close> and \<open>cap_state\<close> are \<open>uint16_t\<close>: setting a bit of a larger position has no effect.\<close>

definition get_bit_c :: "16 word \<Rightarrow> nat \<Rightarrow> bool" where "get_bit_c dat i = bit dat i"
definition set_bit_c :: "16 word \<Rightarrow> nat \<Rightarrow> 16 word" where "set_bit_c dat i = dat OR push_bit i 1"
definition clear_bit_c :: "16 word \<Rightarrow> nat \<Rightarrow> 16 word" where "clear_bit_c dat i = dat AND NOT (push_bit i 1)"

record hal_streamer =
  hs_name :: string
  hs_card :: int
  hs_port :: int
  hs_ref_cnt :: int
  hs_allocated :: bool
  hs_bind_bus :: "int list"
  hs_bind_bus_len :: int
  hs_pcm :: bool
  hs_channels :: int
  hs_format :: int
  hs_rate :: int
  hs_plbk_exit :: bool
  hs_plbk_hold :: bool
  hs_cap_exit :: bool
  hs_bus_rbuf :: "circlebuf option list"
  hs_cap_rbuf :: "circlebuf option list"
  hs_bus_state :: "16 word"
  hs_cap_state :: "16 word"
  hs_dir :: stream_direction
  hs_bus_buf_sz :: "int list"

record alsa_stream_out =
  so_channels :: int
  so_format :: int
  so_bus_address :: string
  so_bus_num :: int
  so_pcm :: bool
  so_pcm_hdl :: "nat option"

record alsa_stream_in =
  si_channels :: int
  si_format :: int
  si_rate :: int
  si_devices :: in_device
  si_pcm :: bool
  si_pcm_hdl :: "nat option"

record pcm_config =
  pc_format :: int
  pc_rate :: int
  pc_channels :: int
  pc_period_size :: int
  pc_period_count :: int

text \<open>The macros are evaluated on unsigned arguments.\<close>

definition CALCULATE_BYTES :: "(int \<Rightarrow> int) \<Rightarrow> int \<Rightarrow> int \<Rightarrow> int \<Rightarrow> int \<Rightarrow> int" where
  "CALCULATE_BYTES bits ch format rate period_ms =
     u32 (u32 (ch * shr (bits format) 3) * u32 (rate * period_ms)) div 1000"

section \<open>The table of streamers\<close>

definition strncpy_c :: "string \<Rightarrow> string \<Rightarrow> int \<Rightarrow> c_error + string" where
  "strncpy_c dst src n = memcpy dst 0 (src @ replicate (nat n) NUL) 0 n"

fun find_streamer :: "(hal_streamer \<Rightarrow> bool) \<Rightarrow> nat \<Rightarrow> hal_streamer list \<Rightarrow> nat option" where
  "find_streamer P i [] = None"
| "find_streamer P i (h # hs) = (if P h then Some i else find_streamer P (Suc i) hs)"

text \<open>The second search of \<open>hal_streamer_bind_bus\<close> goes on after a hit: the last free entry is taken.\<close>

fun last_streamer :: "(hal_streamer \<Rightarrow> bool) \<Rightarrow> nat \<Rightarrow> hal_streamer list \<Rightarrow> nat option \<Rightarrow> nat option" where
  "last_streamer P i [] hdl = hdl"
| "last_streamer P i (h # hs) hdl = last_streamer P (Suc i) hs (if P h then Some i else hdl)"

definition bind_append :: "hal_streamer list \<Rightarrow> nat \<Rightarrow> int \<Rightarrow> c_error + hal_streamer list \<times> int" where
  "bind_append g i bind_bus =
     (let hdl = g ! i
      in and_then (arr_set (hs_bind_bus hdl) (hs_bind_bus_len hdl) bind_bus) (\<lambda>bs.
         Inr (g[i := hdl\<lparr>hs_bind_bus := bs, hs_bind_bus_len := hs_bind_bus_len hdl + 1\<rparr>], 0)))"

definition hal_streamer_bind_bus ::
    "hal_streamer list \<Rightarrow> string \<Rightarrow> int \<Rightarrow> int \<Rightarrow> c_error + hal_streamer list \<times> int" where
  "hal_streamer_bind_bus g name len bind_bus =
     (case find_streamer (\<lambda>h. hs_allocated h \<and> c_string (hs_name h) = name) 0 g of
        Some i \<Rightarrow> bind_append g i bind_bus
      | None \<Rightarrow>
          (case last_streamer (\<lambda>h. \<not> hs_allocated h) 0 g None of
             None \<Rightarrow> Inr (g, -12)
           | Some i \<Rightarrow>
               and_then (strncpy_c (hs_name (g ! i)) name len) (\<lambda>nm.
                 bind_append (g[i := (g ! i)\<lparr>hs_allocated := True, hs_name := nm\<rparr>]) i bind_bus)))"

definition probe_in :: "hal_streamer list \<Rightarrow> hal_streamer list \<times> nat option" where
  "probe_in g =
     (case find_streamer (\<lambda>h. \<not> hs_allocated h) 0 g of None \<Rightarrow> (g, None)
      | Some i \<Rightarrow> (g[i := (g ! i)\<lparr>hs_dir := CAPTURE_STREAM\<rparr>], Some i))"

definition bound_to :: "int \<Rightarrow> hal_streamer \<Rightarrow> bool" where
  "bound_to bus h \<longleftrightarrow> hs_allocated h \<and> bus \<in> set (take (nat (hs_bind_bus_len h)) (hs_bind_bus h))"

text \<open>\<open>hdl\<close> keeps the last allocated entry when no entry is bound to the bus.\<close>

definition probe_out :: "hal_streamer list \<Rightarrow> int \<Rightarrow> hal_streamer list \<times> nat option" where
  "probe_out g bus_num =
     (let hdl = (case find_streamer (bound_to bus_num) 0 g of
                   Some i \<Rightarrow> Some i | None \<Rightarrow> last_streamer hs_allocated 0 g None)
      in case hdl of None \<Rightarrow> (g, None)
         | Some i \<Rightarrow> (g[i := (g ! i)\<lparr>hs_dir := PLAYBACK_STREAM\<rparr>], Some i))"

section \<open>Mixing\<close>

text \<open>The text of \<open>pcm_16_areas_copy\<close> is that of the function of the same name of \<open>audio_sharing.c\<close>.\<close>

definition streamer_areas_copy ::
    "int \<Rightarrow> int list option \<Rightarrow> int \<Rightarrow> int list option \<Rightarrow> int \<Rightarrow> int \<Rightarrow> c_error + int list option \<times> int" where
  "streamer_areas_copy = pcm_16_areas_copy"

text \<open>
  The sum is kept in an \<open>int16_t\<close>, so it wraps and is never outside the range the comparisons test.
  \<open>doff\<close> and \<open>soff\<close> are the offsets of the pointers passed.
\<close>

definition mix_sample :: "int \<Rightarrow> int \<Rightarrow> int" where
  "mix_sample a b =
     (let mixed = s16 (a + b)
      in if mixed > 32767 then 32767 else if mixed < -32768 then -32768 else mixed)"

fun mix_loop :: "int \<Rightarrow> int \<Rightarrow> int \<Rightarrow> int \<Rightarrow> int list \<Rightarrow> int list \<Rightarrow> int list \<Rightarrow> c_error + int list" where
  "mix_loop doff soff dst_ch src_ch src [] dst = Inr dst"
| "mix_loop doff soff dst_ch src_ch src (i # is) dst =
     and_then (arr_get dst (doff + i * dst_ch)) (\<lambda>a.
     and_then (arr_get src (soff + i * src_ch)) (\<lambda>b.
     and_then (arr_set dst (doff + i * dst_ch) (mix_sample a b)) (\<lambda>dst.
       mix_loop doff soff dst_ch src_ch src is dst)))"

definition pcm_16_areas_mix ::
    "int \<Rightarrow> int list \<Rightarrow> int \<Rightarrow> int list \<Rightarrow> int \<Rightarrow> int \<Rightarrow> int \<Rightarrow> c_error + int list \<times> int" where
  "pcm_16_areas_mix frames dst doff src soff src_ch dst_ch =
     (if src_ch = 0 then Inl Div_by_zero
      else and_then (mix_loop doff soff dst_ch src_ch src [0..frames div src_ch - 1] dst) (\<lambda>dst.
           Inr (dst, frames * (dst_ch div src_ch))))"

fun channel_loop :: "int \<Rightarrow> int \<Rightarrow> int \<Rightarrow> int \<Rightarrow> int list \<Rightarrow> int list \<Rightarrow> int list \<Rightarrow> c_error + int list" where
  "channel_loop in_frames out_oft ch dst_ch inp [] out = Inr out"
| "channel_loop in_frames out_oft ch dst_ch inp (i # is) out =
     and_then (pcm_16_areas_mix in_frames out (out_oft + i) inp i ch dst_ch) (\<lambda>(out, n).
       channel_loop in_frames out_oft ch dst_ch inp is out)"

definition slot_map_process_buf ::
    "(int \<Rightarrow> int) \<Rightarrow> audio_bus_status \<Rightarrow> hal_streamer \<Rightarrow> int list \<Rightarrow> int list \<Rightarrow> int \<Rightarrow> nat \<Rightarrow> c_error + int list" where
  "slot_map_process_buf slot0 st hdl out inp in_frames bus =
     (let ch = u32 (audio_circlebuf_get_ch (hs_bus_rbuf hdl ! bus))
      in and_then (arr_get (slot_index st) (int bus)) (\<lambda>idx.
         let out_oft = (if idx = slot0 (int bus) then slot0 (int bus) else idx)
         in channel_loop in_frames out_oft ch (hs_channels hdl) inp [0..ch - 1] out))"

text \<open>One bus of the loop of \<open>do_channel_map\<close>; \<open>in_tmp\<close> is the local array of 16 KiB.\<close>

definition map_bus ::
    "(int \<Rightarrow> int) \<Rightarrow> audio_bus_status \<Rightarrow> nat \<Rightarrow> hal_streamer \<times> byte list \<times> int list
      \<Rightarrow> c_error + hal_streamer \<times> byte list \<times> int list" where
  "map_bus slot0 st active_bus = (\<lambda>(hdl, in_tmp, out_tmp).
     if \<not> get_bit_c (hs_bus_state hdl) active_bus \<or> active_bus = 2 then Inr (hdl, in_tmp, out_tmp)
     else
       let buf_size = hs_bus_buf_sz hdl ! active_bus
       in and_then (memcpy in_tmp 0 (replicate (nat buf_size) 0) 0 buf_size) (\<lambda>in_tmp.
          case hs_bus_rbuf hdl ! active_bus of
            None \<Rightarrow> Inl Null_pointer
          | Some rb \<Rightarrow>
              if audio_circlebuf_used rb \<ge> buf_size
              then and_then (audio_circlebuf_read (Some rb) in_tmp 0 buf_size) (\<lambda>(rb, in_tmp, n).
                   let hdl = hdl\<lparr>hs_bus_rbuf := (hs_bus_rbuf hdl)[active_bus := rb]\<rparr>
                   in and_then (slot_map_process_buf slot0 st hdl out_tmp (s16_of_bytes in_tmp) (buf_size div 2) active_bus)
                        (\<lambda>out_tmp. Inr (hdl, in_tmp, out_tmp)))
              else Inr (hdl, in_tmp, out_tmp)))"

fun map_loop ::
    "(int \<Rightarrow> int) \<Rightarrow> audio_bus_status \<Rightarrow> nat list \<Rightarrow> hal_streamer \<times> byte list \<times> int list
      \<Rightarrow> c_error + hal_streamer \<times> byte list \<times> int list" where
  "map_loop slot0 st [] s = Inr s"
| "map_loop slot0 st (b # bs) s = and_then (map_bus slot0 st b s) (map_loop slot0 st bs)"

definition do_channel_map ::
    "(int \<Rightarrow> int) \<Rightarrow> audio_bus_status \<Rightarrow> byte list \<Rightarrow> hal_streamer \<Rightarrow> int list \<Rightarrow> c_error + hal_streamer \<times> int list" where
  "do_channel_map slot0 st in_tmp hdl out_tmp =
     and_then (map_loop slot0 st [0..<MAX_CLIENT_NUM] (hdl, in_tmp, out_tmp)) (\<lambda>(hdl, in_tmp, out_tmp). Inr (hdl, out_tmp))"

text \<open>
  One iteration of \<open>playback_thread_loop\<close>; \<open>in_tmp\<close> and \<open>out_tmp\<close> are the contents of the local arrays.
  The result is the handle and the samples handed to \<open>pcm_write\<close>.
\<close>

definition playback_iter ::
    "(int \<Rightarrow> int) \<Rightarrow> (int \<Rightarrow> int) \<Rightarrow> audio_bus_status \<Rightarrow> byte list \<Rightarrow> int list \<Rightarrow> hal_streamer
      \<Rightarrow> c_error + hal_streamer \<times> int list option" where
  "playback_iter bits slot0 st in_tmp out_tmp hdl =
     (let buf_size = CALCULATE_BYTES bits (hs_channels hdl) PCM_FORMAT_S16_LE 48000 20
      in if hs_plbk_exit hdl \<or> hs_plbk_hold hdl \<or> \<not> hs_pcm hdl then Inr (hdl, None)
         else and_then (memcpy out_tmp 0 (replicate (nat (buf_size div 2)) 0) 0 (buf_size div 2)) (\<lambda>out_tmp.
              and_then (do_channel_map slot0 st in_tmp hdl out_tmp) (\<lambda>(hdl, out_tmp).
                Inr (hdl, Some (take (nat (buf_size div 2)) out_tmp)))))"

section \<open>Capture\<close>

text \<open>The slot of the source is always the first one.\<close>

definition select_cap_slot_s16 ::
    "int list \<Rightarrow> int \<Rightarrow> int \<Rightarrow> int list \<Rightarrow> int \<Rightarrow> int \<Rightarrow> c_error + int list \<times> int" where
  "select_cap_slot_s16 dst doff dst_ch src src_ch src_frames =
     (if src_ch = 0 then Inl Div_by_zero
      else let n = src_frames div src_ch; src_slot_base = 0
           in and_then (copy_loop (\<lambda>i. doff + i * dst_ch) (\<lambda>i. i * src_ch + src_slot_base) 1 src [0..n - 1] dst) (\<lambda>dst.
              Inr (dst, max 0 n)))"

fun cap_channels :: "int \<Rightarrow> int list \<Rightarrow> int \<Rightarrow> int \<Rightarrow> int list \<Rightarrow> int list \<times> int \<Rightarrow> c_error + int list \<times> int" where
  "cap_channels dst_ch src src_ch src_frames [] acc = Inr acc"
| "cap_channels dst_ch src src_ch src_frames (c # cs) acc =
     and_then (select_cap_slot_s16 (fst acc) c dst_ch src src_ch src_frames) (cap_channels dst_ch src src_ch src_frames cs)"

definition cap_target :: "hal_streamer \<Rightarrow> nat" where
  "cap_target hdl =
     (if get_bit_c (hs_cap_state hdl) BUILD_IN_MIC_CAP then BUILD_IN_MIC_CAP
      else if get_bit_c (hs_cap_state hdl) EXT_MIC_CAP then EXT_MIC_CAP else FOUR_MIC_CAP)"

text \<open>One iteration of \<open>capture_thread_loop\<close>; \<open>pcm_buf\<close> is the array after \<open>pcm_read\<close>.\<close>

definition capture_iter ::
    "(int \<Rightarrow> int) \<Rightarrow> byte list \<Rightarrow> int list \<Rightarrow> hal_streamer \<Rightarrow> c_error + hal_streamer \<times> int list" where
  "capture_iter bits pcm_buf processed_buf hdl =
     (if hs_cap_exit hdl then Inr (hdl, processed_buf)
      else
        let src_bytes = CALCULATE_BYTES bits (hs_channels hdl) (hs_format hdl) (hs_rate hdl) 20;
            src_frames = src_bytes div shr (bits (hs_format hdl)) 3;
            t = cap_target hdl;
            target_rbuf = hs_cap_rbuf hdl ! t;
            device_channels = audio_circlebuf_get_ch target_rbuf;
            device_fmt = audio_circlebuf_get_fmt target_rbuf;
            put = (\<lambda>data n. and_then (audio_circlebuf_write target_rbuf (Some data) n) (\<lambda>(rb, w).
                    Inr (hdl\<lparr>hs_cap_rbuf := (hs_cap_rbuf hdl)[t := rb]\<rparr>)))
        in if hs_channels hdl \<noteq> u32 device_channels
           then and_then (cap_channels device_channels (s16_of_bytes pcm_buf) (hs_channels hdl) src_frames
                            [0..device_channels - 1] (processed_buf, 0)) (\<lambda>(processed_buf, dst_frames).
                and_then (put (concat (map bytes_of_s16 processed_buf)) (dst_frames * device_channels * shr (bits device_fmt) 3)) (\<lambda>hdl.
                  Inr (hdl, processed_buf)))
           else and_then (put pcm_buf src_bytes) (\<lambda>hdl. Inr (hdl, processed_buf)))"

section \<open>Opening\<close>

text \<open>
  The slot of the DSP: when the slot of the bus is taken, every free slot from 1 to 3 is marked, because the
  loop does not stop at the first one, and the last of them is the slot of the bus.
\<close>

definition take_free_slot :: "int \<Rightarrow> nat \<Rightarrow> audio_bus_status \<Rightarrow> audio_bus_status" where
  "take_free_slot bus i st =
     (if slot_in_use st ! i = 1 then st
      else st\<lparr>slot_in_use := (slot_in_use st)[i := 1], slot_index := (slot_index st)[nat bus := 2 * int i]\<rparr>)"

definition open_slot :: "audio_bus_status \<Rightarrow> int \<Rightarrow> c_error + audio_bus_status" where
  "open_slot st bus =
     and_then (arr_get (slot_index st) bus) (\<lambda>idx.
     and_then (arr_get (slot_in_use st) (idx div 2)) (\<lambda>used.
       if used = 1 then Inr (fold (take_free_slot bus) [1, 2, 3] st)
       else Inr (st\<lparr>slot_in_use := (slot_in_use st)[nat (idx div 2) := 1]\<rparr>)))"

definition mono_cmds :: "int \<Rightarrow> int \<Rightarrow> dsp_cmd list" where
  "mono_cmds bus slot =
     (if bus \<in> {1, 2, 3, 6}
      then let on = (bus = 1 \<or> bus = 6)
           in if slot = 2 then [Set_secondary_mono_all on] else if slot = 4 then [Set_phone_mono_all on]
              else if slot = 6 then [Set_navi_mono_all on] else []
      else [])"

definition prepare_rbuf_out :: "(int \<Rightarrow> int \<Rightarrow> int \<Rightarrow> circlebuf option) \<Rightarrow> hal_streamer \<Rightarrow> alsa_stream_out \<Rightarrow> c_error + hal_streamer" where
  "prepare_rbuf_out rbuf hdl out =
     and_then (arr_set (hs_bus_rbuf hdl) (so_bus_num out) (rbuf (so_channels out) (so_format out) (hs_rate hdl))) (\<lambda>rbs.
       Inr (hdl\<lparr>hs_bus_rbuf := rbs\<rparr>))"

definition prepare_rbuf_in :: "(int \<Rightarrow> int \<Rightarrow> int \<Rightarrow> circlebuf option) \<Rightarrow> hal_streamer \<Rightarrow> alsa_stream_in \<Rightarrow> hal_streamer" where
  "prepare_rbuf_in rbuf hdl inp =
     (let rb = rbuf (si_channels inp) (si_format inp) (si_rate inp)
      in case si_devices inp of
           AUDIO_DEVICE_IN_BUILTIN_MIC \<Rightarrow> hdl\<lparr>hs_cap_rbuf := (hs_cap_rbuf hdl)[BUILD_IN_MIC_CAP := rb]\<rparr>
         | AUDIO_DEVICE_IN_TELEPHONY_RX \<Rightarrow> hdl\<lparr>hs_cap_rbuf := (hs_cap_rbuf hdl)[EXT_MIC_CAP := rb]\<rparr>
         | IN_DEVICE_OTHER \<Rightarrow> hdl)"

definition stream_playback_prepare :: "hal_streamer \<Rightarrow> hal_streamer" where
  "stream_playback_prepare hdl = hdl\<lparr>hs_plbk_exit := False, hs_plbk_hold := False\<rparr>"

definition stream_capture_prepare :: "hal_streamer \<Rightarrow> hal_streamer" where
  "stream_capture_prepare hdl = hdl\<lparr>hs_cap_exit := False\<rparr>"

definition open_device :: "(nat \<Rightarrow> open_outcome) \<Rightarrow> int \<Rightarrow> hal_streamer \<Rightarrow> int \<Rightarrow> int \<Rightarrow> pcm_config \<Rightarrow> hal_streamer" where
  "open_device attempt prepare hdl card_id port cfg =
     hdl\<lparr>hs_card := card_id, hs_port := port, hs_format := pc_format cfg, hs_rate := pc_rate cfg, hs_channels := pc_channels cfg,
         hs_pcm := fst (pcm_open_prepare_helper attempt prepare PROXY_OPEN_RETRY_COUNT)\<rparr>"

definition attach_out :: "hal_streamer \<Rightarrow> alsa_stream_out \<Rightarrow> hal_streamer \<times> alsa_stream_out \<times> bool" where
  "attach_out hdl out =
     (hdl\<lparr>hs_bus_state := set_bit_c (hs_bus_state hdl) (nat (so_bus_num out)), hs_ref_cnt := hs_ref_cnt hdl + 1\<rparr>,
      out\<lparr>so_pcm := hs_pcm hdl\<rparr>, True)"

text \<open>The part of \<open>hal_streamer_open\<close> under the lock of the handle, for playback.  \<open>False\<close> is \<open>error_open\<close>.\<close>

definition open_handle_out ::
    "(int \<Rightarrow> int \<Rightarrow> int \<Rightarrow> circlebuf option) \<Rightarrow> (nat \<Rightarrow> open_outcome) \<Rightarrow> int \<Rightarrow> int \<Rightarrow> hal_streamer \<Rightarrow> alsa_stream_out
      \<Rightarrow> int \<Rightarrow> int \<Rightarrow> pcm_config \<Rightarrow> c_error + hal_streamer \<times> alsa_stream_out \<times> bool" where
  "open_handle_out rbuf attempt prepare created hdl out card_id port cfg =
     (if hs_ref_cnt hdl = 0
      then and_then (prepare_rbuf_out rbuf (open_device attempt prepare hdl card_id port cfg) out) (\<lambda>hdl.
             if \<not> hs_pcm hdl then Inr (hdl, out\<lparr>so_pcm := False\<rparr>, False)
             else let hdl = stream_playback_prepare hdl
                  in if created \<noteq> 0 then Inr (hdl, out\<lparr>so_pcm := False\<rparr>, False)
                     else Inr (attach_out hdl out))
      else and_then (prepare_rbuf_out rbuf hdl out) (\<lambda>hdl. Inr (attach_out hdl out)))"

definition hal_streamer_open_out ::
    "(int \<Rightarrow> int) \<Rightarrow> (int \<Rightarrow> int \<Rightarrow> int \<Rightarrow> circlebuf option) \<Rightarrow> (nat \<Rightarrow> open_outcome) \<Rightarrow> int \<Rightarrow> int \<Rightarrow> (dsp_cmd \<Rightarrow> int)
      \<Rightarrow> hal_streamer list \<Rightarrow> audio_bus_status \<Rightarrow> alsa_stream_out \<Rightarrow> int \<Rightarrow> int \<Rightarrow> pcm_config
      \<Rightarrow> c_error + hal_streamer list \<times> audio_bus_status \<times> alsa_stream_out \<times> dsp_cmd list \<times> nat option" where
  "hal_streamer_open_out bits rbuf attempt prepare created dsp g st out card_id port cfg =
     (let bus = so_bus_num out in
      case probe_out g bus of (g, None) \<Rightarrow> Inl Null_pointer
      | (g, Some i) \<Rightarrow>
          and_then (arr_set (hs_bus_buf_sz (g ! i)) bus
                      (s32 (CALCULATE_BYTES bits (so_channels out) (so_format out) (pc_rate cfg) 20))) (\<lambda>szs.
          and_then (open_slot st bus) (\<lambda>st.
          and_then (set_bus_volume dsp st bus) (\<lambda>(cmds, ret).
          and_then (arr_get (slot_index st) bus) (\<lambda>slot.
          and_then (arr_set (bus_active st) bus 1) (\<lambda>act.
          and_then (open_handle_out rbuf attempt prepare created ((g ! i)\<lparr>hs_bus_buf_sz := szs\<rparr>) out card_id port cfg)
            (\<lambda>(hdl, out, ok).
               Inr (g[i := hdl], st\<lparr>bus_active := act\<rparr>, out, cmds @ mono_cmds bus slot, if ok then Some i else None))))))))"

text \<open>For capture, \<open>error_open\<close> writes through the pointer \<open>out\<close>, which has no value there.\<close>

definition attach_in :: "hal_streamer \<Rightarrow> alsa_stream_in \<Rightarrow> hal_streamer" where
  "attach_in hdl inp =
     (let hdl = hdl\<lparr>hs_ref_cnt := hs_ref_cnt hdl + 1\<rparr>
      in case si_devices inp of
           AUDIO_DEVICE_IN_BUILTIN_MIC \<Rightarrow> hdl\<lparr>hs_cap_state := set_bit_c (hs_cap_state hdl) BUILD_IN_MIC_CAP\<rparr>
         | AUDIO_DEVICE_IN_TELEPHONY_RX \<Rightarrow> hdl\<lparr>hs_cap_state := set_bit_c (hs_cap_state hdl) EXT_MIC_CAP\<rparr>
         | IN_DEVICE_OTHER \<Rightarrow> hdl)"

definition open_handle_in ::
    "(int \<Rightarrow> int \<Rightarrow> int \<Rightarrow> circlebuf option) \<Rightarrow> (nat \<Rightarrow> open_outcome) \<Rightarrow> int \<Rightarrow> int \<Rightarrow> hal_streamer \<Rightarrow> alsa_stream_in
      \<Rightarrow> int \<Rightarrow> int \<Rightarrow> pcm_config \<Rightarrow> c_error + hal_streamer" where
  "open_handle_in rbuf attempt prepare created hdl inp card_id port cfg =
     (if hs_ref_cnt hdl = 0
      then let hdl = prepare_rbuf_in rbuf (open_device attempt prepare hdl card_id port cfg) inp
           in if \<not> hs_pcm hdl \<or> created \<noteq> 0 then Inl Bad_access
              else Inr (attach_in (stream_capture_prepare hdl) inp)
      else Inr (attach_in (prepare_rbuf_in rbuf hdl inp) inp))"

definition hal_streamer_open_in ::
    "(int \<Rightarrow> int \<Rightarrow> int \<Rightarrow> circlebuf option) \<Rightarrow> (nat \<Rightarrow> open_outcome) \<Rightarrow> int \<Rightarrow> int
      \<Rightarrow> hal_streamer list \<Rightarrow> alsa_stream_in \<Rightarrow> int \<Rightarrow> int \<Rightarrow> pcm_config \<Rightarrow> c_error + hal_streamer list \<times> nat option" where
  "hal_streamer_open_in rbuf attempt prepare created g inp card_id port cfg =
     (case probe_in g of (g, None) \<Rightarrow> Inr (g, None)
      | (g, Some i) \<Rightarrow>
          and_then (open_handle_in rbuf attempt prepare created (g ! i) inp card_id port cfg) (\<lambda>hdl.
            Inr (g[i := hdl], Some i)))"

section \<open>Writing, reading and closing\<close>

definition strstr_c :: "string \<Rightarrow> string \<Rightarrow> bool" where
  "strstr_c s t \<longleftrightarrow> list_ex (\<lambda>k. take (length t) (drop k s) = t) [0..<Suc (length s)]"

definition BT_CALL_BUS_NAME :: string where "BT_CALL_BUS_NAME = ''bus2_phone_out''"

definition is_low_latency_bus :: "alsa_stream_out \<Rightarrow> bool" where
  "is_low_latency_bus out \<longleftrightarrow> strstr_c (so_bus_address out) BT_CALL_BUS_NAME"

text \<open>\<open>out_tmp\<close> has room for 960 frames of 8 channels; the data of a call is taken as stereo.\<close>

definition FULL_SLOT_FRAMES :: nat where "FULL_SLOT_FRAMES = 48 * 8 * 20"
definition BT_CHANNEL_CNT :: int where "BT_CHANNEL_CNT = 2"

definition phone_offset :: "audio_bus_status \<Rightarrow> int \<Rightarrow> int" where
  "phone_offset st bus =
     (if bus = 2
      then let slot = slot_index st ! nat bus in if slot = 2 then 1 else if slot = 6 then 3 else 2
      else 0)"

definition direct_write_pcm ::
    "(int \<Rightarrow> int) \<Rightarrow> (int \<Rightarrow> int) \<Rightarrow> (int list \<Rightarrow> int) \<Rightarrow> byte list \<Rightarrow> audio_bus_status \<Rightarrow> hal_streamer \<Rightarrow> alsa_stream_out
      \<Rightarrow> byte list \<Rightarrow> int \<Rightarrow> c_error + hal_streamer \<times> int list \<times> int" where
  "direct_write_pcm bits slot0 pcm_write in_tmp st hdl out data count =
     (let buf_size = CALCULATE_BYTES bits 8 PCM_FORMAT_S16_LE 48000 20;
          hdl = hdl\<lparr>hs_plbk_hold := True\<rparr>;
          width = bits (so_format out) div 8
      in if width = 0 then Inl Div_by_zero
         else and_then (streamer_areas_copy (count div width) (Some (s16_of_bytes data)) BT_CHANNEL_CNT
                          (Some (replicate FULL_SLOT_FRAMES 0)) (hs_channels hdl) (phone_offset st (so_bus_num out))) (\<lambda>(out_tmp, ret).
              and_then (do_channel_map slot0 st in_tmp hdl (the out_tmp)) (\<lambda>(hdl, out_tmp).
                if hs_pcm hdl
                then let played = take (nat (buf_size div 2)) out_tmp in Inr (hdl, played, pcm_write played)
                else Inl Null_pointer)))"

text \<open>
  \<open>polls\<close> are the states of the ring buffer at the successive tests of the loop.  The result is \<open>None\<close>
  when the call has not returned; otherwise the table, what was played directly, and the return value.
\<close>

fun write_poll :: "circlebuf list \<Rightarrow> int \<Rightarrow> circlebuf option" where
  "write_poll [] count = None"
| "write_poll (rb # rbs) count = (if u32 (audio_circlebuf_available rb) \<ge> count then Some rb else write_poll rbs count)"

definition hal_streamer_write ::
    "(int \<Rightarrow> int) \<Rightarrow> (int \<Rightarrow> int) \<Rightarrow> (int list \<Rightarrow> int) \<Rightarrow> byte list \<Rightarrow> circlebuf list \<Rightarrow> audio_bus_status \<Rightarrow> hal_streamer list
      \<Rightarrow> alsa_stream_out \<Rightarrow> byte list option \<Rightarrow> int \<Rightarrow> c_error + (hal_streamer list \<times> int list option \<times> int) option" where
  "hal_streamer_write bits slot0 pcm_write in_tmp polls st g out data count =
     (case (so_pcm out, data, so_pcm_hdl out) of
        (True, Some bytes, Some i) \<Rightarrow>
          if is_low_latency_bus out
          then and_then (direct_write_pcm bits slot0 pcm_write in_tmp st (g ! i) out bytes count) (\<lambda>(hdl, played, ret).
               Inr (Some (g[i := hdl], Some played, ret)))
          else and_then (arr_get (hs_bus_rbuf (g ! i)) (so_bus_num out)) (\<lambda>rbuf.
               case rbuf of None \<Rightarrow> Inr (Some (g, None, 0))
               | Some rb \<Rightarrow>
                   (case write_poll polls count of None \<Rightarrow> Inr None
                    | Some rb \<Rightarrow>
                        and_then (audio_circlebuf_write (Some rb) (Some bytes) (s32 count)) (\<lambda>(rb, n).
                          Inr (Some (g[i := (g ! i)\<lparr>hs_bus_rbuf := (hs_bus_rbuf (g ! i))[nat (so_bus_num out) := rb]\<rparr>], None, 0)))))
      | _ \<Rightarrow> Inr (Some (g, None, - EINVAL)))"

fun read_poll :: "(nat \<Rightarrow> circlebuf) \<Rightarrow> int \<Rightarrow> nat \<Rightarrow> nat \<Rightarrow> circlebuf option" where
  "read_poll polls count k limit =
     (if u32 (audio_circlebuf_used (polls k)) \<ge> count then Some (polls k)
      else case limit of 0 \<Rightarrow> None | Suc n \<Rightarrow> read_poll polls count (Suc k) n)"

declare read_poll.simps [simp del]

definition read_policy :: "in_device \<Rightarrow> nat" where
  "read_policy d = (case d of AUDIO_DEVICE_IN_BUILTIN_MIC \<Rightarrow> BUILD_IN_MIC_CAP
     | AUDIO_DEVICE_IN_TELEPHONY_RX \<Rightarrow> EXT_MIC_CAP | IN_DEVICE_OTHER \<Rightarrow> 0)"

definition hal_streamer_read ::
    "(nat \<Rightarrow> circlebuf) \<Rightarrow> hal_streamer list \<Rightarrow> alsa_stream_in \<Rightarrow> byte list \<Rightarrow> int
      \<Rightarrow> c_error + hal_streamer list \<times> byte list \<times> int" where
  "hal_streamer_read polls g inp data count =
     (case si_pcm_hdl inp of None \<Rightarrow> Inr (g, data, - EINVAL)
      | Some i \<Rightarrow>
          let policy = read_policy (si_devices inp)
          in (case hs_cap_rbuf (g ! i) ! policy of None \<Rightarrow> Inl Null_pointer
              | Some rb \<Rightarrow>
                  (case read_poll polls count 0 READ_TIMEOUT_LIMITS of
                     None \<Rightarrow> Inr (g, data, 0)
                   | Some rb \<Rightarrow>
                       and_then (audio_circlebuf_read (Some rb) data 0 count) (\<lambda>(rb, data, ret).
                         Inr (g[i := (g ! i)\<lparr>hs_cap_rbuf := (hs_cap_rbuf (g ! i))[policy := rb]\<rparr>], data,
                              if ret > 0 then 0 else ret)))))"

text \<open>The bit of \<open>bus_state\<close> and the ring buffer of the bus stay as they are.\<close>

definition hal_streamer_close_out ::
    "(int \<Rightarrow> int) \<Rightarrow> hal_streamer list \<Rightarrow> audio_bus_status \<Rightarrow> alsa_stream_out
      \<Rightarrow> c_error + hal_streamer list \<times> audio_bus_status \<times> alsa_stream_out \<times> int" where
  "hal_streamer_close_out slot0 g st out =
     (let bus = so_bus_num out in
      and_then (arr_get (slot_index st) bus) (\<lambda>idx.
      and_then (arr_set (slot_in_use st) (idx div 2) 0) (\<lambda>uses.
      and_then (arr_set (bus_active st) bus 0) (\<lambda>act.
        let st = st\<lparr>slot_in_use := uses, bus_active := act, slot_index := (slot_index st)[nat bus := slot0 bus mod 256]\<rparr>
        in case so_pcm_hdl out of None \<Rightarrow> Inr (g, st, out, - EINVAL)
           | Some i \<Rightarrow>
               let hdl = (g ! i)\<lparr>hs_ref_cnt := hs_ref_cnt (g ! i) - 1\<rparr>
               in if hs_ref_cnt hdl = 0
                  then let hdl = hdl\<lparr>hs_plbk_exit := True\<rparr>
                       in if hs_pcm hdl then Inr (g[i := hdl\<lparr>hs_pcm := False\<rparr>], st, out\<lparr>so_pcm := False\<rparr>, 0)
                          else Inr (g[i := hdl], st, out, 0)
                  else Inr (g[i := if is_low_latency_bus out then hdl\<lparr>hs_plbk_hold := False\<rparr> else hdl], st, out, 0)))))"

definition hal_streamer_close_in :: "hal_streamer list \<Rightarrow> alsa_stream_in \<Rightarrow> hal_streamer list \<times> alsa_stream_in \<times> int" where
  "hal_streamer_close_in g inp =
     (case si_pcm_hdl inp of None \<Rightarrow> (g, inp, - EINVAL)
      | Some i \<Rightarrow>
          let hdl = (g ! i)\<lparr>hs_ref_cnt := hs_ref_cnt (g ! i) - 1\<rparr>
          in if hs_ref_cnt hdl = 0
             then let hdl = hdl\<lparr>hs_cap_exit := True\<rparr>;
                      hdl = (case si_devices inp of
                               AUDIO_DEVICE_IN_BUILTIN_MIC \<Rightarrow> hdl\<lparr>hs_cap_state := clear_bit_c (hs_cap_state hdl) BUILD_IN_MIC_CAP\<rparr>
                             | AUDIO_DEVICE_IN_TELEPHONY_RX \<Rightarrow> hdl\<lparr>hs_cap_state := clear_bit_c (hs_cap_state hdl) EXT_MIC_CAP\<rparr>
                             | IN_DEVICE_OTHER \<Rightarrow> hdl)
                  in if hs_pcm hdl then (g[i := hdl\<lparr>hs_pcm := False\<rparr>], inp\<lparr>si_pcm := False\<rparr>, 0) else (g[i := hdl], inp, 0)
             else (g[i := hdl], inp, 0))"

section \<open>What the mixer computes\<close>

lemma mix_sample_wraps: "mix_sample a b = s16 (a + b)"
  using s16_bounds [of "a + b"] by (simp add: mix_sample_def Let_def)

lemma mix_loop_append:
  "mix_loop doff soff D C src (is @ js) dst = and_then (mix_loop doff soff D C src is dst) (mix_loop doff soff D C src js)"
proof (induction "is" arbitrary: dst)
  case (Cons i "is")
  then show ?case by (auto simp: arr_get_def arr_set_def)
qed simp

text \<open>
  What a bus adds to sample \<open>j\<close>: its samples are frames of \<open>ch\<close> channels and go to the slots from \<open>off\<close> on of
  the first \<open>n\<close> frames of \<open>D\<close> slots.
\<close>

definition contrib :: "nat \<Rightarrow> nat \<Rightarrow> nat \<Rightarrow> nat \<Rightarrow> int list \<Rightarrow> nat \<Rightarrow> int" where
  "contrib off ch D n src j =
     (if off \<le> j \<and> (j - off) mod D < ch \<and> (j - off) div D < n
      then src ! ((j - off) mod D + (j - off) div D * ch) else 0)"

lemma mix_loop_spec:
  assumes "c < D" and "n = 0 \<or> off + c + (n - 1) * D < length dst" and "n = 0 \<or> c + (n - 1) * C < length src"
  shows "\<exists>dst'. mix_loop (int (off + c)) (int c) (int D) (int C) src [0..int n - 1] dst = Inr dst' \<and>
    length dst' = length dst \<and>
    (\<forall>j<length dst. dst' ! j = (if off \<le> j \<and> (j - off) mod D = c \<and> (j - off) div D < n
       then s16 (dst ! j + src ! (c + (j - off) div D * C)) else dst ! j))"
  using assms(2,3)
proof (induction n)
  case (Suc n)
  have "n = 0 \<or> off + c + (n - 1) * D < length dst" "n = 0 \<or> c + (n - 1) * C < length src"
    using Suc.prems by (cases n; simp)+
  then obtain d where d: "mix_loop (int (off + c)) (int c) (int D) (int C) src [0..int n - 1] dst = Inr d"
    "length d = length dst"
    "\<forall>j<length dst. d ! j = (if off \<le> j \<and> (j - off) mod D = c \<and> (j - off) div D < n
       then s16 (dst ! j + src ! (c + (j - off) div D * C)) else dst ! j)"
    using Suc.IH by blast
  define p where "p = off + c + n * D"
  define q where "q = c + n * C"
  have pq: "p < length dst" "q < length src" using Suc.prems by (simp_all add: p_def q_def)
  have p0: "off \<le> p" "(p - off) mod D = c" "(p - off) div D = n" using assms(1) by (simp_all add: p_def)
  have at_p: "off \<le> j \<and> (j - off) mod D = c \<and> (j - off) div D = n \<longleftrightarrow> j = p" for j
    using div_mod_decomp [of "j - off" D] p0 by (auto simp: p_def)
  have i: "int off + int c + int n * int D = int p" "int c + int n * int C = int q" by (simp_all add: p_def q_def)
  have upt: "[0..int (Suc n) - 1] = [0..int n - 1] @ [int n]" using upto_rec2 [of 0 "int n"] by simp
  have run: "mix_loop (int (off + c)) (int c) (int D) (int C) src [0..int (Suc n) - 1] dst = Inr (d[p := s16 (d ! p + src ! q)])"
    unfolding upt mix_loop_append d(1) using pq d(2) by (simp add: i mix_sample_wraps)
  have "d ! p = dst ! p" using d(3) pq(1) p0 by simp
  moreover have "d[p := s16 (d ! p + src ! q)] ! j = (if off \<le> j \<and> (j - off) mod D = c \<and> (j - off) div D < Suc n
       then s16 (dst ! j + src ! (c + (j - off) div D * C)) else dst ! j)" if "j < length dst" for j
  proof (cases "j = p")
    case True
    then show ?thesis using p0 pq d(2) \<open>d ! p = dst ! p\<close> by (simp add: q_def)
  next
    case False
    then show ?thesis using at_p [of j] d(3) that by (auto simp: less_Suc_eq)
  qed
  ultimately show ?case using run d(2) by auto
qed simp

lemma channel_loop_append:
  "channel_loop N off ch D inp (is @ js) out = and_then (channel_loop N off ch D inp is out) (channel_loop N off ch D inp js)"
proof (induction "is" arbitrary: out)
  case (Cons i "is")
  then show ?case by (cases "pcm_16_areas_mix N out (off + i) inp i ch D") auto
qed simp

lemma channel_loop_spec:
  assumes ch: "0 < ch" and m: "m \<le> ch" "ch \<le> D" and n: "N div ch = n"
    and dst: "n = 0 \<or> off + ch + (n - 1) * D \<le> length dst" and src: "n * ch \<le> length src" and s: "list_all in_s16 dst"
  shows "\<exists>dst'. channel_loop (int N) (int off) (int ch) (int D) src [0..int m - 1] dst = Inr dst' \<and>
    length dst' = length dst \<and> list_all in_s16 dst' \<and>
    (\<forall>j<length dst. dst' ! j = (if (j - off) mod D < m then s16 (dst ! j + contrib off ch D n src j) else dst ! j))"
  using m(1)
proof (induction m)
  case (Suc m)
  then obtain d where d: "channel_loop (int N) (int off) (int ch) (int D) src [0..int m - 1] dst = Inr d"
    "length d = length dst" "list_all in_s16 d"
    "\<forall>j<length dst. d ! j = (if (j - off) mod D < m then s16 (dst ! j + contrib off ch D n src j) else dst ! j)"
    by auto
  have b: "m < D" "n = 0 \<or> off + m + (n - 1) * D < length d" "n = 0 \<or> m + (n - 1) * ch < length src"
    using Suc.prems m(2) dst src d(2) by (cases n; simp)+
  obtain d' where d': "mix_loop (int (off + m)) (int m) (int D) (int ch) src [0..int n - 1] d = Inr d'"
    "length d' = length d"
    "\<forall>j<length d. d' ! j = (if off \<le> j \<and> (j - off) mod D = m \<and> (j - off) div D < n
       then s16 (d ! j + src ! (m + (j - off) div D * ch)) else d ! j)"
    using mix_loop_spec [OF b] by blast
  have upt: "[0..int (Suc m) - 1] = [0..int m - 1] @ [int m]" using upto_rec2 [of 0 "int m"] by simp
  have "int N div int ch = int n" using n by (simp flip: zdiv_int)
  then have run: "channel_loop (int N) (int off) (int ch) (int D) src [0..int (Suc m) - 1] dst = Inr d'"
    unfolding upt channel_loop_append d(1) using ch d'(1) by (simp add: pcm_16_areas_mix_def)
  have pt: "d' ! j = (if (j - off) mod D < Suc m then s16 (dst ! j + contrib off ch D n src j) else dst ! j)"
    if "j < length dst" for j
  proof -
    have "s16 (dst ! j) = dst ! j" using s that by (simp add: list_all_nthD in_s16_id)
    then show ?thesis using d(4) d'(3) d(2) that Suc.prems by (auto simp: contrib_def less_Suc_eq)
  qed
  have "list_all in_s16 d'" using d'(2,3) d(3) by (auto simp: list_all_length)
  then show ?case using run d'(2) d(2) pt by auto
qed (use s in simp)

lemma s16_add_left [simp]: "s16 (s16 x + y) = s16 (x + y)"
proof -
  have "(s16 x + y + 32768) mod 65536 = ((x + 32768) mod 65536 + y) mod 65536" by (simp add: s16_def)
  also have "\<dots> = (x + 32768 + y) mod 65536" by (rule mod_add_left_eq)
  finally show ?thesis unfolding s16_def [of "s16 x + y"] s16_def [of "x + y"] by (simp add: ac_simps)
qed

lemma contrib_cong:
  assumes "take (n * ch) src = take (n * ch) src'"
  shows "contrib off ch D n src j = contrib off ch D n src' j"
proof (cases "off \<le> j \<and> (j - off) mod D < ch \<and> (j - off) div D < n")
  case True
  let ?k = "(j - off) mod D + (j - off) div D * ch"
  have "?k < ch + (j - off) div D * ch" using True by simp
  also have "\<dots> = Suc ((j - off) div D) * ch" by simp
  also have "\<dots> \<le> n * ch" using True by (intro mult_le_mono1) simp
  finally have k: "?k < n * ch" .
  have "src ! ?k = take (n * ch) src ! ?k" "src' ! ?k = take (n * ch) src' ! ?k" using k by simp_all
  then show ?thesis using True assms by (simp add: contrib_def)
qed (auto simp: contrib_def)

lemma read_keeps_chann:
  "audio_circlebuf_read (Some rb) out k len = Inr (Some rb', out', n) \<Longrightarrow> rb_chann rb' = rb_chann rb"
  by (auto simp: audio_circlebuf_read_def and_then_def Let_def split: if_splits sum.splits)

section \<open>The mixer on a well-formed handle\<close>

text \<open>
  An active bus, the phone apart, has a ring buffer of one or two channels, a period of 20 ms in bytes and
  its channels inside the eight slots.
\<close>

definition ring_ok :: "hal_streamer \<Rightarrow> nat \<Rightarrow> bool" where
  "ring_ok hdl b \<longleftrightarrow> (\<exists>rb. hs_bus_rbuf hdl ! b = Some rb \<and> cb_ok rb \<and> (rb_chann rb = 1 \<or> rb_chann rb = 2) \<and>
     hs_bus_buf_sz hdl ! b = rb_chann rb * 1920)"

definition bus_wired :: "audio_bus_status \<Rightarrow> hal_streamer \<Rightarrow> nat \<Rightarrow> bool" where
  "bus_wired st hdl b \<longleftrightarrow> ring_ok hdl b \<and> 0 \<le> slot_index st ! b \<and> slot_index st ! b + rb_chann (the (hs_bus_rbuf hdl ! b)) \<le> 8"

definition hdl_ok :: "audio_bus_status \<Rightarrow> hal_streamer \<Rightarrow> bool" where
  "hdl_ok st hdl \<longleftrightarrow> hs_channels hdl = 8 \<and> length (hs_bus_rbuf hdl) = 16 \<and> length (hs_bus_buf_sz hdl) = 16 \<and>
     (\<forall>b<16. get_bit_c (hs_bus_state hdl) b \<and> b \<noteq> 2 \<longrightarrow> bus_wired st hdl b)"

text \<open>A bus takes part in a period when a whole period is in its buffer.\<close>

definition bus_ready :: "hal_streamer \<Rightarrow> nat \<Rightarrow> bool" where
  "bus_ready hdl b \<longleftrightarrow> get_bit_c (hs_bus_state hdl) b \<and> b \<noteq> 2 \<and>
     hs_bus_buf_sz hdl ! b \<le> rb_used (the (hs_bus_rbuf hdl ! b))"

definition bus_period :: "hal_streamer \<Rightarrow> nat \<Rightarrow> int list" where
  "bus_period hdl b = s16_of_bytes (take (nat (hs_bus_buf_sz hdl ! b)) (contents (the (hs_bus_rbuf hdl ! b))))"

definition bus_sample :: "audio_bus_status \<Rightarrow> hal_streamer \<Rightarrow> nat \<Rightarrow> nat \<Rightarrow> int" where
  "bus_sample st hdl b j =
     (if bus_ready hdl b
      then contrib (nat (slot_index st ! b)) (nat (rb_chann (the (hs_bus_rbuf hdl ! b)))) 8 960 (bus_period hdl b) j
      else 0)"

text \<open>The handle after a period: the buffers of the buses that took part have lost the period.\<close>

definition bus_drained :: "hal_streamer \<Rightarrow> hal_streamer \<Rightarrow> nat \<Rightarrow> bool" where
  "bus_drained hdl hdl' b \<longleftrightarrow>
     (if bus_ready hdl b
      then contents (the (hs_bus_rbuf hdl' ! b)) = drop (nat (hs_bus_buf_sz hdl ! b)) (contents (the (hs_bus_rbuf hdl ! b)))
      else hs_bus_rbuf hdl' ! b = hs_bus_rbuf hdl ! b)"

definition only_rings :: "hal_streamer \<Rightarrow> hal_streamer \<Rightarrow> bool" where
  "only_rings hdl hdl' \<longleftrightarrow> (\<exists>rbs. hdl' = hdl\<lparr>hs_bus_rbuf := rbs\<rparr>)"

lemma read_bus_period:
  assumes ok: "cb_ok rb" and sz: "0 \<le> sz" "sz \<le> rb_used rb" "sz = 2 * k" and tmp: "sz \<le> int (length tmp)"
  shows "\<exists>rb' tmp'. audio_circlebuf_read (Some rb) tmp 0 sz = Inr (Some rb', tmp', sz) \<and> cb_ok rb' \<and>
    length tmp' = length tmp \<and> contents rb' = drop (nat sz) (contents rb) \<and> rb_chann rb' = rb_chann rb \<and>
    rb_size rb' = rb_size rb \<and> take (nat k) (s16_of_bytes tmp') = s16_of_bytes (take (nat sz) (contents rb))"
proof -
  have rb: "rb_ok rb" "\<not> rb_lock rb" "\<not> rb_over_write rb" using ok by (simp_all add: cb_ok_def)
  have m: "min sz (rb_used rb) = sz" using sz by simp
  define tmp' where "tmp' = blit tmp 0 (take (nat sz) (contents rb))"
  obtain rb' where r: "audio_circlebuf_read (Some rb) tmp 0 sz = Inr (Some rb', tmp', sz)" "rb_ok rb'" "\<not> rb_lock rb'"
    "contents rb' = drop (nat sz) (contents rb)" "rb_over_write rb' = rb_over_write rb" "rb_size rb' = rb_size rb"
    using audio_circlebuf_read_eq [OF rb(1,2) sz(1), of 0 tmp] tmp m by (auto simp: tmp'_def)
  have lc: "nat sz \<le> length (contents rb)" using length_contents [OF rb(1)] sz(2) by linarith
  have lt: "nat sz \<le> length tmp" using tmp by linarith
  have "take (nat sz) tmp' = take (nat sz) (contents rb)" using lc by (simp add: tmp'_def blit_def)
  moreover have "nat sz = 2 * nat k" using sz by simp
  ultimately have "take (nat k) (s16_of_bytes tmp') = s16_of_bytes (take (nat sz) (contents rb))"
    by (metis s16_of_bytes_take)
  moreover have "length tmp' = length tmp" using lc lt by (simp add: tmp'_def)
  ultimately show ?thesis using r rb(3) read_keeps_chann [OF r(1)] by (intro exI [of _ rb'] exI [of _ tmp']) (simp add: cb_ok_def)
qed

lemma slot_map_ok:
  assumes rb: "hs_bus_rbuf hdl ! b = Some rb" and ch: "0 < rb_chann rb" and D: "hs_channels hdl = 8"
    and slot: "0 \<le> slot_index st ! b" "slot_index st ! b + rb_chann rb \<le> 8" and b: "b < length (slot_index st)"
    and src: "960 * nat (rb_chann rb) \<le> length inp" and out: "7680 \<le> length out" "list_all in_s16 out"
  shows "\<exists>out'. slot_map_process_buf slot0 st hdl out inp (rb_chann rb * 960) b = Inr out' \<and> length out' = length out \<and>
    list_all in_s16 out' \<and>
    (\<forall>j<length out. out' ! j = s16 (out ! j + contrib (nat (slot_index st ! b)) (nat (rb_chann rb)) 8 960 inp j))"
proof -
  obtain ch where c: "rb_chann rb = int ch" "0 < ch" using ch by (metis zero_less_imp_eq_int)
  obtain off where o: "slot_index st ! b = int off" using slot(1) nonneg_int_cases by blast
  have le: "off + ch \<le> 8" using slot(2) c o by linarith
  have u: "u32 (int ch) = int ch" using le by (simp add: u32_id)
  have "ch \<le> ch" "ch \<le> 8" "(ch * 960) div ch = 960" "960 = (0::nat) \<or> off + ch + (960 - 1) * 8 \<le> length out" "960 * ch \<le> length inp"
    using le c out src by (simp_all add: mult.commute)
  from channel_loop_spec [OF c(2) this out(2)] obtain out' where
    o': "channel_loop (int (ch * 960)) (int off) (int ch) (int 8) inp [0..int ch - 1] out = Inr out'" "length out' = length out"
    "list_all in_s16 out'"
    "\<forall>j<length out. out' ! j = (if (j - off) mod 8 < ch then s16 (out ! j + contrib off ch 8 960 inp j) else out ! j)"
    by blast
  have "out' ! j = s16 (out ! j + contrib off ch 8 960 inp j)" if "j < length out" for j
  proof -
    have "s16 (out ! j) = out ! j" using out(2) that by (simp add: list_all_nthD in_s16_id)
    then show ?thesis using o'(4) that by (simp add: contrib_def)
  qed
  moreover have "slot_map_process_buf slot0 st hdl out inp (rb_chann rb * 960) b = Inr out'"
    using o'(1) rb D c u o b by (simp add: slot_map_process_buf_def audio_circlebuf_get_ch_def Let_def)
  ultimately show ?thesis using o'(2,3) c o by simp
qed

lemma wired_ring:
  assumes "hdl_ok st hdl" and "b < 16" and "get_bit_c (hs_bus_state hdl) b" and "b \<noteq> 2"
  obtains rb where "hs_bus_rbuf hdl ! b = Some rb" "cb_ok rb" "0 < rb_chann rb" "hs_bus_buf_sz hdl ! b = rb_chann rb * 1920"
    "0 \<le> slot_index st ! b" "slot_index st ! b + rb_chann rb \<le> 8"
    "0 \<le> hs_bus_buf_sz hdl ! b" "hs_bus_buf_sz hdl ! b \<le> 16384"
proof -
  have "bus_wired st hdl b" using assms by (simp add: hdl_ok_def)
  then show thesis using that by (auto simp: bus_wired_def ring_ok_def)
qed

lemma clear_in_tmp:
  assumes "0 \<le> sz" and "sz \<le> 16384" and "length tmp = 16384"
  shows "\<exists>t. memcpy tmp 0 (replicate (nat sz) 0) 0 sz = Inr t \<and> length t = 16384"
  using assms memcpy_ok [of sz 0 0 tmp "replicate (nat sz) 0"] by simp

lemma map_bus_idle:
  assumes h: "hdl_ok st hdl" and b: "b < 16" and tmp: "length tmp = 16384" and idle: "\<not> bus_ready hdl b"
  shows "\<exists>tmp'. map_bus slot0 st b (hdl, tmp, out) = Inr (hdl, tmp', out) \<and> length tmp' = 16384"
proof (cases "get_bit_c (hs_bus_state hdl) b \<and> b \<noteq> 2")
  case True
  then obtain rb where rb: "hs_bus_rbuf hdl ! b = Some rb" "0 \<le> hs_bus_buf_sz hdl ! b" "hs_bus_buf_sz hdl ! b \<le> 16384"
    using wired_ring [OF h b] by metis
  obtain t where "memcpy tmp 0 (replicate (nat (hs_bus_buf_sz hdl ! b)) 0) 0 (hs_bus_buf_sz hdl ! b) = Inr t" "length t = 16384"
    using clear_in_tmp [OF rb(2,3) tmp] by blast
  then show ?thesis using True rb(1) idle by (auto simp: map_bus_def bus_ready_def Let_def audio_circlebuf_used_def)
qed (use tmp in \<open>auto simp: map_bus_def\<close>)

lemma map_bus_ready:
  assumes h: "hdl_ok st hdl" and st: "bus_ok st" and b: "b < 16" and tmp: "length tmp = 16384"
    and out: "7680 \<le> length out" "list_all in_s16 out" and rd: "bus_ready hdl b"
  shows "\<exists>rb' tmp' out'. map_bus slot0 st b (hdl, tmp, out) = Inr (hdl\<lparr>hs_bus_rbuf := (hs_bus_rbuf hdl)[b := Some rb']\<rparr>, tmp', out') \<and>
    cb_ok rb' \<and> contents rb' = drop (nat (hs_bus_buf_sz hdl ! b)) (contents (the (hs_bus_rbuf hdl ! b))) \<and>
    rb_chann rb' = rb_chann (the (hs_bus_rbuf hdl ! b)) \<and> length tmp' = 16384 \<and> length out' = length out \<and> list_all in_s16 out' \<and>
    (\<forall>j<length out. out' ! j = s16 (out ! j + bus_sample st hdl b j))"
proof -
  have on: "get_bit_c (hs_bus_state hdl) b" "b \<noteq> 2" using rd by (simp_all add: bus_ready_def)
  obtain rb where rb: "hs_bus_rbuf hdl ! b = Some rb" "cb_ok rb" "0 < rb_chann rb" "hs_bus_buf_sz hdl ! b = rb_chann rb * 1920"
    "0 \<le> slot_index st ! b" "slot_index st ! b + rb_chann rb \<le> 8" "0 \<le> hs_bus_buf_sz hdl ! b" "hs_bus_buf_sz hdl ! b \<le> 16384"
    using wired_ring [OF h b on] by metis
  define sz where "sz = hs_bus_buf_sz hdl ! b"
  have sz: "0 \<le> sz" "sz \<le> 16384" "sz = 2 * (rb_chann rb * 960)" "sz div 2 = rb_chann rb * 960" "sz \<le> rb_used rb"
    using rb rd by (auto simp: sz_def bus_ready_def)
  obtain t1 where t1: "memcpy tmp 0 (replicate (nat sz) 0) 0 sz = Inr t1" "length t1 = 16384"
    using clear_in_tmp [OF sz(1,2) tmp] by blast
  obtain rb' t2 where r: "audio_circlebuf_read (Some rb) t1 0 sz = Inr (Some rb', t2, sz)" "cb_ok rb'" "length t2 = 16384"
    "contents rb' = drop (nat sz) (contents rb)" "rb_chann rb' = rb_chann rb"
    "take (nat (rb_chann rb * 960)) (s16_of_bytes t2) = s16_of_bytes (take (nat sz) (contents rb))"
    using read_bus_period [OF rb(2) sz(1) sz(5) sz(3), of t1] t1 sz by auto
  define hdl' where "hdl' = hdl\<lparr>hs_bus_rbuf := (hs_bus_rbuf hdl)[b := Some rb']\<rparr>"
  have h': "hs_bus_rbuf hdl' ! b = Some rb'" "hs_channels hdl' = 8" using h b by (simp_all add: hdl'_def hdl_ok_def)
  have len: "960 * nat (rb_chann rb') \<le> length (s16_of_bytes t2)" "b < length (slot_index st)" "0 < rb_chann rb'"
    "slot_index st ! b + rb_chann rb' \<le> 8" using r(3,5) rb st b by (simp_all add: bus_ok_def)
  obtain out' where o: "slot_map_process_buf slot0 st hdl' out (s16_of_bytes t2) (rb_chann rb * 960) b = Inr out'"
    "length out' = length out" "list_all in_s16 out'"
    "\<forall>j<length out. out' ! j = s16 (out ! j + contrib (nat (slot_index st ! b)) (nat (rb_chann rb)) 8 960 (s16_of_bytes t2) j)"
    using slot_map_ok [OF h'(1) len(3) h'(2) rb(5) len(4,2,1) out, of slot0] r(5) by auto
  have run: "map_bus slot0 st b (hdl, tmp, out) = Inr (hdl', t2, out')"
    using on rb(1) t1 sz(5) r(1) o(1) sz(4) by (simp add: map_bus_def Let_def audio_circlebuf_used_def hdl'_def flip: sz_def)
  have "nat (rb_chann rb * 960) = 960 * nat (rb_chann rb)" using rb(3) by simp
  then have "bus_period hdl b = take (960 * nat (rb_chann rb)) (s16_of_bytes t2)" using r(6) rb(1) by (simp add: bus_period_def sz_def)
  then have "contrib off (nat (rb_chann rb)) 8 960 (s16_of_bytes t2) j = contrib off (nat (rb_chann rb)) 8 960 (bus_period hdl b) j" for off j
    by (intro contrib_cong) simp
  then have "\<forall>j<length out. out' ! j = s16 (out ! j + bus_sample st hdl b j)" using o(4) rd rb(1) by (simp add: bus_sample_def)
  then show ?thesis using run r o(2,3) rb(1) sz_def by (auto simp: hdl'_def)
qed

lemma hdl_ok_ring:
  assumes "hdl_ok st hdl" and "b < 16" and "bus_ready hdl b" and "cb_ok rb'" and "rb_chann rb' = rb_chann (the (hs_bus_rbuf hdl ! b))"
  shows "hdl_ok st (hdl\<lparr>hs_bus_rbuf := (hs_bus_rbuf hdl)[b := Some rb']\<rparr>)"
proof -
  let ?h = "hdl\<lparr>hs_bus_rbuf := (hs_bus_rbuf hdl)[b := Some rb']\<rparr>"
  have "bus_wired st ?h b'" if on: "b' < 16" "get_bit_c (hs_bus_state hdl) b'" "b' \<noteq> 2" for b'
  proof (cases "b' = b")
    case True
    then show ?thesis using assms on by (auto simp: bus_wired_def ring_ok_def hdl_ok_def)
  next
    case False
    then show ?thesis using assms(1) on by (auto simp: bus_wired_def ring_ok_def hdl_ok_def)
  qed
  then show ?thesis using assms(1) by (simp add: hdl_ok_def)
qed

lemma map_bus_ok:
  assumes h: "hdl_ok st hdl" and st: "bus_ok st" and b: "b < 16" and tmp: "length tmp = 16384"
    and out: "7680 \<le> length out" "list_all in_s16 out"
  shows "\<exists>hdl' tmp' out'. map_bus slot0 st b (hdl, tmp, out) = Inr (hdl', tmp', out') \<and> hdl_ok st hdl' \<and> length tmp' = 16384 \<and>
    length out' = length out \<and> list_all in_s16 out' \<and> only_rings hdl hdl' \<and> bus_drained hdl hdl' b \<and>
    (\<forall>b'. b' \<noteq> b \<longrightarrow> hs_bus_rbuf hdl' ! b' = hs_bus_rbuf hdl ! b') \<and>
    (\<forall>j<length out. out' ! j = s16 (out ! j + bus_sample st hdl b j))"
proof (cases "bus_ready hdl b")
  case False
  have "s16 (out ! j) = out ! j" if "j < length out" for j using out(2) that by (simp add: list_all_nthD in_s16_id)
  moreover have "only_rings hdl hdl" by (auto simp: only_rings_def intro: exI [of _ "hs_bus_rbuf hdl"])
  moreover obtain tmp' where "map_bus slot0 st b (hdl, tmp, out) = Inr (hdl, tmp', out)" "length tmp' = 16384"
    using map_bus_idle [OF h b tmp False] by blast
  ultimately show ?thesis using False h out by (simp add: bus_drained_def bus_sample_def)
next
  case True
  obtain rb' tmp' out' where r: "map_bus slot0 st b (hdl, tmp, out) = Inr (hdl\<lparr>hs_bus_rbuf := (hs_bus_rbuf hdl)[b := Some rb']\<rparr>, tmp', out')"
    "cb_ok rb'" "contents rb' = drop (nat (hs_bus_buf_sz hdl ! b)) (contents (the (hs_bus_rbuf hdl ! b)))"
    "rb_chann rb' = rb_chann (the (hs_bus_rbuf hdl ! b))" "length tmp' = 16384" "length out' = length out" "list_all in_s16 out'"
    "\<forall>j<length out. out' ! j = s16 (out ! j + bus_sample st hdl b j)"
    using map_bus_ready [OF h st b tmp out True] by metis
  have "length (hs_bus_rbuf hdl) = 16" using h by (simp add: hdl_ok_def)
  then show ?thesis using r True b hdl_ok_ring [OF h b True r(2,4)] by (auto simp: bus_drained_def only_rings_def)
qed

text \<open>What a bus adds depends on its own buffer only.\<close>

lemma same_ring:
  assumes "only_rings hdl hdl'" and "hs_bus_rbuf hdl' ! b = hs_bus_rbuf hdl ! b"
  shows "bus_sample st hdl' b j = bus_sample st hdl b j" and "bus_drained hdl' hdl'' b \<longleftrightarrow> bus_drained hdl hdl'' b"
proof -
  obtain rbs where "hdl' = hdl\<lparr>hs_bus_rbuf := rbs\<rparr>" using assms(1) by (auto simp: only_rings_def)
  then show "bus_sample st hdl' b j = bus_sample st hdl b j" "bus_drained hdl' hdl'' b \<longleftrightarrow> bus_drained hdl hdl'' b"
    using assms(2) by (simp_all add: bus_sample_def bus_drained_def bus_ready_def bus_period_def)
qed

lemma only_rings_trans: "only_rings h h' \<Longrightarrow> only_rings h' h'' \<Longrightarrow> only_rings h h''"
  by (auto simp: only_rings_def)

lemma map_loop_ok:
  assumes "hdl_ok st hdl" and st: "bus_ok st" and "distinct bs" and "\<forall>b\<in>set bs. b < 16" and "length tmp = 16384"
    and "7680 \<le> length out" and "list_all in_s16 out"
  shows "\<exists>hdl' tmp' out'. map_loop slot0 st bs (hdl, tmp, out) = Inr (hdl', tmp', out') \<and> hdl_ok st hdl' \<and>
    length out' = length out \<and> list_all in_s16 out' \<and> only_rings hdl hdl' \<and> (\<forall>b\<in>set bs. bus_drained hdl hdl' b) \<and>
    (\<forall>b. b \<notin> set bs \<longrightarrow> hs_bus_rbuf hdl' ! b = hs_bus_rbuf hdl ! b) \<and>
    (\<forall>j<length out. out' ! j = s16 (out ! j + (\<Sum>b\<leftarrow>bs. bus_sample st hdl b j)))"
  using assms(1,3-7)
proof (induction bs arbitrary: hdl tmp out)
  case Nil
  moreover have "s16 (out ! j) = out ! j" if "j < length out" for j using Nil.prems(6) that by (simp add: list_all_nthD in_s16_id)
  moreover have "only_rings hdl hdl" by (auto simp: only_rings_def intro: exI [of _ "hs_bus_rbuf hdl"])
  ultimately show ?case by simp
next
  case (Cons b bs)
  obtain h1 t1 o1 where m: "map_bus slot0 st b (hdl, tmp, out) = Inr (h1, t1, o1)" "hdl_ok st h1" "length t1 = 16384"
    "length o1 = length out" "list_all in_s16 o1" "only_rings hdl h1" "bus_drained hdl h1 b"
    "\<forall>b'. b' \<noteq> b \<longrightarrow> hs_bus_rbuf h1 ! b' = hs_bus_rbuf hdl ! b'"
    "\<forall>j<length out. o1 ! j = s16 (out ! j + bus_sample st hdl b j)"
    using map_bus_ok [OF Cons.prems(1) st, of b tmp out slot0] Cons.prems by auto
  have pre: "distinct bs" "\<forall>b\<in>set bs. b < 16" "7680 \<le> length o1" using Cons.prems m(4) by simp_all
  obtain h2 t2 o2 where l: "map_loop slot0 st bs (h1, t1, o1) = Inr (h2, t2, o2)" "hdl_ok st h2" "length o2 = length o1"
    "list_all in_s16 o2" "only_rings h1 h2" "\<forall>b\<in>set bs. bus_drained h1 h2 b"
    "\<forall>b. b \<notin> set bs \<longrightarrow> hs_bus_rbuf h2 ! b = hs_bus_rbuf h1 ! b"
    "\<forall>j<length o1. o2 ! j = s16 (o1 ! j + (\<Sum>b\<leftarrow>bs. bus_sample st h1 b j))"
    using Cons.IH [OF m(2) pre(1,2) m(3) pre(3) m(5)] by blast
  have same: "bus_sample st h1 b' j = bus_sample st hdl b' j" "bus_drained h1 h2 b' \<longleftrightarrow> bus_drained hdl h2 b'" if "b' \<in> set bs" for b' j
    using that Cons.prems(2) m(8) by (intro same_ring [OF m(6)]; auto)+
  have sum: "(\<Sum>b'\<leftarrow>bs. bus_sample st h1 b' j) = (\<Sum>b'\<leftarrow>bs. bus_sample st hdl b' j)" for j
    using same(1) by (intro arg_cong [where f = sum_list] map_cong) auto
  have "\<forall>j<length out. o2 ! j = s16 (out ! j + (\<Sum>b'\<leftarrow>b # bs. bus_sample st hdl b' j))"
    using l(8) m(9) m(4) by (simp add: sum add.assoc)
  moreover have "bus_drained hdl h2 b" using m(7) l(7) Cons.prems(2) by (simp add: bus_drained_def)
  ultimately show ?case
    using m(1,4,8) l(1-7) same(2) only_rings_trans [OF m(6) l(5)] by auto
qed

lemma do_channel_map_ok:
  assumes "hdl_ok st hdl" and "bus_ok st" and "length tmp = 16384" and "7680 \<le> length out" and "list_all in_s16 out"
  shows "\<exists>hdl' out'. do_channel_map slot0 st tmp hdl out = Inr (hdl', out') \<and> hdl_ok st hdl' \<and> length out' = length out \<and>
    only_rings hdl hdl' \<and> (\<forall>b<16. bus_drained hdl hdl' b) \<and>
    (\<forall>j<length out. out' ! j = s16 (out ! j + (\<Sum>b<16. bus_sample st hdl b j)))"
proof -
  have "\<forall>b\<in>set [0..<16]. b < 16" by simp
  then obtain hdl' tmp' out' where r: "map_loop slot0 st [0..<16] (hdl, tmp, out) = Inr (hdl', tmp', out')" "hdl_ok st hdl'"
    "length out' = length out" "only_rings hdl hdl'" "\<forall>b\<in>set [0..<16]. bus_drained hdl hdl' b"
    "\<forall>j<length out. out' ! j = s16 (out ! j + (\<Sum>b\<leftarrow>[0..<16]. bus_sample st hdl b j))"
    using map_loop_ok [OF assms(1,2) distinct_upt _ assms(3-5), of 0 16 slot0] by blast
  have "(\<Sum>b\<leftarrow>[0..<16]. bus_sample st hdl b j) = (\<Sum>b<16. bus_sample st hdl b j)" for j
    by (simp add: interv_sum_list_conv_sum_set_nat atLeast0LessThan)
  then show ?thesis using r by (simp add: do_channel_map_def MAX_CLIENT_NUM_def)
qed

lemma contrib_frame:
  assumes "off + ch \<le> 8" and "k < 8"
  shows "contrib off ch 8 n src (8 * i + k) = (if off \<le> k \<and> k < off + ch \<and> i < n then src ! (i * ch + (k - off)) else 0)"
proof (cases "off \<le> k")
  case True
  then obtain c where c: "k = off + c" by (metis le_add_diff_inverse)
  then have "8 * i + k - off = 8 * i + c" "off \<le> 8 * i + k" "c < 8" using assms by simp_all
  then show ?thesis using c by (simp add: contrib_def add.commute)
next
  case False
  show ?thesis
  proof (cases i)
    case 0
    then show ?thesis using False by (simp add: contrib_def)
  next
    case (Suc i')
    then have "8 * i + k - off = 8 * i' + (8 + k - off)" using assms False by simp
    moreover have "8 + k - off < 8" using False assms by linarith
    ultimately have "(8 * i + k - off) mod 8 = 8 + k - off" by simp
    then show ?thesis using assms False by (auto simp: contrib_def)
  qed
qed

text \<open>One iteration of the playback thread.\<close>

lemma period_is_15360 [simp]: "bits 0 = 16 \<Longrightarrow> CALCULATE_BYTES bits 8 PCM_FORMAT_S16_LE 48000 20 = 15360"
  by (simp add: CALCULATE_BYTES_def PCM_FORMAT_S16_LE_def shr_def u32_def)

lemma playback_iter_plays:
  assumes h: "hdl_ok st hdl" and st: "bus_ok st" and bits: "bits 0 = 16"
    and run: "hs_pcm hdl" "\<not> hs_plbk_exit hdl" "\<not> hs_plbk_hold hdl"
    and arrays: "length in_tmp = 16384" "length out_tmp = 8192" "list_all in_s16 out_tmp"
  shows "\<exists>hdl' played. playback_iter bits slot0 st in_tmp out_tmp hdl = Inr (hdl', Some played) \<and> hdl_ok st hdl' \<and>
    only_rings hdl hdl' \<and> (\<forall>b<16. bus_drained hdl hdl' b) \<and> length played = 7680 \<and>
    (\<forall>j<7680. played ! j = s16 (\<Sum>b<16. bus_sample st hdl b j))"
proof -
  define z where "z = blit out_tmp 0 (replicate 7680 0)"
  have "memcpy out_tmp 0 (replicate (nat 7680) 0) 0 7680 = Inr z"
    using arrays(2) memcpy_ok [of 7680 0 0 out_tmp "replicate 7680 0"] by (simp add: z_def window_def)
  then have m: "memcpy out_tmp 0 (replicate 7680 0) 0 7680 = Inr z" by simp
  have z: "length z = 8192" "list_all in_s16 z" "\<forall>j<7680. z ! j = 0"
    using arrays by (auto simp: z_def blit_def list_all_iff nth_append in_s16_def dest: in_set_dropD)
  obtain hdl' out' where d: "do_channel_map slot0 st in_tmp hdl z = Inr (hdl', out')" "hdl_ok st hdl'" "length out' = length z"
    "only_rings hdl hdl'" "\<forall>b<16. bus_drained hdl hdl' b"
    "\<forall>j<length z. out' ! j = s16 (z ! j + (\<Sum>b<16. bus_sample st hdl b j))"
    using do_channel_map_ok [OF h st arrays(1), of z slot0] z by auto
  have "hs_channels hdl = 8" using h by (simp add: hdl_ok_def)
  then have "playback_iter bits slot0 st in_tmp out_tmp hdl = Inr (hdl', Some (take 7680 out'))"
    using run bits m d(1) by (simp add: playback_iter_def Let_def)
  then show ?thesis using d z by auto
qed

end
