(* ===== verification/Streamer_System.thy ===== *)
theory Streamer_System
  imports Hal_Streamer
begin

text \<open>
  The streams of \<open>hal_streamer.c\<close> as a system: opening, closing, writing and the playback threads keep the
  table of handles and the state of the buses well formed, in any order; the searches in the table; the loops
  that poll a ring buffer; what opening does to the slots of the DSP.
\<close>

section \<open>Opening and closing keep the handles well formed\<close>

text \<open>
  The invariant of the table and the bus state: slots are even numbers below 8, a bus with its bit set has a
  ring buffer of one or two channels with its period, and a handle in use has the format of the card.
\<close>

definition slots_ok :: "audio_bus_status \<Rightarrow> bool" where
  "slots_ok st \<longleftrightarrow> (\<forall>b<16. slot_index st ! b \<in> {0, 2, 4, 6})"

definition handle_ok :: "hal_streamer \<Rightarrow> bool" where
  "handle_ok hdl \<longleftrightarrow> length (hs_bus_rbuf hdl) = 16 \<and> length (hs_bus_buf_sz hdl) = 16 \<and>
     (\<forall>b<16. get_bit_c (hs_bus_state hdl) b \<and> b \<noteq> 2 \<longrightarrow> ring_ok hdl b) \<and>
     (hs_pcm hdl \<or> hs_ref_cnt hdl \<noteq> 0 \<longrightarrow> hs_channels hdl = 8 \<and> hs_rate hdl = 48000)"

definition streams_ok :: "hal_streamer list \<times> audio_bus_status \<Rightarrow> bool" where
  "streams_ok = (\<lambda>(g, st). length g = MAX_STREAMERS \<and> list_all handle_ok g \<and> bus_ok st \<and> slots_ok st)"

lemma handle_ok_hdl_ok:
  assumes "handle_ok hdl" and "slots_ok st" and "hs_pcm hdl"
  shows "hdl_ok st hdl"
proof -
  have "bus_wired st hdl b" if b: "b < 16" "get_bit_c (hs_bus_state hdl) b" "b \<noteq> 2" for b
  proof -
    have "ring_ok hdl b" using assms(1) b by (simp add: handle_ok_def)
    moreover have "slot_index st ! b \<in> {0, 2, 4, 6}" using assms(2) b by (simp add: slots_ok_def)
    ultimately show ?thesis by (auto simp: ring_ok_def bus_wired_def)
  qed
  then show ?thesis using assms(1,3) by (simp add: hdl_ok_def handle_ok_def)
qed

lemma get_set_bit: "b < 16 \<Longrightarrow> get_bit_c (set_bit_c w n) b \<longleftrightarrow> get_bit_c w b \<or> b = n"
  by (auto simp: get_bit_c_def set_bit_c_def bit_or_iff bit_exp_iff)

lemma ring_ok_state [simp]:
  "ring_ok (x\<lparr>hs_bus_state := w\<rparr>) b = ring_ok x b" "ring_ok (x\<lparr>hs_ref_cnt := n\<rparr>) b = ring_ok x b"
  "ring_ok (x\<lparr>hs_pcm := d\<rparr>) b = ring_ok x b" "ring_ok (x\<lparr>hs_plbk_exit := e\<rparr>) b = ring_ok x b"
  "ring_ok (x\<lparr>hs_plbk_hold := e\<rparr>) b = ring_ok x b" "ring_ok (x\<lparr>hs_dir := dir\<rparr>) b = ring_ok x b"
  by (simp_all add: ring_ok_def)

lemma attach_out_ok:
  assumes "handle_ok x" and "ring_ok x (nat (so_bus_num out))" and "hs_channels x = 8" and "hs_rate x = 48000"
    and "nat (so_bus_num out) < 16"
  shows "handle_ok (fst (attach_out x out))" and "get_bit_c (hs_bus_state (fst (attach_out x out))) (nat (so_bus_num out))"
  using assms by (auto simp: attach_out_def handle_ok_def get_set_bit)

text \<open>The size of a period at 48 kHz.\<close>

lemma period_size:
  "bits 0 = 16 \<Longrightarrow> ch = 1 \<or> ch = 2 \<Longrightarrow> s32 (CALCULATE_BYTES bits ch 0 48000 20) = ch * 1920"
  by (auto simp: CALCULATE_BYTES_def shr_def u32_def s32_id)

lemma open_slot_ok:
  assumes st: "bus_ok st" "slots_ok st" and b: "0 \<le> bus" "bus < 16"
  shows "\<exists>st'. open_slot st bus = Inr st' \<and> bus_ok st' \<and> slots_ok st'"
proof -
  have len: "length (slot_index st) = 16" "length (slot_in_use st) = 4" using st(1) by (simp_all add: bus_ok_def)
  have idx: "slot_index st ! nat bus \<in> {0, 2, 4, 6}" using st(2) b by (simp add: slots_ok_def)
  then have d: "0 \<le> slot_index st ! nat bus div 2" "slot_index st ! nat bus div 2 < 4" by auto
  have one: "bus_ok (take_free_slot bus i s) \<and> slots_ok (take_free_slot bus i s)"
    if "bus_ok s" "slots_ok s" "i \<in> {1, 2, 3}" for s i
    using that b by (auto simp: take_free_slot_def bus_ok_def slots_ok_def nth_list_update)
  then have "bus_ok (fold (take_free_slot bus) [1, 2, 3] st) \<and> slots_ok (fold (take_free_slot bus) [1, 2, 3] st)"
    using st by simp
  moreover have "bus_ok (st\<lparr>slot_in_use := (slot_in_use st)[i := 1]\<rparr>) \<and> slots_ok (st\<lparr>slot_in_use := (slot_in_use st)[i := 1]\<rparr>)" for i
    using st by (simp add: bus_ok_def slots_ok_def)
  ultimately show ?thesis using b d len by (auto simp: open_slot_def)
qed

text \<open>What the ring buffers of the allocator are assumed to be.\<close>

definition rbuf_good :: "(int \<Rightarrow> int \<Rightarrow> int \<Rightarrow> circlebuf option) \<Rightarrow> bool" where
  "rbuf_good rbuf \<longleftrightarrow> (\<forall>ch\<in>{1, 2}. \<exists>rb. rbuf ch 0 48000 = Some rb \<and> cb_ok rb \<and> rb_chann rb = ch)"

lemma handle_ok_ring:
  assumes "handle_ok hdl" and "b < 16" and "cb_ok rb" and "ch = 1 \<or> ch = 2" and "rb_chann rb = ch"
  shows "handle_ok (hdl\<lparr>hs_bus_buf_sz := (hs_bus_buf_sz hdl)[b := ch * 1920], hs_bus_rbuf := (hs_bus_rbuf hdl)[b := Some rb]\<rparr>)"
proof -
  let ?h = "hdl\<lparr>hs_bus_buf_sz := (hs_bus_buf_sz hdl)[b := ch * 1920], hs_bus_rbuf := (hs_bus_rbuf hdl)[b := Some rb]\<rparr>"
  have "ring_ok ?h b'" if "b' < 16" "get_bit_c (hs_bus_state hdl) b'" "b' \<noteq> 2" for b'
    using assms that by (cases "b' = b") (auto simp: handle_ok_def ring_ok_def)
  then show ?thesis using assms(1) by (simp add: handle_ok_def)
qed

lemma open_handle_out_ok:
  assumes h: "handle_ok hdl" and r: "rbuf_good rbuf" and b: "0 \<le> so_bus_num out" "so_bus_num out < 16"
    and ch: "so_channels out = 1 \<or> so_channels out = 2" "so_format out = 0"
    and cfg: "pc_rate cfg = 48000" "pc_channels cfg = 8"
  defines "h0 \<equiv> hdl\<lparr>hs_bus_buf_sz := (hs_bus_buf_sz hdl)[nat (so_bus_num out) := so_channels out * 1920]\<rparr>"
  shows "\<exists>hdl' out' ok. open_handle_out rbuf attempt prepare created h0 out c p cfg = Inr (hdl', out', ok) \<and> handle_ok hdl' \<and>
    (ok \<longrightarrow> get_bit_c (hs_bus_state hdl') (nat (so_bus_num out)) \<and> hs_ref_cnt hdl' = hs_ref_cnt hdl + 1)"
proof -
  define n where "n = nat (so_bus_num out)"
  have n: "n < 16" using b by (simp add: n_def)
  obtain rb where rb: "rbuf (so_channels out) 0 48000 = Some rb" "cb_ok rb" "rb_chann rb = so_channels out"
    using r ch(1) by (auto simp: rbuf_good_def)
  have len: "length (hs_bus_rbuf h0) = 16" using h by (simp add: h0_def handle_ok_def)
  note ring = handle_ok_ring [OF _ n rb(2) ch(1) rb(3)]
  note att = attach_out_ok [of _ out, folded n_def, OF _ _ _ _ n]
  have rok: "ring_ok (x\<lparr>hs_bus_buf_sz := (hs_bus_buf_sz y)[n := so_channels out * 1920], hs_bus_rbuf := (hs_bus_rbuf y)[n := Some rb]\<rparr>) n"
    if "handle_ok y" for x y
    using that n rb ch(1) by (auto simp: ring_ok_def handle_ok_def)
  show ?thesis
  proof (cases "hs_ref_cnt hdl = 0")
    case True
    define h1 where "h1 = stream_playback_prepare
      ((open_device attempt prepare h0 c p cfg)\<lparr>hs_bus_rbuf := (hs_bus_rbuf hdl)[n := Some rb]\<rparr>)"
    have prep: "prepare_rbuf_out rbuf (open_device attempt prepare h0 c p cfg) out =
        Inr ((open_device attempt prepare h0 c p cfg)\<lparr>hs_bus_rbuf := (hs_bus_rbuf hdl)[n := Some rb]\<rparr>)"
      using b len ch(2) cfg rb(1) by (simp add: prepare_rbuf_out_def open_device_def h0_def n_def)
    have h1: "handle_ok h1" "handle_ok ((open_device attempt prepare h0 c p cfg)\<lparr>hs_bus_rbuf := (hs_bus_rbuf hdl)[n := Some rb]\<rparr>)"
      "ring_ok h1 n" "hs_channels h1 = 8" "hs_rate h1 = 48000" "hs_ref_cnt h1 = 0"
      using ring [OF h] rok [OF h] cfg True
      by (simp_all add: h1_def stream_playback_prepare_def open_device_def h0_def handle_ok_def ring_ok_def n_def)
    show ?thesis
      using True prep h1 att [OF h1(1,3-5)] by (auto simp: open_handle_out_def h0_def Let_def h1_def n_def attach_out_def)
  next
    case False
    define h1 where "h1 = h0\<lparr>hs_bus_rbuf := (hs_bus_rbuf hdl)[n := Some rb]\<rparr>"
    have "hs_rate hdl = 48000" "hs_channels hdl = 8" using h False by (simp_all add: handle_ok_def)
    then have prep: "prepare_rbuf_out rbuf h0 out = Inr h1"
      using b len ch(2) rb(1) by (simp add: prepare_rbuf_out_def h0_def h1_def n_def)
    have h1: "handle_ok h1" "ring_ok h1 n" "hs_channels h1 = 8" "hs_rate h1 = 48000"
      using ring [OF h] rok [OF h] h False by (simp_all add: h1_def h0_def handle_ok_def ring_ok_def n_def)
    show ?thesis
      using False prep att [OF h1] by (auto simp: open_handle_out_def h0_def n_def attach_out_def h1_def)
  qed
qed

section \<open>The table of handles\<close>

lemma find_streamer_Some:
  "find_streamer P k g = Some i \<Longrightarrow> k \<le> i \<and> i < k + length g \<and> P (g ! (i - k)) \<and> (\<forall>j<i - k. \<not> P (g ! j))"
proof (induction g arbitrary: k)
  case (Cons h g)
  show ?case
  proof (cases "P h")
    case False
    then have "find_streamer P (Suc k) g = Some i" using Cons.prems by simp
    from Cons.IH [OF this] show ?thesis using False by (auto simp: nth_Cons split: nat.split) (metis Suc_diff_Suc Suc_le_lessD diff_Suc_Suc nat.inject)+
  qed (use Cons.prems in auto)
qed simp

lemma find_streamer_None: "find_streamer P k g = None \<longleftrightarrow> (\<forall>h\<in>set g. \<not> P h)"
  by (induction g arbitrary: k) auto

lemma last_streamer_cases:
  "last_streamer P k g hdl = r \<Longrightarrow>
   (\<forall>h\<in>set g. \<not> P h) \<and> r = hdl \<or> (\<exists>i<length g. r = Some (k + i) \<and> P (g ! i) \<and> (\<forall>j<length g. i < j \<longrightarrow> \<not> P (g ! j)))"
proof (induction g arbitrary: k hdl)
  case (Cons h g)
  from Cons.IH [of "Suc k" "if P h then Some k else hdl"] Cons.prems
  have "(\<forall>h\<in>set g. \<not> P h) \<and> r = (if P h then Some k else hdl) \<or>
    (\<exists>i<length g. r = Some (Suc k + i) \<and> P (g ! i) \<and> (\<forall>j<length g. i < j \<longrightarrow> \<not> P (g ! j)))" by simp
  then show ?case
  proof
    assume none: "(\<forall>h\<in>set g. \<not> P h) \<and> r = (if P h then Some k else hdl)"
    show ?thesis
    proof (cases "P h")
      case True
      have "\<not> P (g ! (j - 1))" if "0 < j" "j < Suc (length g)" for j using none that nth_mem [of "j - 1" g] by auto
      then show ?thesis using none True by (intro disjI2 exI [of _ 0]) (auto simp: nth_Cons')
    qed (use none in auto)
  next
    assume "\<exists>i<length g. r = Some (Suc k + i) \<and> P (g ! i) \<and> (\<forall>j<length g. i < j \<longrightarrow> \<not> P (g ! j))"
    then obtain i where i: "i < length g" "r = Some (Suc k + i)" "P (g ! i)" "\<forall>j<length g. i < j \<longrightarrow> \<not> P (g ! j)" by auto
    show ?thesis using i by (intro disjI2 exI [of _ "Suc i"]) (auto simp: nth_Cons')
  qed
qed simp

text \<open>\<open>probe_out\<close> finds an allocated handle whenever there is one.\<close>

lemma probe_out_found:
  assumes "\<exists>h\<in>set g. hs_allocated h"
  obtains i where "i < length g" "probe_out g bus = (g[i := (g ! i)\<lparr>hs_dir := PLAYBACK_STREAM\<rparr>], Some i)"
proof (cases "find_streamer (bound_to bus) 0 g")
  case (Some i)
  then show thesis using that [of i] find_streamer_Some [OF Some] by (simp add: probe_out_def)
next
  case None
  from last_streamer_cases [of hs_allocated 0 g None, OF refl] assms obtain i where
    "i < length g" "last_streamer hs_allocated 0 g None = Some i" by auto
  then show thesis using that [of i] None by (simp add: probe_out_def)
qed

lemma handle_ok_dir: "handle_ok h \<Longrightarrow> handle_ok (h\<lparr>hs_dir := d\<rparr>)"
  by (simp add: handle_ok_def)

lemma hal_streamer_open_out_ok:
  assumes s: "streams_ok (g, st)" and alloc: "\<exists>h\<in>set g. hs_allocated h" and r: "rbuf_good rbuf" and bits: "bits 0 = 16"
    and b: "0 \<le> so_bus_num out" "so_bus_num out < 16"
    and ch: "so_channels out = 1 \<or> so_channels out = 2" "so_format out = 0"
    and cfg: "pc_rate cfg = 48000" "pc_channels cfg = 8"
  shows "\<exists>g' st' out' cmds hdl. hal_streamer_open_out bits rbuf attempt prepare created dsp g st out c p cfg =
    Inr (g', st', out', cmds, hdl) \<and> streams_ok (g', st')"
proof -
  have g: "length g = 8" "list_all handle_ok g" "bus_ok st" "slots_ok st" using s by (simp_all add: streams_ok_def MAX_STREAMERS_def)
  obtain i where i: "i < length g" "probe_out g (so_bus_num out) = (g[i := (g ! i)\<lparr>hs_dir := PLAYBACK_STREAM\<rparr>], Some i)"
    using probe_out_found [OF alloc] by blast
  define h where "h = (g ! i)\<lparr>hs_dir := PLAYBACK_STREAM\<rparr>"
  define szs where "szs = (hs_bus_buf_sz h)[nat (so_bus_num out) := so_channels out * 1920]"
  have h: "handle_ok h" using g(2) i(1) by (simp add: h_def handle_ok_dir list_all_nthD)
  then have set_sz: "arr_set (hs_bus_buf_sz h) (so_bus_num out) (s32 (CALCULATE_BYTES bits (so_channels out) (so_format out) (pc_rate cfg) 20)) = Inr szs"
    using b period_size [of bits, OF bits ch(1)] ch(2) cfg(1) by (simp add: szs_def handle_ok_def)
  obtain st1 where st1: "open_slot st (so_bus_num out) = Inr st1" "bus_ok st1" "slots_ok st1"
    using open_slot_ok [OF g(3,4) b] by blast
  obtain h' out' ok where h': "open_handle_out rbuf attempt prepare created (h\<lparr>hs_bus_buf_sz := szs\<rparr>) out c p cfg = Inr (h', out', ok)" "handle_ok h'"
    using open_handle_out_ok [OF h r b ch cfg] unfolding szs_def by blast
  define st2 where "st2 = st1\<lparr>bus_active := (bus_active st1)[nat (so_bus_num out) := 1]\<rparr>"
  have st2: "bus_ok st2" "slots_ok st2" using st1 by (simp_all add: st2_def bus_ok_def slots_ok_def)
  have len: "length (slot_index st1) = 16" "length (bus_active st1) = 16" using st1(2) by (simp_all add: bus_ok_def)
  obtain cmds ret where v: "set_bus_volume dsp st1 (so_bus_num out) = Inr (cmds, ret)"
    using set_bus_volume_level [OF st1(2) b, of dsp] by (metis prod.collapse)
  have "hal_streamer_open_out bits rbuf attempt prepare created dsp g st out c p cfg =
      Inr (g[i := h'], st2, out', cmds @ mono_cmds (so_bus_num out) (slot_index st1 ! nat (so_bus_num out)), if ok then Some i else None)"
    using i set_sz st1(1) v len b h'(1) by (simp add: hal_streamer_open_out_def Let_def st2_def flip: h_def)
  then show ?thesis using g st2 h'(2) by (auto simp: streams_ok_def MAX_STREAMERS_def list_all_update)
qed

lemma hal_streamer_close_out_ok:
  assumes s: "streams_ok (g, st)" and b: "0 \<le> so_bus_num out" "so_bus_num out < 16" and s0: "slot0 (so_bus_num out) \<in> {0, 2, 4, 6}"
    and i: "so_pcm_hdl out = Some i" "i < length g" "0 < hs_ref_cnt (g ! i)"
  shows "\<exists>g' st' out'. hal_streamer_close_out slot0 g st out = Inr (g', st', out', 0) \<and> streams_ok (g', st')"
proof -
  have g: "length g = 8" "list_all handle_ok g" "bus_ok st" "slots_ok st" using s by (simp_all add: streams_ok_def MAX_STREAMERS_def)
  have len: "length (slot_index st) = 16" "length (bus_active st) = 16" "length (slot_in_use st) = 4" using g(3) by (simp_all add: bus_ok_def)
  have "slot_index st ! nat (so_bus_num out) \<in> {0, 2, 4, 6}" using g(4) b by (simp add: slots_ok_def)
  then have d: "0 \<le> slot_index st ! nat (so_bus_num out) div 2" "slot_index st ! nat (so_bus_num out) div 2 < 4" by auto
  have hi: "handle_ok (g ! i)" using g(2) i(2) by (rule list_all_nthD)
  define n where "n = nat (so_bus_num out)"
  define st' where "st' k = st\<lparr>slot_in_use := (slot_in_use st)[k := 0], bus_active := (bus_active st)[n := 0],
    slot_index := (slot_index st)[n := slot0 (so_bus_num out) mod 256]\<rparr>" for k
  have "n < 16" using b by (simp add: n_def)
  then have st': "bus_ok (st' k)" "slots_ok (st' k)" for k
    using g(3,4) s0 len by (auto simp: st'_def bus_ok_def slots_ok_def nth_list_update)
  have h': "handle_ok ((g ! i)\<lparr>hs_ref_cnt := hs_ref_cnt (g ! i) - 1, hs_plbk_exit := True, hs_pcm := False\<rparr>)" if "hs_ref_cnt (g ! i) = 1"
    using hi that by (simp add: handle_ok_def)
  have h2: "handle_ok ((g ! i)\<lparr>hs_ref_cnt := n, hs_plbk_exit := True\<rparr>)" "handle_ok ((g ! i)\<lparr>hs_ref_cnt := n\<rparr>)"
    "handle_ok ((g ! i)\<lparr>hs_ref_cnt := n, hs_plbk_hold := False\<rparr>)" for n
    using hi i(3) by (simp_all add: handle_ok_def)
  show ?thesis
    using b d len i st' g(1,2) h' h2
    by (auto simp: hal_streamer_close_out_def Let_def streams_ok_def MAX_STREAMERS_def list_all_update simp flip: n_def st'_def)
qed

section \<open>Writing and playing\<close>

lemma write_keeps_chann:
  assumes "audio_circlebuf_write (Some rb) (Some bs) len = Inr (Some rb', n)"
  shows "rb_chann rb' = rb_chann rb"
proof -
  have store: "circlebuf_store r bs k = Inr r' \<Longrightarrow> rb_chann r' = rb_chann r" for r r' k
    by (auto simp: circlebuf_store_def and_then_def Let_def split: if_splits sum.splits)
  show ?thesis using assms
    by (auto simp: audio_circlebuf_write_def and_then_def Let_def split: if_splits sum.splits dest!: store)
qed

text \<open>A write that fits appends its bytes to the queue of the bus.\<close>

lemma write_fits:
  assumes "cb_ok rb" and "0 < len" and "len = int (length bs)" and "len \<le> rb_size rb - rb_used rb"
  shows "\<exists>rb'. audio_circlebuf_write (Some rb) (Some bs) len = Inr (Some rb', len) \<and> cb_ok rb' \<and>
    contents rb' = contents rb @ bs \<and> rb_chann rb' = rb_chann rb \<and> rb_size rb' = rb_size rb"
proof -
  have rb: "rb_ok rb" "\<not> rb_lock rb" "\<not> rb_over_write rb" using assms(1) by (simp_all add: cb_ok_def)
  have m: "min len (rb_size rb - rb_used rb) = len" using assms(4) by simp
  obtain rb' where "audio_circlebuf_write (Some rb) (Some bs) len = Inr (Some rb', len)" "rb_ok rb'" "\<not> rb_lock rb'"
    "contents rb' = contents rb @ bs" "rb_over_write rb' = rb_over_write rb" "rb_size rb' = rb_size rb"
    using write_plain [OF rb(1,2) assms(2), of bs] rb(3) m assms(3) by auto
  then show ?thesis using rb(3) write_keeps_chann by (metis cb_ok_def)
qed

text \<open>The loop of \<open>hal_streamer_write\<close>: a chunk larger than the ring buffer is never accepted.\<close>

lemma write_poll_Some:
  "write_poll polls count = Some rb \<Longrightarrow> rb \<in> set polls \<and> u32 (audio_circlebuf_available rb) \<ge> count"
  by (induction polls) (auto split: if_splits)

lemma write_poll_None: "write_poll polls count = None \<longleftrightarrow> (\<forall>rb\<in>set polls. u32 (audio_circlebuf_available rb) < count)"
  by (induction polls) auto

lemma available_u32: "cb_ok rb \<Longrightarrow> rb_size rb \<le> 2147483647 \<Longrightarrow> u32 (audio_circlebuf_available rb) = rb_size rb - rb_used rb"
  by (simp add: audio_circlebuf_available_def u32_id cb_ok_def rb_ok_def)

text \<open>The loop of \<open>hal_streamer_read\<close>: eleven tests.\<close>

lemma read_poll_spec:
  "read_poll polls count k n = None \<longleftrightarrow> (\<forall>i\<le>n. u32 (audio_circlebuf_used (polls (k + i))) < count)"
proof (induction n arbitrary: k)
  case 0
  show ?case by (subst read_poll.simps) auto
next
  case (Suc n)
  have "(\<forall>i\<le>Suc n. u32 (audio_circlebuf_used (polls (k + i))) < count) \<longleftrightarrow>
      u32 (audio_circlebuf_used (polls k)) < count \<and> (\<forall>i\<le>n. u32 (audio_circlebuf_used (polls (Suc k + i))) < count)"
    using ex_le_Suc_shift [of n "\<lambda>i. \<not> u32 (audio_circlebuf_used (polls (k + i))) < count"] by auto
  then show ?case using Suc.IH [of "Suc k"] by (subst read_poll.simps) auto
qed

lemma read_poll_Some:
  "read_poll polls count k n = Some rb \<Longrightarrow> \<exists>i\<le>n. rb = polls (k + i) \<and> u32 (audio_circlebuf_used rb) \<ge> count"
proof (induction n arbitrary: k)
  case 0
  then show ?case by (subst (asm) read_poll.simps) (auto split: if_splits)
next
  case (Suc n)
  show ?case
  proof (cases "u32 (audio_circlebuf_used (polls k)) \<ge> count")
    case True
    then show ?thesis using Suc.prems by (subst (asm) read_poll.simps) (auto intro!: exI [of _ 0])
  next
    case False
    then have "read_poll polls count (Suc k) n = Some rb" using Suc.prems by (subst (asm) read_poll.simps) simp
    then obtain i where "i \<le> n" "rb = polls (Suc k + i)" "u32 (audio_circlebuf_used rb) \<ge> count" using Suc.IH by blast
    then show ?thesis by (intro exI [of _ "Suc i"]) simp
  qed
qed

text \<open>
  The streams as a system: streams are opened and closed, chunks are written to a bus with room for them,
  and the thread of a handle plays a period, in any order.
\<close>

inductive hs_step ::
    "(int \<Rightarrow> int) \<Rightarrow> (int \<Rightarrow> int) \<Rightarrow> (int \<Rightarrow> int \<Rightarrow> int \<Rightarrow> circlebuf option) \<Rightarrow> (dsp_cmd \<Rightarrow> int)
      \<Rightarrow> hal_streamer list \<times> audio_bus_status \<Rightarrow> hal_streamer list \<times> audio_bus_status \<Rightarrow> bool"
  for bits slot0 rbuf dsp where
  step_open: "0 \<le> so_bus_num out \<Longrightarrow> so_bus_num out < 16 \<Longrightarrow> so_channels out = 1 \<or> so_channels out = 2 \<Longrightarrow> so_format out = 0
    \<Longrightarrow> pc_rate cfg = 48000 \<Longrightarrow> pc_channels cfg = 8 \<Longrightarrow> \<exists>h\<in>set g. hs_allocated h
    \<Longrightarrow> hal_streamer_open_out bits rbuf attempt prepare created dsp g st out c p cfg = Inr (g', st', out', cmds, hdl)
    \<Longrightarrow> hs_step bits slot0 rbuf dsp (g, st) (g', st')"
| step_close: "0 \<le> so_bus_num out \<Longrightarrow> so_bus_num out < 16 \<Longrightarrow> so_pcm_hdl out = Some i \<Longrightarrow> i < length g \<Longrightarrow> 0 < hs_ref_cnt (g ! i)
    \<Longrightarrow> hal_streamer_close_out slot0 g st out = Inr (g', st', out', ret) \<Longrightarrow> hs_step bits slot0 rbuf dsp (g, st) (g', st')"
| step_write: "0 \<le> so_bus_num out \<Longrightarrow> so_bus_num out < 16 \<Longrightarrow> so_bus_num out \<noteq> 2 \<Longrightarrow> so_pcm out \<Longrightarrow> so_pcm_hdl out = Some i \<Longrightarrow> i < length g
    \<Longrightarrow> \<not> is_low_latency_bus out \<Longrightarrow> get_bit_c (hs_bus_state (g ! i)) (nat (so_bus_num out))
    \<Longrightarrow> 0 < length bs \<Longrightarrow> int (length bs) \<le> audio_circlebuf_available (the (hs_bus_rbuf (g ! i) ! nat (so_bus_num out)))
    \<Longrightarrow> rb_size (the (hs_bus_rbuf (g ! i) ! nat (so_bus_num out))) \<le> 2147483647
    \<Longrightarrow> hal_streamer_write bits slot0 pcm_write tmp [the (hs_bus_rbuf (g ! i) ! nat (so_bus_num out))] st g out (Some bs) (int (length bs))
      = Inr (Some (g', played, ret))
    \<Longrightarrow> hs_step bits slot0 rbuf dsp (g, st) (g', st)"
| step_play: "i < length g \<Longrightarrow> length in_tmp = 16384 \<Longrightarrow> length out_tmp = 8192 \<Longrightarrow> list_all in_s16 out_tmp
    \<Longrightarrow> playback_iter bits slot0 st in_tmp out_tmp (g ! i) = Inr (hdl', played)
    \<Longrightarrow> hs_step bits slot0 rbuf dsp (g, st) (g[i := hdl'], st)"

inductive_cases hs_stepE: "hs_step bits slot0 rbuf dsp s s'"

lemma playback_iter_idle:
  "hs_plbk_exit hdl \<or> hs_plbk_hold hdl \<or> \<not> hs_pcm hdl \<Longrightarrow> playback_iter bits slot0 st in_tmp out_tmp hdl = Inr (hdl, None)"
  by (simp add: playback_iter_def Let_def)

lemma handle_ok_after_play:
  assumes "handle_ok hdl" and "hdl_ok st hdl'" and "only_rings hdl hdl'"
  shows "handle_ok hdl'"
proof -
  obtain rbs where h: "hdl' = hdl\<lparr>hs_bus_rbuf := rbs\<rparr>" using assms(3) by (auto simp: only_rings_def)
  have "ring_ok hdl' b" if "b < 16" "get_bit_c (hs_bus_state hdl) b" "b \<noteq> 2" for b
    using assms(2) that h by (simp add: hdl_ok_def bus_wired_def)
  then show ?thesis using assms(1,2) h by (simp add: handle_ok_def hdl_ok_def)
qed

lemma playback_iter_ok:
  assumes "streams_ok (g, st)" and "bits 0 = 16" and "i < length g"
    and "length in_tmp = 16384" and "length out_tmp = 8192" and "list_all in_s16 out_tmp"
  shows "\<exists>hdl' played. playback_iter bits slot0 st in_tmp out_tmp (g ! i) = Inr (hdl', played) \<and> handle_ok hdl'"
proof -
  have g: "handle_ok (g ! i)" "bus_ok st" "slots_ok st" using assms(1,3) by (auto simp: streams_ok_def list_all_nthD)
  show ?thesis
  proof (cases "hs_plbk_exit (g ! i) \<or> hs_plbk_hold (g ! i) \<or> \<not> hs_pcm (g ! i)")
    case True
    then show ?thesis using g(1) playback_iter_idle by blast
  next
    case False
    note h = handle_ok_hdl_ok [OF g(1,3)]
    show ?thesis
      using playback_iter_plays [of st "g ! i" bits in_tmp out_tmp slot0] h False g(1,2) assms(2-6) handle_ok_after_play [OF g(1)]
      by (metis (no_types, lifting))
  qed
qed

lemma hal_streamer_write_ok:
  assumes h: "handle_ok (g ! i)" and b: "0 \<le> so_bus_num out" "so_bus_num out < 16" "so_bus_num out \<noteq> 2"
    and o: "so_pcm out" "so_pcm_hdl out = Some i" "\<not> is_low_latency_bus out" and on: "get_bit_c (hs_bus_state (g ! i)) (nat (so_bus_num out))"
    and bs: "0 < length bs" "rb_size (the (hs_bus_rbuf (g ! i) ! nat (so_bus_num out))) \<le> 2147483647" "int (length bs) \<le> audio_circlebuf_available (the (hs_bus_rbuf (g ! i) ! nat (so_bus_num out)))"
  defines "n \<equiv> nat (so_bus_num out)"
  shows "\<exists>rb'. hal_streamer_write bits slot0 pcm_write tmp [the (hs_bus_rbuf (g ! i) ! n)] st g out (Some bs) (int (length bs)) =
      Inr (Some (g[i := (g ! i)\<lparr>hs_bus_rbuf := (hs_bus_rbuf (g ! i))[n := Some rb']\<rparr>], None, 0)) \<and>
    cb_ok rb' \<and> contents rb' = contents (the (hs_bus_rbuf (g ! i) ! n)) @ bs \<and> rb_chann rb' = rb_chann (the (hs_bus_rbuf (g ! i) ! n))"
proof -
  have n: "n < 16" "n \<noteq> 2" using b by (auto simp: n_def)
  then have "ring_ok (g ! i) n" using h on by (simp add: handle_ok_def n_def)
  then obtain rb where rb: "hs_bus_rbuf (g ! i) ! n = Some rb" "cb_ok rb" by (auto simp: ring_ok_def)
  have len: "length (hs_bus_rbuf (g ! i)) = 16" using h by (simp add: handle_ok_def)
  have a: "int (length bs) \<le> rb_size rb - rb_used rb" using bs(3) rb(1) by (simp add: audio_circlebuf_available_def n_def)
  obtain rb' where w: "audio_circlebuf_write (Some rb) (Some bs) (int (length bs)) = Inr (Some rb', int (length bs))" "cb_ok rb'"
    "contents rb' = contents rb @ bs" "rb_chann rb' = rb_chann rb"
    using write_fits [OF rb(2) _ refl a] bs(1) by auto
  have sz: "rb_size rb \<le> 2147483647" using bs(2) rb(1) by (simp add: n_def)
  have "0 \<le> rb_used rb" using rb(2) by (simp add: cb_ok_def rb_ok_def)
  then have "s32 (int (length bs)) = int (length bs)" using a sz by (intro s32_id) linarith+
  moreover have "write_poll [rb] (int (length bs)) = Some rb" using a available_u32 [OF rb(2) sz] by simp
  ultimately show ?thesis
    using o b rb len w by (intro exI [of _ rb']) (simp add: hal_streamer_write_def flip: n_def)
qed

lemma hs_step_ok:
  assumes "hs_step bits slot0 rbuf dsp s s'" and "streams_ok s" and "bits 0 = 16" and "rbuf_good rbuf"
    and "\<forall>b. slot0 b \<in> {0, 2, 4, 6}"
  shows "streams_ok s'"
  using assms(1)
proof (cases rule: hs_step.cases)
  case (step_open out cfg g attempt prepare created st c p g' st' out' cmds hdl)
  then show ?thesis
    using hal_streamer_open_out_ok [of g st rbuf bits out cfg attempt prepare created dsp c p] assms(2-4) by auto
next
  case (step_close out i g st g' st' out' ret)
  then show ?thesis using hal_streamer_close_out_ok [of g st out slot0 i] assms(2,5) by auto
next
  case (step_write out i g bs pcm_write tmp st g' played ret)
  define n where "n = nat (so_bus_num out)"
  have h: "handle_ok (g ! i)" "length g = 8" "n < 16" using step_write assms(2) by (auto simp: streams_ok_def MAX_STREAMERS_def list_all_nthD n_def)
  obtain rb' where rb': "g' = g[i := (g ! i)\<lparr>hs_bus_rbuf := (hs_bus_rbuf (g ! i))[n := Some rb']\<rparr>]" "cb_ok rb'"
    "rb_chann rb' = rb_chann (the (hs_bus_rbuf (g ! i) ! n))"
    using hal_streamer_write_ok [OF h(1), of out bs bits slot0 pcm_write tmp st] step_write unfolding n_def by auto
  have "ring_ok (g ! i) n" using h step_write(5,10) by (simp add: handle_ok_def n_def)
  then have "handle_ok ((g ! i)\<lparr>hs_bus_rbuf := (hs_bus_rbuf (g ! i))[n := Some rb']\<rparr>)"
    using h rb' by (auto simp: handle_ok_def ring_ok_def nth_list_update)
  then show ?thesis using assms(2) step_write(1,2) rb'(1) by (auto simp: streams_ok_def list_all_update)
next
  case (step_play i g in_tmp out_tmp st hdl' played)
  then show ?thesis
    using playback_iter_ok [of g st bits i in_tmp out_tmp slot0] assms(2,3) by (auto simp: streams_ok_def list_all_update)
qed

section \<open>Binding\<close>

text \<open>A free entry of the table is as the loader left it.\<close>

definition entry_ok :: "hal_streamer \<Rightarrow> bool" where
  "entry_ok h \<longleftrightarrow> length (hs_name h) = 128 \<and> length (hs_bind_bus h) = 16 \<and> 0 \<le> hs_bind_bus_len h \<and>
     (\<not> hs_allocated h \<longrightarrow> hs_name h = replicate 128 NUL \<and> hs_bind_bus_len h = 0)"

lemma bind_append_bound:
  assumes "i < length g" and "entry_ok (g ! i)" and "hs_allocated (g ! i)" and "bind_append g i b = Inr (g', r)"
  shows "r = 0 \<and> bound_to b (g' ! i) \<and> hs_name (g' ! i) = hs_name (g ! i) \<and> length g' = length g \<and> (\<forall>j. j \<noteq> i \<longrightarrow> g' ! j = g ! j)"
proof -
  let ?h = "g ! i"
  have len: "0 \<le> hs_bind_bus_len ?h" "hs_bind_bus_len ?h < 16" "length (hs_bind_bus ?h) = 16"
    using assms(2,4) by (auto simp: entry_ok_def bind_append_def arr_set_def Let_def split: if_splits)
  define k where "k = nat (hs_bind_bus_len ?h)"
  have k: "hs_bind_bus_len ?h = int k" "k < 16" using len by (simp_all add: k_def)
  have "b \<in> set (take (Suc k) ((hs_bind_bus ?h)[k := b]))"
    using k len(3) by (simp add: take_Suc_conv_app_nth)
  moreover have "g' = g[i := ?h\<lparr>hs_bind_bus := (hs_bind_bus ?h)[k := b], hs_bind_bus_len := int k + 1\<rparr>]" "r = 0"
    using assms(4) k len(3) by (simp_all add: bind_append_def Let_def)
  moreover have "nat (int k + 1) = Suc k" by simp
  ultimately show ?thesis using assms(1,3) by (simp add: bound_to_def)
qed

lemma strncpy_name:
  assumes "length nm \<le> 127"
  shows "\<exists>a. strncpy_c (replicate 128 NUL) nm (int (length nm)) = Inr a \<and> length a = 128 \<and> (NUL \<notin> set nm \<longrightarrow> c_string a = nm)"
proof -
  let ?a = "nm @ replicate (128 - length nm) NUL"
  have "strncpy_c (replicate 128 NUL) nm (int (length nm)) = Inr ?a"
    using assms memcpy_ok [of "int (length nm)" 0 0 "replicate 128 NUL" "nm @ replicate (length nm) NUL"]
    by (simp add: strncpy_c_def blit_def window_def)
  moreover have "c_string ?a = nm" if "NUL \<notin> set nm"
  proof -
    have "\<forall>c\<in>set nm. c \<noteq> NUL" using that by auto
    then show ?thesis by (simp add: c_string_def takeWhile_append2)
  qed
  ultimately show ?thesis using assms by simp
qed

text \<open>A bus is found under the name it was bound to.\<close>

lemma bind_then_find:
  assumes g: "list_all entry_ok g" and nm: "length nm \<le> 127" "NUL \<notin> set nm" and free: "\<forall>h\<in>set g. \<not> bound_to b h"
    and r: "hal_streamer_bind_bus g nm (int (length nm)) b = Inr (g', 0)"
  shows "\<exists>i. probe_out g' b = (g'[i := (g' ! i)\<lparr>hs_dir := PLAYBACK_STREAM\<rparr>], Some i) \<and> i < length g' \<and>
    hs_allocated (g' ! i) \<and> c_string (hs_name (g' ! i)) = nm"
proof -
  obtain i g0 where i: "i < length g" "length g0 = length g" "bind_append g0 i b = Inr (g', 0)" "entry_ok (g0 ! i)" "hs_allocated (g0 ! i)"
    "c_string (hs_name (g0 ! i)) = nm" "\<forall>j. j \<noteq> i \<longrightarrow> g0 ! j = g ! j"
  proof (cases "find_streamer (\<lambda>h. hs_allocated h \<and> c_string (hs_name h) = nm) 0 g")
    case (Some i)
    then have "i < length g" "hs_allocated (g ! i)" "c_string (hs_name (g ! i)) = nm" using find_streamer_Some [OF Some] by auto
    then show thesis using that [of i g] r Some g by (simp add: hal_streamer_bind_bus_def list_all_nthD)
  next
    case None
    show thesis
    proof (cases "last_streamer (\<lambda>h. \<not> hs_allocated h) 0 g None")
      case None': None
      then show thesis using r None by (simp add: hal_streamer_bind_bus_def)
    next
      case (Some i)
      then have f: "i < length g" "\<not> hs_allocated (g ! i)"
        using last_streamer_cases [of "\<lambda>h. \<not> hs_allocated h" 0 g None, OF refl] by auto
      then have "entry_ok (g ! i)" using list_all_nthD [OF g] by blast
      with f have e: "entry_ok (g ! i)" "hs_name (g ! i) = replicate 128 NUL" by (simp_all add: entry_ok_def)
      obtain a where a: "strncpy_c (replicate 128 NUL) nm (int (length nm)) = Inr a" "length a = 128" "c_string a = nm"
        using strncpy_name [OF nm(1)] nm(2) by blast
      let ?g0 = "g[i := (g ! i)\<lparr>hs_allocated := True, hs_name := a\<rparr>]"
      have "bind_append ?g0 i b = Inr (g', 0)" using r None Some e a by (simp add: hal_streamer_bind_bus_def)
      then show thesis using that [of i ?g0] f e a by (simp add: entry_ok_def)
    qed
  qed
  have b: "bound_to b (g' ! i)" "hs_name (g' ! i) = hs_name (g0 ! i)" "length g' = length g0" "\<forall>j. j \<noteq> i \<longrightarrow> g' ! j = g0 ! j"
    using bind_append_bound [OF _ i(4,5,3)] i(1,2) by simp_all
  have "find_streamer (bound_to b) 0 g' = Some i"
  proof (cases "find_streamer (bound_to b) 0 g'")
    case None
    then show ?thesis using b i by (auto simp: find_streamer_None)
  next
    case (Some j)
    then have j: "j < length g'" "bound_to b (g' ! j)" using find_streamer_Some [OF Some] by auto
    then show ?thesis using Some b i free by (cases "j = i") auto
  qed
  then show ?thesis using b i by (auto simp: probe_out_def bound_to_def)
qed

lemma bind_with_free_entry:
  assumes "hal_streamer_bind_bus g nm n b = Inr (g', r)" and "\<exists>h\<in>set g. \<not> hs_allocated h"
  shows "r = 0"
proof -
  have append: "bind_append x i b = Inr (g', r) \<Longrightarrow> r = 0" for x i
    by (auto simp: bind_append_def and_then_def Let_def split: sum.splits)
  have "last_streamer (\<lambda>h. \<not> hs_allocated h) 0 g None \<noteq> None"
    using last_streamer_cases [of "\<lambda>h. \<not> hs_allocated h" 0 g None, OF refl] assms(2) by auto
  then show ?thesis
    using assms(1) append by (auto simp: hal_streamer_bind_bus_def and_then_def split: option.splits sum.splits)
qed

section \<open>Slots\<close>

lemma take_free_slots:
  assumes "length (slot_in_use st) = 4" and "nat bus < length (slot_index st)"
  defines "st' \<equiv> fold (take_free_slot bus) [1, 2, 3] st"
  shows "slot_in_use st' = [slot_in_use st ! 0, 1, 1, 1]"
    and "slot_index st' ! nat bus = (if slot_in_use st ! 3 \<noteq> 1 then 6 else if slot_in_use st ! 2 \<noteq> 1 then 4
      else if slot_in_use st ! 1 \<noteq> 1 then 2 else slot_index st ! nat bus)"
proof -
  obtain a b c d where u: "slot_in_use st = [a, b, c, d]"
    using assms(1) by (auto simp: length_Suc_conv numeral_eq_Suc)
  show "slot_in_use st' = [slot_in_use st ! 0, 1, 1, 1]"
    by (simp add: st'_def take_free_slot_def u numeral_2_eq_2 numeral_3_eq_3)
  show "slot_index st' ! nat bus = (if slot_in_use st ! 3 \<noteq> 1 then 6 else if slot_in_use st ! 2 \<noteq> 1 then 4
      else if slot_in_use st ! 1 \<noteq> 1 then 2 else slot_index st ! nat bus)"
    using assms(2) by (simp add: st'_def take_free_slot_def u numeral_2_eq_2 numeral_3_eq_3)
qed

section \<open>Behaviour at the limits\<close>

text \<open>The sum of two loud samples wraps, although the code compares it with the limits.\<close>

lemma loud_samples_wrap: "0 < b \<Longrightarrow> b \<le> 32767 \<Longrightarrow> mix_sample 32767 b = b - 32769"
  using mod_add_self2 [of "b - 1" 65536] by (simp add: mix_sample_wraps s16_def)

text \<open>A bus that nobody is bound to goes to the last handle in use.\<close>

lemma unbound_bus_gets_last:
  assumes "\<forall>h\<in>set g. \<not> bound_to bus h" and "i < length g" and "hs_allocated (g ! i)" and "\<forall>j<length g. i < j \<longrightarrow> \<not> hs_allocated (g ! j)"
  shows "snd (probe_out g bus) = Some i"
proof -
  have f: "find_streamer (bound_to bus) 0 g = None" using assms(1) by (simp add: find_streamer_None)
  have "last_streamer hs_allocated 0 g None = Some i"
    using last_streamer_cases [of hs_allocated 0 g None, OF refl] assms(2-4) nth_mem by (metis add_0 linorder_neqE_nat)
  then show ?thesis using f by (simp add: probe_out_def)
qed

text \<open>A ring buffer that could not be allocated stops the playback thread in its next period.\<close>

lemma missing_ring_fails:
  assumes "get_bit_c (hs_bus_state hdl) b" and "b \<noteq> 2" and "hs_bus_rbuf hdl ! b = None"
    and "0 \<le> hs_bus_buf_sz hdl ! b" and "hs_bus_buf_sz hdl ! b \<le> 16384" and "length tmp = 16384"
  shows "map_bus slot0 st b (hdl, tmp, out) = Inl Null_pointer"
  using assms clear_in_tmp [OF assms(4-6)] by (auto simp: map_bus_def Let_def)

text \<open>Closing leaves the bit of the bus set, so the mixer goes on reading its buffer.\<close>

lemma close_keeps_bus_bits:
  assumes "hal_streamer_close_out slot0 g st out = Inr (g', st', out', ret)"
  shows "map hs_bus_state g' = map hs_bus_state g" and "map hs_bus_rbuf g' = map hs_bus_rbuf g"
proof -
  have upd: "map f (g[i := h]) = map f g" if "f h = f (g ! i)" for f :: "hal_streamer \<Rightarrow> 'z" and i h
    using that by (metis list_update_id map_update)
  show "map hs_bus_state g' = map hs_bus_state g" "map hs_bus_rbuf g' = map hs_bus_rbuf g"
    using assms by (auto simp: hal_streamer_close_out_def and_then_def Let_def upd split: sum.splits option.splits if_splits)
qed

text \<open>A device that does not open: the stream gets no handle, but its slot stays marked and its bus active.\<close>

lemma failed_open_keeps_slot:
  assumes st: "bus_ok st" "slots_ok st" and i: "probe_out g bus = (g1, Some i)" and h: "handle_ok (g1 ! i)" "hs_ref_cnt (g1 ! i) = 0"
    and b: "0 \<le> bus" "bus < 16" "so_bus_num out = bus" and dev: "\<And>k. attempt k \<noteq> Open_ready" and free: "slot_in_use st ! nat (slot_index st ! nat bus div 2) \<noteq> 1"
  shows "\<exists>g' st' out' cmds. hal_streamer_open_out bits rbuf attempt prepare created dsp g st out c p cfg = Inr (g', st', out', cmds, None) \<and>
    slot_in_use st' ! nat (slot_index st ! nat bus div 2) = 1 \<and> bus_active st' ! nat bus = 1"
proof -
  define k where "k = nat (slot_index st ! nat bus div 2)"
  define st1 where "st1 = st\<lparr>slot_in_use := (slot_in_use st)[k := 1]\<rparr>"
  have len: "length (slot_index st) = 16" "length (slot_in_use st) = 4" "length (bus_active st) = 16" using st(1) by (simp_all add: bus_ok_def)
  have "slot_index st ! nat bus \<in> {0, 2, 4, 6}" using st(2) b by (simp add: slots_ok_def)
  then have k: "k < 4" "0 \<le> slot_index st ! nat bus div 2" "slot_index st ! nat bus div 2 < 4" by (auto simp: k_def)
  have st1: "open_slot st bus = Inr st1" "bus_ok st1" using b len k free st(1) by (simp_all add: open_slot_def st1_def k_def bus_ok_def)
  obtain cmds ret where v: "set_bus_volume dsp st1 bus = Inr (cmds, ret)"
    using set_bus_volume_level [OF st1(2) b(1,2), of dsp] by (metis prod.collapse)
  have no: "\<not> fst (pcm_open_prepare_helper attempt prepare n)" for n
    using dev open_retry_loop_spec [of attempt 0 n] by (simp add: pcm_open_prepare_helper_def)
  have lens: "length (hs_bus_buf_sz (g1 ! i)) = 16" "length (hs_bus_rbuf (g1 ! i)) = 16" using h by (simp_all add: handle_ok_def)
  show ?thesis
    using i b lens st1 v len h(2) no k
    by (auto simp: hal_streamer_open_out_def open_handle_out_def prepare_rbuf_out_def open_device_def st1_def simp flip: k_def)
qed

end
