(* ===== verification/Hal_Platform.thy ===== *)
theory Hal_Platform
  imports Hal_Streamer
begin

text \<open>
  \<open>x9serial/platform.c\<close> and \<open>platform_info.c\<close> of the audio HAL: the table of the sound cards, filled from the
  file system and searched by name; plugging and unplugging; the headset jacks; the configuration file, whose
  elements set card formats, features, slots of the buses and the buses of a card.

  Parameters: the files of the sound class (\<open>sysfs\<close>), the value of a jack, the memory of objects the code does
  not initialise (\<open>junk\<close>).  A fixed-size character array that is only used as a C string is a \<open>string\<close>.  An
  attribute list is a list of pairs; the \<open>NULL\<close> after it is its end.  \<open>char\<close> is unsigned, as on the target.
\<close>

definition AUDIO_NAME_PRIMARY :: string where "AUDIO_NAME_PRIMARY = ''AUDIO_PRIMARY''"
definition AUDIO_NAME_CAPTURE :: string where "AUDIO_NAME_CAPTURE = ''AUDIO_CAPTURE''"
definition AUDIO_NAME_REAR1 :: string where "AUDIO_NAME_REAR1 = ''AUDIO_REAR1''"
definition AUDIO_NAME_REAR2 :: string where "AUDIO_NAME_REAR2 = AUDIO_NAME_REAR1"
definition AUDIO_NAME_REAR3 :: string where "AUDIO_NAME_REAR3 = ''AUDIO_REAR3''"
definition AUDIO_NAME_USB :: string where "AUDIO_NAME_USB = ''AUDIO_USB''"
definition AUDIO_NAME_BT :: string where "AUDIO_NAME_BT = ''AUDIO_BT''"

record audio_device_manager =
  dm_android_name :: string
  dm_linux_name :: string
  dm_card :: int
  dm_device :: int
  dm_flag_in :: int
  dm_flag_in_active :: int
  dm_flag_out :: int
  dm_flag_out_active :: int
  dm_flag_exist :: bool
  dm_out_pcm_cfg :: pcm_config
  dm_in_pcm_cfg :: pcm_config

record card_info =
  ci_name :: string
  ci_pcm_cfg :: pcm_config
  ci_card :: int
  ci_device :: int
  ci_bus_id :: int
  ci_address :: string

record slot_map =
  sm_len :: int
  sm_slots :: "int list"
  sm_overlay :: bool

record misc_feature =
  mf_audio_route :: bool
  mf_sw_in_src :: bool
  mf_sw_out_src :: bool
  mf_sw_ecnr :: bool
  mf_sw_gain :: bool
  mf_btcall :: bool
  mf_ahub_en :: bool

datatype bt_chip_connect = BT_CONNECT_WITH_DSP | BT_CONNECT_WITH_SOC

text \<open>\<open>struct platform_data\<close> with the fields of its \<open>info\<close>.\<close>

record platform_data =
  pf_dev_manager :: "audio_device_manager list"
  pf_remote :: int
  pf_bt_type :: bt_chip_connect
  pf_cards :: "card_info list"
  pf_card_num :: int
  pf_misc :: misc_feature
  pf_output_maps :: "slot_map list"

section \<open>The names of the cards\<close>

type_synonym name_map = "string \<times> string"

definition audio_name_map0 :: "name_map list" where
  "audio_name_map0 =
    [(''x9refak7738'', AUDIO_NAME_PRIMARY), (''x9ref04ak7738'', AUDIO_NAME_PRIMARY), (''x9refmach'', AUDIO_NAME_PRIMARY),
     (''x9msmach'', AUDIO_NAME_PRIMARY), (''d9refes7144'', AUDIO_NAME_PRIMARY), (''d9refes7243e'', AUDIO_NAME_CAPTURE),
     (''x9icl02ak7738'', AUDIO_NAME_PRIMARY), (''x9core01ak7738'', AUDIO_NAME_PRIMARY), (''x9refak4556'', AUDIO_NAME_REAR1),
     (''x9reftlv320aic2'', AUDIO_NAME_REAR1), (''x9reftlv320aic3'', AUDIO_NAME_REAR1), (''x9umsb1tlv320ai'', AUDIO_NAME_REAR3),
     (''x9msmach'', AUDIO_NAME_BT), ('''', ''''), ('''', ''''), ('''', '''')]"

text \<open>\<open>%d\<close> of a number that is not negative.\<close>

fun dec :: "nat \<Rightarrow> string" where
  "dec n = (if n < 10 then [char_of (48 + n)] else dec (n div 10) @ [char_of (48 + n mod 10)])"

declare dec.simps [simp del]

text \<open>The name the card had before is kept when the table is full.\<close>

fun find_name_loop :: "nat \<Rightarrow> name_map list \<Rightarrow> string \<Rightarrow> string \<Rightarrow> name_map list \<times> string" where
  "find_name_loop index [] linux_name android_name = ([], android_name)"
| "find_name_loop index ((l, a) # table) linux_name android_name =
     (if l = [] then let a = ''AUDIO_USB_'' @ dec index in ((linux_name, a) # table, a)
      else if linux_name = l then ((l, a) # table, a)
      else let (table, r) = find_name_loop (Suc index) table linux_name android_name in ((l, a) # table, r))"

definition find_name_map :: "name_map list \<Rightarrow> string \<Rightarrow> string \<Rightarrow> name_map list \<times> string" where
  "find_name_map table linux_name android_name = find_name_loop 0 table linux_name android_name"

section \<open>The table of cards\<close>

text \<open>
  The files of the sound class for a card: whether its directory is there, what \<open>open\<close> and \<open>read\<close> of \<open>id\<close> give
  (\<open>None\<close> when it cannot be opened, otherwise at most 32 bytes), whether it has playback and capture devices.
\<close>

record sysfs =
  fs_card :: "nat \<Rightarrow> bool"
  fs_id :: "nat \<Rightarrow> string option"
  fs_playback :: "nat \<Rightarrow> bool"
  fs_capture :: "nat \<Rightarrow> bool"

type_synonym card_state = "audio_device_manager list \<times> name_map list"

definition init_card_entry :: "sysfs \<Rightarrow> pcm_config \<Rightarrow> nat \<Rightarrow> string \<Rightarrow> string \<Rightarrow> audio_device_manager \<Rightarrow> audio_device_manager" where
  "init_card_entry fs pcm_main_config k linux_name android_name dm =
     (let dm = dm\<lparr>dm_linux_name := linux_name, dm_android_name := android_name, dm_card := int k, dm_device := 0, dm_flag_exist := True\<rparr>;
          dm = (if fs_playback fs k
                then let dm = dm\<lparr>dm_flag_out := 2, dm_flag_out_active := 0\<rparr>
                     in if android_name = AUDIO_NAME_PRIMARY then dm\<lparr>dm_out_pcm_cfg := pcm_main_config\<rparr> else dm
                else dm)
      in if fs_capture fs k then dm\<lparr>dm_flag_in := 1, dm_flag_in_active := 0\<rparr> else dm)"

definition do_init_audio_card :: "sysfs \<Rightarrow> pcm_config \<Rightarrow> nat \<Rightarrow> card_state \<Rightarrow> card_state \<times> int" where
  "do_init_audio_card fs pcm_main_config k = (\<lambda>(devs, names).
     if \<not> fs_card fs k then ((devs, names), -1)
     else case fs_id fs k of None \<Rightarrow> ((devs, names), -1)
          | Some bytes \<Rightarrow>
              let linux_name = (if bytes = [] then dm_linux_name (devs ! k) else c_string (butlast bytes));
                  (names, android_name) = find_name_map names linux_name (dm_android_name (devs ! k))
              in ((devs[k := init_card_entry fs pcm_main_config k linux_name android_name (devs ! k)], names), 0))"

definition blank_pcm :: pcm_config where
  "blank_pcm = \<lparr>pc_format = 0, pc_rate = 0, pc_channels = 0, pc_period_size = 0, pc_period_count = 0\<rparr>"

definition blank_dev :: audio_device_manager where
  "blank_dev = \<lparr>dm_android_name = [], dm_linux_name = [], dm_card = 0, dm_device = 0, dm_flag_in = 0, dm_flag_in_active = 0,
     dm_flag_out = 0, dm_flag_out_active = 0, dm_flag_exist = False, dm_out_pcm_cfg = blank_pcm, dm_in_pcm_cfg = blank_pcm\<rparr>"

definition sd_platform_init_audio_devices :: "sysfs \<Rightarrow> pcm_config \<Rightarrow> name_map list \<Rightarrow> card_state" where
  "sd_platform_init_audio_devices fs pcm_main_config names =
     fold (\<lambda>k s. fst (do_init_audio_card fs pcm_main_config k s)) [0..<MAX_AUDIO_DEVICES] (replicate MAX_AUDIO_DEVICES blank_dev, names)"

text \<open>The name of a card that is unplugged stays in the table.\<close>

definition update_card :: "sysfs \<Rightarrow> pcm_config \<Rightarrow> nat \<Rightarrow> card_state \<Rightarrow> card_state" where
  "update_card fs pcm_main_config k = (\<lambda>(devs, names).
     if fs_card fs k
     then if dm_flag_exist (devs ! k) then (devs, names) else fst (do_init_audio_card fs pcm_main_config k (devs, names))
     else if \<not> dm_flag_exist (devs ! k) then (devs, names)
     else (devs[k := (devs ! k)\<lparr>dm_flag_exist := False, dm_flag_in := 0, dm_flag_out := 0\<rparr>], names))"

definition sd_platform_update_audio_devices :: "sysfs \<Rightarrow> pcm_config \<Rightarrow> card_state \<Rightarrow> card_state" where
  "sd_platform_update_audio_devices fs pcm_main_config s = fold (update_card fs pcm_main_config) [0..<MAX_AUDIO_DEVICES] s"

fun card_id_loop :: "string \<Rightarrow> audio_device_manager list \<Rightarrow> int" where
  "card_id_loop android_name [] = -1"
| "card_id_loop android_name (d # devs) =
     (if (if android_name = AUDIO_NAME_USB then strncmp_eq (dm_android_name d) AUDIO_NAME_USB 9 else dm_android_name d = android_name)
      then dm_card d else card_id_loop android_name devs)"

definition sd_platform_get_card_id :: "platform_data option \<Rightarrow> string \<Rightarrow> int" where
  "sd_platform_get_card_id platform android_name =
     (case platform of None \<Rightarrow> -1 | Some pf \<Rightarrow> card_id_loop android_name (pf_dev_manager pf))"

fun card_info_loop :: "string \<Rightarrow> card_info list \<Rightarrow> card_info option" where
  "card_info_loop addr [] = None"
| "card_info_loop addr (c # cs) = (if addr = c_string (ci_address c) then Some c else card_info_loop addr cs)"

text \<open>The result is the card, the device and the format that replace the caller's.\<close>

definition sd_platform_get_card_info :: "platform_data option \<Rightarrow> string \<Rightarrow> pcm_config \<Rightarrow> (int \<times> int \<times> pcm_config) option" where
  "sd_platform_get_card_info platform addr pcm_cfg =
     (case platform of None \<Rightarrow> None
      | Some pf \<Rightarrow>
          map_option (\<lambda>c. (ci_card c, ci_device c, pcm_cfg\<lparr>pc_rate := pc_rate (ci_pcm_cfg c), pc_format := pc_format (ci_pcm_cfg c),
                            pc_channels := pc_channels (ci_pcm_cfg c)\<rparr>))
            (card_info_loop addr (take (nat (pf_card_num pf)) (pf_cards pf))))"

fun card_by_name :: "string \<Rightarrow> audio_device_manager list \<Rightarrow> audio_device_manager option" where
  "card_by_name android_name [] = None"
| "card_by_name android_name (d # devs) = (if dm_android_name d = android_name then Some d else card_by_name android_name devs)"

definition sd_platform_get_card_name :: "platform_data option \<Rightarrow> string \<Rightarrow> string \<Rightarrow> string \<times> int" where
  "sd_platform_get_card_name platform android_name linux_name =
     (case platform of None \<Rightarrow> (linux_name, -1)
      | Some pf \<Rightarrow> (case card_by_name android_name (pf_dev_manager pf) of None \<Rightarrow> (linux_name, -1)
          | Some d \<Rightarrow> (dm_linux_name d, dm_card d)))"

definition sd_platform_get_card_pcm_config :: "platform_data option \<Rightarrow> string \<Rightarrow> pcm_config \<Rightarrow> bool \<Rightarrow> pcm_config \<times> int" where
  "sd_platform_get_card_pcm_config platform android_name pcm_cfg playback =
     (case platform of None \<Rightarrow> (pcm_cfg, -22)
      | Some pf \<Rightarrow> (case card_by_name android_name (pf_dev_manager pf) of None \<Rightarrow> (pcm_cfg, -32)
          | Some d \<Rightarrow> (if playback then dm_out_pcm_cfg d else pcm_cfg, 0)))"

section \<open>Headset jacks\<close>

text \<open>\<open>jack\<close> is the value of a GPIO, \<open>None\<close> when it cannot be read.  The comparisons test for difference.\<close>

definition SSB_JACK_REAR2_GPIO :: nat where "SSB_JACK_REAR2_GPIO = 61"
definition SSB_JACK_REAR3_GPIO :: nat where "SSB_JACK_REAR3_GPIO = 127"

definition get_headset_status :: "(nat \<Rightarrow> int option) \<Rightarrow> string \<Rightarrow> int" where
  "get_headset_status jack android_name =
     (if android_name \<noteq> AUDIO_NAME_REAR2 then (case jack SSB_JACK_REAR2_GPIO of None \<Rightarrow> -1 | Some v \<Rightarrow> v)
      else if android_name \<noteq> AUDIO_NAME_REAR3 then (case jack SSB_JACK_REAR3_GPIO of None \<Rightarrow> -1 | Some v \<Rightarrow> v)
      else -1)"

definition get_hs_connect_status :: "(nat \<Rightarrow> int option) \<Rightarrow> int" where
  "get_hs_connect_status jack =
     (if get_headset_status jack AUDIO_NAME_REAR2 > 0 then 2 else 0) + (if get_headset_status jack AUDIO_NAME_REAR3 > 0 then 4 else 0)"

definition get_active_hs_device :: "(nat \<Rightarrow> int option) \<Rightarrow> int \<Rightarrow> int" where
  "get_active_hs_device jack hs_device =
     (let status = get_hs_connect_status jack
      in if hs_device = 4 \<and> bit status 2 then 4 else if bit status 1 then 2 else if bit status 2 then 4 else 0)"

section \<open>Supported formats\<close>

text \<open>The constants of \<open>audio.h\<close> are given by \<open>enum\<close>.\<close>

definition sd_platform_check_input :: "(string \<Rightarrow> int) \<Rightarrow> int \<Rightarrow> int \<Rightarrow> int \<Rightarrow> bool" where
  "sd_platform_check_input enum sample_rate format channel_mask \<longleftrightarrow>
     sample_rate \<in> {8000, 11025, 16000, 22050, 24000, 32000, 44100, 48000} \<and> format = enum ''AUDIO_FORMAT_PCM_16_BIT'' \<and>
     channel_mask \<in> enum ` {''AUDIO_CHANNEL_IN_STEREO'', ''AUDIO_CHANNEL_IN_2POINT0POINT2'', ''AUDIO_CHANNEL_IN_MONO'',
       ''AUDIO_CHANNEL_IN_FRONT_BACK'', ''AUDIO_CHANNEL_INDEX_MASK_8''}"

definition sd_platform_check_output :: "(string \<Rightarrow> int) \<Rightarrow> int \<Rightarrow> int \<Rightarrow> bool" where
  "sd_platform_check_output enum format channel_mask \<longleftrightarrow>
     format = enum ''AUDIO_FORMAT_PCM_16_BIT'' \<and>
     channel_mask \<in> enum ` {''AUDIO_CHANNEL_OUT_MONO'', ''AUDIO_CHANNEL_OUT_STEREO'', ''AUDIO_CHANNEL_OUT_7POINT1'',
       ''AUDIO_CHANNEL_OUT_2POINT0POINT2''}"

text \<open>\<open>sd_platform_deinit\<close>: the test of the pointer is inverted.  The descriptor after the call and the return value.\<close>

definition sd_platform_deinit :: "platform_data option option \<Rightarrow> c_error + platform_data option option \<times> int" where
  "sd_platform_deinit adev =
     (case adev of None \<Rightarrow> Inr (None, -22)
      | Some None \<Rightarrow> Inl Null_pointer
      | Some (Some pf) \<Rightarrow> Inr (Some (Some (if pf_remote pf \<noteq> 0 then pf\<lparr>pf_remote := -1\<rparr> else pf)), 0))"

section \<open>The setters of the configuration\<close>

definition platform_set_bind_bus :: "hal_streamer list \<Rightarrow> string \<Rightarrow> int \<Rightarrow> c_error + hal_streamer list" where
  "platform_set_bind_bus g card_name bind_bus =
     and_then (hal_streamer_bind_bus g card_name (int (length card_name)) bind_bus) (\<lambda>(g, ret). Inr g)"

definition platform_set_card_info :: "platform_data \<Rightarrow> card_info \<Rightarrow> bool \<Rightarrow> c_error + platform_data" where
  "platform_set_card_info pf info playback =
     (let devs = map (\<lambda>d. if dm_linux_name d = c_string (ci_name info)
                          then if playback then d\<lparr>dm_out_pcm_cfg := ci_pcm_cfg info\<rparr> else d\<lparr>dm_in_pcm_cfg := ci_pcm_cfg info\<rparr>
                          else d) (pf_dev_manager pf)
      in and_then (arr_set (pf_cards pf) (pf_card_num pf) info) (\<lambda>cs.
         Inr (pf\<lparr>pf_dev_manager := devs, pf_cards := cs, pf_card_num := pf_card_num pf + 1\<rparr>)))"

definition platform_set_misc_config :: "platform_data \<Rightarrow> misc_feature \<Rightarrow> platform_data" where
  "platform_set_misc_config pf misc = pf\<lparr>pf_misc := misc\<rparr>"

definition platform_set_bt_connect :: "platform_data \<Rightarrow> bt_chip_connect \<Rightarrow> platform_data" where
  "platform_set_bt_connect pf connect = pf\<lparr>pf_bt_type := connect\<rparr>"

definition platform_set_slotmap_config :: "platform_data \<Rightarrow> int \<Rightarrow> slot_map \<Rightarrow> c_error + platform_data" where
  "platform_set_slotmap_config pf bus_id m =
     and_then (arr_set (pf_output_maps pf) (u32 bus_id) m) (\<lambda>ms. Inr (pf\<lparr>pf_output_maps := ms\<rparr>))"

section \<open>Numbers and lists in attributes\<close>

definition is_digit :: "char \<Rightarrow> bool" where "is_digit c \<longleftrightarrow> 48 \<le> (of_char c :: nat) \<and> (of_char c :: nat) \<le> 57"
definition is_space :: "char \<Rightarrow> bool" where "is_space c \<longleftrightarrow> (of_char c :: nat) = 32 \<or> 9 \<le> (of_char c :: nat) \<and> (of_char c :: nat) \<le> 13"

definition digits_val :: "string \<Rightarrow> int" where
  "digits_val ds = foldl (\<lambda>v c. v * 10 + (of_char c - 48)) 0 ds"

definition atoi :: "string \<Rightarrow> int" where
  "atoi s =
     (let s = dropWhile is_space s
      in case s of [] \<Rightarrow> 0
         | c # cs \<Rightarrow> if c = CHR ''-'' then - digits_val (takeWhile is_digit cs)
             else if c = CHR ''+'' then digits_val (takeWhile is_digit cs)
             else digits_val (takeWhile is_digit s))"

text \<open>The tokens that \<open>strtok (_, ",")\<close> gives in turn.\<close>

fun split_commas :: "string \<Rightarrow> string \<Rightarrow> string list" where
  "split_commas cur [] = [rev cur]"
| "split_commas cur (c # cs) = (if c = CHR '','' then rev cur # split_commas [] cs else split_commas (c # cur) cs)"

definition comma_tokens :: "string \<Rightarrow> string list" where
  "comma_tokens s = filter (\<lambda>t. t \<noteq> []) (split_commas [] s)"

fun slots_loop :: "string list \<Rightarrow> int \<Rightarrow> int list \<Rightarrow> c_error + int list \<times> int" where
  "slots_loop [] cnt slots = Inr (slots, cnt)"
| "slots_loop (cur # ts) cnt slots =
     and_then (arr_set slots cnt (atoi cur mod 256)) (\<lambda>slots. slots_loop ts (cnt + 1) slots)"

text \<open>The first token is converted without a test.\<close>

definition parse_slots :: "string \<Rightarrow> slot_map \<Rightarrow> c_error + slot_map" where
  "parse_slots str m =
     (if comma_tokens str = [] then Inl Null_pointer
      else and_then (slots_loop (comma_tokens str) 0 (sm_slots m)) (\<lambda>(slots, cnt).
           Inr (m\<lparr>sm_slots := slots, sm_len := cnt\<rparr>)))"

section \<open>Elements of the configuration\<close>

type_synonym attrs = "(string \<times> string) list"

record parse_state =
  ps_platform :: platform_data
  ps_streams :: "hal_streamer list"
  ps_bus_slotmap :: bool
  ps_card_num :: int
  ps_card :: "string list"

definition blank_map :: slot_map where
  "blank_map = \<lparr>sm_len = 0, sm_slots = replicate 16 0, sm_overlay = False\<rparr>"

text \<open>The third and fourth attribute words are compared without a test for the end of the list.\<close>

definition process_bus_slot_map_config :: "attrs \<Rightarrow> parse_state \<Rightarrow> c_error + parse_state" where
  "process_bus_slot_map_config attr ps =
     (case attr of [] \<Rightarrow> Inr ps
      | (nm, slots) # rest \<Rightarrow>
          and_then (parse_slots slots blank_map) (\<lambda>m.
            case rest of [] \<Rightarrow> Inl Null_pointer
            | (k, v) # _ \<Rightarrow>
                and_then (platform_set_slotmap_config (ps_platform ps) (atoi (drop 3 nm))
                            (m\<lparr>sm_overlay := (k = ''type'' \<and> v = ''overlay'')\<rparr>)) (\<lambda>pf.
                  Inr (ps\<lparr>ps_platform := pf\<rparr>))))"

fun bind_loop :: "string list \<Rightarrow> string \<Rightarrow> hal_streamer list \<Rightarrow> c_error + hal_streamer list" where
  "bind_loop [] nm g = Inr g"
| "bind_loop (t # ts) nm g = and_then (platform_set_bind_bus g nm (atoi t)) (bind_loop ts nm)"

definition card_attr :: "string \<times> string \<Rightarrow> parse_state \<times> card_info \<Rightarrow> c_error + parse_state \<times> card_info" where
  "card_attr = (\<lambda>(k, v) (ps, ci).
     if k = ''bit_width''
     then Inr (ps, ci\<lparr>ci_pcm_cfg := (ci_pcm_cfg ci)\<lparr>pc_format := if atoi v = 16 then 0 else -1\<rparr>\<rparr>)
     else if strncmp_eq k ''rate'' 4 then Inr (ps, ci\<lparr>ci_pcm_cfg := (ci_pcm_cfg ci)\<lparr>pc_rate := u32 (atoi v)\<rparr>\<rparr>)
     else if strncmp_eq k ''channels'' 8 then Inr (ps, ci\<lparr>ci_pcm_cfg := (ci_pcm_cfg ci)\<lparr>pc_channels := u32 (atoi v)\<rparr>\<rparr>)
     else if strncmp_eq k ''address'' 7
     then and_then (strncpy_c (ci_address ci) v (min (int (length v)) 64)) (\<lambda>a. Inr (ps, ci\<lparr>ci_address := a\<rparr>))
     else if k = ''bind_bus_id''
     then and_then (arr_get (ps_card ps) (ps_card_num ps)) (\<lambda>nm.
          and_then (bind_loop (comma_tokens v) nm (ps_streams ps)) (\<lambda>g.
            Inr (ps\<lparr>ps_streams := g\<rparr>, case comma_tokens v of [] \<Rightarrow> ci | t # _ \<Rightarrow> ci\<lparr>ci_bus_id := atoi t\<rparr>)))
     else if strncmp_eq k ''card'' 4 then Inr (ps, ci\<lparr>ci_card := atoi v\<rparr>)
     else if strncmp_eq k ''device'' 6 then Inr (ps, ci\<lparr>ci_device := atoi v\<rparr>)
     else Inr (ps, ci))"

fun card_attrs :: "attrs \<Rightarrow> parse_state \<times> card_info \<Rightarrow> c_error + parse_state \<times> card_info" where
  "card_attrs [] s = Inr s"
| "card_attrs (a # as) s = and_then (card_attr a s) (card_attrs as)"

text \<open>The name of \<open>card_info\<close> is not set.\<close>

definition process_card_config :: "card_info \<Rightarrow> pcm_config \<Rightarrow> bool \<Rightarrow> attrs \<Rightarrow> parse_state \<Rightarrow> c_error + parse_state" where
  "process_card_config junk pcm_main_config playback attr ps =
     and_then (card_attrs attr (ps, junk\<lparr>ci_pcm_cfg := pcm_main_config\<rparr>)) (\<lambda>(ps, ci).
     and_then (platform_set_card_info (ps_platform ps) ci playback) (\<lambda>pf. Inr (ps\<lparr>ps_platform := pf\<rparr>)))"

definition STR_BOOL :: "string \<Rightarrow> bool \<Rightarrow> bool" where
  "STR_BOOL str old = (if str = ''true'' then True else if str = ''false'' then False else old)"

definition misc_attr :: "string \<times> string \<Rightarrow> misc_feature \<Rightarrow> misc_feature" where
  "misc_attr = (\<lambda>(k, v) f.
     if strncmp_eq k ''audio_route_en'' 14 then f\<lparr>mf_audio_route := STR_BOOL v (mf_audio_route f)\<rparr>
     else if strncmp_eq k ''in_src_en'' 9 then f\<lparr>mf_sw_in_src := STR_BOOL v (mf_sw_in_src f)\<rparr>
     else if strncmp_eq k ''out_src_en'' 10 then f\<lparr>mf_sw_out_src := STR_BOOL v (mf_sw_out_src f)\<rparr>
     else if strncmp_eq k ''sw_ecnr_en'' 10 then f\<lparr>mf_sw_ecnr := STR_BOOL v (mf_sw_ecnr f)\<rparr>
     else if strncmp_eq k ''sw_gain_en'' 10 then f\<lparr>mf_sw_gain := STR_BOOL v (mf_sw_gain f)\<rparr>
     else if strncmp_eq k ''btcall_en'' 9 then f\<lparr>mf_btcall := STR_BOOL v (mf_btcall f)\<rparr>
     else if strncmp_eq k ''ahub_en'' 7 then f\<lparr>mf_ahub_en := STR_BOOL v (mf_ahub_en f)\<rparr>
     else f)"

definition process_misc_config :: "misc_feature \<Rightarrow> attrs \<Rightarrow> parse_state \<Rightarrow> parse_state" where
  "process_misc_config junk attr ps = ps\<lparr>ps_platform := platform_set_misc_config (ps_platform ps) (fold misc_attr attr junk)\<rparr>"

definition process_bt_connect_config :: "attrs \<Rightarrow> parse_state \<Rightarrow> c_error + parse_state" where
  "process_bt_connect_config attr ps =
     (case attr of [] \<Rightarrow> Inl Null_pointer
      | (k, v) # _ \<Rightarrow>
          Inr (if \<not> strncmp_eq k ''sink'' 4 then ps
               else if v = ''soc'' then ps\<lparr>ps_platform := platform_set_bt_connect (ps_platform ps) BT_CONNECT_WITH_SOC\<rparr>
               else if v = ''dsp'' then ps\<lparr>ps_platform := platform_set_bt_connect (ps_platform ps) BT_CONNECT_WITH_DSP\<rparr>
               else ps))"

definition set_card_name :: "string \<Rightarrow> parse_state \<Rightarrow> c_error + parse_state" where
  "set_card_name nm ps =
     (if length nm > 127 then Inl Bad_access
      else and_then (arr_set (ps_card ps) (ps_card_num ps) nm) (\<lambda>cs. Inr (ps\<lparr>ps_card := cs\<rparr>)))"

text \<open>\<open>junk\<close> is the memory of the local variables of the two functions that do not initialise them.\<close>

definition start_tag :: "card_info \<times> misc_feature \<Rightarrow> pcm_config \<Rightarrow> string \<Rightarrow> attrs \<Rightarrow> parse_state \<Rightarrow> c_error + parse_state" where
  "start_tag junk pcm_main_config tag_name attr ps =
     (if tag_name = ''card''
      then (case attr of [] \<Rightarrow> Inl Null_pointer | (k, v) # _ \<Rightarrow> if k = ''name'' then set_card_name v ps else Inr ps)
      else if tag_name = ''playback'' then process_card_config (fst junk) pcm_main_config True attr ps
      else if tag_name = ''capture'' then process_card_config (fst junk) pcm_main_config False attr ps
      else if tag_name = ''misc'' then Inr (process_misc_config (snd junk) attr ps)
      else if tag_name = ''bt_connection'' then process_bt_connect_config attr ps
      else if tag_name = ''slot_map''
      then (case attr of [] \<Rightarrow> Inl Null_pointer
            | (k, v) # _ \<Rightarrow> Inr (if k = ''enable'' \<and> v = ''true'' then ps\<lparr>ps_bus_slotmap := True\<rparr> else ps))
      else if ps_bus_slotmap ps \<and> tag_name = ''out'' then process_bus_slot_map_config attr ps
      else Inr ps)"

definition end_tag :: "string \<Rightarrow> parse_state \<Rightarrow> parse_state" where
  "end_tag tag_name ps = (if tag_name = ''card'' then ps\<lparr>ps_card_num := ps_card_num ps + 1\<rparr> else ps)"

section \<open>Printing and parsing of slot lists\<close>

fun print_slots :: "nat list \<Rightarrow> string" where
  "print_slots [] = []"
| "print_slots [n] = dec n"
| "print_slots (n # m # ns) = dec n @ CHR '','' # print_slots (m # ns)"

lemma digit_char: "n < 10 \<Longrightarrow> (of_char (char_of (48 + n)) :: nat) = 48 + n" for n :: nat
  by (simp add: of_char_of)

lemma is_digit_char: "n < 10 \<Longrightarrow> is_digit (char_of (48 + n))" for n :: nat
  by (simp add: is_digit_def digit_char)

lemma dec_digits: "dec n \<noteq> [] \<and> (\<forall>c\<in>set (dec n). is_digit c)"
  by (induction n rule: dec.induct) (subst (1 2) dec.simps, auto simp: is_digit_char)

lemma digits_val_snoc: "digits_val (ds @ [c]) = digits_val ds * 10 + (of_char c - 48)"
  by (simp add: digits_val_def)

lemma int_digit_char: "n < 10 \<Longrightarrow> (of_char (char_of (48 + n)) :: int) = 48 + int n"
  using digit_char [of n] of_nat_of_char [where 'a = int, of "char_of (48 + n)"] by simp

lemma digits_val_dec: "digits_val (dec n) = int n"
proof (induction n rule: dec.induct)
  case (1 n)
  show ?case
  proof (cases "n < 10")
    case True
    then show ?thesis using digits_val_snoc [of "[]" "char_of (48 + n)"]
      by (subst dec.simps) (simp add: int_digit_char digits_val_def)
  next
    case False
    then have "digits_val (dec n) = digits_val (dec (n div 10)) * 10 + (of_char (char_of (48 + n mod 10)) - 48)"
      by (subst dec.simps) (simp add: digits_val_snoc)
    also have "\<dots> = int (n div 10) * 10 + int (n mod 10)" using 1 False by (simp add: int_digit_char)
    also have "\<dots> = int n" by (metis div_mult_mod_eq of_nat_add of_nat_mult of_nat_numeral)
    finally show ?thesis .
  qed
qed

lemma digit_not_special: "is_digit c \<Longrightarrow> \<not> is_space c \<and> c \<noteq> CHR ''-'' \<and> c \<noteq> CHR ''+'' \<and> c \<noteq> CHR '',''"
  by (auto simp: is_digit_def is_space_def)

lemma atoi_dec: "atoi (dec n) = int n"
proof -
  obtain c cs where d: "dec n = c # cs" using dec_digits [of n] by (cases "dec n") auto
  have c: "is_digit c" and tw: "takeWhile is_digit cs = cs" using dec_digits [of n] d by (auto simp: takeWhile_eq_all_conv)
  show ?thesis using c digits_val_dec [of n] digit_not_special [OF c] by (simp add: atoi_def d tw del: takeWhile_eq_all_conv)
qed

lemma split_commas_word:
  "\<forall>c\<in>set t. c \<noteq> CHR '','' \<Longrightarrow> split_commas cur (t @ CHR '','' # s) = (rev cur @ t) # split_commas [] s"
  by (induction t arbitrary: cur) auto

lemma split_commas_last: "\<forall>c\<in>set t. c \<noteq> CHR '','' \<Longrightarrow> split_commas cur t = [rev cur @ t]"
  by (induction t arbitrary: cur) auto

lemma dec_no_comma: "\<forall>c\<in>set (dec n). c \<noteq> CHR '',''"
  using dec_digits [of n] digit_not_special by blast

lemma tokens_print: "ns \<noteq> [] \<Longrightarrow> comma_tokens (print_slots ns) = map dec ns"
proof (induction ns rule: print_slots.induct)
  case (2 n)
  then show ?case using dec_digits [of n] by (simp add: comma_tokens_def split_commas_last [OF dec_no_comma])
next
  case (3 n m ns)
  then show ?case using dec_digits [of n] split_commas_word [OF dec_no_comma, of "[]" n] by (simp add: comma_tokens_def)
qed simp

lemma slots_loop_spec:
  assumes "length ts + k \<le> length slots"
  shows "slots_loop ts (int k) slots = Inr (take k slots @ map (\<lambda>t. atoi t mod 256) ts @ drop (k + length ts) slots, int (k + length ts))"
  using assms
proof (induction ts arbitrary: k slots)
  case (Cons t ts)
  have "slots_loop ts (int k + 1) (slots[k := atoi t mod 256]) = slots_loop ts (int (Suc k)) (slots[k := atoi t mod 256])"
    by (simp add: add.commute)
  then show ?case using Cons.IH [of "Suc k" "slots[k := atoi t mod 256]"] Cons.prems
    by (simp add: take_Suc_conv_app_nth drop_update_cancel)
qed simp

lemma slots_loop_overflow: "length slots < length ts + k \<Longrightarrow> k \<le> length slots \<Longrightarrow> slots_loop ts (int k) slots = Inl Bad_access"
proof (induction ts arbitrary: k slots)
  case (Cons t ts)
  show ?case
  proof (cases "k < length slots")
    case True
    then show ?thesis using Cons.IH [of "slots[k := atoi t mod 256]" "Suc k"] Cons.prems by (simp add: add.commute)
  qed (use Cons.prems in simp)
qed simp

section \<open>The table under plugging and unplugging\<close>

lemma length_do_init [simp]: "length (fst (fst (do_init_audio_card fs cfg k s))) = length (fst s)"
  by (auto simp: do_init_audio_card_def Let_def split: option.splits prod.splits)

lemma length_update_card [simp]: "length (fst (update_card fs cfg k s)) = length (fst s)"
  by (cases s) (auto simp: update_card_def)

text \<open>A step on card \<open>k\<close> leaves the other entries alone.\<close>

lemma update_card_other: "j \<noteq> k \<Longrightarrow> fst (update_card fs cfg k s) ! j = fst s ! j"
  by (cases s) (auto simp: update_card_def do_init_audio_card_def Let_def split: option.splits prod.splits)

lemma update_card_self:
  assumes "k < length (fst s)"
  shows "dm_flag_exist (fst (update_card fs cfg k s) ! k) \<longleftrightarrow> fs_card fs k \<and> (dm_flag_exist (fst s ! k) \<or> fs_id fs k \<noteq> None)"
  using assms by (cases s) (auto simp: update_card_def do_init_audio_card_def init_card_entry_def Let_def split: option.splits prod.splits)

lemma update_card_gone:
  assumes "k < length (fst s)" and "\<not> fs_card fs k"
  shows "dm_android_name (fst (update_card fs cfg k s) ! k) = dm_android_name (fst s ! k)"
    and "dm_card (fst (update_card fs cfg k s) ! k) = dm_card (fst s ! k)"
  using assms by (cases s, auto simp: update_card_def)+

text \<open>So a fold over all cards does to each entry what its own step does.\<close>

lemma update_fold_length: "length (fst (fold (update_card fs cfg) ks s)) = length (fst s)"
  by (induction ks arbitrary: s) simp_all

lemma update_fold_other: "k \<notin> set ks \<Longrightarrow> fst (fold (update_card fs cfg) ks s) ! k = fst s ! k"
  by (induction ks arbitrary: s) (auto simp: update_card_other)

lemma update_fold_entry:
  assumes "k \<in> set ks" and "distinct ks"
  obtains s0 where "length (fst s0) = length (fst s)" "fst s0 ! k = fst s ! k"
    "fst (fold (update_card fs cfg) ks s) ! k = fst (update_card fs cfg k s0) ! k"
proof -
  obtain xs ys where ks: "ks = xs @ k # ys" "k \<notin> set xs" "k \<notin> set ys" using assms by (metis distinct.simps(2) distinct_append not_distinct_conv_prefix split_list)
  define s0 where "s0 = fold (update_card fs cfg) xs s"
  show thesis
    by (rule that [of s0]) (use ks in \<open>simp_all add: s0_def update_fold_length update_fold_other\<close>)
qed

section \<open>Names that are found\<close>

text \<open>The table of names keeps its thirteen entries and gets names of USB cards after them.\<close>

definition usb_name :: "string \<Rightarrow> bool" where
  "usb_name a \<longleftrightarrow> take 9 a = AUDIO_NAME_USB"

definition names_ok :: "name_map list \<Rightarrow> bool" where
  "names_ok names \<longleftrightarrow> take 13 names = take 13 audio_name_map0 \<and> list_all (\<lambda>(l, a). l = [] \<or> usb_name a) (drop 13 names)"

definition found_names :: "string set" where
  "found_names = {AUDIO_NAME_PRIMARY, AUDIO_NAME_CAPTURE, AUDIO_NAME_REAR1, AUDIO_NAME_REAR3}"

lemma usb_name_new: "usb_name (''AUDIO_USB_'' @ cs)"
  by (simp add: usb_name_def AUDIO_NAME_USB_def)

lemma find_usb:
  assumes "list_all (\<lambda>(l, a). l = [] \<or> usb_name a) tbl" and "find_name_loop i tbl l0 a0 = (tbl', r)"
  shows "list_all (\<lambda>(l, a). l = [] \<or> usb_name a) tbl' \<and> (usb_name r \<or> r = a0)"
  using assms
proof (induction tbl arbitrary: i tbl')
  case (Cons p tbl)
  obtain l a where p: "p = (l, a)" by fastforce
  show ?case
  proof (cases "l = [] \<or> l0 = l")
    case False
    then obtain t where "find_name_loop (Suc i) tbl l0 a0 = (t, r)" "tbl' = (l, a) # t"
      using Cons.prems(2) p by (auto simp: Let_def split: prod.splits)
    then show ?thesis using Cons.IH [of "Suc i" t] Cons.prems(1) p by auto
  qed (use Cons.prems p usb_name_new in \<open>auto simp: Let_def split: if_splits\<close>)
qed simp

lemma find_name_found:
  assumes "names_ok names" and "find_name_map names l0 a0 = (names', r)"
  shows "names_ok names' \<and> (r \<in> found_names \<or> usb_name r \<or> r = a0)"
proof -
  define tl where "tl = drop 13 names"
  have n: "names = take 13 audio_name_map0 @ tl" using assms(1) by (metis names_ok_def append_take_drop_id tl_def)
  have tl: "list_all (\<lambda>(l, a). l = [] \<or> usb_name a) tl" using assms(1) by (simp add: names_ok_def tl_def)
  obtain t r0 where t: "find_name_loop 13 tl l0 a0 = (t, r0)" by fastforce
  note u = find_usb [OF tl t]
  have len: "length (take 13 audio_name_map0) = 13" by (simp add: audio_name_map0_def)
  have res: "names' = take 13 audio_name_map0 @ t \<and> r = r0 \<or> names' = names \<and> r \<in> found_names"
    using assms(2) n t by (auto simp: find_name_map_def audio_name_map0_def found_names_def numeral_eq_Suc Let_def split: if_splits)
  then show ?thesis using u len assms(1) by (auto simp: names_ok_def)
qed

text \<open>The names in the table of cards.\<close>

definition known_name :: "string \<Rightarrow> bool" where
  "known_name a \<longleftrightarrow> a = [] \<or> a \<in> found_names \<or> usb_name a"

definition cards_ok :: "card_state \<Rightarrow> bool" where
  "cards_ok s \<longleftrightarrow> length (fst s) = 16 \<and> names_ok (snd s) \<and> list_all (\<lambda>d. known_name (dm_android_name d)) (fst s)"

lemma cards_ok_name: "cards_ok (devs, names) \<Longrightarrow> k < 16 \<Longrightarrow> known_name (dm_android_name (devs ! k))"
  by (simp add: cards_ok_def list_all_length)

lemma init_entry_name [simp]: "dm_android_name (init_card_entry fs cfg k l a d) = a"
  by (simp add: init_card_entry_def Let_def)

lemma do_init_cards_ok:
  assumes "cards_ok s" and "k < 16"
  shows "cards_ok (fst (do_init_audio_card fs cfg k s))"
proof (cases "fs_card fs k \<and> fs_id fs k \<noteq> None")
  case True
  obtain devs names where s: "s = (devs, names)" by fastforce
  obtain bytes where b: "fs_id fs k = Some bytes" using True by auto
  define l where "l = (if bytes = [] then dm_linux_name (devs ! k) else c_string (butlast bytes))"
  obtain names' a where f: "find_name_map names l (dm_android_name (devs ! k)) = (names', a)" by fastforce
  have ok: "names_ok names" "known_name (dm_android_name (devs ! k))"
    using assms s cards_ok_name by (simp_all add: cards_ok_def)
  then have "names_ok names'" "known_name a" using find_name_found [OF ok(1) f] by (auto simp: known_name_def)
  then show ?thesis
    using assms True b f s by (auto simp: do_init_audio_card_def cards_ok_def l_def Let_def intro!: list_all_update)
next
  case False
  then show ?thesis using assms by (cases s) (auto simp: do_init_audio_card_def split: option.splits)
qed

lemma update_card_cards_ok:
  assumes "cards_ok s" and "k < 16"
  shows "cards_ok (update_card fs cfg k s)"
proof -
  obtain devs names where s: "s = (devs, names)" by fastforce
  have "known_name (dm_android_name (devs ! k))" using assms s cards_ok_name by simp
  then have "cards_ok (devs[k := (devs ! k)\<lparr>dm_flag_exist := False, dm_flag_in := 0, dm_flag_out := 0\<rparr>], names)"
    using assms(1) s by (auto simp: cards_ok_def intro!: list_all_update)
  then show ?thesis using assms(1) do_init_cards_ok [OF assms, of fs cfg] s by (simp add: update_card_def)
qed

lemma fold_cards_ok:
  assumes "cards_ok s" and "\<forall>k\<in>set ks. k < 16" and "\<And>k s. cards_ok s \<Longrightarrow> k < 16 \<Longrightarrow> cards_ok (f k s)"
  shows "cards_ok (fold f ks s)"
  using assms(1,2) by (induction ks arbitrary: s) (simp_all add: assms(3))

lemma init_devices_ok: "cards_ok (sd_platform_init_audio_devices fs cfg audio_name_map0)"
proof -
  have "cards_ok (replicate 16 blank_dev, audio_name_map0)"
    by (simp add: cards_ok_def names_ok_def audio_name_map0_def blank_dev_def known_name_def list_all_iff)
  then show ?thesis
    unfolding sd_platform_init_audio_devices_def MAX_AUDIO_DEVICES_def
    by (rule fold_cards_ok) (simp_all add: do_init_cards_ok)
qed

lemma update_devices_ok: "cards_ok s \<Longrightarrow> cards_ok (sd_platform_update_audio_devices fs cfg s)"
  unfolding sd_platform_update_audio_devices_def MAX_AUDIO_DEVICES_def
  by (rule fold_cards_ok) (simp_all add: update_card_cards_ok)

text \<open>The cards as a system: found at the start, then updated as often as cards come and go.\<close>

inductive cards_reachable :: "pcm_config \<Rightarrow> card_state \<Rightarrow> bool" for cfg where
  cards_init: "cards_reachable cfg (sd_platform_init_audio_devices fs cfg audio_name_map0)"
| cards_update: "cards_reachable cfg s \<Longrightarrow> cards_reachable cfg (sd_platform_update_audio_devices fs cfg s)"

lemma cards_reachable_ok: "cards_reachable cfg s \<Longrightarrow> cards_ok s"
  by (induction rule: cards_reachable.induct) (simp_all add: init_devices_ok update_devices_ok)

text \<open>The search for a card.\<close>

lemma card_id_not_found:
  "\<forall>d\<in>set devs. dm_android_name d \<noteq> nm \<Longrightarrow> nm \<noteq> AUDIO_NAME_USB \<Longrightarrow> card_id_loop nm devs = -1"
  by (induction devs) auto

lemma card_id_cong:
  "length devs = length devs' \<Longrightarrow>
   (\<forall>k<length devs. dm_android_name (devs ! k) = dm_android_name (devs' ! k) \<and> dm_card (devs ! k) = dm_card (devs' ! k)) \<Longrightarrow>
   card_id_loop nm devs = card_id_loop nm devs'"
proof (induction devs devs' rule: list_induct2)
  case (Cons d devs d' devs')
  have "\<forall>k<length devs. dm_android_name (devs ! k) = dm_android_name (devs' ! k) \<and> dm_card (devs ! k) = dm_card (devs' ! k)"
    using Cons.prems by auto
  then have "card_id_loop nm devs = card_id_loop nm devs'" by (rule Cons.IH)
  moreover have "dm_android_name d = dm_android_name d'" "dm_card d = dm_card d'" using Cons.prems by auto
  ultimately show ?case by auto
qed simp

lemma bt_not_known: "known_name a \<Longrightarrow> a \<noteq> AUDIO_NAME_BT"
  by (auto simp: known_name_def found_names_def usb_name_def AUDIO_NAME_BT_def AUDIO_NAME_PRIMARY_def AUDIO_NAME_CAPTURE_def
      AUDIO_NAME_REAR1_def AUDIO_NAME_REAR3_def AUDIO_NAME_USB_def)

end
