(* ===== verification/Stream_Properties.thy ===== *)
theory Stream_Properties
  imports Streamer_System Hal_Platform
begin

text \<open>
  The properties of the output streams, the bus state, the remote paths and the platform tables, each with an
  instance that meets its hypotheses.
\<close>

section \<open>Instances\<close>

definition blank_hdl :: hal_streamer where
  "blank_hdl = \<lparr>hs_name = replicate 128 NUL, hs_card = 0, hs_port = 0, hs_ref_cnt = 0, hs_allocated = False,
     hs_bind_bus = replicate 16 0, hs_bind_bus_len = 0, hs_pcm = False, hs_channels = 0, hs_format = 0, hs_rate = 0,
     hs_plbk_exit = False, hs_plbk_hold = False, hs_cap_exit = False, hs_bus_rbuf = replicate 16 None,
     hs_cap_rbuf = replicate 16 None, hs_bus_state = 0, hs_cap_state = 0, hs_dir = PLAYBACK_STREAM, hs_bus_buf_sz = replicate 16 0\<rparr>"

definition idle_buses :: audio_bus_status where
  "idle_buses = \<lparr>is_ducked = replicate 16 False, is_muted = replicate 16 False, in_zoneId = replicate 16 15,
     bus_vol = replicate 16 20, bus_active = replicate 16 0, slot_index = replicate 16 0, slot_in_use = replicate 4 0,
     is_chime_on = False, focus_bus = replicate 4 255\<rparr>"

definition sample_ring :: "nat \<Rightarrow> int \<Rightarrow> byte list \<Rightarrow> circlebuf" where
  "sample_ring n ch bs = \<lparr>rb_data = bs @ replicate (n - length bs) 0, rb_size = int n, rb_used = int (length bs), rb_read_offset = 0,
     rb_write_offset = int (length bs), rb_over_write = False, rb_chann = ch, rb_fmt = 0, rb_rate = 48000, rb_lock = False\<rparr>"

definition good_rbuf :: "int \<Rightarrow> int \<Rightarrow> int \<Rightarrow> circlebuf option" where
  "good_rbuf ch fmt rate = Some (sample_ring (nat (ch * 9600)) ch [])"

definition playing_hdl :: hal_streamer where
  "playing_hdl = blank_hdl\<lparr>hs_allocated := True, hs_pcm := True, hs_channels := 8, hs_rate := 48000, hs_ref_cnt := 1,
     hs_bus_state := set_bit_c 0 0, hs_bus_buf_sz := (replicate 16 0)[0 := 3840],
     hs_bus_rbuf := (replicate 16 None)[0 := Some (sample_ring 19200 2 (replicate 3840 1))]\<rparr>"

definition small_platform :: "audio_device_manager list \<Rightarrow> platform_data" where
  "small_platform devs = \<lparr>pf_dev_manager = devs, pf_remote = -1, pf_bt_type = BT_CONNECT_WITH_DSP, pf_cards = [], pf_card_num = 0,
     pf_misc = \<lparr>mf_audio_route = False, mf_sw_in_src = False, mf_sw_out_src = False, mf_sw_ecnr = False, mf_sw_gain = False,
       mf_btcall = False, mf_ahub_en = False\<rparr>, pf_output_maps = replicate 16 blank_map\<rparr>"

definition mach_fs :: sysfs where
  "mach_fs = \<lparr>fs_card = (\<lambda>k. k = 0), fs_id = (\<lambda>k. Some ''x9msmach?''), fs_playback = (\<lambda>k. True), fs_capture = (\<lambda>k. False)\<rparr>"

definition junk_card :: card_info where
  "junk_card = \<lparr>ci_name = replicate 64 NUL, ci_pcm_cfg = blank_pcm, ci_card = 0, ci_device = 0, ci_bus_id = 0, ci_address = replicate 64 NUL\<rparr>"

definition junk_misc :: misc_feature where
  "junk_misc = \<lparr>mf_audio_route = False, mf_sw_in_src = False, mf_sw_out_src = False, mf_sw_ecnr = False, mf_sw_gain = False,
     mf_btcall = False, mf_ahub_en = False\<rparr>"

definition fresh_parse :: parse_state where
  "fresh_parse = \<lparr>ps_platform = (small_platform [])\<lparr>pf_cards := replicate 16 junk_card\<rparr>, ps_streams = replicate 2 blank_hdl,
     ps_bus_slotmap = False, ps_card_num = 0, ps_card = replicate 8 []\<rparr>"

lemma sample_ring_ok: "0 < n \<Longrightarrow> length bs \<le> n \<Longrightarrow> cb_ok (sample_ring n ch bs)"
  by (simp add: sample_ring_def cb_ok_def rb_ok_def)

lemma blank_hdl_ok: "handle_ok blank_hdl" "entry_ok blank_hdl"
  by (simp_all add: blank_hdl_def handle_ok_def entry_ok_def get_bit_c_def)

lemma idle_buses_ok: "bus_ok idle_buses" "slots_ok idle_buses"
  by (simp_all add: idle_buses_def bus_ok_def slots_ok_def)

lemma good_rbuf_good: "rbuf_good good_rbuf"
  by (simp add: rbuf_good_def good_rbuf_def sample_ring_ok) (simp add: sample_ring_def)

lemma playing_hdl_ok: "handle_ok playing_hdl"
proof -
  have "ring_ok playing_hdl 0" by (simp add: ring_ok_def playing_hdl_def blank_hdl_def sample_ring_ok) (simp add: sample_ring_def)
  moreover have "get_bit_c (hs_bus_state playing_hdl) b \<longleftrightarrow> b = 0" if "b < 16" for b
    using that by (simp add: playing_hdl_def get_set_bit) (simp add: get_bit_c_def)
  ultimately show ?thesis by (simp add: handle_ok_def) (simp add: playing_hdl_def blank_hdl_def)
qed

lemma playing_table_ok: "streams_ok (playing_hdl # replicate 7 blank_hdl, idle_buses)"
  using blank_hdl_ok playing_hdl_ok idle_buses_ok by (simp add: streams_ok_def MAX_STREAMERS_def list_all_iff)

section \<open>Playback\<close>



text \<open>
  C13.  What a playback thread plays.  Sample \<open>k\<close> of frame \<open>i\<close> is the sum, wrapped to 16 bits, over the active
  buses with a whole period in their buffer that own slot \<open>k\<close>, of their sample of frame \<open>i\<close>; the buffers of these
  buses lose exactly the period and the others are not touched.  The phone bus takes no part.
\<close>

theorem period_mixes_buses:
  assumes h: "handle_ok hdl" and st: "bus_ok st" "slots_ok st" and bits: "bits 0 = 16"
    and run: "hs_pcm hdl" "\<not> hs_plbk_exit hdl" "\<not> hs_plbk_hold hdl"
    and arrays: "length in_tmp = 16384" "length out_tmp = 8192" "list_all in_s16 out_tmp"
  shows "\<exists>hdl' played. playback_iter bits slot0 st in_tmp out_tmp hdl = Inr (hdl', Some played) \<and> length played = 7680 \<and>
    (\<forall>b<16. bus_drained hdl hdl' b) \<and>
    (\<forall>i<960. \<forall>k<8. played ! (8 * i + k) =
      s16 (\<Sum>b | b < 16 \<and> bus_ready hdl b \<and> nat (slot_index st ! b) \<le> k \<and>
             k < nat (slot_index st ! b) + nat (rb_chann (the (hs_bus_rbuf hdl ! b))).
             bus_period hdl b ! (i * nat (rb_chann (the (hs_bus_rbuf hdl ! b))) + (k - nat (slot_index st ! b)))))"
proof -
  note hdl = handle_ok_hdl_ok [OF h st(2) run(1)]
  obtain hdl' played where p: "playback_iter bits slot0 st in_tmp out_tmp hdl = Inr (hdl', Some played)" "length played = 7680"
    "\<forall>b<16. bus_drained hdl hdl' b" "\<forall>j<7680. played ! j = s16 (\<Sum>b<16. bus_sample st hdl b j)"
    using playback_iter_plays [OF hdl st(1), of bits in_tmp out_tmp slot0] bits run arrays by blast
  define ch where "ch b = nat (rb_chann (the (hs_bus_rbuf hdl ! b)))" for b
  define off where "off b = nat (slot_index st ! b)" for b
  have sample: "bus_sample st hdl b (8 * i + k) = (if bus_ready hdl b \<and> off b \<le> k \<and> k < off b + ch b
      then bus_period hdl b ! (i * ch b + (k - off b)) else 0)" if "b < 16" "i < 960" "k < 8" for b i k
  proof (cases "bus_ready hdl b")
    case True
    then have "get_bit_c (hs_bus_state hdl) b" "b \<noteq> 2" by (simp_all add: bus_ready_def)
    then have "bus_wired st hdl b" using hdl that(1) by (simp add: hdl_ok_def)
    then have "off b + ch b \<le> 8" by (auto simp: bus_wired_def ring_ok_def off_def ch_def)
    from contrib_frame [OF this that(3)] show ?thesis using True that(2) by (simp add: bus_sample_def flip: off_def ch_def)
  qed (simp add: bus_sample_def)
  have "(\<Sum>b<16. bus_sample st hdl b (8 * i + k)) = (\<Sum>b | b < 16 \<and> bus_ready hdl b \<and> off b \<le> k \<and> k < off b + ch b.
      bus_period hdl b ! (i * ch b + (k - off b)))" if "i < 960" "k < 8" for i k
  proof -
    have "(\<Sum>b<16. bus_sample st hdl b (8 * i + k)) = (\<Sum>b<16. if bus_ready hdl b \<and> off b \<le> k \<and> k < off b + ch b
        then bus_period hdl b ! (i * ch b + (k - off b)) else 0)" using sample that by (intro sum.cong) auto
    also have "\<dots> = (\<Sum>b | b \<in> {..<16} \<and> bus_ready hdl b \<and> off b \<le> k \<and> k < off b + ch b. bus_period hdl b ! (i * ch b + (k - off b)))"
      by (rule sum.inter_filter [symmetric]) simp
    finally show ?thesis by simp
  qed
  moreover have "8 * i + k < 7680" if "i < 960" "k < 8" for i k :: nat using that by simp
  ultimately show ?thesis using p by (auto simp: ch_def off_def)
qed

theorem period_mixes_buses_witness:
  "\<exists>hdl' played. playback_iter (\<lambda>f. 16) (\<lambda>b. 0) idle_buses (replicate 16384 0) (replicate 8192 0) playing_hdl = Inr (hdl', Some played) \<and>
     length played = 7680"
  using period_mixes_buses [OF playing_hdl_ok idle_buses_ok, of "\<lambda>f. 16" "replicate 16384 0" "replicate 8192 0" "\<lambda>b. 0"]
  by (simp add: list_all_iff in_s16_def) (auto simp: playing_hdl_def blank_hdl_def)

section \<open>Volume\<close>

text \<open>
  C14.  The volume of a bus.  On a bus of the table \<open>set_bus_volume\<close> sends one command to the channel of the slot
  of the bus, or none when the slot has no channel.  The level is 0 for a muted bus; with the chime on, the volume up to
  8; for a ducked bus four fifths of the volume, unless a bus in focus is more than 12 steps louder; otherwise the volume.
\<close>

theorem bus_volume_specified:
  assumes "bus_ok st" and "b < 16"
  shows "set_bus_volume dsp st (int b) =
    Inr (case slot_channel (slot_index st ! b) of None \<Rightarrow> ([], 0)
         | Some c \<Rightarrow> ([Set_volume c (bus_level st b)], dsp (Set_volume c (bus_level st b))))"
  using set_bus_volume_level [OF assms(1), of "int b" dsp] assms(2) by (simp add: slot_set_volume_def)

theorem bus_volume_specified_witness:
  "set_bus_volume (\<lambda>c. 0) idle_buses 3 = Inr ([Set_volume CHANNEL_MEDIA_MUSIC 20], 0)"
  using bus_volume_specified [OF idle_buses_ok(1), of 3 "\<lambda>c. 0"] by (simp add: slot_channel_def bus_level_def idle_buses_def)

text \<open>
  C15.  After any sequence of volume changes, ducking, muting and chime messages, the next one on a bus of the
  table succeeds and keeps the bus state well formed, and every level it sends is at most the volume of the bus, at
  most 8 while the chime is on, and 0 when the bus is muted.
\<close>

theorem bus_levels_bounded:
  assumes "bus_run curve dsp env st0 evs st" and "bus_ok st0" and "list_all event_valid evs" and "event_valid ev"
  shows "\<exists>st' cmds. bus_event_step curve dsp env st ev = Inr (st', cmds) \<and> bus_ok st' \<and>
    list_all (\<lambda>c. \<exists>ch v. c = Set_volume ch v \<and> 0 \<le> v \<and> v \<le> bus_vol st' ! nat (event_bus ev) \<and>
      (is_chime_on st' \<longrightarrow> v \<le> 8) \<and> (is_muted st' ! nat (event_bus ev) \<longrightarrow> v = 0)) cmds"
proof -
  have "bus_ok st" using bus_run_ok assms(1-3) by blast
  from bus_event_step_ok [OF this assms(4), of curve dsp env] obtain st' cmds where
    r: "bus_event_step curve dsp env st ev = Inr (st', cmds)" "bus_ok st'" "list_all (level_ok st' (event_bus ev)) cmds" by blast
  have "level_ok st' b c \<Longrightarrow> \<exists>ch v. c = Set_volume ch v \<and> 0 \<le> v \<and> v \<le> bus_vol st' ! nat b \<and>
      (is_chime_on st' \<longrightarrow> v \<le> 8) \<and> (is_muted st' ! nat b \<longrightarrow> v = 0)" for b c
    by (auto simp: level_ok_def split: dsp_cmd.splits)
  then show ?thesis using r by (auto simp: list_all_iff)
qed

theorem bus_levels_bounded_witness:
  "\<exists>st' cmds. bus_event_step (\<lambda>a b c d. 1) (\<lambda>c. 0) \<lparr>env_socket = 3, env_connect = 0, env_write = 140\<rparr> idle_buses (Mute 1 True) = Inr (st', cmds) \<and> bus_ok st'"
  using bus_levels_bounded [OF bus_run_Nil idle_buses_ok(1), where ev = "Mute 1 True" and curve = "\<lambda>a b c d. 1" and dsp = "\<lambda>c. 0" and
      env = "\<lparr>env_socket = 3, env_connect = 0, env_write = 140\<rparr>"]
  by auto

section \<open>Remote paths and devices\<close>

text \<open>
  C16.  The remote path of the loudspeaker refines a counter of its users: over any sequence of openings and
  closings of buses, the packets sent are those of the abstract counter (a start for every opening, a stop only for
  the closing of the last user, nothing for a closing without a user), and the stored count is the number of users.
\<close>

theorem paths_follow_users:
  assumes "0 < remote" and "length evs < 2 ^ 31"
  shows "path_run env (remote, paths0) evs =
    ((remote, [(HIFI_PLAYBACK_TO_MAIN_SPK_48K, int (fst (users_run 0 evs)))]), map cmd_pack (snd (users_run 0 evs)))"
  using path_run_users [OF assms(1), of 0 evs env] assms(2) by (simp add: paths0_def)

theorem paths_follow_users_witness:
  "path_run \<lparr>env_socket = 3, env_connect = 0, env_write = 140\<rparr> (3, paths0) [P_open 0, P_open 5, P_close 0, P_close 5] =
    ((3, [(HIFI_PLAYBACK_TO_MAIN_SPK_48K, 0)]),
     map cmd_pack [(OP_START, HIFI_PLAYBACK_TO_MAIN_SPK_48K), (OP_START, HIFI_PLAYBACK_TO_MAIN_SPK_48K), (OP_STOP, HIFI_PLAYBACK_TO_MAIN_SPK_48K)])"
  using paths_follow_users [of 3 "[P_open 0, P_open 5, P_close 0, P_close 5]" "\<lparr>env_socket = 3, env_connect = 0, env_write = 140\<rparr>"] by (simp add: hifi_bus_def)

text \<open>
  Opening a PCM device with \<open>n\<close> retries ends after at most \<open>n + 1\<close> attempts; it gives a device exactly when one
  of these attempts finds the device ready and preparing it succeeds, and it stops at the first one that is ready.
\<close>

lemma open_retries_bounded:
  "pcm_open_prepare_helper attempt prepare n =
     (if \<exists>i\<le>n. attempt i = Open_ready then (0 \<le> prepare, Suc (LEAST i. attempt i = Open_ready)) else (False, Suc n)) \<and>
   snd (pcm_open_prepare_helper attempt prepare n) \<le> Suc n"
proof -
  have e: "pcm_open_prepare_helper attempt prepare n =
     (if \<exists>i\<le>n. attempt i = Open_ready then (0 \<le> prepare, Suc (LEAST i. attempt i = Open_ready)) else (False, Suc n))"
    using open_retry_loop_spec [of attempt 0 n] by (auto simp: pcm_open_prepare_helper_def)
  moreover have "(LEAST i. attempt i = Open_ready) \<le> n" if "i \<le> n" "attempt i = Open_ready" for i
    using that Least_le [of "\<lambda>i. attempt i = Open_ready" i] by linarith
  ultimately show ?thesis by auto
qed

section \<open>Handles and slots\<close>

text \<open>
  A bus that was bound to a card by name, and to no card before, is found by the search that opens a stream:
  in the handle of that name.  So the names and buses of the configuration reach the streams.
\<close>

lemma bound_bus_is_found:
  assumes "list_all entry_ok g" and "length nm \<le> 127" and "NUL \<notin> set nm" and "\<forall>h\<in>set g. \<not> bound_to b h"
    and "hal_streamer_bind_bus g nm (int (length nm)) b = Inr (g', 0)"
  shows "\<exists>i. probe_out g' b = (g'[i := (g' ! i)\<lparr>hs_dir := PLAYBACK_STREAM\<rparr>], Some i) \<and> i < length g' \<and>
    hs_allocated (g' ! i) \<and> c_string (hs_name (g' ! i)) = nm"
  by (rule bind_then_find [OF assms])

text \<open>
  When the slot of a bus is taken, opening a stream marks all the slots from 1 to 3 as used and takes the
  highest one that was free; closing the stream frees only that one.  So one stream can use up all the slots.
\<close>

lemma occupied_slot_takes_all:
  assumes "bus_ok st" and "slots_ok st" and b: "0 \<le> b" "b < 16" and taken: "slot_in_use st = [1, 0, 0, 0]" "slot_index st ! nat b = 0"
    and out: "so_bus_num out = b"
  shows "\<exists>st1. open_slot st b = Inr st1 \<and> slot_in_use st1 = [1, 1, 1, 1] \<and> slot_index st1 ! nat b = 6 \<and>
    (\<exists>g' st2 out' ret. hal_streamer_close_out slot0 g st1 out = Inr (g', st2, out', ret) \<and> slot_in_use st2 = [1, 1, 1, 0])"
proof -
  have len: "length (slot_index st) = 16" "length (bus_active st) = 16" using assms(1) by (simp_all add: bus_ok_def)
  define st1 where "st1 = fold (take_free_slot b) [1, 2, 3] st"
  have o: "open_slot st b = Inr st1" using b len taken by (simp add: open_slot_def st1_def)
  have s: "slot_in_use st1 = [1, 1, 1, 1]" "slot_index st1 ! nat b = 6"
    using take_free_slots [of st b] taken b len by (simp_all add: st1_def)
  have "length (slot_index st1) = 16" "length (bus_active st1) = 16"
    using open_slot_ok [OF assms(1,2) b] o by (auto simp: bus_ok_def)
  then show ?thesis using o s b out by (auto simp: hal_streamer_close_out_def Let_def numeral_3_eq_3 split: option.split)
qed

section \<open>Writing and reading\<close>

text \<open>
  C17.  A write to a bus returns as soon as one of the states it sees of the ring buffer has room for the whole
  chunk, and then the chunk is appended to the queue of that state and 0 returned; it goes on waiting
  exactly as long as no state has room.  In particular it never returns for a chunk larger than the buffer.
\<close>

theorem write_waits_for_room:
  assumes "so_pcm out" and "so_pcm_hdl out = Some i" and "\<not> is_low_latency_bus out" and "i < length g"
    and b: "0 \<le> so_bus_num out" "so_bus_num out < 16" "length (hs_bus_rbuf (g ! i)) = 16" "hs_bus_rbuf (g ! i) ! nat (so_bus_num out) \<noteq> None"
    and polls: "\<forall>rb\<in>set polls. cb_ok rb \<and> rb_size rb \<le> 2147483647" and bs: "0 < length bs" "length bs < 2 ^ 31"
  shows "if \<exists>rb\<in>set polls. int (length bs) \<le> rb_size rb - rb_used rb
    then \<exists>rb\<in>set polls. \<exists>rb'. hal_streamer_write bits slot0 pcm_write tmp polls st g out (Some bs) (int (length bs)) =
        Inr (Some (g[i := (g ! i)\<lparr>hs_bus_rbuf := (hs_bus_rbuf (g ! i))[nat (so_bus_num out) := Some rb']\<rparr>], None, 0)) \<and>
      cb_ok rb' \<and> contents rb' = contents rb @ bs
    else hal_streamer_write bits slot0 pcm_write tmp polls st g out (Some bs) (int (length bs)) = Inr None"
proof -
  have u: "u32 (audio_circlebuf_available rb) = rb_size rb - rb_used rb" if "rb \<in> set polls" for rb
    using polls that available_u32 by blast
  have c: "s32 (int (length bs)) = int (length bs)" using bs(2) by (intro s32_id) simp_all
  show ?thesis
  proof (cases "write_poll polls (int (length bs))")
    case None
    then have "\<not> (\<exists>rb\<in>set polls. int (length bs) \<le> rb_size rb - rb_used rb)" using u by (auto simp: write_poll_None)
    then show ?thesis using assms(1-3) b None by (auto simp: hal_streamer_write_def)
  next
    case (Some rb)
    then have rb: "rb \<in> set polls" "int (length bs) \<le> rb_size rb - rb_used rb" using write_poll_Some [OF Some] u by auto
    then have "cb_ok rb" "0 < int (length bs)" using polls bs by auto
    from write_fits [OF this refl rb(2)] obtain rb' where
      "audio_circlebuf_write (Some rb) (Some bs) (int (length bs)) = Inr (Some rb', int (length bs))" "cb_ok rb'" "contents rb' = contents rb @ bs" by blast
    moreover from this have "hal_streamer_write bits slot0 pcm_write tmp polls st g out (Some bs) (int (length bs)) =
        Inr (Some (g[i := (g ! i)\<lparr>hs_bus_rbuf := (hs_bus_rbuf (g ! i))[nat (so_bus_num out) := Some rb']\<rparr>], None, 0))"
      using assms(1-3) b Some c by (auto simp: hal_streamer_write_def)
    ultimately show ?thesis using rb by (simp only: if_True bexI split: if_split) blast
  qed
qed

theorem write_waits_for_room_witness:
  "hal_streamer_write (\<lambda>f. 16) (\<lambda>b. 0) (\<lambda>p. 0) [] [sample_ring 4 2 []] idle_buses [playing_hdl]
     \<lparr>so_channels = 2, so_format = 0, so_bus_address = ''bus0_media_out'', so_bus_num = 0, so_pcm = True, so_pcm_hdl = Some 0\<rparr>
     (Some (replicate 5 0)) 5 = Inr None"
proof -
  let ?out = "\<lparr>so_channels = 2, so_format = 0, so_bus_address = ''bus0_media_out'', so_bus_num = 0, so_pcm = True, so_pcm_hdl = Some 0\<rparr>"
  have low: "\<not> is_low_latency_bus ?out" by (simp add: is_low_latency_bus_def strstr_c_def BT_CALL_BUS_NAME_def upt_rec)
  have ring: "\<forall>rb\<in>set [sample_ring 4 2 []]. cb_ok rb \<and> rb_size rb \<le> 2147483647" "rb_size (sample_ring 4 2 []) = 4" "rb_used (sample_ring 4 2 []) = 0"
    using sample_ring_ok [of 4 "[]" 2] by (simp_all add: sample_ring_def)
  show ?thesis
    using write_waits_for_room [of ?out 0 "[playing_hdl]" "[sample_ring 4 2 []]" "replicate 5 0" "\<lambda>f. 16" "\<lambda>b. 0" "\<lambda>p. 0" "[]" idle_buses]
      low ring by (simp add: playing_hdl_def blank_hdl_def)
qed

text \<open>
  A read that finds less than the wanted number of bytes in each of its eleven tests gives up and returns 0,
  the value of success, without having written to the caller's array.
\<close>

lemma read_timeout_is_success:
  assumes "si_pcm_hdl inp = Some i" and "hs_cap_rbuf (g ! i) ! read_policy (si_devices inp) \<noteq> None"
    and "\<forall>k\<le>10. cb_ok (polls k) \<and> rb_size (polls k) \<le> 2147483647 \<and> rb_used (polls k) < count"
  shows "hal_streamer_read polls g inp data count = Inr (g, data, 0)"
proof -
  have "u32 (audio_circlebuf_used (polls k)) < count" if "k \<le> 10" for k
    using assms(3) that by (auto simp: audio_circlebuf_used_def u32_id cb_ok_def rb_ok_def)
  then have "read_poll polls count 0 READ_TIMEOUT_LIMITS = None" by (simp add: read_poll_spec READ_TIMEOUT_LIMITS_def)
  then show ?thesis using assms(1,2) by (auto simp: hal_streamer_read_def Let_def)
qed

section \<open>The platform\<close>

text \<open>
  A list of slots that is printed with commas is read back: the map has the length of the list and its slots,
  and the rest of the array is as before.
\<close>

lemma slot_list_round_trip:
  assumes "ns \<noteq> []" and "length ns \<le> length (sm_slots m)" and "\<forall>n\<in>set ns. n < 256"
  shows "parse_slots (print_slots ns) m =
    Inr (m\<lparr>sm_slots := map int ns @ drop (length ns) (sm_slots m), sm_len := int (length ns)\<rparr>)"
proof -
  have "map (\<lambda>t. atoi t mod 256) (map dec ns) = map int ns" using assms(3) by (simp add: atoi_dec)
  then show ?thesis
    using slots_loop_spec [of "map dec ns" 0 "sm_slots m"] assms(1,2) by (simp add: parse_slots_def tokens_print)
qed

text \<open>
  The table of names gives the card \<open>x9msmach\<close> to the primary output and, in a later line, to the
  Bluetooth calls; the first line always wins, so after any number of updates no card has the Bluetooth name and
  the search for it fails.
\<close>

lemma bt_card_never_found:
  assumes "cards_reachable cfg s" and "pf_dev_manager pf = fst s"
  shows "sd_platform_get_card_id (Some pf) AUDIO_NAME_BT = -1"
proof -
  have "list_all (\<lambda>d. known_name (dm_android_name d)) (fst s)" using cards_reachable_ok [OF assms(1)] by (simp add: cards_ok_def)
  then have "\<forall>d\<in>set (fst s). dm_android_name d \<noteq> AUDIO_NAME_BT" using bt_not_known by (auto simp: list_all_iff)
  moreover have "AUDIO_NAME_BT \<noteq> AUDIO_NAME_USB" by (simp add: AUDIO_NAME_BT_def AUDIO_NAME_USB_def)
  ultimately show ?thesis using card_id_not_found assms(2) by (simp add: sd_platform_get_card_id_def)
qed

text \<open>
  An update of the table marks a card as present exactly when its directory is there and it was present
  before or its name can be read.  But the search by name does not look at the mark: when no card was added, every
  name is found under the same number as before, also when its card is gone.
\<close>

lemma unplugged_card_still_found:
  fixes fs cfg s
  defines "s' \<equiv> sd_platform_update_audio_devices fs cfg s"
  assumes "length (fst s) = 16" and "\<forall>k<16. fs_card fs k \<longrightarrow> dm_flag_exist (fst s ! k)"
  shows "(\<forall>k<16. dm_flag_exist (fst s' ! k) \<longleftrightarrow> fs_card fs k) \<and> card_id_loop nm (fst s') = card_id_loop nm (fst s)"
proof -
  have s': "s' = fold (update_card fs cfg) [0..<16] s"
    by (simp add: s'_def sd_platform_update_audio_devices_def MAX_AUDIO_DEVICES_def)
  have one: "(dm_flag_exist (fst s' ! k) \<longleftrightarrow> fs_card fs k) \<and> dm_android_name (fst s' ! k) = dm_android_name (fst s ! k) \<and>
      dm_card (fst s' ! k) = dm_card (fst s ! k)" if k: "k < 16" for k
  proof -
    have "k \<in> set [0..<16]" using k by simp
    then obtain s0 where s0: "length (fst s0) = length (fst s)" "fst s0 ! k = fst s ! k" "fst s' ! k = fst (update_card fs cfg k s0) ! k"
      using update_fold_entry [OF _ distinct_upt] unfolding s' by metis
    show ?thesis
    proof (cases "fs_card fs k")
      case True
      then have "fst (update_card fs cfg k s0) = fst s0" using assms(3) s0(2) k by (cases s0) (auto simp: update_card_def)
      then show ?thesis using s0 True assms(3) k by simp
    next
      case False
      then show ?thesis using update_card_self [of k s0 fs cfg] update_card_gone [of k s0 fs cfg] s0 assms(2) k by simp
    qed
  qed
  moreover have "length (fst s') = length (fst s)" unfolding s' by (rule update_fold_length)
  ultimately show ?thesis using assms(2) card_id_cong [of "fst s'" "fst s" nm] by auto
qed

text \<open>
  The jacks of the two rear headsets are exchanged: the state of seat 2 is read from the jack of seat 3 and that
  of seat 3 from the jack of seat 2, because the names are compared for difference instead of equality.
\<close>

lemma headset_jacks_swapped:
  "(bit (get_hs_connect_status jack) 1 \<longleftrightarrow> (\<exists>v>0. jack SSB_JACK_REAR3_GPIO = Some v)) \<and>
   (bit (get_hs_connect_status jack) 2 \<longleftrightarrow> (\<exists>v>0. jack SSB_JACK_REAR2_GPIO = Some v))"
proof -
  have ne: "AUDIO_NAME_REAR3 \<noteq> AUDIO_NAME_REAR2" "AUDIO_NAME_REAR2 \<noteq> AUDIO_NAME_REAR3"
    by (simp_all add: AUDIO_NAME_REAR2_def AUDIO_NAME_REAR1_def AUDIO_NAME_REAR3_def)
  have "get_headset_status jack AUDIO_NAME_REAR2 > 0 \<longleftrightarrow> (\<exists>v>0. jack SSB_JACK_REAR3_GPIO = Some v)"
    "get_headset_status jack AUDIO_NAME_REAR3 > 0 \<longleftrightarrow> (\<exists>v>0. jack SSB_JACK_REAR2_GPIO = Some v)"
    using ne by (auto simp: get_headset_status_def split: option.splits)
  moreover have "bit (2::int) 1" "\<not> bit (4::int) 1" "bit (6::int) 1" "\<not> bit (2::int) 2" "bit (4::int) 2" "bit (6::int) 2"
    by (simp_all add: bit_iff_odd)
  ultimately show ?thesis by (auto simp: get_hs_connect_status_def)
qed

end
