(* ===== verification/Plug_Params.thy ===== *)
theory Plug_Params
  imports Hal_Streamer
begin

text \<open>
  The hardware parameters of the PCM plug-in layer (\<open>plugin/pcm_plugin.c\<close> and the \<open>param_\<close> functions of
  \<open>plugin/pcm_wrapper.c\<close>): masks and intervals that a client asks for are refined by the constraints of a
  plug-in, then one value of each interval is selected.

  The numbers of the parameters, formats and masks are those of the ALSA kernel interface.  Of the words
  of a mask only the first two are used by the code.  An interval has unsigned limits, kept as \<open>int\<close> with
  the wrap-around written out.
\<close>

record snd_interval =
  iv_min :: int
  iv_max :: int
  iv_openmin :: bool
  iv_openmax :: bool
  iv_integer :: bool

record snd_mask =
  mk_bits0 :: "32 word"
  mk_bits1 :: "32 word"

record snd_pcm_hw_params =
  hp_masks :: "snd_mask list"
  hp_intervals :: "snd_interval list"
  hp_rmask :: "32 word"
  hp_cmask :: "32 word"
  hp_info :: "32 word"

type_synonym min_max = "int \<times> int"

record pcm_plugin_hw_constraints =
  hc_access :: "64 word"
  hc_format :: "64 word"
  hc_bit_width :: min_max
  hc_channels :: min_max
  hc_rate :: min_max
  hc_periods :: min_max
  hc_period_bytes :: min_max

definition HW_PARAM_ACCESS :: nat where "HW_PARAM_ACCESS = 0"
definition HW_PARAM_FORMAT :: nat where "HW_PARAM_FORMAT = 1"
definition HW_PARAM_SUBFORMAT :: nat where "HW_PARAM_SUBFORMAT = 2"
definition HW_PARAM_FIRST_MASK :: nat where "HW_PARAM_FIRST_MASK = 0"
definition HW_PARAM_LAST_MASK :: nat where "HW_PARAM_LAST_MASK = 2"
definition HW_PARAM_SAMPLE_BITS :: nat where "HW_PARAM_SAMPLE_BITS = 8"
definition HW_PARAM_FRAME_BITS :: nat where "HW_PARAM_FRAME_BITS = 9"
definition HW_PARAM_CHANNELS :: nat where "HW_PARAM_CHANNELS = 10"
definition HW_PARAM_RATE :: nat where "HW_PARAM_RATE = 11"
definition HW_PARAM_PERIOD_SIZE :: nat where "HW_PARAM_PERIOD_SIZE = 13"
definition HW_PARAM_PERIOD_BYTES :: nat where "HW_PARAM_PERIOD_BYTES = 14"
definition HW_PARAM_PERIODS :: nat where "HW_PARAM_PERIODS = 15"
definition HW_PARAM_BUFFER_SIZE :: nat where "HW_PARAM_BUFFER_SIZE = 17"
definition HW_PARAM_BUFFER_BYTES :: nat where "HW_PARAM_BUFFER_BYTES = 18"
definition HW_PARAM_FIRST_INTERVAL :: nat where "HW_PARAM_FIRST_INTERVAL = 8"
definition HW_PARAM_LAST_INTERVAL :: nat where "HW_PARAM_LAST_INTERVAL = 19"
definition SNDRV_PCM_SUBFORMAT_STD :: "64 word" where "SNDRV_PCM_SUBFORMAT_STD = 0"

lemmas hw_param_nums = HW_PARAM_ACCESS_def HW_PARAM_FORMAT_def HW_PARAM_SUBFORMAT_def HW_PARAM_FIRST_MASK_def
  HW_PARAM_LAST_MASK_def HW_PARAM_SAMPLE_BITS_def HW_PARAM_FRAME_BITS_def HW_PARAM_CHANNELS_def HW_PARAM_RATE_def
  HW_PARAM_PERIOD_SIZE_def HW_PARAM_PERIOD_BYTES_def HW_PARAM_PERIODS_def HW_PARAM_BUFFER_SIZE_def
  HW_PARAM_BUFFER_BYTES_def HW_PARAM_FIRST_INTERVAL_def HW_PARAM_LAST_INTERVAL_def

text \<open>Intervals are reached by the number of the parameter.\<close>

definition interval_of :: "snd_pcm_hw_params \<Rightarrow> nat \<Rightarrow> snd_interval" where
  "interval_of p n = hp_intervals p ! (n - HW_PARAM_FIRST_INTERVAL)"

definition set_interval_of :: "snd_pcm_hw_params \<Rightarrow> nat \<Rightarrow> snd_interval \<Rightarrow> snd_pcm_hw_params" where
  "set_interval_of p n i = p\<lparr>hp_intervals := (hp_intervals p)[n - HW_PARAM_FIRST_INTERVAL := i]\<rparr>"

section \<open>The parameters a plug-in supports\<close>

definition pcm_plug_set_mask :: "snd_pcm_hw_params \<Rightarrow> nat \<Rightarrow> 64 word \<Rightarrow> snd_pcm_hw_params" where
  "pcm_plug_set_mask p n v =
     (let i = n - HW_PARAM_FIRST_MASK; mk = hp_masks p ! i
      in p\<lparr>hp_masks := (hp_masks p)[i := mk\<lparr>mk_bits0 := mk_bits0 mk OR ucast v, mk_bits1 := mk_bits1 mk OR ucast (drop_bit 32 v)\<rparr>]\<rparr>)"

definition pcm_plug_set_interval :: "snd_pcm_hw_params \<Rightarrow> nat \<Rightarrow> min_max \<Rightarrow> bool \<Rightarrow> snd_pcm_hw_params" where
  "pcm_plug_set_interval params p v is_integer =
     (let i = (interval_of params p)\<lparr>iv_min := fst v, iv_max := snd v\<rparr>
      in set_interval_of params p (if is_integer then i\<lparr>iv_integer := True\<rparr> else i))"

definition pcm_plug_frames_to_bytes :: "int \<Rightarrow> int \<Rightarrow> int" where
  "pcm_plug_frames_to_bytes frames frame_bits = s32 (u32 (frames * (frame_bits div 8)))"

definition pcm_plug_bytes_to_frames :: "int \<Rightarrow> int \<Rightarrow> c_error + int" where
  "pcm_plug_bytes_to_frames bytes frame_bits =
     (if frame_bits = 0 then Inl Div_by_zero else Inr (s32 (u32 (bytes * 8) div frame_bits)))"

text \<open>The limits are assigned to unsigned variables; the maxima are divided by the smallest frame too.\<close>

definition pcm_plug_get_params :: "pcm_plugin_hw_constraints \<Rightarrow> snd_pcm_hw_params \<Rightarrow> c_error + snd_pcm_hw_params" where
  "pcm_plug_get_params c params =
     (let params = pcm_plug_set_mask params HW_PARAM_ACCESS (hc_access c);
          params = pcm_plug_set_mask params HW_PARAM_FORMAT (hc_format c);
          params = pcm_plug_set_mask params HW_PARAM_SUBFORMAT SNDRV_PCM_SUBFORMAT_STD;
          params = pcm_plug_set_interval params HW_PARAM_SAMPLE_BITS (hc_bit_width c) True;
          params = pcm_plug_set_interval params HW_PARAM_CHANNELS (hc_channels c) True;
          params = pcm_plug_set_interval params HW_PARAM_RATE (hc_rate c) True;
          params = pcm_plug_set_interval params HW_PARAM_PERIOD_BYTES (hc_period_bytes c) False;
          params = pcm_plug_set_interval params HW_PARAM_PERIODS (hc_periods c) True;
          bw = hc_bit_width c; ch = hc_channels c; pb = hc_period_bytes c; periods = hc_periods c;
          frame_bits = (u32 (fst bw * fst ch), u32 (snd bw * snd ch));
          params = pcm_plug_set_interval params HW_PARAM_FRAME_BITS frame_bits True
      in and_then (pcm_plug_bytes_to_frames (fst pb) (fst frame_bits)) (\<lambda>lo.
         and_then (pcm_plug_bytes_to_frames (snd pb) (fst frame_bits)) (\<lambda>hi.
           let params = pcm_plug_set_interval params HW_PARAM_PERIOD_SIZE (u32 lo, u32 hi) True;
               buffer_bytes = (u32 (fst pb * fst periods), u32 (snd pb * snd periods));
               params = pcm_plug_set_interval params HW_PARAM_BUFFER_BYTES buffer_bytes True
           in and_then (pcm_plug_bytes_to_frames (fst buffer_bytes) (fst frame_bits)) (\<lambda>lo.
              and_then (pcm_plug_bytes_to_frames (snd buffer_bytes) (fst frame_bits)) (\<lambda>hi.
                Inr (pcm_plug_set_interval params HW_PARAM_BUFFER_SIZE (u32 lo, u32 hi) True))))))"

section \<open>Refining a request\<close>

definition refine_mask :: "snd_mask \<Rightarrow> snd_mask \<Rightarrow> snd_mask" where
  "refine_mask req con = req\<lparr>mk_bits0 := mk_bits0 req AND mk_bits0 con, mk_bits1 := mk_bits1 req AND mk_bits1 con\<rparr>"

definition masks_refine_at :: "snd_pcm_hw_params \<Rightarrow> nat \<Rightarrow> snd_pcm_hw_params \<Rightarrow> snd_pcm_hw_params" where
  "masks_refine_at c idx p =
     (if \<not> bit (hp_rmask p) (idx + HW_PARAM_FIRST_MASK) then p
      else
        let req = hp_masks p ! idx; con = hp_masks c ! idx;
            p = (if req \<noteq> con then p\<lparr>hp_cmask := hp_cmask p OR push_bit (idx + HW_PARAM_FIRST_MASK) 1\<rparr> else p)
        in p\<lparr>hp_masks := (hp_masks p)[idx := refine_mask req con]\<rparr>)"

definition pcm_plug_masks_refine :: "snd_pcm_hw_params \<Rightarrow> snd_pcm_hw_params \<Rightarrow> snd_pcm_hw_params" where
  "pcm_plug_masks_refine p c = fold (masks_refine_at c) [0..<Suc (HW_PARAM_LAST_MASK - HW_PARAM_FIRST_MASK)] p"

text \<open>One pass of the loop body on an interval; \<open>changed\<close> is the variable declared before the loop.\<close>

definition refine_min :: "snd_interval \<Rightarrow> snd_interval \<times> bool \<Rightarrow> snd_interval \<times> bool" where
  "refine_min ci = (\<lambda>(ri, changed).
     if iv_min ri < iv_min ci then (ri\<lparr>iv_min := iv_min ci, iv_openmin := iv_openmin ci\<rparr>, True)
     else if iv_min ri = iv_min ci \<and> \<not> iv_openmin ri \<and> iv_openmin ci then (ri\<lparr>iv_openmin := True\<rparr>, True)
     else (ri, changed))"

definition refine_max :: "snd_interval \<Rightarrow> snd_interval \<times> bool \<Rightarrow> snd_interval \<times> bool" where
  "refine_max ci = (\<lambda>(ri, changed).
     if iv_max ri > iv_max ci then (ri\<lparr>iv_max := iv_max ci, iv_openmax := iv_openmax ci\<rparr>, True)
     else if iv_max ri = iv_max ci \<and> \<not> iv_openmax ri \<and> iv_openmax ci then (ri\<lparr>iv_openmax := True\<rparr>, True)
     else (ri, changed))"

definition refine_integer :: "snd_interval \<Rightarrow> snd_interval \<times> bool \<Rightarrow> snd_interval \<times> bool" where
  "refine_integer ci = (\<lambda>(ri, changed).
     if \<not> iv_integer ri \<and> iv_integer ci then (ri\<lparr>iv_integer := True\<rparr>, True) else (ri, changed))"

definition close_limits :: "snd_interval \<Rightarrow> snd_interval" where
  "close_limits ri =
     (if iv_integer ri
      then let ri = (if iv_openmin ri then ri\<lparr>iv_min := u32 (iv_min ri + 1), iv_openmin := False\<rparr> else ri)
           in if iv_openmax ri then ri\<lparr>iv_max := u32 (iv_max ri - 1), iv_openmax := False\<rparr> else ri
      else if \<not> iv_openmin ri \<and> \<not> iv_openmax ri \<and> iv_min ri = iv_max ri then ri\<lparr>iv_integer := True\<rparr>
      else ri)"

definition refine_interval :: "snd_interval \<Rightarrow> snd_interval \<Rightarrow> bool \<Rightarrow> snd_interval \<times> bool" where
  "refine_interval ri ci changed =
     (let (ri, changed) = refine_integer ci (refine_max ci (refine_min ci (ri, changed)))
      in (close_limits ri, changed))"

text \<open>\<open>changed\<close> is not reset from one parameter to the next.\<close>

definition interval_refine_at :: "snd_pcm_hw_params \<Rightarrow> nat \<Rightarrow> snd_pcm_hw_params \<times> bool \<Rightarrow> snd_pcm_hw_params \<times> bool" where
  "interval_refine_at c idx = (\<lambda>(p, changed).
     if \<not> bit (hp_rmask p) (idx + HW_PARAM_FIRST_INTERVAL) then (p, changed)
     else
       let (ri, changed) = refine_interval (hp_intervals p ! idx) (hp_intervals c ! idx) changed;
           p = p\<lparr>hp_intervals := (hp_intervals p)[idx := ri]\<rparr>
       in (if changed then p\<lparr>hp_cmask := hp_cmask p OR push_bit (idx + HW_PARAM_FIRST_INTERVAL) 1\<rparr> else p, changed))"

definition pcm_plug_interval_refine :: "snd_pcm_hw_params \<Rightarrow> snd_pcm_hw_params \<Rightarrow> snd_pcm_hw_params" where
  "pcm_plug_interval_refine p c =
     fst (fold (interval_refine_at c) [0..<Suc (HW_PARAM_LAST_INTERVAL - HW_PARAM_FIRST_INTERVAL)] (p, False))"

definition pcm_plug_hw_params_refine :: "snd_pcm_hw_params \<Rightarrow> snd_pcm_hw_params \<Rightarrow> snd_pcm_hw_params" where
  "pcm_plug_hw_params_refine p c = (pcm_plug_interval_refine (pcm_plug_masks_refine p c) c)\<lparr>hp_rmask := 0\<rparr>"

definition zero_interval :: snd_interval where
  "zero_interval = \<lparr>iv_min = 0, iv_max = 0, iv_openmin = False, iv_openmax = False, iv_integer = False\<rparr>"

definition zero_params :: snd_pcm_hw_params where
  "zero_params = \<lparr>hp_masks = replicate 3 \<lparr>mk_bits0 = 0, mk_bits1 = 0\<rparr>, hp_intervals = replicate 12 zero_interval,
     hp_rmask = 0, hp_cmask = 0, hp_info = 0\<rparr>"

text \<open>\<open>__pcm_plug_hrefine\<close>; it never returns a negative value.\<close>

definition pcm_plug_hrefine :: "pcm_plugin_hw_constraints \<Rightarrow> snd_pcm_hw_params \<Rightarrow> c_error + snd_pcm_hw_params" where
  "pcm_plug_hrefine c params =
     and_then (pcm_plug_get_params c zero_params) (\<lambda>plug_params. Inr (pcm_plug_hw_params_refine params plug_params))"

section \<open>Selecting values\<close>

datatype param_select = SELECT_MIN | SELECT_MAX | SELECT_VAL

definition pcm_plug_interval_select :: "snd_pcm_hw_params \<Rightarrow> nat \<Rightarrow> param_select \<Rightarrow> int \<Rightarrow> snd_pcm_hw_params \<times> int" where
  "pcm_plug_interval_select p param select val =
     (if param < HW_PARAM_FIRST_INTERVAL \<or> param > HW_PARAM_LAST_INTERVAL then (p, - EINVAL)
      else
        let i = interval_of p param
        in if iv_min i = 0 then (p, - EINVAL)
           else (set_interval_of p param
                   (case select of SELECT_MIN \<Rightarrow> i\<lparr>iv_max := iv_min i\<rparr>
                    | SELECT_MAX \<Rightarrow> i\<lparr>iv_min := iv_max i\<rparr>
                    | SELECT_VAL \<Rightarrow> i\<lparr>iv_min := val, iv_max := val\<rparr>), 0))"

definition param_list :: "nat list" where
  "param_list = [HW_PARAM_SAMPLE_BITS, HW_PARAM_CHANNELS, HW_PARAM_RATE, HW_PARAM_PERIOD_SIZE, HW_PARAM_PERIODS]"

text \<open>The results of the selections are not looked at.\<close>

definition select_value :: "nat \<Rightarrow> int \<Rightarrow> snd_pcm_hw_params \<Rightarrow> snd_pcm_hw_params" where
  "select_value param val p = fst (pcm_plug_interval_select p param SELECT_VAL val)"

definition pcm_plug_hw_params_set :: "snd_pcm_hw_params \<Rightarrow> snd_pcm_hw_params" where
  "pcm_plug_hw_params_set p =
     (let p = fold (\<lambda>n p. fst (pcm_plug_interval_select p n SELECT_MIN 0)) param_list p;
          bw = iv_min (interval_of p HW_PARAM_SAMPLE_BITS);
          ch = iv_min (interval_of p HW_PARAM_CHANNELS);
          period_sz = iv_min (interval_of p HW_PARAM_PERIOD_SIZE);
          periods = iv_min (interval_of p HW_PARAM_PERIODS);
          val1 = u32 (bw * ch);
          p = select_value HW_PARAM_FRAME_BITS val1 p;
          p = select_value HW_PARAM_PERIOD_BYTES (u32 (pcm_plug_frames_to_bytes period_sz val1)) p;
          p = select_value HW_PARAM_BUFFER_SIZE (u32 (period_sz * periods)) p
      in select_value HW_PARAM_BUFFER_BYTES (u32 (pcm_plug_frames_to_bytes (u32 (period_sz * periods)) val1)) p)"

section \<open>Building a request\<close>

definition param_is_interval :: "nat \<Rightarrow> bool" where
  "param_is_interval p \<longleftrightarrow> HW_PARAM_FIRST_INTERVAL \<le> p \<and> p \<le> HW_PARAM_LAST_INTERVAL"

definition param_is_mask :: "nat \<Rightarrow> bool" where
  "param_is_mask p \<longleftrightarrow> HW_PARAM_FIRST_MASK \<le> p \<and> p \<le> HW_PARAM_LAST_MASK"

definition SNDRV_MASK_MAX :: int where "SNDRV_MASK_MAX = 256"

text \<open>A bit from 64 on goes to a word of the mask that nothing reads.\<close>

definition param_set_mask :: "snd_pcm_hw_params \<Rightarrow> nat \<Rightarrow> int \<Rightarrow> snd_pcm_hw_params" where
  "param_set_mask p n b =
     (if b \<ge> SNDRV_MASK_MAX then p
      else if param_is_mask n
      then p\<lparr>hp_masks := (hp_masks p)[n - HW_PARAM_FIRST_MASK :=
             \<lparr>mk_bits0 = (if b < 32 then push_bit (nat b) 1 else 0), mk_bits1 = (if 32 \<le> b \<and> b < 64 then push_bit (nat (b - 32)) 1 else 0)\<rparr>]\<rparr>
      else p)"

definition param_set_min :: "snd_pcm_hw_params \<Rightarrow> nat \<Rightarrow> int \<Rightarrow> snd_pcm_hw_params" where
  "param_set_min p n val = (if param_is_interval n then set_interval_of p n ((interval_of p n)\<lparr>iv_min := val\<rparr>) else p)"

definition param_set_int :: "snd_pcm_hw_params \<Rightarrow> nat \<Rightarrow> int \<Rightarrow> snd_pcm_hw_params" where
  "param_set_int p n val =
     (if param_is_interval n then set_interval_of p n ((interval_of p n)\<lparr>iv_min := val, iv_max := val, iv_integer := True\<rparr>) else p)"

definition param_init :: snd_pcm_hw_params where
  "param_init = \<lparr>hp_masks = replicate 3 \<lparr>mk_bits0 = -1, mk_bits1 = -1\<rparr>,
     hp_intervals = replicate 12 (zero_interval\<lparr>iv_max := 4294967295\<rparr>), hp_rmask = -1, hp_cmask = 0, hp_info = -1\<rparr>"

section \<open>Refining is intersecting\<close>

text \<open>The values an interval stands for, and limits that can be moved by one without wrapping.\<close>

definition values_of :: "snd_interval \<Rightarrow> int set" where
  "values_of i = {x. (if iv_openmin i then iv_min i < x else iv_min i \<le> x) \<and> (if iv_openmax i then x < iv_max i else x \<le> iv_max i)}"

definition interval_ok :: "snd_interval \<Rightarrow> bool" where
  "interval_ok i \<longleftrightarrow> 0 \<le> iv_min i \<and> iv_min i \<le> 4294967295 \<and> 0 \<le> iv_max i \<and> iv_max i \<le> 4294967295 \<and>
     (iv_openmin i \<longrightarrow> iv_min i < 4294967295) \<and> (iv_openmax i \<longrightarrow> 0 < iv_max i)"

definition params_ok :: "snd_pcm_hw_params \<Rightarrow> bool" where
  "params_ok p \<longleftrightarrow> length (hp_masks p) = 3 \<and> length (hp_intervals p) = 12 \<and> list_all interval_ok (hp_intervals p)"

lemma refine_min_spec:
  "interval_ok ri \<Longrightarrow> interval_ok ci \<Longrightarrow> interval_ok (fst (refine_min ci (ri, b)))"
  "values_of (fst (refine_min ci (ri, b))) = values_of ri \<inter> {x. if iv_openmin ci then iv_min ci < x else iv_min ci \<le> x}"
  by (auto simp: refine_min_def values_of_def interval_ok_def)

lemma refine_max_spec:
  "interval_ok ri \<Longrightarrow> interval_ok ci \<Longrightarrow> interval_ok (fst (refine_max ci (ri, b)))"
  "values_of (fst (refine_max ci (ri, b))) = values_of ri \<inter> {x. if iv_openmax ci then x < iv_max ci else x \<le> iv_max ci}"
  by (auto simp: refine_max_def values_of_def interval_ok_def)

lemma refine_integer_spec:
  "interval_ok ri \<Longrightarrow> interval_ok (fst (refine_integer ci (ri, b)))" "values_of (fst (refine_integer ci (ri, b))) = values_of ri"
  by (auto simp: refine_integer_def values_of_def interval_ok_def)

lemma close_limits_spec:
  assumes "interval_ok ri"
  shows "interval_ok (close_limits ri)" "values_of (close_limits ri) = values_of ri"
proof -
  have up: "u32 (iv_min ri + 1) = iv_min ri + 1" if "iv_openmin ri" using assms that by (simp add: interval_ok_def u32_id)
  have down: "u32 (iv_max ri - 1) = iv_max ri - 1" if "iv_openmax ri" using assms that by (simp add: interval_ok_def u32_id)
  show "interval_ok (close_limits ri)" "values_of (close_limits ri) = values_of ri"
    using assms up down by (auto simp: close_limits_def interval_ok_def values_of_def Let_def)
qed

lemma refine_interval_chain:
  "fst (refine_interval ri ci b) =
     close_limits (fst (refine_integer ci (fst (refine_max ci (fst (refine_min ci (ri, b)), b')), b'')))"
  by (auto simp: refine_interval_def refine_integer_def refine_max_def refine_min_def)

lemma refine_interval_meet:
  assumes "interval_ok ri" and "interval_ok ci"
  shows "interval_ok (fst (refine_interval ri ci b))" "values_of (fst (refine_interval ri ci b)) = values_of ri \<inter> values_of ci"
proof -
  let ?a = "fst (refine_min ci (ri, b))"
  let ?m = "fst (refine_max ci (?a, False))"
  let ?i = "fst (refine_integer ci (?m, False))"
  have ok: "interval_ok ?i" using assms refine_min_spec(1) refine_max_spec(1) refine_integer_spec(1) by simp
  show "interval_ok (fst (refine_interval ri ci b))"
    using close_limits_spec(1) [OF ok] by (simp add: refine_interval_chain [of _ _ _ False False])
  have "values_of (fst (refine_interval ri ci b)) = values_of ?i"
    using close_limits_spec(2) [OF ok] by (simp add: refine_interval_chain [of _ _ _ False False])
  then show "values_of (fst (refine_interval ri ci b)) = values_of ri \<inter> values_of ci"
    by (simp only: refine_integer_spec(2) refine_max_spec(2) refine_min_spec(2)) (auto simp: values_of_def)
qed

lemma refine_interval_changed_irrelevant: "fst (refine_interval ri ci b) = fst (refine_interval ri ci b')"
proof -
  have "fst (refine_min ci (ri, b)) = fst (refine_min ci (ri, b'))" by (simp add: refine_min_def)
  then show ?thesis
    using refine_interval_chain [of ri ci b False False] refine_interval_chain [of ri ci b' False False] by simp
qed

text \<open>The loop over the intervals treats each one by itself and leaves masks and \<open>rmask\<close> alone.\<close>

lemma interval_refine_fold:
  fixes p c :: snd_pcm_hw_params
  assumes "length (hp_intervals p) = 12" and "n \<le> 12"
  defines "r \<equiv> fst (fold (interval_refine_at c) [0..<n] (p, False))"
  shows "hp_rmask r = hp_rmask p" "hp_masks r = hp_masks p" "length (hp_intervals r) = 12"
    "\<forall>i<12. hp_intervals r ! i = (if i < n \<and> bit (hp_rmask p) (i + 8)
       then fst (refine_interval (hp_intervals p ! i) (hp_intervals c ! i) False) else hp_intervals p ! i)"
proof -
  have "hp_rmask r = hp_rmask p \<and> hp_masks r = hp_masks p \<and> length (hp_intervals r) = 12 \<and>
    (\<forall>i<12. hp_intervals r ! i = (if i < n \<and> bit (hp_rmask p) (i + 8)
       then fst (refine_interval (hp_intervals p ! i) (hp_intervals c ! i) False) else hp_intervals p ! i))"
    using assms(2) unfolding r_def
  proof (induction n)
    case (Suc n)
    obtain q b where q: "fold (interval_refine_at c) [0..<n] (p, False) = (q, b)" by force
    have step: "interval_refine_at c n (q, b) =
        (if \<not> bit (hp_rmask q) (n + 8) then (q, b)
         else let (ri, b) = refine_interval (hp_intervals q ! n) (hp_intervals c ! n) b; q = q\<lparr>hp_intervals := (hp_intervals q)[n := ri]\<rparr>
              in (if b then q\<lparr>hp_cmask := hp_cmask q OR push_bit (n + 8) 1\<rparr> else q, b))"
      unfolding interval_refine_at_def HW_PARAM_FIRST_INTERVAL_def prod.case ..
    have upt: "fold (interval_refine_at c) [0..<Suc n] (p, False) = interval_refine_at c n (q, b)" by (simp add: q)
    have ih: "hp_rmask q = hp_rmask p" "hp_masks q = hp_masks p" "length (hp_intervals q) = 12"
      "\<forall>i<12. hp_intervals q ! i = (if i < n \<and> bit (hp_rmask p) (i + 8)
         then fst (refine_interval (hp_intervals p ! i) (hp_intervals c ! i) False) else hp_intervals p ! i)"
      using Suc q by simp_all
    have "fst (refine_interval (hp_intervals q ! n) (hp_intervals c ! n) b) =
        fst (refine_interval (hp_intervals p ! n) (hp_intervals c ! n) False)"
      using ih(4) Suc.prems refine_interval_changed_irrelevant by simp
    then show ?case unfolding upt step using ih Suc.prems by (auto simp: Let_def case_prod_beta nth_list_update less_Suc_eq)
  qed (use assms(1) in simp)
  then show "hp_rmask r = hp_rmask p" "hp_masks r = hp_masks p" "length (hp_intervals r) = 12"
    "\<forall>i<12. hp_intervals r ! i = (if i < n \<and> bit (hp_rmask p) (i + 8)
       then fst (refine_interval (hp_intervals p ! i) (hp_intervals c ! i) False) else hp_intervals p ! i)" by auto
qed

lemma masks_refine_fields:
  fixes p c :: snd_pcm_hw_params
  assumes "length (hp_masks p) = 3"
  defines "r \<equiv> pcm_plug_masks_refine p c"
  shows "hp_rmask r = hp_rmask p" "hp_intervals r = hp_intervals p" "length (hp_masks r) = 3"
    "\<forall>i<3. hp_masks r ! i = (if bit (hp_rmask p) i then refine_mask (hp_masks p ! i) (hp_masks c ! i) else hp_masks p ! i)"
  using assms(1)
  by (auto simp: r_def pcm_plug_masks_refine_def masks_refine_at_def hw_param_nums numeral_2_eq_2 upt_rec Let_def nth_list_update less_Suc_eq numeral_3_eq_3)

lemma hw_params_refine_spec:
  fixes p c :: snd_pcm_hw_params
  assumes "params_ok p" and "params_ok c"
  defines "r \<equiv> pcm_plug_hw_params_refine p c"
  shows "params_ok r" "hp_rmask r = 0"
    and "i < 12 \<Longrightarrow> bit (hp_rmask p) (i + 8) \<Longrightarrow> values_of (hp_intervals r ! i) = values_of (hp_intervals p ! i) \<inter> values_of (hp_intervals c ! i)"
    and "i < 12 \<Longrightarrow> \<not> bit (hp_rmask p) (i + 8) \<Longrightarrow> hp_intervals r ! i = hp_intervals p ! i"
    and "j < 3 \<Longrightarrow> hp_masks r ! j = (if bit (hp_rmask p) j then refine_mask (hp_masks p ! j) (hp_masks c ! j) else hp_masks p ! j)"
proof -
  have len: "length (hp_masks p) = 3" "length (hp_intervals p) = 12" using assms(1) by (simp_all add: params_ok_def)
  note mk = masks_refine_fields [OF len(1), of c]
  have "length (hp_intervals (pcm_plug_masks_refine p c)) = 12" using mk len by simp
  note iv = interval_refine_fold [OF this order_refl, of c]
  have r: "r = (fst (fold (interval_refine_at c) [0..<12] (pcm_plug_masks_refine p c, False)))\<lparr>hp_rmask := 0\<rparr>"
    by (simp add: r_def pcm_plug_hw_params_refine_def pcm_plug_interval_refine_def hw_param_nums)
  have ok: "interval_ok (hp_intervals p ! i)" "interval_ok (hp_intervals c ! i)" if "i < 12" for i
    using assms(1,2) that by (simp_all add: params_ok_def list_all_nthD)
  have at_i: "hp_intervals r ! i = (if bit (hp_rmask p) (i + 8)
      then fst (refine_interval (hp_intervals p ! i) (hp_intervals c ! i) False) else hp_intervals p ! i)" if "i < 12" for i
    using iv(4) mk that by (simp add: r)
  have "length (hp_masks r) = 3" "length (hp_intervals r) = 12" using iv mk by (simp_all add: r)
  moreover have "interval_ok (hp_intervals r ! i)" if "i < 12" for i
    using at_i [OF that] ok [OF that] refine_interval_meet(1) by simp
  ultimately show "params_ok r" by (simp add: params_ok_def list_all_length)
  show "hp_rmask r = 0" by (simp add: r)
  show "i < 12 \<Longrightarrow> bit (hp_rmask p) (i + 8) \<Longrightarrow> values_of (hp_intervals r ! i) = values_of (hp_intervals p ! i) \<inter> values_of (hp_intervals c ! i)"
    using at_i ok refine_interval_meet(2) by simp
  show "i < 12 \<Longrightarrow> \<not> bit (hp_rmask p) (i + 8) \<Longrightarrow> hp_intervals r ! i = hp_intervals p ! i" using at_i by simp
  show "j < 3 \<Longrightarrow> hp_masks r ! j = (if bit (hp_rmask p) j then refine_mask (hp_masks p ! j) (hp_masks c ! j) else hp_masks p ! j)"
    using iv(2) mk by (simp add: r)
qed

end
