(* ===== verification/Pcm_Plugin.thy ===== *)
theory Pcm_Plugin
  imports Plug_Params
begin

text \<open>
  The PCM plug-in layer: \<open>plugin/pcm_plugin.c\<close> guards the calls of a plug-in by a state machine,
  \<open>plugin/pcm_wrapper.c\<close> sends the data of a sound device through it, and \<open>plugin/adds/pcm_sample_plugin.c\<close> is
  a plug-in that dumps what is played and injects a file into what is recorded.

  A plug-in is loaded at run time: its table of functions is an argument, and a missing entry is \<open>None\<close>, whose
  call is the error \<open>Null_pointer\<close>.  A command of \<open>ioctl\<close> carries the memory its argument points to and gives
  it back.  Structures the layer only hands on are lists of words.
\<close>

definition EBADFD :: int where "EBADFD = 77"
definition EFAULT :: int where "EFAULT = 14"

datatype plug_state = PCM_PLUG_STATE_OPEN | PCM_PLUG_STATE_SETUP | PCM_PLUG_STATE_PREPARED | PCM_PLUG_STATE_RUNNING

fun plug_state_num :: "plug_state \<Rightarrow> nat" where
  "plug_state_num PCM_PLUG_STATE_OPEN = 0"
| "plug_state_num PCM_PLUG_STATE_SETUP = 1"
| "plug_state_num PCM_PLUG_STATE_PREPARED = 2"
| "plug_state_num PCM_PLUG_STATE_RUNNING = 3"

datatype pcm_state = PCM_STATE_OPEN | PCM_STATE_SETUP | PCM_STATE_PREPARED | PCM_STATE_RUNNING

fun convert_plugin_to_pcm_state :: "plug_state \<Rightarrow> pcm_state" where
  "convert_plugin_to_pcm_state PCM_PLUG_STATE_SETUP = PCM_STATE_SETUP"
| "convert_plugin_to_pcm_state PCM_PLUG_STATE_RUNNING = PCM_STATE_RUNNING"
| "convert_plugin_to_pcm_state PCM_PLUG_STATE_PREPARED = PCM_STATE_PREPARED"
| "convert_plugin_to_pcm_state PCM_PLUG_STATE_OPEN = PCM_STATE_OPEN"

record 'p pcm_plugin =
  pl_card :: int
  pl_device :: int
  pl_constraints :: pcm_plugin_hw_constraints
  pl_priv :: 'p
  pl_state :: plug_state

record snd_xferi =
  xf_buf :: "byte list"
  xf_frames :: int
  xf_result :: int

record snd_sync_ptr =
  sy_state :: pcm_state
  sy_rest :: "int list"

text \<open>A function of a plug-in gets the plug-in and the memory of its argument.\<close>

type_synonym ('p, 'a) plug_fn = "'p pcm_plugin \<Rightarrow> 'a \<Rightarrow> c_error + 'p pcm_plugin \<times> 'a \<times> int"

record 'p pcm_plugin_ops =
  op_hw_params :: "('p, snd_pcm_hw_params) plug_fn option"
  op_sw_params :: "('p, int list) plug_fn option"
  op_sync_ptr :: "('p, snd_sync_ptr) plug_fn option"
  op_writei_frames :: "('p, snd_xferi) plug_fn option"
  op_readi_frames :: "('p, snd_xferi) plug_fn option"
  op_ttstamp :: "('p, int list) plug_fn option"
  op_prepare :: "('p, unit) plug_fn option"
  op_start :: "('p, unit) plug_fn option"
  op_drop :: "('p, unit) plug_fn option"
  op_ioctl :: "('p, int \<times> int list) plug_fn option"
  op_mmap :: "('p pcm_plugin \<Rightarrow> int \<Rightarrow> int option) option"
  op_munmap :: "('p, int) plug_fn option"
  op_poll :: "('p, int) plug_fn option"

definition call_op :: "('p, 'a) plug_fn option \<Rightarrow> ('p, 'a) plug_fn" where
  "call_op f pl a = (case f of None \<Rightarrow> Inl Null_pointer | Some g \<Rightarrow> g pl a)"

section \<open>The state machine\<close>

definition pcm_plug_hparams :: "'p pcm_plugin_ops \<Rightarrow> ('p, snd_pcm_hw_params) plug_fn" where
  "pcm_plug_hparams ops pl params =
     (if pl_state pl \<noteq> PCM_PLUG_STATE_OPEN then Inr (pl, params, - EBADFD)
      else and_then (pcm_plug_hrefine (pl_constraints pl) (params\<lparr>hp_rmask := -1\<rparr>)) (\<lambda>params.
           and_then (call_op (op_hw_params ops) pl (pcm_plug_hw_params_set params)) (\<lambda>(pl, params, rc).
             Inr (if rc = 0 then pl\<lparr>pl_state := PCM_PLUG_STATE_SETUP\<rparr> else pl, params, rc))))"

definition pcm_plug_sparams :: "'p pcm_plugin_ops \<Rightarrow> ('p, int list) plug_fn" where
  "pcm_plug_sparams ops pl params =
     (if pl_state pl \<noteq> PCM_PLUG_STATE_SETUP then Inr (pl, params, - EBADFD) else call_op (op_sw_params ops) pl params)"

definition pcm_plug_sync_ptr :: "'p pcm_plugin_ops \<Rightarrow> ('p, snd_sync_ptr) plug_fn" where
  "pcm_plug_sync_ptr ops pl sync_ptr =
     (if plug_state_num (pl_state pl) \<ge> plug_state_num PCM_PLUG_STATE_SETUP
      then and_then (call_op (op_sync_ptr ops) pl sync_ptr) (\<lambda>(pl, sync_ptr, ret).
             Inr (pl, if ret = 0 then sync_ptr\<lparr>sy_state := convert_plugin_to_pcm_state (pl_state pl)\<rparr> else sync_ptr, ret))
      else Inr (pl, sync_ptr, - EBADFD))"

definition pcm_plug_writei_frames :: "'p pcm_plugin_ops \<Rightarrow> ('p, snd_xferi) plug_fn" where
  "pcm_plug_writei_frames ops pl x =
     (if pl_state pl \<noteq> PCM_PLUG_STATE_PREPARED \<and> pl_state pl \<noteq> PCM_PLUG_STATE_RUNNING then Inr (pl, x, - EBADFD)
      else call_op (op_writei_frames ops) pl x)"

definition pcm_plug_readi_frames :: "'p pcm_plugin_ops \<Rightarrow> ('p, snd_xferi) plug_fn" where
  "pcm_plug_readi_frames ops pl x =
     (if pl_state pl \<noteq> PCM_PLUG_STATE_RUNNING then Inr (pl, x, - EBADFD) else call_op (op_readi_frames ops) pl x)"

definition pcm_plug_ttstamp :: "'p pcm_plugin_ops \<Rightarrow> ('p, int list) plug_fn" where
  "pcm_plug_ttstamp ops pl tstamp =
     (if plug_state_num (pl_state pl) < plug_state_num PCM_PLUG_STATE_SETUP then Inr (pl, tstamp, - EBADFD)
      else call_op (op_ttstamp ops) pl tstamp)"

definition pcm_plug_prepare :: "'p pcm_plugin_ops \<Rightarrow> 'p pcm_plugin \<Rightarrow> c_error + 'p pcm_plugin \<times> int" where
  "pcm_plug_prepare ops pl =
     (if pl_state pl \<noteq> PCM_PLUG_STATE_SETUP then Inr (pl, - EBADFD)
      else and_then (call_op (op_prepare ops) pl ()) (\<lambda>(pl, u, rc).
             Inr (if rc = 0 then pl\<lparr>pl_state := PCM_PLUG_STATE_PREPARED\<rparr> else pl, rc)))"

definition pcm_plug_start :: "'p pcm_plugin_ops \<Rightarrow> 'p pcm_plugin \<Rightarrow> c_error + 'p pcm_plugin \<times> int" where
  "pcm_plug_start ops pl =
     (if pl_state pl \<noteq> PCM_PLUG_STATE_PREPARED then Inr (pl, - EBADFD)
      else and_then (call_op (op_start ops) pl ()) (\<lambda>(pl, u, rc).
             Inr (if rc = 0 then pl\<lparr>pl_state := PCM_PLUG_STATE_RUNNING\<rparr> else pl, rc)))"

text \<open>No state is required.\<close>

definition pcm_plug_drop :: "'p pcm_plugin_ops \<Rightarrow> 'p pcm_plugin \<Rightarrow> c_error + 'p pcm_plugin \<times> int" where
  "pcm_plug_drop ops pl =
     and_then (call_op (op_drop ops) pl ()) (\<lambda>(pl, u, rc).
       Inr (if rc = 0 then pl\<lparr>pl_state := PCM_PLUG_STATE_SETUP\<rparr> else pl, rc))"

datatype pcm_ioctl =
  IOCTL_INFO | IOCTL_TTSTAMP "int list" | IOCTL_HW_REFINE snd_pcm_hw_params | IOCTL_HW_PARAMS snd_pcm_hw_params |
  IOCTL_SW_PARAMS "int list" | IOCTL_SYNC_PTR snd_sync_ptr | IOCTL_PREPARE | IOCTL_START | IOCTL_DROP |
  IOCTL_WRITEI_FRAMES snd_xferi | IOCTL_READI_FRAMES snd_xferi | IOCTL_OTHER int "int list"

definition with_arg :: "('a \<Rightarrow> pcm_ioctl) \<Rightarrow> c_error + 'p pcm_plugin \<times> 'a \<times> int \<Rightarrow> c_error + 'p pcm_plugin \<times> pcm_ioctl \<times> int" where
  "with_arg cmd r = and_then r (\<lambda>(pl, a, rc). Inr (pl, cmd a, rc))"

text \<open>\<open>pcm_plug_info\<close> copies strings from a pointer that has no value.\<close>

fun pcm_plug_ioctl :: "'p pcm_plugin_ops \<Rightarrow> 'p pcm_plugin \<Rightarrow> pcm_ioctl \<Rightarrow> c_error + 'p pcm_plugin \<times> pcm_ioctl \<times> int" where
  "pcm_plug_ioctl ops pl IOCTL_INFO = Inl Bad_access"
| "pcm_plug_ioctl ops pl (IOCTL_TTSTAMP t) = with_arg IOCTL_TTSTAMP (pcm_plug_ttstamp ops pl t)"
| "pcm_plug_ioctl ops pl (IOCTL_HW_REFINE p) = and_then (pcm_plug_hrefine (pl_constraints pl) p) (\<lambda>p. Inr (pl, IOCTL_HW_REFINE p, 0))"
| "pcm_plug_ioctl ops pl (IOCTL_HW_PARAMS p) = with_arg IOCTL_HW_PARAMS (pcm_plug_hparams ops pl p)"
| "pcm_plug_ioctl ops pl (IOCTL_SW_PARAMS p) = with_arg IOCTL_SW_PARAMS (pcm_plug_sparams ops pl p)"
| "pcm_plug_ioctl ops pl (IOCTL_SYNC_PTR p) = with_arg IOCTL_SYNC_PTR (pcm_plug_sync_ptr ops pl p)"
| "pcm_plug_ioctl ops pl IOCTL_PREPARE = and_then (pcm_plug_prepare ops pl) (\<lambda>(pl, rc). Inr (pl, IOCTL_PREPARE, rc))"
| "pcm_plug_ioctl ops pl IOCTL_START = and_then (pcm_plug_start ops pl) (\<lambda>(pl, rc). Inr (pl, IOCTL_START, rc))"
| "pcm_plug_ioctl ops pl IOCTL_DROP = and_then (pcm_plug_drop ops pl) (\<lambda>(pl, rc). Inr (pl, IOCTL_DROP, rc))"
| "pcm_plug_ioctl ops pl (IOCTL_WRITEI_FRAMES x) = with_arg IOCTL_WRITEI_FRAMES (pcm_plug_writei_frames ops pl x)"
| "pcm_plug_ioctl ops pl (IOCTL_READI_FRAMES x) = with_arg IOCTL_READI_FRAMES (pcm_plug_readi_frames ops pl x)"
| "pcm_plug_ioctl ops pl (IOCTL_OTHER cmd arg) = with_arg (\<lambda>(c, a). IOCTL_OTHER cmd a) (call_op (op_ioctl ops) pl (cmd, arg))"

definition pcm_plug_mmap :: "'p pcm_plugin_ops \<Rightarrow> 'p pcm_plugin \<Rightarrow> int \<Rightarrow> c_error + int option" where
  "pcm_plug_mmap ops pl len =
     (if pl_state pl \<noteq> PCM_PLUG_STATE_SETUP then Inr None
      else case op_mmap ops of None \<Rightarrow> Inl Null_pointer | Some f \<Rightarrow> Inr (f pl len))"

definition pcm_plug_munmap :: "'p pcm_plugin_ops \<Rightarrow> ('p, int) plug_fn" where
  "pcm_plug_munmap ops pl addr =
     (if pl_state pl \<noteq> PCM_PLUG_STATE_SETUP then Inr (pl, addr, - EBADFD) else call_op (op_munmap ops) pl addr)"

definition pcm_plug_poll :: "'p pcm_plugin_ops \<Rightarrow> ('p, int) plug_fn" where
  "pcm_plug_poll ops pl timeout = call_op (op_poll ops) pl timeout"

text \<open>
  Opening: \<open>alloc\<close> says whether \<open>calloc\<close> succeeds, \<open>lib\<close> what \<open>dlopen\<close> and then \<open>dlsym\<close> give, with the function
  \<open>open\<close> of the table.  The result is the descriptor and the return value, which is 0 when the library or its
  table is missing.
\<close>

definition pcm_plug_open ::
    "bool \<Rightarrow> 'l option \<Rightarrow> ('l \<Rightarrow> (int \<Rightarrow> int \<Rightarrow> bool \<Rightarrow> 'p pcm_plugin option \<times> int) option) \<Rightarrow> int \<Rightarrow> int \<Rightarrow> bool
      \<Rightarrow> c_error + 'p pcm_plugin option \<times> int" where
  "pcm_plug_open alloc dl_hdl dlsym snd_card device flags_in =
     (if \<not> alloc then Inr (None, - ENOMEM)
      else case dl_hdl of None \<Rightarrow> Inr (None, 0)
      | Some lib \<Rightarrow>
          (case dlsym lib of None \<Rightarrow> Inr (None, 0)
           | Some open_fn \<Rightarrow>
               (case open_fn snd_card device flags_in of (plugin, rc) \<Rightarrow>
                  if rc \<noteq> 0 then Inr (None, rc)
                  else (case plugin of None \<Rightarrow> Inl Null_pointer
                        | Some pl \<Rightarrow> Inr (Some (pl\<lparr>pl_state := PCM_PLUG_STATE_OPEN\<rparr>), 0)))))"

section \<open>The wrapper\<close>

record wrapper_config = pcm_config +
  pc_start_threshold :: int
  pc_stop_threshold :: int
  pc_silence_threshold :: int
  pc_silence_size :: int

text \<open>\<open>pw_ops\<close> says whether plug-ins are enabled; \<open>pw_data\<close> is the plug-in; \<open>pw_alsa\<close> whether the device is there.\<close>

record 'p pcm_wrapper =
  pw_alsa :: bool
  pw_flags_in :: bool
  pw_xruns :: int
  pw_config :: wrapper_config
  pw_ops :: bool
  pw_data :: "'p pcm_plugin option"
  pw_fd :: int

definition wrapper_ioctl :: "'p pcm_plugin_ops \<Rightarrow> 'p pcm_wrapper \<Rightarrow> pcm_ioctl \<Rightarrow> c_error + 'p pcm_wrapper \<times> pcm_ioctl \<times> int" where
  "wrapper_ioctl ops pcm cmd =
     (case pw_data pcm of None \<Rightarrow> Inl Null_pointer
      | Some pl \<Rightarrow> and_then (pcm_plug_ioctl ops pl cmd) (\<lambda>(pl, cmd, rc). Inr (pcm\<lparr>pw_data := Some pl\<rparr>, cmd, rc)))"

definition pcm_ioctl_all :: "'p pcm_plugin_ops \<Rightarrow> 'p pcm_wrapper \<Rightarrow> pcm_ioctl \<Rightarrow> c_error + 'p pcm_wrapper \<times> int" where
  "pcm_ioctl_all ops pcm cmd =
     (if \<not> pw_ops pcm then Inr (pcm, 0) else and_then (wrapper_ioctl ops pcm cmd) (\<lambda>(pcm, cmd, rc). Inr (pcm, rc)))"

text \<open>The result is the wrapper, the buffer and the return value.\<close>

definition pcm_rw_transfer ::
    "'p pcm_plugin_ops \<Rightarrow> 'p pcm_wrapper \<Rightarrow> byte list \<Rightarrow> int \<Rightarrow> c_error + 'p pcm_wrapper \<times> byte list \<times> int" where
  "pcm_rw_transfer ops pcm data frames =
     (let transfer = \<lparr>xf_buf = data, xf_frames = frames, xf_result = 0\<rparr>
      in and_then (wrapper_ioctl ops pcm (if \<not> pw_flags_in pcm then IOCTL_WRITEI_FRAMES transfer else IOCTL_READI_FRAMES transfer))
           (\<lambda>(pcm, cmd, res).
             case cmd of IOCTL_WRITEI_FRAMES x \<Rightarrow> Inr (pcm, xf_buf x, if res = 0 then s32 (xf_result x) else -1)
             | IOCTL_READI_FRAMES x \<Rightarrow> Inr (pcm, xf_buf x, if res = 0 then s32 (xf_result x) else -1)
             | _ \<Rightarrow> Inr (pcm, data, -1)))"

text \<open>\<open>epipe\<close> is whether \<open>errno\<close> is \<open>EPIPE\<close>.\<close>

definition pcm_generic_transfer ::
    "'p pcm_plugin_ops \<Rightarrow> bool \<Rightarrow> 'p pcm_wrapper \<Rightarrow> byte list \<Rightarrow> int \<Rightarrow> c_error + 'p pcm_wrapper \<times> byte list \<times> int" where
  "pcm_generic_transfer ops epipe pcm data frames =
     and_then (pcm_rw_transfer ops pcm data frames) (\<lambda>(pcm, data, res).
       Inr (if res < 0 \<and> epipe then pcm\<lparr>pw_xruns := s32 (pw_xruns pcm + 1)\<rparr> else pcm, data, res))"

definition wrapper_frames :: "(int \<Rightarrow> int) \<Rightarrow> wrapper_config \<Rightarrow> int \<Rightarrow> c_error + int" where
  "wrapper_frames bits cfg count =
     (if pc_channels cfg = 0 \<or> bits (pc_format cfg) div 8 = 0 then Inl Div_by_zero
      else Inr (count div pc_channels cfg div (bits (pc_format cfg) div 8)))"

definition pcm_wrapper_writei ::
    "'p pcm_plugin_ops \<Rightarrow> bool \<Rightarrow> 'p pcm_wrapper \<Rightarrow> byte list \<Rightarrow> int \<Rightarrow> c_error + 'p pcm_wrapper \<times> byte list \<times> int" where
  "pcm_wrapper_writei = pcm_generic_transfer"

text \<open>The result of \<open>pcm_write\<close> is not looked at.\<close>

definition pcm_wrapper_write ::
    "'p pcm_plugin_ops \<Rightarrow> (int \<Rightarrow> int) \<Rightarrow> bool \<Rightarrow> 'p pcm_wrapper \<Rightarrow> byte list \<Rightarrow> int \<Rightarrow> c_error + 'p pcm_wrapper \<times> int" where
  "pcm_wrapper_write ops bits epipe pcm data count =
     and_then (wrapper_frames bits (pw_config pcm) count) (\<lambda>requested_frames.
     and_then (if pw_ops pcm then pcm_wrapper_writei ops epipe pcm data requested_frames else Inr (pcm, data, 0)) (\<lambda>(pcm, data, ret).
       Inr (pcm, if ret < 0 then ret else if u32 ret = requested_frames then 0 else - EIO)))"

definition pcm_wrapper_readi ::
    "'p pcm_plugin_ops \<Rightarrow> bool \<Rightarrow> 'p pcm_wrapper \<Rightarrow> byte list \<Rightarrow> int \<Rightarrow> c_error + 'p pcm_wrapper \<times> byte list \<times> int" where
  "pcm_wrapper_readi ops epipe pcm data frame_count =
     (if \<not> pw_flags_in pcm then Inr (pcm, data, - EINVAL) else pcm_generic_transfer ops epipe pcm data frame_count)"

text \<open>\<open>rd\<close> and \<open>data\<close> are what \<open>pcm_read\<close> returns, 0 for success, and the buffer after it.\<close>

definition pcm_wrapper_read ::
    "'p pcm_plugin_ops \<Rightarrow> (int \<Rightarrow> int) \<Rightarrow> bool \<Rightarrow> 'p pcm_wrapper \<Rightarrow> int \<Rightarrow> byte list \<Rightarrow> int \<Rightarrow> c_error + 'p pcm_wrapper \<times> byte list \<times> int" where
  "pcm_wrapper_read ops bits epipe pcm rd data count =
     and_then (wrapper_frames bits (pw_config pcm) count) (\<lambda>requested_frames.
       if rd < 0 then Inr (pcm, data, rd)
       else and_then (if pw_ops pcm then pcm_wrapper_readi ops epipe pcm data requested_frames else Inr (pcm, data, rd)) (\<lambda>(pcm, data, ret).
              Inr (pcm, data, if u32 ret = requested_frames then 0 else - EIO)))"

definition pcm_wrapper_start :: "'p pcm_plugin_ops \<Rightarrow> 'p pcm_wrapper \<Rightarrow> c_error + 'p pcm_wrapper \<times> int" where
  "pcm_wrapper_start ops pcm = pcm_ioctl_all ops pcm IOCTL_START"

definition pcm_wrapper_prepare :: "'p pcm_plugin_ops \<Rightarrow> 'p pcm_wrapper \<Rightarrow> c_error + 'p pcm_wrapper \<times> int" where
  "pcm_wrapper_prepare ops pcm =
     and_then (pcm_ioctl_all ops pcm IOCTL_PREPARE) (\<lambda>(pcm, ret). Inr (pcm, if ret < 0 then -1 else 0))"

text \<open>The formats of tinyalsa are given by \<open>enum\<close>; anything else is taken as 16 bit.\<close>

definition pcm_format_to_alsa :: "(string \<Rightarrow> int) \<Rightarrow> int \<Rightarrow> int" where
  "pcm_format_to_alsa enum format =
     (if format = enum ''PCM_FORMAT_S8'' then 0
      else if format = enum ''PCM_FORMAT_S16_LE'' then 2
      else if format = enum ''PCM_FORMAT_S24_LE'' then 6
      else if format = enum ''PCM_FORMAT_S24_3LE'' then 32
      else if format = enum ''PCM_FORMAT_S32_LE'' then 10 else 2)"

definition default_config :: "(string \<Rightarrow> int) \<Rightarrow> wrapper_config \<Rightarrow> wrapper_config" where
  "default_config enum c = c\<lparr>pc_channels := 2, pc_rate := 48000, pc_period_size := 1024, pc_period_count := 4,
     pc_format := enum ''PCM_FORMAT_S16_LE'', pc_start_threshold := 4096, pc_stop_threshold := 4096,
     pc_silence_threshold := 0, pc_silence_size := 0\<rparr>"

definition wrapper_request :: "(string \<Rightarrow> int) \<Rightarrow> wrapper_config \<Rightarrow> snd_pcm_hw_params" where
  "wrapper_request enum config =
     (let params = param_set_mask param_init HW_PARAM_FORMAT (pcm_format_to_alsa enum (pc_format config));
          params = param_set_min params HW_PARAM_PERIOD_SIZE (pc_period_size config);
          params = param_set_int params HW_PARAM_CHANNELS (pc_channels config);
          params = param_set_int params HW_PARAM_PERIODS (pc_period_count config)
      in param_set_int params HW_PARAM_RATE (pc_rate config))"

definition pcm_wrapper_set_config ::
    "'p pcm_plugin_ops \<Rightarrow> (string \<Rightarrow> int) \<Rightarrow> 'p pcm_wrapper option \<Rightarrow> wrapper_config option \<Rightarrow> c_error + 'p pcm_wrapper option \<times> int" where
  "pcm_wrapper_set_config ops enum pcm config =
     (case pcm of None \<Rightarrow> Inr (None, - EFAULT)
      | Some pcm \<Rightarrow>
          let pcm = pcm\<lparr>pw_config := (case config of None \<Rightarrow> default_config enum (pw_config pcm) | Some c \<Rightarrow> c)\<rparr>
          in and_then (pcm_ioctl_all ops pcm (IOCTL_HW_PARAMS (wrapper_request enum (pw_config pcm)))) (\<lambda>(pcm, ret).
               Inr (Some pcm, if ret < 0 then ret else 0)))"

definition zero_config :: wrapper_config where
  "zero_config = \<lparr>pc_format = 0, pc_rate = 0, pc_channels = 0, pc_period_size = 0, pc_period_count = 0,
     pc_start_threshold = 0, pc_stop_threshold = 0, pc_silence_threshold = 0, pc_silence_size = 0\<rparr>"

text \<open>
  \<open>enabled\<close> is the value of the property, \<open>opened\<close> what \<open>pcm_plug_open\<close> gives, \<open>alsa\<close> what \<open>pcm_open\<close> gives.  A failure of
  the plug-in is not looked at.
\<close>

definition pcm_wrapper_open ::
    "'p pcm_plugin_ops \<Rightarrow> (string \<Rightarrow> int) \<Rightarrow> bool \<Rightarrow> bool \<Rightarrow> c_error + 'p pcm_plugin option \<times> int \<Rightarrow> bool \<Rightarrow> bool \<Rightarrow> wrapper_config option
      \<Rightarrow> c_error + 'p pcm_wrapper option" where
  "pcm_wrapper_open ops enum alloc enabled opened alsa flags_in config =
     (if \<not> alloc then Inr None
      else
        let pcm = \<lparr>pw_alsa = False, pw_flags_in = flags_in, pw_xruns = 0, pw_config = zero_config, pw_ops = False, pw_data = None, pw_fd = 0\<rparr>
        in and_then (if enabled
                     then and_then opened (\<lambda>(data, fd).
                          and_then (pcm_wrapper_set_config ops enum (Some (pcm\<lparr>pw_ops := True, pw_data := data, pw_fd := fd\<rparr>)) config)
                            (\<lambda>(pcm, ret). Inr pcm))
                     else Inr (Some pcm)) (\<lambda>pcm.
             Inr (map_option (\<lambda>pcm. pcm\<lparr>pw_alsa := alsa\<rparr>) pcm)))"

text \<open>Closing releases everything; \<open>rc\<close> is what \<open>pcm_close\<close> returns.\<close>

definition pcm_wrapper_close :: "'p pcm_wrapper \<Rightarrow> int \<Rightarrow> c_error + int" where
  "pcm_wrapper_close pcm rc =
     (if pw_ops pcm \<and> pw_data pcm = None then Inl Null_pointer else Inr (if pw_alsa pcm then rc else -1))"

definition pcm_wrapper_get_handler :: "'p pcm_wrapper option \<Rightarrow> bool" where
  "pcm_wrapper_get_handler pcm = (case pcm of None \<Rightarrow> False | Some pcm \<Rightarrow> pw_alsa pcm)"

section \<open>The contract of a plug-in\<close>

text \<open>
  The layer keeps the state in the structure of the plug-in; the functions of a plug-in have to leave the state and the
  constraints alone.  Then the layer is the automaton below, whatever the plug-in does otherwise.
\<close>

definition fn_keeps :: "('p, 'a) plug_fn option \<Rightarrow> bool" where
  "fn_keeps f \<longleftrightarrow> (\<forall>pl a pl' a' rc. call_op f pl a = Inr (pl', a', rc) \<longrightarrow>
     pl_state pl' = pl_state pl \<and> pl_constraints pl' = pl_constraints pl)"

fun plug_allows :: "plug_state \<Rightarrow> pcm_ioctl \<Rightarrow> bool" where
  "plug_allows s (IOCTL_TTSTAMP t) \<longleftrightarrow> s \<noteq> PCM_PLUG_STATE_OPEN"
| "plug_allows s (IOCTL_HW_PARAMS p) \<longleftrightarrow> s = PCM_PLUG_STATE_OPEN"
| "plug_allows s (IOCTL_SW_PARAMS p) \<longleftrightarrow> s = PCM_PLUG_STATE_SETUP"
| "plug_allows s (IOCTL_SYNC_PTR p) \<longleftrightarrow> s \<noteq> PCM_PLUG_STATE_OPEN"
| "plug_allows s IOCTL_PREPARE \<longleftrightarrow> s = PCM_PLUG_STATE_SETUP"
| "plug_allows s IOCTL_START \<longleftrightarrow> s = PCM_PLUG_STATE_PREPARED"
| "plug_allows s (IOCTL_WRITEI_FRAMES x) \<longleftrightarrow> s \<in> {PCM_PLUG_STATE_PREPARED, PCM_PLUG_STATE_RUNNING}"
| "plug_allows s (IOCTL_READI_FRAMES x) \<longleftrightarrow> s = PCM_PLUG_STATE_RUNNING"
| "plug_allows s _ \<longleftrightarrow> True"

fun plug_target :: "pcm_ioctl \<Rightarrow> plug_state option" where
  "plug_target (IOCTL_HW_PARAMS p) = Some PCM_PLUG_STATE_SETUP"
| "plug_target IOCTL_PREPARE = Some PCM_PLUG_STATE_PREPARED"
| "plug_target IOCTL_START = Some PCM_PLUG_STATE_RUNNING"
| "plug_target IOCTL_DROP = Some PCM_PLUG_STATE_SETUP"
| "plug_target _ = None"

definition plug_next :: "plug_state \<Rightarrow> pcm_ioctl \<Rightarrow> int \<Rightarrow> plug_state" where
  "plug_next s cmd rc = (if plug_allows s cmd \<and> rc = 0 then (case plug_target cmd of None \<Rightarrow> s | Some t \<Rightarrow> t) else s)"

text \<open>A sequence of commands, with the return value of each.\<close>

fun ioctl_run :: "'p pcm_plugin_ops \<Rightarrow> 'p pcm_plugin \<Rightarrow> pcm_ioctl list \<Rightarrow> c_error + 'p pcm_plugin \<times> (pcm_ioctl \<times> int) list" where
  "ioctl_run ops pl [] = Inr (pl, [])"
| "ioctl_run ops pl (cmd # cmds) =
     and_then (pcm_plug_ioctl ops pl cmd) (\<lambda>(pl, cmd', rc).
     and_then (ioctl_run ops pl cmds) (\<lambda>(pl, h). Inr (pl, (cmd, rc) # h)))"

text \<open>What a history says about the state: parameters were set or frames dropped; a preparation followed and no drop since.\<close>

definition sets_up :: "pcm_ioctl \<times> int \<Rightarrow> bool" where
  "sets_up e \<longleftrightarrow> snd e = 0 \<and> plug_target (fst e) = Some PCM_PLUG_STATE_SETUP"

definition prepared :: "(pcm_ioctl \<times> int) list \<Rightarrow> bool" where
  "prepared h \<longleftrightarrow> (\<exists>h1 h2. h = h1 @ (IOCTL_PREPARE, 0) # h2 \<and> (\<exists>e\<in>set h1. sets_up e) \<and> (IOCTL_DROP, 0) \<notin> set h2)"

definition history_ok :: "plug_state \<Rightarrow> (pcm_ioctl \<times> int) list \<Rightarrow> bool" where
  "history_ok s h \<longleftrightarrow> (s \<noteq> PCM_PLUG_STATE_OPEN \<longrightarrow> (\<exists>e\<in>set h. sets_up e)) \<and>
     (s \<in> {PCM_PLUG_STATE_PREPARED, PCM_PLUG_STATE_RUNNING} \<longrightarrow> prepared h) \<and>
     (s = PCM_PLUG_STATE_RUNNING \<longrightarrow> (IOCTL_START, 0) \<in> set h)"

lemma prepared_snoc: "prepared h \<Longrightarrow> e \<noteq> (IOCTL_DROP, 0) \<Longrightarrow> prepared (h @ [e])"
proof -
  assume "prepared h" and e: "e \<noteq> (IOCTL_DROP, 0)"
  then obtain h1 h2 where "h = h1 @ (IOCTL_PREPARE, 0) # h2" "\<exists>e\<in>set h1. sets_up e" "(IOCTL_DROP, 0) \<notin> set h2"
    unfolding prepared_def by blast
  then show ?thesis unfolding prepared_def using e by (intro exI [of _ h1] exI [of _ "h2 @ [e]"]) auto
qed

lemma history_step:
  assumes "history_ok s h"
  shows "history_ok (plug_next s cmd rc) (h @ [(cmd, rc)])"
proof (cases "plug_allows s cmd \<and> rc = 0 \<and> plug_target cmd \<noteq> None")
  case True
  have prep: "prepared (h @ [(IOCTL_PREPARE, 0)])" if "s = PCM_PLUG_STATE_SETUP"
    using assms that unfolding prepared_def history_ok_def by (intro exI [of _ h] exI [of _ "[]"]) auto
  have go: "prepared (h @ [(IOCTL_START, 0)])" if "s = PCM_PLUG_STATE_PREPARED"
    using assms that prepared_snoc [of h "(IOCTL_START, 0)"] by (simp add: history_ok_def)
  show ?thesis using True assms prep go
    by (cases cmd) (auto simp: plug_next_def history_ok_def sets_up_def)
next
  case False
  then have s: "plug_next s cmd rc = s" by (auto simp: plug_next_def split: option.split)
  have "(cmd, rc) \<noteq> (IOCTL_DROP, 0)" using False by auto
  then show ?thesis unfolding s using assms prepared_snoc by (auto simp: history_ok_def)
qed

locale plug_in =
  fixes ops :: "'p pcm_plugin_ops"
  assumes keeps: "fn_keeps (op_hw_params ops)" "fn_keeps (op_sw_params ops)" "fn_keeps (op_sync_ptr ops)"
    "fn_keeps (op_writei_frames ops)" "fn_keeps (op_readi_frames ops)" "fn_keeps (op_ttstamp ops)" "fn_keeps (op_prepare ops)"
    "fn_keeps (op_start ops)" "fn_keeps (op_drop ops)" "fn_keeps (op_ioctl ops)"
begin

lemma call_keeps:
  assumes "fn_keeps f" and "call_op f pl a = Inr (pl', a', rc)"
  shows "pl_state pl' = pl_state pl" "pl_constraints pl' = pl_constraints pl"
  using assms unfolding fn_keeps_def by blast+

lemma ioctl_refines:
  assumes "pcm_plug_ioctl ops pl cmd = Inr (pl', cmd', rc)"
  shows "pl_state pl' = plug_next (pl_state pl) cmd rc \<and> pl_constraints pl' = pl_constraints pl"
proof (cases cmd)
  case (IOCTL_TTSTAMP t)
  then show ?thesis using assms call_keeps [OF keeps(6)]
    by (auto simp: plug_next_def with_arg_def pcm_plug_ttstamp_def and_then_def split: if_splits sum.splits)
next
  case (IOCTL_HW_REFINE p)
  then show ?thesis using assms by (auto simp: plug_next_def and_then_def split: sum.splits)
next
  case (IOCTL_HW_PARAMS p)
  then show ?thesis using assms call_keeps [OF keeps(1)]
    by (auto simp: plug_next_def with_arg_def pcm_plug_hparams_def and_then_def split: if_splits sum.splits)
next
  case (IOCTL_SW_PARAMS p)
  then show ?thesis using assms call_keeps [OF keeps(2)]
    by (auto simp: plug_next_def with_arg_def pcm_plug_sparams_def and_then_def split: if_splits sum.splits)
next
  case (IOCTL_SYNC_PTR p)
  then show ?thesis using assms call_keeps [OF keeps(3)]
    by (auto simp: plug_next_def with_arg_def pcm_plug_sync_ptr_def and_then_def split: if_splits sum.splits)
next
  case IOCTL_PREPARE
  then show ?thesis using assms call_keeps [OF keeps(7)]
    by (auto simp: plug_next_def pcm_plug_prepare_def and_then_def EBADFD_def split: if_splits sum.splits)
next
  case IOCTL_START
  then show ?thesis using assms call_keeps [OF keeps(8)]
    by (auto simp: plug_next_def pcm_plug_start_def and_then_def EBADFD_def split: if_splits sum.splits)
next
  case IOCTL_DROP
  then show ?thesis using assms call_keeps [OF keeps(9)]
    by (auto simp: plug_next_def pcm_plug_drop_def and_then_def split: if_splits sum.splits)
next
  case (IOCTL_WRITEI_FRAMES x)
  then show ?thesis using assms call_keeps [OF keeps(4)]
    by (auto simp: plug_next_def with_arg_def pcm_plug_writei_frames_def and_then_def split: if_splits sum.splits)
next
  case (IOCTL_READI_FRAMES x)
  then show ?thesis using assms call_keeps [OF keeps(5)]
    by (auto simp: plug_next_def with_arg_def pcm_plug_readi_frames_def and_then_def split: if_splits sum.splits)
next
  case (IOCTL_OTHER c a)
  then show ?thesis using assms call_keeps [OF keeps(10)]
    by (auto simp: plug_next_def with_arg_def and_then_def split: if_splits sum.splits)
qed (use assms in simp)

lemma run_history:
  "ioctl_run ops pl cmds = Inr (pl', h) \<Longrightarrow> history_ok (pl_state pl) h0 \<Longrightarrow> history_ok (pl_state pl') (h0 @ h)"
proof (induction cmds arbitrary: pl h h0)
  case (Cons cmd cmds)
  from Cons.prems(1) obtain pl1 cmd' rc h1 where
    step: "pcm_plug_ioctl ops pl cmd = Inr (pl1, cmd', rc)" "ioctl_run ops pl1 cmds = Inr (pl', h1)" "h = (cmd, rc) # h1"
    by (auto simp: and_then_def split: sum.splits)
  have "history_ok (pl_state pl1) (h0 @ [(cmd, rc)])"
    using history_step [OF Cons.prems(2)] ioctl_refines [OF step(1)] by simp
  then show ?case using Cons.IH [OF step(2)] step(3) by fastforce
qed simp

lemma run_steps:
  "ioctl_run ops pl cmds = Inr (pl', h) \<Longrightarrow>
   map fst h = cmds \<and> pl_state pl' = fold (\<lambda>(cmd, rc) s. plug_next s cmd rc) h (pl_state pl)"
proof (induction cmds arbitrary: pl h)
  case (Cons cmd cmds)
  from Cons.prems obtain pl1 cmd' rc h1 where
    step: "pcm_plug_ioctl ops pl cmd = Inr (pl1, cmd', rc)" "ioctl_run ops pl1 cmds = Inr (pl', h1)" "h = (cmd, rc) # h1"
    by (auto simp: and_then_def split: sum.splits)
  then show ?case using Cons.IH [OF step(2)] ioctl_refines [OF step(1)] by simp
qed simp

lemma transfer_needs_prepare:
  assumes "pl_state pl = PCM_PLUG_STATE_OPEN" and "ioctl_run ops pl cmds = Inr (pl', h)"
  shows "prepared h \<or> (\<forall>x. pcm_plug_ioctl ops pl' (IOCTL_WRITEI_FRAMES x) = Inr (pl', IOCTL_WRITEI_FRAMES x, - EBADFD))"
    and "(IOCTL_START, 0) \<in> set h \<and> prepared h \<or>
      (\<forall>x. pcm_plug_ioctl ops pl' (IOCTL_READI_FRAMES x) = Inr (pl', IOCTL_READI_FRAMES x, - EBADFD))"
proof -
  have h: "history_ok (pl_state pl') h" using run_history [OF assms(2), of "[]"] assms(1) by (simp add: history_ok_def)
  show "prepared h \<or> (\<forall>x. pcm_plug_ioctl ops pl' (IOCTL_WRITEI_FRAMES x) = Inr (pl', IOCTL_WRITEI_FRAMES x, - EBADFD))"
    using h by (cases "pl_state pl'") (simp_all add: history_ok_def with_arg_def pcm_plug_writei_frames_def)
  show "(IOCTL_START, 0) \<in> set h \<and> prepared h \<or>
      (\<forall>x. pcm_plug_ioctl ops pl' (IOCTL_READI_FRAMES x) = Inr (pl', IOCTL_READI_FRAMES x, - EBADFD))"
    using h by (cases "pl_state pl'") (simp_all add: history_ok_def with_arg_def pcm_plug_readi_frames_def)
qed

end

end
