(* ===== verification/Plug_Sample.thy ===== *)
theory Plug_Sample
  imports Pcm_Plugin
begin

text \<open>
  The plug-in of \<open>plugin/adds/pcm_sample_plugin.c\<close> as a provider of the contract of the layer, and what layer, wrapper and
  plug-in do together.

  \<open>bits\<close> is \<open>pcm_format_to_bits\<close>; the file that is injected is its contents and a position; the static variables of the dump are
  kept with the plug-in.  Reading or writing a buffer beyond its end is the error \<open>Bad_access\<close>.
\<close>

record inject_file =
  if_data :: "byte list"
  if_pos :: nat

record sample_plug =
  sp_config :: pcm_config
  sp_inject :: "inject_file option"
  sp_dump :: dump_state

definition zero_constraints :: pcm_plugin_hw_constraints where
  "zero_constraints = \<lparr>hc_access = 0, hc_format = 0, hc_bit_width = (0, 0), hc_channels = (0, 0), hc_rate = (0, 0),
     hc_periods = (0, 0), hc_period_bytes = (0, 0)\<rparr>"

definition zero_pcm_config :: pcm_config where
  "zero_pcm_config = \<lparr>pc_format = 0, pc_rate = 0, pc_channels = 0, pc_period_size = 0, pc_period_count = 0\<rparr>"

text \<open>\<open>alloc\<close>: whether the three allocations succeed.  The constraints are allocated and never filled.\<close>

definition plug_open ::
    "bool \<Rightarrow> inject_file option \<Rightarrow> dump_state \<Rightarrow> int \<Rightarrow> int \<Rightarrow> bool \<Rightarrow> sample_plug pcm_plugin option \<times> int" where
  "plug_open alloc inject dump snd_card device flags_in =
     (if \<not> alloc then (None, - ENOMEM)
      else (Some \<lparr>pl_card = snd_card, pl_device = device, pl_constraints = zero_constraints,
              pl_priv = \<lparr>sp_config = zero_pcm_config, sp_inject = inject, sp_dump = dump\<rparr>, pl_state = PCM_PLUG_STATE_OPEN\<rparr>, 0))"

definition sample_period_bytes :: "(int \<Rightarrow> int) \<Rightarrow> pcm_config \<Rightarrow> int \<Rightarrow> int" where
  "sample_period_bytes bits cfg frames = s32 (bits (pc_format cfg) div 8 * frames * pc_channels cfg)"

definition plug_writei_frames :: "(int \<Rightarrow> int) \<Rightarrow> bool \<Rightarrow> (sample_plug, snd_xferi) plug_fn" where
  "plug_writei_frames bits fopen_ok pl x =
     (let priv = pl_priv pl; n = sample_period_bytes bits (sp_config priv) (xf_frames x);
          writes = (dump_fd (sp_dump priv) \<noteq> Dump_null \<or> fopen_ok)
      in if writes \<and> (n < 0 \<or> n > int (length (xf_buf x))) then Inl Bad_access
         else and_then (dump_out_data fopen_ok (sp_dump priv) (nat n)) (\<lambda>(d, stopped).
                Inr (pl\<lparr>pl_priv := priv\<lparr>sp_dump := d\<rparr>\<rparr>, x\<lparr>xf_result := xf_frames x\<rparr>, 0)))"

text \<open>\<open>fread\<close> converts the size to an unsigned number; a short read rewinds the file.\<close>

definition plug_readi_frames :: "(int \<Rightarrow> int) \<Rightarrow> (sample_plug, snd_xferi) plug_fn" where
  "plug_readi_frames bits pl x =
     (let priv = pl_priv pl; cfg = sp_config priv; n = sample_period_bytes bits cfg (xf_frames x)
      in case sp_inject priv of None \<Rightarrow> Inr (pl, x\<lparr>xf_result := xf_frames x\<rparr>, 0)
         | Some f \<Rightarrow>
             let rest = drop (if_pos f) (if_data f);
                 got = (if n < 0 then length rest else min (nat n) (length rest));
                 f = (if int got < n then f\<lparr>if_pos := 0\<rparr> else f\<lparr>if_pos := if_pos f + got\<rparr>)
             in if got > length (xf_buf x) then Inl Bad_access
                else if bits (pc_format cfg) div 8 = 0 \<or> pc_channels cfg = 0 then Inl Div_by_zero
                else Inr (pl\<lparr>pl_priv := priv\<lparr>sp_inject := Some f\<rparr>\<rparr>,
                          x\<lparr>xf_buf := blit (xf_buf x) 0 (take got rest),
                            xf_result := int got div (bits (pc_format cfg) div 8) div pc_channels cfg\<rparr>, 0))"

definition plug_prepare :: "(sample_plug, unit) plug_fn" where
  "plug_prepare pl u = Inr (pl, u, 0)"

definition plug_start :: "(sample_plug, unit) plug_fn" where
  "plug_start pl u = Inr (pl, u, 0)"

definition param_get_min :: "snd_pcm_hw_params \<Rightarrow> nat \<Rightarrow> int" where
  "param_get_min p n = (if param_is_interval n then iv_min (interval_of p n) else 0)"

definition param_get_int :: "snd_pcm_hw_params \<Rightarrow> nat \<Rightarrow> int" where
  "param_get_int p n = (if param_is_interval n \<and> iv_integer (interval_of p n) then iv_max (interval_of p n) else 0)"

text \<open>The format is the first word of the mask of formats.\<close>

definition plug_hw_params :: "(sample_plug, snd_pcm_hw_params) plug_fn" where
  "plug_hw_params pl params =
     (let priv = pl_priv pl;
          cfg = (sp_config priv)\<lparr>pc_format := uint (mk_bits0 (hp_masks params ! (HW_PARAM_FORMAT - HW_PARAM_FIRST_MASK))),
                  pc_period_size := param_get_min params HW_PARAM_PERIOD_SIZE,
                  pc_channels := param_get_int params HW_PARAM_CHANNELS, pc_rate := param_get_int params HW_PARAM_RATE\<rparr>
      in Inr (pl\<lparr>pl_priv := priv\<lparr>sp_config := cfg\<rparr>\<rparr>, params, 0))"

definition sample_ops :: "(int \<Rightarrow> int) \<Rightarrow> bool \<Rightarrow> sample_plug pcm_plugin_ops" where
  "sample_ops bits fopen_ok =
     \<lparr>op_hw_params = Some plug_hw_params, op_sw_params = None, op_sync_ptr = None,
      op_writei_frames = Some (plug_writei_frames bits fopen_ok), op_readi_frames = Some (plug_readi_frames bits),
      op_ttstamp = None, op_prepare = Some plug_prepare, op_start = Some plug_start, op_drop = None, op_ioctl = None,
      op_mmap = None, op_munmap = None, op_poll = None\<rparr>"

section \<open>The contract\<close>

lemma fn_keeps_None: "fn_keeps None"
  by (simp add: fn_keeps_def call_op_def)

lemma sample_keeps:
  "fn_keeps (Some plug_hw_params)" "fn_keeps (Some (plug_writei_frames bits fopen_ok))" "fn_keeps (Some (plug_readi_frames bits))"
  "fn_keeps (Some plug_prepare)" "fn_keeps (Some plug_start)"
  by (auto simp: fn_keeps_def call_op_def plug_hw_params_def plug_writei_frames_def plug_readi_frames_def plug_prepare_def
      plug_start_def and_then_def Let_def split: if_splits option.splits sum.splits)

interpretation sample: plug_in "sample_ops bits fopen_ok" for bits fopen_ok
  by unfold_locales (simp_all add: sample_ops_def fn_keeps_None sample_keeps)

section \<open>Selecting the parameters\<close>

text \<open>What \<open>pcm_plug_hw_params_set\<close> leaves, when no interval it selects from starts at 0.\<close>

definition selected_params :: "nat list" where
  "selected_params = [8, 9, 10, 11, 13, 14, 15, 17, 18]"

lemma interval_of_set_interval:
  "length (hp_intervals p) = 12 \<Longrightarrow> n \<in> {8..19} \<Longrightarrow>
   m \<in> {8..19} \<Longrightarrow> interval_of (set_interval_of p m i) n = (if m = n then i else interval_of p n)"
  by (auto simp: interval_of_def set_interval_of_def hw_param_nums nth_list_update)

lemma interval_select_eq:
  assumes "length (hp_intervals p) = 12" and "n \<in> {8..19}" and "m \<in> {8..19}"
  shows "interval_of (fst (pcm_plug_interval_select p m sel v)) n =
     (if m = n \<and> iv_min (interval_of p m) \<noteq> 0
      then (case sel of SELECT_MIN \<Rightarrow> (interval_of p m)\<lparr>iv_max := iv_min (interval_of p m)\<rparr>
            | SELECT_MAX \<Rightarrow> (interval_of p m)\<lparr>iv_min := iv_max (interval_of p m)\<rparr>
            | SELECT_VAL \<Rightarrow> (interval_of p m)\<lparr>iv_min := v, iv_max := v\<rparr>)
      else interval_of p n)"
  using assms by (auto simp: pcm_plug_interval_select_def Let_def interval_of_set_interval hw_param_nums)

lemma interval_select_keeps [simp]:
  "length (hp_intervals (fst (pcm_plug_interval_select p m sel v))) = length (hp_intervals p)"
  "hp_masks (fst (pcm_plug_interval_select p m sel v)) = hp_masks p"
  by (auto simp: pcm_plug_interval_select_def Let_def set_interval_of_def)

lemma select_value_eq:
  assumes "length (hp_intervals q) = 12" and "k \<in> {8..19}" and "j \<in> {8..19}"
  shows "interval_of (select_value k v q) j =
    (if k = j \<and> iv_min (interval_of q k) \<noteq> 0 then (interval_of q k)\<lparr>iv_min := v, iv_max := v\<rparr> else interval_of q j)"
  using assms by (auto simp: select_value_def interval_select_eq)

lemma select_value_length [simp]: "length (hp_intervals (select_value k v q)) = length (hp_intervals q)"
  by (simp add: select_value_def)

text \<open>A parameter of \<open>param_list\<close> gets its lower limit unless that is 0.\<close>

lemma hw_params_set_chosen:
  assumes len: "length (hp_intervals p) = 12" and n: "n \<in> {8, 10, 11, 13, 15}"
  defines "r \<equiv> pcm_plug_hw_params_set p"
  shows "iv_min (interval_of r n) = iv_min (interval_of p n)" "iv_min (interval_of p n) \<noteq> 0 \<Longrightarrow> iv_max (interval_of r n) = iv_min (interval_of p n)"
proof -
  define p0 where "p0 = fold (\<lambda>n p. fst (pcm_plug_interval_select p n SELECT_MIN 0)) param_list p"
  have p0: "length (hp_intervals p0) = 12" "iv_min (interval_of p0 n) = iv_min (interval_of p n)"
    "iv_min (interval_of p n) \<noteq> 0 \<Longrightarrow> iv_max (interval_of p0 n) = iv_min (interval_of p n)"
    using len n by (auto simp: p0_def param_list_def hw_param_nums interval_select_eq)
  obtain a b c d where r: "r = select_value 18 a (select_value 17 b (select_value 14 c (select_value 9 d p0)))"
    by (simp add: r_def pcm_plug_hw_params_set_def Let_def p0_def [symmetric] hw_param_nums)
  have "interval_of r n = interval_of p0 n" using n p0(1) unfolding r by (auto simp: select_value_eq)
  then show "iv_min (interval_of r n) = iv_min (interval_of p n)" "iv_min (interval_of p n) \<noteq> 0 \<Longrightarrow> iv_max (interval_of r n) = iv_min (interval_of p n)"
    using p0 by auto
qed

lemma hw_params_set_spec:
  assumes len: "length (hp_intervals p) = 12" and min: "\<forall>n\<in>set selected_params. iv_min (interval_of p n) \<noteq> 0"
  defines "r \<equiv> pcm_plug_hw_params_set p"
  shows "n \<in> {8, 10, 11, 13, 15} \<Longrightarrow> iv_min (interval_of r n) = iv_min (interval_of p n) \<and> iv_max (interval_of r n) = iv_min (interval_of p n)"
    and "iv_min (interval_of r 9) = u32 (iv_min (interval_of r 8) * iv_min (interval_of r 10)) \<and> iv_max (interval_of r 9) = iv_min (interval_of r 9)"
    and "iv_min (interval_of r 17) = u32 (iv_min (interval_of r 13) * iv_min (interval_of r 15)) \<and> iv_max (interval_of r 17) = iv_min (interval_of r 17)"
    and "iv_min (interval_of r 14) = u32 (iv_min (interval_of r 13) * (iv_min (interval_of r 9) div 8)) \<and> iv_max (interval_of r 14) = iv_min (interval_of r 14)"
    and "iv_min (interval_of r 18) = u32 (iv_min (interval_of r 17) * (iv_min (interval_of r 9) div 8)) \<and> iv_max (interval_of r 18) = iv_min (interval_of r 18)"
proof -
  have u: "u32 (s32 (u32 x)) = u32 x" for x by (simp add: u32_def s32_def mod_simps)
  define p0 where "p0 = fold (\<lambda>n p. fst (pcm_plug_interval_select p n SELECT_MIN 0)) param_list p"
  define frame_bits where "frame_bits = u32 (iv_min (interval_of p 8) * iv_min (interval_of p 10))"
  define buffer where "buffer = u32 (iv_min (interval_of p 13) * iv_min (interval_of p 15))"
  have p0: "length (hp_intervals p0) = 12"
    "k \<in> {8..19} \<Longrightarrow> iv_min (interval_of p0 k) = iv_min (interval_of p k)"
    "k \<in> {8, 10, 11, 13, 15} \<Longrightarrow> iv_max (interval_of p0 k) = iv_min (interval_of p k)" for k
    using len min unfolding p0_def
    by (simp_all add: param_list_def selected_params_def hw_param_nums interval_select_eq) (auto simp: interval_select_eq)
  have r: "r = select_value 18 (u32 (pcm_plug_frames_to_bytes buffer frame_bits)) (select_value 17 buffer
      (select_value 14 (u32 (pcm_plug_frames_to_bytes (iv_min (interval_of p 13)) frame_bits)) (select_value 9 frame_bits p0)))"
    using p0(2) by (simp add: r_def pcm_plug_hw_params_set_def Let_def p0_def [symmetric] hw_param_nums buffer_def frame_bits_def)
  have m: "iv_min (interval_of p0 9) \<noteq> 0" "iv_min (interval_of p0 14) \<noteq> 0" "iv_min (interval_of p0 17) \<noteq> 0" "iv_min (interval_of p0 18) \<noteq> 0"
    using min p0(2) by (simp_all add: selected_params_def)
  have vals: "iv_min (interval_of r 9) = frame_bits" "iv_max (interval_of r 9) = frame_bits" "iv_min (interval_of r 17) = buffer" "iv_max (interval_of r 17) = buffer"
    "iv_min (interval_of r 14) = u32 (pcm_plug_frames_to_bytes (iv_min (interval_of p 13)) frame_bits)" "iv_max (interval_of r 14) = iv_min (interval_of r 14)"
    "iv_min (interval_of r 18) = u32 (pcm_plug_frames_to_bytes buffer frame_bits)" "iv_max (interval_of r 18) = iv_min (interval_of r 18)"
    using p0(1) m unfolding r by (simp_all add: select_value_eq)
  show chosen: "n \<in> {8, 10, 11, 13, 15} \<Longrightarrow> iv_min (interval_of r n) = iv_min (interval_of p n) \<and> iv_max (interval_of r n) = iv_min (interval_of p n)" for n
    using hw_params_set_chosen [OF len, of n] min by (auto simp: r_def selected_params_def)
  show "iv_min (interval_of r 9) = u32 (iv_min (interval_of r 8) * iv_min (interval_of r 10)) \<and> iv_max (interval_of r 9) = iv_min (interval_of r 9)"
    using vals chosen by (simp add: frame_bits_def)
  show "iv_min (interval_of r 17) = u32 (iv_min (interval_of r 13) * iv_min (interval_of r 15)) \<and> iv_max (interval_of r 17) = iv_min (interval_of r 17)"
    using vals chosen by (simp add: buffer_def)
  show "iv_min (interval_of r 14) = u32 (iv_min (interval_of r 13) * (iv_min (interval_of r 9) div 8)) \<and> iv_max (interval_of r 14) = iv_min (interval_of r 14)"
    using vals chosen by (simp add: pcm_plug_frames_to_bytes_def u)
  show "iv_min (interval_of r 18) = u32 (iv_min (interval_of r 17) * (iv_min (interval_of r 9) div 8)) \<and> iv_max (interval_of r 18) = iv_min (interval_of r 18)"
    using vals by (simp add: pcm_plug_frames_to_bytes_def u)
qed

section \<open>Constraints and requests together\<close>

definition closed_interval :: "snd_interval \<Rightarrow> bool" where
  "closed_interval i \<longleftrightarrow> \<not> iv_openmin i \<and> \<not> iv_openmax i"

lemma refine_closed:
  assumes "closed_interval ri" and "closed_interval ci"
  shows "iv_min (fst (refine_interval ri ci b)) = max (iv_min ri) (iv_min ci)"
    and "iv_max (fst (refine_interval ri ci b)) = min (iv_max ri) (iv_max ci)"
  using assms by (auto simp: refine_interval_chain [of _ _ _ False False] refine_integer_def refine_max_def refine_min_def
      close_limits_def closed_interval_def Let_def)

text \<open>The parameters that a plug-in supports: the five constraints it gives, all intervals closed.\<close>

definition constraint_at :: "pcm_plugin_hw_constraints \<Rightarrow> nat \<Rightarrow> min_max" where
  "constraint_at c n = (if n = 8 then hc_bit_width c else if n = 10 then hc_channels c else if n = 11 then hc_rate c
     else if n = 15 then hc_periods c else hc_period_bytes c)"

lemma set_interval_params [simp]:
  "length (hp_intervals (pcm_plug_set_interval p n v b)) = length (hp_intervals p)" "hp_masks (pcm_plug_set_interval p n v b) = hp_masks p"
  by (simp_all add: pcm_plug_set_interval_def set_interval_of_def Let_def)

lemma set_mask_params [simp]:
  "hp_intervals (pcm_plug_set_mask p n v) = hp_intervals p" "length (hp_masks (pcm_plug_set_mask p n v)) = length (hp_masks p)"
  "interval_of (pcm_plug_set_mask p n v) k = interval_of p k"
  by (simp_all add: pcm_plug_set_mask_def Let_def interval_of_def)

lemma interval_of_plug_set_interval:
  assumes "length (hp_intervals p) = 12" and "n \<in> {8..19}" and "k \<in> {8..19}"
  shows "interval_of (pcm_plug_set_interval p n v b) k =
    (if n = k then (interval_of p k)\<lparr>iv_min := fst v, iv_max := snd v, iv_integer := b \<or> iv_integer (interval_of p k)\<rparr> else interval_of p k)"
  using assms by (auto simp: pcm_plug_set_interval_def interval_of_set_interval Let_def)

lemma get_params_spec:
  assumes "u32 (fst (hc_bit_width c) * fst (hc_channels c)) \<noteq> 0"
  obtains q where "pcm_plug_get_params c zero_params = Inr q" "length (hp_intervals q) = 12" "length (hp_masks q) = 3"
    "\<And>n. n \<in> {8..19} \<Longrightarrow> closed_interval (interval_of q n)"
    "\<And>n. n \<in> {8, 10, 11, 14, 15} \<Longrightarrow> iv_min (interval_of q n) = fst (constraint_at c n) \<and> iv_max (interval_of q n) = snd (constraint_at c n)"
proof -
  define p1 where "p1 = pcm_plug_set_mask (pcm_plug_set_mask (pcm_plug_set_mask zero_params 0 (hc_access c)) 1 (hc_format c)) 2 SNDRV_PCM_SUBFORMAT_STD"
  have p1: "length (hp_intervals p1) = 12" "length (hp_masks p1) = 3" "k \<in> {8..19} \<Longrightarrow> interval_of p1 k = zero_interval" for k
    by (auto simp: p1_def zero_params_def interval_of_def hw_param_nums)
  define sets where "sets = (\<lambda>vs p. fold (\<lambda>(n, v, b) p. pcm_plug_set_interval p n v b) vs p)"
  define fb where "fb = u32 (fst (hc_bit_width c) * fst (hc_channels c))"
  define fr where "fr = (\<lambda>x. u32 (s32 (u32 (x * 8) div fb)))"
  define bb where "bb = (u32 (fst (hc_period_bytes c) * fst (hc_periods c)), u32 (snd (hc_period_bytes c) * snd (hc_periods c)))"
  define vs where "vs = [(8 :: nat, hc_bit_width c, True), (10, hc_channels c, True), (11, hc_rate c, True), (14, hc_period_bytes c, False), (15, hc_periods c, True),
    (9, (fb, u32 (snd (hc_bit_width c) * snd (hc_channels c))), True), (13, (fr (fst (hc_period_bytes c)), fr (snd (hc_period_bytes c))), True),
    (18, bb, True), (17, (fr (fst bb), fr (snd bb)), True :: bool)]"
  define q where "q = sets vs p1"
  have q: "pcm_plug_get_params c zero_params = Inr q"
    using assms by (simp add: pcm_plug_get_params_def pcm_plug_bytes_to_frames_def Let_def hw_param_nums q_def vs_def sets_def p1_def fb_def fr_def bb_def)
  have len: "length (hp_intervals q) = 12" "length (hp_masks q) = 3" using p1(1,2) by (simp_all add: q_def vs_def sets_def)
  have "closed_interval (interval_of q n)" if "n \<in> {8..19}" for n
    using that p1 by (simp add: q_def vs_def sets_def interval_of_plug_set_interval closed_interval_def zero_interval_def)
  moreover have "iv_min (interval_of q n) = fst (constraint_at c n) \<and> iv_max (interval_of q n) = snd (constraint_at c n)" if "n \<in> {8, 10, 11, 14, 15}" for n
    using that p1 by (auto simp: q_def vs_def sets_def interval_of_plug_set_interval constraint_at_def)
  ultimately show thesis using that q len by blast
qed

text \<open>
  What a request becomes: \<open>chosen\<close> is what the function \<open>hw_params\<close> of the plug-in gets.  Each of these parameters is the
  larger of the two lower limits, whatever the upper limits are.
\<close>

lemma hparams_chosen:
  assumes pl: "pl_state pl = PCM_PLUG_STATE_OPEN" and fb: "u32 (fst (hc_bit_width c) * fst (hc_channels c)) \<noteq> 0" and c: "pl_constraints pl = c"
    and p: "length (hp_masks p) = 3" "length (hp_intervals p) = 12" "\<And>n. n \<in> {8..19} \<Longrightarrow> closed_interval (interval_of p n)"
    and n: "n \<in> {8, 10, 11, 15}" "0 < max (iv_min (interval_of p n)) (fst (constraint_at c n))"
  shows "\<exists>chosen. pcm_plug_hparams ops pl p = and_then (call_op (op_hw_params ops) pl chosen) (\<lambda>(pl, params, rc).
      Inr (if rc = 0 then pl\<lparr>pl_state := PCM_PLUG_STATE_SETUP\<rparr> else pl, params, rc)) \<and>
    iv_min (interval_of chosen n) = max (iv_min (interval_of p n)) (fst (constraint_at c n)) \<and>
    iv_max (interval_of chosen n) = iv_min (interval_of chosen n)"
proof -
  obtain q where q: "pcm_plug_get_params c zero_params = Inr q" "length (hp_intervals q) = 12" "length (hp_masks q) = 3"
    "\<And>n. n \<in> {8..19} \<Longrightarrow> closed_interval (interval_of q n)"
    "\<And>n. n \<in> {8, 10, 11, 14, 15} \<Longrightarrow> iv_min (interval_of q n) = fst (constraint_at c n) \<and> iv_max (interval_of q n) = snd (constraint_at c n)"
    using get_params_spec [OF fb] by blast
  let ?p = "p\<lparr>hp_rmask := -1\<rparr>"
  define r where "r = pcm_plug_hw_params_refine ?p q"
  have mk: "length (hp_intervals (pcm_plug_masks_refine ?p q)) = 12" using masks_refine_fields(2) [of ?p q] p(1,2) by simp
  note iv = interval_refine_fold [OF mk order_refl, of q]
  have r_at: "interval_of r k = fst (refine_interval (interval_of p k) (interval_of q k) False)" if "k \<in> {8..19}" for k
    using iv(4) that masks_refine_fields(1,2) [of ?p q] p(1)
    by (auto simp: r_def pcm_plug_hw_params_refine_def pcm_plug_interval_refine_def hw_param_nums interval_of_def bit_minus_1_iff)
  have len: "length (hp_intervals r) = 12"
    using iv(3) by (simp add: r_def pcm_plug_hw_params_refine_def pcm_plug_interval_refine_def hw_param_nums)
  have n8: "n \<in> {8..19}" "n \<in> {8, 10, 11, 14, 15}" "n \<in> {8, 10, 11, 13, 15}" using n(1) by auto
  have lo: "iv_min (interval_of r n) = max (iv_min (interval_of p n)) (fst (constraint_at c n))"
    using r_at [OF n8(1)] refine_closed(1) [OF p(3) q(4), OF n8(1) n8(1)] q(5) [OF n8(2)] by simp
  have sel: "iv_min (interval_of (pcm_plug_hw_params_set r) n) = iv_min (interval_of r n) \<and>
      iv_max (interval_of (pcm_plug_hw_params_set r) n) = iv_min (interval_of r n)"
    using hw_params_set_chosen [OF len n8(3)] lo n(2) by simp
  have "pcm_plug_hparams ops pl p = and_then (call_op (op_hw_params ops) pl (pcm_plug_hw_params_set r)) (\<lambda>(pl, params, rc).
      Inr (if rc = 0 then pl\<lparr>pl_state := PCM_PLUG_STATE_SETUP\<rparr> else pl, params, rc))"
    using pl c q(1) by (simp add: pcm_plug_hparams_def pcm_plug_hrefine_def r_def)
  then show ?thesis using sel lo by (intro exI [of _ "pcm_plug_hw_params_set r"]) simp
qed

text \<open>The constraints of the sample plug-in are zero, and the layer divides by the size of a frame.\<close>

lemma sample_hparams_fails:
  assumes "pl_state pl = PCM_PLUG_STATE_OPEN" and "pl_constraints pl = zero_constraints"
  shows "pcm_plug_hparams ops pl p = Inl Div_by_zero"
  using assms by (simp add: pcm_plug_hparams_def pcm_plug_hrefine_def pcm_plug_get_params_def pcm_plug_bytes_to_frames_def zero_constraints_def u32_def Let_def)

lemma wrapper_open_with_plugin:
  "pcm_wrapper_open ops enum True True (Inr (Some pl, 0)) alsa flags_in cfg =
     and_then (pcm_plug_hparams ops pl (wrapper_request enum (case cfg of None \<Rightarrow> default_config enum zero_config | Some c \<Rightarrow> c))) (\<lambda>(pl, p, rc).
       Inr (Some \<lparr>pw_alsa = alsa, pw_flags_in = flags_in, pw_xruns = 0, pw_config = (case cfg of None \<Rightarrow> default_config enum zero_config | Some c \<Rightarrow> c),
         pw_ops = True, pw_data = Some pl, pw_fd = 0\<rparr>))"
proof -
  have one: "pcm_wrapper_open ops enum True True (Inr (Some pl, 0)) alsa flags_in (Some k) =
     and_then (pcm_plug_hparams ops pl (wrapper_request enum k)) (\<lambda>(pl, p, rc).
       Inr (Some \<lparr>pw_alsa = alsa, pw_flags_in = flags_in, pw_xruns = 0, pw_config = k, pw_ops = True, pw_data = Some pl, pw_fd = 0\<rparr>))" for k
    by (cases "pcm_plug_hparams ops pl (wrapper_request enum k)")
      (auto simp: pcm_wrapper_open_def pcm_wrapper_set_config_def pcm_ioctl_all_def wrapper_ioctl_def with_arg_def Let_def)
  have "pcm_wrapper_open ops enum True True (Inr (Some pl, 0)) alsa flags_in None =
      pcm_wrapper_open ops enum True True (Inr (Some pl, 0)) alsa flags_in (Some (default_config enum zero_config))"
    by (simp add: pcm_wrapper_open_def pcm_wrapper_set_config_def Let_def)
  then show ?thesis using one by (cases cfg) simp_all
qed

lemma wrapper_open_without_library:
  "pcm_wrapper_open ops enum True True (pcm_plug_open True None dlsym snd_card device flags_in) alsa flags_in cfg = Inl Null_pointer"
  by (simp add: pcm_wrapper_open_def pcm_plug_open_def pcm_wrapper_set_config_def pcm_ioctl_all_def wrapper_ioctl_def Let_def)

end
