(* ===== verification/Device_Properties.thy ===== *)
theory Device_Properties
  imports Plug_Sample
begin

text \<open>
  The properties of the PCM plug-in layer: the order of calls it enforces on every plug-in that keeps to its contract,
  the refinement and selection of hardware parameters, and what the wrapper does without a working plug-in.
\<close>

section \<open>The order of calls\<close>


definition demo_plug :: "sample_plug pcm_plugin" where
  "demo_plug = \<lparr>pl_card = 0, pl_device = 0,
     pl_constraints = \<lparr>hc_access = 8, hc_format = 4, hc_bit_width = (16, 16), hc_channels = (1, 8), hc_rate = (8000, 48000),
       hc_periods = (2, 8), hc_period_bytes = (64, 65536)\<rparr>,
     pl_priv = \<lparr>sp_config = zero_pcm_config, sp_inject = None, sp_dump = \<lparr>dump_fd = Dump_null, dump_offset = 0\<rparr>\<rparr>,
     pl_state = PCM_PLUG_STATE_OPEN\<rparr>"

lemma demo_runs:
  obtains pl' where "ioctl_run (sample_ops (\<lambda>f. 16) False) demo_plug [IOCTL_HW_PARAMS param_init, IOCTL_PREPARE] =
     Inr (pl', [(IOCTL_HW_PARAMS param_init, 0), (IOCTL_PREPARE, 0)])"
proof -
  have "u32 (fst (hc_bit_width (pl_constraints demo_plug)) * fst (hc_channels (pl_constraints demo_plug))) \<noteq> 0"
    by (simp add: demo_plug_def u32_def)
  then obtain q where "pcm_plug_get_params (pl_constraints demo_plug) zero_params = Inr q" by (rule get_params_spec)
  then obtain pl p where "pcm_plug_hparams (sample_ops (\<lambda>f. 16) False) demo_plug param_init = Inr (pl, p, 0)" "pl_state pl = PCM_PLUG_STATE_SETUP"
    by (fastforce simp: pcm_plug_hparams_def pcm_plug_hrefine_def sample_ops_def call_op_def plug_hw_params_def Let_def demo_plug_def)
  then show thesis using that
    by (simp add: with_arg_def pcm_plug_prepare_def sample_ops_def call_op_def plug_prepare_def)
qed


section \<open>Hardware parameters\<close>

text \<open>
  C33. Refining a request by what a plug-in supports is intersection: an interval whose bit is set in \<open>rmask\<close> stands for exactly the
  values that request and constraint have in common, a mask for the common bits, everything else is untouched, and limits stay
  unsigned 32-bit numbers.
\<close>

theorem refining_is_intersecting:
  assumes "params_ok p" and "params_ok c"
  shows "params_ok (pcm_plug_hw_params_refine p c) \<and> hp_rmask (pcm_plug_hw_params_refine p c) = 0 \<and>
    (\<forall>i<12. if bit (hp_rmask p) (i + 8)
       then values_of (hp_intervals (pcm_plug_hw_params_refine p c) ! i) = values_of (hp_intervals p ! i) \<inter> values_of (hp_intervals c ! i)
       else hp_intervals (pcm_plug_hw_params_refine p c) ! i = hp_intervals p ! i) \<and>
    (\<forall>j<3. hp_masks (pcm_plug_hw_params_refine p c) ! j = (if bit (hp_rmask p) j
       then \<lparr>mk_bits0 = mk_bits0 (hp_masks p ! j) AND mk_bits0 (hp_masks c ! j), mk_bits1 = mk_bits1 (hp_masks p ! j) AND mk_bits1 (hp_masks c ! j)\<rparr>
       else hp_masks p ! j))"
  using hw_params_refine_spec [OF assms] by (simp add: refine_mask_def)

theorem refining_is_intersecting_witness:
  "values_of (hp_intervals (pcm_plug_hw_params_refine param_init (param_set_int (param_set_min param_init 11 8000) 10 2)) ! 3) = {8000..4294967295}"
proof -
  let ?c = "param_set_int (param_set_min param_init 11 8000) 10 2"
  have "params_ok param_init" "params_ok ?c"
    by (simp_all add: params_ok_def list_all_length nth_list_update param_init_def param_set_min_def param_set_int_def param_is_interval_def
        set_interval_of_def interval_of_def hw_param_nums interval_ok_def zero_interval_def)
  from refining_is_intersecting [OF this]
  have "values_of (hp_intervals (pcm_plug_hw_params_refine param_init ?c) ! 3) = values_of (hp_intervals param_init ! 3) \<inter> values_of (hp_intervals ?c ! 3)"
    by (simp add: param_init_def bit_minus_1_iff)
  moreover have "values_of (hp_intervals param_init ! 3) = {0..4294967295}" "values_of (hp_intervals ?c ! 3) = {8000..4294967295}"
    by (auto simp: values_of_def param_init_def param_set_min_def param_set_int_def param_is_interval_def set_interval_of_def interval_of_def hw_param_nums zero_interval_def)
  ultimately show ?thesis by auto
qed

text \<open>
  When a client sets hardware parameters with closed intervals, the plug-in is called with bit width, channels, rate and number of
  periods each fixed to the larger of the two lower limits, so to the least value both sides allow when there is one; when there is
  none (the request ends below the constraint, or starts above it) the call is made all the same and the plug-in gets a value
  that one side excludes.
\<close>

lemma incompatible_request_accepted:
  assumes "pl_state pl = PCM_PLUG_STATE_OPEN" and "u32 (fst (hc_bit_width (pl_constraints pl)) * fst (hc_channels (pl_constraints pl))) \<noteq> 0"
    and "length (hp_masks p) = 3" and "length (hp_intervals p) = 12" and "\<forall>n\<in>{8..19}. closed_interval (interval_of p n)"
    and "n \<in> {8, 10, 11, 15}" and "0 < max (iv_min (interval_of p n)) (fst (constraint_at (pl_constraints pl) n))"
  shows "\<exists>chosen v. pcm_plug_hparams ops pl p = and_then (call_op (op_hw_params ops) pl chosen) (\<lambda>(pl, params, rc).
      Inr (if rc = 0 then pl\<lparr>pl_state := PCM_PLUG_STATE_SETUP\<rparr> else pl, params, rc)) \<and>
    iv_min (interval_of chosen n) = v \<and> iv_max (interval_of chosen n) = v \<and>
    v = max (iv_min (interval_of p n)) (fst (constraint_at (pl_constraints pl) n)) \<and>
    (iv_max (interval_of p n) < fst (constraint_at (pl_constraints pl) n) \<longrightarrow> v \<notin> values_of (interval_of p n)) \<and>
    (snd (constraint_at (pl_constraints pl) n) < iv_min (interval_of p n) \<longrightarrow> v > snd (constraint_at (pl_constraints pl) n))"
proof -
  have c: "closed_interval (interval_of p n)" using assms(5,6) by auto
  obtain chosen where "pcm_plug_hparams ops pl p = and_then (call_op (op_hw_params ops) pl chosen) (\<lambda>(pl, params, rc).
      Inr (if rc = 0 then pl\<lparr>pl_state := PCM_PLUG_STATE_SETUP\<rparr> else pl, params, rc))"
    "iv_min (interval_of chosen n) = max (iv_min (interval_of p n)) (fst (constraint_at (pl_constraints pl) n))"
    "iv_max (interval_of chosen n) = iv_min (interval_of chosen n)"
    using hparams_chosen [OF assms(1,2) refl assms(3,4) _ assms(6,7), of ops] assms(5) by blast
  then show ?thesis using c by (intro exI [of _ chosen] exI [of _ "iv_min (interval_of chosen n)"]) (auto simp: values_of_def closed_interval_def)
qed

section \<open>The wrapper without a plug-in\<close>

text \<open>
  Without plug-ins \<open>pcm_wrapper_write\<close> and \<open>pcm_wrapper_read\<close> report \<open>-EIO\<close> for every request of at least one frame although the
  device took or gave all of it: they compare the 0 of tinyalsa with the number of frames.
\<close>

lemma wrapper_reports_failure:
  assumes "\<not> pw_ops pcm" and "wrapper_frames bits (pw_config pcm) count = Inr frames" and "0 < frames"
  shows "pcm_wrapper_write ops bits epipe pcm data count = Inr (pcm, - EIO) \<and>
    pcm_wrapper_read ops bits epipe pcm 0 data count = Inr (pcm, data, - EIO)"
  using assms by (simp add: pcm_wrapper_write_def pcm_wrapper_read_def u32_def)

text \<open>
  With plug-ins enabled, no device can be opened: the constraints of the plug-in of the repository are all zero, so setting the
  configuration divides by the size of a frame, and a missing library leaves a NULL plug-in that the wrapper dereferences.
\<close>

lemma wrapper_open_always_faults:
  "pcm_wrapper_open (sample_ops bits fopen_ok) enum True True
     (pcm_plug_open True (Some ()) (\<lambda>_. Some (plug_open True inject dump)) snd_card device flags_in) alsa flags_in cfg = Inl Div_by_zero \<and>
   pcm_wrapper_open (sample_ops bits fopen_ok) enum True True (pcm_plug_open True (None :: unit option) dlsym snd_card device flags_in) alsa flags_in cfg =
     Inl Null_pointer"
  using wrapper_open_without_library
  by (simp add: pcm_plug_open_def plug_open_def wrapper_open_with_plugin sample_hparams_fails)

end
