(* ===== verification/Dsp_Control.thy ===== *)
theory Dsp_Control
  imports Hal_Platform
begin

text \<open>
  The control of the signal processor (\<open>dsp.c\<close>): every setting is a control of the mixer of sound card 0, written and read as text
  in the manner of \<open>tinymix\<close>, with a few values kept in static variables.

  The mixer itself is tinyalsa: its operations are the fields of \<open>mixer_api\<close>, over a state that outlives \<open>mixer_open\<close> and
  \<open>mixer_close\<close>.  The enumerations of \<open>dsp.h\<close> that are only passed on are numbers.  A number is printed with \<open>sprintf\<close> into
  four bytes: a longer text is the error \<open>Bad_access\<close>.
\<close>

datatype mixer_ctl_type = MIXER_CTL_TYPE_BOOL | MIXER_CTL_TYPE_INT | MIXER_CTL_TYPE_ENUM | MIXER_CTL_TYPE_BYTE | MIXER_CTL_TYPE_OTHER

record 'm mixer_api =
  mx_open :: bool
  mx_by_name :: "string \<Rightarrow> nat option"
  mx_by_num :: "int \<Rightarrow> nat option"
  mx_type :: "nat \<Rightarrow> mixer_ctl_type"
  mx_num_values :: "nat \<Rightarrow> nat"
  mx_get :: "'m \<Rightarrow> nat \<Rightarrow> nat \<Rightarrow> int"
  mx_set :: "'m \<Rightarrow> nat \<Rightarrow> nat \<Rightarrow> int \<Rightarrow> 'm \<times> int"
  mx_set_enum :: "'m \<Rightarrow> nat \<Rightarrow> string \<Rightarrow> 'm \<times> int"
  mx_tlv_rw :: "nat \<Rightarrow> bool"
  mx_tlv_header :: nat
  mx_get_array :: "'m \<Rightarrow> nat \<Rightarrow> int"
  mx_set_array :: "'m \<Rightarrow> nat \<Rightarrow> byte list \<Rightarrow> 'm \<times> int"
  mx_alloc :: "nat \<Rightarrow> bool"

record 'm dsp_state =
  ds_mixer :: 'm
  media_volume_cache :: int
  phone_volume_cache :: int
  media_volume_offset_cache :: int
  phone_volume_offset_cache :: int
  media_variable_max_volume_cache :: int
  bmt_value_cache :: int
  s_media_muted :: bool
  channel_cache :: "dsp_channel_type option"
  s_mute_status :: int

definition MEDIA_VOL_MAX :: int where "MEDIA_VOL_MAX = 39"
definition PHONE_VOL_MAX :: int where "PHONE_VOL_MAX = 39"
definition NAVI_VOL_MAX :: int where "NAVI_VOL_MAX = 39"
definition BMT_VALUE_MAX :: int where "BMT_VALUE_MAX = 20"
definition GEQ_VALUE_MAX :: int where "GEQ_VALUE_MAX = 14"

definition dsp_state0 :: "'m \<Rightarrow> 'm dsp_state" where
  "dsp_state0 m = \<lparr>ds_mixer = m, media_volume_cache = 0, phone_volume_cache = 0, media_volume_offset_cache = 0, phone_volume_offset_cache = 0,
     media_variable_max_volume_cache = MEDIA_VOL_MAX, bmt_value_cache = BMT_VALUE_MAX, s_media_muted = False, channel_cache = None, s_mute_status = 0\<rparr>"

type_synonym 'm dsp_result = "c_error + 'm dsp_state \<times> int"

section \<open>Numbers as text\<close>

definition dec_int :: "int \<Rightarrow> string" where
  "dec_int v = (if v < 0 then CHR ''-'' # dec (nat (- v)) else dec (nat v))"

definition sprintf4 :: "int \<Rightarrow> c_error + string" where
  "sprintf4 v = (if length (dec_int v) < 4 then Inr (dec_int v) else Inl Bad_access)"

text \<open>\<open>strtol\<close> with base 0: the number, and the text after it.  Without a digit the end is the whole text.\<close>

definition digit_value :: "char \<Rightarrow> int" where
  "digit_value c =
     (let n = of_char c :: int
      in if 48 \<le> n \<and> n \<le> 57 then n - 48 else if 97 \<le> n \<and> n \<le> 122 then n - 87 else if 65 \<le> n \<and> n \<le> 90 then n - 55 else 99)"

definition digits_in :: "int \<Rightarrow> string \<Rightarrow> int \<times> string" where
  "digits_in base s =
     (foldl (\<lambda>v c. v * base + digit_value c) 0 (takeWhile (\<lambda>c. digit_value c < base) s), dropWhile (\<lambda>c. digit_value c < base) s)"

definition strtol_abs :: "string \<Rightarrow> (int \<times> string) option" where
  "strtol_abs s =
     (case s of
        c0 # c1 # c2 # cs \<Rightarrow>
          if c0 = CHR ''0'' \<and> c1 \<in> {CHR ''x'', CHR ''X''} \<and> digit_value c2 < 16 then Some (digits_in 16 (c2 # cs))
          else if c0 = CHR ''0'' then Some (digits_in 8 s) else if digit_value c0 < 10 then Some (digits_in 10 s) else None
      | c0 # cs \<Rightarrow> if c0 = CHR ''0'' then Some (digits_in 8 s) else if digit_value c0 < 10 then Some (digits_in 10 s) else None
      | [] \<Rightarrow> None)"

definition strtol0 :: "string \<Rightarrow> int \<times> string" where
  "strtol0 str =
     (let s = dropWhile is_space str; neg = (s \<noteq> [] \<and> hd s = CHR ''-'');
          u = (if s \<noteq> [] \<and> hd s \<in> {CHR ''-'', CHR ''+''} then tl s else s)
      in case strtol_abs u of None \<Rightarrow> (0, str) | Some (v, rest) \<Rightarrow> (if neg then - v else v, rest))"

definition isnumber :: "string \<Rightarrow> bool" where
  "isnumber str \<longleftrightarrow> str \<noteq> [] \<and> snd (strtol0 str) = []"

section \<open>Controls of the mixer\<close>

definition find_ctl :: "'m mixer_api \<Rightarrow> string \<Rightarrow> nat option" where
  "find_ctl api control = (if isnumber control then mx_by_num api (atoi control) else mx_by_name api control)"

text \<open>Reading: the last value of the control ends up in \<open>*value\<close>.  What is printed is left out.\<close>

definition tinymix_detail_control :: "'m mixer_api \<Rightarrow> 'm \<Rightarrow> string \<Rightarrow> int \<Rightarrow> int \<times> int" where
  "tinymix_detail_control api m control val =
     (case find_ctl api control of None \<Rightarrow> (val, ENOENT)
      | Some ctl \<Rightarrow>
          let num_values = mx_num_values api ctl
          in if mx_type api ctl = MIXER_CTL_TYPE_BYTE
             then if \<not> mx_alloc api (num_values + (if mx_tlv_rw api ctl then mx_tlv_header api else 0)) then (val, ENOENT)
                  else if mx_get_array api m ctl < 0 then (val, ENOENT) else (val, 0)
             else (fold (\<lambda>i v. if mx_type api ctl = MIXER_CTL_TYPE_OTHER then v else mx_get api m ctl i) [0..<num_values] val, 0))"

text \<open>Binary controls: two words are written at the front of the buffer whatever its size; a value that is not a byte ends the process.\<close>

fun fill_bytes :: "string list \<Rightarrow> c_error + byte list" where
  "fill_bytes [] = Inr []"
| "fill_bytes (v # vs) =
     (case strtol0 v of (n, rest) \<Rightarrow>
        if rest \<noteq> [] \<or> n < 0 \<or> n > 255 then Inl Exited
        else and_then (fill_bytes vs) (\<lambda>bs. Inr (word_of_int n # bs)))"

definition tlv_words :: "nat \<Rightarrow> byte list" where
  "tlv_words n = [0, 0, 0, 0, of_nat n, of_nat (n div 256), of_nat (n div 65536), of_nat (n div 16777216)]"

definition tinymix_set_byte_ctl :: "'m mixer_api \<Rightarrow> 'm \<Rightarrow> nat \<Rightarrow> string list \<Rightarrow> c_error + 'm" where
  "tinymix_set_byte_ctl api m ctl vals =
     (let tlv_header_size = (if mx_tlv_rw api ctl then mx_tlv_header api else 0);
          tlv_size = length vals + tlv_header_size
      in if \<not> mx_alloc api tlv_size then Inl Exited
         else if tlv_size < 8 then Inl Bad_access
         else and_then (fill_bytes vals) (\<lambda>bs.
                case mx_set_array api m ctl (blit (blit (replicate tlv_size 0) 0 (tlv_words (length vals))) tlv_header_size bs) of (m, ret) \<Rightarrow>
                  if ret < 0 then Inl Exited else Inr m))"

fun set_values :: "'m mixer_api \<Rightarrow> 'm \<Rightarrow> nat \<Rightarrow> (nat \<times> int) list \<Rightarrow> 'm \<times> int" where
  "set_values api m ctl [] = (m, 0)"
| "set_values api m ctl ((i, v) # ivs) =
     (case mx_set api m ctl i v of (m, ret) \<Rightarrow> if ret \<noteq> 0 then (m, EINVAL) else set_values api m ctl ivs)"

definition tinymix_set_value :: "'m mixer_api \<Rightarrow> 'm \<Rightarrow> string \<Rightarrow> string list \<Rightarrow> c_error + 'm \<times> int" where
  "tinymix_set_value api m control vals =
     (case vals of [] \<Rightarrow> Inl Bad_access
      | value0 # others \<Rightarrow>
     (case find_ctl api control of None \<Rightarrow> Inr (m, ENOENT)
      | Some ctl \<Rightarrow>
          if mx_type api ctl = MIXER_CTL_TYPE_BYTE
          then and_then (tinymix_set_byte_ctl api m ctl vals) (\<lambda>m. Inr (m, ENOENT))
          else if isnumber value0
          then if others = [] then Inr (set_values api m ctl (map (\<lambda>i. (i, atoi value0)) [0..<mx_num_values api ctl]))
               else if length vals > mx_num_values api ctl then Inr (m, EINVAL)
               else Inr (set_values api m ctl (zip [0..<length vals] (map atoi vals)))
          else if mx_type api ctl = MIXER_CTL_TYPE_ENUM
          then if others \<noteq> [] then Inr (m, EINVAL)
               else (case mx_set_enum api m ctl value0 of (m, ret) \<Rightarrow> Inr (m, if ret \<noteq> 0 then EINVAL else 0))
          else Inr (m, EINVAL)))"

definition dsp_control :: "'m mixer_api \<Rightarrow> 'm dsp_state \<Rightarrow> string \<Rightarrow> string \<Rightarrow> 'm dsp_result" where
  "dsp_control api st control val =
     (if \<not> mx_open api then Inr (st, ENODEV)
      else and_then (tinymix_set_value api (ds_mixer st) control [val]) (\<lambda>(m, ret). Inr (st\<lparr>ds_mixer := m\<rparr>, ret)))"

definition dsp_get_value :: "'m mixer_api \<Rightarrow> 'm dsp_state \<Rightarrow> string \<Rightarrow> int \<Rightarrow> int \<times> int" where
  "dsp_get_value api st control val =
     (if \<not> mx_open api then (val, ENODEV) else tinymix_detail_control api (ds_mixer st) control val)"

text \<open>The last lines of every function: a negative result becomes -1, everything else 0.\<close>

definition report :: "int \<Rightarrow> int" where
  "report ret = (if ret < 0 then -1 else 0)"

definition put_text :: "'m mixer_api \<Rightarrow> 'm dsp_state \<Rightarrow> string \<Rightarrow> string \<Rightarrow> 'm dsp_result" where
  "put_text api st control s = and_then (dsp_control api st control s) (\<lambda>(st, ret). Inr (st, report ret))"

definition put_number :: "'m mixer_api \<Rightarrow> 'm dsp_state \<Rightarrow> string \<Rightarrow> int \<Rightarrow> 'm dsp_result" where
  "put_number api st control v = and_then (sprintf4 v) (put_text api st control)"

definition put_switch :: "'m mixer_api \<Rightarrow> 'm dsp_state \<Rightarrow> string \<Rightarrow> bool \<Rightarrow> 'm dsp_result" where
  "put_switch api st control b = put_number api st control (of_bool b)"

definition get_number :: "'m mixer_api \<Rightarrow> 'm dsp_state \<Rightarrow> string \<Rightarrow> int \<Rightarrow> int \<times> int" where
  "get_number api st control v = (case dsp_get_value api st control v of (v, ret) \<Rightarrow> (v, report ret))"

definition get_switch :: "'m mixer_api \<Rightarrow> 'm dsp_state \<Rightarrow> string \<Rightarrow> bool \<times> int" where
  "get_switch api st control = (case get_number api st control 0 of (v, ret) \<Rightarrow> (v \<noteq> 0, ret))"

section \<open>Sources and volumes\<close>

definition dspdev_set_audio_balance :: "'m mixer_api \<Rightarrow> 'm dsp_state \<Rightarrow> int \<Rightarrow> 'm dsp_result" where
  "dspdev_set_audio_balance api st source =
     (if source > 2 then Inr (st, - EINVAL) else put_number api st ''Media_Offset'' source)"

fun source_name :: "dsp_channel_type \<Rightarrow> string option" where
  "source_name CHANNEL_MEDIA_MUSIC = Some ''Music''"
| "source_name CHANNEL_MEDIA_TUNER = Some ''Tuner''"
| "source_name CHANNEL_BT_PHONE = Some ''BT''"
| "source_name CHANNEL_CARPLAY_PHONE = Some ''CP Phone''"
| "source_name CHANNEL_TBOX = Some ''Tbox''"
| "source_name CHANNEL_SIRI = Some ''Siri''"
| "source_name CHANNEL_VR = Some ''VR''"
| "source_name CHANNEL_NULL = Some ''NULL''"
| "source_name _ = None"

definition source_balance :: "dsp_channel_type \<Rightarrow> int option" where
  "source_balance ch = (if ch = CHANNEL_MEDIA_MUSIC then Some 0 else if ch = CHANNEL_MEDIA_TUNER then Some 1 else None)"

text \<open>The result of \<open>dsp_control\<close> is positive on failure, so the channel is remembered all the same.\<close>

definition dspdev_set_channel :: "'m mixer_api \<Rightarrow> 'm dsp_state \<Rightarrow> dsp_channel_type \<Rightarrow> 'm dsp_result" where
  "dspdev_set_channel api st channel_type =
     (if channel_cache st = Some channel_type then Inr (st, 0)
      else case source_name channel_type of None \<Rightarrow> Inr (st, EINVAL)
      | Some s \<Rightarrow>
          and_then (dsp_control api st ''Source_Select'' s) (\<lambda>(st, ret).
          and_then (case source_balance channel_type of None \<Rightarrow> Inr (st, 0) | Some b \<Rightarrow> dspdev_set_audio_balance api st b) (\<lambda>(st, _).
            if ret < 0 then Inr (st, -1) else Inr (st\<lparr>channel_cache := Some channel_type\<rparr>, 0))))"

definition dspdev_get_channel :: "'m mixer_api \<Rightarrow> 'm dsp_state \<Rightarrow> dsp_channel_type \<times> int" where
  "dspdev_get_channel api st =
     (case dsp_get_value api st ''Source_Select'' 0 of (native_channel, ret) \<Rightarrow>
        if native_channel = 0 then (CHANNEL_MEDIA_MUSIC, report ret)
        else if native_channel = 1 then (CHANNEL_MEDIA_TUNER, report ret)
        else if native_channel = 2 then (CHANNEL_BT_PHONE, report ret)
        else if native_channel = 3 then (CHANNEL_CARPLAY_PHONE, report ret)
        else if native_channel = 4 then (CHANNEL_TBOX, report ret)
        else if native_channel = 5 then (CHANNEL_SIRI, report ret)
        else if native_channel = 6 then (CHANNEL_VR, report ret)
        else (CHANNEL_MEDIA_MUSIC, EINVAL))"

definition dspdev_set_tuner_mixer :: "'m mixer_api \<Rightarrow> 'm dsp_state \<Rightarrow> bool \<Rightarrow> 'm dsp_result" where
  "dspdev_set_tuner_mixer api st on = Inr (st, 0)"

definition adjust_volume :: "'m dsp_state \<Rightarrow> dsp_channel_type \<Rightarrow> int \<Rightarrow> int" where
  "adjust_volume st channel_type v =
     (if channel_type = CHANNEL_MEDIA_MUSIC \<or> channel_type = CHANNEL_MEDIA_TUNER
      then let v = s32 (v + media_volume_offset_cache st)
           in if v > media_variable_max_volume_cache st then media_variable_max_volume_cache st else v
      else if channel_type = CHANNEL_BT_PHONE
      then if s32 (v + phone_volume_offset_cache st) > PHONE_VOL_MAX then PHONE_VOL_MAX
           else if s32 (v + phone_volume_offset_cache st) \<le> 0 then (if v > 0 then 1 else v)
           else s32 (v + phone_volume_offset_cache st)
      else v)"

definition dspdev_set_volume :: "'m mixer_api \<Rightarrow> 'm dsp_state \<Rightarrow> dsp_channel_type \<Rightarrow> int \<Rightarrow> 'm dsp_result" where
  "dspdev_set_volume api st channel_type v =
     (let v = adjust_volume st channel_type v
      in and_then (sprintf4 v) (\<lambda>s.
           case channel_type of
             CHANNEL_MEDIA_MUSIC \<Rightarrow> put_text api (st\<lparr>media_volume_cache := s32 (v - media_volume_offset_cache st)\<rparr>) ''Media_Vol'' s
           | CHANNEL_MEDIA_TUNER \<Rightarrow> put_text api (st\<lparr>media_volume_cache := s32 (v - media_volume_offset_cache st)\<rparr>) ''Media_Vol'' s
           | CHANNEL_BT_PHONE \<Rightarrow> put_text api (st\<lparr>phone_volume_cache := v\<rparr>) ''Phone_Vol'' s
           | CHANNEL_TBOX \<Rightarrow> put_text api st ''Tbox_Vol'' s
           | CHANNEL_NAVI \<Rightarrow> put_text api st ''Navi_Vol'' s
           | CHANNEL_BEEP \<Rightarrow> put_text api st ''Beep_Vol'' s
           | _ \<Rightarrow> Inr (st, - EINVAL)))"

definition dspdev_get_volume :: "'m mixer_api \<Rightarrow> 'm dsp_state \<Rightarrow> dsp_channel_type \<Rightarrow> int \<Rightarrow> int \<times> int" where
  "dspdev_get_volume api st channel_type v =
     (case channel_type of
        CHANNEL_MEDIA_MUSIC \<Rightarrow> (case get_number api st ''Media_Vol'' v of (v, ret) \<Rightarrow> (s32 (v - media_volume_offset_cache st), ret))
      | CHANNEL_MEDIA_TUNER \<Rightarrow> (case get_number api st ''Media_Vol'' v of (v, ret) \<Rightarrow> (s32 (v - media_volume_offset_cache st), ret))
      | CHANNEL_BT_PHONE \<Rightarrow> (case get_number api st ''Phone_Vol'' v of (v, ret) \<Rightarrow> (s32 (v - phone_volume_offset_cache st), ret))
      | CHANNEL_TBOX \<Rightarrow> get_number api st ''Tbox_Vol'' v
      | _ \<Rightarrow> (case get_number api st ''Media_Vol'' v of (v, ret) \<Rightarrow> (s32 (v - media_volume_offset_cache st), EINVAL)))"

text \<open>The volume with an offset, between 0 and a limit and below the limit for media; for the phone at least 1 unless it is off.\<close>

definition offset_media :: "'m dsp_state \<Rightarrow> int \<Rightarrow> int \<Rightarrow> int" where
  "offset_media st limit v =
     (let current_vol = media_volume_cache st;
          current_vol = (if s32 (current_vol + v) > limit then limit else if s32 (current_vol + v) < 0 then 0 else s32 (current_vol + v))
      in if current_vol > media_variable_max_volume_cache st then media_variable_max_volume_cache st else current_vol)"

definition offset_phone :: "'m dsp_state \<Rightarrow> int \<Rightarrow> int" where
  "offset_phone st v =
     (let current_vol = phone_volume_cache st
      in if s32 (current_vol + v) > PHONE_VOL_MAX then PHONE_VOL_MAX
         else if s32 (current_vol + v) \<le> 0 then (if current_vol > 0 then 1 else current_vol)
         else s32 (current_vol + v))"

definition dspdev_set_volume_offset :: "'m mixer_api \<Rightarrow> 'm dsp_state \<Rightarrow> dsp_channel_type \<Rightarrow> int \<Rightarrow> 'm dsp_result" where
  "dspdev_set_volume_offset api st channel_type v =
     (case channel_type of
        CHANNEL_MEDIA_MUSIC \<Rightarrow> put_number api (st\<lparr>media_volume_offset_cache := v\<rparr>) ''Media_Vol'' (offset_media st MEDIA_VOL_MAX v)
      | CHANNEL_MEDIA_TUNER \<Rightarrow> put_number api (st\<lparr>media_volume_offset_cache := v\<rparr>) ''Media_Vol'' (offset_media st MEDIA_VOL_MAX v)
      | CHANNEL_VR \<Rightarrow> put_number api st ''Navi_Vol'' (offset_media st NAVI_VOL_MAX v)
      | CHANNEL_BT_PHONE \<Rightarrow> put_number api (st\<lparr>phone_volume_offset_cache := v\<rparr>) ''Phone_Vol'' (offset_phone st v)
      | _ \<Rightarrow> Inr (st, EINVAL))"

definition dspdev_get_volume_offset :: "'m dsp_state \<Rightarrow> dsp_channel_type \<Rightarrow> int \<times> int" where
  "dspdev_get_volume_offset st channel_type = (media_volume_offset_cache st, 0)"

definition dspdev_set_variable_max_volume :: "'m dsp_state \<Rightarrow> dsp_channel_type \<Rightarrow> int \<Rightarrow> 'm dsp_result" where
  "dspdev_set_variable_max_volume st channel_type v = Inr (st\<lparr>media_variable_max_volume_cache := v\<rparr>, 0)"

definition dspdev_get_variable_max_volume :: "'m dsp_state \<Rightarrow> dsp_channel_type \<Rightarrow> int \<times> int" where
  "dspdev_get_variable_max_volume st channel_type = (media_variable_max_volume_cache st, 0)"

definition dspdev_get_max_volume :: "dsp_channel_type \<Rightarrow> int \<times> int" where
  "dspdev_get_max_volume channel_type = (MEDIA_VOL_MAX, 0)"

section \<open>Switches\<close>

definition dspdev_set_music_mute :: "'m mixer_api \<Rightarrow> 'm dsp_state \<Rightarrow> bool \<Rightarrow> 'm dsp_result" where
  "dspdev_set_music_mute api st mute = (if s_media_muted st then Inr (st, 0) else put_switch api st ''Media_Mute'' mute)"

definition dspdev_set_media_mute :: "'m mixer_api \<Rightarrow> 'm dsp_state \<Rightarrow> bool \<Rightarrow> 'm dsp_result" where
  "dspdev_set_media_mute api st mute = put_switch api (st\<lparr>s_media_muted := mute\<rparr>) ''Media_Mute'' mute"

definition dspdev_get_music_mute :: "'m mixer_api \<Rightarrow> 'm dsp_state \<Rightarrow> bool \<times> int" where
  "dspdev_get_music_mute api st = get_switch api st ''Media_Mute''"

definition dspdev_set_navi_mute :: "'m mixer_api \<Rightarrow> 'm dsp_state \<Rightarrow> bool \<Rightarrow> 'm dsp_result" where
  "dspdev_set_navi_mute api st b = put_switch api st ''Navi_Mute'' b"

definition dspdev_get_navi_mute :: "'m mixer_api \<Rightarrow> 'm dsp_state \<Rightarrow> bool \<times> int" where
  "dspdev_get_navi_mute api st = get_switch api st ''Navi_Mute''"

definition dspdev_set_tbox_mute :: "'m mixer_api \<Rightarrow> 'm dsp_state \<Rightarrow> bool \<Rightarrow> 'm dsp_result" where
  "dspdev_set_tbox_mute api st b = put_switch api st ''Tbox_Mute'' b"

definition dspdev_get_tbox_mute :: "'m mixer_api \<Rightarrow> 'm dsp_state \<Rightarrow> bool \<times> int" where
  "dspdev_get_tbox_mute api st = get_switch api st ''Tbox_Mute''"

definition dspdev_set_beep_mute :: "'m mixer_api \<Rightarrow> 'm dsp_state \<Rightarrow> bool \<Rightarrow> 'm dsp_result" where
  "dspdev_set_beep_mute api st b = put_switch api st ''Beep_Mute'' b"

definition dspdev_get_beep_mute :: "'m mixer_api \<Rightarrow> 'm dsp_state \<Rightarrow> bool \<times> int" where
  "dspdev_get_beep_mute api st = get_switch api st ''Beep_Mute''"

definition dspdev_set_phone_mute :: "'m mixer_api \<Rightarrow> 'm dsp_state \<Rightarrow> bool \<Rightarrow> 'm dsp_result" where
  "dspdev_set_phone_mute api st b = put_switch api st ''Phone_Mute'' b"

definition dspdev_get_phone_mute :: "'m mixer_api \<Rightarrow> 'm dsp_state \<Rightarrow> bool \<times> int" where
  "dspdev_get_phone_mute api st = get_switch api st ''Phone_Mute''"

definition dspdev_set_tuner_mute :: "'m mixer_api \<Rightarrow> 'm dsp_state \<Rightarrow> bool \<Rightarrow> 'm dsp_result" where
  "dspdev_set_tuner_mute api st b = put_switch api st ''Tuner_Mute'' b"

definition dspdev_get_tuner_mute :: "'m mixer_api \<Rightarrow> 'm dsp_state \<Rightarrow> bool \<times> int" where
  "dspdev_get_tuner_mute api st = get_switch api st ''Tuner_Mute''"

definition dspdev_set_mic_mute :: "'m mixer_api \<Rightarrow> 'm dsp_state \<Rightarrow> bool \<Rightarrow> 'm dsp_result" where
  "dspdev_set_mic_mute api st b = put_switch api st ''MIC_Mute'' b"

definition dspdev_get_mic_mute :: "'m mixer_api \<Rightarrow> 'm dsp_state \<Rightarrow> bool \<times> int" where
  "dspdev_get_mic_mute api st = get_switch api st ''MIC_Mute''"

definition dspdev_set_mcu_app_mic_test :: "'m mixer_api \<Rightarrow> 'm dsp_state \<Rightarrow> bool \<Rightarrow> 'm dsp_result" where
  "dspdev_set_mcu_app_mic_test api st b = put_switch api st ''DIAG_MIC_Test'' b"

definition dspdev_get_mcu_app_mic_test :: "'m mixer_api \<Rightarrow> 'm dsp_state \<Rightarrow> bool \<times> int" where
  "dspdev_get_mcu_app_mic_test api st = get_switch api st ''DIAG_MIC_Test''"

definition dspdev_set_loudness :: "'m mixer_api \<Rightarrow> 'm dsp_state \<Rightarrow> bool \<Rightarrow> 'm dsp_result" where
  "dspdev_set_loudness api st b = put_switch api st ''Loudness_SW'' b"

definition dspdev_get_loudness :: "'m mixer_api \<Rightarrow> 'm dsp_state \<Rightarrow> bool \<times> int" where
  "dspdev_get_loudness api st = get_switch api st ''Loudness_SW''"

definition dspdev_set_dtcs_status :: "'m mixer_api \<Rightarrow> 'm dsp_state \<Rightarrow> bool \<Rightarrow> 'm dsp_result" where
  "dspdev_set_dtcs_status api st b = put_switch api st ''DTCS SW'' b"

definition dspdev_get_dtcs_status :: "'m mixer_api \<Rightarrow> 'm dsp_state \<Rightarrow> bool \<times> int" where
  "dspdev_get_dtcs_status api st = get_switch api st ''DTCS SW''"

definition dspdev_set_ale_status :: "'m mixer_api \<Rightarrow> 'm dsp_state \<Rightarrow> bool \<Rightarrow> 'm dsp_result" where
  "dspdev_set_ale_status api st b = put_switch api st ''ALE A SW'' b"

definition dspdev_get_ale_status :: "'m mixer_api \<Rightarrow> 'm dsp_state \<Rightarrow> bool \<times> int" where
  "dspdev_get_ale_status api st = get_switch api st ''ALE A SW''"

definition dspdev_set_secondary_mono_all :: "'m mixer_api \<Rightarrow> 'm dsp_state \<Rightarrow> bool \<Rightarrow> 'm dsp_result" where
  "dspdev_set_secondary_mono_all api st b = put_switch api st ''Secondary_Mono_All'' b"

definition dspdev_get_secondary_mono_all :: "'m mixer_api \<Rightarrow> 'm dsp_state \<Rightarrow> bool \<times> int" where
  "dspdev_get_secondary_mono_all api st = get_switch api st ''Secondary_Mono_All''"

definition dspdev_set_secondary_steoro_all :: "'m mixer_api \<Rightarrow> 'm dsp_state \<Rightarrow> bool \<Rightarrow> 'm dsp_result" where
  "dspdev_set_secondary_steoro_all api st b = put_switch api st ''Secondary_Steoro_All'' b"

definition dspdev_get_secondary_steoro_all :: "'m mixer_api \<Rightarrow> 'm dsp_state \<Rightarrow> bool \<times> int" where
  "dspdev_get_secondary_steoro_all api st = get_switch api st ''Secondary_Steoro_All''"

definition dspdev_set_navi_mono_all :: "'m mixer_api \<Rightarrow> 'm dsp_state \<Rightarrow> bool \<Rightarrow> 'm dsp_result" where
  "dspdev_set_navi_mono_all api st b = put_switch api st ''Navi_Mono_All'' b"

definition dspdev_get_navi_mono_all :: "'m mixer_api \<Rightarrow> 'm dsp_state \<Rightarrow> bool \<times> int" where
  "dspdev_get_navi_mono_all api st = get_switch api st ''Navi_Mono_All''"

definition dspdev_set_phone_mono_all :: "'m mixer_api \<Rightarrow> 'm dsp_state \<Rightarrow> bool \<Rightarrow> 'm dsp_result" where
  "dspdev_set_phone_mono_all api st b = put_switch api st ''Phone_Mono_All'' b"

definition dspdev_get_phone_mono_all :: "'m mixer_api \<Rightarrow> 'm dsp_state \<Rightarrow> bool \<times> int" where
  "dspdev_get_phone_mono_all api st = get_switch api st ''Phone_Mono_All''"

definition dspdev_set_amplifier_mute :: "'m mixer_api \<Rightarrow> 'm dsp_state \<Rightarrow> bool \<Rightarrow> 'm dsp_result" where
  "dspdev_set_amplifier_mute api st b = put_switch api st ''PA_Mute'' b"

definition dspdev_open_external_amp_test :: "'m mixer_api \<Rightarrow> 'm dsp_state \<Rightarrow> bool \<Rightarrow> 'm dsp_result" where
  "dspdev_open_external_amp_test api st b = put_switch api st ''DIAG_AM8_EXT_ADC'' b"

definition dspdev_set_mcu_reset_dsp :: "'m mixer_api \<Rightarrow> 'm dsp_state \<Rightarrow> bool \<Rightarrow> 'm dsp_result" where
  "dspdev_set_mcu_reset_dsp api st b = put_switch api st ''MCU_Reset_DSP'' b"

definition dspdev_set_diag_sound_effect_off :: "'m mixer_api \<Rightarrow> 'm dsp_state \<Rightarrow> bool \<Rightarrow> 'm dsp_result" where
  "dspdev_set_diag_sound_effect_off api st b = put_switch api st ''DIAG_Sound_Effect_Off'' b"

section \<open>Numbers\<close>

definition dspdev_set_mic_volume :: "'m mixer_api \<Rightarrow> 'm dsp_state \<Rightarrow> int \<Rightarrow> 'm dsp_result" where
  "dspdev_set_mic_volume api st v = put_number api st ''Mic_vol'' v"

definition dspdev_get_mic_volume :: "'m mixer_api \<Rightarrow> 'm dsp_state \<Rightarrow> int \<Rightarrow> int \<times> int" where
  "dspdev_get_mic_volume api st v = get_number api st ''Mic_vol'' 2"

definition dspdev_set_sound_effect :: "'m mixer_api \<Rightarrow> 'm dsp_state \<Rightarrow> int \<Rightarrow> 'm dsp_result" where
  "dspdev_set_sound_effect api st v = (if v > 3 then Inr (st, - EINVAL) else put_number api st ''Sound_Mode'' v)"

definition dspdev_get_sound_effect :: "'m mixer_api \<Rightarrow> 'm dsp_state \<Rightarrow> int \<Rightarrow> int \<times> int" where
  "dspdev_get_sound_effect api st v = get_number api st ''Sound_Mode'' 0"

definition dspdev_set_dtcs_mode :: "'m mixer_api \<Rightarrow> 'm dsp_state \<Rightarrow> int \<Rightarrow> 'm dsp_result" where
  "dspdev_set_dtcs_mode api st v = put_number api st ''DTCS MODE SW'' v"

definition dspdev_get_dtcs_mode :: "'m mixer_api \<Rightarrow> 'm dsp_state \<Rightarrow> int \<Rightarrow> int \<times> int" where
  "dspdev_get_dtcs_mode api st v = get_number api st ''DTCS MODE SW'' v"

definition dspdev_set_bex_status :: "'m mixer_api \<Rightarrow> 'm dsp_state \<Rightarrow> int \<Rightarrow> 'm dsp_result" where
  "dspdev_set_bex_status api st v = put_number api st ''BEX SW'' v"

definition dspdev_get_bex_status :: "'m mixer_api \<Rightarrow> 'm dsp_state \<Rightarrow> int \<Rightarrow> int \<times> int" where
  "dspdev_get_bex_status api st v = get_number api st ''BEX SW'' v"

definition dspdev_set_tts_status :: "'m mixer_api \<Rightarrow> 'm dsp_state \<Rightarrow> int \<Rightarrow> 'm dsp_result" where
  "dspdev_set_tts_status api st v = put_number api st ''TTS SW'' v"

definition dspdev_get_tts_status :: "'m mixer_api \<Rightarrow> 'm dsp_state \<Rightarrow> int \<Rightarrow> int \<times> int" where
  "dspdev_get_tts_status api st v = get_number api st ''TTS SW'' v"

definition dspdev_set_vcworkmode :: "'m mixer_api \<Rightarrow> 'm dsp_state \<Rightarrow> int \<Rightarrow> 'm dsp_result" where
  "dspdev_set_vcworkmode api st v = put_number api st ''VCWorkMode'' v"

definition dspdev_get_vcworkmode :: "'m mixer_api \<Rightarrow> 'm dsp_state \<Rightarrow> int \<Rightarrow> int \<times> int" where
  "dspdev_get_vcworkmode api st v = get_number api st ''VCWorkMode'' v"

definition dspdev_set_vcfunc :: "'m mixer_api \<Rightarrow> 'm dsp_state \<Rightarrow> int \<Rightarrow> 'm dsp_result" where
  "dspdev_set_vcfunc api st v = put_number api st ''VCFunc'' v"

definition dspdev_get_vcfunc :: "'m mixer_api \<Rightarrow> 'm dsp_state \<Rightarrow> int \<Rightarrow> int \<times> int" where
  "dspdev_get_vcfunc api st v = get_number api st ''VCFunc'' v"

definition dspdev_set_vcvolume :: "'m mixer_api \<Rightarrow> 'm dsp_state \<Rightarrow> int \<Rightarrow> 'm dsp_result" where
  "dspdev_set_vcvolume api st v = put_number api st ''VCVolume'' v"

definition dspdev_get_vcvolume :: "'m mixer_api \<Rightarrow> 'm dsp_state \<Rightarrow> int \<Rightarrow> int \<times> int" where
  "dspdev_get_vcvolume api st v = get_number api st ''VCVolume'' v"

definition dspdev_set_pa_pwm_frequency :: "'m mixer_api \<Rightarrow> 'm dsp_state \<Rightarrow> int \<Rightarrow> 'm dsp_result" where
  "dspdev_set_pa_pwm_frequency api st v = put_number api st ''PA_pwm_frequency'' v"

definition dspdev_get_pa_pwm_frequency :: "'m mixer_api \<Rightarrow> 'm dsp_state \<Rightarrow> int \<Rightarrow> int \<times> int" where
  "dspdev_get_pa_pwm_frequency api st v = get_number api st ''PA_pwm_frequency'' v"

definition dspdev_set_pa_spread_spectrum :: "'m mixer_api \<Rightarrow> 'm dsp_state \<Rightarrow> int \<Rightarrow> 'm dsp_result" where
  "dspdev_set_pa_spread_spectrum api st v = put_number api st ''PA_spread_spectrum'' v"

definition dspdev_get_pa_spread_spectrum :: "'m mixer_api \<Rightarrow> 'm dsp_state \<Rightarrow> int \<Rightarrow> int \<times> int" where
  "dspdev_get_pa_spread_spectrum api st v = get_number api st ''PA_spread_spectrum'' v"

definition dspdev_set_pa_am_frequency :: "'m mixer_api \<Rightarrow> 'm dsp_state \<Rightarrow> int \<Rightarrow> 'm dsp_result" where
  "dspdev_set_pa_am_frequency api st v = put_number api st ''PA_AM_frequency'' v"

definition dspdev_get_pa_am_frequency :: "'m mixer_api \<Rightarrow> 'm dsp_state \<Rightarrow> int \<Rightarrow> int \<times> int" where
  "dspdev_get_pa_am_frequency api st v = get_number api st ''PA_AM_frequency'' v"

definition dspdev_set_sound_stage :: "'m mixer_api \<Rightarrow> 'm dsp_state \<Rightarrow> int \<Rightarrow> 'm dsp_result" where
  "dspdev_set_sound_stage api st v = (if v > 2 then Inr (st, - EINVAL) else put_number api st ''Sound_Stage'' v)"

definition dspdev_get_sound_stage :: "'m mixer_api \<Rightarrow> 'm dsp_state \<Rightarrow> int \<Rightarrow> int \<times> int" where
  "dspdev_get_sound_stage api st v = get_number api st ''Sound_Stage'' 1"

text \<open>A wrong type is logged and sent all the same.\<close>

definition dspdev_set_ecnr_type :: "'m mixer_api \<Rightarrow> 'm dsp_state \<Rightarrow> int \<Rightarrow> 'm dsp_result" where
  "dspdev_set_ecnr_type api st v = put_number api st ''Ecnr_Type'' v"

definition dspdev_get_ecnr_type :: "'m mixer_api \<Rightarrow> 'm dsp_state \<Rightarrow> int \<Rightarrow> int \<times> int" where
  "dspdev_get_ecnr_type api st v = get_number api st ''Ecnr_Type'' 0"

definition dspdev_get_dsp_firmware_version :: "'m mixer_api \<Rightarrow> 'm dsp_state \<Rightarrow> int \<Rightarrow> int \<times> int" where
  "dspdev_get_dsp_firmware_version api st v = get_number api st ''Get_Firmware_Version'' v"

definition bmt_control :: "int \<Rightarrow> string option" where
  "bmt_control bmt_type = (if bmt_type = 0 then Some ''Bass'' else if bmt_type = 1 then Some ''Middle'' else if bmt_type = 2 then Some ''Treble'' else None)"

definition dspdev_set_bass_mid_treble :: "'m mixer_api \<Rightarrow> 'm dsp_state \<Rightarrow> int \<Rightarrow> int \<Rightarrow> 'm dsp_result" where
  "dspdev_set_bass_mid_treble api st bmt_type v =
     and_then (sprintf4 (if v > bmt_value_cache st then bmt_value_cache st else v)) (\<lambda>s.
       case bmt_control bmt_type of None \<Rightarrow> Inr (st, EINVAL) | Some c \<Rightarrow> put_text api st c s)"

definition dspdev_get_bass_mid_treble :: "'m mixer_api \<Rightarrow> 'm dsp_state \<Rightarrow> int \<Rightarrow> int \<Rightarrow> int \<times> int" where
  "dspdev_get_bass_mid_treble api st bmt_type v =
     (case bmt_control bmt_type of None \<Rightarrow> (v, - EINVAL) | Some c \<Rightarrow> get_number api st c v)"

definition geq_control :: "int \<Rightarrow> string option" where
  "geq_control geq_type =
     (if geq_type = 0 then Some ''Sony_Geq1'' else if geq_type = 1 then Some ''Sony_Geq2'' else if geq_type = 2 then Some ''Sony_Geq3''
      else if geq_type = 3 then Some ''Sony_Geq4'' else if geq_type = 4 then Some ''Sony_Geq5'' else None)"

definition dspdev_set_geq :: "'m mixer_api \<Rightarrow> 'm dsp_state \<Rightarrow> int \<Rightarrow> int \<Rightarrow> 'm dsp_result" where
  "dspdev_set_geq api st geq_type v =
     and_then (sprintf4 (if v > GEQ_VALUE_MAX then GEQ_VALUE_MAX else v)) (\<lambda>s.
       case geq_control geq_type of None \<Rightarrow> Inr (st, -1) | Some c \<Rightarrow> put_text api st c s)"

definition dspdev_get_geq :: "'m mixer_api \<Rightarrow> 'm dsp_state \<Rightarrow> int \<Rightarrow> int \<Rightarrow> int \<times> int" where
  "dspdev_get_geq api st geq_type v = (case geq_control geq_type of None \<Rightarrow> (v, -1) | Some c \<Rightarrow> get_number api st c v)"

text \<open>The result of the first of two calls is not looked at.\<close>

definition dspdev_set_sound_field :: "'m mixer_api \<Rightarrow> 'm dsp_state \<Rightarrow> int \<Rightarrow> int \<Rightarrow> 'm dsp_result" where
  "dspdev_set_sound_field api st balance fader =
     and_then (sprintf4 balance) (\<lambda>b. and_then (sprintf4 fader) (\<lambda>f.
     and_then (dsp_control api st ''Balance'' b) (\<lambda>(st, _). put_text api st ''Fader'' f)))"

definition dspdev_get_sound_field :: "'m mixer_api \<Rightarrow> 'm dsp_state \<Rightarrow> int \<Rightarrow> int \<Rightarrow> int \<times> int \<times> int" where
  "dspdev_get_sound_field api st balance fader =
     (case dsp_get_value api st ''Balance'' balance of (b, _) \<Rightarrow> (case get_number api st ''Fader'' fader of (f, ret) \<Rightarrow> (b, f, ret)))"

definition staggering_control :: "int \<Rightarrow> string option" where
  "staggering_control index =
     (if index = 0 then Some ''PA_phase_staggering_ch1'' else if index = 1 then Some ''PA_phase_staggering_ch2''
      else if index = 2 then Some ''PA_phase_staggering_ch3'' else if index = 3 then Some ''PA_phase_staggering_ch4'' else None)"

definition dspdev_set_pa_phase_staggering_ch :: "'m mixer_api \<Rightarrow> 'm dsp_state \<Rightarrow> int \<Rightarrow> int \<Rightarrow> 'm dsp_result" where
  "dspdev_set_pa_phase_staggering_ch api st index v =
     and_then (sprintf4 v) (\<lambda>s. case staggering_control index of None \<Rightarrow> Inr (st, EINVAL) | Some c \<Rightarrow> put_text api st c s)"

definition dspdev_get_pa_phase_staggering_ch :: "'m mixer_api \<Rightarrow> 'm dsp_state \<Rightarrow> int \<Rightarrow> int \<Rightarrow> int \<times> int" where
  "dspdev_get_pa_phase_staggering_ch api st index v =
     (case staggering_control index of None \<Rightarrow> (v, EINVAL) | Some c \<Rightarrow> get_number api st c v)"

text \<open>The status is one bit per loudspeaker in an \<open>uint8_t\<close>.\<close>

definition dspdev_set_sound_channel_mute :: "'m mixer_api \<Rightarrow> 'm dsp_state \<Rightarrow> int \<Rightarrow> bool \<Rightarrow> 'm dsp_result" where
  "dspdev_set_sound_channel_mute api st sound_channel mute =
     (if sound_channel < 0 \<or> sound_channel > 3 then Inr (st, - EINVAL)
      else
        let b = push_bit (nat sound_channel) 1 :: int;
            status = (if mute then s_mute_status st OR (b AND 15) else s_mute_status st AND (b XOR 15))
        in put_number api (st\<lparr>s_mute_status := status\<rparr>) ''Test_Channel_Mute'' status)"

definition dspdev_set_mcu_app_speaker_test :: "'m mixer_api \<Rightarrow> 'm dsp_state \<Rightarrow> int \<Rightarrow> bool \<Rightarrow> 'm dsp_result" where
  "dspdev_set_mcu_app_speaker_test api st channel on_off =
     and_then (sprintf4 channel) (\<lambda>s_channel_value.
     and_then (dsp_control api st ''DIAG_PDC_Vol'' ''42'') (\<lambda>(st, _).
     and_then (dsp_control api st ''DIAG_PDC_Channel'' s_channel_value) (\<lambda>(st, _).
       put_number api st ''DIAG_PDC_Type'' (if on_off then 1 else 0))))"

definition dspdev_get_mcu_app_speaker_test :: "'m mixer_api \<Rightarrow> 'm dsp_state \<Rightarrow> int \<Rightarrow> bool \<times> int" where
  "dspdev_get_mcu_app_speaker_test api st channel = get_switch api st ''DIAG_PDC_Type''"

section \<open>Initialisation\<close>

text \<open>
  The configuration of the car: the text of the property is read up to five times, once a second, until it is long enough; \<open>tries\<close> are
  the texts, \<open>second\<close> the second property, \<open>part\<close> the part number.  The build of this board defines no platform.
\<close>

datatype dsp_platform = PLATFORM_CHERY_COMMERCIAL | PLATFORM_CHERY_AUTOMOBILE | PLATFORM_GAC_TRUMPCHI | NO_PLATFORM

definition strtol_base :: "int \<Rightarrow> string \<Rightarrow> int" where
  "strtol_base base str =
     (let s = dropWhile is_space str; u = (if s \<noteq> [] \<and> hd s \<in> {CHR ''-'', CHR ''+''} then tl s else s)
      in if s \<noteq> [] \<and> hd s = CHR ''-'' then - fst (digits_in base u) else fst (digits_in base u))"

definition downline_value :: "dsp_platform \<Rightarrow> string \<Rightarrow> string \<Rightarrow> string \<Rightarrow> int option" where
  "downline_value platform second part buf =
     (case platform of
        PLATFORM_CHERY_COMMERCIAL \<Rightarrow> if length buf \<ge> 13 then Some (if buf \<noteq> part then 128 else 0) else None
      | PLATFORM_CHERY_AUTOMOBILE \<Rightarrow>
          if length buf > 7
          then let byte7 = strtol_base 16 [buf ! 6, buf ! 7] * 8
               in Some (if length second > 0 then byte7 OR (strtol_base 8 [second ! 0] * 8 AND 112) else byte7)
          else None
      | PLATFORM_GAC_TRUMPCHI \<Rightarrow> if length buf > 16 then Some (strtol_base 16 [buf ! 14, buf ! 15]) else None
      | NO_PLATFORM \<Rightarrow> Some (-1))"

definition get_downline_config :: "dsp_platform \<Rightarrow> string \<Rightarrow> string \<Rightarrow> (nat \<Rightarrow> string) \<Rightarrow> int" where
  "get_downline_config platform second part tries =
     (case find (\<lambda>t. downline_value platform second part (tries t) \<noteq> None) [0..<5] of
        None \<Rightarrow> -1 | Some t \<Rightarrow> the (downline_value platform second part (tries t)))"

text \<open>The sound is cut into buffers of the device; a buffer of size 0 would never end.\<close>

partial_function (option) play_chunks :: "nat \<Rightarrow> 'a list \<Rightarrow> 'a list list option" where
  "play_chunks frame_size buffer =
     (if buffer = [] then Some []
      else Option.bind (play_chunks frame_size (drop frame_size buffer)) (\<lambda>cs. Some (take frame_size buffer # cs)))"

text \<open>Both devices get the same buffers; the result has what each got.\<close>

definition play_sound :: "bool \<Rightarrow> bool \<Rightarrow> nat \<Rightarrow> 'a list \<Rightarrow> (int \<times> 'a list list) option" where
  "play_sound ready1 ready2 frame_size sound_array =
     (if \<not> ready1 \<or> \<not> ready2 then Some (-1, []) else map_option (\<lambda>cs. (0, cs)) (play_chunks frame_size sound_array))"

definition init_settings :: "int \<Rightarrow> int \<times> int \<times> int" where
  "init_settings downline_config =
     (if downline_config = -1 then (0, 0, 0)
      else (drop_bit 7 downline_config AND 1, drop_bit 4 downline_config AND 7, downline_config AND 15))"

text \<open>The blank sound that is played between the volumes has no effect on the mixer.\<close>

definition dsp_init :: "'m mixer_api \<Rightarrow> dsp_platform \<Rightarrow> string \<Rightarrow> string \<Rightarrow> (nat \<Rightarrow> string) \<Rightarrow> 'm dsp_state \<Rightarrow> 'm dsp_result" where
  "dsp_init api platform second part tries st =
     (case init_settings (get_downline_config platform second part tries) of (external_pa, speaker_num, speaker_type) \<Rightarrow>
        and_then (put_number api st ''ExtPa_Config'' external_pa) (\<lambda>(st, _).
        and_then (put_number api st ''Speaker_Num'' speaker_num) (\<lambda>(st, _).
        and_then (put_number api st ''Speaker_Type'' speaker_type) (\<lambda>(st, _).
        and_then (dsp_control api st ''Media_Mute'' ''0'') (\<lambda>(st, _).
          if platform = PLATFORM_CHERY_COMMERCIAL \<or> platform = PLATFORM_CHERY_AUTOMOBILE
          then and_then (dsp_control api st ''Navi_Vol'' ''0'') (\<lambda>(st, _).
               and_then (dsp_control api st ''Beep_Vol'' ''0'') (\<lambda>(st, _).
               and_then (dsp_control api st ''Navi_Vol'' ''120'') (\<lambda>(st, _).
               and_then (dsp_control api st ''Beep_Vol'' ''36'') (\<lambda>(st, _). Inr (st, 0)))))
          else Inr (st, 0))))))"

text \<open>Every buffer size above 0 ends, and all of the sound is played in order.\<close>

lemma play_chunks_all: "0 < frame_size \<Longrightarrow> \<exists>cs. play_chunks frame_size buffer = Some cs \<and> concat cs = buffer"
proof (induction buffer rule: length_induct)
  case (1 buffer)
  show ?case
  proof (cases "buffer = []")
    case False
    then obtain cs where "play_chunks frame_size (drop frame_size buffer) = Some cs" "concat cs = drop frame_size buffer"
      using 1 by (metis diff_less length_drop length_greater_0_conv)
    then show ?thesis using False by (subst play_chunks.simps) simp
  qed (simp add: play_chunks.simps)
qed

end
