(* ===== verification/Dsp_System.thy ===== *)
theory Dsp_System
  imports Dsp_Control
begin

text \<open>
  What the functions of \<open>dsp.c\<close> guarantee over a mixer that keeps what is written to it.  The laws of the mixer are the hypothesis
  \<open>mixer_law\<close>; the pairs of functions that set and read a switch share the contract \<open>dsp_switch\<close>.
\<close>

section \<open>Text of numbers\<close>

lemma dec_length_le: "n < 10 ^ Suc d \<Longrightarrow> length (dec n) \<le> Suc d"
proof (induction d arbitrary: n)
  case 0
  then show ?case by (subst dec.simps) simp
next
  case (Suc d)
  show ?case
  proof (cases "n < 10")
    case True
    then show ?thesis by (subst dec.simps) simp
  next
    case False
    have "n div 10 < 10 ^ Suc d" using Suc.prems by (simp add: less_mult_imp_div_less mult.commute)
    then show ?thesis using Suc.IH [of "n div 10"] False by (subst dec.simps) simp
  qed
qed

lemma dec_length_gt: "10 ^ d \<le> n \<Longrightarrow> d < length (dec n)"
proof (induction d arbitrary: n)
  case 0
  then show ?case using dec_digits [of n] by simp
next
  case (Suc d)
  have "\<not> n < 10" using Suc.prems by (simp add: leD order.trans [of 10 "10 * 10 ^ d"])
  moreover have "10 ^ d \<le> n div 10" using Suc.prems by (simp add: less_eq_div_iff_mult_less_eq mult.commute)
  ultimately show ?case using Suc.IH [of "n div 10"] by (subst dec.simps) simp
qed

lemma dec_length: "length (dec n) < 4 \<longleftrightarrow> n < 1000" "length (dec n) < 3 \<longleftrightarrow> n < 100"
  using dec_length_le [of n 2] dec_length_gt [of 3 n] dec_length_le [of n 1] dec_length_gt [of 2 n] by fastforce+

lemma sprintf4_fits: "sprintf4 v = (if -100 < v \<and> v < 1000 then Inr (dec_int v) else Inl Bad_access)"
proof -
  have "length (dec_int v) < 4 \<longleftrightarrow> -100 < v \<and> v < 1000"
    using dec_length [of "nat v"] dec_length [of "nat (- v)"] by (auto simp: dec_int_def)
  then show ?thesis by (simp add: sprintf4_def)
qed

lemma digit_value_digit: "is_digit c \<Longrightarrow> digit_value c < 10"
proof -
  assume "is_digit c"
  then have "48 \<le> (of_char c :: int)" "(of_char c :: int) \<le> 57"
    unfolding is_digit_def using of_nat_of_char [where 'a = int, of c] by linarith+
  then show ?thesis by (simp add: digit_value_def Let_def)
qed

lemma zero_char: "char_of (48 :: nat) = CHR ''0''"
  by code_simp

lemma dec_hd: "0 < n \<Longrightarrow> hd (dec n) \<noteq> CHR ''0''"
proof (induction n rule: dec.induct)
  case (1 n)
  have "char_of (48 + n) \<noteq> CHR ''0''" if "n < 10"
  proof
    assume e: "char_of (48 + n) = CHR ''0''"
    have "(of_char (char_of (48 + n)) :: nat) = 48" unfolding e by simp
    then show False using digit_char [OF that] 1(2) by linarith
  qed
  then show ?case using 1 dec_digits [of "n div 10"] by (subst dec.simps) auto
qed

lemma strtol_abs_plain: "s \<noteq> [] \<Longrightarrow> hd s \<noteq> CHR ''0'' \<Longrightarrow> digit_value (hd s) < 10 \<Longrightarrow> strtol_abs s = Some (digits_in 10 s)"
  by (auto simp: strtol_abs_def split: list.split)

lemma strtol_abs_dec: "\<exists>v. strtol_abs (dec n) = Some (v, [])"
proof (cases "n = 0")
  case True
  then have "dec n = ''0''" by (simp add: dec.simps zero_char)
  then show ?thesis by (simp add: strtol_abs_def digits_in_def digit_value_def)
next
  case False
  have d: "dec n \<noteq> []" "\<forall>c\<in>set (dec n). digit_value c < 10" using dec_digits [of n] digit_value_digit by blast+
  have "strtol_abs (dec n) = Some (digits_in 10 (dec n))"
    using False d dec_hd [of n] by (intro strtol_abs_plain) auto
  moreover have "snd (digits_in 10 (dec n)) = []" using d by (simp add: digits_in_def dropWhile_eq_Nil_conv)
  ultimately show ?thesis by (cases "digits_in 10 (dec n)") auto
qed

lemma isnumber_dec_int: "isnumber (dec_int v)"
proof -
  have first: "\<exists>c cs. dec n = c # cs \<and> is_digit c" for n using dec_digits [of n] by (cases "dec n") auto
  obtain c cs where c: "dec (nat v) = c # cs" "is_digit c" using first by blast
  obtain x where x: "strtol_abs (dec (nat v)) = Some (x, [])" using strtol_abs_dec by blast
  obtain y where y: "strtol_abs (dec (nat (- v))) = Some (y, [])" using strtol_abs_dec by blast
  have minus: "\<not> is_space (CHR ''-'')" by (simp add: is_space_def)
  show ?thesis using x y c digit_not_special [OF c(2)] minus
    by (auto simp: isnumber_def dec_int_def strtol0_def Let_def)
qed

lemma atoi_dec_int: "atoi (dec_int v) = v"
proof (cases "v < 0")
  case True
  have "takeWhile is_digit (dec (nat (- v))) = dec (nat (- v))" using dec_digits by (simp add: takeWhile_eq_all_conv)
  moreover have "\<not> is_space (CHR ''-'')" by (simp add: is_space_def)
  ultimately show ?thesis using True by (simp add: atoi_def dec_int_def digits_val_dec Let_def del: takeWhile_eq_all_conv)
next
  case False
  then show ?thesis using atoi_dec [of "nat v"] by (simp add: dec_int_def)
qed


section \<open>The mixer\<close>

text \<open>
  A mixer that can be opened: a value a control accepts is stored in the place it is written to and nowhere else, and a control has
  one name.
\<close>

definition mixer_law :: "'m mixer_api \<Rightarrow> (nat \<Rightarrow> int \<Rightarrow> bool) \<Rightarrow> bool" where
  "mixer_law api acc \<longleftrightarrow> mx_open api \<and>
     (\<forall>m k i v. acc k v \<and> i < mx_num_values api k \<longrightarrow> snd (mx_set api m k i v) = 0 \<and>
        (\<forall>k' i'. mx_get api (fst (mx_set api m k i v)) k' i' = (if k' = k \<and> i' = i then v else mx_get api m k' i'))) \<and>
     (\<forall>c c' k. mx_by_name api c = Some k \<and> mx_by_name api c' = Some k \<longrightarrow> c = c')"

text \<open>A control of a kind that takes numbers, with at least one value, that accepts the numbers in \<open>vs\<close>.\<close>

definition has_control :: "'m mixer_api \<Rightarrow> (nat \<Rightarrow> int \<Rightarrow> bool) \<Rightarrow> string \<Rightarrow> int set \<Rightarrow> bool" where
  "has_control api acc c vs \<longleftrightarrow> (\<exists>k. mx_by_name api c = Some k \<and> 0 < mx_num_values api k \<and>
     mx_type api k \<in> {MIXER_CTL_TYPE_BOOL, MIXER_CTL_TYPE_INT, MIXER_CTL_TYPE_ENUM} \<and> (\<forall>v\<in>vs. acc k v))"

lemma set_values_law:
  assumes law: "mixer_law api acc" and "acc k v" and "set is \<subseteq> {..<mx_num_values api k}"
  shows "\<exists>m'. set_values api m k (map (\<lambda>i. (i, v)) is) = (m', 0) \<and>
    (\<forall>k' i'. mx_get api m' k' i' = (if k' = k \<and> i' \<in> set is then v else mx_get api m k' i'))"
  using assms(3)
proof (induction "is" arbitrary: m)
  case (Cons i "is")
  obtain m1 where m1: "mx_set api m k i v = (m1, 0)" "\<And>k' i'. mx_get api m1 k' i' = (if k' = k \<and> i' = i then v else mx_get api m k' i')"
    using law assms(2) Cons.prems unfolding mixer_law_def by (metis fst_conv insert_subset lessThan_iff list.simps(15) prod.collapse)
  then show ?case using Cons.IH [of m1] Cons.prems by auto
qed simp

lemma fold_last: "n > 0 \<Longrightarrow> fold (\<lambda>i v. f i) [0..<n] v = f (n - 1)"
  by (cases n) auto

lemma read_control:
  assumes "mixer_law api acc" and "has_control api acc c vs" and "\<not> isnumber c"
  obtains k where "mx_by_name api c = Some k" "0 < mx_num_values api k"
    "\<And>st v. dsp_get_value api st c v = (mx_get api (ds_mixer st) k (mx_num_values api k - 1), 0)"
proof -
  obtain k where k: "mx_by_name api c = Some k" "0 < mx_num_values api k"
    "mx_type api k \<in> {MIXER_CTL_TYPE_BOOL, MIXER_CTL_TYPE_INT, MIXER_CTL_TYPE_ENUM}"
    using assms(2) unfolding has_control_def by blast
  have "dsp_get_value api st c v = (mx_get api (ds_mixer st) k (mx_num_values api k - 1), 0)" for st v
    using k assms(1,3)
    by (auto simp: dsp_get_value_def tinymix_detail_control_def find_ctl_def mixer_law_def fold_last Let_def)
  then show thesis using that k by blast
qed

text \<open>Writing a number: it is read back, and no other control changes.\<close>

lemma put_number_law:
  assumes law: "mixer_law api acc" and c: "has_control api acc c vs" "\<not> isnumber c" and v: "v \<in> vs" "-100 < v" "v < 1000"
  obtains m where "put_number api st c v = Inr (st\<lparr>ds_mixer := m\<rparr>, 0)"
    and "put_text api st c (dec_int v) = Inr (st\<lparr>ds_mixer := m\<rparr>, 0)"
    and "\<And>st' x. ds_mixer st' = m \<Longrightarrow> dsp_get_value api st' c x = (v, 0)"
    and "\<And>c' ws st' x. c' \<noteq> c \<Longrightarrow> \<not> isnumber c' \<Longrightarrow> has_control api acc c' ws \<Longrightarrow> ds_mixer st' = m \<Longrightarrow>
      dsp_get_value api st' c' x = dsp_get_value api st c' x"
proof -
  obtain k where k: "mx_by_name api c = Some k" "0 < mx_num_values api k"
    "mx_type api k \<in> {MIXER_CTL_TYPE_BOOL, MIXER_CTL_TYPE_INT, MIXER_CTL_TYPE_ENUM}" "acc k v"
    using c v(1) unfolding has_control_def by blast
  obtain m where m: "set_values api (ds_mixer st) k (map (\<lambda>i. (i, v)) [0..<mx_num_values api k]) = (m, 0)"
    "\<And>k' i'. mx_get api m k' i' = (if k' = k \<and> i' < mx_num_values api k then v else mx_get api (ds_mixer st) k' i')"
    using set_values_law [OF law k(4), of "[0..<mx_num_values api k]" "ds_mixer st"] by (fastforce simp: atLeast0LessThan)
  have op: "mx_open api" using law by (simp add: mixer_law_def)
  have "tinymix_set_value api (ds_mixer st) c [dec_int v] = Inr (m, 0)"
    using k(1,3) c(2) m(1) by (auto simp: tinymix_set_value_def find_ctl_def isnumber_dec_int atoi_dec_int)
  then have txt_ok: "put_text api st c (dec_int v) = Inr (st\<lparr>ds_mixer := m\<rparr>, 0)"
    using op by (simp add: put_text_def dsp_control_def report_def)
  then have "put_number api st c v = Inr (st\<lparr>ds_mixer := m\<rparr>, 0)" using v by (simp add: put_number_def sprintf4_fits)
  moreover have "dsp_get_value api st' c x = (v, 0)" if "ds_mixer st' = m" for st' x
    using read_control [OF law c] k(1) m(2) that by (metis diff_less option.inject zero_less_one)
  moreover have "dsp_get_value api st' c' x = dsp_get_value api st c' x"
    if "c' \<noteq> c" "\<not> isnumber c'" "has_control api acc c' ws" "ds_mixer st' = m" for c' ws st' x
  proof -
    note hyps = that
    obtain k' where k': "mx_by_name api c' = Some k'"
      "\<And>st v. dsp_get_value api st c' v = (mx_get api (ds_mixer st) k' (mx_num_values api k' - 1), 0)"
      using read_control [OF law hyps(3,2)] by metis
    have "k' \<noteq> k" using law k(1) k'(1) that(1) unfolding mixer_law_def by blast
    then show ?thesis using k'(2) m(2) that(4) by simp
  qed
  ultimately show thesis using that txt_ok by blast
qed

section \<open>Switches\<close>

text \<open>The contract of a pair of functions that set and read a switch.\<close>

locale dsp_switch =
  fixes control :: string
    and set_fn :: "'m mixer_api \<Rightarrow> 'm dsp_state \<Rightarrow> bool \<Rightarrow> 'm dsp_result"
    and get_fn :: "'m mixer_api \<Rightarrow> 'm dsp_state \<Rightarrow> bool \<times> int"
  assumes name: "\<not> isnumber control"
    and set_eq: "set_fn api st b = put_switch api st control b"
    and get_eq: "get_fn api st = get_switch api st control"
begin

lemma set_then_get:
  assumes "mixer_law api acc" and "has_control api acc control {0, 1}"
  obtains st' where "set_fn api st b = Inr (st', 0)" "get_fn api st' = (b, 0)"
    "\<And>c ws x. c \<noteq> control \<Longrightarrow> \<not> isnumber c \<Longrightarrow> has_control api acc c ws \<Longrightarrow> dsp_get_value api st' c x = dsp_get_value api st c x"
proof -
  obtain m where "put_number api st control (of_bool b) = Inr (st\<lparr>ds_mixer := m\<rparr>, 0)"
    "\<And>st' x. ds_mixer st' = m \<Longrightarrow> dsp_get_value api st' control x = (of_bool b, 0)"
    "\<And>c' ws st' x. c' \<noteq> control \<Longrightarrow> \<not> isnumber c' \<Longrightarrow> has_control api acc c' ws \<Longrightarrow> ds_mixer st' = m \<Longrightarrow>
      dsp_get_value api st' c' x = dsp_get_value api st c' x"
    by (rule put_number_law [OF assms name, of "of_bool b" st]) auto
  then show thesis using that [of "st\<lparr>ds_mixer := m\<rparr>"]
    by (simp add: set_eq get_eq put_switch_def get_switch_def get_number_def report_def)
qed

text \<open>A failure is never seen by the caller.\<close>

lemma failure_hidden:
  assumes "\<not> mx_open api"
  shows "set_fn api st b = Inr (st, 0)" "get_fn api st = (False, 0)"
  using assms by (simp_all add: set_eq get_eq put_switch_def put_number_def sprintf4_fits put_text_def dsp_control_def get_switch_def
      get_number_def dsp_get_value_def report_def ENODEV_def)

end

lemmas switch_defs = dspdev_set_navi_mute_def dspdev_get_navi_mute_def dspdev_set_tbox_mute_def dspdev_get_tbox_mute_def dspdev_set_beep_mute_def dspdev_get_beep_mute_def dspdev_set_phone_mute_def dspdev_get_phone_mute_def dspdev_set_tuner_mute_def dspdev_get_tuner_mute_def dspdev_set_mic_mute_def dspdev_get_mic_mute_def dspdev_set_mcu_app_mic_test_def dspdev_get_mcu_app_mic_test_def dspdev_set_loudness_def dspdev_get_loudness_def dspdev_set_dtcs_status_def dspdev_get_dtcs_status_def dspdev_set_ale_status_def dspdev_get_ale_status_def dspdev_set_secondary_mono_all_def dspdev_get_secondary_mono_all_def dspdev_set_secondary_steoro_all_def dspdev_get_secondary_steoro_all_def dspdev_set_navi_mono_all_def dspdev_get_navi_mono_all_def dspdev_set_phone_mono_all_def dspdev_get_phone_mono_all_def

interpretation sw_navi_mute: dsp_switch "''Navi_Mute''" dspdev_set_navi_mute dspdev_get_navi_mute
  by unfold_locales (simp_all add: switch_defs isnumber_def strtol0_def strtol_abs_def digit_value_def is_space_def)

interpretation sw_tbox_mute: dsp_switch "''Tbox_Mute''" dspdev_set_tbox_mute dspdev_get_tbox_mute
  by unfold_locales (simp_all add: switch_defs isnumber_def strtol0_def strtol_abs_def digit_value_def is_space_def)

interpretation sw_beep_mute: dsp_switch "''Beep_Mute''" dspdev_set_beep_mute dspdev_get_beep_mute
  by unfold_locales (simp_all add: switch_defs isnumber_def strtol0_def strtol_abs_def digit_value_def is_space_def)

interpretation sw_phone_mute: dsp_switch "''Phone_Mute''" dspdev_set_phone_mute dspdev_get_phone_mute
  by unfold_locales (simp_all add: switch_defs isnumber_def strtol0_def strtol_abs_def digit_value_def is_space_def)

interpretation sw_tuner_mute: dsp_switch "''Tuner_Mute''" dspdev_set_tuner_mute dspdev_get_tuner_mute
  by unfold_locales (simp_all add: switch_defs isnumber_def strtol0_def strtol_abs_def digit_value_def is_space_def)

interpretation sw_mic_mute: dsp_switch "''MIC_Mute''" dspdev_set_mic_mute dspdev_get_mic_mute
  by unfold_locales (simp_all add: switch_defs isnumber_def strtol0_def strtol_abs_def digit_value_def is_space_def)

interpretation sw_mcu_app_mic_test: dsp_switch "''DIAG_MIC_Test''" dspdev_set_mcu_app_mic_test dspdev_get_mcu_app_mic_test
  by unfold_locales (simp_all add: switch_defs isnumber_def strtol0_def strtol_abs_def digit_value_def is_space_def)

interpretation sw_loudness: dsp_switch "''Loudness_SW''" dspdev_set_loudness dspdev_get_loudness
  by unfold_locales (simp_all add: switch_defs isnumber_def strtol0_def strtol_abs_def digit_value_def is_space_def)

interpretation sw_dtcs_status: dsp_switch "''DTCS SW''" dspdev_set_dtcs_status dspdev_get_dtcs_status
  by unfold_locales (simp_all add: switch_defs isnumber_def strtol0_def strtol_abs_def digit_value_def is_space_def)

interpretation sw_ale_status: dsp_switch "''ALE A SW''" dspdev_set_ale_status dspdev_get_ale_status
  by unfold_locales (simp_all add: switch_defs isnumber_def strtol0_def strtol_abs_def digit_value_def is_space_def)

interpretation sw_secondary_mono_all: dsp_switch "''Secondary_Mono_All''" dspdev_set_secondary_mono_all dspdev_get_secondary_mono_all
  by unfold_locales (simp_all add: switch_defs isnumber_def strtol0_def strtol_abs_def digit_value_def is_space_def)

interpretation sw_secondary_steoro_all: dsp_switch "''Secondary_Steoro_All''" dspdev_set_secondary_steoro_all dspdev_get_secondary_steoro_all
  by unfold_locales (simp_all add: switch_defs isnumber_def strtol0_def strtol_abs_def digit_value_def is_space_def)

interpretation sw_navi_mono_all: dsp_switch "''Navi_Mono_All''" dspdev_set_navi_mono_all dspdev_get_navi_mono_all
  by unfold_locales (simp_all add: switch_defs isnumber_def strtol0_def strtol_abs_def digit_value_def is_space_def)

interpretation sw_phone_mono_all: dsp_switch "''Phone_Mono_All''" dspdev_set_phone_mono_all dspdev_get_phone_mono_all
  by unfold_locales (simp_all add: switch_defs isnumber_def strtol0_def strtol_abs_def digit_value_def is_space_def)

text \<open>All switches: name of the control, function that sets it, function that reads it.\<close>

type_synonym 'm switch_fns = "string \<times> ('m mixer_api \<Rightarrow> 'm dsp_state \<Rightarrow> bool \<Rightarrow> 'm dsp_result) \<times> ('m mixer_api \<Rightarrow> 'm dsp_state \<Rightarrow> bool \<times> int)"

definition switches :: "'m switch_fns list" where
  "switches = [
     (''Navi_Mute'', dspdev_set_navi_mute, dspdev_get_navi_mute),
     (''Tbox_Mute'', dspdev_set_tbox_mute, dspdev_get_tbox_mute),
     (''Beep_Mute'', dspdev_set_beep_mute, dspdev_get_beep_mute),
     (''Phone_Mute'', dspdev_set_phone_mute, dspdev_get_phone_mute),
     (''Tuner_Mute'', dspdev_set_tuner_mute, dspdev_get_tuner_mute),
     (''MIC_Mute'', dspdev_set_mic_mute, dspdev_get_mic_mute),
     (''DIAG_MIC_Test'', dspdev_set_mcu_app_mic_test, dspdev_get_mcu_app_mic_test),
     (''Loudness_SW'', dspdev_set_loudness, dspdev_get_loudness),
     (''DTCS SW'', dspdev_set_dtcs_status, dspdev_get_dtcs_status),
     (''ALE A SW'', dspdev_set_ale_status, dspdev_get_ale_status),
     (''Secondary_Mono_All'', dspdev_set_secondary_mono_all, dspdev_get_secondary_mono_all),
     (''Secondary_Steoro_All'', dspdev_set_secondary_steoro_all, dspdev_get_secondary_steoro_all),
     (''Navi_Mono_All'', dspdev_set_navi_mono_all, dspdev_get_navi_mono_all),
     (''Phone_Mono_All'', dspdev_set_phone_mono_all, dspdev_get_phone_mono_all)]"

lemma switches_contract: "list_all (\<lambda>(c, s, g). dsp_switch c s g) switches"
  by (simp add: switches_def sw_navi_mute.dsp_switch_axioms sw_tbox_mute.dsp_switch_axioms sw_beep_mute.dsp_switch_axioms sw_phone_mute.dsp_switch_axioms sw_tuner_mute.dsp_switch_axioms sw_mic_mute.dsp_switch_axioms sw_mcu_app_mic_test.dsp_switch_axioms sw_loudness.dsp_switch_axioms sw_dtcs_status.dsp_switch_axioms sw_ale_status.dsp_switch_axioms sw_secondary_mono_all.dsp_switch_axioms sw_secondary_steoro_all.dsp_switch_axioms sw_navi_mono_all.dsp_switch_axioms sw_phone_mono_all.dsp_switch_axioms)

lemma switches_distinct: "distinct (map fst (switches :: 'm switch_fns list))"
  by (simp add: switches_def)

definition switch_at :: "nat \<Rightarrow> 'm switch_fns" where
  "switch_at i = switches ! i"

text \<open>A sequence of settings, each the number of a switch and its position.\<close>

fun switch_run :: "'m mixer_api \<Rightarrow> 'm dsp_state \<Rightarrow> (nat \<times> bool) list \<Rightarrow> c_error + 'm dsp_state" where
  "switch_run api st [] = Inr st"
| "switch_run api st ((i, b) # es) = and_then (fst (snd (switch_at i)) api st b) (\<lambda>(st, ret). switch_run api st es)"

definition last_set :: "(nat \<times> bool) list \<Rightarrow> nat \<Rightarrow> bool option" where
  "last_set es = map_of (rev es)"

lemma switch_at_contract:
  "i < length (switches :: 'm switch_fns list) \<Longrightarrow> switch_at i = (c, s, g) \<Longrightarrow> dsp_switch c s (g :: 'm mixer_api \<Rightarrow> 'm dsp_state \<Rightarrow> bool \<times> int)"
  using switches_contract nth_mem [of i switches] by (fastforce simp: list_all_iff switch_at_def)

lemma switch_at_inj:
  "i < length (switches :: 'm switch_fns list) \<Longrightarrow> j < length (switches :: 'm switch_fns list) \<Longrightarrow>
   fst (switch_at i :: 'm switch_fns) = fst (switch_at j :: 'm switch_fns) \<longleftrightarrow> i = j"
  using nth_eq_iff_index_eq [OF switches_distinct [where 'm = 'm], of i j] by (simp add: switch_at_def)

lemma last_set_Cons: "last_set ((i, b) # es) j = (case last_set es j of Some b' \<Rightarrow> Some b' | None \<Rightarrow> if i = j then Some b else None)"
  by (simp add: last_set_def map_add_def split: option.split)

lemma switch_step:
  fixes api :: "'m mixer_api"
  assumes law: "mixer_law api acc" and ctl: "\<forall>i<length (switches :: 'm switch_fns list). has_control api acc (fst (switch_at i :: 'm switch_fns)) {0, 1}"
    and i: "i < length (switches :: 'm switch_fns list)"
  obtains st' where "fst (snd (switch_at i)) api st b = Inr (st', 0)"
    "\<And>j. j < length (switches :: 'm switch_fns list) \<Longrightarrow> snd (snd (switch_at j)) api st' = (if j = i then (b, 0) else snd (snd (switch_at j)) api st)"
proof -
  obtain c s g where e: "(switch_at i :: 'm switch_fns) = (c, s, g)" by (cases "switch_at i :: 'm switch_fns")
  note sw = switch_at_contract [OF i e]
  have "has_control api acc c {0, 1}" using ctl i e by fastforce
  then obtain st' where st': "s api st b = Inr (st', 0)" "g api st' = (b, 0)"
    "\<And>c' ws x. c' \<noteq> c \<Longrightarrow> \<not> isnumber c' \<Longrightarrow> has_control api acc c' ws \<Longrightarrow> dsp_get_value api st' c' x = dsp_get_value api st c' x"
    using dsp_switch.set_then_get [OF sw law, of st b] by blast
  have "snd (snd (switch_at j)) api st' = (if j = i then (b, 0) else snd (snd (switch_at j)) api st)" if j: "j < length (switches :: 'm switch_fns list)" for j
  proof (cases "j = i")
    case False
    obtain c' s' g' where e': "(switch_at j :: 'm switch_fns) = (c', s', g')" by (cases "switch_at j :: 'm switch_fns")
    note sw' = switch_at_contract [OF j e']
    have "has_control api acc c' {0, 1}" using ctl j e' by fastforce
    moreover have "c' \<noteq> c" using switch_at_inj [OF j i] False e e' by simp
    ultimately have "dsp_get_value api st' c' 0 = dsp_get_value api st c' 0" using st'(3) dsp_switch.name [OF sw'] by blast
    then show ?thesis using False e' dsp_switch.get_eq [OF sw'] by (simp add: get_switch_def get_number_def)
  qed (use st' e in simp)
  then show thesis using that [of st'] st'(1) e by simp
qed

lemma switch_run_spec:
  fixes api :: "'m mixer_api"
  assumes law: "mixer_law api acc" and ctl: "\<forall>i<length (switches :: 'm switch_fns list). has_control api acc (fst (switch_at i :: 'm switch_fns)) {0, 1}"
    and "\<forall>(i, b)\<in>set es. i < length (switches :: 'm switch_fns list)"
  shows "\<exists>st'. switch_run api st es = Inr st' \<and> (\<forall>j<length (switches :: 'm switch_fns list).
    snd (snd (switch_at j)) api st' = (case last_set es j of Some b \<Rightarrow> (b, 0) | None \<Rightarrow> snd (snd (switch_at j)) api st))"
  using assms(3)
proof (induction es arbitrary: st)
  case Nil
  then show ?case by (simp add: last_set_def)
next
  case (Cons e es)
  obtain i b where e: "e = (i, b)" by force
  have i: "i < length (switches :: 'm switch_fns list)" using Cons.prems e by simp
  obtain st1 where st1: "fst (snd (switch_at i)) api st b = Inr (st1, 0)"
    "\<And>j. j < length (switches :: 'm switch_fns list) \<Longrightarrow> snd (snd (switch_at j)) api st1 = (if j = i then (b, 0) else snd (snd (switch_at j)) api st)"
    using switch_step [OF law ctl i, of st b] by blast
  obtain st' where st': "switch_run api st1 es = Inr st'" "\<forall>j<length (switches :: 'm switch_fns list).
    snd (snd (switch_at j)) api st' = (case last_set es j of Some b \<Rightarrow> (b, 0) | None \<Rightarrow> snd (snd (switch_at j)) api st1)"
    using Cons.IH [of st1] Cons.prems by auto
  show ?case unfolding e using st1 st' by (auto simp: last_set_Cons split: option.split)
qed

section \<open>Volumes\<close>

text \<open>The control of a channel.\<close>

fun volume_control :: "dsp_channel_type \<Rightarrow> string option" where
  "volume_control CHANNEL_MEDIA_MUSIC = Some ''Media_Vol''"
| "volume_control CHANNEL_MEDIA_TUNER = Some ''Media_Vol''"
| "volume_control CHANNEL_BT_PHONE = Some ''Phone_Vol''"
| "volume_control CHANNEL_TBOX = Some ''Tbox_Vol''"
| "volume_control CHANNEL_NAVI = Some ''Navi_Vol''"
| "volume_control CHANNEL_BEEP = Some ''Beep_Vol''"
| "volume_control _ = None"

definition volume_stored :: "'m dsp_state \<Rightarrow> dsp_channel_type \<Rightarrow> int \<Rightarrow> 'm dsp_state" where
  "volume_stored st ch v =
     (if ch = CHANNEL_MEDIA_MUSIC \<or> ch = CHANNEL_MEDIA_TUNER then st\<lparr>media_volume_cache := s32 (v - media_volume_offset_cache st)\<rparr>
      else if ch = CHANNEL_BT_PHONE then st\<lparr>phone_volume_cache := v\<rparr> else st)"

lemma set_volume_eq:
  "volume_control ch = Some c \<Longrightarrow> dspdev_set_volume api st ch v =
     put_number api (volume_stored st ch (adjust_volume st ch v)) c (adjust_volume st ch v)"
  by (cases ch) (simp_all add: dspdev_set_volume_def put_number_def volume_stored_def Let_def)

lemma volume_control_name: "volume_control ch = Some c \<Longrightarrow> \<not> isnumber c"
  by (cases ch) (auto simp: isnumber_def strtol0_def strtol_abs_def digit_value_def is_space_def)

lemma volume_stored_mixer [simp]: "ds_mixer (volume_stored st ch v) = ds_mixer st"
  by (simp add: volume_stored_def)

text \<open>No result of \<open>dsp_control\<close> is negative, so nothing that is sent is ever reported as failed.\<close>

lemma set_values_nonneg: "set_values api m k ivs = (m', ret) \<Longrightarrow> 0 \<le> ret"
  by (induction ivs arbitrary: m) (auto simp: EINVAL_def split: prod.splits if_splits)

lemma dsp_control_nonneg: "dsp_control api st c s = Inr (st', ret) \<Longrightarrow> 0 \<le> ret"
  by (auto simp: dsp_control_def tinymix_set_value_def and_then_def ENODEV_def ENOENT_def EINVAL_def set_values_nonneg
      split: if_splits sum.splits option.splits prod.splits)

lemma put_text_ret: "put_text api st c s = Inr (st', ret) \<Longrightarrow> ret = 0"
  using dsp_control_nonneg [of api st c s] by (auto simp: put_text_def and_then_def report_def split: sum.splits)

lemma put_number_ret: "put_number api st c v = Inr (st', ret) \<Longrightarrow> ret = 0"
  by (auto simp: put_number_def and_then_def split: sum.splits dest: put_text_ret)

section \<open>Commands of the bus component\<close>

definition dsp_exec :: "'m mixer_api \<Rightarrow> 'm dsp_state \<Rightarrow> dsp_cmd \<Rightarrow> 'm dsp_result" where
  "dsp_exec api st cmd =
     (case cmd of Set_volume ch v \<Rightarrow> dspdev_set_volume api st ch v
      | Set_secondary_mono_all b \<Rightarrow> dspdev_set_secondary_mono_all api st b
      | Set_phone_mono_all b \<Rightarrow> dspdev_set_phone_mono_all api st b
      | Set_navi_mono_all b \<Rightarrow> dspdev_set_navi_mono_all api st b)"

fun dsp_run :: "'m mixer_api \<Rightarrow> 'm dsp_state \<Rightarrow> dsp_cmd list \<Rightarrow> c_error + 'm dsp_state" where
  "dsp_run api st [] = Inr st"
| "dsp_run api st (cmd # cmds) = and_then (dsp_exec api st cmd) (\<lambda>(st, ret). dsp_run api st cmds)"

text \<open>Static variables as they are initialised, as long as no client sets an offset or a limit.\<close>

definition no_offsets :: "'m dsp_state \<Rightarrow> bool" where
  "no_offsets st \<longleftrightarrow> media_volume_offset_cache st = 0 \<and> phone_volume_offset_cache st = 0 \<and> media_variable_max_volume_cache st = MEDIA_VOL_MAX"

definition channel_level :: "dsp_channel_type \<Rightarrow> int \<Rightarrow> int" where
  "channel_level ch v = (if ch \<in> {CHANNEL_MEDIA_MUSIC, CHANNEL_MEDIA_TUNER, CHANNEL_BT_PHONE} then min 39 v else v)"

lemma adjust_no_offsets: "no_offsets st \<Longrightarrow> 0 \<le> v \<Longrightarrow> v \<le> 255 \<Longrightarrow> adjust_volume st ch v = channel_level ch v"
  by (auto simp: adjust_volume_def channel_level_def no_offsets_def MEDIA_VOL_MAX_def PHONE_VOL_MAX_def s32_id Let_def)

lemma set_volume_reaches_mixer:
  assumes law: "mixer_law api acc" and st: "no_offsets st" and c: "volume_control ch = Some c" "has_control api acc c {0..255}"
    and v: "0 \<le> v" "v \<le> 255"
  obtains st' where "dspdev_set_volume api st ch v = Inr (st', 0)" "no_offsets st'"
    "\<And>x. dsp_get_value api st' c x = (channel_level ch v, 0)"
    "\<And>c' ws x. c' \<noteq> c \<Longrightarrow> \<not> isnumber c' \<Longrightarrow> has_control api acc c' ws \<Longrightarrow> dsp_get_value api st' c' x = dsp_get_value api st c' x"
proof -
  let ?w = "channel_level ch v"
  let ?st = "volume_stored st ch ?w"
  have w: "?w \<in> {0..255}" "-100 < ?w" "?w < 1000" using v by (auto simp: channel_level_def)
  obtain m where m: "put_number api ?st c ?w = Inr (?st\<lparr>ds_mixer := m\<rparr>, 0)"
    "\<And>st' x. ds_mixer st' = m \<Longrightarrow> dsp_get_value api st' c x = (?w, 0)"
    "\<And>c' ws st' x. c' \<noteq> c \<Longrightarrow> \<not> isnumber c' \<Longrightarrow> has_control api acc c' ws \<Longrightarrow> ds_mixer st' = m \<Longrightarrow>
      dsp_get_value api st' c' x = dsp_get_value api ?st c' x"
    by (rule put_number_law [OF law c(2) volume_control_name [OF c(1)] w, of ?st]) blast
  have same: "dsp_get_value api ?st c' x = dsp_get_value api st c' x" for c' x by (simp add: dsp_get_value_def)
  have "dspdev_set_volume api st ch v = Inr (?st\<lparr>ds_mixer := m\<rparr>, 0)"
    using m(1) adjust_no_offsets [OF st v, of ch] by (simp add: set_volume_eq [OF c(1)])
  moreover have "no_offsets (?st\<lparr>ds_mixer := m\<rparr>)" using st by (simp add: no_offsets_def volume_stored_def)
  ultimately show thesis using that [of "?st\<lparr>ds_mixer := m\<rparr>"] m(2,3) same by simp
qed

definition level_cmd :: "dsp_cmd \<Rightarrow> bool" where
  "level_cmd cmd \<longleftrightarrow> (case cmd of Set_volume ch v \<Rightarrow> volume_control ch \<noteq> None \<and> 0 \<le> v \<and> v \<le> 255 | _ \<Rightarrow> False)"

fun last_level :: "dsp_cmd list \<Rightarrow> string \<Rightarrow> int option" where
  "last_level [] c = None"
| "last_level (Set_volume ch v # cmds) c =
     (case last_level cmds c of Some x \<Rightarrow> Some x | None \<Rightarrow> if volume_control ch = Some c then Some (channel_level ch v) else None)"
| "last_level (_ # cmds) c = last_level cmds c"

definition volume_controls :: "string set" where
  "volume_controls = {''Media_Vol'', ''Phone_Vol'', ''Tbox_Vol'', ''Navi_Vol'', ''Beep_Vol''}"

lemma volume_control_in: "volume_control ch = Some c \<Longrightarrow> c \<in> volume_controls"
  by (cases ch) (auto simp: volume_controls_def)

lemma volume_controls_name: "c \<in> volume_controls \<Longrightarrow> \<not> isnumber c"
  unfolding volume_controls_def
  using volume_control_name [of CHANNEL_MEDIA_MUSIC] volume_control_name [of CHANNEL_BT_PHONE] volume_control_name [of CHANNEL_TBOX]
    volume_control_name [of CHANNEL_NAVI] volume_control_name [of CHANNEL_BEEP] by auto

lemma dsp_run_levels:
  assumes law: "mixer_law api acc" and ctl: "\<forall>c\<in>volume_controls. has_control api acc c {0..255}"
    and "no_offsets st" and "list_all level_cmd cmds"
  shows "\<exists>st'. dsp_run api st cmds = Inr st' \<and> no_offsets st' \<and>
    (\<forall>c\<in>volume_controls. \<forall>x. dsp_get_value api st' c x = (case last_level cmds c of Some v \<Rightarrow> (v, 0) | None \<Rightarrow> dsp_get_value api st c x))"
  using assms(3,4)
proof (induction cmds arbitrary: st)
  case (Cons cmd cmds)
  obtain ch v c where cmd: "cmd = Set_volume ch v" "volume_control ch = Some c" "0 \<le> v" "v \<le> 255"
    using Cons.prems(2) by (auto simp: level_cmd_def split: dsp_cmd.splits)
  have c: "has_control api acc c {0..255}" using ctl volume_control_in [OF cmd(2)] by blast
  obtain st1 where st1: "dspdev_set_volume api st ch v = Inr (st1, 0)" "no_offsets st1"
    "\<And>x. dsp_get_value api st1 c x = (channel_level ch v, 0)"
    "\<And>c' ws x. c' \<noteq> c \<Longrightarrow> \<not> isnumber c' \<Longrightarrow> has_control api acc c' ws \<Longrightarrow> dsp_get_value api st1 c' x = dsp_get_value api st c' x"
    using set_volume_reaches_mixer [OF law Cons.prems(1) cmd(2) c cmd(3,4)] by blast
  obtain st' where st': "dsp_run api st1 cmds = Inr st'" "no_offsets st'"
    "\<forall>c\<in>volume_controls. \<forall>x. dsp_get_value api st' c x = (case last_level cmds c of Some v \<Rightarrow> (v, 0) | None \<Rightarrow> dsp_get_value api st1 c x)"
    using Cons.IH [OF st1(2)] Cons.prems(2) by auto
  have "dsp_get_value api st1 c' x = (if c' = c then (channel_level ch v, 0) else dsp_get_value api st c' x)" if "c' \<in> volume_controls" for c' x
    using st1(3) st1(4) [of c' "{0..255}"] volume_controls_name [OF that] ctl that by simp
  then have "\<forall>c'\<in>volume_controls. \<forall>x. dsp_get_value api st' c' x =
      (case last_level (cmd # cmds) c' of Some v \<Rightarrow> (v, 0) | None \<Rightarrow> dsp_get_value api st c' x)"
    using st'(3) cmd(1,2) by (auto split: option.split)
  then show ?case using st1(1) st'(1,2) cmd(1) by (auto simp: dsp_exec_def)
qed simp

lemma level_ok_cmd:
  assumes "bus_ok st" and "0 \<le> b" and "b < 16" and "level_ok st b cmd"
  shows "level_cmd cmd"
proof -
  have "bus_vol st ! nat b \<le> 255" using bus_ok_vol [OF assms(1), of "nat b"] assms(2,3) by auto
  then show ?thesis using assms(4) by (cases cmd) (auto simp: level_ok_def level_cmd_def slot_channel_def split: if_splits)
qed

text \<open>The status of the loudspeakers: bit by bit the last setting of each.\<close>

lemma put_number_state: "put_number api st c v = Inr (st', ret) \<Longrightarrow> \<exists>m. st' = st\<lparr>ds_mixer := m\<rparr>"
  by (cases st) (auto simp: put_number_def put_text_def dsp_control_def and_then_def split: if_splits sum.splits)

lemma bit_15: "bit (15 :: int) i \<longleftrightarrow> i < 4"
proof -
  have "(15 :: int) = mask 4" by (simp add: mask_eq_exp_minus_1)
  then show ?thesis by (simp only: bit_mask_iff) simp
qed

lemma sound_channel_bits:
  assumes "0 \<le> ch" and "ch \<le> 3" and "0 \<le> s_mute_status st" and "s_mute_status st \<le> 15"
    and "dspdev_set_sound_channel_mute api st ch mute = Inr (st', ret)"
  shows "0 \<le> s_mute_status st' \<and> s_mute_status st' \<le> 15 \<and>
    (\<forall>i<4. bit (s_mute_status st') i = (if i = nat ch then mute else bit (s_mute_status st) i))"
proof -
  let ?b = "push_bit (nat ch) 1 :: int"
  let ?s = "s_mute_status st"
  have st': "s_mute_status st' = (if mute then ?s OR (?b AND 15) else ?s AND (?b XOR 15))"
    using assms(1,2,5) by (auto simp: dspdev_set_sound_channel_mute_def Let_def dest: put_number_state)
  have b15: "?b AND 15 < 2 ^ 4" "0 \<le> ?b AND 15" using AND_upper2 [of 15 ?b] by simp_all
  have "?s OR (?b AND 15) < 2 ^ 4" by (rule OR_upper) (use assms(3,4) b15 in simp_all)
  moreover have "?s AND (?b XOR 15) \<le> ?s" by (rule AND_upper1) (rule assms(3))
  ultimately have "0 \<le> s_mute_status st' \<and> s_mute_status st' \<le> 15" using assms(3,4) b15 by (simp add: st')
  moreover have "bit (s_mute_status st') i = (if i = nat ch then mute else bit ?s i)" if "i < 4" for i
    using that by (auto simp: st' bit_or_iff bit_and_iff bit_xor_iff bit_15 bit_exp_iff)
  ultimately show ?thesis by blast
qed

end
