(* ===== verification/Dsp_Properties.thy ===== *)
theory Dsp_Properties
  imports Dsp_System
begin

text \<open>
  The properties of the control of the signal processor and of its composition with the volume of the buses.
\<close>

section \<open>A mixer to try things on\<close>

type_synonym demo_mixer = "nat \<Rightarrow> nat \<Rightarrow> int"

definition demo_names :: "string list" where
  "demo_names = map fst (switches :: demo_mixer switch_fns list) @ [''Media_Vol'', ''Phone_Vol'', ''Tbox_Vol'', ''Navi_Vol'', ''Beep_Vol'']"

definition demo_index :: "string \<Rightarrow> nat option" where
  "demo_index c = (if c \<in> set demo_names then Some (length (takeWhile (\<lambda>d. d \<noteq> c) demo_names)) else None)"

definition demo_api :: "demo_mixer mixer_api" where
  "demo_api = \<lparr>mx_open = True, mx_by_name = demo_index, mx_by_num = (\<lambda>n. None), mx_type = (\<lambda>k. MIXER_CTL_TYPE_INT), mx_num_values = (\<lambda>k. 2),
     mx_get = (\<lambda>m. m), mx_set = (\<lambda>m k i v. (m(k := (m k)(i := v)), 0)), mx_set_enum = (\<lambda>m k s. (m, 22)), mx_tlv_rw = (\<lambda>k. False),
     mx_tlv_header = 8, mx_get_array = (\<lambda>m k. 0), mx_set_array = (\<lambda>m k b. (m, 0)), mx_alloc = (\<lambda>n. True)\<rparr>"

lemma takeWhile_index: "c \<in> set xs \<Longrightarrow> xs ! length (takeWhile (\<lambda>d. d \<noteq> c) xs) = c"
  by (induction xs) auto

lemma demo_index_nth: "demo_index c = Some k \<Longrightarrow> demo_names ! k = c"
  using takeWhile_index [of c demo_names] by (auto simp: demo_index_def split: if_splits)

lemma demo_law: "mixer_law demo_api (\<lambda>k v. True)"
proof -
  have "c = c'" if "demo_index c = Some k" "demo_index c' = Some k" for c c' k using that demo_index_nth by blast
  then show ?thesis by (auto simp: mixer_law_def demo_api_def)
qed

lemma demo_control: "c \<in> set demo_names \<Longrightarrow> has_control demo_api (\<lambda>k v. True) c vs"
  by (simp add: has_control_def demo_api_def demo_index_def)

lemma demo_switches:
  "\<forall>i<length (switches :: demo_mixer switch_fns list). has_control demo_api (\<lambda>k v. True) (fst (switch_at i :: demo_mixer switch_fns)) {0, 1}"
  using demo_control [where vs = "{0, 1}"] nth_mem [of _ "switches :: demo_mixer switch_fns list"] by (simp add: demo_names_def switch_at_def)

lemma demo_volumes: "\<forall>c\<in>volume_controls. has_control demo_api (\<lambda>k v. True) c {0..255}"
  using demo_control [where vs = "{0..255}"] by (simp add: volume_controls_def demo_names_def)

section \<open>Switches\<close>



section \<open>Failures\<close>

text \<open>
  Failures are lost.  On any mixer, working or not, setting a volume of a channel that has a control ends with 0 if it ends at all.
  When the mixer cannot be opened, every switch is \<open>set\<close> with result 0 and read as off with result 0, and selecting a source
  returns 0, leaves the mixer alone and is remembered as done: the next selection of that source returns 0 without trying, whatever
  the mixer can do by then.
\<close>

lemma dsp_failures_hidden:
  fixes closed :: "'m mixer_api"
  assumes "\<not> mx_open closed" and "source_name ch = Some s" and "i < length (switches :: 'm switch_fns list)"
  shows "(volume_control vch \<noteq> None \<longrightarrow> dspdev_set_volume any_api st vch v = Inr (st', ret) \<longrightarrow> ret = 0) \<and>
    fst (snd (switch_at i)) closed st b = Inr (st, 0) \<and> snd (snd (switch_at i)) closed st = (False, 0) \<and>
    dspdev_set_channel closed st ch = Inr (st\<lparr>channel_cache := Some ch\<rparr>, 0) \<and>
    dspdev_set_channel any_api (st\<lparr>channel_cache := Some ch\<rparr>) ch = Inr (st\<lparr>channel_cache := Some ch\<rparr>, 0)"
proof -
  obtain c f g where e: "(switch_at i :: 'm switch_fns) = (c, f, g)" by (cases "switch_at i :: 'm switch_fns")
  note sw = dsp_switch.failure_hidden [OF switch_at_contract [OF assms(3) e] assms(1)]
  have vol: "volume_control vch \<noteq> None \<longrightarrow> dspdev_set_volume any_api st vch v = Inr (st', ret) \<longrightarrow> ret = 0"
    using set_volume_eq [of vch _ any_api st v] put_number_ret by fastforce
  have off: "put_number closed st'' c v = (if -100 < v \<and> v < 1000 then Inr (st'', 0) else Inl Bad_access)" for st'' c v
    using assms(1) by (simp add: put_number_def sprintf4_fits put_text_def dsp_control_def report_def ENODEV_def)
  have cache: "st\<lparr>channel_cache := Some ch\<rparr> = st" if "channel_cache st = Some ch" using that by (cases st) simp
  have "dspdev_set_channel closed st ch = Inr (st\<lparr>channel_cache := Some ch\<rparr>, 0)"
    using assms(1,2) cache
    by (auto simp: dspdev_set_channel_def dspdev_set_audio_balance_def source_balance_def off dsp_control_def ENODEV_def)
  then show ?thesis using vol sw e by (simp add: dspdev_set_channel_def)
qed

section \<open>Volumes\<close>


definition quiet_buses :: audio_bus_status where
  "quiet_buses = \<lparr>is_ducked = replicate 16 False, is_muted = replicate 16 True, in_zoneId = replicate 16 15, bus_vol = replicate 16 60,
     bus_active = replicate 16 1, slot_index = replicate 16 0, slot_in_use = replicate 4 0, is_chime_on = False, focus_bus = replicate 4 255\<rparr>"


text \<open>
  An offset is applied once to the media volume but twice to the phone volume: setting a volume and then setting the offset that
  already holds leaves \<open>Media_Vol\<close> at volume plus offset, while \<open>Phone_Vol\<close> gets the offset a second time, because the
  remembered volume of the phone includes it.
\<close>

lemma phone_offset_applied_twice:
  assumes "mixer_law api acc" and "\<forall>c\<in>volume_controls. has_control api acc c {0..255}"
    and "media_volume_offset_cache st = x" and "phone_volume_offset_cache st = x" and "media_variable_max_volume_cache st = MEDIA_VOL_MAX"
    and "0 \<le> v" and "v \<le> 39" and "0 < v + x" and "v + x \<le> 39" and "0 < v + 2 * x" and "v + 2 * x \<le> 39"
  shows "(\<exists>st1 st2. dspdev_set_volume api st CHANNEL_MEDIA_MUSIC v = Inr (st1, 0) \<and>
      dspdev_set_volume_offset api st1 CHANNEL_MEDIA_MUSIC x = Inr (st2, 0) \<and> dsp_get_value api st2 ''Media_Vol'' 0 = (v + x, 0)) \<and>
    (\<exists>st1 st2. dspdev_set_volume api st CHANNEL_BT_PHONE v = Inr (st1, 0) \<and>
      dspdev_set_volume_offset api st1 CHANNEL_BT_PHONE x = Inr (st2, 0) \<and> dsp_get_value api st2 ''Phone_Vol'' 0 = (v + 2 * x, 0))"
proof -
  have put: "\<exists>m. put_number api st' c w = Inr (st'\<lparr>ds_mixer := m\<rparr>, 0) \<and> (\<forall>st'' y. ds_mixer st'' = m \<longrightarrow> dsp_get_value api st'' c y = (w, 0))"
    if "c \<in> volume_controls" "0 \<le> w" "w \<le> 39" for st' c w
  proof -
    have w: "w \<in> {0..255}" "-100 < w" "w < 1000" using that(2,3) by auto
    show ?thesis by (rule put_number_law [OF assms(1) assms(2) [rule_format, OF that(1)] volume_controls_name [OF that(1)] w, of st']) blast
  qed
  have names: "''Media_Vol'' \<in> volume_controls" "''Phone_Vol'' \<in> volume_controls" by (simp_all add: volume_controls_def)
  have x: "s32 (v + x) = v + x" "s32 v = v" "s32 (v + 2 * x) = v + 2 * x" using assms(6-11) by (auto intro!: s32_id)
  have adj: "adjust_volume st CHANNEL_MEDIA_MUSIC v = v + x" "adjust_volume st CHANNEL_BT_PHONE v = v + x"
    using assms(3-11) x by (simp_all add: adjust_volume_def MEDIA_VOL_MAX_def PHONE_VOL_MAX_def Let_def)
  let ?m = "st\<lparr>media_volume_cache := v\<rparr>"
  let ?p = "st\<lparr>phone_volume_cache := v + x\<rparr>"
  have vol: "dspdev_set_volume api st CHANNEL_MEDIA_MUSIC v = put_number api ?m ''Media_Vol'' (v + x)"
    "dspdev_set_volume api st CHANNEL_BT_PHONE v = put_number api ?p ''Phone_Vol'' (v + x)"
    using set_volume_eq [of CHANNEL_MEDIA_MUSIC "''Media_Vol''" api st v] set_volume_eq [of CHANNEL_BT_PHONE "''Phone_Vol''" api st v] assms(3) x(2) adj
    by (simp_all add: volume_stored_def)
  have off: "offset_media (?m\<lparr>ds_mixer := m\<rparr>) MEDIA_VOL_MAX x = v + x" "offset_phone (?p\<lparr>ds_mixer := m\<rparr>) x = v + 2 * x" for m
    using assms(3-11) x by (simp_all add: offset_media_def offset_phone_def MEDIA_VOL_MAX_def PHONE_VOL_MAX_def Let_def add.assoc)
  have b: "0 \<le> v + x" "v + x \<le> 39" "0 \<le> v + 2 * x" "v + 2 * x \<le> 39" using assms(8-11) by auto
  obtain m1 where m1: "put_number api ?m ''Media_Vol'' (v + x) = Inr (?m\<lparr>ds_mixer := m1\<rparr>, 0)" using put [OF names(1) b(1,2), of ?m] by blast
  obtain p1 where p1: "put_number api ?p ''Phone_Vol'' (v + x) = Inr (?p\<lparr>ds_mixer := p1\<rparr>, 0)" using put [OF names(2) b(1,2), of ?p] by blast
  obtain m2 where m2: "put_number api (?m\<lparr>ds_mixer := m1, media_volume_offset_cache := x\<rparr>) ''Media_Vol'' (v + x) =
      Inr (?m\<lparr>ds_mixer := m1, media_volume_offset_cache := x, ds_mixer := m2\<rparr>, 0)"
    "\<forall>st'' y. ds_mixer st'' = m2 \<longrightarrow> dsp_get_value api st'' ''Media_Vol'' y = (v + x, 0)" using put [OF names(1) b(1,2)] by blast
  obtain p2 where p2: "put_number api (?p\<lparr>ds_mixer := p1, phone_volume_offset_cache := x\<rparr>) ''Phone_Vol'' (v + 2 * x) =
      Inr (?p\<lparr>ds_mixer := p1, phone_volume_offset_cache := x, ds_mixer := p2\<rparr>, 0)"
    "\<forall>st'' y. ds_mixer st'' = p2 \<longrightarrow> dsp_get_value api st'' ''Phone_Vol'' y = (v + 2 * x, 0)" using put [OF names(2) b(3,4)] by blast
  have "dspdev_set_volume_offset api (?m\<lparr>ds_mixer := m1\<rparr>) CHANNEL_MEDIA_MUSIC x =
      Inr (?m\<lparr>ds_mixer := m1, media_volume_offset_cache := x, ds_mixer := m2\<rparr>, 0)"
    unfolding dspdev_set_volume_offset_def dsp_channel_type.case off(1) by (rule m2(1))
  moreover have "dspdev_set_volume_offset api (?p\<lparr>ds_mixer := p1\<rparr>) CHANNEL_BT_PHONE x =
      Inr (?p\<lparr>ds_mixer := p1, phone_volume_offset_cache := x, ds_mixer := p2\<rparr>, 0)"
    unfolding dspdev_set_volume_offset_def dsp_channel_type.case off(2) by (rule p2(1))
  moreover have "dsp_get_value api (?m\<lparr>ds_mixer := m1, media_volume_offset_cache := x, ds_mixer := m2\<rparr>) ''Media_Vol'' 0 = (v + x, 0)"
    "dsp_get_value api (?p\<lparr>ds_mixer := p1, phone_volume_offset_cache := x, ds_mixer := p2\<rparr>) ''Phone_Vol'' 0 = (v + 2 * x, 0)" using m2(2) p2(2) by simp_all
  ultimately show ?thesis using vol m1 p1 by metis
qed

end
