(* ===== verification/Hal_Output.thy ===== *)
theory Hal_Output
  imports Hal_Platform
begin

text \<open>
  The output streams of \<open>audio_hw.c\<close>: opening, starting, writing, standby and closing, in the build without
  \<open>ENABLE_AUDIO_SHAREING\<close> (no build file of the repository defines it).

  The world around the HAL is the record \<open>out_env\<close>: the sound driver, the resampler, the effect library, the remote processor
  and the allocator.  A stream is named by a number, which stands for its address.  Locks are left out: every entry point takes
  and releases them in the same way.
\<close>

definition CODEC_DEV :: int where "CODEC_DEV = 2"
definition RESAMPLER_BUFFER_SIZE :: int where "RESAMPLER_BUFFER_SIZE = 8 * 1024"
definition PLAYBACK_PERIOD_COUNT :: int where "PLAYBACK_PERIOD_COUNT = 6"
definition CHANNEL_STEREO :: int where "CHANNEL_STEREO = 2"
definition OUT_MAX_PROCESSED_BUF_PERIOD :: int where "OUT_MAX_PROCESSED_BUF_PERIOD = 60"

datatype effect_handle = Effect_none | Effect_live | Effect_released

record out_stream =
  os_base :: alsa_stream_out
  os_rate :: int
  os_period_size :: int
  os_period_count :: int
  os_standby :: bool
  os_written :: int
  os_amplitude :: rat
  os_effect_desc :: bool
  os_effect_hdl :: effect_handle
  os_processed_buf :: bool
  os_processed_buf_len :: int
  os_resampler :: bool
  os_formats :: "int list"
  os_masks :: "int list"
  os_rates :: "int list"

record out_dev =
  od_platform :: platform_data
  od_hdls :: "hal_streamer list"
  od_bus :: audio_bus_status
  od_paths :: "int \<times> path_state list"
  od_active_output :: "nat option"
  od_out_map :: "string \<Rightarrow> nat option"
  od_usb :: "(int \<times> int) option"
  od_bt_out :: "nat option option"
  od_devices :: int

record out_env =
  oe_bits :: "int \<Rightarrow> int"
  oe_frame_size :: "int \<Rightarrow> int \<Rightarrow> int"
  oe_rbuf :: "int \<Rightarrow> int \<Rightarrow> int \<Rightarrow> circlebuf option"
  oe_attempt :: "nat \<Rightarrow> open_outcome"
  oe_prepare :: int
  oe_created :: int
  oe_dsp :: "dsp_cmd \<Rightarrow> int"
  oe_slot0 :: "int \<Rightarrow> int"
  oe_rpmsg :: rpmsg_env
  oe_pcm_write :: "byte list \<Rightarrow> int"
  oe_direct_write :: "int list \<Rightarrow> int"
  oe_pcm_close :: int
  oe_create_resampler :: int
  oe_resample :: "byte list \<Rightarrow> int \<Rightarrow> byte list"
  oe_create_effect :: bool
  oe_process :: "byte list \<Rightarrow> byte list"
  oe_fmul :: "rat \<Rightarrow> rat \<Rightarrow> rat"
  oe_polls :: "circlebuf list"
  oe_in_tmp :: "byte list"

section \<open>Starting\<close>

definition rear_card :: "out_dev \<Rightarrow> string \<Rightarrow> int \<times> int" where
  "rear_card d addr =
     (case od_usb d of Some (card_id, port) \<Rightarrow> (card_id, port)
      | None \<Rightarrow>
          if strncmp_eq addr ''bus100'' 6 then (sd_platform_get_card_id (Some (od_platform d)) AUDIO_NAME_REAR1, CODEC_DEV)
          else if strncmp_eq addr ''bus101'' 6 then (sd_platform_get_card_id (Some (od_platform d)) AUDIO_NAME_REAR2, CODEC_DEV)
          else if strncmp_eq addr ''bus102'' 6 then (sd_platform_get_card_id (Some (od_platform d)) AUDIO_NAME_REAR3, CODEC_DEV)
          else (0, 0))"

definition zero_cfg :: pcm_config where
  "zero_cfg = \<lparr>pc_format = 0, pc_rate = 0, pc_channels = 0, pc_period_size = 0, pc_period_count = 0\<rparr>"

definition out_config :: "out_stream \<Rightarrow> pcm_config" where
  "out_config out = \<lparr>pc_format = so_format (os_base out), pc_rate = os_rate out, pc_channels = so_channels (os_base out),
     pc_period_size = os_period_size out, pc_period_count = os_period_count out\<rparr>"

definition set_out_config :: "out_stream \<Rightarrow> pcm_config \<Rightarrow> out_stream" where
  "set_out_config out c = out\<lparr>os_base := (os_base out)\<lparr>so_format := pc_format c, so_channels := pc_channels c\<rparr>, os_rate := pc_rate c,
     os_period_size := pc_period_size c, os_period_count := pc_period_count c\<rparr>"

definition set_pcm :: "bool \<Rightarrow> out_stream \<Rightarrow> out_stream" where
  "set_pcm b out = out\<lparr>os_base := (os_base out)\<lparr>so_pcm := b\<rparr>\<rparr>"

text \<open>The device of a stream; the last component of the result is whether it is open.\<close>

definition open_rear :: "out_env \<Rightarrow> out_dev \<Rightarrow> out_stream \<Rightarrow> out_dev \<times> out_stream \<times> bool" where
  "open_rear env d out =
     (if fst (rear_card d (so_bus_address (os_base out))) < 0 then (d, out, False)
      else let opened = fst (pcm_open_prepare_helper (oe_attempt env) (oe_prepare env) PROXY_OPEN_RETRY_COUNT)
           in (d, set_pcm opened out, opened))"

definition open_ahub :: "out_env \<Rightarrow> out_dev \<Rightarrow> out_stream \<Rightarrow> out_dev \<times> out_stream \<times> bool" where
  "open_ahub env d out =
     (let out = (case sd_platform_get_card_info (Some (od_platform d)) (so_bus_address (os_base out)) (out_config out) of
                   None \<Rightarrow> out | Some (card_id, port, cfg) \<Rightarrow> set_out_config out cfg);
          opened = fst (pcm_open_prepare_helper (oe_attempt env) (oe_prepare env) PROXY_OPEN_RETRY_COUNT)
      in (d, set_pcm opened out, opened))"

definition open_streamer :: "out_env \<Rightarrow> out_dev \<Rightarrow> out_stream \<Rightarrow> c_error + out_dev \<times> out_stream \<times> bool" where
  "open_streamer env d out =
     (let card_id = sd_platform_get_card_id (Some (od_platform d)) AUDIO_NAME_PRIMARY
      in if card_id < 0 then Inr (d, out, False)
         else
           let bus = so_bus_num (os_base out);
               d = d\<lparr>od_paths := fst (open_output_path (oe_rpmsg env) (od_paths d) bus)\<rparr>;
               cfg = fst (sd_platform_get_card_pcm_config (Some (od_platform d)) AUDIO_NAME_PRIMARY zero_cfg True)
           in and_then (hal_streamer_open_out (oe_bits env) (oe_rbuf env) (oe_attempt env) (oe_prepare env) (oe_created env) (oe_dsp env)
                          (od_hdls d) (od_bus d) (os_base out) card_id CODEC_DEV cfg) (\<lambda>(g, st, base, cmds, hdl).
                Inr (d\<lparr>od_hdls := g, od_bus := st\<rparr>, out\<lparr>os_base := base\<lparr>so_pcm_hdl := hdl\<rparr>\<rparr>, hdl \<noteq> None)))"

text \<open>A resampler that cannot be created ends the function without closing what was opened.\<close>

definition start_output_stream :: "out_env \<Rightarrow> nat \<Rightarrow> out_dev \<Rightarrow> out_stream \<Rightarrow> c_error + out_dev \<times> out_stream \<times> int" where
  "start_output_stream env me d out =
     (let d = d\<lparr>od_active_output := Some me\<rparr>
      in and_then (if out_is_rear_seat_or_sharing_addr (so_bus_address (os_base out)) then Inr (open_rear env d out)
                   else if mf_ahub_en (pf_misc (od_platform d)) then Inr (open_ahub env d out)
                   else open_streamer env d out) (\<lambda>(d, out, opened).
           if \<not> opened then Inr (d\<lparr>od_active_output := None\<rparr>, out, - ENODEV)
           else if mf_sw_out_src (pf_misc (od_platform d)) \<and> os_rate out \<noteq> 48000
           then if oe_create_resampler env \<noteq> 0 then Inr (d, out, oe_create_resampler env)
                else Inr (d, out\<lparr>os_resampler := True\<rparr>, 0)
           else Inr (d, out, 0)))"

section \<open>Standby\<close>

definition pcm_closed :: "out_env \<Rightarrow> out_stream \<Rightarrow> out_stream" where
  "pcm_closed env out = (if oe_pcm_close env = 0 then set_pcm False out else out)"

definition close_device :: "out_env \<Rightarrow> out_dev \<Rightarrow> out_stream \<Rightarrow> c_error + out_dev \<times> out_stream" where
  "close_device env d out =
     (if out_is_rear_seat_or_sharing_addr (so_bus_address (os_base out)) \<and> so_pcm (os_base out) then Inr (d, pcm_closed env out)
      else if so_pcm_hdl (os_base out) \<noteq> None
      then and_then (hal_streamer_close_out (oe_slot0 env) (od_hdls d) (od_bus d) (os_base out)) (\<lambda>(g, st, base, ret).
             Inr (d\<lparr>od_hdls := g, od_bus := st, od_paths := fst (close_output_path (oe_rpmsg env) (od_paths d) (so_bus_num base))\<rparr>,
                  out\<lparr>os_base := base\<rparr>))
      else if so_pcm (os_base out) then Inr (d, pcm_closed env out)
      else Inr (d, out))"

definition do_output_standby :: "out_env \<Rightarrow> out_dev \<Rightarrow> out_stream \<Rightarrow> c_error + out_dev \<times> out_stream \<times> int" where
  "do_output_standby env d out =
     (if os_standby out then Inr (d, out, 0)
      else and_then (close_device env d out) (\<lambda>(d, out).
             Inr (d\<lparr>od_active_output := None\<rparr>,
                  out\<lparr>os_resampler := False, os_effect_hdl := if os_effect_desc out then Effect_released else os_effect_hdl out, os_standby := True\<rparr>, 0)))"

definition out_standby :: "out_env \<Rightarrow> out_dev \<Rightarrow> out_stream \<Rightarrow> c_error + out_dev \<times> out_stream \<times> int" where
  "out_standby env d out = do_output_standby env d out"

section \<open>Writing\<close>

definition u64 :: "int \<Rightarrow> int" where
  "u64 x = x mod 18446744073709551616"

text \<open>\<open>audio_stream_out_frame_size\<close> of the framework, which asks the stream for its channels and its format.\<close>

definition out_frame_size :: "out_env \<Rightarrow> out_stream \<Rightarrow> int" where
  "out_frame_size env out = oe_frame_size env (so_channels (os_base out)) (so_format (os_base out))"

text \<open>An effect that could not be created leaves no handle, which \<open>out_effect_config\<close> and \<open>out_effect_set_param\<close> dereference.\<close>

definition use_effect :: "out_stream \<Rightarrow> c_error + out_stream" where
  "use_effect out =
     (case os_effect_hdl out of Effect_none \<Rightarrow> Inl Null_pointer | Effect_released \<Rightarrow> Inl Bad_access | Effect_live \<Rightarrow> Inr out)"

definition create_effect :: "out_env \<Rightarrow> out_stream \<Rightarrow> out_stream" where
  "create_effect env out = (if oe_create_effect env then out\<lparr>os_effect_hdl := Effect_live\<rparr> else out)"

definition start_sw_effect :: "out_env \<Rightarrow> out_stream \<Rightarrow> int \<Rightarrow> c_error + out_stream" where
  "start_sw_effect env out bytes =
     (if bytes \<le> os_processed_buf_len out \<and> os_effect_desc out then use_effect (create_effect env out) else Inr out)"

text \<open>The frames that come out of the resampler, at most as many as its buffer holds; what it did not take of the input is not looked at.\<close>

definition sw_resample_process :: "out_env \<Rightarrow> out_stream \<Rightarrow> byte list \<Rightarrow> int \<Rightarrow> c_error + byte list \<times> int" where
  "sw_resample_process env out buffer frame_size =
     (if os_resampler out
      then let rsp_out_frames = RESAMPLER_BUFFER_SIZE div frame_size; buf = oe_resample env buffer rsp_out_frames
           in if int (length buf) > RESAMPLER_BUFFER_SIZE then Inl Bad_access else Inr (buf, int (length buf) div frame_size)
      else Inr (buffer, int (length buffer) div frame_size))"

definition sw_effect_process :: "out_env \<Rightarrow> out_stream \<Rightarrow> byte list \<Rightarrow> c_error + byte list" where
  "sw_effect_process env out buf =
     (if os_effect_desc out
      then and_then (use_effect out) (\<lambda>out.
             if \<not> os_processed_buf out then Inl Null_pointer
             else if int (length buf) > os_processed_buf_len out then Inl Bad_access
             else Inr (take (length buf) (oe_process env buf)))
      else Inr buf)"

definition sw_gain_process :: "out_env \<Rightarrow> out_dev \<Rightarrow> out_stream \<Rightarrow> byte list \<Rightarrow> c_error + byte list" where
  "sw_gain_process env d out buffer =
     (if mf_sw_gain (pf_misc (od_platform d)) then gain_bytes (oe_fmul env) (os_amplitude out) buffer (length buffer) else Inr buffer)"

text \<open>
  The result is \<open>None\<close> when the call does not return; otherwise the device, the bytes a card got directly, and the return value, which the
  caller ignores.
\<close>

definition pcm_write_helper :: "out_env \<Rightarrow> out_dev \<Rightarrow> out_stream \<Rightarrow> byte list \<Rightarrow> c_error + (out_dev \<times> byte list option \<times> int) option" where
  "pcm_write_helper env d out buffer =
     and_then (sw_gain_process env d out buffer) (\<lambda>buffer.
       if out_is_rear_seat_or_sharing_addr (so_bus_address (os_base out)) \<or> so_pcm_hdl (os_base out) = None
       then if \<not> so_pcm (os_base out) then Inl Null_pointer else Inr (Some (d, Some buffer, oe_pcm_write env buffer))
       else and_then (hal_streamer_write (oe_bits env) (oe_slot0 env) (oe_direct_write env) (oe_in_tmp env) (oe_polls env) (od_bus d) (od_hdls d)
                        (os_base out) (Some buffer) (int (length buffer))) (\<lambda>r.
              case r of None \<Rightarrow> Inr None | Some (g, played, ret) \<Rightarrow> Inr (Some (d\<lparr>od_hdls := g\<rparr>, None, ret))))"

text \<open>\<open>usleep\<close> after a failure is given the length of the data in microseconds.\<close>

definition write_failed :: "out_env \<Rightarrow> out_dev \<Rightarrow> out_stream \<Rightarrow> int \<Rightarrow> c_error + (out_dev \<times> out_stream \<times> byte list option \<times> int) option" where
  "write_failed env d out bytes =
     (if out_frame_size env out = 0 \<or> os_rate out = 0 then Inl Div_by_zero else Inr (Some (d, out, None, bytes)))"

definition write_frames ::
    "out_env \<Rightarrow> out_dev \<Rightarrow> out_stream \<Rightarrow> byte list \<Rightarrow> int \<Rightarrow> c_error + (out_dev \<times> out_stream \<times> byte list option \<times> int) option" where
  "write_frames env d out buffer frame_size =
     and_then (sw_resample_process env out buffer frame_size) (\<lambda>(buf, out_frames).
     and_then (sw_effect_process env out (take (nat (out_frames * frame_size)) buf)) (\<lambda>data.
     and_then (pcm_write_helper env d out data) (\<lambda>r.
       case r of None \<Rightarrow> Inr None
       | Some (d, played, ret) \<Rightarrow> Inr (Some (d, out\<lparr>os_written := u64 (os_written out + out_frames)\<rparr>, played, int (length buffer))))))"

definition out_write :: "out_env \<Rightarrow> nat \<Rightarrow> out_dev \<Rightarrow> out_stream \<Rightarrow> byte list \<Rightarrow> c_error + (out_dev \<times> out_stream \<times> byte list option \<times> int) option" where
  "out_write env me d out buffer =
     (let frame_size = out_frame_size env out; bytes = int (length buffer)
      in if frame_size = 0 then Inl Div_by_zero
         else if os_standby out
         then and_then (start_output_stream env me d out) (\<lambda>(d, out, ret).
                if ret \<noteq> 0 then write_failed env d out bytes
                else and_then (start_sw_effect env out bytes) (\<lambda>out. write_frames env d (out\<lparr>os_standby := False\<rparr>) buffer frame_size))
         else write_frames env d out buffer frame_size)"

text \<open>\<open>signed_frames\<close> is an \<open>uint64_t\<close>, so the test that it is not negative always holds.\<close>

definition out_get_presentation_position :: "(int option) \<Rightarrow> out_stream \<Rightarrow> int \<Rightarrow> int \<times> int" where
  "out_get_presentation_position htimestamp out frames =
     (if so_pcm (os_base out) \<and> \<not> os_standby out
      then (case htimestamp of None \<Rightarrow> (frames, -1)
            | Some avail \<Rightarrow> (u64 (os_written out - u32 (os_period_size out * os_period_count out) + avail), 0))
      else (frames, -1))"

definition out_get_buffer_size :: "out_env \<Rightarrow> out_stream \<Rightarrow> int" where
  "out_get_buffer_size env out = u32 (os_period_size out + 15) div 16 * 16 * out_frame_size env out"

definition out_get_latency :: "out_stream \<Rightarrow> int" where
  "out_get_latency out = 960 * PLAYBACK_PERIOD_COUNT * 1000 div 48000"

definition out_get_sample_rate :: "out_stream \<Rightarrow> int" where
  "out_get_sample_rate out = os_rate out"

definition out_set_sample_rate :: "out_stream \<Rightarrow> int \<Rightarrow> int" where
  "out_set_sample_rate out rate = - ENOSYS"

definition out_set_format :: "out_stream \<Rightarrow> int \<Rightarrow> int" where
  "out_set_format out format = - ENOSYS"

text \<open>\<open>routing\<close> is the value of the key \<open>routing\<close>, if it is there; \<open>AUDIO_DEVICE_OUT_ALL\<close> is a constant of the framework.\<close>

definition out_set_parameters :: "int \<Rightarrow> out_dev \<Rightarrow> string \<Rightarrow> string option \<Rightarrow> out_dev \<times> int" where
  "out_set_parameters out_all d kvpairs routing =
     (if kvpairs = [] then (d, 0)
      else case routing of None \<Rightarrow> (d, - ENOSYS)
      | Some v \<Rightarrow>
          let val = atoi (take 31 v)
          in (if od_devices d AND out_all \<noteq> val \<and> val \<noteq> 0 then d\<lparr>od_devices := (od_devices d AND NOT out_all) OR val\<rparr> else d,
              int (length v)))"

section \<open>What a stream supports\<close>

text \<open>A list with a zero after its last value; \<open>list_length\<close> leaves out the last entry.\<close>

fun register_uint :: "int \<Rightarrow> int list \<Rightarrow> nat \<Rightarrow> int list \<times> bool" where
  "register_uint v xs 0 = (xs, False)"
| "register_uint v [] (Suc n) = ([], False)"
| "register_uint v (x # xs) (Suc n) =
     (if x = v then (x # xs, True) else if x = 0 then (v # xs, True)
      else case register_uint v xs n of (ys, b) \<Rightarrow> (x # ys, b))"

definition MAX_SUPPORTED_CHANNEL_MASKS :: nat where "MAX_SUPPORTED_CHANNEL_MASKS = 16"
definition MAX_SUPPORTED_FORMATS :: nat where "MAX_SUPPORTED_FORMATS = 15"
definition MAX_SUPPORTED_SAMPLE_RATES :: nat where "MAX_SUPPORTED_SAMPLE_RATES = 7"

definition register_channel_mask :: "int \<Rightarrow> int list \<Rightarrow> int list" where
  "register_channel_mask channel_mask supported = fst (register_uint channel_mask supported MAX_SUPPORTED_CHANNEL_MASKS)"

definition register_format :: "int \<Rightarrow> int list \<Rightarrow> int list" where
  "register_format format supported = fst (register_uint format supported MAX_SUPPORTED_FORMATS)"

definition register_sample_rate :: "int \<Rightarrow> int list \<Rightarrow> int list" where
  "register_sample_rate sample_rate supported = fst (register_uint sample_rate supported MAX_SUPPORTED_SAMPLE_RATES)"

text \<open>
  The replies of \<open>out_get_parameters\<close>.  The texts are built in arrays of 256 bytes: a channel name more than fits is the error
  \<open>Bad_access\<close>, a rate that does not fit ends the list.
\<close>

fun channels_text :: "(string \<Rightarrow> int) \<Rightarrow> int list \<Rightarrow> string \<Rightarrow> bool \<Rightarrow> c_error + string" where
  "channels_text enum [] txt is_first = Inl Bad_access"
| "channels_text enum (mask1 # masks) txt is_first =
     (if mask1 = 0 then Inr txt
      else case audio_extra_get_channel_name enum mask1 of None \<Rightarrow> channels_text enum masks txt is_first
      | Some nm \<Rightarrow>
          let txt = (if is_first then txt else txt @ ''|'') @ nm
          in if length txt \<ge> 256 then Inl Bad_access else channels_text enum masks txt False)"

definition stream_get_parameter_channels :: "(string \<Rightarrow> int) \<Rightarrow> bool \<Rightarrow> int list \<Rightarrow> c_error + string option" where
  "stream_get_parameter_channels enum asked supported_channel_masks =
     (if asked then and_then (channels_text enum supported_channel_masks [] True) (\<lambda>t. Inr (Some t)) else Inr None)"

definition stream_get_parameter_formats :: "(string \<Rightarrow> int) \<Rightarrow> bool \<Rightarrow> int list \<Rightarrow> string option" where
  "stream_get_parameter_formats enum asked supported_formats =
     (if asked then Some (if supported_formats ! 0 = enum ''AUDIO_FORMAT_PCM_16_BIT'' then ''AUDIO_FORMAT_PCM_16_BIT'' else []) else None)"

fun rates_text :: "int list \<Rightarrow> string \<Rightarrow> c_error + string" where
  "rates_text [] txt = Inl Bad_access"
| "rates_text (r # rates) txt =
     (if r = 0 then Inr txt
      else
        let piece = (if txt \<noteq> [] then ''|'' else []) @ (if s32 r < 0 then CHR ''-'' # dec (nat (- s32 r)) else dec (nat (s32 r)))
        in if int (length piece) \<ge> 256 - int (length txt) then Inr txt else rates_text rates (txt @ piece))"

definition stream_get_parameter_rates :: "bool \<Rightarrow> int list \<Rightarrow> c_error + string option" where
  "stream_get_parameter_rates asked supported_sample_rates =
     (if asked then and_then (rates_text supported_sample_rates []) (\<lambda>t. Inr (Some t)) else Inr None)"

text \<open>The three replies in the order they are added; the text that libcutils makes of them is left out.\<close>

definition out_get_parameters :: "(string \<Rightarrow> int) \<Rightarrow> bool \<Rightarrow> bool \<Rightarrow> bool \<Rightarrow> out_stream \<Rightarrow> c_error + string option list" where
  "out_get_parameters enum ask_channels ask_formats ask_rates out =
     and_then (stream_get_parameter_channels enum ask_channels (os_masks out)) (\<lambda>c.
     and_then (stream_get_parameter_rates ask_rates (os_rates out)) (\<lambda>r.
       Inr [c, stream_get_parameter_formats enum ask_formats (os_formats out), r]))"

section \<open>Opening and closing\<close>

record audio_config =
  ac_sample_rate :: int
  ac_channel_mask :: int
  ac_format :: int

text \<open>
  The functions of the framework: the number of channels of a mask and back, the format of tinyalsa for a format of Android and back, the
  size of a sample.
\<close>

record out_format_fns =
  of_count :: "int \<Rightarrow> int"
  of_mask :: "int \<Rightarrow> int"
  of_pcm_format :: "int \<Rightarrow> int"
  of_android_format :: "int \<Rightarrow> int"
  of_sample_bytes :: "int \<Rightarrow> int"

definition blank_out :: out_stream where
  "blank_out = \<lparr>os_base = \<lparr>so_channels = 0, so_format = 0, so_bus_address = [], so_bus_num = 0, so_pcm = False, so_pcm_hdl = None\<rparr>,
     os_rate = 0, os_period_size = 0, os_period_count = 0, os_standby = True, os_written = 0, os_amplitude = 0,
     os_effect_desc = False, os_effect_hdl = Effect_none, os_processed_buf = False, os_processed_buf_len = 0, os_resampler = False,
     os_formats = replicate (Suc MAX_SUPPORTED_FORMATS) 0, os_masks = replicate (Suc MAX_SUPPORTED_CHANNEL_MASKS) 0,
     os_rates = replicate (Suc MAX_SUPPORTED_SAMPLE_RATES) 0\<rparr>"

text \<open>The \<open>switch\<close> on the number of the bus: channels, rate, or refused.\<close>

definition bus_format :: "out_format_fns \<Rightarrow> int \<Rightarrow> audio_config \<Rightarrow> (int \<times> int) option" where
  "bus_format fns bus_num config =
     (if bus_num \<in> {100, 101, 102, 103} then Some (CHANNEL_STEREO, 48000)
      else if bus_num \<in> {0, 1, 2, 3, 4, 5, 6, 7, 9} then Some (of_count fns (ac_channel_mask config), ac_sample_rate config)
      else if bus_num = 8 then None
      else Some (0, ac_sample_rate config))"

text \<open>
  \<open>params_ok\<close>: whether \<open>pcm_params_get\<close> gives parameters; \<open>effects\<close>: whether \<open>sd_effect_init\<close> finds the library; \<open>alloc\<close>: whether
  the stream and its buffers can be allocated.  An address of fewer than three characters is read beyond its end.  The result is
  the device, the stream and its number when there is one, the configuration and the return value.
\<close>

definition check_rear :: "out_format_fns \<Rightarrow> bool \<Rightarrow> out_stream \<Rightarrow> audio_config \<Rightarrow> int" where
  "check_rear fns is_rear_seat out config =
     (if is_rear_seat \<and> (os_rate out \<noteq> ac_sample_rate config \<or> of_count fns (ac_channel_mask config) \<noteq> CHANNEL_STEREO \<or>
           so_format (os_base out) \<noteq> of_pcm_format fns (ac_format config))
      then - EINVAL else 0)"

definition make_out :: "out_format_fns \<Rightarrow> string \<Rightarrow> int \<times> int \<Rightarrow> audio_config \<Rightarrow> out_stream" where
  "make_out fns address = (\<lambda>(channels, rate) config.
     blank_out\<lparr>os_base := (os_base blank_out)\<lparr>so_bus_num := atoi (drop 3 address), so_channels := channels,
                 so_format := of_pcm_format fns (ac_format config), so_bus_address := address\<rparr>,
               os_rate := rate, os_period_size := u32 (rate * 20) div 1000, os_period_count := PLAYBACK_PERIOD_COUNT,
               os_amplitude := 1\<rparr>)"

definition finish_out :: "out_format_fns \<Rightarrow> bool \<Rightarrow> out_stream \<Rightarrow> audio_config \<Rightarrow> out_stream" where
  "finish_out fns effects out config =
     (let len = u32 (of_sample_bytes fns (so_format (os_base out)) * so_channels (os_base out) *
                  (u32 (os_rate out * OUT_MAX_PROCESSED_BUF_PERIOD) div 1000))
      in out\<lparr>os_processed_buf_len := len, os_processed_buf := len \<noteq> 0, os_effect_desc := effects,
             os_formats := register_format (ac_format config) (os_formats out),
             os_masks := register_channel_mask (ac_channel_mask config) (os_masks out),
             os_rates := register_sample_rate (os_rate out) (os_rates out)\<rparr>)"

definition STR_DEV_BUS2_ADDR :: string where "STR_DEV_BUS2_ADDR = ''bus1_voice_command_out''"

definition adev_open_output_stream ::
    "(string \<Rightarrow> int) \<Rightarrow> out_format_fns \<Rightarrow> bool \<Rightarrow> bool \<Rightarrow> bool \<Rightarrow> nat \<Rightarrow> out_dev \<Rightarrow> audio_config \<Rightarrow> string option
      \<Rightarrow> c_error + out_dev \<times> out_stream option \<times> audio_config \<times> int" where
  "adev_open_output_stream enum fns params_ok effects alloc me d config addr =
     (case addr of None \<Rightarrow> Inl Null_pointer
      | Some address \<Rightarrow>
          let is_rear_seat = out_is_rear_seat_or_sharing_addr address
          in if \<not> is_rear_seat \<and> sd_platform_get_card_id (Some (od_platform d)) AUDIO_NAME_PRIMARY \<ge> 0 \<and> \<not> params_ok
             then Inr (d, None, config, - ENOSYS)
             else if \<not> sd_platform_check_output enum (ac_format config) (ac_channel_mask config) then Inr (d, None, config, - EINVAL)
             else if \<not> alloc then Inr (d, None, config, - ENOMEM)
             else if length address < 3 then Inl Bad_access
             else case bus_format fns (atoi (drop 3 address)) config of None \<Rightarrow> Inr (d, None, config, - EINVAL)
             | Some format \<Rightarrow>
                 let out = make_out fns address format config;
                     ret = check_rear fns is_rear_seat out config;
                     d = d\<lparr>od_out_map := (od_out_map d)(address := Some me)\<rparr>;
                     config = \<lparr>ac_sample_rate = os_rate out, ac_channel_mask = of_mask fns (so_channels (os_base out)),
                       ac_format = of_android_format fns (so_format (os_base out))\<rparr>
                 in if address = STR_DEV_BUS2_ADDR
                    then Inr (d\<lparr>od_bt_out := map_option (\<lambda>x. Some me) (od_bt_out d)\<rparr>, Some out, config, ret)
                    else Inr (d, Some (finish_out fns effects out config), config, ret))"

definition adev_close_output_stream :: "out_env \<Rightarrow> out_dev \<Rightarrow> out_stream \<Rightarrow> c_error + out_dev" where
  "adev_close_output_stream env d out =
     and_then (do_output_standby env d out) (\<lambda>(d, out, ret).
       Inr (if so_bus_address (os_base out) \<noteq> [] then d\<lparr>od_out_map := (od_out_map d)(so_bus_address (os_base out) := None)\<rparr> else d))"

end
