(* ===== verification/Output_System.thy ===== *)
theory Output_System
  imports Hal_Output Streamer_System
begin

text \<open>
  Output streams over the streamer: who holds a reference to the handle of a card and to the remote path, over any sequence
  of writes and standbys of a stream.
\<close>

section \<open>References to the handles\<close>

text \<open>What the search for a handle looks at.\<close>

definition hkey :: "hal_streamer \<Rightarrow> bool \<times> int list \<times> int" where
  "hkey h = (hs_allocated h, hs_bind_bus h, hs_bind_bus_len h)"

definition table_refs :: "hal_streamer list \<Rightarrow> int list" where
  "table_refs g = map hs_ref_cnt g"

definition handle_for :: "hal_streamer list \<Rightarrow> int \<Rightarrow> nat option" where
  "handle_for g bus = (case find_streamer (bound_to bus) 0 g of Some i \<Rightarrow> Some i | None \<Rightarrow> last_streamer hs_allocated 0 g None)"

lemma bound_to_key: "hkey h = hkey h' \<Longrightarrow> bound_to bus h = bound_to bus h'" "hkey h = hkey h' \<Longrightarrow> hs_allocated h = hs_allocated h'"
  by (simp_all add: hkey_def bound_to_def)

lemma find_streamer_key: "map hkey g = map hkey g' \<Longrightarrow> find_streamer (bound_to bus) k g = find_streamer (bound_to bus) k g'"
proof (induction g arbitrary: k g')
  case (Cons h g)
  obtain h' t where g': "g' = h' # t" "hkey h = hkey h'" "map hkey g = map hkey t" using Cons.prems by (cases g') auto
  show ?case using Cons.IH [OF g'(3)] bound_to_key(1) [OF g'(2)] by (simp add: g'(1))
qed simp

lemma last_streamer_key: "map hkey g = map hkey g' \<Longrightarrow> last_streamer hs_allocated k g hdl = last_streamer hs_allocated k g' hdl"
proof (induction g arbitrary: k g' hdl)
  case (Cons h g)
  obtain h' t where g': "g' = h' # t" "hkey h = hkey h'" "map hkey g = map hkey t" using Cons.prems by (cases g') auto
  show ?case using Cons.IH [OF g'(3)] bound_to_key(2) [OF g'(2)] by (simp add: g'(1))
qed simp

lemma handle_for_key: "map hkey g = map hkey g' \<Longrightarrow> handle_for g bus = handle_for g' bus"
  unfolding handle_for_def using find_streamer_key [of g g' bus 0] last_streamer_key [of g g' 0 None] by metis

lemma probe_out_handle:
  "probe_out g bus = (case handle_for g bus of None \<Rightarrow> (g, None) | Some i \<Rightarrow> (g[i := (g ! i)\<lparr>hs_dir := PLAYBACK_STREAM\<rparr>], Some i))"
  by (simp add: probe_out_def handle_for_def Let_def)

lemma handle_for_less: "handle_for g bus = Some i \<Longrightarrow> i < length g"
  using find_streamer_Some [of "bound_to bus" 0 g] last_streamer_cases [of hs_allocated 0 g None]
  by (fastforce simp: handle_for_def split: option.splits)

lemma hkey_updates [simp]:
  "hkey (h\<lparr>hs_dir := a\<rparr>) = hkey h" "hkey (h\<lparr>hs_bus_buf_sz := b\<rparr>) = hkey h" "hkey (h\<lparr>hs_bus_rbuf := c\<rparr>) = hkey h"
  "hkey (h\<lparr>hs_plbk_exit := d\<rparr>) = hkey h" "hkey (h\<lparr>hs_plbk_hold := d\<rparr>) = hkey h" "hkey (h\<lparr>hs_pcm := d\<rparr>) = hkey h"
  "hkey (h\<lparr>hs_ref_cnt := n\<rparr>) = hkey h" "hkey (h\<lparr>hs_bus_state := s\<rparr>) = hkey h" "hkey (h\<lparr>hs_card := n\<rparr>) = hkey h" "hkey (h\<lparr>hs_port := n\<rparr>) = hkey h"
  "hkey (h\<lparr>hs_format := n\<rparr>) = hkey h" "hkey (h\<lparr>hs_rate := n\<rparr>) = hkey h" "hkey (h\<lparr>hs_channels := n\<rparr>) = hkey h"
  by (simp_all add: hkey_def)

lemma list_update_map_id [simp]: "(map f xs)[i := f (xs ! i)] = map f xs"
  by (metis list_update_id map_update)

lemma map_update_same: "f y = f (xs ! i) \<Longrightarrow> map f (xs[i := y]) = map f xs"
  by (simp add: map_update)

lemma prepare_rbuf_out_refs:
  "prepare_rbuf_out rbuf h out = Inr h' \<Longrightarrow> hs_ref_cnt h' = hs_ref_cnt h \<and> hkey h' = hkey h \<and> hs_pcm h' = hs_pcm h"
  by (auto simp: prepare_rbuf_out_def arr_set_def split: if_splits)

lemma open_handle_out_refs:
  assumes "open_handle_out rbuf attempt prepare created h out c p cfg = Inr (h', out', ok)"
  shows "hs_ref_cnt h' = hs_ref_cnt h + (if ok then 1 else 0)" "hkey h' = hkey h"
    "so_bus_num out' = so_bus_num out" "so_bus_address out' = so_bus_address out" "so_channels out' = so_channels out" "so_format out' = so_format out"
proof -
  let ?h = "if hs_ref_cnt h = 0 then open_device attempt prepare h c p cfg else h"
  have k: "hs_ref_cnt ?h = hs_ref_cnt h" "hkey ?h = hkey h" by (simp_all add: open_device_def)
  obtain h1 where h1: "prepare_rbuf_out rbuf ?h out = Inr h1"
    using assms by (cases "prepare_rbuf_out rbuf ?h out") (auto simp: open_handle_out_def split: if_splits)
  note pr = prepare_rbuf_out_refs [OF h1]
  show "hs_ref_cnt h' = hs_ref_cnt h + (if ok then 1 else 0)" "hkey h' = hkey h"
    "so_bus_num out' = so_bus_num out" "so_bus_address out' = so_bus_address out" "so_channels out' = so_channels out" "so_format out' = so_format out"
    using assms h1 pr k by (auto simp: open_handle_out_def attach_out_def stream_playback_prepare_def Let_def split: if_splits)
qed

lemma open_out_refs:
  assumes "hal_streamer_open_out bits rbuf attempt prepare created dsp g st out c p cfg = Inr (g', st', out', cmds, hdl)"
  obtains i where "handle_for g (so_bus_num out) = Some i" "i < length g" "hdl = Some i \<or> hdl = None"
    "table_refs g' = (table_refs g)[i := table_refs g ! i + (if hdl = None then 0 else 1)]" "map hkey g' = map hkey g"
    "so_bus_num out' = so_bus_num out" "so_bus_address out' = so_bus_address out" "so_channels out' = so_channels out" "so_format out' = so_format out"
proof -
  obtain i where i: "handle_for g (so_bus_num out) = Some i"
    using assms by (cases "handle_for g (so_bus_num out)") (auto simp: hal_streamer_open_out_def probe_out_handle Let_def)
  note less = handle_for_less [OF i]
  obtain szs h ok where h: "open_handle_out rbuf attempt prepare created ((g ! i)\<lparr>hs_dir := PLAYBACK_STREAM, hs_bus_buf_sz := szs\<rparr>) out c p cfg = Inr (h, out', ok)"
    "g' = g[i := h]" "hdl = (if ok then Some i else None)"
    using assms i less by (auto simp: hal_streamer_open_out_def probe_out_handle Let_def and_then_def split: sum.splits)
  note r = open_handle_out_refs [OF h(1)]
  have "table_refs g' = (table_refs g)[i := table_refs g ! i + (if hdl = None then 0 else 1)]"
    using r(1) h(2,3) less by (simp add: table_refs_def map_update)
  moreover have "map hkey g' = map hkey g" using r(2) h(2) less by (simp add: map_update_same)
  ultimately show thesis using that i less h(3) r(3-6) by auto
qed

lemma close_out_refs:
  assumes "hal_streamer_close_out slot0 g st out = Inr (g', st', out', ret)" and "so_pcm_hdl out = Some i" and "i < length g"
  shows "table_refs g' = (table_refs g)[i := table_refs g ! i - 1]" "map hkey g' = map hkey g"
    "so_bus_num out' = so_bus_num out" "so_bus_address out' = so_bus_address out" "so_channels out' = so_channels out" "so_format out' = so_format out"
  using assms by (auto simp: hal_streamer_close_out_def Let_def and_then_def table_refs_def map_update map_update_same split: sum.splits if_splits)

lemma map_bus_refs: "map_bus slot0 st b (h, x, y) = Inr (h', x', y') \<Longrightarrow> hs_ref_cnt h' = hs_ref_cnt h \<and> hkey h' = hkey h"
  by (auto simp: map_bus_def and_then_def Let_def split: if_splits sum.splits option.splits)

lemma map_loop_refs: "map_loop slot0 st bs (h, x, y) = Inr (h', x', y') \<Longrightarrow> hs_ref_cnt h' = hs_ref_cnt h \<and> hkey h' = hkey h"
proof (induction bs arbitrary: h x y)
  case (Cons b bs)
  then obtain h1 x1 y1 where "map_bus slot0 st b (h, x, y) = Inr (h1, x1, y1)" "map_loop slot0 st bs (h1, x1, y1) = Inr (h', x', y')"
    by (cases "map_bus slot0 st b (h, x, y)") auto
  then show ?case using Cons.IH map_bus_refs by metis
qed simp

lemma direct_write_refs:
  "direct_write_pcm bits slot0 pcm_write in_tmp st h out data count = Inr (h', played, ret) \<Longrightarrow> hs_ref_cnt h' = hs_ref_cnt h \<and> hkey h' = hkey h"
  by (auto simp: direct_write_pcm_def do_channel_map_def and_then_def Let_def split: if_splits sum.splits dest!: map_loop_refs)

lemma write_refs:
  assumes "hal_streamer_write bits slot0 pcm_write in_tmp polls st g out data count = Inr (Some (g', played, ret))"
    and "so_pcm_hdl out = Some i" and "i < length g"
  shows "table_refs g' = table_refs g" "map hkey g' = map hkey g"
proof -
  have "\<exists>h. g' = g[i := h] \<and> hs_ref_cnt h = hs_ref_cnt (g ! i) \<and> hkey h = hkey (g ! i) \<or> g' = g"
    using assms by (auto simp: hal_streamer_write_def and_then_def split: if_splits sum.splits option.splits bool.splits dest!: direct_write_refs)
  then show "table_refs g' = table_refs g" "map hkey g' = map hkey g"
    using assms(3) map_update_same [of hs_ref_cnt _ g i] map_update_same [of hkey _ g i] by (auto simp: table_refs_def)
qed

section \<open>A stream on the streamer\<close>

text \<open>A stream that is neither a rear seat nor on a device of its own, and that needs no resampler.\<close>

definition plain_stream :: "out_dev \<Rightarrow> out_stream \<Rightarrow> bool" where
  "plain_stream d out \<longleftrightarrow> \<not> out_is_rear_seat_or_sharing_addr (so_bus_address (os_base out)) \<and> \<not> mf_ahub_en (pf_misc (od_platform d)) \<and>
     (mf_sw_out_src (pf_misc (od_platform d)) \<longrightarrow> os_rate out = 48000) \<and> 0 \<le> sd_platform_get_card_id (Some (od_platform d)) AUDIO_NAME_PRIMARY"

text \<open>What the operations of a stream leave alone.\<close>

definition same_stream :: "out_dev \<Rightarrow> out_stream \<Rightarrow> out_dev \<Rightarrow> out_stream \<Rightarrow> bool" where
  "same_stream d out d' out' \<longleftrightarrow> od_platform d' = od_platform d \<and> os_rate out' = os_rate out \<and>
     so_bus_num (os_base out') = so_bus_num (os_base out) \<and> so_bus_address (os_base out') = so_bus_address (os_base out) \<and>
     map hkey (od_hdls d') = map hkey (od_hdls d)"

lemma same_stream_trans: "same_stream d out d1 out1 \<Longrightarrow> same_stream d1 out1 d2 out2 \<Longrightarrow> same_stream d out d2 out2"
  by (simp add: same_stream_def)

lemma plain_same: "same_stream d out d' out' \<Longrightarrow> plain_stream d' out' = plain_stream d out"
  by (simp add: same_stream_def plain_stream_def)

lemma handle_for_same:
  "same_stream d out d' out' \<Longrightarrow> handle_for (od_hdls d') (so_bus_num (os_base out')) = handle_for (od_hdls d) (so_bus_num (os_base out))"
  using handle_for_key [of "od_hdls d'" "od_hdls d" "so_bus_num (os_base out)"] by (simp add: same_stream_def)

lemma open_streamer_refs:
  assumes "open_streamer env d out = Inr (d', out', opened)" and "0 \<le> sd_platform_get_card_id (Some (od_platform d)) AUDIO_NAME_PRIMARY"
  obtains i where "handle_for (od_hdls d) (so_bus_num (os_base out)) = Some i" "i < length (od_hdls d)"
    "table_refs (od_hdls d') = (table_refs (od_hdls d))[i := table_refs (od_hdls d) ! i + of_bool opened]" "same_stream d out d' out'"
    "od_paths d' = fst (open_output_path (oe_rpmsg env) (od_paths d) (so_bus_num (os_base out)))"
    "so_pcm_hdl (os_base out') = (if opened then Some i else None)" "os_standby out' = os_standby out"
proof -
  let ?c = "sd_platform_get_card_id (Some (od_platform d)) AUDIO_NAME_PRIMARY"
  let ?cfg = "fst (sd_platform_get_card_pcm_config (Some (od_platform d)) AUDIO_NAME_PRIMARY zero_cfg True)"
  have c: "0 \<le> ?c" using assms(2) by simp
  obtain g st base cmds hdl where o: "hal_streamer_open_out (oe_bits env) (oe_rbuf env) (oe_attempt env) (oe_prepare env) (oe_created env) (oe_dsp env)
      (od_hdls d) (od_bus d) (os_base out) ?c CODEC_DEV ?cfg = Inr (g, st, base, cmds, hdl)"
    "d' = d\<lparr>od_paths := fst (open_output_path (oe_rpmsg env) (od_paths d) (so_bus_num (os_base out))), od_hdls := g, od_bus := st\<rparr>"
    "out' = out\<lparr>os_base := base\<lparr>so_pcm_hdl := hdl\<rparr>\<rparr>" "opened = (hdl \<noteq> None)"
    using assms(1) c by (auto simp: open_streamer_def Let_def and_then_def split: sum.splits)
  obtain i where i: "handle_for (od_hdls d) (so_bus_num (os_base out)) = Some i" "i < length (od_hdls d)" "hdl = Some i \<or> hdl = None"
    "table_refs g = (table_refs (od_hdls d))[i := table_refs (od_hdls d) ! i + (if hdl = None then 0 else 1)]" "map hkey g = map hkey (od_hdls d)"
    "so_bus_num base = so_bus_num (os_base out)" "so_bus_address base = so_bus_address (os_base out)"
    by (rule open_out_refs [OF o(1)]) blast
  show thesis by (rule that [OF i(1,2)]) (use o(2-4) i in \<open>auto simp: same_stream_def\<close>)
qed

lemma start_plain:
  assumes "plain_stream d out"
  shows "start_output_stream env me d out = and_then (open_streamer env (d\<lparr>od_active_output := Some me\<rparr>) out) (\<lambda>(d, out, opened).
    Inr (if opened then (d, out, 0) else (d\<lparr>od_active_output := None\<rparr>, out, - ENODEV)))"
proof (cases "open_streamer env (d\<lparr>od_active_output := Some me\<rparr>) out")
  case (Inl e)
  then show ?thesis using assms by (simp add: start_output_stream_def plain_stream_def Let_def)
next
  case (Inr r)
  obtain d1 out1 opened where r: "r = (d1, out1, opened)" by (cases r)
  have "0 \<le> sd_platform_get_card_id (Some (od_platform (d\<lparr>od_active_output := Some me\<rparr>))) AUDIO_NAME_PRIMARY" using assms by (simp add: plain_stream_def)
  then have "same_stream (d\<lparr>od_active_output := Some me\<rparr>) out d1 out1" using open_streamer_refs Inr r by metis
  then have "mf_sw_out_src (pf_misc (od_platform d1)) \<longrightarrow> os_rate out1 = 48000" using assms by (simp add: same_stream_def plain_stream_def)
  then show ?thesis using assms Inr r by (auto simp: start_output_stream_def plain_stream_def Let_def)
qed

lemma write_frames_refs:
  assumes "write_frames env d out buf fs = Inr (Some (d', out', played, ret))" and "plain_stream d out"
    and "so_pcm_hdl (os_base out) = Some i" and "i < length (od_hdls d)"
  shows "table_refs (od_hdls d') = table_refs (od_hdls d)" "same_stream d out d' out'" "od_paths d' = od_paths d" "ret = int (length buf)"
    "os_standby out' = os_standby out" "so_pcm_hdl (os_base out') = so_pcm_hdl (os_base out)"
proof -
  obtain b n data r where s: "sw_resample_process env out buf fs = Inr (b, n)" "sw_effect_process env out (take (nat (n * fs)) b) = Inr data"
    "pcm_write_helper env d out data = Inr (Some (d', played, r))" "out' = out\<lparr>os_written := u64 (os_written out + n)\<rparr>" "ret = int (length buf)"
    using assms(1) by (auto simp: write_frames_def and_then_def split: sum.splits option.splits)
  obtain data' g pl where "hal_streamer_write (oe_bits env) (oe_slot0 env) (oe_direct_write env) (oe_in_tmp env) (oe_polls env) (od_bus d) (od_hdls d)
      (os_base out) (Some data') (int (length data')) = Inr (Some (g, pl, r))" "d' = d\<lparr>od_hdls := g\<rparr>"
    using s(3) assms(2,3) by (auto simp: pcm_write_helper_def plain_stream_def and_then_def split: sum.splits option.splits)
  then show "table_refs (od_hdls d') = table_refs (od_hdls d)" "same_stream d out d' out'" "od_paths d' = od_paths d" "ret = int (length buf)"
    "os_standby out' = os_standby out" "so_pcm_hdl (os_base out') = so_pcm_hdl (os_base out)"
    using write_refs s(4,5) assms(3,4) by (fastforce simp: same_stream_def)+
qed

text \<open>
  The state of a stream relative to the references \<open>refs\<close> without it and \<open>n\<close> users of the path: while it is not in standby it holds the handle
  of its bus and one reference to it.
\<close>

definition held :: "out_dev \<Rightarrow> out_stream \<Rightarrow> int list \<Rightarrow> nat \<Rightarrow> int \<Rightarrow> bool" where
  "held d out refs i n \<longleftrightarrow> plain_stream d out \<and> handle_for (od_hdls d) (so_bus_num (os_base out)) = Some i \<and>
     table_refs (od_hdls d) = refs[i := refs ! i + of_bool (\<not> os_standby out)] \<and> i < length refs \<and>
     (\<not> os_standby out \<longrightarrow> so_pcm_hdl (os_base out) = Some i) \<and>
     snd (od_paths d) = [(HIFI_PLAYBACK_TO_MAIN_SPK_48K, n + of_bool (\<not> os_standby out))]"

lemma paths_hifi:
  assumes "bus \<in> {0, 5}" and "snd ps = [(HIFI_PLAYBACK_TO_MAIN_SPK_48K, k)]" and "0 \<le> k" and "k < 2147483647"
  shows "snd (fst (open_output_path env ps bus)) = [(HIFI_PLAYBACK_TO_MAIN_SPK_48K, k + 1)]"
    and "0 < k \<Longrightarrow> snd (fst (close_output_path env ps bus)) = [(HIFI_PLAYBACK_TO_MAIN_SPK_48K, k - 1)]"
  using assms by (cases ps; auto simp: open_output_path_def close_output_path_def select_path_def s32_id Let_def split: prod.splits)+

lemma length_refs [simp]: "length (table_refs g) = length g"
  by (simp add: table_refs_def)

lemma write_step:
  assumes h: "held d out refs i n" and b: "so_bus_num (os_base out) \<in> {0, 5}" and n: "0 \<le> n" "n < 2147483646"
    and w: "out_write env me d out buf = Inr (Some (d', out', played, ret))"
  shows "held d' out' refs i (n + of_bool (os_standby out'))" "same_stream d out d' out'" "ret = int (length buf)"
proof -
  have pl: "plain_stream d out" using h by (simp add: held_def)
  have len: "i < length (od_hdls d)" using h by (metis held_def length_list_update length_refs)
  have "held d' out' refs i (n + of_bool (os_standby out')) \<and> same_stream d out d' out' \<and> ret = int (length buf)"
  proof (cases "os_standby out")
    case False
    have wf: "write_frames env d out buf (out_frame_size env out) = Inr (Some (d', out', played, ret))"
      using w False by (auto simp: out_write_def Let_def split: if_splits)
    have hdl: "so_pcm_hdl (os_base out) = Some i" using h False by (simp add: held_def)
    note r = write_frames_refs [OF wf pl hdl len]
    have "handle_for (od_hdls d') (so_bus_num (os_base out')) = Some i"
      using h r(2) handle_for_same [OF r(2)] by (simp add: held_def)
    then show ?thesis using h r plain_same [OF r(2)] False by (simp add: held_def)
  next
    case True
    let ?d = "d\<lparr>od_active_output := Some me\<rparr>"
    have pl': "0 \<le> sd_platform_get_card_id (Some (od_platform ?d)) AUDIO_NAME_PRIMARY" using pl by (simp add: plain_stream_def)
    obtain d1 out1 opened where o: "open_streamer env ?d out = Inr (d1, out1, opened)"
      using w True start_plain [OF pl, of env me] by (cases "open_streamer env ?d out") (auto simp: out_write_def Let_def split: if_splits)
    obtain i' where "handle_for (od_hdls ?d) (so_bus_num (os_base out)) = Some i'"
      "table_refs (od_hdls d1) = (table_refs (od_hdls ?d))[i' := table_refs (od_hdls ?d) ! i' + of_bool opened]" "same_stream ?d out d1 out1"
      "od_paths d1 = fst (open_output_path (oe_rpmsg env) (od_paths ?d) (so_bus_num (os_base out)))"
      "so_pcm_hdl (os_base out1) = (if opened then Some i' else None)" "os_standby out1 = os_standby out"
      by (rule open_streamer_refs [OF o pl']) blast
    note r = this [simplified]
    have i': "i' = i" using r(1) h by (simp add: held_def)
    have refs: "table_refs (od_hdls d1) = refs[i := refs ! i + of_bool opened]" using r(2) h True i' by (simp add: held_def)
    have p: "snd (od_paths d1) = [(HIFI_PLAYBACK_TO_MAIN_SPK_48K, n + 1)]"
      using paths_hifi(1) [OF b, of "od_paths d" n] h True n r(4) by (simp add: held_def)
    have same: "same_stream d out d1 out1" using r(3) by (simp add: same_stream_def)
    have hf: "handle_for (od_hdls d1) (so_bus_num (os_base out1)) = Some i"
      using h handle_for_same [OF same] by (simp add: held_def)
    show ?thesis
    proof (cases opened)
      case False
      have "d' = d1\<lparr>od_active_output := None\<rparr> \<and> out' = out1 \<and> ret = int (length buf)"
        using w True o False start_plain [OF pl, of env me] by (auto simp: out_write_def write_failed_def ENODEV_def Let_def split: if_splits)
      then show ?thesis using False refs p hf r(6) True same plain_same [OF same] pl h
        by (auto simp: held_def same_stream_def plain_stream_def)
    next
      case op: True
      obtain out2 where e: "start_sw_effect env out1 (int (length buf)) = Inr out2"
        "write_frames env d1 (out2\<lparr>os_standby := False\<rparr>) buf (out_frame_size env out) = Inr (Some (d', out', played, ret))"
        using w True o op start_plain [OF pl, of env me]
        by (cases "start_sw_effect env out1 (int (length buf))") (auto simp: out_write_def Let_def split: if_splits)
      let ?out = "out2\<lparr>os_standby := False\<rparr>"
      have base: "os_base out2 = os_base out1" "os_rate out2 = os_rate out1"
        using e(1) by (auto simp: start_sw_effect_def use_effect_def create_effect_def split: if_splits effect_handle.splits)
      have same2: "same_stream d out d1 ?out" using same base by (simp add: same_stream_def)
      have len1: "i < length (od_hdls d1)" using refs h by (metis held_def length_list_update length_refs)
      have "so_pcm_hdl (os_base ?out) = Some i" using r(5) op i' base by simp
      note wr = write_frames_refs [OF e(2) plain_same [OF same2, THEN iffD2, OF pl] this len1]
      have "handle_for (od_hdls d') (so_bus_num (os_base out')) = Some i"
        using hf base handle_for_same [OF wr(2)] by simp
      then show ?thesis
        using same_stream_trans [OF same2 wr(2)] plain_same [OF same_stream_trans [OF same2 wr(2)]] pl wr refs p op h \<open>so_pcm_hdl (os_base ?out) = Some i\<close>
        by (simp add: held_def)
    qed
  qed
  then show "held d' out' refs i (n + of_bool (os_standby out'))" "same_stream d out d' out'" "ret = int (length buf)" by auto
qed

lemma standby_step:
  assumes h: "held d out refs i n" and b: "so_bus_num (os_base out) \<in> {0, 5}" and n: "0 \<le> n" "n < 2147483646"
    and w: "out_standby env d out = Inr (d', out', ret)"
  shows "held d' out' refs i n" "same_stream d out d' out'" "os_standby out'" "ret = 0"
proof -
  have "held d' out' refs i n \<and> same_stream d out d' out' \<and> os_standby out' \<and> ret = 0"
  proof (cases "os_standby out")
    case True
    then show ?thesis using w h by (simp add: out_standby_def do_output_standby_def same_stream_def)
  next
    case False
    have pl: "plain_stream d out" and hdl: "so_pcm_hdl (os_base out) = Some i" using h False by (simp_all add: held_def)
    have len: "i < length (od_hdls d)" using h by (metis held_def length_list_update length_refs)
    obtain g st base r where c: "hal_streamer_close_out (oe_slot0 env) (od_hdls d) (od_bus d) (os_base out) = Inr (g, st, base, r)"
      and d': "d' = d\<lparr>od_hdls := g, od_bus := st, od_paths := fst (close_output_path (oe_rpmsg env) (od_paths d) (so_bus_num base)), od_active_output := None\<rparr>"
      and out': "os_base out' = base" "os_rate out' = os_rate out" "os_standby out'" "ret = 0"
      using w False hdl pl
      by (auto simp: out_standby_def do_output_standby_def close_device_def plain_stream_def and_then_def split: sum.splits if_splits)
    note cr = close_out_refs [OF c hdl len]
    have same: "same_stream d out d' out'" using cr d' out' by (simp add: same_stream_def)
    have refs: "table_refs (od_hdls d') = refs[i := refs ! i]" using cr(1) h False d' by (simp add: held_def)
    have p: "snd (od_paths d') = [(HIFI_PLAYBACK_TO_MAIN_SPK_48K, n)]"
      using paths_hifi(2) [OF b, of "od_paths d" "n + 1" "oe_rpmsg env"] h False n cr(3) d' by (simp add: held_def)
    show ?thesis using same refs p out' plain_same [OF same] pl handle_for_same [OF same] h by (simp add: held_def)
  qed
  then show "held d' out' refs i n" "same_stream d out d' out'" "os_standby out'" "ret = 0" by auto
qed

section \<open>Sequences of calls\<close>

datatype out_op = Op_write out_env "byte list" | Op_standby out_env

text \<open>The device and the stream after the calls, what each returned, and how many writes found the stream in standby and left it there.\<close>

fun out_step :: "nat \<Rightarrow> out_op \<Rightarrow> out_dev \<times> out_stream \<Rightarrow> c_error + (out_dev \<times> out_stream \<times> int) option" where
  "out_step me (Op_write env buf) (d, out) =
     and_then (out_write env me d out buf) (\<lambda>r. Inr (case r of None \<Rightarrow> None | Some (d, out, played, ret) \<Rightarrow> Some (d, out, ret)))"
| "out_step me (Op_standby env) (d, out) = and_then (out_standby env d out) (\<lambda>(d, out, ret). Inr (Some (d, out, ret)))"

definition failed_start :: "out_op \<Rightarrow> out_stream \<Rightarrow> int" where
  "failed_start c out = (case c of Op_write env buf \<Rightarrow> of_bool (os_standby out) | Op_standby env \<Rightarrow> 0)"

fun out_run :: "nat \<Rightarrow> out_op list \<Rightarrow> out_dev \<times> out_stream \<Rightarrow> c_error + (out_dev \<times> out_stream \<times> int list \<times> int) option" where
  "out_run me [] (d, out) = Inr (Some (d, out, [], 0))"
| "out_run me (c # cs) (d, out) =
     and_then (out_step me c (d, out)) (\<lambda>r.
       case r of None \<Rightarrow> Inr None
       | Some (d, out, ret) \<Rightarrow>
           and_then (out_run me cs (d, out)) (\<lambda>r.
             Inr (case r of None \<Rightarrow> None | Some (d', out', rets, fails) \<Rightarrow> Some (d', out', ret # rets, fails + failed_start c out))))"

definition op_result :: "out_op \<Rightarrow> int" where
  "op_result c = (case c of Op_write env buf \<Rightarrow> int (length buf) | Op_standby env \<Rightarrow> 0)"

lemma out_step_held:
  assumes "held d out refs i n" and "so_bus_num (os_base out) \<in> {0, 5}" and "0 \<le> n" and "n < 2147483646"
    and "out_step me c (d, out) = Inr (Some (d', out', ret))"
  shows "held d' out' refs i (n + failed_start c out')" "same_stream d out d' out'" "ret = op_result c"
proof -
  have "held d' out' refs i (n + failed_start c out') \<and> same_stream d out d' out' \<and> ret = op_result c"
  proof (cases c)
    case (Op_write env buf)
    then obtain played where w: "out_write env me d out buf = Inr (Some (d', out', played, ret))"
      using assms(5) by (auto simp: and_then_def split: sum.splits option.splits)
    show ?thesis using write_step [OF assms(1-4) w] by (simp add: Op_write failed_start_def op_result_def)
  next
    case (Op_standby env)
    then have w: "out_standby env d out = Inr (d', out', ret)"
      using assms(5) by (auto simp: and_then_def split: sum.splits)
    show ?thesis using standby_step [OF assms(1-4) w] by (simp add: Op_standby failed_start_def op_result_def)
  qed
  then show "held d' out' refs i (n + failed_start c out')" "same_stream d out d' out'" "ret = op_result c" by auto
qed

lemma out_run_held:
  assumes "held d out refs i n" and "so_bus_num (os_base out) \<in> {0, 5}" and "0 \<le> n" and "n + int (length cs) < 2147483646"
    and "out_run me cs (d, out) = Inr (Some (d', out', rets, fails))"
  shows "held d' out' refs i (n + fails) \<and> rets = map op_result cs \<and> 0 \<le> fails \<and> fails \<le> int (length cs)"
  using assms
proof (induction cs arbitrary: d out n rets fails)
  case (Cons c cs)
  obtain d1 out1 ret rets1 fails1 where s: "out_step me c (d, out) = Inr (Some (d1, out1, ret))"
    "out_run me cs (d1, out1) = Inr (Some (d', out', rets1, fails1))" "rets = ret # rets1" "fails = fails1 + failed_start c out1"
    using Cons.prems(5) by (auto simp: and_then_def split: sum.splits option.splits)
  note st = out_step_held [OF Cons.prems(1,2,3) _ s(1)]
  have f: "0 \<le> failed_start c out1" "failed_start c out1 \<le> 1" by (cases c; simp add: failed_start_def)+
  have n: "n < 2147483646" "n + failed_start c out1 + int (length cs) < 2147483646" "0 \<le> n + failed_start c out1"
    using Cons.prems(3,4) f by simp_all
  have bus: "so_bus_num (os_base out1) \<in> {0, 5}" using st(2) [OF n(1)] Cons.prems(2) by (simp add: same_stream_def)
  from Cons.IH [OF st(1) [OF n(1)] bus n(3,2) s(2)] show ?case using s(3,4) st(3) [OF n(1)] f by (auto simp: algebra_simps)
qed auto

end
