(* ===== verification/Output_Properties.thy ===== *)
theory Output_Properties
  imports Output_System Stream_Properties Dsp_System
begin

text \<open>
  The properties of the output streams of \<open>audio_hw.c\<close> from opening to closing, each with an instance that meets its
  hypotheses.
\<close>

section \<open>Instances\<close>

definition tiny_ring :: "int \<Rightarrow> int \<Rightarrow> int \<Rightarrow> circlebuf option" where
  "tiny_ring ch fmt rate = Some (sample_ring 4 2 [])"

definition sample_env :: "open_outcome \<Rightarrow> int \<Rightarrow> out_env" where
  "sample_env outcome created = \<lparr>oe_bits = (\<lambda>f. 16), oe_frame_size = (\<lambda>c f. c * 2), oe_rbuf = tiny_ring, oe_attempt = (\<lambda>k. outcome), oe_prepare = 0, oe_created = 0,
     oe_dsp = (\<lambda>c. 0), oe_slot0 = (\<lambda>b. 0), oe_rpmsg = \<lparr>env_socket = 3, env_connect = 0, env_write = 32\<rparr>, oe_pcm_write = (\<lambda>b. 0),
     oe_direct_write = (\<lambda>b. 0), oe_pcm_close = 0, oe_create_resampler = created, oe_resample = (\<lambda>b n. b), oe_create_effect = True,
     oe_process = (\<lambda>b. b), oe_fmul = (\<lambda>x y. x * y), oe_polls = [sample_ring 4 2 []], oe_in_tmp = []\<rparr>"

definition primary_card :: audio_device_manager where
  "primary_card = \<lparr>dm_android_name = AUDIO_NAME_PRIMARY, dm_linux_name = [], dm_card = 1, dm_device = 2, dm_flag_in = 0, dm_flag_in_active = 0,
     dm_flag_out = 0, dm_flag_out_active = 0, dm_flag_exist = True, dm_out_pcm_cfg = zero_cfg\<lparr>pc_channels := 8, pc_rate := 48000\<rparr>, dm_in_pcm_cfg = zero_cfg\<rparr>"

definition sample_dev :: "bool \<Rightarrow> out_dev" where
  "sample_dev src = \<lparr>od_platform = (small_platform [primary_card])\<lparr>pf_misc := (pf_misc (small_platform []))\<lparr>mf_sw_out_src := src\<rparr>\<rparr>,
     od_hdls = [blank_hdl\<lparr>hs_allocated := True\<rparr>], od_bus = idle_buses, od_paths = (3, [(HIFI_PLAYBACK_TO_MAIN_SPK_48K, 0)]),
     od_active_output = None, od_out_map = (\<lambda>a. None), od_usb = None, od_bt_out = None, od_devices = 0\<rparr>"

definition sample_out :: "int \<Rightarrow> out_stream" where
  "sample_out rate = blank_out\<lparr>os_base := \<lparr>so_channels = 2, so_format = 0, so_bus_address = ''bus0_media_out'', so_bus_num = 0, so_pcm = False,
     so_pcm_hdl = None\<rparr>, os_rate := rate\<rparr>"

lemma sample_plain: "plain_stream (sample_dev src) (sample_out 48000)"
  by (simp add: plain_stream_def sample_dev_def sample_out_def small_platform_def primary_card_def sd_platform_get_card_id_def
      out_is_rear_seat_or_sharing_addr_def strncmp_eq_def AUDIO_NAME_PRIMARY_def AUDIO_NAME_USB_def)

lemma sample_handle: "handle_for (od_hdls (sample_dev src)) 0 = Some 0"
  by (simp add: handle_for_def sample_dev_def bound_to_def blank_hdl_def)

definition leaky_run :: "out_op list" where
  "leaky_run = [Op_write (sample_env Open_null 0) [0, 0, 0, 0], Op_write (sample_env Open_ready 0) [0, 0, 0, 0], Op_standby (sample_env Open_ready 0)]"

lemma leaky_run_value:
  "(case out_run 7 leaky_run (sample_dev False, sample_out 48000) of Inr (Some (d, out, rets, fails)) \<Rightarrow> fails = 1 \<and> os_standby out | _ \<Rightarrow> False)"
  by code_simp

section \<open>References\<close>

text \<open>
  C18.  Any sequence of writes and standbys of a stream on bus 0 or 5, started in standby, in any environment: while the stream is
  not in standby it holds exactly one reference to the handle of its card, in standby none, and no other handle changes.  Every write returns
  the number of bytes it was given, whatever became of them.  The users of the remote path are not balanced in this way: each start
  that failed has left one behind.
\<close>

theorem output_references_balanced:
  assumes "plain_stream d out" and "os_standby out" and "handle_for (od_hdls d) (so_bus_num (os_base out)) = Some i"
    and "so_bus_num (os_base out) \<in> {0, 5}" and "snd (od_paths d) = [(HIFI_PLAYBACK_TO_MAIN_SPK_48K, n)]"
    and "0 \<le> n" and "n + int (length cs) < 2147483646" and "out_run me cs (d, out) = Inr (Some (d', out', rets, fails))"
  shows "table_refs (od_hdls d') = (table_refs (od_hdls d))[i := table_refs (od_hdls d) ! i + of_bool (\<not> os_standby out')] \<and>
    snd (od_paths d') = [(HIFI_PLAYBACK_TO_MAIN_SPK_48K, n + fails + of_bool (\<not> os_standby out'))] \<and> rets = map op_result cs"
proof -
  have "held d out (table_refs (od_hdls d)) i n" using assms(1-3,5) handle_for_less [OF assms(3)] by (simp add: held_def)
  from out_run_held [OF this assms(4,6-8)] show ?thesis by (simp add: held_def)
qed

theorem output_references_balanced_witness:
  "\<exists>d out rets. out_run 7 leaky_run (sample_dev False, sample_out 48000) = Inr (Some (d, out, rets, 1)) \<and> os_standby out \<and>
     table_refs (od_hdls d) = [0] \<and> snd (od_paths d) = [(HIFI_PLAYBACK_TO_MAIN_SPK_48K, 1)] \<and> rets = [4, 4, 0]"
proof -
  obtain d out rets where r: "out_run 7 leaky_run (sample_dev False, sample_out 48000) = Inr (Some (d, out, rets, 1))" "os_standby out"
    using leaky_run_value by (auto split: sum.splits option.splits prod.splits)
  have "handle_for (od_hdls (sample_dev False)) (so_bus_num (os_base (sample_out 48000))) = Some 0" by (simp add: sample_out_def sample_handle)
  from output_references_balanced [OF sample_plain _ this _ _ _ _ r(1), of 0] r
  show ?thesis by (auto simp: sample_out_def blank_out_def sample_dev_def table_refs_def blank_hdl_def leaky_run_def op_result_def)
qed

text \<open>
  A stream whose resampler cannot be created: the write returns as if it had played, the handle is open and counted, but the stream
  is still in standby, so that neither a standby nor closing the stream gives the reference back.
\<close>

lemma failed_resampler_keeps_device:
  assumes "os_standby out" and "\<not> out_is_rear_seat_or_sharing_addr (so_bus_address (os_base out))" and "\<not> mf_ahub_en (pf_misc (od_platform d))"
    and "mf_sw_out_src (pf_misc (od_platform d))" and "os_rate out \<noteq> 48000" and "oe_create_resampler env \<noteq> 0"
    and "0 \<le> sd_platform_get_card_id (Some (od_platform d)) AUDIO_NAME_PRIMARY"
    and "out_write env me d out buf = Inr (Some (d', out', played, ret))" and "so_pcm_hdl (os_base out') \<noteq> None"
  shows "ret = int (length buf) \<and>
    (\<exists>i<length (od_hdls d). table_refs (od_hdls d') = (table_refs (od_hdls d))[i := table_refs (od_hdls d) ! i + 1]) \<and>
    out_standby env2 d' out' = Inr (d', out', 0) \<and>
    (\<exists>d2. adev_close_output_stream env2 d' out' = Inr d2 \<and> od_hdls d2 = od_hdls d' \<and> od_paths d2 = od_paths d')"
proof -
  let ?d = "d\<lparr>od_active_output := Some me\<rparr>"
  obtain d1 out1 opened where o: "open_streamer env ?d out = Inr (d1, out1, opened)"
    using assms(1-3,8) by (cases "open_streamer env ?d out") (auto simp: out_write_def start_output_stream_def Let_def split: if_splits)
  have card: "0 \<le> sd_platform_get_card_id (Some (od_platform ?d)) AUDIO_NAME_PRIMARY" using assms(7) by simp
  obtain i where "handle_for (od_hdls ?d) (so_bus_num (os_base out)) = Some i" "i < length (od_hdls ?d)"
    "table_refs (od_hdls d1) = (table_refs (od_hdls ?d))[i := table_refs (od_hdls ?d) ! i + of_bool opened]" "same_stream ?d out d1 out1"
    "so_pcm_hdl (os_base out1) = (if opened then Some i else None)" "os_standby out1 = os_standby out"
    by (rule open_streamer_refs [OF o card]) blast
  note r = this [simplified]
  have p: "od_platform d1 = od_platform d" "os_rate out1 = os_rate out" using r(4) by (simp_all add: same_stream_def)
  have e: "out' = out1 \<and> ret = int (length buf) \<and> od_hdls d' = od_hdls d1"
    using assms(1-6,8) o p by (auto simp: out_write_def start_output_stream_def write_failed_def ENODEV_def Let_def split: if_splits)
  then have opened: "opened" using r(5) assms(9) by (auto split: if_splits)
  have sb: "os_standby out'" using e r(6) assms(1) by simp
  show ?thesis using e r(2,3) opened sb
    by (auto simp: out_standby_def do_output_standby_def adev_close_output_stream_def)
qed

section \<open>From opening to the first write\<close>

definition sample_fns :: out_format_fns where
  "sample_fns = \<lparr>of_count = (\<lambda>m. if m = 1 then 1 else 2), of_mask = (\<lambda>n. if n = 1 then 1 else 3), of_pcm_format = (\<lambda>f. 0),
     of_android_format = (\<lambda>f. 1), of_sample_bytes = (\<lambda>f. 2)\<rparr>"

definition sample_enum :: "string \<Rightarrow> int" where
  "sample_enum nm = (if nm = ''AUDIO_FORMAT_PCM_16_BIT'' then 1 else if nm = ''AUDIO_CHANNEL_OUT_STEREO'' then 3 else 0)"

definition stereo_config :: "int \<Rightarrow> audio_config" where
  "stereo_config rate = \<lparr>ac_sample_rate = rate, ac_channel_mask = 3, ac_format = 1\<rparr>"

text \<open>What opening gives when it gives a stream that is not that of the voice commands.\<close>

lemma open_output_stream_cases:
  assumes "adev_open_output_stream enum fns params_ok effects alloc me d config (Some address) = Inr (d', Some out, config', ret)"
    and "address \<noteq> STR_DEV_BUS2_ADDR"
  obtains format where "bus_format fns (atoi (drop 3 address)) config = Some format" "sd_platform_check_output enum (ac_format config) (ac_channel_mask config)"
    "out = finish_out fns effects (make_out fns address format config) config'"
    "config' = \<lparr>ac_sample_rate = snd format, ac_channel_mask = of_mask fns (fst format), ac_format = of_android_format fns (of_pcm_format fns (ac_format config))\<rparr>"
    "d' = d\<lparr>od_out_map := (od_out_map d)(address := Some me)\<rparr>"
proof -
  obtain format where f: "bus_format fns (atoi (drop 3 address)) config = Some format"
    using assms(1) by (cases "bus_format fns (atoi (drop 3 address)) config") (simp_all add: adev_open_output_stream_def Let_def split: if_splits)
  have "sd_platform_check_output enum (ac_format config) (ac_channel_mask config) \<and>
      out = finish_out fns effects (make_out fns address format config) config' \<and>
      config' = \<lparr>ac_sample_rate = snd format, ac_channel_mask = of_mask fns (fst format),
        ac_format = of_android_format fns (of_pcm_format fns (ac_format config))\<rparr> \<and> d' = d\<lparr>od_out_map := (od_out_map d)(address := Some me)\<rparr>"
    using assms f by (cases format) (auto simp: adev_open_output_stream_def make_out_def Let_def split: if_splits)
  then show thesis using that f by blast
qed

lemma u64_negative: "- 18446744073709551616 \<le> x \<Longrightarrow> x < 0 \<Longrightarrow> u64 x = 18446744073709551616 + x"
  using mod_pos_pos_trivial [of "x + 18446744073709551616" 18446744073709551616] by (simp add: u64_def)

lemma rear_open_fields:
  assumes "adev_open_output_stream enum fns params_ok False alloc me d config (Some address) = Inr (d', Some out, config', ret)"
    and "atoi (drop 3 address) \<in> {100, 101, 102, 103}"
  shows "os_standby out" "\<not> os_effect_desc out" "\<not> os_resampler out" "os_rate out = 48000" "os_period_size out = 960" "os_period_count out = 6"
    "os_written out = 0" "so_bus_address (os_base out) = address" "so_pcm_hdl (os_base out) = None" "od_platform d' = od_platform d"
proof -
  have "address \<noteq> STR_DEV_BUS2_ADDR" using assms(2) by (auto simp: STR_DEV_BUS2_ADDR_def atoi_def is_space_def is_digit_def digits_val_def)
  then obtain format where f: "bus_format fns (atoi (drop 3 address)) config = Some format" "out = finish_out fns False (make_out fns address format config) config'"
    "d' = d\<lparr>od_out_map := (od_out_map d)(address := Some me)\<rparr>"
    using open_output_stream_cases [OF assms(1)] by blast
  have "format = (CHANNEL_STEREO, 48000)" using f(1) assms(2) by (auto simp: bus_format_def)
  then show "os_standby out" "\<not> os_effect_desc out" "\<not> os_resampler out" "os_rate out = 48000" "os_period_size out = 960" "os_period_count out = 6"
    "os_written out = 0" "so_bus_address (os_base out) = address" "so_pcm_hdl (os_base out) = None" "od_platform d' = od_platform d"
    using f(2,3) by (simp_all add: finish_out_def make_out_def blank_out_def PLAYBACK_PERIOD_COUNT_def u32_def Let_def)
qed

text \<open>
  A stream of a rear seat is opened and written to for the first time.  If fewer frames than the six periods of the device have been
  written, with \<open>avail\<close> of them free, the position the stream reports with success is the negative position as an unsigned number of 64 bits.
\<close>

lemma presentation_position_wraps:
  assumes "adev_open_output_stream enum fns params_ok False alloc me d config (Some address) = Inr (d1, Some out1, config', r)"
    and "out_is_rear_seat_or_sharing_addr address" and "atoi (drop 3 address) \<in> {100, 101, 102, 103}"
    and "out_write env me d2 out1 buf = Inr (Some (d3, out3, played, ret))" and "\<not> os_standby out3"
    and "0 \<le> avail" and "0 < out_frame_size env out1" and "int (length buf) div out_frame_size env out1 + avail < 5760"
  shows "out_get_presentation_position (Some avail) out3 frames =
    (18446744073709551616 - (5760 - int (length buf) div out_frame_size env out1 - avail), 0)"
proof -
  note f = rear_open_fields [OF assms(1,3)]
  let ?n = "int (length buf) div out_frame_size env out1"
  have w: "write_frames env (d2\<lparr>od_active_output := Some me\<rparr>) ((set_pcm True out1)\<lparr>os_standby := False\<rparr>) buf (out_frame_size env out1) = Inr (Some (d3, out3, played, ret))"
    using assms(2,4,5) f
    by (auto simp: out_write_def start_output_stream_def open_rear_def start_sw_effect_def set_pcm_def write_failed_def ENODEV_def Let_def split: if_splits)
  then have "out3 = (set_pcm True out1)\<lparr>os_standby := False, os_written := u64 ?n\<rparr>"
    using f by (auto simp: write_frames_def sw_resample_process_def set_pcm_def and_then_def split: sum.splits option.splits)
  moreover have "0 \<le> ?n" using assms(7) by (simp add: pos_imp_zdiv_nonneg_iff)
  moreover have "u64 ?n = ?n" using \<open>0 \<le> ?n\<close> assms(6,8) by (simp add: u64_def)
  ultimately show ?thesis using f assms(6,8) u64_negative [of "?n - 5760 + avail"]
    by (simp add: out_get_presentation_position_def set_pcm_def u32_def)
qed

text \<open>
  A bus number that the HAL does not know.  The stream opens without an error and is registered under its address, but it has no
  channels, and whatever is written to it, in whatever state the device is, divides by zero.  The framework's frame of no channels has
  no bytes.
\<close>

lemma unknown_bus_divides_by_zero:
  assumes "atoi (drop 3 address) \<notin> {0, 1, 2, 3, 4, 5, 6, 7, 8, 9, 100, 101, 102, 103}" and "3 \<le> length address"
    and "\<not> out_is_rear_seat_or_sharing_addr address" and "sd_platform_check_output enum (ac_format config) (ac_channel_mask config)"
    and no_channels: "\<forall>f. oe_frame_size env 0 f = 0"
  shows "\<exists>d' out config'. adev_open_output_stream enum fns True effects True me d config (Some address) = Inr (d', Some out, config', 0) \<and>
    od_out_map d' address = Some me \<and> out_get_buffer_size env out = 0 \<and> (\<forall>d2 buf. out_write env me d2 out buf = Inl Div_by_zero)"
proof -
  have f: "bus_format fns (atoi (drop 3 address)) config = Some (0, ac_sample_rate config)" using assms(1) by (auto simp: bus_format_def)
  have a: "address \<noteq> STR_DEV_BUS2_ADDR" using assms(1) by (auto simp: STR_DEV_BUS2_ADDR_def atoi_def is_space_def is_digit_def digits_val_def)
  have z: "out_frame_size env (finish_out fns effects (make_out fns address (0, r) config) c) = 0" for r c
    using no_channels by (simp add: out_frame_size_def finish_out_def make_out_def Let_def)
  show ?thesis using assms(2-4) f a z
    by (auto simp: adev_open_output_stream_def check_rear_def out_write_def out_get_buffer_size_def Let_def)
qed

text \<open>
  C19.  What a stream says it supports is what it was opened with: on a bus that takes the caller's format the rate it reports reads back as the
  rate asked for, and the format and the name of the channels are those of the request.  The conversions of the framework are inverse
  on the request and give each of the names its own number.
\<close>

theorem opened_stream_reports_request:
  assumes "adev_open_output_stream enum fns params_ok effects alloc me d config (Some address) = Inr (d', Some out, config', ret)"
    and "address \<noteq> STR_DEV_BUS2_ADDR" and "atoi (drop 3 address) \<in> {0, 1, 2, 3, 4, 5, 6, 7, 9}"
    and "0 < ac_sample_rate config" and "ac_sample_rate config < 2147483648" and "ac_channel_mask config \<noteq> 0"
    and "of_mask fns (of_count fns (ac_channel_mask config)) = ac_channel_mask config"
    and "of_android_format fns (of_pcm_format fns (ac_format config)) = ac_format config"
    and "audio_extra_get_channel_name enum (ac_channel_mask config) = Some nm" and "length nm < 256"
  shows "config' = config \<and>
    (\<exists>t. out_get_parameters enum True True True out = Inr [Some nm, Some ''AUDIO_FORMAT_PCM_16_BIT'', Some t] \<and> atoi t = ac_sample_rate config)"
proof -
  obtain format where f: "bus_format fns (atoi (drop 3 address)) config = Some format" "sd_platform_check_output enum (ac_format config) (ac_channel_mask config)"
    "out = finish_out fns effects (make_out fns address format config) config'"
    "config' = \<lparr>ac_sample_rate = snd format, ac_channel_mask = of_mask fns (fst format), ac_format = of_android_format fns (of_pcm_format fns (ac_format config))\<rparr>"
    by (rule open_output_stream_cases [OF assms(1,2)]) blast
  have fmt: "format = (of_count fns (ac_channel_mask config), ac_sample_rate config)" using f(1) assms(3) by (auto simp: bus_format_def)
  have c: "config' = config" using f(4) fmt assms(7,8) by simp
  have pcm: "ac_format config = enum ''AUDIO_FORMAT_PCM_16_BIT''" using f(2) by (simp add: sd_platform_check_output_def)
  let ?r = "ac_sample_rate config"
  have lists: "os_formats out = register_format (ac_format config) (replicate 16 0)" "os_masks out = register_channel_mask (ac_channel_mask config) (replicate 17 0)"
    "os_rates out = register_sample_rate ?r (replicate 8 0)"
    using f(3) c fmt by (simp_all add: finish_out_def make_out_def blank_out_def MAX_SUPPORTED_FORMATS_def MAX_SUPPORTED_CHANNEL_MASKS_def
        MAX_SUPPORTED_SAMPLE_RATES_def Let_def)
  have first: "register_uint v (replicate (Suc n) 0) (Suc m) = (v # replicate n 0, True)" for v n m by simp
  have l: "os_formats out = ac_format config # replicate 15 0" "os_masks out = ac_channel_mask config # replicate 16 0" "os_rates out = ?r # replicate 7 0"
    using lists first [of _ 15 14] first [of _ 16 15] first [of _ 7 6]
    by (simp_all add: register_format_def register_channel_mask_def register_sample_rate_def MAX_SUPPORTED_FORMATS_def MAX_SUPPORTED_CHANNEL_MASKS_def
        MAX_SUPPORTED_SAMPLE_RATES_def)
  have "s32 ?r = ?r" using assms(4,5) by (intro s32_id) simp_all
  moreover have "length (dec (nat ?r)) \<le> 10" using assms(5) dec_length_le [of "nat ?r" 9] by simp
  ultimately have rates: "rates_text (os_rates out) [] = Inr (dec (nat ?r))" using assms(4,5) l(3) by (simp add: numeral_eq_Suc)
  have "channels_text enum (os_masks out) [] True = Inr nm" using assms(6,9,10) l(2) by (simp add: numeral_eq_Suc)
  then have "out_get_parameters enum True True True out = Inr [Some nm, Some ''AUDIO_FORMAT_PCM_16_BIT'', Some (dec (nat ?r))]"
    using rates l(1) pcm by (simp add: out_get_parameters_def stream_get_parameter_channels_def stream_get_parameter_formats_def stream_get_parameter_rates_def)
  moreover have "atoi (dec (nat ?r)) = ?r" using assms(4) by (simp add: atoi_dec)
  ultimately show ?thesis using c by blast
qed

theorem opened_stream_reports_request_witness:
  "\<exists>d out config t. adev_open_output_stream sample_enum sample_fns True False True 7 (sample_dev False) (stereo_config 44100) (Some ''bus0_media_out'') =
       Inr (d, Some out, config, 0) \<and> config = stereo_config 44100 \<and>
     out_get_parameters sample_enum True True True out = Inr [Some ''AUDIO_CHANNEL_OUT_STEREO'', Some ''AUDIO_FORMAT_PCM_16_BIT'', Some t] \<and> atoi t = 44100"
proof -
  let ?c = "stereo_config 44100" let ?open = "adev_open_output_stream sample_enum sample_fns True False True 7 (sample_dev False) ?c (Some ''bus0_media_out'')"
  have "(case ?open of Inr (d, Some out, config, ret) \<Rightarrow> ret = 0 | _ \<Rightarrow> False)" by code_simp
  then obtain d out config where o: "?open = Inr (d, Some out, config, 0)" by (cases ?open) (auto split: option.splits)
  have "''bus0_media_out'' \<noteq> STR_DEV_BUS2_ADDR" "atoi (drop 3 ''bus0_media_out'') \<in> {0, 1, 2, 3, 4, 5, 6, 7, 9}" "0 < ac_sample_rate ?c"
    "ac_sample_rate ?c < 2147483648" "ac_channel_mask ?c \<noteq> 0" "of_mask sample_fns (of_count sample_fns (ac_channel_mask ?c)) = ac_channel_mask ?c"
    "of_android_format sample_fns (of_pcm_format sample_fns (ac_format ?c)) = ac_format ?c"
    "audio_extra_get_channel_name sample_enum (ac_channel_mask ?c) = Some ''AUDIO_CHANNEL_OUT_STEREO''" "length ''AUDIO_CHANNEL_OUT_STEREO'' < 256"
    by code_simp+
  from opened_stream_reports_request [OF o this] o show ?thesis by (auto simp: stereo_config_def)
qed

end
