(* ===== verification/Frame_Provider.thy ===== *)
theory Frame_Provider
  imports Circlebuf
begin

text \<open>
  Reading frames from a buffer provider: the loop of \<open>read_frames\<close>, which \<open>audio_hw.c\<close> and \<open>audio_bt_call.c\<close> each have a copy of, and the
  interface it relies on.  A provider that serves a stream of frames in order makes the loop deliver them in order, however the requests are cut.
\<close>

section \<open>The loop\<close>

text \<open>
  A buffer provider: what \<open>get_next_buffer\<close> gives for a wanted number of frames (the state, the bytes from the pointer on, if there is one, the number
  of frames) and what \<open>release_buffer\<close> does.
\<close>

type_synonym 's provider = "('s \<Rightarrow> int \<Rightarrow> c_error + 's \<times> byte list option \<times> int) \<times> ('s \<Rightarrow> int \<Rightarrow> 's)"

text \<open>
  One turn of the loop of \<open>read_frames\<close> without a resampler: \<open>fs\<close> is the size of a frame and \<open>at_frame\<close> the number of frames in \<open>buffer\<close> already.  A missing
  buffer copies nothing and leaves \<open>frames_rd\<close> as it was.
\<close>

definition copy_step :: "'s provider \<Rightarrow> int \<Rightarrow> 's \<Rightarrow> byte list \<Rightarrow> int \<Rightarrow> int \<Rightarrow> c_error + 's \<times> byte list \<times> int" where
  "copy_step provider fs s buffer at_frame frames_rd =
     and_then (fst provider s frames_rd) (\<lambda>(s, raw, n).
       case raw of None \<Rightarrow> Inr (snd provider s n, buffer, frames_rd)
       | Some bytes \<Rightarrow> and_then (memcpy buffer (at_frame * fs) bytes 0 (n * fs)) (\<lambda>buffer. Inr (snd provider s n, buffer, n)))"

text \<open>
  The loop; \<open>resampler\<close> is the resampler when there is one, \<open>status\<close> reads the status the provider leaves.  A resampler need not deliver
  frames, so that the loop need not end: \<open>None\<close> is the value when \<open>fuel\<close> turns were not enough.
\<close>

fun frames_loop ::
    "('s \<Rightarrow> int \<Rightarrow> c_error + 's \<times> byte list \<times> int) option \<Rightarrow> 's provider \<Rightarrow> ('s \<Rightarrow> int) \<Rightarrow> int \<Rightarrow> nat \<Rightarrow> 's \<Rightarrow> byte list \<Rightarrow> int \<Rightarrow> int
      \<Rightarrow> c_error + ('s \<times> byte list \<times> int) option" where
  "frames_loop resampler provider status fs fuel s buffer frames frames_wr =
     (if frames_wr \<ge> frames then Inr (Some (s, buffer, frames_wr))
      else case fuel of 0 \<Rightarrow> Inr None
      | Suc fuel \<Rightarrow>
          and_then (case resampler of
                      Some rs \<Rightarrow> and_then (rs s (frames - frames_wr)) (\<lambda>(s, bytes, n).
                                   and_then (memcpy buffer (frames_wr * fs) bytes 0 (int (length bytes))) (\<lambda>buffer. Inr (s, buffer, n)))
                    | None \<Rightarrow> copy_step provider fs s buffer frames_wr (frames - frames_wr)) (\<lambda>(s, buffer, frames_rd).
            if status s \<noteq> 0 then Inr (Some (s, buffer, status s))
            else frames_loop resampler provider status fs fuel s buffer frames (frames_wr + frames_rd)))"

declare frames_loop.simps [simp del]

text \<open>A client that reads \<open>ns\<close> frames one request after the other, each into an array of its own; \<open>rd n\<close> reads \<open>n\<close> frames.\<close>

fun read_requests :: "(nat \<Rightarrow> 's \<Rightarrow> byte list \<Rightarrow> c_error + ('s \<times> byte list \<times> int) option) \<Rightarrow> nat \<Rightarrow> nat list \<Rightarrow> 's \<Rightarrow> c_error + ('s \<times> byte list) option" where
  "read_requests rd fs [] s = Inr (Some (s, []))"
| "read_requests rd fs (n # ns) s =
     and_then (rd n s (replicate (n * fs) 0)) (\<lambda>r.
       case r of None \<Rightarrow> Inr None
       | Some (s, bytes, ret) \<Rightarrow>
           and_then (read_requests rd fs ns s) (\<lambda>r. Inr (case r of None \<Rightarrow> None | Some (s, rest) \<Rightarrow> Some (s, bytes @ rest))))"

section \<open>The contract of a provider\<close>

text \<open>
  \<open>good\<close> are the states in which the provider can serve, \<open>upcoming s m\<close> the next \<open>m\<close> frames of \<open>fs\<close> bytes.  Each call gives at least one and at most the wanted number
  of them, and releasing them moves on.
\<close>

locale frame_provider =
  fixes provider :: "'s provider" and status :: "'s \<Rightarrow> int" and fs :: nat and good :: "'s \<Rightarrow> bool" and upcoming :: "'s \<Rightarrow> nat \<Rightarrow> byte list"
  assumes serve: "good s \<Longrightarrow> 0 < n \<Longrightarrow> \<exists>s' raw k. fst provider s n = Inr (s', Some raw, int k) \<and> 0 < k \<and> int k \<le> n \<and>
      k * fs \<le> length raw \<and> take (k * fs) raw = upcoming s k \<and> good (snd provider s' (int k)) \<and> status (snd provider s' (int k)) = 0 \<and>
      (\<forall>m. upcoming s (k + m) = upcoming s k @ upcoming (snd provider s' (int k)) m)"
    and upcoming_length: "good s \<Longrightarrow> length (upcoming s m) = m * fs"
begin

lemma upcoming_0: "good s \<Longrightarrow> upcoming s 0 = []"
  using upcoming_length [of s 0] by simp

lemma copy_step_serves:
  assumes "good s" and "0 < n" and "(w + n) * fs \<le> length buffer"
  obtains s' k where "copy_step provider (int fs) s buffer (int w) (int n) = Inr (s', blit buffer (w * fs) (upcoming s k), int k)" "0 < k" "k \<le> n"
    "good s'" "status s' = 0" "\<forall>m. upcoming s (k + m) = upcoming s k @ upcoming s' m"
proof -
  obtain s1 raw k where p: "fst provider s (int n) = Inr (s1, Some raw, int k)" "0 < k" "int k \<le> int n" "k * fs \<le> length raw"
    "take (k * fs) raw = upcoming s k" "good (snd provider s1 (int k))" "status (snd provider s1 (int k)) = 0"
    "\<forall>m. upcoming s (k + m) = upcoming s k @ upcoming (snd provider s1 (int k)) m"
    using serve [OF assms(1), of "int n"] assms(2) by auto
  have k: "k \<le> n" using p(3) by simp
  then have "(w + k) * fs \<le> length buffer" using assms(3) mult_le_mono1 [of "w + k" "w + n" fs] by linarith
  then have "memcpy buffer (int w * int fs) raw 0 (int k * int fs) = Inr (blit buffer (w * fs) (upcoming s k))"
    using p(4,5) by (simp add: memcpy_def window_def nat_mult_distrib algebra_simps flip: of_nat_mult of_nat_add)
  then show thesis using that [of "snd provider s1 (int k)" k] p k by (simp add: copy_step_def)
qed

lemma frames_loop_serves:
  assumes "good s" and "w \<le> n" and "n * fs \<le> length buffer" and "n - w \<le> fuel"
  shows "\<exists>s'. frames_loop None provider status (int fs) fuel s buffer (int n) (int w) =
      Inr (Some (s', blit buffer (w * fs) (upcoming s (n - w)), int n)) \<and> good s' \<and>
    (\<forall>m. upcoming s (n - w + m) = upcoming s (n - w) @ upcoming s' m)"
  using assms
proof (induction fuel arbitrary: s w buffer)
  case 0
  then have "w = n" by simp
  then show ?case using 0(1) upcoming_0 by (simp add: frames_loop.simps)
next
  case (Suc fuel)
  show ?case
  proof (cases "w = n")
    case True
    then show ?thesis using Suc.prems(1) upcoming_0 by (simp add: frames_loop.simps)
  next
    case False
    then have wn: "w < n" using Suc.prems(2) by simp
    obtain s1 k where c: "copy_step provider (int fs) s buffer (int w) (int (n - w)) = Inr (s1, blit buffer (w * fs) (upcoming s k), int k)"
      "0 < k" "k \<le> n - w" "good s1" "status s1 = 0" "\<forall>m. upcoming s (k + m) = upcoming s k @ upcoming s1 m"
      by (rule copy_step_serves [OF Suc.prems(1), of "n - w" w buffer]) (use wn Suc.prems(3) in auto)
    let ?b = "blit buffer (w * fs) (upcoming s k)"
    have "w * fs + k * fs \<le> n * fs" using c(3) wn by (metis add_mult_distrib le_diff_conv2 less_imp_le add.commute mult_le_mono1)
    then have fits: "w * fs + length (upcoming s k) \<le> length buffer" using Suc.prems(1,3) upcoming_length by simp
    then have len: "length ?b = length buffer" by simp
    have "\<exists>s'. frames_loop None provider status (int fs) fuel s1 ?b (int n) (int (w + k)) =
        Inr (Some (s', blit ?b ((w + k) * fs) (upcoming s1 (n - (w + k))), int n)) \<and> good s' \<and>
        (\<forall>m. upcoming s1 (n - (w + k) + m) = upcoming s1 (n - (w + k)) @ upcoming s' m)"
      by (rule Suc.IH) (use c Suc.prems wn len in auto)
    then obtain s' where s': "frames_loop None provider status (int fs) fuel s1 ?b (int n) (int (w + k)) =
        Inr (Some (s', blit ?b ((w + k) * fs) (upcoming s1 (n - (w + k))), int n))" "good s'"
      "\<forall>m. upcoming s1 (n - (w + k) + m) = upcoming s1 (n - (w + k)) @ upcoming s' m" by blast
    have nk: "k + (n - (w + k)) = n - w" using c(3) wn by simp
    have up: "upcoming s (n - w) = upcoming s k @ upcoming s1 (n - (w + k))" using c(6) nk by metis
    have "blit ?b ((w + k) * fs) (upcoming s1 (n - (w + k))) = blit buffer (w * fs) (upcoming s (n - w))"
      using blit_blit_append [OF fits] upcoming_length [OF Suc.prems(1), of k] up by (simp add: add_mult_distrib)
    moreover have "upcoming s (n - w + m) = upcoming s (n - w) @ upcoming s' m" for m
      using c(6) [rule_format, of "n - (w + k) + m"] s'(3) up nk by (simp add: add.assoc [symmetric])
    moreover have "frames_loop None provider status (int fs) (Suc fuel) s buffer (int n) (int w) =
        frames_loop None provider status (int fs) fuel s1 ?b (int n) (int (w + k))"
      using wn c(1,5) by (subst frames_loop.simps) (simp add: of_nat_diff)
    ultimately show ?thesis using s'(1,2) by auto
  qed
qed

lemma requests_in_order:
  assumes "\<And>n s buffer. good s \<Longrightarrow> rd n s buffer = frames_loop None provider status (int fs) n s buffer (int n) 0" and "good s"
  shows "\<exists>s'. read_requests rd fs ns s = Inr (Some (s', upcoming s (sum_list ns))) \<and> good s'"
  using assms(2)
proof (induction ns arbitrary: s)
  case Nil
  then show ?case using upcoming_0 by simp
next
  case (Cons n ns)
  obtain s1 where f: "rd n s (replicate (n * fs) 0) = Inr (Some (s1, blit (replicate (n * fs) 0) 0 (upcoming s n), int n))" "good s1"
    "\<forall>m. upcoming s (n + m) = upcoming s n @ upcoming s1 m"
    using frames_loop_serves [OF Cons.prems, of 0 n "replicate (n * fs) 0" n] assms(1) [OF Cons.prems] by auto
  have "blit (replicate (n * fs) 0) 0 (upcoming s n) = upcoming s n" using upcoming_length [OF Cons.prems] by (simp add: blit_def)
  then show ?case using f Cons.IH [OF f(2)] by auto
qed

end

section \<open>Sources of whole periods\<close>

text \<open>
  Both providers of the HAL fetch a period at a time into a buffer and hand out what is left of it.  \<open>period k\<close> is what read number \<open>k\<close> gives, \<open>frames_in s\<close> the number of frames
  of the buffer that have not been handed out yet, the last ones of its first \<open>P\<close>.  The frames to come are these, and then the periods.
\<close>

definition period_upcoming :: "nat \<Rightarrow> nat \<Rightarrow> (nat \<Rightarrow> byte list) \<Rightarrow> nat \<Rightarrow> byte list \<Rightarrow> nat \<Rightarrow> nat \<Rightarrow> byte list" where
  "period_upcoming fs P period frames buf reads m =
     take (m * fs) (take (frames * fs) (drop ((P - frames) * fs) buf) @ concat (map period [reads..<reads + m]))"

locale period_source =
  fixes get :: "'s \<Rightarrow> int \<Rightarrow> c_error + 's \<times> byte list option \<times> int" and release :: "'s \<Rightarrow> int \<Rightarrow> 's" and status :: "'s \<Rightarrow> int" and fs P :: nat
    and good :: "'s \<Rightarrow> bool" and frames_in :: "'s \<Rightarrow> nat" and buf :: "'s \<Rightarrow> byte list" and reads :: "'s \<Rightarrow> nat" and period :: "nat \<Rightarrow> byte list"
  assumes source: "good s \<Longrightarrow> 0 < P \<and> frames_in s \<le> P \<and> P * fs \<le> length (buf s) \<and> status s = 0 \<and> (\<forall>k. length (period k) = P * fs)"
    and hand_out: "good s \<Longrightarrow> 0 < frames_in s \<Longrightarrow> 0 < n \<Longrightarrow> get s n = Inr (s, Some (drop ((P - frames_in s) * fs) (buf s)), min n (int (frames_in s)))"
    and fetch: "good s \<Longrightarrow> frames_in s = 0 \<Longrightarrow> \<exists>s'. good s' \<and> frames_in s' = P \<and> reads s' = Suc (reads s) \<and> take (P * fs) (buf s') = period (reads s) \<and>
      (\<forall>n>0. get s n = get s' n)"
    and give_back: "good s \<Longrightarrow> k \<le> frames_in s \<Longrightarrow> good (release s (int k)) \<and> frames_in (release s (int k)) = frames_in s - k \<and> buf (release s (int k)) = buf s \<and>
      reads (release s (int k)) = reads s"
begin

abbreviation to_come :: "'s \<Rightarrow> nat \<Rightarrow> byte list" where
  "to_come s \<equiv> period_upcoming fs P period (frames_in s) (buf s) (reads s)"

lemma periods_length: "good s \<Longrightarrow> length (concat (map period [r..<r + m])) = m * (P * fs)"
  using source [of s] by (induction m) auto

lemma periods_enough:
  assumes "good s" and "m \<le> m'"
  shows "take (m * fs) (L @ concat (map period [r..<r + m'])) = take (m * fs) (L @ concat (map period [r..<r + m]))"
proof -
  have "[r..<r + m'] = [r..<r + m] @ [r + m..<r + m']" using assms(2) upt_add_eq_append [of r "r + m" "m' - m"] by simp
  moreover have "m * fs \<le> length (concat (map period [r..<r + m]))"
    using periods_length [OF assms(1), of r m] source [OF assms(1)] by (cases P) simp_all
  ultimately show ?thesis by simp
qed

lemma to_come_length: "good s \<Longrightarrow> length (to_come s m) = m * fs"
proof -
  assume g: "good s"
  then have "m * fs \<le> length (concat (map period [reads s..<reads s + m]))" using periods_length [OF g, of "reads s" m] source [OF g] by (cases P) simp_all
  then show ?thesis by (simp add: period_upcoming_def)
qed

lemma serve_left_over:
  assumes g: "good s" and f: "0 < frames_in s" and n: "0 < n"
  shows "\<exists>raw k. get s n = Inr (s, Some raw, int k) \<and> 0 < k \<and> int k \<le> n \<and> k * fs \<le> length raw \<and> take (k * fs) raw = to_come s k \<and> good (release s (int k)) \<and>
    (\<forall>m. to_come s (k + m) = to_come s k @ to_come (release s (int k)) m)"
proof -
  define F where "F = frames_in s"
  define k where "k = nat (min n (int F))"
  define raw where "raw = drop ((P - F) * fs) (buf s)"
  have F: "F \<le> P" "0 < F" "k \<le> F" "0 < k" "int k \<le> n" "int k = min n (int F)" using source [OF g] f n by (auto simp: F_def k_def)
  have pl: "P * fs \<le> length (buf s)" using source [OF g] by simp
  then have len: "F * fs \<le> length raw" using mult_le_mono1 [OF F(1), of fs] by (simp add: raw_def diff_mult_distrib)
  have kl: "k * fs \<le> F * fs" using F(3) by simp
  let ?L = "take (F * fs) raw" let ?C = "\<lambda>m. concat (map period [reads s..<reads s + m])"
  have lenL: "length ?L = F * fs" using len by simp
  have up: "to_come s m = take (m * fs) (?L @ ?C m)" for m by (simp add: period_upcoming_def raw_def F_def)
  have rel: "good (release s (int k))" "frames_in (release s (int k)) = F - k" "buf (release s (int k)) = buf s" "reads (release s (int k)) = reads s"
    using give_back [OF g, of k] F(3) by (simp_all add: F_def)
  have "P - (F - k) = k + (P - F)" using F(1,3) by simp
  then have L': "take ((F - k) * fs) (drop ((P - (F - k)) * fs) (buf s)) = drop (k * fs) ?L"
    by (simp add: raw_def drop_take diff_mult_distrib [symmetric] add_mult_distrib)
  have "to_come s (k + m) = to_come s k @ to_come (release s (int k)) m" for m
  proof -
    have "take ((k + m) * fs) (?L @ ?C (k + m)) = take (k * fs) (?L @ ?C (k + m)) @ take (m * fs) (drop (k * fs) (?L @ ?C (k + m)))"
      by (simp only: add_mult_distrib take_add)
    also have "take (k * fs) (?L @ ?C (k + m)) = take (k * fs) (?L @ ?C k)" using lenL kl by simp
    also have "take (m * fs) (drop (k * fs) (?L @ ?C (k + m))) = take (m * fs) (drop (k * fs) ?L @ ?C m)"
      using lenL kl periods_enough [OF g, of m "k + m" "drop (k * fs) ?L" "reads s"] by simp
    finally show ?thesis using rel L' by (simp add: up) (simp add: period_upcoming_def)
  qed
  moreover have "get s n = Inr (s, Some raw, int k)" using hand_out [OF g f n] F(6) by (simp add: raw_def F_def)
  moreover have "take (k * fs) raw = to_come s k" using kl lenL len by (simp add: up min_absorb1)
  moreover have "k * fs \<le> length raw" using kl len by linarith
  ultimately show ?thesis using F rel(1) by blast
qed

lemma refill_to_come:
  assumes g: "good s" "good s'" and r: "frames_in s = 0" "frames_in s' = P" "reads s' = Suc (reads s)" "take (P * fs) (buf s') = period (reads s)"
  shows "to_come s' m = to_come s m"
proof -
  have "concat (map period [reads s..<reads s + Suc m]) = period (reads s) @ concat (map period [Suc (reads s)..<Suc (reads s) + m])"
    by (subst upt_conv_Cons) simp_all
  then show ?thesis using periods_enough [OF g(1), of m "Suc m" "[]" "reads s"] r by (simp add: period_upcoming_def del: upt_Suc)
qed

end

sublocale period_source \<subseteq> frame_provider "(get, release)" status fs good "\<lambda>s. period_upcoming fs P period (frames_in s) (buf s) (reads s)"
proof (unfold_locales, goal_cases)
  case (1 s n)
  obtain s1 where s1: "good s1" "0 < frames_in s1" "get s n = get s1 n" "\<forall>m. to_come s1 m = to_come s m"
  proof (cases "frames_in s = 0")
    case True
    then obtain s' where "good s'" "frames_in s' = P" "reads s' = Suc (reads s)" "take (P * fs) (buf s') = period (reads s)" "\<forall>n>0. get s n = get s' n"
      using fetch [OF 1(1)] by blast
    then show thesis using that [of s'] refill_to_come [OF 1(1), of s'] True 1(2) source [OF 1(1)] by simp
  next
    case False
    then show thesis using that [of s] 1(1) by simp
  qed
  obtain raw k where r: "get s1 n = Inr (s1, Some raw, int k)" "0 < k" "int k \<le> n" "k * fs \<le> length raw" "take (k * fs) raw = to_come s1 k" "good (release s1 (int k))"
    "\<forall>m. to_come s1 (k + m) = to_come s1 k @ to_come (release s1 (int k)) m"
    using serve_left_over [OF s1(1,2) 1(2)] by blast
  show ?case using r s1(3,4) source [OF r(6)]
    by (intro exI [of _ s1] exI [of _ raw] exI [of _ k]) simp
next
  case (2 s m)
  then show ?case by (rule to_come_length)
qed

end
