(* ===== verification/Hal_Input.thy ===== *)
theory Hal_Input
  imports Hal_Output Pcm_Plugin Frame_Provider
begin

text \<open>
  The input streams of \<open>audio_hw.c\<close>: opening, starting, reading, standby, stopping and closing, in the build without
  \<open>ENABLE_AUDIO_SHAREING\<close>.

  \<open>is_reads\<close> counts the reads of the hardware so far; the environment gives for each of them what the driver does, so that it can
  answer differently every time.  The sharing of a stream's device with its wrapper shows in \<open>is_stale\<close>: \<open>in_stop\<close> closes the device and
  leaves the wrapper pointing to it.
\<close>

definition CODEC_DEV_IN :: int where "CODEC_DEV_IN = 0"
definition CAPTURE_PERIOD_COUNT :: int where "CAPTURE_PERIOD_COUNT = 4"
definition HIFI_CAPTURE_FROM_MAIN_MIC_48K :: string where "HIFI_CAPTURE_FROM_MAIN_MIC_48K = ''PATH_HIFI_CAPTURE_FROM_MAIN_MIC_48K''"

record 'p in_stream =
  is_base :: alsa_stream_in
  is_devices :: int
  is_period_size :: int
  is_period_count :: int
  is_standby :: bool
  is_requested_rate :: int
  is_wrapper :: "'p pcm_wrapper option"
  is_stale :: bool
  is_resampler :: bool
  is_buffer :: "byte list option"
  is_frames_in :: int
  is_read_status :: int
  is_formats :: "int list"
  is_masks :: "int list"
  is_rates :: "int list"
  is_reads :: nat

text \<open>The device with the fields that capture and calls use.\<close>

record hal_dev =
  hd_out :: out_dev
  hd_mode :: int
  hd_active_input :: "nat option"
  hd_hs_device :: int

type_synonym 'p in_state = "hal_dev \<times> 'p in_stream"

text \<open>
  \<open>ie_enum\<close> gives the constants of the framework; \<open>ie_resample\<close> is \<open>resample_from_provider\<close>, which is handed the provider; \<open>ie_pcm_read\<close> and
  \<open>ie_driver\<close> are the result of the \<open>k\<close>-th \<open>pcm_read\<close> and the buffer after it.
\<close>

record 'p in_env =
  ie_enum :: "string \<Rightarrow> int"
  ie_frame_size :: "int \<Rightarrow> int \<Rightarrow> int"
  ie_bits :: "int \<Rightarrow> int"
  ie_ref_b :: bool
  ie_jack :: "nat \<Rightarrow> int option"
  ie_rbuf :: "int \<Rightarrow> int \<Rightarrow> int \<Rightarrow> circlebuf option"
  ie_attempt :: "nat \<Rightarrow> open_outcome"
  ie_prepare :: int
  ie_created :: int
  ie_rpmsg :: rpmsg_env
  ie_polls :: "nat \<Rightarrow> nat \<Rightarrow> circlebuf"
  ie_pcm_read :: "nat \<Rightarrow> int"
  ie_driver :: "nat \<Rightarrow> byte list \<Rightarrow> int \<Rightarrow> byte list"
  ie_pcm_close :: int
  ie_ops :: "'p pcm_plugin_ops"
  ie_alloc :: bool
  ie_plugins :: bool
  ie_plug_opened :: "c_error + 'p pcm_plugin option \<times> int"
  ie_epipe :: bool
  ie_pcm_open :: open_outcome
  ie_create_resampler :: int
  ie_resample :: "'p in_state provider \<Rightarrow> 'p in_state \<Rightarrow> int \<Rightarrow> c_error + 'p in_state \<times> byte list \<times> int"

definition in_frame_size :: "'p in_env \<Rightarrow> 'p in_stream \<Rightarrow> int" where
  "in_frame_size env inp = ie_frame_size env (si_channels (is_base inp)) (si_format (is_base inp))"

section \<open>Queries\<close>

definition in_get_sample_rate :: "hal_dev \<Rightarrow> 'p in_stream \<Rightarrow> int" where
  "in_get_sample_rate d inp =
     (if mf_sw_in_src (pf_misc (od_platform (hd_out d))) then is_requested_rate inp else si_rate (is_base inp))"

definition in_set_sample_rate :: "'p in_stream \<Rightarrow> int \<Rightarrow> int" where
  "in_set_sample_rate inp rate = - ENOSYS"

definition in_set_format :: "'p in_stream \<Rightarrow> int \<Rightarrow> int" where
  "in_set_format inp format = - ENOSYS"

text \<open>\<open>sizeof(short)\<close> is 2; the product is computed in \<open>size_t\<close>, the rate times the period in \<open>uint32_t\<close>.\<close>

definition get_input_buffer_size :: "int \<Rightarrow> int \<Rightarrow> int \<Rightarrow> int" where
  "get_input_buffer_size sample_rate format channels =
     (let size1 = u32 (sample_rate * 20) div 1000 in u64 ((size1 + 15) div 16 * 16 * (2 * channels)))"

definition in_get_buffer_size :: "'p in_env \<Rightarrow> 'p in_stream \<Rightarrow> int" where
  "in_get_buffer_size env inp = u32 (is_period_size inp + 15) div 16 * 16 * in_frame_size env inp"

definition in_get_parameters :: "(string \<Rightarrow> int) \<Rightarrow> bool \<Rightarrow> bool \<Rightarrow> bool \<Rightarrow> 'p in_stream \<Rightarrow> c_error + string option list" where
  "in_get_parameters enum ask_channels ask_formats ask_rates inp =
     and_then (stream_get_parameter_channels enum ask_channels (is_masks inp)) (\<lambda>c.
     and_then (stream_get_parameter_rates ask_rates (is_rates inp)) (\<lambda>r.
       Inr [c, stream_get_parameter_formats enum ask_formats (is_formats inp), r]))"

section \<open>Standby\<close>

definition set_hdls :: "hal_dev \<Rightarrow> hal_streamer list \<Rightarrow> hal_dev" where
  "set_hdls d g = d\<lparr>hd_out := (hd_out d)\<lparr>od_hdls := g\<rparr>\<rparr>"

definition set_remote :: "hal_dev \<Rightarrow> int \<Rightarrow> hal_dev" where
  "set_remote d r = d\<lparr>hd_out := (hd_out d)\<lparr>od_paths := (r, snd (od_paths (hd_out d)))\<rparr>\<rparr>"

definition dev_remote :: "hal_dev \<Rightarrow> int" where
  "dev_remote d = fst (od_paths (hd_out d))"

definition stop_main_mic :: "'p in_env \<Rightarrow> hal_dev \<Rightarrow> hal_dev" where
  "stop_main_mic env d =
     (if dev_remote d > 0
      then set_remote d (fst (audio_remote_stop (ie_rpmsg env) (dev_remote d) HIFI_CAPTURE_FROM_MAIN_MIC_48K)) else d)"

definition start_main_mic :: "'p in_env \<Rightarrow> hal_dev \<Rightarrow> hal_dev" where
  "start_main_mic env d =
     (if dev_remote d > 0
      then set_remote d (fst (audio_remote_start (ie_rpmsg env) (dev_remote d) HIFI_CAPTURE_FROM_MAIN_MIC_48K 100)) else d)"

text \<open>The device of the wrapper is closed a second time when \<open>in_stop\<close> has closed it before; \<open>pcm_wrapper_close\<close> has released the wrapper even when it
  reports a failure.\<close>

definition close_input :: "'p in_env \<Rightarrow> hal_dev \<Rightarrow> 'p in_stream \<Rightarrow> c_error + hal_dev \<times> 'p in_stream \<times> int" where
  "close_input env d inp =
     (case is_wrapper inp of
        Some w \<Rightarrow>
          if is_stale inp then Inl Bad_access
          else and_then (pcm_wrapper_close w (ie_pcm_close env)) (\<lambda>ret.
                 if ret = 0 then Inr (d, inp\<lparr>is_base := (is_base inp)\<lparr>si_pcm := False\<rparr>, is_wrapper := None\<rparr>, 0)
                 else Inr (d, inp\<lparr>is_stale := True\<rparr>, -1))
      | None \<Rightarrow>
          if si_pcm_hdl (is_base inp) \<noteq> None
          then let (g, base, ret) = hal_streamer_close_in (od_hdls (hd_out d)) (is_base inp)
               in Inr (stop_main_mic env (set_hdls d g), inp\<lparr>is_base := base\<lparr>si_pcm_hdl := None\<rparr>\<rparr>, 0)
          else Inr (d, inp, 0))"

definition do_in_standby :: "'p in_env \<Rightarrow> hal_dev \<Rightarrow> 'p in_stream \<Rightarrow> c_error + hal_dev \<times> 'p in_stream \<times> int" where
  "do_in_standby env d inp =
     (if is_standby inp then Inr (d, inp, 0)
      else and_then (close_input env d inp) (\<lambda>(d, inp, ret).
             if ret < 0 then Inr (d, inp, -1)
             else Inr (d\<lparr>hd_active_input := None\<rparr>, inp\<lparr>is_resampler := False, is_standby := True\<rparr>, 0)))"

definition in_standby :: "'p in_env \<Rightarrow> hal_dev \<Rightarrow> 'p in_stream \<Rightarrow> c_error + hal_dev \<times> 'p in_stream \<times> int" where
  "in_standby env d inp = do_in_standby env d inp"

section \<open>Reading frames\<close>

definition pcm_read_hw :: "'p in_env \<Rightarrow> hal_dev \<Rightarrow> 'p in_stream \<Rightarrow> byte list \<Rightarrow> int \<Rightarrow> c_error + hal_dev \<times> 'p in_stream \<times> byte list \<times> int" where
  "pcm_read_hw env d inp buffer bytes =
     (let k = is_reads inp
      in case is_wrapper inp of
           Some w \<Rightarrow>
             if is_stale inp then Inl Bad_access
             else and_then (pcm_wrapper_read (ie_ops env) (ie_bits env) (ie_epipe env) w (ie_pcm_read env k) (ie_driver env k buffer bytes) (u32 bytes))
                    (\<lambda>(w, buffer, ret). Inr (d, inp\<lparr>is_wrapper := Some w, is_reads := Suc k\<rparr>, buffer, ret))
         | None \<Rightarrow>
             if si_pcm_hdl (is_base inp) \<noteq> None
             then and_then (hal_streamer_read (ie_polls env k) (od_hdls (hd_out d)) (is_base inp) buffer bytes) (\<lambda>(g, buffer, ret).
                    Inr (set_hdls d g, inp\<lparr>is_reads := Suc k\<rparr>, buffer, ret))
             else Inr (d, inp, buffer, - EINVAL))"

text \<open>The buffer of the stream is filled when nothing is left of it; the pointer counts 16-bit samples.\<close>

definition fill_buffer :: "'p in_env \<Rightarrow> 'p in_state \<Rightarrow> c_error + 'p in_state" where
  "fill_buffer env = (\<lambda>(d, inp).
     case is_buffer inp of None \<Rightarrow> Inl Null_pointer
     | Some buf \<Rightarrow>
         and_then (pcm_read_hw env d inp buf (is_period_size inp * in_frame_size env inp)) (\<lambda>(d, inp, buf, status).
           Inr (d, inp\<lparr>is_buffer := Some buf, is_read_status := status, is_frames_in := if status = 0 then is_period_size inp else is_frames_in inp\<rparr>)))"

definition get_next_buffer :: "'p in_env \<Rightarrow> 'p in_state \<Rightarrow> int \<Rightarrow> c_error + 'p in_state \<times> byte list option \<times> int" where
  "get_next_buffer env s frame_count =
     and_then (if is_frames_in (snd s) = 0 then fill_buffer env s else Inr s) (\<lambda>(d, inp).
       if is_frames_in inp = 0 \<and> is_read_status inp \<noteq> 0 then Inr ((d, inp), None, 0)
       else case is_buffer inp of None \<Rightarrow> Inl Null_pointer
       | Some buf \<Rightarrow>
           Inr ((d, inp), Some (drop (nat ((is_period_size inp - is_frames_in inp) * si_channels (is_base inp) * 2)) buf),
                if frame_count > is_frames_in inp then is_frames_in inp else frame_count))"

definition release_buffer :: "'p in_state \<Rightarrow> int \<Rightarrow> 'p in_state" where
  "release_buffer = (\<lambda>(d, inp) frame_count. (d, inp\<lparr>is_frames_in := u64 (is_frames_in inp - frame_count)\<rparr>))"

definition in_provider :: "'p in_env \<Rightarrow> 'p in_state provider" where
  "in_provider env = (get_next_buffer env, release_buffer)"

definition read_frames :: "'p in_env \<Rightarrow> nat \<Rightarrow> hal_dev \<Rightarrow> 'p in_stream \<Rightarrow> byte list \<Rightarrow> int \<Rightarrow> c_error + ('p in_state \<times> byte list \<times> int) option" where
  "read_frames env fuel d inp buffer frames =
     frames_loop (if is_resampler inp then Some (ie_resample env (in_provider env)) else None) (in_provider env) (\<lambda>s. is_read_status (snd s))
       (in_frame_size env inp) fuel (d, inp) buffer frames 0"

section \<open>Starting and stopping\<close>

definition rear_100_cap_cfg_ref :: wrapper_config where
  "rear_100_cap_cfg_ref = zero_config\<lparr>pc_channels := CHANNEL_STEREO, pc_rate := 48000, pc_period_size := 960, pc_period_count := PLAYBACK_PERIOD_COUNT,
     pc_format := PCM_FORMAT_S16_LE\<rparr>"

definition default_input_config :: pcm_config where
  "default_input_config = \<lparr>pc_format = PCM_FORMAT_S16_LE, pc_rate = 48000, pc_channels = 8, pc_period_size = 960, pc_period_count = PLAYBACK_PERIOD_COUNT\<rparr>"

definition is_headset :: "'p in_env \<Rightarrow> 'p in_stream \<Rightarrow> bool" where
  "is_headset env inp \<longleftrightarrow> is_devices inp = ie_enum env ''AUDIO_DEVICE_IN_WIRED_HEADSET''"

definition input_card :: "'p in_env \<Rightarrow> hal_dev \<Rightarrow> 'p in_stream \<Rightarrow> int" where
  "input_card env d inp =
     sd_platform_get_card_id (Some (od_platform (hd_out d)))
       (if ie_ref_b env
        then if bit (get_active_hs_device (ie_jack env) (hd_hs_device d)) 2 then AUDIO_NAME_REAR3 else AUDIO_NAME_REAR2
        else if is_headset env inp then AUDIO_NAME_REAR1 else AUDIO_NAME_PRIMARY)"

text \<open>The wrapper stays with the stream when its device is not ready.\<close>

definition open_wrapper :: "'p in_env \<Rightarrow> hal_dev \<Rightarrow> 'p in_stream \<Rightarrow> c_error + hal_dev \<times> 'p in_stream \<times> int" where
  "open_wrapper env d inp =
     and_then (pcm_wrapper_open (ie_ops env) (ie_enum env) (ie_alloc env) (ie_plugins env) (ie_plug_opened env) (ie_pcm_open env \<noteq> Open_null) True
                 (Some rear_100_cap_cfg_ref)) (\<lambda>w.
     and_then (case w of None \<Rightarrow> Inr None
               | Some w \<Rightarrow> and_then (pcm_wrapper_prepare (ie_ops env) w) (\<lambda>(w, ret).
                           and_then (pcm_wrapper_start (ie_ops env) w) (\<lambda>(w, ret). Inr (Some w)))) (\<lambda>w.
       let ready = pcm_wrapper_get_handler w \<and> ie_pcm_open env = Open_ready;
           inp = inp\<lparr>is_wrapper := w, is_stale := False, is_base := (is_base inp)\<lparr>si_pcm := pcm_wrapper_get_handler w\<rparr>\<rparr>
       in if ready then Inr (d, inp, 0) else Inr (d\<lparr>hd_active_input := None\<rparr>, inp, - ENODEV)))"

definition input_config :: "hal_dev \<Rightarrow> 'p in_stream \<Rightarrow> pcm_config" where
  "input_config d inp =
     (if mf_ahub_en (pf_misc (od_platform (hd_out d)))
      then default_input_config\<lparr>pc_rate := si_rate (is_base inp), pc_period_size := u32 (si_rate (is_base inp) * 20) div 1000\<rparr>
      else default_input_config)"

definition open_mic :: "'p in_env \<Rightarrow> hal_dev \<Rightarrow> 'p in_stream \<Rightarrow> int \<Rightarrow> c_error + hal_dev \<times> 'p in_stream \<times> int" where
  "open_mic env d inp card_id =
     (let d = start_main_mic env d
      in and_then (hal_streamer_open_in (ie_rbuf env) (ie_attempt env) (ie_prepare env) (ie_created env) (od_hdls (hd_out d)) (is_base inp)
                     card_id CODEC_DEV_IN (input_config d inp)) (\<lambda>(g, hdl).
           let d = set_hdls d g; inp = inp\<lparr>is_base := (is_base inp)\<lparr>si_pcm_hdl := hdl\<rparr>\<rparr>
           in if hdl = None then Inr (d\<lparr>hd_active_input := None\<rparr>, inp, - ENODEV) else Inr (d, inp, 0)))"

definition input_resampler :: "'p in_env \<Rightarrow> hal_dev \<Rightarrow> 'p in_stream \<Rightarrow> 'p in_stream \<times> int" where
  "input_resampler env d inp =
     (if mf_sw_in_src (pf_misc (od_platform (hd_out d)))
      then if is_requested_rate inp \<noteq> si_rate (is_base inp) \<and> ie_create_resampler env \<noteq> 0 then (inp, - EINVAL)
           else let resampler = is_resampler inp \<or> is_requested_rate inp \<noteq> si_rate (is_base inp)
                in (inp\<lparr>is_resampler := resampler, is_frames_in := if resampler then 0 else is_frames_in inp\<rparr>, 0)
      else (inp, 0))"

definition start_input_stream :: "'p in_env \<Rightarrow> nat \<Rightarrow> hal_dev \<Rightarrow> 'p in_stream \<Rightarrow> c_error + hal_dev \<times> 'p in_stream \<times> int" where
  "start_input_stream env me d inp =
     (if hd_mode d = ie_enum env ''AUDIO_MODE_IN_CALL'' then Inr (d, inp, 0)
      else
        let d = d\<lparr>hd_active_input := Some me\<rparr>; card_id = input_card env d inp
        in if card_id < 0 then Inr (d, inp, - ENODEV)
           else and_then (if is_headset env inp \<or> ie_ref_b env then open_wrapper env d inp else open_mic env d inp card_id) (\<lambda>(d, inp, ret).
                  if ret \<noteq> 0 then Inr (d, inp, ret)
                  else let (inp, ret) = input_resampler env d inp in Inr (d, inp, ret)))"

text \<open>\<open>in_stop\<close> closes the device of a stream; the wrapper keeps its pointer to it.\<close>

definition in_stop :: "'p in_stream \<Rightarrow> 'p in_stream \<times> int" where
  "in_stop inp =
     (if si_pcm (is_base inp)
      then (inp\<lparr>is_base := (is_base inp)\<lparr>si_pcm := False\<rparr>, is_stale := is_stale inp \<or> is_wrapper inp \<noteq> None\<rparr>, - ENOSYS)
      else (inp, - ENOSYS))"

definition in_start :: "'p in_env \<Rightarrow> nat \<Rightarrow> hal_dev \<Rightarrow> 'p in_stream \<Rightarrow> c_error + hal_dev \<times> 'p in_stream \<times> int" where
  "in_start env me d inp = (if si_pcm (is_base inp) \<and> \<not> is_standby inp then start_input_stream env me d inp else Inr (d, inp, -1))"

section \<open>Reading\<close>

definition read_failed :: "'p in_env \<Rightarrow> hal_dev \<Rightarrow> 'p in_stream \<Rightarrow> byte list \<Rightarrow> c_error + ('p in_state \<times> byte list \<times> int) option" where
  "read_failed env d inp buffer =
     and_then (in_standby env d inp) (\<lambda>(d, inp, status).
       if in_frame_size env inp = 0 \<or> in_get_sample_rate d inp = 0 then Inl Div_by_zero
       else Inr (Some ((d, inp), replicate (length buffer) 0, int (length buffer))))"

definition read_started :: "'p in_env \<Rightarrow> nat \<Rightarrow> hal_dev \<Rightarrow> 'p in_stream \<Rightarrow> byte list \<Rightarrow> c_error + ('p in_state \<times> byte list \<times> int) option" where
  "read_started env fuel d inp buffer =
     (if in_frame_size env inp = 0 then Inl Div_by_zero
      else and_then (if is_resampler inp then read_frames env fuel d inp buffer (int (length buffer) div in_frame_size env inp)
                     else and_then (pcm_read_hw env d inp buffer (int (length buffer))) (\<lambda>(d, inp, buffer, ret). Inr (Some ((d, inp), buffer, ret)))) (\<lambda>r.
             case r of None \<Rightarrow> Inr None
             | Some ((d, inp), buffer, ret) \<Rightarrow>
                 if ret < 0 then read_failed env d inp buffer else Inr (Some ((d, inp), buffer, int (length buffer)))))"

definition in_read :: "'p in_env \<Rightarrow> nat \<Rightarrow> nat \<Rightarrow> hal_dev \<Rightarrow> 'p in_stream \<Rightarrow> byte list \<Rightarrow> c_error + ('p in_state \<times> byte list \<times> int) option" where
  "in_read env fuel me d inp buffer =
     (if hd_mode d = ie_enum env ''AUDIO_MODE_IN_CALL'' then Inr (Some ((d, inp), buffer, 1))
      else if is_standby inp
      then and_then (start_input_stream env me d inp) (\<lambda>(d, inp, ret).
             if ret < 0 then read_failed env d inp buffer
             else if ret > 0 then Inr (Some ((d, inp), buffer, int (length buffer)))
             else read_started env fuel d (inp\<lparr>is_standby := False\<rparr>) buffer)
      else read_started env fuel d inp buffer)"

section \<open>Opening and closing\<close>

definition in_device_of :: "(string \<Rightarrow> int) \<Rightarrow> int \<Rightarrow> in_device" where
  "in_device_of enum devices =
     (if devices = enum ''AUDIO_DEVICE_IN_BUILTIN_MIC'' then AUDIO_DEVICE_IN_BUILTIN_MIC
      else if devices = enum ''AUDIO_DEVICE_IN_TELEPHONY_RX'' then AUDIO_DEVICE_IN_TELEPHONY_RX else IN_DEVICE_OTHER)"

text \<open>\<open>in_count\<close> is \<open>audio_channel_count_from_in_mask\<close>, \<open>pcm_format\<close> is \<open>pcm_format_from_audio_format\<close>, \<open>heap\<close> the memory that \<open>malloc\<close> gives.\<close>

definition make_in :: "'p in_env \<Rightarrow> (int \<Rightarrow> int) \<Rightarrow> (int \<Rightarrow> int) \<Rightarrow> (nat \<Rightarrow> byte) \<Rightarrow> hal_dev \<Rightarrow> int \<Rightarrow> audio_config \<Rightarrow> 'p in_stream" where
  "make_in env in_count pcm_format heap d devices config =
     (let rate = (if mf_sw_in_src (pf_misc (od_platform (hd_out d))) then 48000 else ac_sample_rate config);
          channels = in_count (ac_channel_mask config); format = pcm_format (ac_format config);
          period = u32 (rate * 20) div 1000
      in \<lparr>is_base = \<lparr>si_channels = channels, si_format = format, si_rate = rate, si_devices = in_device_of (ie_enum env) devices, si_pcm = False,
            si_pcm_hdl = None\<rparr>,
          is_devices = devices, is_period_size = period, is_period_count = CAPTURE_PERIOD_COUNT, is_standby = True,
          is_requested_rate = ac_sample_rate config, is_wrapper = None, is_stale = False, is_resampler = False,
          is_buffer = Some (map heap [0..<nat (period * ie_frame_size env channels format * 8)]), is_frames_in = 0, is_read_status = 0,
          is_formats = register_format (ac_format config) (replicate (Suc MAX_SUPPORTED_FORMATS) 0),
          is_masks = register_channel_mask (ac_channel_mask config) (replicate (Suc MAX_SUPPORTED_CHANNEL_MASKS) 0),
          is_rates = register_sample_rate rate (replicate (Suc MAX_SUPPORTED_SAMPLE_RATES) 0), is_reads = 0\<rparr>)"

definition adev_open_input_stream ::
    "'p in_env \<Rightarrow> (int \<Rightarrow> int) \<Rightarrow> (int \<Rightarrow> int) \<Rightarrow> (nat \<Rightarrow> byte) \<Rightarrow> bool \<Rightarrow> hal_dev \<Rightarrow> int \<Rightarrow> audio_config \<Rightarrow> 'p in_stream option \<times> int" where
  "adev_open_input_stream env in_count pcm_format heap alloc d devices config =
     (if \<not> sd_platform_check_input (ie_enum env) (ac_sample_rate config) (ac_format config) (ac_channel_mask config) then (None, - EINVAL)
      else if \<not> alloc then (None, - ENOMEM)
      else (Some (make_in env in_count pcm_format heap d devices config), 0))"

text \<open>The buffer goes before the standby.\<close>

definition adev_close_input_stream :: "'p in_env \<Rightarrow> hal_dev \<Rightarrow> 'p in_stream \<Rightarrow> c_error + hal_dev" where
  "adev_close_input_stream env d inp = and_then (in_standby env d (inp\<lparr>is_buffer := None\<rparr>)) (\<lambda>(d, inp, ret). Inr d)"

definition adev_get_input_buffer_size :: "(int \<Rightarrow> int) \<Rightarrow> audio_config \<Rightarrow> int" where
  "adev_get_input_buffer_size in_count config =
     get_input_buffer_size (ac_sample_rate config) (ac_format config) (in_count (ac_channel_mask config))"

end
