(* ===== verification/Input_System.thy ===== *)
theory Input_System
  imports Hal_Input Streamer_System
begin

text \<open>
  Capture from the microphone over the streamer: what the buffer provider of an input stream serves, and the streams of the wired headset.
\<close>

section \<open>The microphone\<close>

text \<open>The ring buffer that read number \<open>k\<close> of the hardware takes a period of \<open>count\<close> bytes from, and the bytes.\<close>

definition mic_ring :: "'p in_env \<Rightarrow> int \<Rightarrow> nat \<Rightarrow> circlebuf option" where
  "mic_ring env count k = read_poll (ie_polls env k) count 0 READ_TIMEOUT_LIMITS"

definition mic_period :: "'p in_env \<Rightarrow> int \<Rightarrow> nat \<Rightarrow> byte list" where
  "mic_period env count k = (case mic_ring env count k of None \<Rightarrow> [] | Some rb \<Rightarrow> take (nat count) (contents rb))"

definition mic_supplies :: "'p in_env \<Rightarrow> int \<Rightarrow> bool" where
  "mic_supplies env count \<longleftrightarrow> (\<forall>k. \<exists>rb. mic_ring env count k = Some rb \<and> cb_ok rb \<and> count \<le> rb_used rb)"

text \<open>A stream of period \<open>P\<close> frames of \<open>fs\<close> bytes over the streamer, without resampler, with \<open>is_frames_in\<close> frames left in its buffer.\<close>

definition cap_ready :: "hal_dev \<Rightarrow> alsa_stream_in \<Rightarrow> bool" where
  "cap_ready d base \<longleftrightarrow> (\<exists>i<length (od_hdls (hd_out d)). si_pcm_hdl base = Some i \<and>
     read_policy (si_devices base) < length (hs_cap_rbuf (od_hdls (hd_out d) ! i)) \<and> hs_cap_rbuf (od_hdls (hd_out d) ! i) ! read_policy (si_devices base) \<noteq> None)"

definition mic_good :: "'p in_env \<Rightarrow> nat \<Rightarrow> nat \<Rightarrow> 'p in_state \<Rightarrow> bool" where
  "mic_good env fs P = (\<lambda>(d, inp). mic_supplies env (int (P * fs)) \<and> 0 < fs \<and> 0 < P \<and> int P < 18446744073709551616 \<and>
     in_frame_size env inp = int fs \<and> si_channels (is_base inp) * 2 = int fs \<and>
     is_period_size inp = int P \<and> is_wrapper inp = None \<and> \<not> is_resampler inp \<and> cap_ready d (is_base inp) \<and> is_read_status inp = 0 \<and>
     0 \<le> is_frames_in inp \<and> is_frames_in inp \<le> int P \<and> (\<exists>buf. is_buffer inp = Some buf \<and> P * fs \<le> length buf))"

lemma mic_period_length: "mic_supplies env (int n) \<Longrightarrow> length (mic_period env (int n) k) = n"
proof -
  assume "mic_supplies env (int n)"
  then obtain rb where rb: "mic_ring env (int n) k = Some rb" "cb_ok rb" "int n \<le> rb_used rb" by (auto simp: mic_supplies_def)
  then have "int n \<le> int (length (contents rb))" using length_contents [of rb] by (simp add: cb_ok_def)
  then show ?thesis using rb(1) by (simp add: mic_period_def)
qed

lemma mic_read:
  assumes "mic_supplies env (int n)" and "cap_ready d (is_base inp)" and "is_wrapper inp = None" and "n \<le> length buf" and "0 < n"
  obtains d' where "pcm_read_hw env d inp buf (int n) = Inr (d', inp\<lparr>is_reads := Suc (is_reads inp)\<rparr>, blit buf 0 (mic_period env (int n) (is_reads inp)), 0)"
    "cap_ready d' (is_base inp)"
proof -
  obtain i where i: "i < length (od_hdls (hd_out d))" "si_pcm_hdl (is_base inp) = Some i"
    "read_policy (si_devices (is_base inp)) < length (hs_cap_rbuf (od_hdls (hd_out d) ! i))"
    "hs_cap_rbuf (od_hdls (hd_out d) ! i) ! read_policy (si_devices (is_base inp)) \<noteq> None" using assms(2) by (auto simp: cap_ready_def)
  obtain rb where rb: "mic_ring env (int n) (is_reads inp) = Some rb" "cb_ok rb" "int n \<le> rb_used rb" using assms(1) by (auto simp: mic_supplies_def)
  obtain rb' where r: "audio_circlebuf_read (Some rb) buf 0 (int n) = Inr (Some rb', blit buf 0 (take n (contents rb)), int n)"
    using audio_circlebuf_read_eq [of rb "int n" 0 buf] rb(2,3) assms(4) by (auto simp: cb_ok_def min_def)
  let ?g = "(od_hdls (hd_out d))[i := (od_hdls (hd_out d) ! i)\<lparr>hs_cap_rbuf := (hs_cap_rbuf (od_hdls (hd_out d) ! i))[read_policy (si_devices (is_base inp)) := Some rb']\<rparr>]"
  have "hal_streamer_read (ie_polls env (is_reads inp)) (od_hdls (hd_out d)) (is_base inp) buf (int n) = Inr (?g, blit buf 0 (take n (contents rb)), 0)"
    using i rb(1) r assms(5) by (auto simp: hal_streamer_read_def mic_ring_def Let_def)
  then have "pcm_read_hw env d inp buf (int n) =
      Inr (set_hdls d ?g, inp\<lparr>is_reads := Suc (is_reads inp)\<rparr>, blit buf 0 (mic_period env (int n) (is_reads inp)), 0)"
    using assms(3) i(2) rb(1) by (simp add: pcm_read_hw_def mic_period_def)
  moreover have "cap_ready (set_hdls d ?g) (is_base inp)" using i by (simp add: cap_ready_def set_hdls_def)
  ultimately show thesis using that by blast
qed

lemma refill:
  assumes g: "mic_good env fs P (d, inp)" and f: "is_frames_in inp = 0"
  obtains d' inp' buf where "fill_buffer env (d, inp) = Inr (d', inp')" "mic_good env fs P (d', inp')" "is_frames_in inp' = int P" "is_reads inp' = Suc (is_reads inp)"
    "is_buffer inp' = Some buf" "take (P * fs) buf = mic_period env (int (P * fs)) (is_reads inp)"
proof -
  obtain buf where b: "is_buffer inp = Some buf" "P * fs \<le> length buf" using g by (auto simp: mic_good_def)
  note good = g [unfolded mic_good_def, simplified]
  let ?per = "mic_period env (int (P * fs))" let ?r = "is_reads inp"
  have sup: "mic_supplies env (int (P * fs))" "cap_ready d (is_base inp)" "is_wrapper inp = None" "0 < P * fs" using good by auto
  obtain d' where d': "pcm_read_hw env d inp buf (int (P * fs)) = Inr (d', inp\<lparr>is_reads := Suc ?r\<rparr>, blit buf 0 (?per ?r), 0)" "cap_ready d' (is_base inp)"
    by (rule mic_read [OF sup(1-3) b(2) sup(4)]) blast
  define inp1 where "inp1 = inp\<lparr>is_reads := Suc ?r, is_buffer := Some (blit buf 0 (?per ?r)), is_read_status := 0, is_frames_in := int P\<rparr>"
  have fill: "fill_buffer env (d, inp) = Inr (d', inp1)" using b d'(1) good by (simp add: fill_buffer_def inp1_def)
  have pl: "length (?per ?r) = P * fs" using mic_period_length [OF sup(1)] by simp
  have "mic_good env fs P (d', inp1)" using g d'(2) b pl by (auto simp: mic_good_def inp1_def in_frame_size_def)
  moreover have "take (P * fs) (blit buf 0 (?per ?r)) = ?per ?r" using pl by (simp add: blit_def)
  ultimately show thesis using that fill by (simp add: inp1_def)
qed

text \<open>The stream is a source of periods: the laws are those of \<open>get_next_buffer\<close> and \<open>release_buffer\<close>.\<close>

definition stream_bytes :: "'p in_state \<Rightarrow> byte list" where
  "stream_bytes s = (case is_buffer (snd s) of None \<Rightarrow> [] | Some buf \<Rightarrow> buf)"

interpretation mic: period_source "get_next_buffer env" release_buffer "\<lambda>s. is_read_status (snd s)" fs P "mic_good env fs P" "\<lambda>s. nat (is_frames_in (snd s))"
    stream_bytes "\<lambda>s. is_reads (snd s)" "mic_period env (int (P * fs))"
  for env :: "'p in_env" and fs P
proof (unfold_locales, goal_cases)
  case (1 s)
  then have "mic_supplies env (int (P * fs))" by (cases s) (simp add: mic_good_def)
  then have "\<forall>k. length (mic_period env (int (P * fs)) k) = P * fs" using mic_period_length by blast
  then show ?case using 1 by (cases s) (auto simp: mic_good_def stream_bytes_def)
next
  case (2 s n)
  obtain d inp where s: "s = (d, inp)" by (cases s)
  note good = 2(1) [unfolded s mic_good_def, simplified]
  obtain F where F: "is_frames_in inp = int F" "F \<le> P" "0 < F" using good 2(2) s by (metis int_nat_eq nat_le_iff snd_conv zero_less_nat_eq)
  obtain buf where b: "is_buffer inp = Some buf" using good by blast
  have "(int P - int F) * si_channels (is_base inp) * 2 = int ((P - F) * fs)" using good F(2) by (simp add: of_nat_diff mult.assoc)
  then have "nat ((int P - int F) * si_channels (is_base inp) * 2) = (P - F) * fs" by (simp only: nat_int)
  then show ?case using F b good s by (simp add: get_next_buffer_def stream_bytes_def min_def)
next
  case (3 s)
  obtain d inp where s: "s = (d, inp)" by (cases s)
  have g: "mic_good env fs P (d, inp)" "is_frames_in inp = 0" using 3 s by (auto simp: mic_good_def)
  obtain d' inp' buf where r: "fill_buffer env (d, inp) = Inr (d', inp')" "mic_good env fs P (d', inp')" "is_frames_in inp' = int P" "is_reads inp' = Suc (is_reads inp)"
    "is_buffer inp' = Some buf" "take (P * fs) buf = mic_period env (int (P * fs)) (is_reads inp)" by (rule refill [OF g]) blast
  have "0 < P" using g(1) by (simp add: mic_good_def)
  then have "get_next_buffer env (d, inp) n = get_next_buffer env (d', inp') n" for n using g(2) r(1,3) by (simp add: get_next_buffer_def)
  then show ?case using r s by (intro exI [of _ "(d', inp')"]) (simp add: stream_bytes_def)
next
  case (4 s k)
  then show ?case by (cases s) (auto simp: mic_good_def release_buffer_def stream_bytes_def in_frame_size_def u64_def)
qed

end
