(* ===== verification/Input_Properties.thy ===== *)
theory Input_Properties
  imports Input_System Plug_Sample Output_Properties
begin

text \<open>
  The properties of the input streams of \<open>audio_hw.c\<close>, each with an instance that meets its hypotheses.
\<close>

section \<open>Instances\<close>

definition mic_env :: "sample_plug in_env" where
  "mic_env = \<lparr>ie_enum = (\<lambda>n. int (length n)), ie_frame_size = (\<lambda>c f. c * 2), ie_bits = (\<lambda>f. 16), ie_ref_b = False, ie_jack = (\<lambda>k. None),
     ie_rbuf = tiny_ring, ie_attempt = (\<lambda>k. Open_ready), ie_prepare = 0, ie_created = 0, ie_rpmsg = \<lparr>env_socket = 3, env_connect = 0, env_write = 32\<rparr>,
     ie_polls = (\<lambda>k i. sample_ring 8 2 [of_nat k, 1, 2, 3, 4, 5, 6, 7]), ie_pcm_read = (\<lambda>k. 0), ie_driver = (\<lambda>k b n. b), ie_pcm_close = 0,
     ie_ops = sample_ops (\<lambda>f. 16) False,
     ie_alloc = True, ie_plugins = False, ie_plug_opened = Inr (None, 0), ie_epipe = False, ie_pcm_open = Open_ready, ie_create_resampler = 0,
     ie_resample = (\<lambda>p s n. Inr (s, [], n))\<rparr>"

definition mic_dev :: hal_dev where
  "mic_dev = \<lparr>hd_out = (sample_dev False)\<lparr>od_hdls := [blank_hdl\<lparr>hs_cap_rbuf := replicate 16 (tiny_ring 2 0 48000)\<rparr>]\<rparr>, hd_mode = 0,
     hd_active_input = None, hd_hs_device = 0\<rparr>"

definition mic_stream :: "sample_plug in_stream" where
  "mic_stream = (make_in mic_env (\<lambda>m. 2) (\<lambda>f. 0) (\<lambda>i. 0) mic_dev 0 \<lparr>ac_sample_rate = 100, ac_channel_mask = 3, ac_format = 1\<rparr>)
     \<lparr>is_standby := False, is_base := \<lparr>si_channels = 2, si_format = 0, si_rate = 100, si_devices = AUDIO_DEVICE_IN_BUILTIN_MIC, si_pcm = False,
        si_pcm_hdl = Some 0\<rparr>\<rparr>"

section \<open>Capture\<close>


lemma mic_stream_good: "mic_good mic_env 4 2 (mic_dev, mic_stream)"
proof -
  have r: "mic_ring mic_env 8 k = Some (sample_ring 8 2 [of_nat k, 1, 2, 3, 4, 5, 6, 7])" for k
    by (simp add: mic_ring_def mic_env_def read_poll.simps sample_ring_def audio_circlebuf_used_def u32_def)
  have "cb_ok (sample_ring 8 2 [of_nat k, 1, 2, 3, 4, 5, 6, 7])" "8 \<le> rb_used (sample_ring 8 2 [of_nat k, 1, 2, 3, 4, 5, 6, 7])" for k
    using sample_ring_ok [of 8 "[of_nat k, 1, 2, 3, 4, 5, 6, 7]" 2] by (simp, simp add: sample_ring_def)
  then have "mic_supplies mic_env 8" unfolding mic_supplies_def r by blast
  then show ?thesis
    by (simp add: mic_good_def mic_stream_def make_in_def mic_env_def mic_dev_def cap_ready_def in_frame_size_def sample_dev_def small_platform_def
        read_policy_def BUILD_IN_MIC_CAP_def tiny_ring_def u32_def)
qed



definition rear_mic :: "sample_plug in_stream" where
  "rear_mic = mic_stream\<lparr>is_standby := True, is_devices := ie_enum mic_env ''AUDIO_DEVICE_IN_WIRED_HEADSET''\<rparr>"

definition rear_env :: "bool \<Rightarrow> sample_plug in_env" where
  "rear_env plugins = mic_env\<lparr>ie_plugins := plugins,
     ie_plug_opened := pcm_plug_open True (None :: unit option) (\<lambda>_. Some (plug_open True None \<lparr>dump_fd = Dump_null, dump_offset = 0\<rparr>)) 1 0 True\<rparr>"

definition rear_dev :: hal_dev where
  "rear_dev = mic_dev\<lparr>hd_out := (sample_dev False)\<lparr>od_platform := small_platform [primary_card\<lparr>dm_android_name := AUDIO_NAME_REAR1\<rparr>]\<rparr>\<rparr>"


end
