(* ===== verification/Ecnr_Fake.thy ===== *)
theory Ecnr_Fake
  imports Audio_Extra Circlebuf
begin

text \<open>
  The stand-in for an echo canceller of \<open>ecnr_fake.c\<close>: it keeps the channel numbers it is configured with, selects the output channels of the microphone and copies
  the far end.
\<close>

record ecnr_config =
  ec_rate :: int
  ec_ch :: int
  ec_fmt :: int

record ecnr_param =
  ep_recv_in :: ecnr_config
  ep_recv_out :: ecnr_config
  ep_ref_in :: ecnr_config
  ep_mic_in :: ecnr_config
  ep_mic_out :: ecnr_config

definition zero_ecnr_config :: ecnr_config where
  "zero_ecnr_config = \<lparr>ec_rate = 0, ec_ch = 0, ec_fmt = 0\<rparr>"

definition fake_ecnr_param0 :: ecnr_param where
  "fake_ecnr_param0 = \<lparr>ep_recv_in = zero_ecnr_config, ep_recv_out = zero_ecnr_config, ep_ref_in = zero_ecnr_config, ep_mic_in = zero_ecnr_config,
     ep_mic_out = zero_ecnr_config\<rparr>"

section \<open>The library\<close>

text \<open>The functions that only return 0 are \<open>fake_dsp_alloc\<close>, \<open>_close\<close>, \<open>_load_config\<close>, \<open>_recv_primary_fmt\<close>, \<open>_ref\<close>, \<open>_release\<close> and \<open>_start\<close>.\<close>

definition fake_dsp_recv_primary :: "byte list \<Rightarrow> int \<Rightarrow> byte list \<Rightarrow> c_error + byte list \<times> int \<times> int" where
  "fake_dsp_recv_primary SpkIn in_len SpkOut = and_then (memcpy SpkOut 0 SpkIn 0 in_len) (\<lambda>SpkOut. Inr (SpkOut, in_len, 0))"

definition fake_dsp_ref_fmt :: "ecnr_param \<Rightarrow> int \<Rightarrow> ecnr_param \<times> int" where
  "fake_dsp_ref_fmt fake in_channel = (fake\<lparr>ep_ref_in := (ep_ref_in fake)\<lparr>ec_ch := in_channel\<rparr>\<rparr>, 0)"

definition fake_dsp_send_primary_fmt :: "ecnr_param \<Rightarrow> int \<Rightarrow> int \<Rightarrow> ecnr_param \<times> int" where
  "fake_dsp_send_primary_fmt fake in_channel out_channel =
     (fake\<lparr>ep_mic_in := (ep_mic_in fake)\<lparr>ec_ch := in_channel\<rparr>, ep_mic_out := (ep_mic_out fake)\<lparr>ec_ch := out_channel\<rparr>\<rparr>, 0)"

definition fake_dsp_send_primary :: "ecnr_param \<Rightarrow> int list \<Rightarrow> int \<Rightarrow> int list \<Rightarrow> c_error + int list \<times> int \<times> int" where
  "fake_dsp_send_primary fake MicIn in_len MicOut =
     and_then (audio_extra_select_slot_16 MicOut (ec_ch (ep_mic_out fake)) MicIn (ec_ch (ep_mic_in fake)) (s32 (in_len * ec_ch (ep_mic_in fake))))
       (\<lambda>(MicOut, tx_processed_len). Inr (MicOut, tx_processed_len, 0))"

section \<open>The operations\<close>

text \<open>A handle is the number that \<open>fake_dsp_alloc\<close> returns; \<open>None\<close> is NULL.\<close>

definition x9_ecnr_init :: "bool \<Rightarrow> ecnr_param \<Rightarrow> ecnr_param \<Rightarrow> ecnr_param \<times> int option" where
  "x9_ecnr_init alloc fake param =
     (if \<not> alloc then (fake, None)
      else if ec_rate (ep_mic_out param) \<notin> {8000, 16000, 24000, 32000} then (fake, None)
      else let (fake, ret) = fake_dsp_ref_fmt fake (ec_ch (ep_ref_in param));
               (fake, ret) = fake_dsp_send_primary_fmt fake (ec_ch (ep_mic_in param)) (ec_ch (ep_mic_out param))
           in (fake, Some 0))"

definition x9_ecnr_process :: "ecnr_param \<Rightarrow> int list \<Rightarrow> int \<Rightarrow> int list \<Rightarrow> c_error + int list \<times> int \<times> int" where
  "x9_ecnr_process fake inp in_frames processed = fake_dsp_send_primary fake inp in_frames processed"

definition x9_ecnr_recv_in :: "byte list \<Rightarrow> int \<Rightarrow> byte list \<Rightarrow> c_error + byte list \<times> int \<times> int" where
  "x9_ecnr_recv_in recv recv_frames processed = fake_dsp_recv_primary recv recv_frames processed"

definition x9_ecnr_deinit :: "int option \<Rightarrow> bool" where
  "x9_ecnr_deinit hdl \<longleftrightarrow> hdl \<noteq> None"

section \<open>What it computes\<close>

text \<open>A configured canceller passes the first output channels of each microphone frame; the length it reports counts samples.\<close>

lemma ecnr_passes_microphone:
  assumes "x9_ecnr_init True fake param = (fake', Some h)" and "0 \<le> ec_ch (ep_mic_out param)" and "ec_ch (ep_mic_out param) \<le> ec_ch (ep_mic_in param)"
    and "0 < ec_ch (ep_mic_in param)" and "0 \<le> n" and "n * ec_ch (ep_mic_in param) < 2147483648" and "n * ec_ch (ep_mic_in param) \<le> int (length mic)"
    and "n * ec_ch (ep_mic_out param) \<le> int (length out)"
  shows "\<exists>out'. x9_ecnr_process fake' mic n out = Inr (out', n * ec_ch (ep_mic_out param), 0) \<and> length out' = length out \<and>
    (\<forall>i<nat n. \<forall>j<nat (ec_ch (ep_mic_out param)). out' ! nat (int i * ec_ch (ep_mic_out param) + int j) = mic ! nat (int i * ec_ch (ep_mic_in param) + int j))"
proof -
  have c: "ec_ch (ep_mic_in fake') = ec_ch (ep_mic_in param)" "ec_ch (ep_mic_out fake') = ec_ch (ep_mic_out param)"
    using assms(1) by (auto simp: x9_ecnr_init_def fake_dsp_ref_fmt_def fake_dsp_send_primary_fmt_def split: if_splits)
  have p: "0 \<le> n * ec_ch (ep_mic_in param)" using assms(4,5) by simp
  have s: "s32 (n * ec_ch (ep_mic_in param)) = n * ec_ch (ep_mic_in param)" using p assms(6) by (intro s32_id) simp_all
  show ?thesis
    using select_slot_frames [OF assms(2-4), of "n * ec_ch (ep_mic_in param)" mic out] assms(4,5,7,8) c s
    by (auto simp: x9_ecnr_process_def fake_dsp_send_primary_def)
qed

end
