(* ===== verification/Bt_Call.thy ===== *)
theory Bt_Call
  imports Hal_Input Ecnr_Fake
begin

text \<open>
  Calls over a Bluetooth chip at the application processor, \<open>audio_bt_call.c\<close>: four directions (the far end and the microphone in, the near end and the
  loudspeaker out), the operations that open and close their devices and buffers, and the work of the two threads that move the samples.

  A configuration is reached through a pointer to one of the global objects of the file, which the platform information overwrites, so the state has all of them.
  \<open>Inl Null_pointer\<close> is a dereferenced NULL.  The files of a dump and the clocks are left out.
\<close>

definition PORT_CODEC :: int where "PORT_CODEC = 2"
definition PORT_CODEC_IN :: int where "PORT_CODEC_IN = 0"
definition PORT_BT :: int where "PORT_BT = 1"
definition BT_CALL_HFP_OUT_NAME :: string where "BT_CALL_HFP_OUT_NAME = ''hfp_out''"
definition BT_CALL_HFP_IN_NAME :: string where "BT_CALL_HFP_IN_NAME = ''hfp_in''"
definition BT_CHANNEL_CNT :: int where "BT_CHANNEL_CNT = CHANNEL_STEREO"
definition SAMPLING_RATE_16K :: int where "SAMPLING_RATE_16K = 16000"
definition TMP_BUF_SZ :: nat where "TMP_BUF_SZ = 15360"
definition PHONE_PATH_FIXED_VOL :: int where "PHONE_PATH_FIXED_VOL = 100"
definition PHONE_PLAYBACK_TO_MAIN_SPK_48K :: string where "PHONE_PLAYBACK_TO_MAIN_SPK_48K = ''PATH_PHONE_PLAYBACK_TO_MAIN_SPK_48K''"
definition PHONE_CAPTURE_FROM_MAIN_MIC_48K :: string where "PHONE_CAPTURE_FROM_MAIN_MIC_48K = ''PATH_PHONE_CAPTURE_FROM_MAIN_MIC_48K''"

datatype btcall_rt = BTCALL_BT_INPUT | BTCALL_BT_OUTPUT | BTCALL_CODEC_INPUT | BTCALL_CODEC_OUTPUT

definition directions :: "btcall_rt list" where
  "directions = [BTCALL_BT_INPUT, BTCALL_BT_OUTPUT, BTCALL_CODEC_INPUT, BTCALL_CODEC_OUTPUT]"

section \<open>Configurations\<close>

datatype bt_config_ref = Pcm_config_bt_in | Pcm_config_bt_out | Pcm_config_codec_out | Pcm_config_codec_in | Pcm_main_cap_codec_in | Pcm_main_config

definition bt_configs0 :: "bt_config_ref \<Rightarrow> wrapper_config" where
  "bt_configs0 ref =
     (let c = zero_config\<lparr>pc_channels := CHANNEL_STEREO, pc_rate := SAMPLING_RATE_16K, pc_period_size := 320, pc_period_count := PLAYBACK_PERIOD_COUNT,
                pc_format := PCM_FORMAT_S16_LE\<rparr>
      in case ref of Pcm_main_cap_codec_in \<Rightarrow> c\<lparr>pc_rate := 48000, pc_period_size := 960\<rparr>
         | Pcm_main_config \<Rightarrow> c\<lparr>pc_channels := 8, pc_rate := 48000, pc_period_size := 960\<rparr>
         | _ \<Rightarrow> c)"

definition config_of :: "int \<Rightarrow> ecnr_config" where
  "config_of ch = \<lparr>ec_rate = 16000, ec_ch = ch, ec_fmt = PCM_FORMAT_S16_LE\<rparr>"

definition bt_param :: ecnr_param where
  "bt_param = \<lparr>ep_recv_in = config_of 1, ep_recv_out = config_of 1, ep_ref_in = config_of 2, ep_mic_in = config_of 2, ep_mic_out = config_of 2\<rparr>"

section \<open>The state\<close>

text \<open>\<open>pcm\<close> of a direction is a device or, for the loudspeaker, a handle of the streamer.\<close>

datatype bt_pcm = Bt_null | Bt_device | Bt_streamer nat

text \<open>The pointer \<open>out\<close> of the loudspeaker's data is \<open>od_bt_out\<close> of the device; \<open>adev\<close>, which is set together with the direction, is left out.\<close>

record btcall_data =
  bd_card :: int
  bd_port :: int
  bd_pcm :: bt_pcm
  bd_in :: "alsa_stream_in option"
  bd_config :: "bt_config_ref option"
  bd_bt_out :: "alsa_stream_out option"
  bd_resampler :: bool
  bd_buffer :: "byte list option"
  bd_frames_in :: int
  bd_rsp_in_rate :: int
  bd_rsp_out_rate :: int
  bd_direction :: btcall_rt
  bd_read_status :: int

record btcall_thread_data =
  bt_start_work_rx :: bool
  bt_exit_work_rx :: bool
  bt_start_work_tx :: bool
  bt_exit_work_tx :: bool
  bt_is_running_tx :: bool
  bt_is_running_rx :: bool
  bt_rsp_out_buffer_tx :: "byte list option"
  bt_rsp_out_buffer_rx :: "byte list option"
  bt_buffer_tx :: "byte list option"
  bt_buffer_rx :: "byte list option"
  bt_buffer_txsize :: int
  bt_buffer_rxsize :: int

text \<open>\<open>cd_reads\<close> counts the reads so far.\<close>

record call_dev =
  cd_dev :: hal_dev
  cd_data :: "btcall_rt \<Rightarrow> btcall_data option"
  cd_thread :: "btcall_thread_data option"
  cd_configs :: "bt_config_ref \<Rightarrow> wrapper_config"
  cd_in_call :: int
  cd_mic_mute :: bool
  cd_ecnr_ops :: bool
  cd_ecnr_hdl :: "int option"
  cd_fake :: ecnr_param
  cd_reads :: nat

datatype bt_alloc = Alloc_data btcall_rt | Alloc_thread | Alloc_in | Alloc_bt_out | Alloc_buffer_rx | Alloc_buffer_tx | Alloc_rsp_tx | Alloc_rsp_rx
  | Alloc_buffer btcall_rt

text \<open>
  The world: the framework, the driver, the allocator and the properties.  \<open>ce_null_ready\<close> is what \<open>pcm_is_ready\<close> does with NULL, \<open>ce_stream\<close> the stream at an
  address, \<open>ce_pcm_read\<close> and \<open>ce_driver\<close> the result of the \<open>k\<close>-th read and the buffer after it.
\<close>

record call_env =
  ce_frame_size :: "int \<Rightarrow> int \<Rightarrow> int"
  ce_bits :: "int \<Rightarrow> int"
  ce_rbuf :: "int \<Rightarrow> int \<Rightarrow> int \<Rightarrow> circlebuf option"
  ce_attempt :: "btcall_rt \<Rightarrow> nat \<Rightarrow> open_outcome"
  ce_prepare :: int
  ce_created :: int
  ce_dsp :: "dsp_cmd \<Rightarrow> int"
  ce_slot0 :: "int \<Rightarrow> int"
  ce_rpmsg :: rpmsg_env
  ce_null_ready :: "c_error + bool"
  ce_create_resampler :: "btcall_rt \<Rightarrow> int"
  ce_malloc :: "bt_alloc \<Rightarrow> bool"
  ce_heap :: "nat \<Rightarrow> byte"
  ce_ecnr_property :: string
  ce_ecnr_alloc :: bool
  ce_mutex_init :: bool
  ce_cond_init :: bool
  ce_thread_create :: bool
  ce_stream :: "nat \<Rightarrow> alsa_stream_out option"
  ce_pcm_read :: "nat \<Rightarrow> int"
  ce_driver :: "nat \<Rightarrow> byte list \<Rightarrow> int \<Rightarrow> byte list"
  ce_polls :: "nat \<Rightarrow> nat \<Rightarrow> circlebuf"
  ce_resample :: "call_dev provider \<Rightarrow> call_dev \<Rightarrow> int \<Rightarrow> c_error + call_dev \<times> byte list \<times> int"
  ce_pcm_write :: "byte list \<Rightarrow> int"
  ce_direct_write :: "int list \<Rightarrow> int"
  ce_in_tmp :: "byte list"
  ce_write_polls :: "circlebuf list"

definition get_data :: "call_dev \<Rightarrow> btcall_rt \<Rightarrow> c_error + btcall_data" where
  "get_data d r = (case cd_data d r of None \<Rightarrow> Inl Null_pointer | Some b \<Rightarrow> Inr b)"

definition put_data :: "call_dev \<Rightarrow> btcall_rt \<Rightarrow> btcall_data \<Rightarrow> call_dev" where
  "put_data d r b = d\<lparr>cd_data := (cd_data d)(r := Some b)\<rparr>"

definition get_thread :: "call_dev \<Rightarrow> c_error + btcall_thread_data" where
  "get_thread d = (case cd_thread d of None \<Rightarrow> Inl Null_pointer | Some t \<Rightarrow> Inr t)"

definition put_thread :: "call_dev \<Rightarrow> btcall_thread_data \<Rightarrow> call_dev" where
  "put_thread d t = d\<lparr>cd_thread := Some t\<rparr>"

definition bt_platform :: "call_dev \<Rightarrow> platform_data" where
  "bt_platform d = od_platform (hd_out (cd_dev d))"

definition ahub_en :: "call_dev \<Rightarrow> bool" where
  "ahub_en d \<longleftrightarrow> mf_ahub_en (pf_misc (bt_platform d))"

definition bt_config :: "call_dev \<Rightarrow> btcall_data \<Rightarrow> c_error + wrapper_config" where
  "bt_config d b = (case bd_config b of None \<Rightarrow> Inl Null_pointer | Some ref \<Rightarrow> Inr (cd_configs d ref))"

definition get_input_frame_size :: "call_env \<Rightarrow> call_dev \<Rightarrow> btcall_data \<Rightarrow> c_error + int" where
  "get_input_frame_size env d b = and_then (bt_config d b) (\<lambda>c. Inr (ce_frame_size env (pc_channels c) (pc_format c)))"

section \<open>Reading frames\<close>

definition bt_read_pcm :: "call_env \<Rightarrow> call_dev \<Rightarrow> btcall_data \<Rightarrow> byte list \<Rightarrow> int \<Rightarrow> c_error + call_dev \<times> btcall_data" where
  "bt_read_pcm env d b buf sz =
     (let k = cd_reads d
      in if bd_pcm b \<noteq> Bt_null
         then Inr (d\<lparr>cd_reads := Suc k\<rparr>, b\<lparr>bd_buffer := Some (ce_driver env k buf sz), bd_read_status := ce_pcm_read env k\<rparr>)
         else case bd_in b of None \<Rightarrow> Inl Null_pointer
         | Some inp \<Rightarrow>
             if si_pcm_hdl inp \<noteq> None
             then and_then (hal_streamer_read (ce_polls env k) (od_hdls (hd_out (cd_dev d))) inp buf sz) (\<lambda>(g, buf, ret).
                    Inr (d\<lparr>cd_dev := set_hdls (cd_dev d) g, cd_reads := Suc k\<rparr>, b\<lparr>bd_buffer := Some buf, bd_read_status := ret\<rparr>))
             else Inr (d, b))"

text \<open>What the canceller makes of the far end goes to a file only; its array has \<open>TMP_BUF_SZ\<close> bytes.\<close>

definition recv_ecnr :: "call_env \<Rightarrow> call_dev \<Rightarrow> btcall_data \<Rightarrow> int \<Rightarrow> c_error + unit" where
  "recv_ecnr env d b sz =
     (if bd_direction b = BTCALL_BT_INPUT \<and> cd_ecnr_hdl d \<noteq> None
      then let frame_sz = ce_bits env (ec_fmt (ep_recv_in bt_param)) div 8
           in if frame_sz = 0 then Inl Div_by_zero
              else case bd_buffer b of None \<Rightarrow> Inl Null_pointer
              | Some buf \<Rightarrow> and_then (x9_ecnr_recv_in buf (sz sdiv frame_sz sdiv ec_ch (ep_recv_in bt_param)) (replicate TMP_BUF_SZ 0)) (\<lambda>r. Inr ())
      else Inr ())"

definition bt_fill :: "call_env \<Rightarrow> btcall_rt \<Rightarrow> call_dev \<Rightarrow> btcall_data \<Rightarrow> c_error + call_dev \<times> btcall_data \<times> bool" where
  "bt_fill env r d b =
     (case bd_buffer b of None \<Rightarrow> Inl Null_pointer
      | Some buf \<Rightarrow>
          and_then (bt_config d b) (\<lambda>c.
            let sz = s32 (pc_period_size c * ce_frame_size env (pc_channels c) (pc_format c))
            in and_then (bt_read_pcm env d b buf sz) (\<lambda>(d, b).
               and_then (recv_ecnr env d b sz) (\<lambda>u.
                 if bd_read_status b \<noteq> 0 then Inr (put_data d r b, b, False)
                 else let b = b\<lparr>bd_frames_in := pc_period_size c\<rparr> in Inr (put_data d r b, b, True)))))"

definition bt_get_next_buffer :: "call_env \<Rightarrow> btcall_rt \<Rightarrow> call_dev \<Rightarrow> int \<Rightarrow> c_error + call_dev \<times> byte list option \<times> int" where
  "bt_get_next_buffer env r d frame_count =
     and_then (get_data d r) (\<lambda>b.
     and_then (bt_config d b) (\<lambda>c.
     and_then (if bd_frames_in b = 0 then bt_fill env r d b else Inr (d, b, True)) (\<lambda>(d, b, ok).
       if \<not> ok then Inr (d, None, 0)
       else case bd_buffer b of None \<Rightarrow> Inl Null_pointer
       | Some buf \<Rightarrow>
           Inr (d, Some (drop (nat ((pc_period_size c - bd_frames_in b) * pc_channels c * 2)) buf),
                if frame_count > bd_frames_in b then bd_frames_in b else frame_count))))"

definition bt_release_buffer :: "btcall_rt \<Rightarrow> call_dev \<Rightarrow> int \<Rightarrow> call_dev" where
  "bt_release_buffer r d frame_count =
     (case cd_data d r of None \<Rightarrow> d | Some b \<Rightarrow> put_data d r (b\<lparr>bd_frames_in := u64 (bd_frames_in b - frame_count)\<rparr>))"

definition bt_provider :: "call_env \<Rightarrow> btcall_rt \<Rightarrow> call_dev provider" where
  "bt_provider env r = (bt_get_next_buffer env r, bt_release_buffer r)"

definition bt_status :: "btcall_rt \<Rightarrow> call_dev \<Rightarrow> int" where
  "bt_status r d = (case cd_data d r of None \<Rightarrow> 0 | Some b \<Rightarrow> bd_read_status b)"

definition bt_read_frames :: "call_env \<Rightarrow> nat \<Rightarrow> btcall_rt \<Rightarrow> call_dev \<Rightarrow> byte list \<Rightarrow> int \<Rightarrow> c_error + (call_dev \<times> byte list \<times> int) option" where
  "bt_read_frames env fuel r d buffer frames =
     and_then (get_data d r) (\<lambda>b. and_then (get_input_frame_size env d b) (\<lambda>fs.
       frames_loop (if bd_resampler b then Some (ce_resample env (bt_provider env r)) else None) (bt_provider env r) (bt_status r) fs fuel d buffer frames 0))"

section \<open>Resamplers and initialisation\<close>

definition btcall_create_resampler :: "call_env \<Rightarrow> call_dev \<Rightarrow> btcall_rt \<Rightarrow> c_error + call_dev \<times> int" where
  "btcall_create_resampler env d r =
     and_then (get_data d r) (\<lambda>b.
       if bd_rsp_in_rate b = bd_rsp_out_rate b then Inr (d, 0)
       else if ce_create_resampler env r \<noteq> 0 then Inr (d, ce_create_resampler env r)
       else Inr (put_data d r (b\<lparr>bd_resampler := True, bd_frames_in := 0\<rparr>), 0))"

definition zero_data :: btcall_data where
  "zero_data = \<lparr>bd_card = 0, bd_port = 0, bd_pcm = Bt_null, bd_in = None, bd_config = None, bd_bt_out = None, bd_resampler = False, bd_buffer = None,
     bd_frames_in = 0, bd_rsp_in_rate = 0, bd_rsp_out_rate = 0, bd_direction = BTCALL_BT_INPUT, bd_read_status = 0\<rparr>"

definition zero_thread :: btcall_thread_data where
  "zero_thread = \<lparr>bt_start_work_rx = False, bt_exit_work_rx = False, bt_start_work_tx = False, bt_exit_work_tx = False, bt_is_running_tx = False,
     bt_is_running_rx = False, bt_rsp_out_buffer_tx = None, bt_rsp_out_buffer_rx = None, bt_buffer_tx = None, bt_buffer_rx = None, bt_buffer_txsize = 0,
     bt_buffer_rxsize = 0\<rparr>"

definition set_bt_out :: "call_dev \<Rightarrow> nat option \<Rightarrow> call_dev" where
  "set_bt_out d out = d\<lparr>cd_dev := (cd_dev d)\<lparr>hd_out := (hd_out (cd_dev d))\<lparr>od_bt_out := Some out\<rparr>\<rparr>\<rparr>"

fun alloc_data :: "call_env \<Rightarrow> btcall_rt list \<Rightarrow> call_dev \<Rightarrow> call_dev \<times> bool" where
  "alloc_data env [] d = (d, True)"
| "alloc_data env (r # rs) d =
     (if \<not> ce_malloc env (Alloc_data r) then (d, False)
      else let d = put_data d r zero_data in alloc_data env rs (if r = BTCALL_CODEC_OUTPUT then set_bt_out d None else d))"

text \<open>The thread is created here; its work is below.\<close>

definition btcall_init_rx :: "call_env \<Rightarrow> call_dev \<Rightarrow> call_dev \<times> int" where
  "btcall_init_rx env d =
     (let (d, ok) = alloc_data env directions d
      in if \<not> ok \<or> \<not> ce_malloc env Alloc_thread then (d, - ENOMEM)
         else let d = put_thread d zero_thread
              in if ce_mutex_init env \<and> ce_cond_init env \<and> ce_thread_create env then (d, 0) else (d, - EINVAL))"

definition btcall_init_tx :: "call_env \<Rightarrow> call_dev \<Rightarrow> call_dev \<times> int" where
  "btcall_init_tx env d =
     (if cd_thread d = None then (d, - ENOMEM)
      else if ce_mutex_init env \<and> ce_cond_init env \<and> ce_thread_create env then (d, 0) else (d, - EINVAL))"

section \<open>Opening and closing a direction\<close>

definition bt_card :: "call_dev \<Rightarrow> int" where
  "bt_card d = sd_platform_get_card_id (Some (bt_platform d)) AUDIO_NAME_PRIMARY"

text \<open>The configuration of the platform overwrites the object that the direction points to.\<close>

definition with_card_info :: "call_dev \<Rightarrow> btcall_data \<Rightarrow> bt_config_ref \<Rightarrow> string \<Rightarrow> call_dev \<times> btcall_data" where
  "with_card_info d b ref addr =
     (case sd_platform_get_card_info (Some (bt_platform d)) addr (pcm_config.truncate (cd_configs d ref)) of None \<Rightarrow> (d, b)
      | Some (card_id, port, c) \<Rightarrow>
          (d\<lparr>cd_configs := (cd_configs d)(ref := (cd_configs d ref)\<lparr>pc_rate := pc_rate c, pc_format := pc_format c, pc_channels := pc_channels c\<rparr>)\<rparr>,
           b\<lparr>bd_card := card_id, bd_port := port\<rparr>))"

definition bt_opened :: "call_env \<Rightarrow> btcall_rt \<Rightarrow> bool" where
  "bt_opened env r = fst (pcm_open_prepare_helper (ce_attempt env r) (ce_prepare env) PROXY_OPEN_RETRY_COUNT)"

definition open_checked :: "call_env \<Rightarrow> btcall_rt \<Rightarrow> btcall_data \<Rightarrow> c_error + btcall_data \<times> bool" where
  "open_checked env r b =
     (if bd_pcm b \<noteq> Bt_null then Inr (b, True)
      else if bt_opened env r then Inr (b\<lparr>bd_pcm := Bt_device\<rparr>, True)
      else and_then (ce_null_ready env) (\<lambda>ready. Inr (b, ready)))"

definition open_bt_inpcm :: "call_env \<Rightarrow> call_dev \<Rightarrow> c_error + call_dev \<times> int" where
  "open_bt_inpcm env d =
     and_then (get_data d BTCALL_BT_INPUT) (\<lambda>b.
       let b = b\<lparr>bd_config := Some Pcm_config_bt_in, bd_card := bt_card d\<rparr>
       in if bt_card d < 0 then Inr (put_data d BTCALL_BT_INPUT b, - EINVAL)
          else case with_card_info d (b\<lparr>bd_port := PORT_BT, bd_direction := BTCALL_BT_INPUT\<rparr>) Pcm_config_bt_in BT_CALL_HFP_IN_NAME of (d, b) \<Rightarrow>
            and_then (open_checked env BTCALL_BT_INPUT b) (\<lambda>(b, ready).
              if \<not> ready then Inr (put_data d BTCALL_BT_INPUT b, - ENOMEM)
              else let d = put_data d BTCALL_BT_INPUT (b\<lparr>bd_rsp_in_rate := pc_rate (cd_configs d Pcm_config_bt_in), bd_rsp_out_rate := HIFI_SAMPLING_RATE\<rparr>)
                   in if ahub_en d then Inr (d, 0)
                      else and_then (btcall_create_resampler env d BTCALL_BT_INPUT) (\<lambda>(d, ret). Inr (d, if ret \<noteq> 0 then - EINVAL else 0))))"

definition pcm_closed_bt :: "call_dev \<Rightarrow> btcall_rt \<Rightarrow> call_dev" where
  "pcm_closed_bt d r = (case cd_data d r of None \<Rightarrow> d | Some b \<Rightarrow> put_data d r (b\<lparr>bd_resampler := False, bd_pcm := Bt_null\<rparr>))"

definition close_bt_inpcm :: "call_dev \<Rightarrow> call_dev" where
  "close_bt_inpcm d = pcm_closed_bt d BTCALL_BT_INPUT"

text \<open>The stream of the bus is copied into one of the call's own; without \<open>ahub_en\<close> the streamer opens it.\<close>

definition copy_bt_out :: "call_env \<Rightarrow> call_dev \<Rightarrow> btcall_data \<Rightarrow> c_error + btcall_data option" where
  "copy_bt_out env d b =
     (if bd_bt_out b = None \<and> \<not> ce_malloc env Alloc_bt_out then Inr None
      else case od_bt_out (hd_out (cd_dev d)) of
        Some (Some a) \<Rightarrow>
          (case ce_stream env a of None \<Rightarrow> Inl Bad_access
           | Some out \<Rightarrow> Inr (Some (b\<lparr>bd_bt_out := Some (out\<lparr>so_bus_address := BT_CALL_BUS_NAME, so_bus_num := atoi (drop 3 BT_CALL_BUS_NAME)\<rparr>)\<rparr>)))
      | _ \<Rightarrow> Inl Null_pointer)"

definition codec_out_streamer :: "call_env \<Rightarrow> call_dev \<Rightarrow> btcall_data \<Rightarrow> alsa_stream_out \<Rightarrow> c_error + call_dev \<times> int" where
  "codec_out_streamer env d b out =
     (let od = hd_out (cd_dev d)
      in and_then (bt_config d b) (\<lambda>c.
         and_then (hal_streamer_open_out (ce_bits env) (ce_rbuf env) (ce_attempt env BTCALL_CODEC_OUTPUT) (ce_prepare env) (ce_created env) (ce_dsp env)
                     (od_hdls od) (od_bus od) out (bd_card b) (bd_port b) (pcm_config.truncate c)) (\<lambda>(g, st, out, cmds, hdl).
           let d = d\<lparr>cd_dev := (cd_dev d)\<lparr>hd_out := od\<lparr>od_hdls := g, od_bus := st\<rparr>\<rparr>\<rparr>
           in case hdl of None \<Rightarrow> Inr (put_data d BTCALL_CODEC_OUTPUT (b\<lparr>bd_bt_out := Some out\<rparr>), -1)
              | Some h \<Rightarrow> Inr (put_data d BTCALL_CODEC_OUTPUT (b\<lparr>bd_bt_out := Some (out\<lparr>so_pcm_hdl := hdl\<rparr>), bd_pcm := Bt_streamer h\<rparr>), 0))))"

definition codec_out_device :: "call_env \<Rightarrow> call_dev \<Rightarrow> btcall_data \<Rightarrow> alsa_stream_out \<Rightarrow> call_dev \<times> int" where
  "codec_out_device env d b out =
     (case with_card_info d b Pcm_config_codec_out (so_bus_address out) of (d, b) \<Rightarrow>
        let opened = bt_opened env BTCALL_CODEC_OUTPUT
        in (put_data d BTCALL_CODEC_OUTPUT (b\<lparr>bd_pcm := if opened then Bt_device else Bt_null, bd_bt_out := Some (out\<lparr>so_pcm := opened\<rparr>)\<rparr>), 0))"

definition codec_out_config :: "call_dev \<Rightarrow> call_dev \<times> bt_config_ref" where
  "codec_out_config d =
     (if ahub_en d
      then (d\<lparr>cd_configs := (cd_configs d)(Pcm_config_codec_out := (cd_configs d Pcm_config_codec_out)
              \<lparr>pc_start_threshold := 4 * pc_period_size (cd_configs d Pcm_config_codec_out),
               pc_stop_threshold := 6 * pc_period_size (cd_configs d Pcm_config_codec_out)\<rparr>)\<rparr>, Pcm_config_codec_out)
      else (d, Pcm_main_config))"

definition open_codec_outpcm :: "call_env \<Rightarrow> call_dev \<Rightarrow> c_error + call_dev \<times> int" where
  "open_codec_outpcm env d =
     and_then (get_data d BTCALL_CODEC_OUTPUT) (\<lambda>b.
       case codec_out_config d of (d, ref) \<Rightarrow>
         let b = b\<lparr>bd_config := Some ref, bd_card := bt_card d\<rparr>
         in if bt_card d < 0 then Inr (put_data d BTCALL_CODEC_OUTPUT b, - EINVAL)
            else let b = b\<lparr>bd_port := PORT_CODEC, bd_direction := BTCALL_CODEC_OUTPUT\<rparr>
                 in if bd_pcm b \<noteq> Bt_null then Inr (put_data d BTCALL_CODEC_OUTPUT b, 0)
                    else and_then (copy_bt_out env d b) (\<lambda>copied.
                      case copied of None \<Rightarrow> Inr (put_data d BTCALL_CODEC_OUTPUT b, -1)
                      | Some b \<Rightarrow>
                          (case bd_bt_out b of None \<Rightarrow> Inl Null_pointer
                           | Some out \<Rightarrow> if ahub_en d then Inr (codec_out_device env d b out) else codec_out_streamer env d b out)))"

definition close_codec_outpcm :: "call_env \<Rightarrow> call_dev \<Rightarrow> c_error + call_dev" where
  "close_codec_outpcm env d =
     (case cd_data d BTCALL_CODEC_OUTPUT of None \<Rightarrow> Inr d
      | Some b \<Rightarrow>
          let b = b\<lparr>bd_resampler := False\<rparr>; od = hd_out (cd_dev d)
          in (case bd_bt_out b of None \<Rightarrow> Inl Null_pointer
              | Some out \<Rightarrow>
                  if so_pcm_hdl out \<noteq> None
                  then and_then (hal_streamer_close_out (ce_slot0 env) (od_hdls od) (od_bus od) out) (\<lambda>(g, st, out, ret).
                         Inr (put_data (d\<lparr>cd_dev := (cd_dev d)\<lparr>hd_out := od\<lparr>od_hdls := g, od_bus := st\<rparr>\<rparr>\<rparr>) BTCALL_CODEC_OUTPUT
                                (b\<lparr>bd_pcm := Bt_null, bd_bt_out := None\<rparr>)))
                  else if so_pcm out then Inr (put_data d BTCALL_CODEC_OUTPUT (b\<lparr>bd_pcm := Bt_null, bd_bt_out := None\<rparr>))
                  else Inr (put_data d BTCALL_CODEC_OUTPUT b)))"

definition bt_mic :: alsa_stream_in where
  "bt_mic = \<lparr>si_channels = CHANNEL_STEREO, si_format = PCM_FORMAT_S16_LE, si_rate = SAMPLING_RATE_16K, si_devices = AUDIO_DEVICE_IN_BUILTIN_MIC, si_pcm = False,
     si_pcm_hdl = None\<rparr>"

text \<open>The microphone is opened only when the data has no stream for it yet; the last component is whether it has one with a handle, or had one already.\<close>

definition open_bt_mic :: "call_env \<Rightarrow> call_dev \<Rightarrow> btcall_data \<Rightarrow> c_error + call_dev \<times> btcall_data \<times> bool" where
  "open_bt_mic env d b =
     (if bd_in b \<noteq> None then Inr (d, b, True)
      else if \<not> ce_malloc env Alloc_in then Inr (d, b, False)
      else and_then (hal_streamer_open_in (ce_rbuf env) (ce_attempt env BTCALL_CODEC_INPUT) (ce_prepare env) (ce_created env) (od_hdls (hd_out (cd_dev d)))
                       bt_mic (bd_card b) (bd_port b) default_input_config) (\<lambda>(g, hdl).
             Inr (d\<lparr>cd_dev := set_hdls (cd_dev d) g\<rparr>, b\<lparr>bd_in := Some (bt_mic\<lparr>si_pcm_hdl := hdl\<rparr>)\<rparr>, hdl \<noteq> None)))"

definition open_codec_inpcm :: "call_env \<Rightarrow> call_dev \<Rightarrow> c_error + call_dev \<times> int" where
  "open_codec_inpcm env d =
     and_then (get_data d BTCALL_CODEC_INPUT) (\<lambda>b.
       let ref = (if ahub_en d then Pcm_config_codec_in else Pcm_main_cap_codec_in); b = b\<lparr>bd_config := Some ref, bd_card := bt_card d\<rparr>
       in if bt_card d < 0 then Inr (put_data d BTCALL_CODEC_INPUT b, - EINVAL)
          else and_then (open_bt_mic env d (b\<lparr>bd_port := PORT_CODEC_IN, bd_direction := BTCALL_CODEC_INPUT\<rparr>)) (\<lambda>(d, b, ok).
            if \<not> ok then Inr (put_data d BTCALL_CODEC_INPUT b, - ENOMEM)
            else let d = put_data d BTCALL_CODEC_INPUT (b\<lparr>bd_rsp_in_rate := pc_rate (cd_configs d ref), bd_rsp_out_rate := pc_rate (cd_configs d Pcm_config_bt_out)\<rparr>)
                 in if ahub_en d then Inr (d, 0)
                    else and_then (btcall_create_resampler env d BTCALL_CODEC_INPUT) (\<lambda>(d, ret). Inr (d, if ret \<noteq> 0 then - EINVAL else 0))))"

definition close_codec_inpcm :: "call_dev \<Rightarrow> c_error + call_dev" where
  "close_codec_inpcm d =
     (case cd_data d BTCALL_CODEC_INPUT of None \<Rightarrow> Inr d
      | Some b \<Rightarrow>
          let b = b\<lparr>bd_resampler := False, bd_pcm := Bt_null\<rparr>
          in (case bd_in b of None \<Rightarrow> Inl Null_pointer
              | Some inp \<Rightarrow>
                  if si_pcm_hdl inp \<noteq> None
                  then let (g, inp, ret) = hal_streamer_close_in (od_hdls (hd_out (cd_dev d))) inp
                       in Inr (put_data (d\<lparr>cd_dev := set_hdls (cd_dev d) g\<rparr>) BTCALL_CODEC_INPUT (b\<lparr>bd_in := None\<rparr>))
                  else Inr (put_data d BTCALL_CODEC_INPUT b)))"

definition open_bt_outpcm :: "call_env \<Rightarrow> call_dev \<Rightarrow> c_error + call_dev \<times> int" where
  "open_bt_outpcm env d =
     and_then (get_data d BTCALL_BT_OUTPUT) (\<lambda>b.
       let b = b\<lparr>bd_config := Some Pcm_config_bt_out, bd_direction := BTCALL_BT_OUTPUT, bd_card := bt_card d\<rparr>
       in if bt_card d < 0 then Inr (put_data d BTCALL_BT_OUTPUT b, - EINVAL)
          else case with_card_info d (b\<lparr>bd_port := PORT_BT\<rparr>) Pcm_config_bt_out BT_CALL_HFP_OUT_NAME of (d, b) \<Rightarrow>
            and_then (open_checked env BTCALL_BT_OUTPUT b) (\<lambda>(b, ready). Inr (put_data d BTCALL_BT_OUTPUT b, if ready then 0 else - ENOMEM)))"

definition close_bt_outpcm :: "call_dev \<Rightarrow> call_dev" where
  "close_bt_outpcm d = pcm_closed_bt d BTCALL_BT_OUTPUT"

section \<open>Opening and closing a call\<close>

text \<open>A direction is opened when it has no device yet; every failure is reported as \<open>-EINVAL\<close>.\<close>

definition open_direction ::
    "btcall_rt \<Rightarrow> (call_dev \<Rightarrow> c_error + call_dev \<times> int) \<Rightarrow> call_dev \<Rightarrow> c_error + call_dev \<times> int" where
  "open_direction r opn d =
     and_then (get_data d r) (\<lambda>b.
       if bd_pcm b \<noteq> Bt_null then Inr (d, 0) else and_then (opn d) (\<lambda>(d, ret). Inr (d, if ret \<noteq> 0 then - EINVAL else 0)))"

text \<open>The next step of a function that ends at the first value that is not 0.\<close>

definition if_ok :: "c_error + call_dev \<times> int \<Rightarrow> (call_dev \<Rightarrow> c_error + call_dev \<times> int) \<Rightarrow> c_error + call_dev \<times> int" where
  "if_ok r f = and_then r (\<lambda>(d, ret). if ret \<noteq> 0 then Inr (d, ret) else f d)"

definition memory :: "call_env \<Rightarrow> int \<Rightarrow> byte list" where
  "memory env n = map (ce_heap env) [0..<nat n]"

definition round16 :: "int \<Rightarrow> int" where
  "round16 n = u32 (u32 (n + 15) div 16 * 16)"

definition open_ecnr :: "call_env \<Rightarrow> call_dev \<Rightarrow> call_dev" where
  "open_ecnr env d =
     (if mf_sw_ecnr (pf_misc (bt_platform d)) \<and> ce_ecnr_property env \<noteq> ''disable'' \<and> cd_ecnr_ops d
      then let (fake, hdl) = x9_ecnr_init (ce_ecnr_alloc env) (cd_fake d) bt_param in d\<lparr>cd_fake := fake, cd_ecnr_hdl := hdl\<rparr>
      else d)"

definition open_buffer_rx :: "call_env \<Rightarrow> call_dev \<Rightarrow> c_error + call_dev \<times> int" where
  "open_buffer_rx env d =
     and_then (get_thread d) (\<lambda>t.
       if bt_buffer_rx t \<noteq> None then Inr (d, 0)
       else and_then (get_data d BTCALL_BT_INPUT) (\<lambda>b. and_then (bt_config d b) (\<lambda>c.
            let sz = s32 (round16 (pc_period_size c) * ce_frame_size env (pc_channels c) (pc_format c))
            in if bd_rsp_in_rate b = 0 then Inl Div_by_zero
               else let multiple = bd_rsp_out_rate b div bd_rsp_in_rate b
                    in if \<not> ce_malloc env Alloc_buffer_rx then Inr (d, - ENOMEM)
                       else Inr (put_thread d (t\<lparr>bt_buffer_rx := Some (memory env (s32 (sz * multiple))), bt_buffer_rxsize := sz\<rparr>), 0))))"

definition open_buffer_tx :: "call_env \<Rightarrow> call_dev \<Rightarrow> c_error + call_dev \<times> int" where
  "open_buffer_tx env d =
     and_then (get_thread d) (\<lambda>t.
       if bt_buffer_tx t \<noteq> None then Inr (d, 0)
       else and_then (get_data d BTCALL_CODEC_INPUT) (\<lambda>b. and_then (bt_config d b) (\<lambda>c.
            let sz = s32 (round16 (pc_period_size c) * ce_frame_size env (pc_channels c) (pc_format c))
            in if \<not> ce_malloc env Alloc_buffer_tx then Inr (d, - ENOMEM)
               else Inr (put_thread d (t\<lparr>bt_buffer_tx := Some (memory env sz), bt_buffer_txsize := sz\<rparr>), 0))))"

definition open_rsp_tx :: "call_env \<Rightarrow> call_dev \<Rightarrow> c_error + call_dev \<times> int" where
  "open_rsp_tx env d =
     and_then (get_thread d) (\<lambda>t.
       if bt_rsp_out_buffer_tx t \<noteq> None then Inr (d, 0)
       else if \<not> ce_malloc env Alloc_rsp_tx then Inr (d, - ENOMEM)
       else Inr (put_thread d (t\<lparr>bt_rsp_out_buffer_tx := Some (replicate (nat (s32 (bt_buffer_txsize t * 8))) 0)\<rparr>), 0))"

definition open_rsp_rx :: "call_env \<Rightarrow> call_dev \<Rightarrow> c_error + call_dev \<times> int" where
  "open_rsp_rx env d =
     and_then (get_thread d) (\<lambda>t.
       if bt_rsp_out_buffer_rx t \<noteq> None then Inr (d, 0)
       else if \<not> ce_malloc env Alloc_rsp_rx then Inr (d, - ENOMEM)
       else Inr (put_thread d (t\<lparr>bt_rsp_out_buffer_rx := Some (replicate (nat (s32 (bt_buffer_rxsize t * 8))) 0)\<rparr>), 0))"

definition open_buffer :: "call_env \<Rightarrow> btcall_rt \<Rightarrow> call_dev \<Rightarrow> c_error + call_dev \<times> int" where
  "open_buffer env r d =
     and_then (get_data d r) (\<lambda>b.
       if bd_buffer b \<noteq> None then Inr (d, 0)
       else and_then (bt_config d b) (\<lambda>c.
              if \<not> ce_malloc env (Alloc_buffer r) then Inr (d, - ENOMEM)
              else Inr (put_data d r (b\<lparr>bd_buffer := Some (memory env (pc_period_size c * ce_frame_size env (pc_channels c) (pc_format c) * 8))\<rparr>), 0)))"

definition open_devices :: "call_env \<Rightarrow> call_dev \<Rightarrow> c_error + call_dev \<times> int" where
  "open_devices env d =
     if_ok (open_direction BTCALL_BT_INPUT (open_bt_inpcm env) d) (\<lambda>d.
     if_ok (open_direction BTCALL_CODEC_OUTPUT (open_codec_outpcm env) d) (\<lambda>d.
     if_ok (open_direction BTCALL_CODEC_INPUT (open_codec_inpcm env) d) (open_direction BTCALL_BT_OUTPUT (open_bt_outpcm env))))"

definition open_buffers :: "call_env \<Rightarrow> call_dev \<Rightarrow> c_error + call_dev \<times> int" where
  "open_buffers env d =
     foldl if_ok (Inr (d, 0)) ([open_buffer_rx env, open_buffer_tx env, open_rsp_tx env, open_rsp_rx env] @ map (open_buffer env) directions)"

definition btcall_open :: "call_env \<Rightarrow> call_dev \<Rightarrow> c_error + call_dev \<times> int" where
  "btcall_open env d = if_ok (open_devices env (open_ecnr env d)) (open_buffers env)"

definition close_direction :: "btcall_rt \<Rightarrow> (call_dev \<Rightarrow> c_error + call_dev) \<Rightarrow> call_dev \<Rightarrow> c_error + call_dev" where
  "close_direction r cls d = and_then (get_data d r) (\<lambda>b. if bd_pcm b \<noteq> Bt_null then cls d else Inr d)"

text \<open>The handle of the microphone is read through the pointer \<open>in\<close>.\<close>

definition close_mic :: "call_dev \<Rightarrow> c_error + call_dev" where
  "close_mic d =
     and_then (get_data d BTCALL_CODEC_INPUT) (\<lambda>b.
       case bd_in b of None \<Rightarrow> Inl Null_pointer
       | Some inp \<Rightarrow>
           if si_pcm_hdl inp = None then Inr d
           else and_then (close_codec_inpcm d) (\<lambda>d. and_then (get_data d BTCALL_CODEC_INPUT) (\<lambda>b. Inr (put_data d BTCALL_CODEC_INPUT (b\<lparr>bd_in := None\<rparr>)))))"

definition stop_phone_paths :: "call_env \<Rightarrow> call_dev \<Rightarrow> call_dev" where
  "stop_phone_paths env d =
     (if ahub_en d then d
      else let dev = cd_dev d; dev = set_remote dev (fst (audio_remote_stop (ce_rpmsg env) (dev_remote dev) PHONE_CAPTURE_FROM_MAIN_MIC_48K));
               dev = set_remote dev (fst (audio_remote_stop (ce_rpmsg env) (dev_remote dev) PHONE_PLAYBACK_TO_MAIN_SPK_48K))
           in d\<lparr>cd_dev := dev\<rparr>)"

definition free_buffers :: "btcall_thread_data \<Rightarrow> btcall_thread_data" where
  "free_buffers t =
     t\<lparr>bt_buffer_rxsize := if bt_buffer_rx t \<noteq> None then 0 else bt_buffer_rxsize t, bt_buffer_txsize := if bt_buffer_tx t \<noteq> None then 0 else bt_buffer_txsize t,
       bt_buffer_rx := None, bt_buffer_tx := None, bt_rsp_out_buffer_tx := None, bt_rsp_out_buffer_rx := None\<rparr>"

fun free_data :: "btcall_rt list \<Rightarrow> call_dev \<Rightarrow> c_error + call_dev" where
  "free_data [] d = Inr d"
| "free_data (r # rs) d = and_then (get_data d r) (\<lambda>b. free_data rs (put_data d r (b\<lparr>bd_buffer := None\<rparr>)))"

definition btcall_close :: "call_env \<Rightarrow> call_dev \<Rightarrow> c_error + call_dev" where
  "btcall_close env d =
     and_then (close_direction BTCALL_BT_INPUT (\<lambda>d. Inr (close_bt_inpcm d)) d) (\<lambda>d.
     and_then (close_direction BTCALL_CODEC_OUTPUT (close_codec_outpcm env) d) (\<lambda>d.
     and_then (close_mic d) (\<lambda>d.
     and_then (close_direction BTCALL_BT_OUTPUT (\<lambda>d. Inr (close_bt_outpcm d)) d) (\<lambda>d.
       let d = stop_phone_paths env d
       in and_then (get_thread d) (\<lambda>t. free_data directions (put_thread d (free_buffers t)))))))"

section \<open>The work of the threads\<close>

text \<open>
  What the far end's thread keeps between turns: \<open>multiple\<close> and, once they have a value, the number of bytes to write and its pointer, which is always that of
  the buffer.
\<close>

record rx_local =
  rl_multiple :: int
  rl_size :: int
  rl_buf :: bool

definition rx_local0 :: rx_local where
  "rx_local0 = \<lparr>rl_multiple = 1, rl_size = 0, rl_buf = False\<rparr>"

definition start_path :: "call_env \<Rightarrow> call_dev \<Rightarrow> string \<Rightarrow> call_dev" where
  "start_path env d path =
     (if ahub_en d then d
      else d\<lparr>cd_dev := set_remote (cd_dev d) (fst (audio_remote_start (ce_rpmsg env) (dev_remote (cd_dev d)) path PHONE_PATH_FIXED_VOL))\<rparr>)"

text \<open>After \<open>pthread_cond_wait\<close>.\<close>

definition rx_woken :: "call_env \<Rightarrow> call_dev \<Rightarrow> rx_local \<Rightarrow> c_error + call_dev \<times> rx_local" where
  "rx_woken env d l =
     (let d = start_path env d PHONE_PLAYBACK_TO_MAIN_SPK_48K
      in and_then (get_data d BTCALL_BT_INPUT) (\<lambda>b.
           if bd_rsp_in_rate b = 0 then Inl Div_by_zero else Inr (d, l\<lparr>rl_multiple := bd_rsp_out_rate b div bd_rsp_in_rate b\<rparr>)))"

definition tx_woken :: "call_env \<Rightarrow> call_dev \<Rightarrow> call_dev" where
  "tx_woken env d = start_path env d PHONE_CAPTURE_FROM_MAIN_MIC_48K"

text \<open>Reading the far end, under the lock.\<close>

definition rx_read ::
    "call_env \<Rightarrow> nat \<Rightarrow> call_dev \<Rightarrow> rx_local \<Rightarrow> btcall_data \<Rightarrow> btcall_thread_data \<Rightarrow> byte list \<Rightarrow> c_error + (call_dev \<times> rx_local \<times> byte list) option" where
  "rx_read env fuel d l b t buf =
     and_then (get_input_frame_size env d b) (\<lambda>fs.
       if fs = 0 then Inl Div_by_zero
       else if bd_resampler b
       then if bd_rsp_out_rate b > bd_rsp_in_rate b
            then let in_frames = u64 (bt_buffer_rxsize t div fs * rl_multiple l)
                 in and_then (bt_read_frames env fuel BTCALL_BT_INPUT d buf in_frames) (\<lambda>r.
                      case r of None \<Rightarrow> Inr None | Some (d, buf, ret) \<Rightarrow> Inr (Some (d, l\<lparr>rl_size := s32 (in_frames * fs), rl_buf := True\<rparr>, buf)))
            else Inr (Some (d, l, buf))
       else if bd_pcm b = Bt_null then Inl Null_pointer
       else let k = cd_reads d
            in Inr (Some (d\<lparr>cd_reads := Suc k\<rparr>, l\<lparr>rl_size := bt_buffer_rxsize t, rl_buf := True\<rparr>, ce_driver env k buf (bt_buffer_rxsize t))))"

text \<open>Writing to the loudspeaker: the samples that a device got, when it was one.\<close>

definition rx_write :: "call_env \<Rightarrow> call_dev \<Rightarrow> byte list \<Rightarrow> c_error + (call_dev \<times> byte list option) option" where
  "rx_write env d data =
     and_then (get_data d BTCALL_CODEC_OUTPUT) (\<lambda>b.
       case bd_bt_out b of None \<Rightarrow> Inl Null_pointer
       | Some out \<Rightarrow>
           let od = hd_out (cd_dev d)
           in if so_pcm_hdl out \<noteq> None
              then and_then (hal_streamer_write (ce_bits env) (ce_slot0 env) (ce_direct_write env) (ce_in_tmp env) (ce_write_polls env) (od_bus od) (od_hdls od) out
                               (Some data) (int (length data))) (\<lambda>r.
                     case r of None \<Rightarrow> Inr None | Some (g, played, ret) \<Rightarrow> Inr (Some (d\<lparr>cd_dev := set_hdls (cd_dev d) g\<rparr>, None)))
              else if so_pcm out then Inr (Some (d, Some data))
              else Inr (Some (d, None)))"

text \<open>Without a buffer the lock is not given up, and the next turn of the loop waits for it for ever.\<close>

definition rx_work :: "call_env \<Rightarrow> nat \<Rightarrow> call_dev \<Rightarrow> rx_local \<Rightarrow> c_error + (call_dev \<times> rx_local \<times> byte list option) option" where
  "rx_work env fuel d l =
     and_then (get_thread d) (\<lambda>t.
       case (cd_data d BTCALL_BT_INPUT, cd_data d BTCALL_CODEC_OUTPUT, bt_buffer_rx t) of
         (Some b, Some _, Some buf) \<Rightarrow>
           and_then (rx_read env fuel d l b t buf) (\<lambda>r.
             case r of None \<Rightarrow> Inr None
             | Some (d, l, buf) \<Rightarrow>
                 let d = put_thread d (t\<lparr>bt_buffer_rx := Some buf\<rparr>)
                 in if \<not> rl_buf l \<or> rl_size l < 0 \<or> nat (rl_size l) > length buf then Inl Bad_access
                    else and_then (rx_write env d (take (nat (rl_size l)) buf)) (\<lambda>r.
                           case r of None \<Rightarrow> Inr None | Some (d, played) \<Rightarrow> Inr (Some (d, l, played))))
       | _ \<Rightarrow> Inl Blocked)"

text \<open>The microphone's thread: what it reads, and the samples that the chip gets.\<close>

definition tx_read :: "call_env \<Rightarrow> nat \<Rightarrow> call_dev \<Rightarrow> btcall_data \<Rightarrow> alsa_stream_in \<Rightarrow> btcall_thread_data \<Rightarrow> byte list \<Rightarrow> c_error + (call_dev \<times> byte list) option" where
  "tx_read env fuel d b inp t buf =
     and_then (get_input_frame_size env d b) (\<lambda>fs.
       if fs = 0 then Inl Div_by_zero
       else if bd_resampler b
       then and_then (bt_read_frames env fuel BTCALL_CODEC_INPUT d buf (bt_buffer_txsize t div fs)) (\<lambda>r.
              case r of None \<Rightarrow> Inr None | Some (d, buf, ret) \<Rightarrow> Inr (Some (d, buf)))
       else and_then (hal_streamer_read (ce_polls env (cd_reads d)) (od_hdls (hd_out (cd_dev d))) inp buf (bt_buffer_txsize t)) (\<lambda>(g, buf, ret).
              Inr (Some (d\<lparr>cd_dev := set_hdls (cd_dev d) g, cd_reads := Suc (cd_reads d)\<rparr>, buf))))"

definition tx_work :: "call_env \<Rightarrow> nat \<Rightarrow> call_dev \<Rightarrow> c_error + (call_dev \<times> byte list option) option" where
  "tx_work env fuel d =
     and_then (get_thread d) (\<lambda>t.
     and_then (get_data d BTCALL_CODEC_INPUT) (\<lambda>b.
       case bd_in b of None \<Rightarrow> Inl Null_pointer
       | Some inp \<Rightarrow>
           if si_pcm_hdl inp = None then Inr (Some (d, None))
           else and_then (get_data d BTCALL_BT_OUTPUT) (\<lambda>bo.
             case bt_buffer_tx t of None \<Rightarrow> Inr (Some (d, None))
             | Some buf \<Rightarrow>
                 if bd_pcm bo = Bt_null then Inr (Some (d, None))
                 else and_then (tx_read env fuel d b inp t buf) (\<lambda>r.
                   case r of None \<Rightarrow> Inr None
                   | Some (d, buf) \<Rightarrow>
                       let n = nat (bt_buffer_txsize t)
                       in if n > length buf then Inl Bad_access
                          else let buf = (if cd_mic_mute d then replicate n 0 @ drop n buf else buf)
                               in Inr (Some (put_thread d (t\<lparr>bt_buffer_tx := Some buf\<rparr>), Some (take n buf)))))))"

section \<open>Entering and leaving a call\<close>

definition btcall_inited :: "call_dev \<Rightarrow> bool" where
  "btcall_inited d \<longleftrightarrow> list_all (\<lambda>r. cd_data d r \<noteq> None) directions \<and> cd_thread d \<noteq> None"

definition set_start :: "bool \<Rightarrow> btcall_thread_data \<Rightarrow> btcall_thread_data" where
  "set_start on t = t\<lparr>bt_start_work_rx := on, bt_exit_work_rx := False, bt_start_work_tx := on, bt_exit_work_tx := False\<rparr>"

definition close_ecnr :: "call_dev \<Rightarrow> call_dev" where
  "close_ecnr d = (if cd_ecnr_ops d \<and> cd_ecnr_hdl d \<noteq> None \<and> x9_ecnr_deinit (cd_ecnr_hdl d) then d\<lparr>cd_ecnr_hdl := None\<rparr> else d)"

text \<open>
  The waits for the threads end after at most 300 rounds and change nothing here; what can go wrong with them is in \<open>Call_Threads\<close>.  \<open>restarted\<close>: another
  caller has set a start flag during the wait.
\<close>

definition set_btcall_status :: "call_env \<Rightarrow> bool \<Rightarrow> call_dev \<Rightarrow> c_error + call_dev" where
  "set_btcall_status env restarted d =
     (if \<not> btcall_inited d then Inr d
      else if cd_in_call d = 1
      then and_then (btcall_open env d) (\<lambda>(d, ret).
             if ret \<noteq> 0 then btcall_close env d else and_then (get_thread d) (\<lambda>t. Inr (put_thread d (set_start True t))))
      else if cd_in_call d = 0
      then and_then (get_thread d) (\<lambda>t.
             let d = put_thread d (set_start False t)
             in if restarted then Inr d else and_then (btcall_close env d) (\<lambda>d. Inr (close_ecnr d)))
      else Inr d)"

text \<open>The stream is the one that \<open>active_input\<close> points to; the standby of the active output is commented out.\<close>

definition force_all_standby :: "'p in_env \<Rightarrow> hal_dev \<Rightarrow> 'p in_stream \<Rightarrow> c_error + 'p in_state" where
  "force_all_standby env d inp =
     (if hd_active_input d = None then Inr (d, inp) else and_then (do_in_standby env d inp) (\<lambda>(d, inp, ret). Inr (d, inp)))"

definition select_mode :: "'p in_env \<Rightarrow> call_env \<Rightarrow> bool \<Rightarrow> call_dev \<Rightarrow> 'p in_stream \<Rightarrow> c_error + call_dev \<times> 'p in_stream" where
  "select_mode ienv env restarted d inp =
     (if hd_mode (cd_dev d) = ie_enum ienv ''AUDIO_MODE_IN_CALL''
      then if cd_in_call d \<noteq> 0 then Inr (d, inp)
           else and_then (force_all_standby ienv (cd_dev d) inp) (\<lambda>(dev, inp).
                and_then (set_btcall_status env restarted (d\<lparr>cd_dev := dev, cd_in_call := 1\<rparr>)) (\<lambda>d. Inr (d, inp)))
      else if cd_in_call d = 0 then Inr (d, inp)
      else and_then (set_btcall_status env restarted (d\<lparr>cd_in_call := 0\<rparr>)) (\<lambda>d. Inr (d, inp)))"

definition adev_set_mode :: "'p in_env \<Rightarrow> call_env \<Rightarrow> bool \<Rightarrow> call_dev \<Rightarrow> 'p in_stream \<Rightarrow> int \<Rightarrow> c_error + call_dev \<times> 'p in_stream \<times> int" where
  "adev_set_mode ienv env restarted d inp mode =
     (if \<not> btcall_inited d then Inr (d, inp, 0)
      else if mode > ie_enum ienv ''AUDIO_MODE_IN_COMMUNICATION'' \<or> mode < ie_enum ienv ''AUDIO_MODE_INVALID'' then Inr (d, inp, - EINVAL)
      else if hd_mode (cd_dev d) \<noteq> mode \<and> pf_bt_type (bt_platform d) = BT_CONNECT_WITH_SOC
      then and_then (select_mode ienv env restarted (d\<lparr>cd_dev := (cd_dev d)\<lparr>hd_mode := mode\<rparr>\<rparr>) inp) (\<lambda>(d, inp). Inr (d, inp, 0))
      else Inr (d, inp, 0))"

end
