(* ===== verification/Call_System.thy ===== *)
theory Call_System
  imports Bt_Call Output_System Frame_Provider
begin

text \<open>
  What \<open>btcall_open\<close> and \<open>btcall_close\<close> do to the state of a call: each direction touches its own data, the buffers change nothing else, and closing gives back
  what a complete open took.
\<close>

section \<open>States between calls\<close>

definition data_idle :: "btcall_data \<Rightarrow> bool" where
  "data_idle b \<longleftrightarrow> bd_pcm b = Bt_null \<and> \<not> bd_resampler b \<and> bd_buffer b = None \<and> bd_in b = None \<and> bd_bt_out b = None"

definition erase :: "btcall_thread_data \<Rightarrow> btcall_thread_data" where
  "erase t = t\<lparr>bt_buffer_rx := None, bt_buffer_tx := None, bt_rsp_out_buffer_tx := None, bt_rsp_out_buffer_rx := None, bt_buffer_rxsize := 0, bt_buffer_txsize := 0\<rparr>"

definition call_idle :: "call_dev \<Rightarrow> bool" where
  "call_idle d \<longleftrightarrow> (\<forall>r. \<exists>b. cd_data d r = Some b \<and> data_idle b) \<and> (\<exists>t. cd_thread d = Some t \<and> erase t = t)"

abbreviation call_hdls :: "call_dev \<Rightarrow> hal_streamer list" where
  "call_hdls d \<equiv> od_hdls (hd_out (cd_dev d))"

abbreviation call_bus :: "call_dev \<Rightarrow> audio_bus_status" where
  "call_bus d \<equiv> od_bus (hd_out (cd_dev d))"

section \<open>Steps that succeed\<close>

lemma if_ok_done: "if_ok r f = Inr (d', 0) \<longleftrightarrow> (\<exists>d. r = Inr (d, 0) \<and> f d = Inr (d', 0))"
  by (auto simp: if_ok_def and_then_def split: sum.splits if_splits prod.splits)

lemma put_data_simps [simp]:
  "cd_data (put_data d r b) = (cd_data d)(r := Some b)" "cd_dev (put_data d r b) = cd_dev d" "cd_thread (put_data d r b) = cd_thread d"
  "cd_configs (put_data d r b) = cd_configs d" "ahub_en (put_data d r b) = ahub_en d" "get_data (put_data d r b) r = Inr b"
  "r' \<noteq> r \<Longrightarrow> get_data (put_data d r b) r' = get_data d r'"
  by (simp_all add: put_data_def ahub_en_def bt_platform_def get_data_def)

lemma put_thread_simps [simp]:
  "cd_data (put_thread d t) = cd_data d" "cd_dev (put_thread d t) = cd_dev d" "cd_thread (put_thread d t) = Some t" "cd_configs (put_thread d t) = cd_configs d"
  by (simp_all add: put_thread_def)

lemma get_data_Some: "get_data d r = Inr b \<longleftrightarrow> cd_data d r = Some b"
  by (simp add: get_data_def split: option.split)

lemma with_card_info_keeps:
  assumes "with_card_info d b ref addr = (d', b')"
  shows "cd_data d' = cd_data d" "cd_dev d' = cd_dev d" "cd_thread d' = cd_thread d" "ahub_en d' = ahub_en d" "r \<noteq> ref \<Longrightarrow> cd_configs d' r = cd_configs d r"
    "bd_pcm b' = bd_pcm b" "bd_buffer b' = bd_buffer b" "bd_in b' = bd_in b" "bd_bt_out b' = bd_bt_out b" "bd_resampler b' = bd_resampler b"
  using assms by (auto simp: with_card_info_def ahub_en_def bt_platform_def split: option.splits)

text \<open>The data of one direction is replaced; what the two have in common.\<close>

definition changed :: "btcall_rt \<Rightarrow> (btcall_data \<Rightarrow> bool) \<Rightarrow> call_dev \<Rightarrow> call_dev \<Rightarrow> bool" where
  "changed r P d d' \<longleftrightarrow> (\<exists>b b'. cd_data d r = Some b \<and> cd_data d' = (cd_data d)(r := Some b') \<and> bd_buffer b' = bd_buffer b \<and> P b') \<and> cd_thread d' = cd_thread d \<and>
     cd_configs d' Pcm_main_config = cd_configs d Pcm_main_config \<and> ahub_en d' = ahub_en d"

lemma changed_refl: "cd_data d r = Some b \<Longrightarrow> P b \<Longrightarrow> changed r P d d"
  by (auto simp: changed_def fun_upd_triv intro!: exI [of _ b])

lemma changed_trans: "changed r Q d d1 \<Longrightarrow> changed r P d1 d2 \<Longrightarrow> changed r P d d2"
  by (auto simp: changed_def)

lemma changed_put: "cd_data d r = Some b \<Longrightarrow> bd_buffer b' = bd_buffer b \<Longrightarrow> P b' \<Longrightarrow> changed r P d (put_data d r b')"
  by (auto simp: changed_def)

lemma create_resampler_changed:
  assumes "btcall_create_resampler env d r = Inr (d', ret)" and "cd_data d r = Some b" and "P b" and "\<And>b. P b \<Longrightarrow> P (b\<lparr>bd_resampler := True, bd_frames_in := 0\<rparr>)"
  shows "changed r P d d'" "cd_dev d' = cd_dev d"
  using assms by (auto simp: btcall_create_resampler_def get_data_def split: if_splits intro: changed_refl changed_put)

text \<open>The two directions over a device of the Bluetooth chip.\<close>

lemma open_bt_in_done:
  assumes "open_bt_inpcm env d = Inr (d', 0)" and "ce_null_ready env \<noteq> Inr True" and "cd_data d BTCALL_BT_INPUT = Some b" and "bd_pcm b = Bt_null"
  shows "changed BTCALL_BT_INPUT (\<lambda>b'. bd_pcm b' \<noteq> Bt_null \<and> bd_in b' = bd_in b \<and> bd_bt_out b' = bd_bt_out b) d d'" "cd_dev d' = cd_dev d"
proof -
  let ?r = BTCALL_BT_INPUT let ?P = "\<lambda>b'. bd_pcm b' \<noteq> Bt_null \<and> bd_in b' = bd_in b \<and> bd_bt_out b' = bd_bt_out b"
  obtain d1 b1 where w: "with_card_info d (b\<lparr>bd_config := Some Pcm_config_bt_in, bd_card := bt_card d, bd_port := PORT_BT, bd_direction := ?r\<rparr>) Pcm_config_bt_in
      BT_CALL_HFP_IN_NAME = (d1, b1)" by fastforce
  note k = with_card_info_keeps [OF w]
  let ?d = "put_data d1 ?r (b1\<lparr>bd_pcm := Bt_device, bd_rsp_in_rate := pc_rate (cd_configs d1 Pcm_config_bt_in), bd_rsp_out_rate := HIFI_SAMPLING_RATE\<rparr>)"
  have c: "if ahub_en d then d' = ?d else btcall_create_resampler env ?d ?r = Inr (d', 0)"
    using assms w by (auto simp: open_bt_inpcm_def open_checked_def get_data_Some and_then_def k(4,6) ENOMEM_def EINVAL_def Let_def split: if_splits sum.splits prod.splits)
  have 1: "changed ?r ?P d ?d" "cd_dev ?d = cd_dev d" using assms(3) k(1-5) k(7-9) by (auto simp: changed_def)
  have 2: "changed ?r ?P ?d d' \<and> cd_dev d' = cd_dev ?d" if "btcall_create_resampler env ?d ?r = Inr (d', 0)"
    using create_resampler_changed [OF that, of _ ?P] k(7-9) by simp
  show "changed ?r ?P d d'" "cd_dev d' = cd_dev d" using c 1 2 changed_trans [OF 1(1)] by (auto split: if_splits)
qed

lemma open_bt_out_done:
  assumes "open_bt_outpcm env d = Inr (d', 0)" and "ce_null_ready env \<noteq> Inr True" and "cd_data d BTCALL_BT_OUTPUT = Some b" and "bd_pcm b = Bt_null"
  shows "changed BTCALL_BT_OUTPUT (\<lambda>b'. bd_pcm b' \<noteq> Bt_null \<and> bd_in b' = bd_in b \<and> bd_bt_out b' = bd_bt_out b) d d'" "cd_dev d' = cd_dev d"
proof -
  let ?r = BTCALL_BT_OUTPUT
  obtain d1 b1 where w: "with_card_info d (b\<lparr>bd_config := Some Pcm_config_bt_out, bd_direction := ?r, bd_card := bt_card d, bd_port := PORT_BT\<rparr>) Pcm_config_bt_out
      BT_CALL_HFP_OUT_NAME = (d1, b1)" by fastforce
  note k = with_card_info_keeps [OF w]
  have "d' = put_data d1 ?r (b1\<lparr>bd_pcm := Bt_device\<rparr>)"
    using assms w by (auto simp: open_bt_outpcm_def open_checked_def get_data_Some and_then_def k(6) ENOMEM_def EINVAL_def Let_def split: if_splits sum.splits prod.splits)
  then show "changed ?r (\<lambda>b'. bd_pcm b' \<noteq> Bt_null \<and> bd_in b' = bd_in b \<and> bd_bt_out b' = bd_bt_out b) d d'" "cd_dev d' = cd_dev d"
    using assms(3) k(1-5) k(7-9) by (auto simp: changed_def)
qed

text \<open>The loudspeaker and the microphone over the streamer.\<close>

definition phone_stream :: "alsa_stream_out \<Rightarrow> alsa_stream_out" where
  "phone_stream out = out\<lparr>so_bus_address := BT_CALL_BUS_NAME, so_bus_num := atoi (drop 3 BT_CALL_BUS_NAME)\<rparr>"

definition set_streams :: "call_dev \<Rightarrow> hal_streamer list \<Rightarrow> audio_bus_status \<Rightarrow> hal_dev" where
  "set_streams d g st = (cd_dev d)\<lparr>hd_out := (hd_out (cd_dev d))\<lparr>od_hdls := g, od_bus := st\<rparr>\<rparr>"

lemma open_codec_out_done:
  assumes "open_codec_outpcm env d = Inr (d', 0)" and "\<not> ahub_en d" and "cd_data d BTCALL_CODEC_OUTPUT = Some b" and "bd_pcm b = Bt_null"
  obtains a out g st out1 cmds i where "od_bt_out (hd_out (cd_dev d)) = Some (Some a)" "ce_stream env a = Some out"
    "hal_streamer_open_out (ce_bits env) (ce_rbuf env) (ce_attempt env BTCALL_CODEC_OUTPUT) (ce_prepare env) (ce_created env) (ce_dsp env) (call_hdls d) (call_bus d)
       (phone_stream out) (bt_card d) PORT_CODEC (pcm_config.truncate (cd_configs d Pcm_main_config)) = Inr (g, st, out1, cmds, Some i)"
    "cd_dev d' = set_streams d g st"
    "changed BTCALL_CODEC_OUTPUT (\<lambda>b'. bd_pcm b' = Bt_streamer i \<and> bd_bt_out b' = Some (out1\<lparr>so_pcm_hdl := Some i\<rparr>) \<and> bd_in b' = bd_in b) d d'"
proof -
  let ?r = BTCALL_CODEC_OUTPUT
  define b0 where "b0 = b\<lparr>bd_config := Some Pcm_main_config, bd_card := bt_card d, bd_port := PORT_CODEC, bd_direction := ?r\<rparr>"
  have b0: "bd_pcm b0 = Bt_null" "bd_buffer b0 = bd_buffer b" "bd_in b0 = bd_in b" "bd_card b0 = bt_card d" "bd_port b0 = PORT_CODEC" "bt_config d b0 = Inr (cd_configs d Pcm_main_config)"
    using assms(4) by (simp_all add: b0_def bt_config_def)
  obtain b1 out where o: "copy_bt_out env d b0 = Inr (Some b1)" "bd_bt_out b1 = Some out" "codec_out_streamer env d b1 out = Inr (d', 0)"
    using assms b0(1)
    by (auto simp: open_codec_outpcm_def codec_out_config_def get_data_Some and_then_def EINVAL_def Let_def simp flip: b0_def
        split: if_splits sum.splits prod.splits option.splits)
  obtain a out0 where a: "od_bt_out (hd_out (cd_dev d)) = Some (Some a)" "ce_stream env a = Some out0" "b1 = b0\<lparr>bd_bt_out := Some (phone_stream out0)\<rparr>"
    using o(1) by (auto simp: copy_bt_out_def phone_stream_def split: if_splits option.splits)
  have out: "out = phone_stream out0" using o(2) a(3) by simp
  have cfg: "bt_config d b1 = Inr (cd_configs d Pcm_main_config)" using b0(6) a(3) by (simp add: bt_config_def)
  obtain g st out1 cmds i where h: "hal_streamer_open_out (ce_bits env) (ce_rbuf env) (ce_attempt env ?r) (ce_prepare env) (ce_created env) (ce_dsp env) (call_hdls d)
      (call_bus d) out (bt_card d) PORT_CODEC (pcm_config.truncate (cd_configs d Pcm_main_config)) = Inr (g, st, out1, cmds, Some i)"
    "d' = put_data (d\<lparr>cd_dev := set_streams d g st\<rparr>) ?r (b1\<lparr>bd_bt_out := Some (out1\<lparr>so_pcm_hdl := Some i\<rparr>), bd_pcm := Bt_streamer i\<rparr>)"
    using o(3) b0(4,5) a(3) cfg
    by (auto simp: codec_out_streamer_def set_streams_def and_then_def Let_def split: sum.splits option.splits)
  have "changed ?r (\<lambda>b'. bd_pcm b' = Bt_streamer i \<and> bd_bt_out b' = Some (out1\<lparr>so_pcm_hdl := Some i\<rparr>) \<and> bd_in b' = bd_in b) d d'"
    using assms(3) b0(2,3) a(3) h(2) by (auto simp: changed_def ahub_en_def bt_platform_def set_streams_def put_data_def)
  then show thesis using that a(1,2) h out by simp
qed

lemma open_codec_in_done:
  assumes "open_codec_inpcm env d = Inr (d', 0)" and "cd_data d BTCALL_CODEC_INPUT = Some b" and "bd_pcm b = Bt_null" and "bd_in b = None"
  obtains g j where
    "hal_streamer_open_in (ce_rbuf env) (ce_attempt env BTCALL_CODEC_INPUT) (ce_prepare env) (ce_created env) (call_hdls d) bt_mic (bt_card d) PORT_CODEC_IN
       default_input_config = Inr (g, Some j)"
    "cd_dev d' = set_hdls (cd_dev d) g"
    "changed BTCALL_CODEC_INPUT (\<lambda>b'. bd_pcm b' = Bt_null \<and> bd_in b' = Some (bt_mic\<lparr>si_pcm_hdl := Some j\<rparr>) \<and> bd_bt_out b' = bd_bt_out b) d d'"
proof -
  let ?r = BTCALL_CODEC_INPUT
  define ref where "ref = (if ahub_en d then Pcm_config_codec_in else Pcm_main_cap_codec_in)"
  define b0 where "b0 = b\<lparr>bd_config := Some ref, bd_card := bt_card d, bd_port := PORT_CODEC_IN, bd_direction := ?r\<rparr>"
  have b0: "bd_in b0 = None" "bd_pcm b0 = Bt_null" "bd_buffer b0 = bd_buffer b" "bd_bt_out b0 = bd_bt_out b" "bd_card b0 = bt_card d" "bd_port b0 = PORT_CODEC_IN"
    using assms(3,4) by (simp_all add: b0_def)
  define d0 where "d0 g j = put_data (d\<lparr>cd_dev := set_hdls (cd_dev d) g\<rparr>) ?r
    (b0\<lparr>bd_in := Some (bt_mic\<lparr>si_pcm_hdl := Some j\<rparr>), bd_rsp_in_rate := pc_rate (cd_configs d ref), bd_rsp_out_rate := pc_rate (cd_configs d Pcm_config_bt_out)\<rparr>)" for g j
  have ah: "ahub_en (d\<lparr>cd_dev := set_hdls (cd_dev d) g\<rparr>) = ahub_en d" for g by (simp add: ahub_en_def bt_platform_def set_hdls_def)
  obtain g j where h: "hal_streamer_open_in (ce_rbuf env) (ce_attempt env ?r) (ce_prepare env) (ce_created env) (call_hdls d) bt_mic (bt_card d) PORT_CODEC_IN
      default_input_config = Inr (g, Some j)"
    "if ahub_en d then d' = d0 g j else btcall_create_resampler env (d0 g j) ?r = Inr (d', 0)"
    using assms b0(1,5,6) ah
    by (auto simp: open_codec_inpcm_def open_bt_mic_def get_data_Some and_then_def EINVAL_def ENOMEM_def Let_def d0_def simp flip: ref_def b0_def
        split: if_splits sum.splits prod.splits)
  let ?P = "\<lambda>b'. bd_pcm b' = Bt_null \<and> bd_in b' = Some (bt_mic\<lparr>si_pcm_hdl := Some j\<rparr>) \<and> bd_bt_out b' = bd_bt_out b"
  have 1: "changed ?r ?P d (d0 g j)" "cd_dev (d0 g j) = set_hdls (cd_dev d) g" using assms(2) b0 ah by (auto simp: changed_def d0_def)
  have 2: "changed ?r ?P (d0 g j) d' \<and> cd_dev d' = cd_dev (d0 g j)" if "btcall_create_resampler env (d0 g j) ?r = Inr (d', 0)"
    using create_resampler_changed [OF that, of _ ?P] b0 by (simp add: d0_def)
  have "changed ?r ?P d d'" "cd_dev d' = set_hdls (cd_dev d) g" using h(2) 1 2 changed_trans [OF 1(1)] by (auto split: if_splits)
  then show thesis using that h(1) by blast
qed

section \<open>Buffers\<close>

definition strip :: "btcall_data \<Rightarrow> btcall_data" where
  "strip b = b\<lparr>bd_buffer := None\<rparr>"

text \<open>The two states differ in buffers only.\<close>

definition same_calls :: "call_dev \<Rightarrow> call_dev \<Rightarrow> bool" where
  "same_calls d d' \<longleftrightarrow> cd_dev d' = cd_dev d \<and> cd_configs d' = cd_configs d \<and> (\<forall>r. map_option strip (cd_data d' r) = map_option strip (cd_data d r)) \<and>
     map_option erase (cd_thread d') = map_option erase (cd_thread d)"

lemma same_calls_trans: "same_calls d d1 \<Longrightarrow> same_calls d1 d2 \<Longrightarrow> same_calls d d2"
  by (simp add: same_calls_def)

lemma same_put_thread: "cd_thread d = Some t \<Longrightarrow> erase t' = erase t \<Longrightarrow> same_calls d (put_thread d t')"
  by (simp add: same_calls_def)

lemma same_put_data: "cd_data d r = Some b \<Longrightarrow> strip b' = strip b \<Longrightarrow> same_calls d (put_data d r b')"
  by (simp add: same_calls_def)

lemma same_refl: "same_calls d d"
  by (simp add: same_calls_def)

lemma get_thread_Some: "get_thread d = Inr t \<longleftrightarrow> cd_thread d = Some t"
  by (simp add: get_thread_def split: option.split)

lemma open_buffer_steps:
  "open_buffer_rx env d = Inr (d', 0) \<Longrightarrow> same_calls d d' \<and> (\<exists>t. cd_thread d' = Some t \<and> bt_buffer_rx t \<noteq> None)"
  "open_buffer_tx env d = Inr (d', 0) \<Longrightarrow> same_calls d d' \<and> (\<exists>t t'. cd_thread d = Some t \<and> cd_thread d' = Some t' \<and> bt_buffer_rx t' = bt_buffer_rx t \<and> bt_buffer_tx t' \<noteq> None)"
  "open_rsp_tx env d = Inr (d', 0) \<Longrightarrow> same_calls d d' \<and>
     (\<exists>t t'. cd_thread d = Some t \<and> cd_thread d' = Some t' \<and> bt_buffer_rx t' = bt_buffer_rx t \<and> bt_buffer_tx t' = bt_buffer_tx t)"
  "open_rsp_rx env d = Inr (d', 0) \<Longrightarrow> same_calls d d' \<and>
     (\<exists>t t'. cd_thread d = Some t \<and> cd_thread d' = Some t' \<and> bt_buffer_rx t' = bt_buffer_rx t \<and> bt_buffer_tx t' = bt_buffer_tx t)"
  "open_buffer env r d = Inr (d', 0) \<Longrightarrow> same_calls d d' \<and> cd_thread d' = cd_thread d"
  by (auto simp: open_buffer_rx_def open_buffer_tx_def open_rsp_tx_def open_rsp_rx_def open_buffer_def and_then_def get_thread_Some get_data_Some Let_def ENOMEM_def
      erase_def strip_def intro!: same_put_thread same_put_data same_refl split: if_splits sum.splits)

lemma open_buffers_done:
  assumes "open_buffers env d = Inr (d', 0)"
  shows "same_calls d d'" "\<exists>t. cd_thread d' = Some t \<and> bt_buffer_rx t \<noteq> None \<and> bt_buffer_tx t \<noteq> None"
proof -
  obtain d1 d2 d3 d4 d5 d6 d7 where s: "open_buffer_rx env d = Inr (d1, 0)" "open_buffer_tx env d1 = Inr (d2, 0)" "open_rsp_tx env d2 = Inr (d3, 0)"
    "open_rsp_rx env d3 = Inr (d4, 0)" "open_buffer env BTCALL_BT_INPUT d4 = Inr (d5, 0)" "open_buffer env BTCALL_BT_OUTPUT d5 = Inr (d6, 0)"
    "open_buffer env BTCALL_CODEC_INPUT d6 = Inr (d7, 0)" "open_buffer env BTCALL_CODEC_OUTPUT d7 = Inr (d', 0)"
    using assms by (auto simp: open_buffers_def directions_def if_ok_done)
  note k = open_buffer_steps(1) [OF s(1)] open_buffer_steps(2) [OF s(2)] open_buffer_steps(3) [OF s(3)] open_buffer_steps(4) [OF s(4)]
    open_buffer_steps(5) [OF s(5)] open_buffer_steps(5) [OF s(6)] open_buffer_steps(5) [OF s(7)] open_buffer_steps(5) [OF s(8)]
  show "same_calls d d'" using k by (meson same_calls_trans)
  show "\<exists>t. cd_thread d' = Some t \<and> bt_buffer_rx t \<noteq> None \<and> bt_buffer_tx t \<noteq> None" using k by auto
qed

section \<open>Reference counts of the streamer\<close>

lemma open_in_refs:
  assumes "hal_streamer_open_in rbuf attempt prepare created g inp c p cfg = Inr (g', Some j)"
  shows "j < length g" "table_refs g' = (table_refs g)[j := table_refs g ! j + 1]"
proof -
  obtain h where h: "find_streamer (\<lambda>h. \<not> hs_allocated h) 0 g = Some j"
    "open_handle_in rbuf attempt prepare created ((g[j := (g ! j)\<lparr>hs_dir := CAPTURE_STREAM\<rparr>]) ! j) inp c p cfg = Inr h"
    "g' = g[j := (g ! j)\<lparr>hs_dir := CAPTURE_STREAM\<rparr>, j := h]"
    using assms by (auto simp: hal_streamer_open_in_def probe_in_def and_then_def split: option.splits sum.splits prod.splits)
  show j: "j < length g" using find_streamer_Some [OF h(1)] by simp
  have "hs_ref_cnt h = hs_ref_cnt (g ! j) + 1"
    using h(2) j by (auto simp: open_handle_in_def prepare_rbuf_in_def open_device_def attach_in_def stream_capture_prepare_def Let_def split: if_splits in_device.splits)
  then show "table_refs g' = (table_refs g)[j := table_refs g ! j + 1]" using h(3) j by (simp add: table_refs_def map_update)
qed

lemma close_in_refs:
  assumes "hal_streamer_close_in g inp = (g', inp', ret)" and "si_pcm_hdl inp = Some j" and "j < length g"
  shows "table_refs g' = (table_refs g)[j := table_refs g ! j - 1]"
  using assms by (auto simp: hal_streamer_close_in_def table_refs_def map_update Let_def split: if_splits in_device.splits)

lemma refs_balance:
  fixes xs :: "int list"
  assumes "i < length xs" and "j < length xs" and "ys = xs[i := xs ! i + 1]" and "zs = ys[j := ys ! j + 1]" and "us = zs[i := zs ! i - 1]"
  shows "us[j := us ! j - 1] = xs"
  using assms by (cases "i = j") (auto simp: nth_list_update list_update_swap)

section \<open>Closing what was opened\<close>

definition dev_view :: "call_dev \<Rightarrow> btcall_rt \<Rightarrow> (bt_pcm \<times> alsa_stream_in option \<times> alsa_stream_out option) option" where
  "dev_view d r = map_option (\<lambda>b. (bd_pcm b, bd_in b, bd_bt_out b)) (cd_data d r)"

text \<open>A call with all its devices: the loudspeaker on handle \<open>i\<close> of the streamer, the microphone on handle \<open>j\<close>.\<close>

definition call_up :: "call_dev \<Rightarrow> alsa_stream_out \<Rightarrow> nat \<Rightarrow> nat \<Rightarrow> bool" where
  "call_up d out i j \<longleftrightarrow> so_pcm_hdl out = Some i \<and>
     (\<exists>p. dev_view d BTCALL_BT_INPUT = Some (p, None, None) \<and> p \<noteq> Bt_null) \<and> (\<exists>p. dev_view d BTCALL_BT_OUTPUT = Some (p, None, None) \<and> p \<noteq> Bt_null) \<and>
     dev_view d BTCALL_CODEC_INPUT = Some (Bt_null, Some (bt_mic\<lparr>si_pcm_hdl := Some j\<rparr>), None) \<and>
     dev_view d BTCALL_CODEC_OUTPUT = Some (Bt_streamer i, None, Some out)"

lemma dev_view_strip: "dev_view d r = map_option (\<lambda>b. (bd_pcm b, bd_in b, bd_bt_out b)) (map_option strip (cd_data d r))"
  by (simp add: dev_view_def option.map_comp comp_def strip_def)

lemma call_up_same: "same_calls d d' \<Longrightarrow> call_up d' out i j = call_up d out i j"
  by (simp add: call_up_def dev_view_strip same_calls_def)

lemma all_directions: "r \<in> set directions"
  by (cases r) (simp_all add: directions_def)

lemma free_data_done:
  assumes "\<forall>r\<in>set rs. cd_data d r \<noteq> None"
  shows "\<exists>d'. free_data rs d = Inr d' \<and> cd_data d' = (\<lambda>r. if r \<in> set rs then map_option strip (cd_data d r) else cd_data d r) \<and> cd_thread d' = cd_thread d \<and>
    cd_dev d' = cd_dev d \<and> cd_configs d' = cd_configs d"
  using assms
proof (induction rs arbitrary: d)
  case (Cons r rs)
  then obtain b where b: "cd_data d r = Some b" by auto
  let ?d = "put_data d r (strip b)"
  have all_some: "\<forall>q\<in>set rs. cd_data ?d q \<noteq> None" using Cons.prems by simp
  obtain d' where d': "free_data rs ?d = Inr d'" "cd_data d' = (\<lambda>q. if q \<in> set rs then map_option strip (cd_data ?d q) else cd_data ?d q)"
    "cd_thread d' = cd_thread ?d" "cd_dev d' = cd_dev ?d" "cd_configs d' = cd_configs ?d"
    using Cons.IH [OF all_some] by blast
  have "cd_data d' = (\<lambda>q. if q \<in> set (r # rs) then map_option strip (cd_data d q) else cd_data d q)"
    using d'(2) b by (auto simp: strip_def fun_eq_iff)
  moreover have "free_data (r # rs) d = Inr d'" using b d'(1) by (simp add: get_data_def strip_def)
  ultimately show ?case using d'(3-5) by auto
qed simp

lemma btcall_close_done:
  assumes "call_up d out i j" and "cd_thread d = Some t" and "bt_buffer_rx t \<noteq> None" and "bt_buffer_tx t \<noteq> None"
    and "hal_streamer_close_out (ce_slot0 env) (call_hdls d) (call_bus d) out = Inr (g, st, out', ret)"
    and "hal_streamer_close_in g (bt_mic\<lparr>si_pcm_hdl := Some j\<rparr>) = (g', inp', ret')"
  shows "\<exists>d'. btcall_close env d = Inr d' \<and> call_idle d' \<and> call_hdls d' = g' \<and> call_bus d' = st \<and> cd_configs d' = cd_configs d"
proof -
  obtain b1 b2 b3 b4 where b: "cd_data d BTCALL_BT_INPUT = Some b1" "bd_pcm b1 \<noteq> Bt_null" "bd_in b1 = None" "bd_bt_out b1 = None"
    "cd_data d BTCALL_BT_OUTPUT = Some b2" "bd_pcm b2 \<noteq> Bt_null" "bd_in b2 = None" "bd_bt_out b2 = None"
    "cd_data d BTCALL_CODEC_INPUT = Some b3" "bd_pcm b3 = Bt_null" "bd_in b3 = Some (bt_mic\<lparr>si_pcm_hdl := Some j\<rparr>)" "bd_bt_out b3 = None"
    "cd_data d BTCALL_CODEC_OUTPUT = Some b4" "bd_pcm b4 = Bt_streamer i" "bd_in b4 = None" "bd_bt_out b4 = Some out" "so_pcm_hdl out = Some i"
    using assms(1) by (auto simp: call_up_def dev_view_def)
  define d1 where "d1 = put_data d BTCALL_BT_INPUT (b1\<lparr>bd_resampler := False, bd_pcm := Bt_null\<rparr>)"
  define d2 where "d2 = put_data (d1\<lparr>cd_dev := set_streams d1 g st\<rparr>) BTCALL_CODEC_OUTPUT (b4\<lparr>bd_resampler := False, bd_pcm := Bt_null, bd_bt_out := None\<rparr>)"
  define d3 where "d3 = put_data (d2\<lparr>cd_dev := set_hdls (cd_dev d2) g'\<rparr>) BTCALL_CODEC_INPUT (b3\<lparr>bd_resampler := False, bd_pcm := Bt_null, bd_in := None\<rparr>)"
  define d4 where "d4 = put_data d3 BTCALL_BT_OUTPUT (b2\<lparr>bd_resampler := False, bd_pcm := Bt_null\<rparr>)"
  have s1: "close_direction BTCALL_BT_INPUT (\<lambda>d. Inr (close_bt_inpcm d)) d = Inr d1"
    using b(1,2) by (simp add: close_direction_def get_data_def close_bt_inpcm_def pcm_closed_bt_def d1_def)
  have s2: "close_direction BTCALL_CODEC_OUTPUT (close_codec_outpcm env) d1 = Inr d2"
    using b(13-17) assms(5) by (simp add: close_direction_def get_data_def close_codec_outpcm_def d1_def d2_def set_streams_def put_data_def Let_def)
  have m2: "cd_data d2 BTCALL_CODEC_INPUT = Some b3" "call_hdls d2 = g" using b(9) by (simp_all add: d2_def d1_def set_streams_def)
  have s3: "close_mic d2 = Inr d3"
    using b(10,11) assms(6) m2 by (simp add: close_mic_def close_codec_inpcm_def get_data_def d3_def put_data_def Let_def)
  have s4: "close_direction BTCALL_BT_OUTPUT (\<lambda>d. Inr (close_bt_outpcm d)) d3 = Inr d4"
    using b(5,6) by (simp add: close_direction_def get_data_def close_bt_outpcm_def pcm_closed_bt_def d4_def d3_def d2_def d1_def put_data_def)
  define d5 where "d5 = stop_phone_paths env d4"
  have d5: "cd_data d5 = cd_data d4" "cd_thread d5 = Some t" "cd_configs d5 = cd_configs d" "call_hdls d5 = g'" "call_bus d5 = st"
    using assms(2) by (simp_all add: d5_def stop_phone_paths_def d4_def d3_def d2_def d1_def set_streams_def set_hdls_def set_remote_def put_data_def Let_def)
  have dat: "cd_data d4 = (\<lambda>r. case r of BTCALL_BT_INPUT \<Rightarrow> Some (b1\<lparr>bd_resampler := False, bd_pcm := Bt_null\<rparr>)
      | BTCALL_BT_OUTPUT \<Rightarrow> Some (b2\<lparr>bd_resampler := False, bd_pcm := Bt_null\<rparr>)
      | BTCALL_CODEC_INPUT \<Rightarrow> Some (b3\<lparr>bd_resampler := False, bd_pcm := Bt_null, bd_in := None\<rparr>)
      | BTCALL_CODEC_OUTPUT \<Rightarrow> Some (b4\<lparr>bd_resampler := False, bd_pcm := Bt_null, bd_bt_out := None\<rparr>))"
    by (rule ext) (simp add: d4_def d3_def d2_def d1_def put_data_def split: btcall_rt.split)
  have "\<forall>r\<in>set directions. cd_data (put_thread d5 (free_buffers t)) r \<noteq> None" using d5(1) dat by (simp add: directions_def)
  from free_data_done [OF this] obtain d6 where d6: "free_data directions (put_thread d5 (free_buffers t)) = Inr d6"
    "\<forall>r. cd_data d6 r = map_option strip (cd_data d4 r)" "cd_thread d6 = Some (free_buffers t)" "cd_dev d6 = cd_dev d5" "cd_configs d6 = cd_configs d5"
    using d5(1) all_directions by auto
  have "btcall_close env d = Inr d6" using s1 s2 s3 s4 d6(1) d5(2) by (simp add: btcall_close_def get_thread_def Let_def flip: d5_def)
  moreover have "call_idle d6"
  proof -
    have "\<exists>b. cd_data d6 r = Some b \<and> data_idle b" for r
      using d6(2) dat b by (cases r) (simp_all add: data_idle_def strip_def)
    moreover have "erase (free_buffers t) = free_buffers t" using assms(3,4) by (simp add: erase_def free_buffers_def)
    ultimately show ?thesis using d6(3) by (auto simp: call_idle_def)
  qed
  ultimately show ?thesis using d5(3-5) d6(4,5) by auto
qed

section \<open>Opening a call\<close>

lemma open_ecnr_keeps [simp]:
  "cd_data (open_ecnr env d) = cd_data d" "cd_dev (open_ecnr env d) = cd_dev d" "cd_thread (open_ecnr env d) = cd_thread d" "cd_configs (open_ecnr env d) = cd_configs d"
  by (simp_all add: open_ecnr_def split: prod.split)

lemma open_direction_done:
  assumes "open_direction r opn d = Inr (d', 0)" and "cd_data d r = Some b" and "bd_pcm b = Bt_null"
  shows "opn d = Inr (d', 0)"
  using assms by (auto simp: open_direction_def get_data_def and_then_def EINVAL_def split: sum.splits if_splits)

lemma changed_other: "changed r P d d' \<Longrightarrow> r' \<noteq> r \<Longrightarrow> cd_data d' r' = cd_data d r'"
  by (auto simp: changed_def)

lemma changed_this: "changed r P d d' \<Longrightarrow> \<exists>b. cd_data d' r = Some b \<and> P b"
  by (auto simp: changed_def)

lemma btcall_open_done:
  assumes "btcall_open env d = Inr (d', 0)" and "call_idle d" and "\<not> ahub_en d" and "ce_null_ready env \<noteq> Inr True"
  obtains a out g st out1 cmds i g' j t where "od_bt_out (hd_out (cd_dev d)) = Some (Some a)" "ce_stream env a = Some out"
    "hal_streamer_open_out (ce_bits env) (ce_rbuf env) (ce_attempt env BTCALL_CODEC_OUTPUT) (ce_prepare env) (ce_created env) (ce_dsp env) (call_hdls d) (call_bus d)
       (phone_stream out) (bt_card d) PORT_CODEC (pcm_config.truncate (cd_configs d Pcm_main_config)) = Inr (g, st, out1, cmds, Some i)"
    "hal_streamer_open_in (ce_rbuf env) (ce_attempt env BTCALL_CODEC_INPUT) (ce_prepare env) (ce_created env) g bt_mic (bt_card d) PORT_CODEC_IN default_input_config =
       Inr (g', Some j)"
    "call_up d' (out1\<lparr>so_pcm_hdl := Some i\<rparr>) i j" "call_hdls d' = g'" "call_bus d' = st" "cd_thread d' = Some t" "bt_buffer_rx t \<noteq> None" "bt_buffer_tx t \<noteq> None"
proof -
  define d0 where "d0 = open_ecnr env d"
  have idle: "\<exists>b. cd_data d0 r = Some b \<and> data_idle b" for r using assms(2) by (simp add: call_idle_def d0_def)
  obtain b1 b2 b3 b4 where b: "cd_data d0 BTCALL_BT_INPUT = Some b1" "data_idle b1" "cd_data d0 BTCALL_CODEC_OUTPUT = Some b2" "data_idle b2"
    "cd_data d0 BTCALL_CODEC_INPUT = Some b3" "data_idle b3" "cd_data d0 BTCALL_BT_OUTPUT = Some b4" "data_idle b4" using idle by metis
  obtain d1 d2 d3 d4 where s: "open_direction BTCALL_BT_INPUT (open_bt_inpcm env) d0 = Inr (d1, 0)" "open_direction BTCALL_CODEC_OUTPUT (open_codec_outpcm env) d1 = Inr (d2, 0)"
    "open_direction BTCALL_CODEC_INPUT (open_codec_inpcm env) d2 = Inr (d3, 0)" "open_direction BTCALL_BT_OUTPUT (open_bt_outpcm env) d3 = Inr (d4, 0)"
    "open_buffers env d4 = Inr (d', 0)"
    using assms(1) by (auto simp: btcall_open_def open_devices_def if_ok_done simp flip: d0_def)
  have idle_parts: "data_idle x \<Longrightarrow> bd_pcm x = Bt_null \<and> bd_in x = None \<and> bd_bt_out x = None" for x by (simp add: data_idle_def)
  note c1 = open_bt_in_done [OF open_direction_done [OF s(1) b(1)] assms(4) b(1)]
  have c1: "changed BTCALL_BT_INPUT (\<lambda>b'. bd_pcm b' \<noteq> Bt_null \<and> bd_in b' = None \<and> bd_bt_out b' = None) d0 d1" "cd_dev d1 = cd_dev d"
    using c1 idle_parts [OF b(2)] by (simp_all add: d0_def)
  have b2: "cd_data d1 BTCALL_CODEC_OUTPUT = Some b2" using changed_other [OF c1(1)] b(3) by simp
  have cfg: "cd_configs d1 Pcm_main_config = cd_configs d Pcm_main_config" "\<not> ahub_en d1" "bt_card d1 = bt_card d"
    using c1 assms(3) by (auto simp: changed_def d0_def ahub_en_def bt_card_def bt_platform_def)
  obtain a out g st out1 cmds i where o: "od_bt_out (hd_out (cd_dev d)) = Some (Some a)" "ce_stream env a = Some out"
    "hal_streamer_open_out (ce_bits env) (ce_rbuf env) (ce_attempt env BTCALL_CODEC_OUTPUT) (ce_prepare env) (ce_created env) (ce_dsp env) (call_hdls d) (call_bus d)
       (phone_stream out) (bt_card d) PORT_CODEC (pcm_config.truncate (cd_configs d Pcm_main_config)) = Inr (g, st, out1, cmds, Some i)"
    "cd_dev d2 = set_streams d g st"
    "changed BTCALL_CODEC_OUTPUT (\<lambda>b'. bd_pcm b' = Bt_streamer i \<and> bd_bt_out b' = Some (out1\<lparr>so_pcm_hdl := Some i\<rparr>) \<and> bd_in b' = None) d1 d2"
    by (rule open_codec_out_done [OF open_direction_done [OF s(2) b2] cfg(2) b2]) (use idle_parts [OF b(4)] c1(2) cfg in \<open>simp_all add: set_streams_def\<close>)
  have b3: "cd_data d2 BTCALL_CODEC_INPUT = Some b3" using changed_other [OF o(5)] changed_other [OF c1(1)] b(5) by simp
  have h2: "call_hdls d2 = g" "bt_card d2 = bt_card d" using o(4) by (simp_all add: set_streams_def bt_card_def bt_platform_def)
  obtain g' j where p: "hal_streamer_open_in (ce_rbuf env) (ce_attempt env BTCALL_CODEC_INPUT) (ce_prepare env) (ce_created env) g bt_mic (bt_card d) PORT_CODEC_IN
      default_input_config = Inr (g', Some j)" "cd_dev d3 = set_hdls (cd_dev d2) g'"
    "changed BTCALL_CODEC_INPUT (\<lambda>b'. bd_pcm b' = Bt_null \<and> bd_in b' = Some (bt_mic\<lparr>si_pcm_hdl := Some j\<rparr>) \<and> bd_bt_out b' = None) d2 d3"
    by (rule open_codec_in_done [OF open_direction_done [OF s(3) b3] b3]) (use idle_parts [OF b(6)] h2 in simp_all)
  have b4: "cd_data d3 BTCALL_BT_OUTPUT = Some b4" using changed_other [OF p(3)] changed_other [OF o(5)] changed_other [OF c1(1)] b(7) by simp
  have c4: "changed BTCALL_BT_OUTPUT (\<lambda>b'. bd_pcm b' \<noteq> Bt_null \<and> bd_in b' = None \<and> bd_bt_out b' = None) d3 d4" "cd_dev d4 = cd_dev d3"
    using open_bt_out_done [OF open_direction_done [OF s(4) b4] assms(4) b4] idle_parts [OF b(8)] by simp_all
  have "call_up d4 (out1\<lparr>so_pcm_hdl := Some i\<rparr>) i j"
    using changed_this [OF c1(1)] changed_this [OF o(5)] changed_this [OF p(3)] changed_this [OF c4(1)]
      changed_other [OF o(5), of BTCALL_BT_INPUT] changed_other [OF p(3), of BTCALL_BT_INPUT] changed_other [OF p(3), of BTCALL_CODEC_OUTPUT]
      changed_other [OF c4(1), of BTCALL_BT_INPUT] changed_other [OF c4(1), of BTCALL_CODEC_OUTPUT] changed_other [OF c4(1), of BTCALL_CODEC_INPUT]
    by (auto simp: call_up_def dev_view_def)
  then have up: "call_up d' (out1\<lparr>so_pcm_hdl := Some i\<rparr>) i j" using call_up_same [OF open_buffers_done(1) [OF s(5)]] by simp
  have dev: "cd_dev d' = set_hdls (set_streams d g st) g'" using open_buffers_done(1) [OF s(5)] c4(2) p(2) o(4) by (simp add: same_calls_def)
  obtain t where "cd_thread d' = Some t" "bt_buffer_rx t \<noteq> None" "bt_buffer_tx t \<noteq> None" using open_buffers_done(2) [OF s(5)] by blast
  then show thesis using that o(1-3) p(1) up dev by (simp add: set_streams_def set_hdls_def)
qed

section \<open>The mode\<close>

text \<open>Opening and closing leave the mode and the flag of the call alone.\<close>

definition keeps_mode :: "call_dev \<Rightarrow> call_dev \<Rightarrow> bool" where
  "keeps_mode d d' \<longleftrightarrow> hd_mode (cd_dev d') = hd_mode (cd_dev d) \<and> cd_in_call d' = cd_in_call d"

lemma keeps_refl [simp]: "keeps_mode d d"
  by (simp add: keeps_mode_def)

lemma keeps_trans: "keeps_mode d d1 \<Longrightarrow> keeps_mode d1 d2 \<Longrightarrow> keeps_mode d d2"
  by (simp add: keeps_mode_def)

lemma keeps_put [simp]:
  "keeps_mode d (put_data d1 r b) = keeps_mode d d1" "keeps_mode d (put_thread d1 t) = keeps_mode d d1" "keeps_mode (put_data d r b) d1 = keeps_mode d d1"
  "keeps_mode d (d1\<lparr>cd_dev := set_hdls (cd_dev d1) g\<rparr>) = keeps_mode d d1" "keeps_mode d (open_ecnr env d1) = keeps_mode d d1"
  "keeps_mode d (stop_phone_paths env d1) = keeps_mode d d1" "keeps_mode d (close_ecnr d1) = keeps_mode d d1"
  by (simp_all add: keeps_mode_def put_data_def put_thread_def set_hdls_def open_ecnr_def stop_phone_paths_def close_ecnr_def set_remote_def Let_def split: prod.split)

lemma card_info_mode: "with_card_info d b ref addr = (d', b') \<Longrightarrow> keeps_mode d d'"
  by (auto simp: with_card_info_def keeps_mode_def split: option.splits)

lemma resampler_mode: "btcall_create_resampler env d r = Inr (d', ret) \<Longrightarrow> keeps_mode d d'"
  by (auto simp: btcall_create_resampler_def and_then_def split: sum.splits if_splits)

lemma open_bt_mode:
  "open_bt_inpcm env d = Inr (d', ret) \<Longrightarrow> keeps_mode d d'" "open_bt_outpcm env d = Inr (d', ret) \<Longrightarrow> keeps_mode d d'"
  by (auto simp: open_bt_inpcm_def open_bt_outpcm_def and_then_def Let_def dest!: card_info_mode resampler_mode intro: keeps_trans
      split: sum.splits if_splits prod.splits)

lemma open_codec_mode:
  "open_codec_outpcm env d = Inr (d', ret) \<Longrightarrow> keeps_mode d d'" "open_codec_inpcm env d = Inr (d', ret) \<Longrightarrow> keeps_mode d d'"
proof -
  have c: "keeps_mode d (fst (codec_out_config d))" for d by (simp add: codec_out_config_def keeps_mode_def)
  have o: "codec_out_streamer env d b out = Inr (d', ret) \<Longrightarrow> keeps_mode d d'" "codec_out_device env d b out = (d', ret) \<Longrightarrow> keeps_mode d d'" for d b out
    by (auto simp: codec_out_streamer_def codec_out_device_def and_then_def keeps_mode_def put_data_def Let_def dest!: card_info_mode split: sum.splits option.splits prod.splits)
  have m: "open_bt_mic env d b = Inr (d', b', ok) \<Longrightarrow> keeps_mode d d'" for d b d' b' ok
    by (auto simp: open_bt_mic_def and_then_def split: sum.splits if_splits prod.splits)
  show "open_codec_outpcm env d = Inr (d', ret) \<Longrightarrow> keeps_mode d d'"
    using c [of d] by (auto simp: open_codec_outpcm_def and_then_def Let_def dest!: o intro: keeps_trans split: sum.splits if_splits prod.splits option.splits)
  show "open_codec_inpcm env d = Inr (d', ret) \<Longrightarrow> keeps_mode d d'"
    by (auto simp: open_codec_inpcm_def and_then_def Let_def dest!: m resampler_mode intro: keeps_trans split: sum.splits if_splits prod.splits)
qed

lemma if_ok_mode:
  assumes "if_ok r f = Inr (d', ret)" and "\<And>d ret. r = Inr (d, ret) \<Longrightarrow> keeps_mode d0 d" and "\<And>d d' ret. f d = Inr (d', ret) \<Longrightarrow> keeps_mode d d'"
  shows "keeps_mode d0 d'"
  using assms by (auto simp: if_ok_def and_then_def split: sum.splits if_splits prod.splits intro: keeps_trans)

lemma open_direction_mode:
  assumes "open_direction r opn d = Inr (d', ret)" and "\<And>d' ret. opn d = Inr (d', ret) \<Longrightarrow> keeps_mode d d'"
  shows "keeps_mode d d'"
  using assms by (auto simp: open_direction_def and_then_def split: sum.splits if_splits prod.splits)

lemma open_devices_mode: "open_devices env d = Inr (d', ret) \<Longrightarrow> keeps_mode d d'"
  unfolding open_devices_def
  by (erule if_ok_mode, erule open_direction_mode, erule open_bt_mode, erule if_ok_mode, erule open_direction_mode, erule open_codec_mode,
      erule if_ok_mode, erule open_direction_mode, erule open_codec_mode, erule open_direction_mode, erule open_bt_mode)

lemma buffer_modes:
  "open_buffer_rx env d = Inr (d', ret) \<Longrightarrow> keeps_mode d d'" "open_buffer_tx env d = Inr (d', ret) \<Longrightarrow> keeps_mode d d'"
  "open_rsp_tx env d = Inr (d', ret) \<Longrightarrow> keeps_mode d d'" "open_rsp_rx env d = Inr (d', ret) \<Longrightarrow> keeps_mode d d'" "open_buffer env r d = Inr (d', ret) \<Longrightarrow> keeps_mode d d'"
  by (auto simp: open_buffer_rx_def open_buffer_tx_def open_rsp_tx_def open_rsp_rx_def open_buffer_def and_then_def Let_def split: sum.splits if_splits)

lemma foldl_mode:
  assumes "foldl if_ok r fs = Inr (d', ret)" and "\<And>d ret. r = Inr (d, ret) \<Longrightarrow> keeps_mode d0 d" and "\<And>f d d' ret. f \<in> set fs \<Longrightarrow> f d = Inr (d', ret) \<Longrightarrow> keeps_mode d d'"
  shows "keeps_mode d0 d'"
  using assms
proof (induction fs arbitrary: r)
  case (Cons f fs)
  have head: "keeps_mode d0 d" if "if_ok r f = Inr (d, ret)" for d ret
    by (rule if_ok_mode [OF that Cons.prems(2) Cons.prems(3) [of f]]) simp_all
  have run: "foldl if_ok (if_ok r f) fs = Inr (d', ret)" using Cons.prems(1) by simp
  have tail: "keeps_mode d d'" if "f \<in> set fs" "f d = Inr (d', ret)" for f d d' ret using that Cons.prems(3) [of f d d' ret] by simp
  show ?case by (rule Cons.IH [OF run]) (erule head, erule tail, assumption)
qed auto

lemma btcall_open_mode: "btcall_open env d = Inr (d', ret) \<Longrightarrow> keeps_mode d d'"
proof -
  assume o: "btcall_open env d = Inr (d', ret)"
  have b: "keeps_mode d1 d2" if "open_buffers env d1 = Inr (d2, ret)" for d1 d2 ret
    using that unfolding open_buffers_def by (rule foldl_mode) (auto dest: buffer_modes)
  have e: "keeps_mode d (open_ecnr env d)" by simp
  show ?thesis using o unfolding btcall_open_def
    by (rule if_ok_mode) (use keeps_trans [OF e] in \<open>auto dest!: open_devices_mode b\<close>)
qed

lemma free_data_mode: "free_data rs d = Inr d' \<Longrightarrow> keeps_mode d d'"
  by (induction rs arbitrary: d) (fastforce simp: and_then_def split: sum.splits)+

lemma btcall_close_mode: "btcall_close env d = Inr d' \<Longrightarrow> keeps_mode d d'"
proof -
  have c1: "close_direction r cls d = Inr d' \<Longrightarrow> (\<And>d'. cls d = Inr d' \<Longrightarrow> keeps_mode d d') \<Longrightarrow> keeps_mode d d'" for r cls d d'
    by (auto simp: close_direction_def and_then_def split: sum.splits if_splits)
  have c2: "close_codec_outpcm env d = Inr d' \<Longrightarrow> keeps_mode d d'" for d d'
    by (auto simp: close_codec_outpcm_def and_then_def Let_def keeps_mode_def put_data_def split: option.splits sum.splits if_splits prod.splits)
  have c3: "keeps_mode d (pcm_closed_bt d r)" for d r by (simp add: pcm_closed_bt_def split: option.split)
  have c4: "close_mic d = Inr d' \<Longrightarrow> keeps_mode d d'" for d d'
    by (auto simp: close_mic_def close_codec_inpcm_def and_then_def Let_def split: option.splits sum.splits if_splits prod.splits)
  assume o: "btcall_close env d = Inr d'"
  then obtain d1 d2 d3 d4 t where s: "close_direction BTCALL_BT_INPUT (\<lambda>d. Inr (close_bt_inpcm d)) d = Inr d1"
    "close_direction BTCALL_CODEC_OUTPUT (close_codec_outpcm env) d1 = Inr d2" "close_mic d2 = Inr d3"
    "close_direction BTCALL_BT_OUTPUT (\<lambda>d. Inr (close_bt_outpcm d)) d3 = Inr d4" "free_data directions (put_thread (stop_phone_paths env d4) t) = Inr d'"
    by (auto simp: btcall_close_def and_then_def Let_def split: sum.splits)
  have "keeps_mode d d1" "keeps_mode d1 d2" "keeps_mode d2 d3" "keeps_mode d3 d4" "keeps_mode d4 d'"
    using c1 [OF s(1)] c1 [OF s(2) c2] c4 [OF s(3)] c1 [OF s(4)] free_data_mode [OF s(5)] c3
    by (auto simp: close_bt_inpcm_def close_bt_outpcm_def keeps_mode_def put_thread_def stop_phone_paths_def set_remote_def Let_def)
  then show ?thesis by (meson keeps_trans)
qed

lemma set_btcall_status_mode: "set_btcall_status env restarted d = Inr d' \<Longrightarrow> keeps_mode d d'"
  by (auto simp: set_btcall_status_def and_then_def Let_def keeps_mode_def put_thread_def close_ecnr_def
      dest!: btcall_open_mode btcall_close_mode split: if_splits sum.splits prod.splits)

lemma in_standby_mode: "do_in_standby env d inp = Inr (d', inp', ret) \<Longrightarrow> hd_mode d' = hd_mode d"
  by (auto simp: do_in_standby_def close_input_def and_then_def stop_main_mic_def set_hdls_def set_remote_def Let_def
      split: if_splits sum.splits prod.splits option.splits)

section \<open>The far end as a source of periods\<close>

text \<open>
  A direction that reads from a device, with periods of \<open>P\<close> frames of \<open>fs\<close> bytes, no canceller, and a driver whose read number \<open>k\<close> fills the period with \<open>src k\<close>.
\<close>

definition far_good :: "call_env \<Rightarrow> btcall_rt \<Rightarrow> nat \<Rightarrow> nat \<Rightarrow> (nat \<Rightarrow> byte list) \<Rightarrow> call_dev \<Rightarrow> bool" where
  "far_good env r fs P src d \<longleftrightarrow>
     (\<forall>k. length (src k) = P * fs \<and> ce_pcm_read env k = 0 \<and> (\<forall>buf. P * fs \<le> length buf \<longrightarrow> ce_driver env k buf (int (P * fs)) = blit buf 0 (src k))) \<and>
     0 < P \<and> 0 < fs \<and> P * fs < 2147483648 \<and> cd_ecnr_hdl d = None \<and>
     (\<exists>b c buf. cd_data d r = Some b \<and> bt_config d b = Inr c \<and> pc_period_size c = int P \<and> pc_channels c * 2 = int fs \<and>
        ce_frame_size env (pc_channels c) (pc_format c) = int fs \<and>
        bd_pcm b \<noteq> Bt_null \<and> bd_read_status b = 0 \<and> bd_buffer b = Some buf \<and> P * fs \<le> length buf \<and> 0 \<le> bd_frames_in b \<and> bd_frames_in b \<le> int P)"

definition far_frames :: "btcall_rt \<Rightarrow> call_dev \<Rightarrow> nat" where
  "far_frames r d = (case cd_data d r of None \<Rightarrow> 0 | Some b \<Rightarrow> nat (bd_frames_in b))"

definition far_bytes :: "btcall_rt \<Rightarrow> call_dev \<Rightarrow> byte list" where
  "far_bytes r d = (case cd_data d r of None \<Rightarrow> [] | Some b \<Rightarrow> (case bd_buffer b of None \<Rightarrow> [] | Some buf \<Rightarrow> buf))"

lemma far_fetch:
  assumes "far_good env r fs P src d" and "far_frames r d = 0"
  shows "\<exists>d'. far_good env r fs P src d' \<and> far_frames r d' = P \<and> cd_reads d' = Suc (cd_reads d) \<and> take (P * fs) (far_bytes r d') = src (cd_reads d) \<and>
    (\<forall>n>0. bt_get_next_buffer env r d n = bt_get_next_buffer env r d' n)"
proof -
  obtain b c buf where b: "cd_data d r = Some b" "bt_config d b = Inr c" "pc_period_size c = int P" "pc_channels c * 2 = int fs"
    "ce_frame_size env (pc_channels c) (pc_format c) = int fs" "bd_pcm b \<noteq> Bt_null" "bd_read_status b = 0" "bd_buffer b = Some buf" "P * fs \<le> length buf"
    "0 \<le> bd_frames_in b" using assms(1) by (auto simp: far_good_def)
  have e: "cd_ecnr_hdl d = None" "0 < P" "0 < fs" "P * fs < 2147483648" and src: "\<forall>k. length (src k) = P * fs \<and> ce_pcm_read env k = 0 \<and>
      (\<forall>buf. P * fs \<le> length buf \<longrightarrow> ce_driver env k buf (int (P * fs)) = blit buf 0 (src k))" using assms(1) by (simp_all add: far_good_def)
  have z: "bd_frames_in b = 0" using assms(2) b(1,10) by (simp add: far_frames_def)
  have sz: "s32 (int P * int fs) = int (P * fs)" using e(4) by (simp add: s32_id flip: of_nat_mult)
  let ?buf = "blit buf 0 (src (cd_reads d))"
  define b1 where "b1 = b\<lparr>bd_buffer := Some ?buf, bd_read_status := 0, bd_frames_in := int P\<rparr>"
  define d1 where "d1 = put_data (d\<lparr>cd_reads := Suc (cd_reads d)\<rparr>) r b1"
  have dr: "ce_driver env (cd_reads d) buf (int (P * fs)) = ?buf" using src b(9) by blast
  have fill: "bt_fill env r d b = Inr (d1, b1, True)"
    using b e src sz dr by (simp add: bt_fill_def bt_read_pcm_def recv_ecnr_def d1_def b1_def Let_def)
  have c1: "bt_config d1 b1 = Inr c" using b(2) by (simp add: d1_def b1_def bt_config_def put_data_def split: option.splits)
  have g1: "cd_data d1 r = Some b1" "bd_frames_in b1 = int P" "cd_ecnr_hdl d1 = None" "cd_reads d1 = Suc (cd_reads d)" using e(1) by (simp_all add: d1_def b1_def put_data_def)
  have "bt_get_next_buffer env r d n = bt_get_next_buffer env r d1 n" for n
    using b(1,2) z fill g1(1,2) c1 e(2) by (simp add: bt_get_next_buffer_def get_data_def)
  moreover have "far_good env r fs P src d1"
    using assms(1) b g1 c1 e src unfolding far_good_def by (intro conjI exI [of _ b1] exI [of _ c] exI [of _ ?buf]) (auto simp: b1_def)
  moreover have "take (P * fs) (far_bytes r d1) = src (cd_reads d)" using g1(1) src by (simp add: far_bytes_def b1_def blit_def)
  moreover have "far_frames r d1 = P" using g1(1,2) by (simp add: far_frames_def)
  ultimately show ?thesis using g1(4) by blast
qed

interpretation far: period_source "bt_get_next_buffer env r" "bt_release_buffer r" "bt_status r" fs P "far_good env r fs P src" "far_frames r" "far_bytes r" cd_reads src
  for env r fs P src
proof (unfold_locales, goal_cases)
  case (1 s)
  then show ?case by (auto simp: far_good_def far_frames_def far_bytes_def bt_status_def)
next
  case (2 s n)
  then obtain b c buf where b: "cd_data s r = Some b" "bt_config s b = Inr c" "pc_period_size c = int P" "pc_channels c * 2 = int fs" "bd_buffer b = Some buf"
    "0 \<le> bd_frames_in b" "bd_frames_in b \<le> int P" by (auto simp: far_good_def)
  obtain F where F: "bd_frames_in b = int F" "F \<le> P" "0 < F" using b 2(2) by (metis far_frames_def int_nat_eq nat_le_iff option.simps(5))
  have "(int P - int F) * pc_channels c * 2 = int ((P - F) * fs)" using b(4) F(2) by (simp add: of_nat_diff mult.assoc)
  then have "nat ((int P - int F) * pc_channels c * 2) = (P - F) * fs" by (simp only: nat_int)
  then show ?case using b F by (simp add: bt_get_next_buffer_def get_data_def far_frames_def far_bytes_def min_def)
next
  case (3 s)
  then show ?case by (rule far_fetch)
next
  case (4 s k)
  then obtain b c buf where b: "cd_data s r = Some b" "bt_config s b = Inr c" "bd_buffer b = Some buf" "0 \<le> bd_frames_in b" "bd_frames_in b \<le> int P" "P * fs < 2147483648" "0 < fs"
    by (auto simp: far_good_def)
  have "P \<le> P * fs" using b(7) by simp
  then have "int P < 2147483648" using b(6) by linarith
  moreover have le: "int k \<le> bd_frames_in b" using b(1,4) 4(2) by (simp add: far_frames_def le_nat_iff)
  ultimately have u: "u64 (bd_frames_in b - int k) = bd_frames_in b - int k" "int k \<le> bd_frames_in b" using b(5) by (simp_all add: u64_def)
  let ?b = "b\<lparr>bd_frames_in := bd_frames_in b - int k\<rparr>"
  have rel: "bt_release_buffer r s (int k) = put_data s r ?b" using b(1) u(1) by (simp add: bt_release_buffer_def)
  have "bt_config (put_data s r ?b) ?b = bt_config s b" by (simp add: bt_config_def split: option.split)
  then have "far_good env r fs P src (put_data s r ?b)"
    using 4(1) b(1) u(2) unfolding far_good_def by (auto simp: put_data_def)
  moreover have "cd_reads (put_data s r ?b) = cd_reads s" by (simp add: put_data_def)
  ultimately show ?case using b(1) rel u(2) by (simp add: far_frames_def far_bytes_def nat_diff_distrib)
qed

end
