(* ===== verification/Call_Threads.thy ===== *)
theory Call_Threads
  imports Bt_Call
begin

text \<open>
  The two threads of a call and the caller that enters and leaves it, as steps that interleave.  A thread's step is one turn of its loop up to where it takes or
  gives up its lock; the flags are those of \<open>btcall_thread_data\<close>.  \<open>c_devices\<close> is whether the devices of the call exist: without them the pointer \<open>in\<close> that
  the microphone's thread dereferences first is NULL; the other thread finds no buffer and keeps its lock, or dereferences \<open>bt_out\<close>, which is NULL too.  Opening
  the devices is one step that succeeds here; what happens when it fails is \<open>set_btcall_status\<close> of \<open>Bt_Call\<close>.
\<close>

section \<open>Threads\<close>

text \<open>At the top of the loop; in \<open>pthread_cond_wait\<close>; about to return from it; past the flags, working outside of the lock; ended.\<close>

datatype worker_pc = W_top | W_parked | W_woken | W_working | W_ended

record worker =
  w_start :: bool
  w_exit :: bool
  w_running :: bool
  w_pc :: worker_pc

text \<open>The flags are tested before the wait and only \<open>exit\<close> after it.\<close>

definition past_wait :: "worker \<Rightarrow> worker" where
  "past_wait w = (if w_exit w then w\<lparr>w_exit := True, w_start := False, w_pc := W_ended\<rparr> else w\<lparr>w_pc := W_working\<rparr>)"

definition worker_step :: "worker \<Rightarrow> worker option" where
  "worker_step w =
     (case w_pc w of
        W_top \<Rightarrow> Some (if \<not> w_start w \<and> \<not> w_exit w then w\<lparr>w_running := False, w_pc := W_parked\<rparr> else past_wait w)
      | W_parked \<Rightarrow> None
      | W_woken \<Rightarrow> Some (past_wait (w\<lparr>w_running := True\<rparr>))
      | W_working \<Rightarrow> Some (w\<lparr>w_pc := W_top\<rparr>)
      | W_ended \<Rightarrow> None)"

definition wake :: "worker \<Rightarrow> worker" where
  "wake w = (if w_pc w = W_parked then w\<lparr>w_pc := W_woken\<rparr> else w)"

definition start_worker :: "worker \<Rightarrow> worker" where
  "start_worker w = wake (w\<lparr>w_start := True, w_exit := False\<rparr>)"

definition stop_worker :: "worker \<Rightarrow> worker" where
  "stop_worker w = w\<lparr>w_start := False, w_exit := False\<rparr>"

section \<open>The caller\<close>

text \<open>The places of \<open>set_btcall_status\<close>; the argument of a poll is whether a call is being entered.\<close>

datatype manager_pc = M_ready | M_poll_tx bool | M_poll_rx bool | M_open | M_start_rx | M_start_tx | M_stop_rx | M_stop_tx | M_check | M_close

record calls =
  c_rx :: worker
  c_tx :: worker
  c_devices :: bool
  c_in_call :: bool
  c_pc :: manager_pc

definition after_polls :: "bool \<Rightarrow> manager_pc" where
  "after_polls entering = (if entering then M_open else M_check)"

definition manager_step :: "calls \<Rightarrow> calls option" where
  "manager_step s =
     (case c_pc s of
        M_ready \<Rightarrow> None
      | M_poll_tx e \<Rightarrow> Some (if w_running (c_tx s) then s else s\<lparr>c_pc := M_poll_rx e\<rparr>)
      | M_poll_rx e \<Rightarrow> Some (if w_running (c_rx s) then s\<lparr>c_pc := M_poll_tx e\<rparr> else s\<lparr>c_pc := after_polls e\<rparr>)
      | M_open \<Rightarrow> Some (s\<lparr>c_devices := True, c_pc := M_start_rx\<rparr>)
      | M_start_rx \<Rightarrow> Some (s\<lparr>c_rx := start_worker (c_rx s), c_pc := M_start_tx\<rparr>)
      | M_start_tx \<Rightarrow> Some (s\<lparr>c_tx := start_worker (c_tx s), c_pc := M_ready\<rparr>)
      | M_stop_rx \<Rightarrow> Some (s\<lparr>c_rx := stop_worker (c_rx s), c_pc := M_stop_tx\<rparr>)
      | M_stop_tx \<Rightarrow> Some (s\<lparr>c_tx := stop_worker (c_tx s), c_pc := M_poll_tx False\<rparr>)
      | M_check \<Rightarrow> Some (s\<lparr>c_pc := if w_start (c_rx s) \<or> w_start (c_tx s) then M_ready else M_close\<rparr>)
      | M_close \<Rightarrow> Some (s\<lparr>c_devices := False, c_pc := M_ready\<rparr>))"

text \<open>After 300 rounds the polls end whatever the flags are.\<close>

definition poll_timeout :: "calls \<Rightarrow> calls option" where
  "poll_timeout s = (case c_pc s of M_poll_tx e \<Rightarrow> Some (s\<lparr>c_pc := after_polls e\<rparr>) | M_poll_rx e \<Rightarrow> Some (s\<lparr>c_pc := after_polls e\<rparr>) | _ \<Rightarrow> None)"

text \<open>\<open>select_mode\<close>, which acts only on a change.\<close>

definition enter_call :: "calls \<Rightarrow> calls option" where
  "enter_call s = (if c_pc s = M_ready \<and> \<not> c_in_call s then Some (s\<lparr>c_in_call := True, c_pc := M_poll_tx True\<rparr>) else None)"

definition leave_call :: "calls \<Rightarrow> calls option" where
  "leave_call s = (if c_pc s = M_ready \<and> c_in_call s then Some (s\<lparr>c_in_call := False, c_pc := M_stop_rx\<rparr>) else None)"

section \<open>Runs\<close>

datatype call_event = Turn_rx | Turn_tx | Manage | Enter | Leave | Timeout | Spurious_rx | Spurious_tx

definition spurious :: "worker \<Rightarrow> worker option" where
  "spurious w = (if w_pc w = W_parked then Some (wake w) else None)"

definition call_exec :: "call_event \<Rightarrow> calls \<Rightarrow> calls option" where
  "call_exec e s =
     (case e of
        Turn_rx \<Rightarrow> map_option (\<lambda>w. s\<lparr>c_rx := w\<rparr>) (worker_step (c_rx s))
      | Turn_tx \<Rightarrow> map_option (\<lambda>w. s\<lparr>c_tx := w\<rparr>) (worker_step (c_tx s))
      | Manage \<Rightarrow> manager_step s
      | Enter \<Rightarrow> enter_call s
      | Leave \<Rightarrow> leave_call s
      | Timeout \<Rightarrow> poll_timeout s
      | Spurious_rx \<Rightarrow> map_option (\<lambda>w. s\<lparr>c_rx := w\<rparr>) (spurious (c_rx s))
      | Spurious_tx \<Rightarrow> map_option (\<lambda>w. s\<lparr>c_tx := w\<rparr>) (spurious (c_tx s)))"

text \<open>Both threads have just been created.\<close>

definition worker0 :: worker where
  "worker0 = \<lparr>w_start = False, w_exit = False, w_running = False, w_pc = W_top\<rparr>"

definition calls0 :: calls where
  "calls0 = \<lparr>c_rx = worker0, c_tx = worker0, c_devices = False, c_in_call = False, c_pc = M_ready\<rparr>"

fun call_run :: "(call_event \<Rightarrow> calls \<Rightarrow> bool) \<Rightarrow> call_event list \<Rightarrow> calls \<Rightarrow> calls option" where
  "call_run allowed [] s = Some s"
| "call_run allowed (e # es) s =
     (if \<not> allowed e s then None else case call_exec e s of None \<Rightarrow> None | Some s \<Rightarrow> call_run allowed es s)"

inductive reach :: "(call_event \<Rightarrow> calls \<Rightarrow> bool) \<Rightarrow> calls \<Rightarrow> bool" for allowed where
  reach_init: "reach allowed calls0"
| reach_step: "reach allowed s \<Longrightarrow> allowed e s \<Longrightarrow> call_exec e s = Some s' \<Longrightarrow> reach allowed s'"

lemma reach_run: "reach allowed s \<Longrightarrow> call_run allowed es s = Some s' \<Longrightarrow> reach allowed s'"
  by (induction es arbitrary: s) (auto split: if_splits option.splits intro: reach_step)

section \<open>Safety\<close>

text \<open>No thread works without devices.\<close>

definition call_safe :: "calls \<Rightarrow> bool" where
  "call_safe s \<longleftrightarrow> (w_pc (c_rx s) = W_working \<or> w_pc (c_tx s) = W_working \<longrightarrow> c_devices s)"

text \<open>
  Patience: a call is entered when both threads wait, left when both have announced that they run; the waits end only because of the flags and the
  condition variables wake only who was signalled.
\<close>

definition patient :: "call_event \<Rightarrow> calls \<Rightarrow> bool" where
  "patient e s \<longleftrightarrow>
     (case e of Enter \<Rightarrow> w_pc (c_rx s) = W_parked \<and> w_pc (c_tx s) = W_parked | Leave \<Rightarrow> w_running (c_rx s) \<and> w_running (c_tx s)
      | Timeout \<Rightarrow> False | Spurious_rx \<Rightarrow> False | Spurious_tx \<Rightarrow> False | _ \<Rightarrow> True)"

definition parked :: "worker \<Rightarrow> bool" where
  "parked w \<longleftrightarrow> w_pc w = W_parked \<and> \<not> w_start w \<and> \<not> w_exit w \<and> \<not> w_running w"

definition quiet :: "worker \<Rightarrow> bool" where
  "quiet w \<longleftrightarrow> parked w \<or> w_pc w = W_top \<and> \<not> w_start w \<and> \<not> w_exit w \<and> \<not> w_running w"

definition announced :: "worker \<Rightarrow> bool" where
  "announced w \<longleftrightarrow> w_running w \<and> \<not> w_exit w \<and> (w_pc w = W_top \<or> w_pc w = W_working)"

definition live :: "worker \<Rightarrow> bool" where
  "live w \<longleftrightarrow> w_start w \<and> (announced w \<or> w_pc w = W_woken \<and> \<not> w_running w \<and> \<not> w_exit w)"

definition stopping :: "worker \<Rightarrow> bool" where
  "stopping w \<longleftrightarrow> parked w \<or> announced w \<and> \<not> w_start w"

text \<open>Where the threads are at each place of the caller.\<close>

definition call_inv :: "calls \<Rightarrow> bool" where
  "call_inv s \<longleftrightarrow>
     (case c_pc s of
        M_ready \<Rightarrow> if c_in_call s then c_devices s \<and> live (c_rx s) \<and> live (c_tx s) else quiet (c_rx s) \<and> quiet (c_tx s)
      | M_poll_tx e \<Rightarrow> if e then c_in_call s \<and> parked (c_rx s) \<and> parked (c_tx s) else \<not> c_in_call s \<and> c_devices s \<and> stopping (c_rx s) \<and> stopping (c_tx s)
      | M_poll_rx e \<Rightarrow> if e then c_in_call s \<and> parked (c_rx s) \<and> parked (c_tx s) else \<not> c_in_call s \<and> c_devices s \<and> stopping (c_rx s) \<and> parked (c_tx s)
      | M_open \<Rightarrow> c_in_call s \<and> parked (c_rx s) \<and> parked (c_tx s)
      | M_start_rx \<Rightarrow> c_in_call s \<and> c_devices s \<and> parked (c_rx s) \<and> parked (c_tx s)
      | M_start_tx \<Rightarrow> c_in_call s \<and> c_devices s \<and> live (c_rx s) \<and> parked (c_tx s)
      | M_stop_rx \<Rightarrow> \<not> c_in_call s \<and> c_devices s \<and> announced (c_rx s) \<and> announced (c_tx s) \<and> w_start (c_rx s) \<and> w_start (c_tx s)
      | M_stop_tx \<Rightarrow> \<not> c_in_call s \<and> c_devices s \<and> stopping (c_rx s) \<and> announced (c_tx s) \<and> w_start (c_tx s)
      | M_check \<Rightarrow> \<not> c_in_call s \<and> parked (c_rx s) \<and> parked (c_tx s)
      | M_close \<Rightarrow> \<not> c_in_call s \<and> parked (c_rx s) \<and> parked (c_tx s))"

lemma worker_step_keeps:
  assumes "worker_step w = Some w'"
  shows "\<not> parked w" "quiet w \<Longrightarrow> quiet w'" "live w \<Longrightarrow> live w'" "stopping w \<Longrightarrow> stopping w'" "announced w \<Longrightarrow> w_start w \<Longrightarrow> announced w' \<and> w_start w'"
  using assms by (auto simp: worker_step_def past_wait_def parked_def quiet_def live_def stopping_def announced_def split: worker_pc.splits if_splits)

lemma worker_phases:
  "parked w \<Longrightarrow> live (start_worker w)" "announced w \<Longrightarrow> stopping (stop_worker w)" "stopping w \<Longrightarrow> \<not> w_running w \<Longrightarrow> parked w"
  "quiet w \<Longrightarrow> w_pc w = W_parked \<Longrightarrow> parked w" "live w \<Longrightarrow> w_running w \<Longrightarrow> announced w \<and> w_start w" "parked w \<Longrightarrow> quiet w"
  "parked w \<Longrightarrow> \<not> w_start w \<and> \<not> w_running w" "parked w \<Longrightarrow> stopping w"
  by (auto simp: parked_def live_def stopping_def announced_def quiet_def start_worker_def stop_worker_def wake_def)

lemma turn_keeps_inv:
  assumes "call_inv s"
  shows "worker_step (c_rx s) = Some w \<Longrightarrow> call_inv (s\<lparr>c_rx := w\<rparr>)" "worker_step (c_tx s) = Some w \<Longrightarrow> call_inv (s\<lparr>c_tx := w\<rparr>)"
  using assms worker_step_keeps [of "c_rx s" w] worker_step_keeps [of "c_tx s" w]
  by (cases "c_pc s"; auto simp: call_inv_def split: if_splits)+

lemma manager_keeps_inv: "call_inv s \<Longrightarrow> manager_step s = Some s' \<Longrightarrow> call_inv s'"
  by (cases "c_pc s") (auto simp: call_inv_def manager_step_def after_polls_def worker_phases(1,2,6,8) intro: worker_phases(3) dest: worker_phases(7) split: if_splits)

lemma switch_keeps_inv:
  "call_inv s \<Longrightarrow> patient Enter s \<Longrightarrow> enter_call s = Some s' \<Longrightarrow> call_inv s'"
  "call_inv s \<Longrightarrow> patient Leave s \<Longrightarrow> leave_call s = Some s' \<Longrightarrow> call_inv s'"
  by (auto simp: call_inv_def enter_call_def leave_call_def patient_def worker_phases(4,5) split: if_splits)

lemma patient_inv: "reach patient s \<Longrightarrow> call_inv s"
proof (induction rule: reach.induct)
  case reach_init
  show ?case by (simp add: call_inv_def calls0_def worker0_def quiet_def)
next
  case (reach_step s e s')
  then show ?case
    by (cases e) (auto simp: call_exec_def patient_def [of Timeout] patient_def [of Spurious_rx] patient_def [of Spurious_tx]
        intro: turn_keeps_inv manager_keeps_inv switch_keeps_inv)
qed

lemma call_inv_safe: "call_inv s \<Longrightarrow> call_safe s"
  by (auto simp: call_inv_def call_safe_def quiet_def parked_def stopping_def announced_def split: manager_pc.splits if_splits)

section \<open>Without patience\<close>

text \<open>What happens without timeouts and without spurious wake-ups.\<close>

definition ordinary :: "call_event \<Rightarrow> calls \<Rightarrow> bool" where
  "ordinary e s \<longleftrightarrow> e \<in> {Turn_rx, Turn_tx, Manage, Enter, Leave}"

text \<open>
  A call that is left before the threads have come back from their wait, and a first call that is entered before they have reached it.
\<close>

definition hasty_leave :: "call_event list" where
  "hasty_leave = [Turn_rx, Turn_tx, Enter] @ replicate 5 Manage @ [Leave] @ replicate 6 Manage @ [Turn_tx]"

definition hasty_enter :: "call_event list" where
  "hasty_enter = [Enter] @ replicate 5 Manage @ [Turn_tx, Leave] @ replicate 6 Manage"

definition works_without_devices :: "calls option \<Rightarrow> bool" where
  "works_without_devices r = (case r of None \<Rightarrow> False | Some s \<Rightarrow> w_pc (c_tx s) = W_working \<and> \<not> c_devices s)"

end
