(* ===== verification/Hal_Hfp.thy ===== *)
theory Hal_Hfp
  imports Hal_Platform
begin

text \<open>
  The hands-free profile of \<open>hfp.c\<close> over a Bluetooth chip at the signal processor: starting, stopping, volume and the mute of the microphone, either with the devices
  of the primary card or with the paths of the remote processor.

  The mixer is a map from the names of controls to values: \<open>he_set\<close> gives the result of setting a control, a missing one included.
  The mixer paths that are applied and reset are kept in their order.  Volumes are computed in \<open>double\<close>: \<open>he_rnd\<close> is the rounding of its operations.
  The texts of messages, with the error of a device that they quote, are left out.
\<close>

definition HFP_VOLUME_MIN_mDB :: int where "HFP_VOLUME_MIN_mDB = -2800"
definition HFP_VOLUME_MAX_mDB :: int where "HFP_VOLUME_MAX_mDB = 200"
definition HFP_ENABLE_MIXER_PATH :: string where "HFP_ENABLE_MIXER_PATH = ''hfp''"
definition HFP_MIC_MUTE_MIXER_PATH :: string where "HFP_MIC_MUTE_MIXER_PATH = ''hfp-mic-mute''"
definition CTRL_DSP1_HFP_VOL :: string where "CTRL_DSP1_HFP_VOL = ''DSP1 HFP VOL''"

definition BT_PLAYBACK_TO_MAIN_SPK_16K :: string where "BT_PLAYBACK_TO_MAIN_SPK_16K = ''PATH_BT_PLAYBACK_TO_MAIN_SPK_16K''"
definition BT_CAPTURE_FROM_MAIN_MIC_16K :: string where "BT_CAPTURE_FROM_MAIN_MIC_16K = ''PATH_BT_CAPTURE_FROM_MAIN_MIC_16K''"
definition BT_PLAYBACK_TO_MAIN_SPK_8K :: string where "BT_PLAYBACK_TO_MAIN_SPK_8K = ''PATH_BT_PLAYBACK_TO_MAIN_SPK_8K''"
definition BT_CAPTURE_FROM_MAIN_MIC_8K :: string where "BT_CAPTURE_FROM_MAIN_MIC_8K = ''PATH_BT_CAPTURE_FROM_MAIN_MIC_8K''"

text \<open>The function \<open>hfp_set_volume_hook\<close> points to.\<close>

datatype volume_hook = Hook_ref_board | Hook_ms_board | Hook_remote_dsp | Hook_remote_soc

text \<open>A device of the call: NULL, open, or open and given to \<open>pcm_start\<close>.\<close>

datatype sco_pcm = Sco_null | Sco_open | Sco_started

text \<open>
  The module and the fields of the device it uses: \<open>hf_remote\<close> is the connection to the remote processor, \<open>hf_enable\<close> and \<open>hf_sample_rate\<close> belong to the device,
  \<open>hf_sent\<close> are the packets sent so far.
\<close>

record hfp_module =
  hf_rx :: sco_pcm
  hf_tx :: sco_pcm
  hf_volume :: int
  hf_ratio :: rat
  hf_running :: bool
  hf_wb :: bool
  hf_hook :: volume_hook
  hf_restore :: bool
  hf_saved :: "int list"
  hf_config_rate :: int
  hf_enable :: bool
  hf_sample_rate :: int
  hf_remote :: int
  hf_mixer :: "string \<Rightarrow> int"
  hf_sent :: "ipcc_data list"
  hf_routes :: "(string \<times> bool) list"

record hfp_env =
  he_platform :: platform_data
  he_rpmsg :: rpmsg_env
  he_set :: "string \<Rightarrow> int \<Rightarrow> int"
  he_apply :: "string \<Rightarrow> int"
  he_reset :: "string \<Rightarrow> int"
  he_open_rx :: open_outcome
  he_open_tx :: open_outcome
  he_rnd :: "rat \<Rightarrow> rat"
  he_curve :: "int \<Rightarrow> int \<Rightarrow> int \<Rightarrow> int \<Rightarrow> rat"

definition hfpmod0 :: hfp_module where
  "hfpmod0 = \<lparr>hf_rx = Sco_null, hf_tx = Sco_null, hf_volume = 0, hf_ratio = 0, hf_running = False, hf_wb = True, hf_hook = Hook_ref_board, hf_restore = False,
     hf_saved = [0, 0, 0, 0], hf_config_rate = 16000, hf_enable = False, hf_sample_rate = 0, hf_remote = -1, hf_mixer = (\<lambda>n. 0), hf_sent = [], hf_routes = []\<rparr>"

definition hfp_card :: "hfp_env \<Rightarrow> int" where
  "hfp_card env = sd_platform_get_card_id (Some (he_platform env)) AUDIO_NAME_PRIMARY"

text \<open>A command to the remote processor: the connection and the packets it leaves.\<close>

definition sent_by :: "hfp_module \<Rightarrow> int \<times> ipcc_data list \<times> int \<Rightarrow> hfp_module" where
  "sent_by m = (\<lambda>(remote, sent, ret). m\<lparr>hf_remote := remote, hf_sent := hf_sent m @ sent\<rparr>)"

section \<open>Controls of the board\<close>

definition set_ctl :: "hfp_env \<Rightarrow> hfp_module \<Rightarrow> string \<Rightarrow> int \<Rightarrow> hfp_module \<times> int" where
  "set_ctl env m name v = (if he_set env name v = 0 then m\<lparr>hf_mixer := (hf_mixer m)(name := v)\<rparr> else m, he_set env name v)"

definition volume_controls :: "string list" where
  "volume_controls = [''DAC1 Digital Volume L'', ''DAC1 Digital Volume R'', ''DAC2 Digital Volume L'', ''DAC2 Digital Volume R'']"

definition store_hfp_volume :: "hfp_module \<Rightarrow> hfp_module" where
  "store_hfp_volume m = m\<lparr>hf_saved := map (hf_mixer m) volume_controls\<rparr>"

fun set_ctls :: "hfp_env \<Rightarrow> (string \<times> int) list \<Rightarrow> hfp_module \<Rightarrow> int \<Rightarrow> hfp_module \<times> int" where
  "set_ctls env [] m ret = (m, ret)"
| "set_ctls env ((name, v) # rest) m ret = (let (m, ret) = set_ctl env m name v in set_ctls env rest m ret)"

definition restore_hfp_volume :: "hfp_env \<Rightarrow> hfp_module \<Rightarrow> hfp_module" where
  "restore_hfp_volume env m = fst (set_ctls env (zip volume_controls (hf_saved m)) m 0)"

text \<open>\<open>audio_route_apply_and_update_path\<close> and \<open>audio_route_reset_and_update_path\<close>.\<close>

definition update_path :: "hfp_env \<Rightarrow> hfp_module \<Rightarrow> string \<Rightarrow> bool \<Rightarrow> hfp_module \<times> int" where
  "update_path env m path on = (m\<lparr>hf_routes := hf_routes m @ [(path, on)]\<rparr>, if on then he_apply env path else he_reset env path)"

definition hfp_ctrl_enable :: "hfp_env \<Rightarrow> hfp_module \<Rightarrow> bool \<Rightarrow> hfp_module \<times> int" where
  "hfp_ctrl_enable env m enable = (if hfp_card env < 0 then (m, -1) else update_path env m HFP_ENABLE_MIXER_PATH enable)"

definition hfp_set_volume_ms_board :: "hfp_env \<Rightarrow> hfp_module \<Rightarrow> int \<Rightarrow> hfp_module \<times> int" where
  "hfp_set_volume_ms_board env m vol_index = set_ctls env (map (\<lambda>n. (n, vol_index)) volume_controls) m 0"

definition hfp_set_volume_ref_board :: "hfp_env \<Rightarrow> hfp_module \<Rightarrow> int \<Rightarrow> hfp_module \<times> int" where
  "hfp_set_volume_ref_board env m vol_index = set_ctl env m CTRL_DSP1_HFP_VOL vol_index"

section \<open>The remote processor\<close>

definition hfp_playback :: "hfp_module \<Rightarrow> string" where
  "hfp_playback m = (if hf_wb m then BT_PLAYBACK_TO_MAIN_SPK_16K else BT_PLAYBACK_TO_MAIN_SPK_8K)"

definition hfp_capture :: "hfp_module \<Rightarrow> string" where
  "hfp_capture m = (if hf_wb m then BT_CAPTURE_FROM_MAIN_MIC_16K else BT_CAPTURE_FROM_MAIN_MIC_8K)"

definition set_remote_mic_mute :: "hfp_env \<Rightarrow> hfp_module \<Rightarrow> bool \<Rightarrow> hfp_module \<times> int" where
  "set_remote_mic_mute env m mute =
     (if \<not> mute then (sent_by m (audio_remote_start (he_rpmsg env) (hf_remote m) (hfp_capture m) 100), 0)
      else (sent_by m (audio_remote_stop (he_rpmsg env) (hf_remote m) (hfp_capture m)), 0))"

definition enable_remote_hfp :: "hfp_env \<Rightarrow> hfp_module \<Rightarrow> bool \<Rightarrow> hfp_module \<times> int" where
  "enable_remote_hfp env m enable =
     (if enable
      then let m = fst (set_remote_mic_mute env m False) in (sent_by m (audio_remote_start (he_rpmsg env) (hf_remote m) (hfp_playback m) 0), 0)
      else let m = fst (set_remote_mic_mute env m True) in (sent_by m (audio_remote_stop (he_rpmsg env) (hf_remote m) (hfp_playback m)), 0))"

text \<open>The value computed from the range of the volume is not used.\<close>

definition set_remote_hfp_volume_dsp :: "hfp_env \<Rightarrow> hfp_module \<Rightarrow> int \<Rightarrow> hfp_module \<times> int" where
  "set_remote_hfp_volume_dsp env m volume = (sent_by m (audio_remote_set_volume (he_rpmsg env) (hf_remote m) (hfp_playback m) volume), 0)"

text \<open>The gain stage: from -4800 to 600 in steps of 300; the step is unsigned, so the division is.\<close>

definition hfp_mdb_2_ratio :: "hfp_env \<Rightarrow> int \<Rightarrow> rat" where
  "hfp_mdb_2_ratio env gain = he_curve env (-48) 6 (s32 (u32 (gain + 4800) div 300)) 18"

definition set_remote_hfp_volume_soc :: "hfp_env \<Rightarrow> hfp_module \<Rightarrow> int \<Rightarrow> hfp_module \<times> int" where
  "set_remote_hfp_volume_soc env m volume = (m\<lparr>hf_ratio := hfp_mdb_2_ratio env (hf_volume m)\<rparr>, 0)"

section \<open>Volume\<close>

definition VOL_PRECENT :: "(rat \<Rightarrow> rat) \<Rightarrow> int \<Rightarrow> rat" where
  "VOL_PRECENT rnd vol_mdb =
     rnd (rnd (rnd (of_int (s32 (vol_mdb - HFP_VOLUME_MIN_mDB)) * 1) / of_int (HFP_VOLUME_MAX_mDB - HFP_VOLUME_MIN_mDB)) * 100)"

definition board_index :: "(rat \<Rightarrow> rat) \<Rightarrow> int \<Rightarrow> rat" where
  "board_index rnd volume = rnd (rnd (rnd (of_int volume / 100) - (- 231 / 2)) / (1 / 2))"

definition volume_index :: "hfp_env \<Rightarrow> hfp_module \<Rightarrow> int \<Rightarrow> int" where
  "volume_index env m volume =
     s32 (trunc_int (if hf_remote m > 0 then VOL_PRECENT (he_rnd env) volume else board_index (he_rnd env) volume))"

definition hfp_get_volume_idx :: "hfp_env \<Rightarrow> hfp_module \<Rightarrow> int" where
  "hfp_get_volume_idx env m = (if hf_remote m > 0 then s32 (trunc_int (VOL_PRECENT (he_rnd env) (hf_volume m))) else -1)"

definition call_hook :: "hfp_env \<Rightarrow> hfp_module \<Rightarrow> int \<Rightarrow> hfp_module \<times> int" where
  "call_hook env m =
     (case hf_hook m of Hook_ref_board \<Rightarrow> hfp_set_volume_ref_board env m | Hook_ms_board \<Rightarrow> hfp_set_volume_ms_board env m
      | Hook_remote_dsp \<Rightarrow> set_remote_hfp_volume_dsp env m | Hook_remote_soc \<Rightarrow> set_remote_hfp_volume_soc env m)"

definition hfp_set_volume :: "hfp_env \<Rightarrow> hfp_module \<Rightarrow> int \<Rightarrow> hfp_module \<times> int" where
  "hfp_set_volume env m volume = (let vol_index = volume_index env m volume in call_hook env (m\<lparr>hf_volume := volume\<rparr>) vol_index)"

definition hfp_get_amplitude_ratio :: "hfp_module \<Rightarrow> rat" where
  "hfp_get_amplitude_ratio m = hf_ratio m"

section \<open>Starting and stopping\<close>

definition init_hfp :: "hfp_env \<Rightarrow> hfp_module \<Rightarrow> hfp_module \<times> int" where
  "init_hfp env m =
     (let linux_name = fst (sd_platform_get_card_name (Some (he_platform env)) AUDIO_NAME_PRIMARY []);
          m = (if linux_name = ''x9core01ak7738'' then (store_hfp_volume m)\<lparr>hf_hook := Hook_ms_board, hf_restore := True\<rparr> else m);
          m = (if strstr_c linux_name ''mach''
               then (store_hfp_volume m)\<lparr>hf_hook := (case pf_bt_type (he_platform env) of BT_CONNECT_WITH_DSP \<Rightarrow> Hook_remote_dsp
                                                    | BT_CONNECT_WITH_SOC \<Rightarrow> Hook_remote_soc)\<rparr>
               else m)
      in (m, 0))"

definition close_sco :: "hfp_module \<Rightarrow> hfp_module" where
  "close_sco m = m\<lparr>hf_rx := Sco_null, hf_tx := Sco_null\<rparr>"

definition stop_hfp :: "hfp_env \<Rightarrow> hfp_module \<Rightarrow> hfp_module \<times> int" where
  "stop_hfp env m =
     (if hf_running m \<and> hf_remote m > 0 then enable_remote_hfp env (m\<lparr>hf_running := False, hf_enable := False\<rparr>) False
      else let m = (if hf_running m then (fst (hfp_ctrl_enable env (close_sco (m\<lparr>hf_running := False\<rparr>)) False))\<lparr>hf_enable := False\<rparr> else m)
           in (if hf_restore m then restore_hfp_volume env m else m, 0))"

definition opened :: "open_outcome \<Rightarrow> sco_pcm" where
  "opened outcome = (if outcome = Open_null then Sco_null else Sco_open)"

text \<open>The devices of the card; after a failure the function ends with \<open>stop_hfp\<close>.\<close>

definition open_sco :: "hfp_env \<Rightarrow> hfp_module \<Rightarrow> hfp_module \<times> bool" where
  "open_sco env m =
     (let m = (fst (hfp_ctrl_enable env m True))\<lparr>hf_config_rate := hf_sample_rate m, hf_rx := opened (he_open_rx env)\<rparr>
      in if he_open_rx env \<noteq> Open_ready then (m, False)
         else let m = m\<lparr>hf_tx := opened (he_open_tx env)\<rparr> in (m, he_open_tx env = Open_ready))"

definition start_hfp :: "hfp_env \<Rightarrow> hfp_module \<Rightarrow> hfp_module \<times> int" where
  "start_hfp env m =
     (if hfp_card env < 0 then (m, -1)
      else if hf_enable m then (m, 0)
      else
        let m = m\<lparr>hf_enable := True\<rparr>
        in if hf_remote m > 0
           then let (m, ret) = enable_remote_hfp env (m\<lparr>hf_running := True\<rparr>) True in (fst (hfp_set_volume env m (hf_volume m)), ret)
           else case open_sco env m of (m, ok) \<Rightarrow>
             if ok then (fst (hfp_set_volume env (m\<lparr>hf_rx := Sco_started, hf_tx := Sco_started, hf_running := True\<rparr>) (hf_volume m)), 0)
             else (fst (stop_hfp env m), - EIO))"

definition hfp_set_mic_mute :: "hfp_env \<Rightarrow> hfp_module \<Rightarrow> bool \<Rightarrow> hfp_module \<times> int" where
  "hfp_set_mic_mute env m state =
     (if \<not> hf_running m then (m, - EPIPE)
      else if hf_remote m > 0 then set_remote_mic_mute env m state
      else if hfp_card env < 0 then (m, - EINVAL)
      else update_path env m HFP_MIC_MUTE_MIXER_PATH state)"

section \<open>What the volume becomes\<close>

text \<open>What is used of the rounding: it keeps the order and whole numbers of 32 bits.\<close>

definition rounding :: "(rat \<Rightarrow> rat) \<Rightarrow> bool" where
  "rounding rnd \<longleftrightarrow> (\<forall>x y. x \<le> y \<longrightarrow> rnd x \<le> rnd y) \<and> (\<forall>n. \<bar>n\<bar> \<le> 2147483648 \<longrightarrow> rnd (of_int n) = of_int n)"

lemma rounding_int: "rounding rnd \<Longrightarrow> \<bar>n\<bar> \<le> 2147483648 \<Longrightarrow> rnd (of_int n) = of_int n"
  by (simp add: rounding_def)

lemma rounding_between:
  assumes "rounding rnd" and "of_int a \<le> x" and "x \<le> of_int b" and "\<bar>a\<bar> \<le> 2147483648" and "\<bar>b\<bar> \<le> 2147483648"
  shows "of_int a \<le> rnd x" "rnd x \<le> of_int b"
  using assms unfolding rounding_def by metis+

lemma vol_percent_bounds:
  assumes "rounding rnd" and "-2800 \<le> v" and "v \<le> 200"
  shows "0 \<le> VOL_PRECENT rnd v" "VOL_PRECENT rnd v \<le> 100"
proof -
  have s: "s32 (v + 2800) = v + 2800" using assms(2,3) by (intro s32_id) simp_all
  define a where "a = rnd (of_int (v + 2800) * 1)"
  have a: "a = of_int (v + 2800)" using rounding_int [OF assms(1), of "v + 2800"] assms(2,3) by (simp add: a_def)
  have b: "0 \<le> rnd (a / 3000)" "rnd (a / 3000) \<le> 1"
    using rounding_between [OF assms(1), of 0 "a / 3000" 1] assms(2,3) a by (simp_all add: divide_le_eq)
  then show "0 \<le> VOL_PRECENT rnd v" "VOL_PRECENT rnd v \<le> 100"
    using rounding_between [OF assms(1), of 0 "rnd (a / 3000) * 100" 100] s a
    by (simp_all add: VOL_PRECENT_def HFP_VOLUME_MIN_mDB_def HFP_VOLUME_MAX_mDB_def a_def)
qed

lemma vol_percent_mono:
  assumes "rounding rnd" and "-2800 \<le> v" and "v \<le> w" and "w \<le> 200"
  shows "VOL_PRECENT rnd v \<le> VOL_PRECENT rnd w"
proof -
  have s: "s32 (v + 2800) = v + 2800" "s32 (w + 2800) = w + 2800" using assms by (auto intro!: s32_id)
  have m: "x \<le> y \<Longrightarrow> rnd x \<le> rnd y" for x y using assms(1) by (simp add: rounding_def)
  show ?thesis unfolding VOL_PRECENT_def HFP_VOLUME_MIN_mDB_def HFP_VOLUME_MAX_mDB_def using s assms(3)
    by (auto intro!: m mult_right_mono divide_right_mono)
qed

lemma board_index_bounds:
  assumes "rounding rnd" and "-2800 \<le> v" and "v \<le> 200"
  shows "174 \<le> board_index rnd v" "board_index rnd v \<le> 236"
proof -
  have a: "-28 \<le> rnd (of_int v / 100)" "rnd (of_int v / 100) \<le> 2"
    using rounding_between [OF assms(1), of "-28" "of_int v / 100" 2] assms(2,3) by (simp_all add: divide_le_eq le_divide_eq)
  then have "87 \<le> rnd (rnd (of_int v / 100) - (- 231 / 2))" "rnd (rnd (of_int v / 100) - (- 231 / 2)) \<le> 118"
    using rounding_between [OF assms(1), of 87 "rnd (of_int v / 100) - (- 231 / 2)" 118] by simp_all
  then show "174 \<le> board_index rnd v" "board_index rnd v \<le> 236"
    using rounding_between [OF assms(1), of 174 "rnd (rnd (of_int v / 100) - (- 231 / 2)) / (1 / 2)" 236] by (simp_all add: board_index_def)
qed

lemma trunc_bounds: "of_int a \<le> x \<Longrightarrow> x \<le> of_int b \<Longrightarrow> 0 \<le> a \<Longrightarrow> a \<le> trunc_int x \<and> trunc_int x \<le> b"
  using order_trans [of 0 "of_int a" x] by (auto simp: trunc_int_def le_floor_iff floor_le_iff)

lemma trunc_mono: "0 \<le> x \<Longrightarrow> x \<le> y \<Longrightarrow> trunc_int x \<le> trunc_int y"
  by (simp add: trunc_int_def floor_mono)

lemma board_index_mono:
  assumes "rounding rnd" and "v \<le> w"
  shows "board_index rnd v \<le> board_index rnd w"
proof -
  have m: "x \<le> y \<Longrightarrow> rnd x \<le> rnd y" for x y using assms(1) by (simp add: rounding_def)
  show ?thesis unfolding board_index_def using assms(2) by (auto intro!: m divide_right_mono diff_right_mono)
qed

lemma set_ctls_volume: "hf_volume (fst (set_ctls env cs m ret)) = hf_volume m"
  by (induction cs arbitrary: m ret) (auto simp: set_ctl_def Let_def)

lemma volume_kept: "hf_volume (fst (call_hook env m i)) = hf_volume m"
  by (simp add: call_hook_def hfp_set_volume_ref_board_def hfp_set_volume_ms_board_def set_remote_hfp_volume_dsp_def set_remote_hfp_volume_soc_def set_ctl_def
      set_ctls_volume sent_by_def split: volume_hook.split prod.split)

end
