(* ===== verification/Call_Properties.thy ===== *)
theory Call_Properties
  imports Call_System Call_Threads Hal_Hfp Input_Properties
begin

text \<open>
  The properties of calls: over a Bluetooth chip at the application processor (\<open>audio_bt_call.c\<close> with its threads) and through the hands-free profile of
  \<open>hfp.c\<close>.
\<close>

section \<open>Instances\<close>

definition call_ring :: "int \<Rightarrow> int \<Rightarrow> int \<Rightarrow> circlebuf option" where
  "call_ring ch fmt rate = Some (sample_ring 4 ch [])"

definition call_env0 :: "bool \<Rightarrow> call_env" where
  "call_env0 opens = \<lparr>ce_frame_size = (\<lambda>c f. c * 2), ce_bits = (\<lambda>f. 16), ce_rbuf = call_ring, ce_attempt = (\<lambda>r k. if opens then Open_ready else Open_null),
     ce_prepare = 0, ce_created = 0, ce_dsp = (\<lambda>c. 0), ce_slot0 = (\<lambda>b. 0), ce_rpmsg = \<lparr>env_socket = 3, env_connect = 0, env_write = 32\<rparr>,
     ce_null_ready = Inr False, ce_create_resampler = (\<lambda>r. 0), ce_malloc = (\<lambda>a. True), ce_heap = (\<lambda>i. 0), ce_ecnr_property = [], ce_ecnr_alloc = True,
     ce_mutex_init = True, ce_cond_init = True, ce_thread_create = True, ce_stream = (\<lambda>a. Some (os_base (sample_out 48000))), ce_pcm_read = (\<lambda>k. 0),
     ce_driver = (\<lambda>k buf n. map (\<lambda>i. of_nat k) [0..<nat n] @ drop (nat n) buf), ce_polls = (\<lambda>k i. sample_ring 4 2 []), ce_resample = (\<lambda>p d n. Inr (d, [], n)),
     ce_pcm_write = (\<lambda>b. 0), ce_direct_write = (\<lambda>b. 0), ce_in_tmp = [], ce_write_polls = []\<rparr>"

text \<open>A device after \<open>btcall_init_rx\<close>, with short periods.\<close>

definition call_dev0 :: call_dev where
  "call_dev0 = fst (btcall_init_rx (call_env0 True)
     \<lparr>cd_dev = \<lparr>hd_out = (sample_dev False)\<lparr>od_hdls := (blank_hdl\<lparr>hs_allocated := True\<rparr>) # replicate 7 blank_hdl, od_bt_out := Some (Some 5)\<rparr>, hd_mode = 0, hd_active_input = None, hd_hs_device = 0\<rparr>,
      cd_data = (\<lambda>r. None), cd_thread = None, cd_configs = (\<lambda>r. (bt_configs0 r)\<lparr>pc_period_size := 1\<rparr>), cd_in_call = 0, cd_mic_mute = False, cd_ecnr_ops = True,
      cd_ecnr_hdl = None, cd_fake = fake_ecnr_param0, cd_reads = 0\<rparr>)"

definition call_dev1 :: call_dev where
  "call_dev1 = set_bt_out call_dev0 (Some 5)"

lemma call_dev1_idle: "call_idle call_dev1"
proof -
  have "cd_data call_dev1 = (\<lambda>r. Some zero_data)"
    using btcall_rt.exhaust
    by (intro ext) (auto simp: call_dev1_def call_dev0_def btcall_init_rx_def directions_def call_env0_def set_bt_out_def put_data_def put_thread_def Let_def)
  moreover have "cd_thread call_dev1 = Some zero_thread"
    by (simp add: call_dev1_def call_dev0_def btcall_init_rx_def directions_def call_env0_def set_bt_out_def put_data_def put_thread_def Let_def)
  ultimately show ?thesis by (simp add: call_idle_def data_idle_def erase_def zero_data_def zero_thread_def)
qed

section \<open>Opening and closing\<close>

lemma phone_bus: "so_bus_num (phone_stream out) = 2"
  by (simp add: phone_stream_def) code_simp

lemma close_out_defined:
  assumes "bus_ok st" and "slots_ok st" and "so_bus_num out = 2" and "so_pcm_hdl out = Some i"
  shows "\<exists>g' st' out' ret. hal_streamer_close_out slot0 g st out = Inr (g', st', out', ret)"
proof -
  have "slot_index st ! 2 \<in> {0, 2, 4, 6}" using assms(2) by (simp add: slots_ok_def)
  then have "0 \<le> slot_index st ! 2 div 2" "slot_index st ! 2 div 2 < 4" by auto
  then show ?thesis using assms(1,3,4) by (auto simp: hal_streamer_close_out_def bus_ok_def Let_def)
qed



text \<open>
  C21.  A first call that cannot be opened brings the HAL down.  When there is no primary card, or the device of the Bluetooth chip does not open, \<open>btcall_open\<close>
  returns \<open>-EINVAL\<close>; the caller then runs \<open>btcall_close\<close>, which reads the handle of the microphone through a pointer that is still NULL.
\<close>

theorem failed_call_faults:
  assumes "call_idle d" and "bt_card d < 0 \<or> \<not> bt_opened env BTCALL_BT_INPUT \<and> ce_null_ready env = Inr False"
  shows "(\<exists>d1. btcall_open env d = Inr (d1, - EINVAL) \<and> btcall_close env d1 = Inl Null_pointer) \<and>
    (cd_in_call d = 1 \<longrightarrow> set_btcall_status env restarted d = Inl Null_pointer)"
proof -
  define d0 where "d0 = open_ecnr env d"
  have idle: "\<exists>b. cd_data d0 r = Some b \<and> data_idle b" for r using assms(1) by (simp add: call_idle_def d0_def)
  obtain b where b: "cd_data d0 BTCALL_BT_INPUT = Some b" "bd_pcm b = Bt_null" using idle [of BTCALL_BT_INPUT] by (auto simp: data_idle_def)
  have card_0: "bt_card d0 = bt_card d" by (simp add: d0_def bt_card_def bt_platform_def)
  obtain d1 b1 where o: "\<exists>ret. open_bt_inpcm env d0 = Inr (put_data d1 BTCALL_BT_INPUT b1, ret) \<and> ret \<noteq> 0" "bd_pcm b1 = Bt_null" "cd_data d1 = cd_data d0"
  proof (cases "bt_card d < 0")
    case True
    then show thesis using that [of d0 "b\<lparr>bd_config := Some Pcm_config_bt_in, bd_card := bt_card d0\<rparr>"] b card_0
      by (simp add: open_bt_inpcm_def get_data_def EINVAL_def Let_def)
  next
    case False
    obtain d1 b1 where w: "with_card_info d0 (b\<lparr>bd_config := Some Pcm_config_bt_in, bd_card := bt_card d0, bd_port := PORT_BT, bd_direction := BTCALL_BT_INPUT\<rparr>)
        Pcm_config_bt_in BT_CALL_HFP_IN_NAME = (d1, b1)" by fastforce
    show thesis using that [of d1 b1] b card_0 False assms(2) w with_card_info_keeps(1,6) [OF w]
      by (simp add: open_bt_inpcm_def open_checked_def get_data_def ENOMEM_def Let_def)
  qed
  let ?d = "put_data d1 BTCALL_BT_INPUT b1"
  have op: "btcall_open env d = Inr (?d, - EINVAL)"
    using o(1) b by (auto simp: btcall_open_def open_devices_def open_direction_def if_ok_def get_data_def EINVAL_def simp flip: d0_def)
  obtain b2 b3 where "cd_data d0 BTCALL_CODEC_OUTPUT = Some b2" "data_idle b2" "cd_data d0 BTCALL_CODEC_INPUT = Some b3" "data_idle b3" using idle by metis
  then have cl: "btcall_close env ?d = Inl Null_pointer"
    using o(2,3) by (simp add: btcall_close_def close_direction_def close_mic_def get_data_def data_idle_def)
  have "btcall_inited d" using assms(1) by (auto simp: btcall_inited_def call_idle_def list_all_iff)
  then have "cd_in_call d = 1 \<longrightarrow> set_btcall_status env restarted d = Inl Null_pointer" using op cl by (simp add: set_btcall_status_def EINVAL_def)
  then show ?thesis using op cl by blast
qed

theorem failed_call_faults_witness:
  "set_btcall_status (call_env0 False) False (call_dev1\<lparr>cd_in_call := 1\<rparr>) = Inl Null_pointer"
proof -
  have "\<not> bt_opened (call_env0 False) BTCALL_BT_INPUT" by code_simp
  moreover have "call_idle (call_dev1\<lparr>cd_in_call := 1\<rparr>)" using call_dev1_idle by (simp add: call_idle_def)
  ultimately show ?thesis using failed_call_faults [of "call_dev1\<lparr>cd_in_call := 1\<rparr>" "call_env0 False" False] by (simp add: call_env0_def)
qed

section \<open>The threads of a call\<close>

text \<open>
  C22.  When calls are entered and left patiently, no thread works on devices that are closed: for every interleaving of the threads and the caller, if a call is entered
  only when both threads wait and left only when both have announced that they run, and if the waits of the caller end because of the flags, then the
  devices exist whenever a thread is working.
\<close>

theorem patient_calls_safe:
  assumes "reach patient s"
  shows "call_safe s"
  using call_inv_safe [OF patient_inv [OF assms]] .

theorem patient_calls_safe_witness:
  "\<exists>s. call_run patient ([Turn_rx, Turn_tx, Enter] @ replicate 5 Manage @ [Turn_tx, Turn_rx]) calls0 = Some s \<and> w_pc (c_tx s) = W_working \<and> call_safe s"
proof -
  have "case call_run patient ([Turn_rx, Turn_tx, Enter] @ replicate 5 Manage @ [Turn_tx, Turn_rx]) calls0 of Some s \<Rightarrow> w_pc (c_tx s) = W_working | None \<Rightarrow> False"
    by code_simp
  then obtain s where s: "call_run patient ([Turn_rx, Turn_tx, Enter] @ replicate 5 Manage @ [Turn_tx, Turn_rx]) calls0 = Some s" "w_pc (c_tx s) = W_working"
    by (auto split: option.splits)
  then show ?thesis using patient_calls_safe [OF reach_run [OF reach_init s(1)]] by blast
qed


text \<open>The microphone's thread then dereferences NULL.\<close>

lemma idle_microphone_faults:
  assumes "call_idle d"
  shows "tx_work env fuel d = Inl Null_pointer"
proof -
  obtain b where "cd_data d BTCALL_CODEC_INPUT = Some b" "bd_in b = None" using assms by (metis call_idle_def data_idle_def)
  moreover obtain t where "cd_thread d = Some t" using assms by (auto simp: call_idle_def)
  ultimately show ?thesis by (simp add: tx_work_def get_thread_def get_data_def)
qed

section \<open>The samples of a call\<close>

fun rx_turns :: "call_env \<Rightarrow> nat \<Rightarrow> nat \<Rightarrow> call_dev \<Rightarrow> rx_local \<Rightarrow> c_error + (call_dev \<times> rx_local \<times> byte list) option" where
  "rx_turns env fuel 0 d l = Inr (Some (d, l, []))"
| "rx_turns env fuel (Suc n) d l =
     and_then (rx_work env fuel d l) (\<lambda>r.
       case r of None \<Rightarrow> Inr None
       | Some (d, l, played) \<Rightarrow>
           and_then (rx_turns env fuel n d l) (\<lambda>r.
             Inr (map_option (\<lambda>(d, l, rest). (d, l, (case played of None \<Rightarrow> [] | Some p \<Rightarrow> p) @ rest)) r)))"

text \<open>A call between two devices: no resampler, and a buffer of at least \<open>n\<close> bytes.\<close>

definition direct_call :: "call_env \<Rightarrow> nat \<Rightarrow> call_dev \<Rightarrow> bool" where
  "direct_call env n d \<longleftrightarrow>
     (\<exists>b c t buf out. cd_data d BTCALL_BT_INPUT = Some b \<and> bd_pcm b \<noteq> Bt_null \<and> \<not> bd_resampler b \<and> get_input_frame_size env d b = Inr c \<and> c \<noteq> 0 \<and>
        (\<exists>b. cd_data d BTCALL_CODEC_OUTPUT = Some b \<and> bd_bt_out b = Some out) \<and> so_pcm_hdl out = None \<and> so_pcm out \<and>
        cd_thread d = Some t \<and> bt_buffer_rx t = Some buf \<and> n \<le> length buf \<and> bt_buffer_rxsize t = int n)"

lemma rx_work_direct:
  assumes "direct_call env n d" and "\<And>k buf. n \<le> length buf \<Longrightarrow> length (ce_driver env k buf (int n)) = length buf \<and> take n (ce_driver env k buf (int n)) = src k"
  obtains d' l' where "rx_work env fuel d l = Inr (Some (d', l', Some (src (cd_reads d))))" "direct_call env n d'" "cd_reads d' = Suc (cd_reads d)"
proof -
  obtain b c t buf out b2 where f: "cd_data d BTCALL_BT_INPUT = Some b" "bd_pcm b \<noteq> Bt_null" "\<not> bd_resampler b" "get_input_frame_size env d b = Inr c" "c \<noteq> 0"
    "cd_data d BTCALL_CODEC_OUTPUT = Some b2" "bd_bt_out b2 = Some out" "so_pcm_hdl out = None" "so_pcm out"
    "cd_thread d = Some t" "bt_buffer_rx t = Some buf" "n \<le> length buf" "bt_buffer_rxsize t = int n" using assms(1) by (auto simp: direct_call_def)
  let ?buf = "ce_driver env (cd_reads d) buf (int n)"
  let ?d = "put_thread (d\<lparr>cd_reads := Suc (cd_reads d)\<rparr>) (t\<lparr>bt_buffer_rx := Some ?buf\<rparr>)"
  have s: "length ?buf = length buf" "take n ?buf = src (cd_reads d)" using assms(2) [OF f(12)] by simp_all
  have "rx_work env fuel d l = Inr (Some (?d, l\<lparr>rl_size := int n, rl_buf := True\<rparr>, Some (src (cd_reads d))))"
    using f s by (simp add: rx_work_def rx_read_def rx_write_def get_thread_def get_data_def put_thread_def Let_def)
  moreover have "get_input_frame_size env ?d b = get_input_frame_size env d b"
    by (simp add: get_input_frame_size_def bt_config_def put_thread_def split: option.split)
  then have "direct_call env n ?d" using f s(1) unfolding direct_call_def by (auto simp: put_thread_def)
  ultimately show thesis using that by (simp add: put_thread_def)
qed

text \<open>
  C24.  What the far end says reaches the loudspeaker.  Between two devices, as on a board with the audio hub, the thread hands on what the Bluetooth chip delivers:
  over any number of turns the loudspeaker gets the periods that were read, each once and in order.
\<close>

theorem far_end_reaches_loudspeaker:
  assumes "direct_call env n d" and "\<And>k buf. n \<le> length buf \<Longrightarrow> length (ce_driver env k buf (int n)) = length buf \<and> take n (ce_driver env k buf (int n)) = src k"
  shows "\<exists>d' l'. rx_turns env fuel m d l = Inr (Some (d', l', concat (map src [cd_reads d..<cd_reads d + m])))"
  using assms(1)
proof (induction m arbitrary: d l)
  case (Suc m)
  obtain d1 l1 where w: "rx_work env fuel d l = Inr (Some (d1, l1, Some (src (cd_reads d))))" "direct_call env n d1" "cd_reads d1 = Suc (cd_reads d)"
    by (rule rx_work_direct [OF Suc.prems assms(2)]) blast
  obtain d' l' where i: "rx_turns env fuel m d1 l1 = Inr (Some (d', l', concat (map src [cd_reads d1..<cd_reads d1 + m])))" using Suc.IH [OF w(2)] by blast
  have "[cd_reads d..<cd_reads d + Suc m] = cd_reads d # [Suc (cd_reads d)..<Suc (cd_reads d) + m]" by (simp add: upt_conv_Cons)
  then show ?case using w(1,3) i by simp
qed simp

definition direct_dev :: call_dev where
  "direct_dev = put_thread
     (put_data (put_data call_dev1 BTCALL_BT_INPUT (zero_data\<lparr>bd_pcm := Bt_device, bd_config := Some Pcm_config_bt_in\<rparr>)) BTCALL_CODEC_OUTPUT
        (zero_data\<lparr>bd_bt_out := Some ((os_base (sample_out 48000))\<lparr>so_pcm := True\<rparr>)\<rparr>))
     (zero_thread\<lparr>bt_buffer_rx := Some [0, 0, 0], bt_buffer_rxsize := 2\<rparr>)"

lemma direct_dev_direct: "direct_call (call_env0 True) 2 direct_dev"
proof -
  have "cd_configs call_dev1 = (\<lambda>r. (bt_configs0 r)\<lparr>pc_period_size := 1\<rparr>)"
    by (simp add: call_dev1_def call_dev0_def btcall_init_rx_def directions_def call_env0_def set_bt_out_def put_data_def put_thread_def Let_def)
  then have "get_input_frame_size (call_env0 True) direct_dev (zero_data\<lparr>bd_pcm := Bt_device, bd_config := Some Pcm_config_bt_in\<rparr>) = Inr 4"
    by (simp add: get_input_frame_size_def bt_config_def direct_dev_def put_data_def put_thread_def call_env0_def bt_configs0_def CHANNEL_STEREO_def Let_def)
  then show ?thesis unfolding direct_call_def
    by (intro exI [of _ "zero_data\<lparr>bd_pcm := Bt_device, bd_config := Some Pcm_config_bt_in\<rparr>"] exI [of _ 4])
      (simp add: direct_dev_def put_data_def put_thread_def zero_data_def zero_thread_def sample_out_def)
qed

theorem far_end_reaches_loudspeaker_witness:
  "\<exists>d' l'. rx_turns (call_env0 True) 0 3 direct_dev rx_local0 = Inr (Some (d', l', [0, 0, 1, 1, 2, 2]))"
proof -
  have r: "cd_reads direct_dev = 0"
    by (simp add: direct_dev_def call_dev1_def call_dev0_def btcall_init_rx_def directions_def call_env0_def set_bt_out_def put_data_def put_thread_def Let_def)
  have "\<exists>d' l'. rx_turns (call_env0 True) 0 3 direct_dev rx_local0 =
      Inr (Some (d', l', concat (map (\<lambda>k. replicate 2 (of_nat k)) [cd_reads direct_dev..<cd_reads direct_dev + 3])))"
    by (rule far_end_reaches_loudspeaker [OF direct_dev_direct]) (simp add: call_env0_def numeral_2_eq_2)
  then show ?thesis using r by (simp add: upt_rec numeral_2_eq_2)
qed

text \<open>
  The buffer provider behind a call's resampler, as an instance of the same contract as the microphone's: frames that are read through it, however the requests are cut, are
  the periods of the chip one after the other.
\<close>

lemma call_frames_in_order:
  assumes "far_good env r fs P src d" and "far_frames r d = 0"
  shows "\<exists>d'. read_requests (\<lambda>n d buffer. frames_loop None (bt_provider env r) (bt_status r) (int fs) n d buffer (int n) 0) fs ns d =
    Inr (Some (d', take (sum_list ns * fs) (concat (map src [cd_reads d..<cd_reads d + sum_list ns])))) \<and> far_good env r fs P src d'"
  using far.requests_in_order [OF _ assms(1), of "\<lambda>n d buffer. frames_loop None (bt_provider env r) (bt_status r) (int fs) n d buffer (int n) 0" ns] assms(2)
  by (auto simp: bt_provider_def period_upcoming_def)

section \<open>The mode\<close>

text \<open>Requests for a mode one after the other; the environments may differ.\<close>

fun set_modes :: "('p in_env \<times> call_env \<times> bool \<times> int) list \<Rightarrow> call_dev \<times> 'p in_stream \<Rightarrow> c_error + call_dev \<times> 'p in_stream" where
  "set_modes [] s = Inr s"
| "set_modes ((ienv, env, restarted, mode) # reqs) s =
     and_then (adev_set_mode ienv env restarted (fst s) (snd s) mode) (\<lambda>(d, inp, ret). set_modes reqs (d, inp))"

definition mode_tracked :: "int \<Rightarrow> call_dev \<Rightarrow> bool" where
  "mode_tracked in_call_mode d \<longleftrightarrow> cd_in_call d = (if hd_mode (cd_dev d) = in_call_mode then 1 else 0)"

lemma adev_set_mode_tracked:
  assumes "adev_set_mode ienv env restarted d inp mode = Inr (d', inp', ret)" and "mode_tracked (ie_enum ienv ''AUDIO_MODE_IN_CALL'') d"
  shows "mode_tracked (ie_enum ienv ''AUDIO_MODE_IN_CALL'') d'"
proof -
  have st: "hd_mode dev' = hd_mode dev" if "force_all_standby ienv dev inp = Inr (dev', inp')" for dev dev' inp'
    using that by (auto simp: force_all_standby_def and_then_def split: if_splits sum.splits dest!: in_standby_mode)
  show ?thesis using assms
    by (auto simp: adev_set_mode_def select_mode_def and_then_def mode_tracked_def keeps_mode_def dest!: st set_btcall_status_mode split: if_splits sum.splits prod.splits)
qed


definition soc_dev :: call_dev where
  "soc_dev = call_dev1\<lparr>cd_dev := (cd_dev call_dev1)\<lparr>hd_out := (hd_out (cd_dev call_dev1))\<lparr>od_platform := (small_platform [primary_card])\<lparr>pf_bt_type := BT_CONNECT_WITH_SOC\<rparr>\<rparr>\<rparr>\<rparr>"


section \<open>The hands-free profile\<close>

text \<open>What a client can ask of the module, with the environment of the request.\<close>

datatype hfp_request = Start_hfp hfp_env | Stop_hfp hfp_env | Set_hfp_volume hfp_env int | Set_hfp_mute hfp_env bool

definition hfp_step :: "hfp_module \<Rightarrow> hfp_request \<Rightarrow> hfp_module" where
  "hfp_step m q =
     (case q of Start_hfp env \<Rightarrow> fst (start_hfp env m) | Stop_hfp env \<Rightarrow> fst (stop_hfp env m) | Set_hfp_volume env v \<Rightarrow> fst (hfp_set_volume env m v)
      | Set_hfp_mute env b \<Rightarrow> fst (hfp_set_mic_mute env m b))"

definition hfp_stuck :: "hfp_module \<Rightarrow> bool" where
  "hfp_stuck m \<longleftrightarrow> hf_enable m \<and> \<not> hf_running m \<and> hf_rx m = Sco_open"

lemma set_ctl_stuck [simp]: "hfp_stuck (fst (set_ctl env m n v)) = hfp_stuck m"
  by (simp add: set_ctl_def hfp_stuck_def)

lemma set_ctls_stuck [simp]: "hfp_stuck (fst (set_ctls env cs m ret)) = hfp_stuck m"
  by (induction cs arbitrary: m ret) (auto simp: Let_def case_prod_beta)

lemma hfp_step_stuck: "hfp_stuck m \<Longrightarrow> hfp_stuck (hfp_step m q)"
proof (cases q)
  case (Set_hfp_volume env v)
  assume "hfp_stuck m"
  then have "hfp_stuck (m\<lparr>hf_volume := v\<rparr>)" by (simp add: hfp_stuck_def)
  moreover have "hfp_stuck (sent_by m' p) = hfp_stuck m'" for m' p by (cases p) (simp add: sent_by_def hfp_stuck_def)
  ultimately show ?thesis using Set_hfp_volume
    by (simp add: hfp_step_def hfp_set_volume_def call_hook_def hfp_set_volume_ref_board_def hfp_set_volume_ms_board_def set_remote_hfp_volume_dsp_def
        set_remote_hfp_volume_soc_def Let_def split: volume_hook.split) (simp add: hfp_stuck_def)
qed (auto simp: hfp_step_def start_hfp_def stop_hfp_def restore_hfp_volume_def hfp_set_mic_mute_def hfp_stuck_def [of m] Let_def)

text \<open>
  A start of the profile that fails can never be repeated.  When the microphone's side of the call does not open, \<open>start_hfp\<close> returns \<open>-EIO\<close> but leaves the profile
  enabled and the other side open: \<open>stop_hfp\<close> does nothing for a profile that is not running.  Whatever is asked of it afterwards, every later start returns
  success without opening anything.
\<close>

lemma failed_hfp_start_sticks:
  assumes "0 \<le> hfp_card env" and "\<not> hf_enable m" and "\<not> hf_running m" and "hf_remote m \<le> 0" and "he_open_rx env = Open_ready" and "he_open_tx env \<noteq> Open_ready"
    and "m1 = foldl hfp_step (fst (start_hfp env m)) qs"
  shows "snd (start_hfp env m) = - EIO \<and> hf_enable m1 \<and> \<not> hf_running m1 \<and> hf_rx m1 = Sco_open \<and> (0 \<le> hfp_card env1 \<longrightarrow> start_hfp env1 m1 = (m1, 0))"
proof -
  have s: "snd (start_hfp env m) = - EIO" "hfp_stuck (fst (start_hfp env m))"
    using assms(1-6) by (simp_all add: start_hfp_def open_sco_def hfp_ctrl_enable_def update_path_def stop_hfp_def restore_hfp_volume_def opened_def Let_def)
      (simp add: hfp_stuck_def)
  have "hfp_stuck m1" unfolding assms(7) using s(2) by (induction qs rule: rev_induct) (auto intro: hfp_step_stuck)
  then show ?thesis using s(1) by (simp add: hfp_stuck_def start_hfp_def)
qed

definition hfp_env0 :: "open_outcome \<Rightarrow> hfp_env" where
  "hfp_env0 tx = \<lparr>he_platform = small_platform [primary_card], he_rpmsg = \<lparr>env_socket = 3, env_connect = 0, env_write = 32\<rparr>, he_set = (\<lambda>n v. 0),
     he_apply = (\<lambda>p. 0), he_reset = (\<lambda>p. 0), he_open_rx = Open_ready, he_open_tx = tx, he_rnd = (\<lambda>x. x), he_curve = (\<lambda>a b c d. 0)\<rparr>"

text \<open>
  C26.  The volume stays in its range and in its order.  For volumes of the range of the phone's bus, the index sent to the remote processor lies between 0 and 100 and
  that of the board's control between 174 and 236, a larger volume never gets a smaller index, and the index that is read back is the one that was set, for
  every rounding of the floating-point operations that keeps the order and whole numbers.
\<close>

theorem hfp_volume_index_bounded:
  assumes "rounding (he_rnd env)" and "-2800 \<le> v" and "v \<le> w" and "w \<le> 200" and "m1 = fst (hfp_set_volume env m w)"
  shows "volume_index env m v \<le> volume_index env m w \<and>
    (if hf_remote m > 0 then volume_index env m v \<in> {0..100} else volume_index env m v \<in> {174..236}) \<and>
    (0 < hf_remote m \<and> 0 < hf_remote m1 \<longrightarrow> hfp_get_volume_idx env m1 = volume_index env m w)"
proof -
  have vw: "v \<le> 200" "-2800 \<le> w" using assms(2-4) by simp_all
  note pv = vol_percent_bounds [OF assms(1,2) vw(1)] and pw = vol_percent_bounds [OF assms(1) vw(2) assms(4)]
  note bv = board_index_bounds [OF assms(1,2) vw(1)] and bw = board_index_bounds [OF assms(1) vw(2) assms(4)]
  have tp: "0 \<le> trunc_int (VOL_PRECENT (he_rnd env) v) \<and> trunc_int (VOL_PRECENT (he_rnd env) v) \<le> 100"
    "0 \<le> trunc_int (VOL_PRECENT (he_rnd env) w) \<and> trunc_int (VOL_PRECENT (he_rnd env) w) \<le> 100"
    using trunc_bounds [of 0 "VOL_PRECENT (he_rnd env) v" 100] trunc_bounds [of 0 "VOL_PRECENT (he_rnd env) w" 100] pv pw by simp_all
  have tb: "174 \<le> trunc_int (board_index (he_rnd env) v) \<and> trunc_int (board_index (he_rnd env) v) \<le> 236"
    "174 \<le> trunc_int (board_index (he_rnd env) w) \<and> trunc_int (board_index (he_rnd env) w) \<le> 236"
    using trunc_bounds [of 174 "board_index (he_rnd env) v" 236] trunc_bounds [of 174 "board_index (he_rnd env) w" 236] bv bw by simp_all
  have m: "trunc_int (VOL_PRECENT (he_rnd env) v) \<le> trunc_int (VOL_PRECENT (he_rnd env) w)"
    "trunc_int (board_index (he_rnd env) v) \<le> trunc_int (board_index (he_rnd env) w)"
    using trunc_mono [OF pv(1) vol_percent_mono [OF assms(1-4)]] trunc_mono [OF _ board_index_mono [OF assms(1,3)]] bv(1) by auto
  have "hf_volume m1 = w"
    using assms(5) by (simp add: hfp_set_volume_def volume_kept Let_def)
  then show ?thesis using tp tb m by (simp add: volume_index_def hfp_get_volume_idx_def s32_id)
qed

theorem hfp_volume_index_bounded_witness:
  "volume_index (hfp_env0 Open_ready) hfpmod0 (-2800) \<le> volume_index (hfp_env0 Open_ready) hfpmod0 200 \<and>
   volume_index (hfp_env0 Open_ready) hfpmod0 (-2800) \<in> {174..236}"
proof -
  have "rounding (he_rnd (hfp_env0 Open_ready))" by (simp add: rounding_def hfp_env0_def)
  from hfp_volume_index_bounded [OF this, of "-2800" 200 _ hfpmod0, OF _ _ _ refl] show ?thesis by (simp add: hfpmod0_def)
qed

end
