(* ===== verification/Platform_Init.thy ===== *)
theory Platform_Init
  imports Hal_Platform Hal_Remote
begin

text \<open>
  How the platform comes up: \<open>sd_platform_init\<close> of \<open>x9serial/platform.c\<close> finds the cards, reads the configuration file with \<open>platform_info_init\<close> and
  loads the mixer paths of each card; the microphones and the effect library of the platform.

  The parser is expat: what it calls for one buffer is a list of tags.  \<open>mixer_open\<close>, \<open>audio_route_init\<close> and the files are in the record \<open>platform_env\<close>;
  the nodes of the list of routes can always be allocated.
\<close>

definition ENOEXEC :: int where "ENOEXEC = 8"
definition MAX_CARDS :: nat where "MAX_CARDS = 16"
definition CODEC_NUM :: nat where "CODEC_NUM = 2"
definition MIXER_XML_NAME :: string where "MIXER_XML_NAME = ''mixer_paths''"

section \<open>The configuration file\<close>

datatype xml_event = Start_tag string attrs | End_tag string

text \<open>A turn of the loop: no buffer, or the tags of what was read and whether it could be parsed.  The last one is that of the empty read.\<close>

datatype xml_read = No_buffer | Parsed "xml_event list" bool

fun xml_events :: "card_info \<times> misc_feature \<Rightarrow> pcm_config \<Rightarrow> xml_event list \<Rightarrow> parse_state \<Rightarrow> c_error + parse_state" where
  "xml_events junk cfg [] ps = Inr ps"
| "xml_events junk cfg (Start_tag tag attr # es) ps = and_then (start_tag junk cfg tag attr ps) (xml_events junk cfg es)"
| "xml_events junk cfg (End_tag tag # es) ps = xml_events junk cfg es (end_tag tag ps)"

fun xml_loop :: "card_info \<times> misc_feature \<Rightarrow> pcm_config \<Rightarrow> xml_read list \<Rightarrow> parse_state \<Rightarrow> c_error + parse_state \<times> int" where
  "xml_loop junk cfg [] ps = Inr (ps, 0)"
| "xml_loop junk cfg (No_buffer # rs) ps = Inr (ps, - ENOMEM)"
| "xml_loop junk cfg (Parsed es ok # rs) ps =
     and_then (xml_events junk cfg es ps) (\<lambda>ps. if ok then xml_loop junk cfg rs ps else Inr (ps, - EINVAL))"

text \<open>Without the file or the parser the defaults stay.\<close>

definition platform_info_init :: "card_info \<times> misc_feature \<Rightarrow> pcm_config \<Rightarrow> xml_read list option \<Rightarrow> parse_state \<Rightarrow> c_error + parse_state \<times> int" where
  "platform_info_init junk cfg file ps = (case file of None \<Rightarrow> Inr (ps, - ENODEV) | Some reads \<Rightarrow> xml_loop junk cfg reads ps)"

section \<open>The cards\<close>

record platform_env =
  pe_alloc :: bool
  pe_sysfs :: sysfs
  pe_config :: pcm_config
  pe_junk :: "card_info \<times> misc_feature"
  pe_xml :: "xml_read list option"
  pe_mixer :: "nat \<Rightarrow> string option option"
  pe_access :: "string \<Rightarrow> bool"
  pe_route :: "nat \<Rightarrow> string \<Rightarrow> bool"
  pe_rpmsg :: rpmsg_env

text \<open>The platform with the static variables of the parser, the table of names, the routes and the mixers of the device, and the parts of the last name.\<close>

record platform_init =
  pi_parse :: parse_state
  pi_names :: "name_map list"
  pi_routes :: "(nat \<times> string) list"
  pi_mixers :: "bool list"
  pi_split :: snd_card_split

definition mixer_file :: "snd_card_split \<Rightarrow> string" where
  "mixer_file sp = take (MIXER_PATH_MAX_LENGTH - 1) (MIXER_XML_NAME @ ''_'' @ chip sp @ ''_'' @ board sp @ ''_'' @ codec sp @ ''.xml'')"

definition load_route :: "platform_env \<Rightarrow> nat \<Rightarrow> platform_init \<Rightarrow> c_error + platform_init \<times> int" where
  "load_route env i s =
     (case pe_mixer env i of None \<Rightarrow> Inr (s, 0)
      | Some snd_card_name \<Rightarrow>
          and_then (audio_extra_set_snd_card_split (pi_split s) snd_card_name) (\<lambda>sp.
            let file = fst (audio_extra_utils_resolve_config_file (pe_access env) (mixer_file sp)); s = s\<lparr>pi_split := sp\<rparr>
            in if \<not> pe_route env i file then Inr (s, - ENOEXEC)
               else Inr (s\<lparr>pi_routes := pi_routes s @ [(i, file)], pi_mixers := if i < CODEC_NUM then (pi_mixers s)[i := True] else pi_mixers s\<rparr>, 0)))"

text \<open>Which cards have no file of their own, and the one whose paths are at the other processor.\<close>

definition skipped_card :: "audio_device_manager \<Rightarrow> bool" where
  "skipped_card d \<longleftrightarrow> strncmp_eq (dm_linux_name d) ''d9'' 2 \<or> strncmp_eq (dm_android_name d) AUDIO_NAME_USB 9"

definition remote_card :: "audio_device_manager \<Rightarrow> bool" where
  "remote_card d \<longleftrightarrow> strstr_c (dm_linux_name d) ''mach''"

definition audio_remote_init :: "rpmsg_env \<Rightarrow> platform_data \<Rightarrow> platform_data" where
  "audio_remote_init env pf = pf\<lparr>pf_remote := fst (ipcc_init env)\<rparr>"

definition init_card :: "platform_env \<Rightarrow> nat \<Rightarrow> platform_init \<Rightarrow> c_error + platform_init \<times> int" where
  "init_card env i s =
     (let pf = ps_platform (pi_parse s); d = pf_dev_manager pf ! i
      in if skipped_card d then Inr (s, 0)
         else if remote_card d
         then Inr (if mf_ahub_en (pf_misc pf) then s else s\<lparr>pi_parse := (pi_parse s)\<lparr>ps_platform := audio_remote_init (pe_rpmsg env) pf\<rparr>\<rparr>, 0)
         else if mf_audio_route (pf_misc pf) then load_route env i s else Inr (s, 0))"

fun init_cards :: "platform_env \<Rightarrow> nat list \<Rightarrow> platform_init \<Rightarrow> c_error + platform_init \<times> int" where
  "init_cards env [] s = Inr (s, 0)"
| "init_cards env (i # is) s = and_then (init_card env i s) (\<lambda>(s, ret). if ret \<noteq> 0 then Inr (s, ret) else init_cards env is s)"

definition blank_card :: card_info where
  "blank_card = \<lparr>ci_name = [], ci_pcm_cfg = blank_pcm, ci_card = 0, ci_device = 0, ci_bus_id = 0, ci_address = []\<rparr>"

text \<open>The platform after \<open>calloc\<close>, with its cards.\<close>

definition blank_platform :: "audio_device_manager list \<Rightarrow> platform_data" where
  "blank_platform devs =
     \<lparr>pf_dev_manager = devs, pf_remote = -1, pf_bt_type = BT_CONNECT_WITH_DSP, pf_cards = replicate MAX_CARDS blank_card, pf_card_num = 0,
      pf_misc = \<lparr>mf_audio_route = False, mf_sw_in_src = False, mf_sw_out_src = False, mf_sw_ecnr = False, mf_sw_gain = False, mf_btcall = False, mf_ahub_en = False\<rparr>,
      pf_output_maps = replicate 16 blank_map\<rparr>"

text \<open>What the pointer to the platform is afterwards: NULL, memory that was given back, or a platform.\<close>

datatype platform_ref = Pf_null | Pf_freed | Pf platform_data

definition snd_cards :: "platform_data \<Rightarrow> nat list" where
  "snd_cards pf = [0..<nat (audio_extra_utils_get_snd_card_num (Some (map dm_flag_exist (pf_dev_manager pf))))]"

text \<open>
  A platform that cannot be allocated is not an error: \<open>ret\<close> is still 0.  A failure frees the platform and the routes, but the device keeps its pointer and the mixers
  that were opened before.
\<close>

definition sd_platform_init :: "platform_env \<Rightarrow> platform_init \<Rightarrow> c_error + platform_init \<times> platform_ref \<times> int" where
  "sd_platform_init env s =
     (if \<not> pe_alloc env then Inr (s\<lparr>pi_routes := []\<rparr>, Pf_null, 0)
      else
        let (devs, names) = sd_platform_init_audio_devices (pe_sysfs env) (pe_config env) (pi_names s)
        in and_then (platform_info_init (pe_junk env) (pe_config env) (pe_xml env) ((pi_parse s)\<lparr>ps_platform := blank_platform devs\<rparr>)) (\<lambda>(ps, _).
           and_then (init_cards env (snd_cards (ps_platform ps)) (s\<lparr>pi_parse := ps, pi_names := names\<rparr>)) (\<lambda>(s, ret).
             if ret \<noteq> 0 then Inr (s\<lparr>pi_routes := []\<rparr>, Pf_freed, ret) else Inr (s, Pf (ps_platform (pi_parse s)), 0))))"

section \<open>Microphones\<close>

text \<open>The array of the platform with the number that is declared; \<open>limit\<close> is \<open>AUDIO_MICROPHONE_MAX_COUNT\<close>.\<close>

definition sd_platform_set_microphone_characteristic :: "nat \<Rightarrow> 'm list \<times> nat \<Rightarrow> 'm \<Rightarrow> ('m list \<times> nat) \<times> bool" where
  "sd_platform_set_microphone_characteristic limit = (\<lambda>(mics, count) mic.
     if count \<ge> limit then ((mics, count), False) else ((mics[count := mic], Suc count), True))"

definition process_microphone_characteristic :: "nat \<Rightarrow> 'm option \<Rightarrow> 'm list \<times> nat \<Rightarrow> 'm list \<times> nat" where
  "process_microphone_characteristic limit microphone s =
     (case microphone of None \<Rightarrow> s | Some mic \<Rightarrow> fst (sd_platform_set_microphone_characteristic limit s mic))"

text \<open>At most two, whatever was declared.  The array and the number after the call.\<close>

definition sd_platform_get_microphones :: "('m list \<times> nat) option \<Rightarrow> 'm list option \<Rightarrow> nat option \<Rightarrow> c_error + 'm list option \<times> nat option \<times> int" where
  "sd_platform_get_microphones platform mic_array mic_count =
     (case (mic_count, platform, mic_array) of
        (Some n, Some (mics, declared), Some a) \<Rightarrow>
          if n = 0 then Inr (Some a, Some 1, 0)
          else let k = min n 2
               in if length a < k \<or> length mics < k then Inl Bad_access else Inr (Some (take k mics @ drop k a), Some k, 0)
      | _ \<Rightarrow> Inr (mic_array, mic_count, - EINVAL))"

section \<open>The effect library\<close>

datatype library_ref = Lib_null | Lib_loaded | Lib_closed

text \<open>The handle and whether the description is set, of an output stream or of none.\<close>

definition sd_effect_init :: "bool \<Rightarrow> bool \<Rightarrow> (library_ref \<times> bool) option \<Rightarrow> (library_ref \<times> bool) option \<times> int" where
  "sd_effect_init dlopen dlsym out =
     (let ret = (if out = None then - EINVAL else 0)
      in if \<not> dlopen then (map_option (\<lambda>_. (Lib_null, False)) out, - ENOSYS)
         else if \<not> dlsym then (map_option (\<lambda>_. (Lib_closed, False)) out, - ENOSYS)
         else (map_option (\<lambda>_. (Lib_loaded, True)) out, ret))"

section \<open>What comes up\<close>

text \<open>Which card gets its mixer paths.\<close>

definition gets_route :: "platform_env \<Rightarrow> platform_data \<Rightarrow> nat \<Rightarrow> bool" where
  "gets_route env pf i \<longleftrightarrow> \<not> skipped_card (pf_dev_manager pf ! i) \<and> \<not> remote_card (pf_dev_manager pf ! i) \<and> mf_audio_route (pf_misc pf) \<and> pe_mixer env i \<noteq> None"

lemma init_card_done:
  assumes "init_card env i s = Inr (s', 0)"
  shows "map fst (pi_routes s') = map fst (pi_routes s) @ (if gets_route env (ps_platform (pi_parse s)) i then [i] else [])"
    "pf_dev_manager (ps_platform (pi_parse s')) = pf_dev_manager (ps_platform (pi_parse s))" "pf_misc (ps_platform (pi_parse s')) = pf_misc (ps_platform (pi_parse s))"
  using assms
  by (auto simp: init_card_def load_route_def gets_route_def audio_remote_init_def and_then_def ENOEXEC_def Let_def split: if_splits option.splits sum.splits)

lemma gets_route_cong: "pf_dev_manager pf' = pf_dev_manager pf \<Longrightarrow> pf_misc pf' = pf_misc pf \<Longrightarrow> gets_route env pf' i = gets_route env pf i"
  by (simp add: gets_route_def)

lemma init_cards_done:
  "init_cards env is s = Inr (s', 0) \<Longrightarrow>
   map fst (pi_routes s') = map fst (pi_routes s) @ filter (gets_route env (ps_platform (pi_parse s))) is \<and>
   pf_dev_manager (ps_platform (pi_parse s')) = pf_dev_manager (ps_platform (pi_parse s)) \<and> pf_misc (ps_platform (pi_parse s')) = pf_misc (ps_platform (pi_parse s))"
proof (induction "is" arbitrary: s)
  case (Cons i "is")
  then obtain s1 where s1: "init_card env i s = Inr (s1, 0)" "init_cards env is s1 = Inr (s', 0)"
    by (auto simp: and_then_def split: sum.splits if_splits prod.splits)
  note d = init_card_done [OF s1(1)]
  have "gets_route env (ps_platform (pi_parse s1)) = gets_route env (ps_platform (pi_parse s))" using d(2,3) by (intro ext gets_route_cong)
  then show ?case using Cons.IH [OF s1(2)] d by simp
qed simp

lemma sd_platform_init_done:
  assumes "sd_platform_init env s = Inr (s', Pf pf, ret)"
  obtains devs names ps r where "platform_info_init (pe_junk env) (pe_config env) (pe_xml env) ((pi_parse s)\<lparr>ps_platform := blank_platform devs\<rparr>) = Inr (ps, r)"
    "init_cards env (snd_cards (ps_platform ps)) (s\<lparr>pi_parse := ps, pi_names := names\<rparr>) = Inr (s', 0)" "pf = ps_platform (pi_parse s')" "ret = 0"
  using assms by (auto simp: sd_platform_init_def and_then_def Let_def split: if_splits sum.splits prod.splits)

text \<open>
  When the platform comes up, the routes are those of the cards with a mixer among the first \<open>n\<close>, in order, where \<open>n\<close> is the number of cards that exist: a card behind
  a gap in the numbers gets none.
\<close>

lemma routes_follow_cards:
  assumes "sd_platform_init env s = Inr (s', Pf pf, ret)"
  shows "ret = 0 \<and> map fst (pi_routes s') = map fst (pi_routes s) @ filter (gets_route env pf) (snd_cards pf) \<and>
    (\<forall>i. i \<in> set (map fst (pi_routes s')) \<longrightarrow> i \<in> set (map fst (pi_routes s)) \<or> i < length (filter dm_flag_exist (take MAX_AUDIO_DEVICES (pf_dev_manager pf))))"
proof -
  obtain devs names ps r where p: "platform_info_init (pe_junk env) (pe_config env) (pe_xml env) ((pi_parse s)\<lparr>ps_platform := blank_platform devs\<rparr>) = Inr (ps, r)"
    "init_cards env (snd_cards (ps_platform ps)) (s\<lparr>pi_parse := ps, pi_names := names\<rparr>) = Inr (s', 0)" "pf = ps_platform (pi_parse s')" "ret = 0"
    by (rule sd_platform_init_done [OF assms])
  note d = init_cards_done [OF p(2)]
  have c: "snd_cards pf = snd_cards (ps_platform ps)" using d p(3) by (simp add: snd_cards_def)
  have g: "gets_route env pf = gets_route env (ps_platform ps)" using d p(3) by (intro ext gets_route_cong) simp_all
  have "fold (\<lambda>x n. if x then n + 1 else n) xs k = k + int (length (filter (\<lambda>x. x) xs))" for xs and k :: int
    by (induction xs arbitrary: k) auto
  then have "snd_cards pf = [0..<length (filter dm_flag_exist (take MAX_AUDIO_DEVICES (pf_dev_manager pf)))]"
    by (simp add: snd_cards_def audio_extra_utils_get_snd_card_num_def take_map filter_map comp_def)
  then show ?thesis using d c g p(4) by auto
qed

text \<open>A failure leaves the pointer to freed memory; a library without its symbol leaves the handle that was closed.\<close>

lemma failed_init_frees: "sd_platform_init env s = Inr (s', p, ret) \<Longrightarrow> ret \<noteq> 0 \<Longrightarrow> p = Pf_freed \<and> pi_routes s' = []"
  by (auto simp: sd_platform_init_def and_then_def Let_def split: if_splits sum.splits prod.splits)

lemma effect_without_symbol: "sd_effect_init True False (Some out) = (Some (Lib_closed, False), - ENOSYS)"
  by (simp add: sd_effect_init_def)

text \<open>One microphone is declared, and two are reported.\<close>

lemma undeclared_microphone_reported:
  assumes "mics = process_microphone_characteristic limit (Some mic) (replicate limit zero, 0)" and "2 \<le> limit" and "2 \<le> length a"
  shows "snd mics = 1 \<and> sd_platform_get_microphones (Some mics) (Some a) (Some 2) = Inr (Some ([mic, zero] @ drop 2 a), Some 2, 0)"
proof -
  obtain k where "limit = Suc (Suc k)" using assms(2) by (metis add_2_eq_Suc le_Suc_ex)
  then have "mics = (mic # zero # replicate k zero, 1)"
    using assms(1) by (simp add: process_microphone_characteristic_def sd_platform_set_microphone_characteristic_def)
  then show ?thesis using assms(3) by (simp add: sd_platform_get_microphones_def Let_def eval_nat_numeral)
qed

text \<open>No element of the configuration changes the number of the slot maps.\<close>

lemma card_attrs_platform: "card_attrs as (ps, ci) = Inr (ps', ci') \<Longrightarrow> ps_platform ps' = ps_platform ps"
proof (induction "as" arbitrary: ps ci)
  case (Cons a "as")
  then obtain ps1 ci1 where c: "card_attr a (ps, ci) = Inr (ps1, ci1)" "card_attrs as (ps1, ci1) = Inr (ps', ci')"
    by (auto simp: and_then_def split: sum.splits)
  have "ps_platform ps1 = ps_platform ps"
    using c(1) by (auto simp: card_attr_def and_then_def split: prod.splits sum.splits if_splits list.splits)
  then show ?case using Cons.IH [OF c(2)] by simp
qed simp

lemma arr_set_length: "arr_set xs i v = Inr ys \<Longrightarrow> length ys = length xs"
  by (auto simp: arr_set_def split: if_splits)

lemma start_tag_maps: "start_tag junk cfg tag attr ps = Inr ps' \<Longrightarrow> length (pf_output_maps (ps_platform ps')) = length (pf_output_maps (ps_platform ps))"
  by (auto simp: start_tag_def process_card_config_def platform_set_card_info_def process_misc_config_def platform_set_misc_config_def process_bt_connect_config_def
      platform_set_bt_connect_def process_bus_slot_map_config_def platform_set_slotmap_config_def set_card_name_def and_then_def Let_def
      dest!: card_attrs_platform dest: arr_set_length split: if_splits list.splits prod.splits sum.splits)

lemma xml_events_maps: "xml_events junk cfg es ps = Inr ps' \<Longrightarrow> length (pf_output_maps (ps_platform ps')) = length (pf_output_maps (ps_platform ps))"
  by (induction junk cfg es ps rule: xml_events.induct) (auto simp: and_then_def end_tag_def dest: start_tag_maps split: sum.splits if_splits)

lemma xml_loop_maps: "xml_loop junk cfg rs ps = Inr (ps', ret) \<Longrightarrow> length (pf_output_maps (ps_platform ps')) = length (pf_output_maps (ps_platform ps))"
  by (induction junk cfg rs ps rule: xml_loop.induct) (auto simp: and_then_def dest: xml_events_maps split: sum.splits if_splits)

lemma init_card_maps: "init_card env i s = Inr (s', ret) \<Longrightarrow> pf_output_maps (ps_platform (pi_parse s')) = pf_output_maps (ps_platform (pi_parse s))"
  by (auto simp: init_card_def load_route_def audio_remote_init_def and_then_def Let_def split: if_splits option.splits sum.splits)

lemma init_cards_maps: "init_cards env is s = Inr (s', ret) \<Longrightarrow> pf_output_maps (ps_platform (pi_parse s')) = pf_output_maps (ps_platform (pi_parse s))"
  by (induction env "is" s rule: init_cards.induct) (auto simp: and_then_def dest: init_card_maps split: sum.splits if_splits prod.splits)

lemma platform_maps:
  assumes "sd_platform_init env s = Inr (s', Pf pf, ret)"
  shows "pf = ps_platform (pi_parse s') \<and> length (pf_output_maps pf) = 16 \<and> ret = 0"
proof -
  obtain devs names ps r where p: "platform_info_init (pe_junk env) (pe_config env) (pe_xml env) ((pi_parse s)\<lparr>ps_platform := blank_platform devs\<rparr>) = Inr (ps, r)"
    "init_cards env (snd_cards (ps_platform ps)) (s\<lparr>pi_parse := ps, pi_names := names\<rparr>) = Inr (s', 0)" "pf = ps_platform (pi_parse s')" "ret = 0"
    by (rule sd_platform_init_done [OF assms])
  have "length (pf_output_maps (ps_platform ps)) = 16"
    using p(1) xml_loop_maps by (fastforce simp: platform_info_init_def blank_platform_def split: option.splits)
  then show ?thesis using init_cards_maps [OF p(2)] p(3,4) by simp
qed

end
