(* ===== verification/Hal_Device.thy ===== *)
theory Hal_Device
  imports Bt_Call Hal_Hfp Platform_Init
begin

text \<open>
  The device interface of \<open>audio_hw.c\<close>: opening the device, its parameters, the mute of the microphone, the headset and patches.  It brings together the state of calls
  over either kind of Bluetooth chip.

  A request with parameters is a map from the keys that occur to their texts; a key is named by its constant in the framework.  Both the hands-free module and the
  rest use \<open>platform->remote\<close>; \<open>with_hfp\<close> hands it over and back.
\<close>

definition MAX_DSP_INIT_COUNT :: nat where "MAX_DSP_INIT_COUNT = 3"

record 'p audio_device =
  ad_call :: call_dev
  ad_hfp :: hfp_module
  ad_input :: "'p in_stream"
  ad_hfp_volume :: int
  ad_last_patch :: int
  ad_routes :: "(int \<times> string \<times> bool) list"

type_synonym parms = "string \<Rightarrow> string option"

text \<open>\<open>de_hfp\<close> has the results of mixer paths too; \<open>de_restarted\<close> is the one of \<open>set_btcall_status\<close>.\<close>

record 'p dev_env =
  de_in :: "'p in_env"
  de_call :: call_env
  de_hfp :: hfp_env
  de_restarted :: bool

definition dev_of :: "'p audio_device \<Rightarrow> hal_dev" where
  "dev_of a = cd_dev (ad_call a)"

definition set_dev :: "'p audio_device \<Rightarrow> hal_dev \<Rightarrow> 'p audio_device" where
  "set_dev a d = a\<lparr>ad_call := (ad_call a)\<lparr>cd_dev := d\<rparr>\<rparr>"

definition platform_of :: "'p audio_device \<Rightarrow> platform_data" where
  "platform_of a = od_platform (hd_out (dev_of a))"

definition with_hfp :: "(hfp_module \<Rightarrow> hfp_module \<times> int) \<Rightarrow> 'p audio_device \<Rightarrow> 'p audio_device \<times> int" where
  "with_hfp f a =
     (let (m, ret) = f ((ad_hfp a)\<lparr>hf_remote := dev_remote (dev_of a)\<rparr>) in (set_dev (a\<lparr>ad_hfp := m\<rparr>) (set_remote (dev_of a) (hf_remote m)), ret))"

definition hfp_env_of :: "'p dev_env \<Rightarrow> 'p audio_device \<Rightarrow> hfp_env" where
  "hfp_env_of env a = (de_hfp env)\<lparr>he_platform := platform_of a\<rparr>"

section \<open>The headset\<close>

definition route :: "'p dev_env \<Rightarrow> 'p audio_device \<Rightarrow> int \<Rightarrow> string \<Rightarrow> bool \<Rightarrow> 'p audio_device \<times> int" where
  "route env a card_id path on =
     (a\<lparr>ad_routes := ad_routes a @ [(card_id, path, on)]\<rparr>, if on then he_apply (de_hfp env) path else he_reset (de_hfp env) path)"

definition headset_card :: "'p dev_env \<Rightarrow> 'p audio_device \<Rightarrow> int" where
  "headset_card env a =
     (if ie_ref_b (de_in env)
      then if bit (hd_hs_device (dev_of a)) 1 then sd_platform_get_card_id (Some (platform_of a)) AUDIO_NAME_REAR2
           else if bit (hd_hs_device (dev_of a)) 2 then sd_platform_get_card_id (Some (platform_of a)) AUDIO_NAME_REAR3 else -1
      else sd_platform_get_card_id (Some (platform_of a)) AUDIO_NAME_REAR1)"

definition adev_handle_connect :: "'p dev_env \<Rightarrow> 'p audio_device \<Rightarrow> bool \<Rightarrow> 'p audio_device \<times> int" where
  "adev_handle_connect env a connect =
     (let a = (if ie_ref_b (de_in env) \<and> connect then set_dev a ((dev_of a)\<lparr>hd_hs_device := get_hs_connect_status (ie_jack (de_in env))\<rparr>) else a);
          card_id = headset_card env a
      in if card_id < 0 then (a, -1)
         else route env (if connect then a else set_dev a ((dev_of a)\<lparr>hd_hs_device := 0\<rparr>)) card_id ''bus100-headset'' connect)"

section \<open>Parameters\<close>

text \<open>\<open>strtoul\<close> with base 10, converted to the type of devices.\<close>

definition strtoul_10 :: "string \<Rightarrow> int" where
  "strtoul_10 s = (let v = atoi s in if \<bar>v\<bar> > 18446744073709551615 then 18446744073709551615 else u64 v)"

definition parm :: "parms \<Rightarrow> string \<Rightarrow> string option" where
  "parm parms key = map_option (take 31) (parms key)"

definition select :: "'p dev_env \<Rightarrow> 'p audio_device \<Rightarrow> int \<Rightarrow> c_error + 'p audio_device" where
  "select env a mode =
     (if hd_mode (dev_of a) = mode then Inr a
      else and_then (select_mode (de_in env) (de_call env) (de_restarted env) ((ad_call a)\<lparr>cd_dev := (dev_of a)\<lparr>hd_mode := mode\<rparr>\<rparr>) (ad_input a)) (\<lambda>(d, inp).
             Inr (a\<lparr>ad_call := d, ad_input := inp\<rparr>)))"

text \<open>With the chip at the application processor, a value other than \<open>true\<close> and \<open>false\<close> leaves the mode at its first value, \<open>AUDIO_MODE_NORMAL\<close>.\<close>

definition hfp_enable :: "'p dev_env \<Rightarrow> 'p audio_device \<Rightarrow> string \<Rightarrow> c_error + 'p audio_device" where
  "hfp_enable env a v =
     (case pf_bt_type (platform_of a) of
        BT_CONNECT_WITH_DSP \<Rightarrow>
          Inr (if v = ''true'' then fst (with_hfp (start_hfp (hfp_env_of env a)) a)
               else if v = ''false'' then fst (with_hfp (stop_hfp (hfp_env_of env a)) a) else a)
      | BT_CONNECT_WITH_SOC \<Rightarrow>
          select env a (if v = ''true'' then ie_enum (de_in env) ''AUDIO_MODE_IN_CALL'' else ie_enum (de_in env) ''AUDIO_MODE_NORMAL''))"

definition headset_event :: "'p dev_env \<Rightarrow> 'p audio_device \<Rightarrow> string \<Rightarrow> bool \<Rightarrow> 'p audio_device \<times> bool" where
  "headset_event env a v connect =
     (if u32 (strtoul_10 v) = ie_enum (de_in env) ''AUDIO_DEVICE_IN_WIRED_HEADSET'' then (fst (adev_handle_connect env a connect), True) else (a, connect))"

definition adev_set_parameters :: "'p dev_env \<Rightarrow> 'p audio_device \<Rightarrow> string \<Rightarrow> parms \<Rightarrow> c_error + 'p audio_device \<times> int" where
  "adev_set_parameters env a kvpairs parms =
     (if kvpairs = [] then Inr (a, 0)
      else
        let (a, r1) = (case parm parms ''AUDIO_PARAMETER_KEY_HFP_SET_SAMPLING_RATE'' of None \<Rightarrow> (a, False)
                       | Some v \<Rightarrow> (a\<lparr>ad_hfp := (ad_hfp a)\<lparr>hf_sample_rate := atoi v\<rparr>\<rparr>, True))
        in and_then (case parm parms ''AUDIO_PARAMETER_KEY_HFP_ENABLE'' of None \<Rightarrow> Inr (a, r1)
                     | Some v \<Rightarrow> and_then (hfp_enable env a v) (\<lambda>a. Inr (a, True))) (\<lambda>(a, r2).
             let (a, r3) = (case parm parms ''AUDIO_PARAMETER_KEY_HFP_VOLUME'' of None \<Rightarrow> (a, r2) | Some v \<Rightarrow> (a\<lparr>ad_hfp_volume := atoi v\<rparr>, True));
                 (a, r4) = (case parm parms ''AUDIO_PARAMETER_DEVICE_CONNECT'' of None \<Rightarrow> (a, r3)
                            | Some v \<Rightarrow> let (a, r) = headset_event env a v True in (a, r3 \<or> r));
                 (a, r5) = (case parm parms ''AUDIO_PARAMETER_DEVICE_DISCONNECT'' of None \<Rightarrow> (a, r4)
                            | Some v \<Rightarrow> let (a, r) = headset_event env a v False in (a, r4 \<or> r))
             in Inr (a, if r5 then 0 else - ENOSYS)))"

text \<open>\<open>asked\<close> is whether the keys contain that of the synchronisation, \<open>av_sync\<close> the text of the reply to it.\<close>

definition adev_get_parameters :: "'p dev_env \<Rightarrow> 'p audio_device \<Rightarrow> string \<Rightarrow> bool \<Rightarrow> string \<Rightarrow> string" where
  "adev_get_parameters env a keys asked av_sync =
     (if keys = ''active_hs_device''
      then if ie_ref_b (de_in env)
           then let device = get_active_hs_device (ie_jack (de_in env)) (hd_hs_device (dev_of a))
                in if device = 2 then ''rear_seat2'' else if device = 4 then ''rear_seat3'' else []
           else []
      else if asked then av_sync else [])"

section \<open>The microphone and patches\<close>

definition adev_set_mic_mute :: "'p dev_env \<Rightarrow> 'p audio_device \<Rightarrow> bool \<Rightarrow> 'p audio_device \<times> int" where
  "adev_set_mic_mute env a state =
     (let a = a\<lparr>ad_call := (ad_call a)\<lparr>cd_mic_mute := state\<rparr>\<rparr> in with_hfp (\<lambda>m. hfp_set_mic_mute (hfp_env_of env a) m state) a)"

definition adev_get_mic_mute :: "'p audio_device \<Rightarrow> bool \<times> int" where
  "adev_get_mic_mute a = (cd_mic_mute (ad_call a), 0)"

text \<open>The ports are given by their types; the handle keeps its value for patches of another shape.\<close>

definition adev_create_audio_patch :: "(string \<Rightarrow> int) \<Rightarrow> 'p audio_device \<Rightarrow> int list \<Rightarrow> int list \<Rightarrow> int \<Rightarrow> 'p audio_device \<times> int \<times> int" where
  "adev_create_audio_patch enum a sources sinks handle =
     (if sources = [enum ''AUDIO_PORT_TYPE_DEVICE''] \<and> sinks = [enum ''AUDIO_PORT_TYPE_DEVICE'']
      then let patch = u32 (ad_last_patch a + 1) in (a\<lparr>ad_last_patch := patch\<rparr>, s32 patch, 0)
      else (a, handle, 0))"

text \<open>\<open>adev_set_mode\<close> on the whole device.\<close>

definition device_set_mode :: "'p dev_env \<Rightarrow> 'p audio_device \<Rightarrow> int \<Rightarrow> c_error + 'p audio_device \<times> int" where
  "device_set_mode env a mode =
     and_then (adev_set_mode (de_in env) (de_call env) (de_restarted env) (ad_call a) (ad_input a) mode) (\<lambda>(d, inp, ret). Inr (a\<lparr>ad_call := d, ad_input := inp\<rparr>, ret))"

section \<open>Opening\<close>

definition str_hash_fn :: "string \<Rightarrow> int" where
  "str_hash_fn s = s32 (foldl (\<lambda>hash c. u32 (u32 (hash * 32) + hash + of_char c)) 5381 s)"

definition boot_dsp :: "'p dev_env \<Rightarrow> 'p audio_device \<Rightarrow> nat \<Rightarrow> 'p audio_device \<times> int" where
  "boot_dsp env a dsp_id =
     (let card_id = sd_platform_get_card_id (Some (platform_of a)) AUDIO_NAME_PRIMARY
      in if card_id < 0 then (a, - EINVAL) else route env a card_id (''boot-dsp'' @ dec dsp_id) True)"

fun sd_dsp_init :: "'p dev_env \<Rightarrow> 'p audio_device \<Rightarrow> nat \<Rightarrow> 'p audio_device" where
  "sd_dsp_init env a 0 = a"
| "sd_dsp_init env a (Suc n) = sd_dsp_init env (fst (boot_dsp env a (Suc n))) n"

text \<open>\<open>blank\<close> is the device after \<open>calloc\<close>.\<close>

definition open_platform :: "'p dev_env \<Rightarrow> 'p audio_device \<Rightarrow> platform_data \<Rightarrow> int \<Rightarrow> 'p audio_device" where
  "open_platform env a pf ret =
     (if ret = 0 \<and> sd_platform_get_card_id (Some pf) AUDIO_NAME_PRIMARY \<ge> 0
      then fst (with_hfp (init_hfp (hfp_env_of env a)) (sd_dsp_init env a MAX_DSP_INIT_COUNT)) else a)"

definition open_btcall :: "'p dev_env \<Rightarrow> 'p audio_device \<Rightarrow> 'p audio_device" where
  "open_btcall env a =
     (if mf_btcall (pf_misc (platform_of a))
      then let (d, ret) = btcall_init_rx (de_call env) ((ad_call a)\<lparr>cd_ecnr_hdl := None, cd_ecnr_ops := True\<rparr>)
           in a\<lparr>ad_call := if ret = 0 then fst (btcall_init_tx (de_call env) d) else d\<rparr>
      else a)"

definition fresh_device :: "'p dev_env \<Rightarrow> 'p audio_device \<Rightarrow> hal_streamer list \<Rightarrow> platform_data \<Rightarrow> 'p audio_device" where
  "fresh_device env blank g pf =
     set_dev blank ((dev_of blank)\<lparr>hd_out := (hd_out (dev_of blank))\<lparr>od_platform := pf, od_hdls := g, od_devices := 0, od_usb := None\<rparr>,
       hd_mode := ie_enum (de_in env) ''AUDIO_MODE_NORMAL'',
       hd_hs_device := if ie_ref_b (de_in env) then get_active_hs_device (ie_jack (de_in env)) (hd_hs_device (dev_of blank)) else hd_hs_device (dev_of blank)\<rparr>)"

definition reset_state :: "platform_data \<Rightarrow> 'p audio_device \<Rightarrow> 'p audio_device" where
  "reset_state pf a =
     set_dev (a\<lparr>ad_call := (ad_call a)\<lparr>cd_data := (\<lambda>r. None), cd_thread := None\<rparr>\<rparr>)
       ((dev_of a)\<lparr>hd_out := (hd_out (dev_of a))\<lparr>od_bus := bus_status_init (map (\<lambda>m. sm_slots m ! 0) (pf_output_maps pf)) (od_bus (hd_out (dev_of a))),
          od_bt_out := None\<rparr>\<rparr>)"

text \<open>
  Without a platform the loop over the buses dereferences NULL.  When the platform could not be brought up, the device still points to it, and the loop reads
  memory that was given back.
\<close>

definition adev_open ::
    "'p dev_env \<Rightarrow> platform_env \<Rightarrow> bool \<Rightarrow> bool \<Rightarrow> 'p audio_device \<Rightarrow> platform_init \<Rightarrow> c_error + platform_init \<times> 'p audio_device option \<times> int" where
  "adev_open env penv name_ok alloc blank s =
     (if \<not> name_ok then Inr (s, None, - EINVAL)
      else if \<not> alloc then Inr (s, None, - ENOMEM)
      else and_then (sd_platform_init penv s) (\<lambda>(s, platform, ret).
        case platform of Pf_null \<Rightarrow> Inl Null_pointer
        | Pf_freed \<Rightarrow> Inl Bad_access
        | Pf pf \<Rightarrow>
            Inr (s, Some (open_btcall env (reset_state pf (open_platform env (fresh_device env blank (ps_streams (pi_parse s)) pf) pf ret))), ret)))"

text \<open>Closing gives back the routes, the mixers and the connection; the platform itself is kept.\<close>

definition adev_close :: "platform_init \<Rightarrow> platform_data option \<Rightarrow> c_error + platform_init \<times> platform_data option \<times> int" where
  "adev_close s platform =
     and_then (sd_platform_deinit (Some platform)) (\<lambda>(pf, _). Inr (s\<lparr>pi_routes := [], pi_mixers := replicate CODEC_NUM False\<rparr>, the pf, 0))"

end
