(* ===== verification/Interface_Properties.thy ===== *)
theory Interface_Properties
  imports Hal_Device Call_Properties
begin

text \<open>
  The properties of the device interface of \<open>audio_hw.c\<close>.
\<close>

section \<open>Opening\<close>

lemma with_hfp_keeps:
  "hd_mode (dev_of (fst (with_hfp f a))) = hd_mode (dev_of a)" "od_bus (hd_out (dev_of (fst (with_hfp f a)))) = od_bus (hd_out (dev_of a))"
  "cd_in_call (ad_call (fst (with_hfp f a))) = cd_in_call (ad_call a)" "platform_of (fst (with_hfp f a)) = platform_of a"
  by (simp_all add: with_hfp_def set_dev_def dev_of_def set_remote_def platform_of_def split: prod.split)

lemma dsp_init_keeps: "ad_call (sd_dsp_init env a n) = ad_call a"
  by (induction n arbitrary: a) (simp_all add: boot_dsp_def route_def Let_def)

lemma open_platform_keeps:
  "hd_mode (dev_of (open_platform env a pf ret)) = hd_mode (dev_of a)" "od_bus (hd_out (dev_of (open_platform env a pf ret))) = od_bus (hd_out (dev_of a))"
  "cd_in_call (ad_call (open_platform env a pf ret)) = cd_in_call (ad_call a)" "platform_of (open_platform env a pf ret) = platform_of a"
  by (simp_all add: open_platform_def with_hfp_keeps) (simp_all add: dev_of_def platform_of_def dsp_init_keeps)

lemma init_rx_idle:
  assumes "\<And>x. ce_malloc env x" and "ce_mutex_init env" and "ce_cond_init env" and "ce_thread_create env"
  obtains d' where "btcall_init_rx env d = (d', 0)" "btcall_init_tx env d' = (d', 0)" "cd_data d' = (\<lambda>r. Some zero_data)" "cd_thread d' = Some zero_thread"
    "hd_mode (cd_dev d') = hd_mode (cd_dev d)" "od_bus (hd_out (cd_dev d')) = od_bus (hd_out (cd_dev d))" "cd_in_call d' = cd_in_call d"
proof -
  define d' where "d' = fst (btcall_init_rx env d)"
  have "cd_data d' = (\<lambda>r. Some zero_data)"
    using assms btcall_rt.exhaust by (intro ext) (auto simp: d'_def btcall_init_rx_def directions_def set_bt_out_def put_data_def put_thread_def Let_def)
  moreover have "btcall_init_rx env d = (d', 0)" "btcall_init_tx env d' = (d', 0)" "cd_thread d' = Some zero_thread"
    "hd_mode (cd_dev d') = hd_mode (cd_dev d)" "od_bus (hd_out (cd_dev d')) = od_bus (hd_out (cd_dev d))" "cd_in_call d' = cd_in_call d"
    using assms by (simp_all add: d'_def btcall_init_rx_def btcall_init_tx_def directions_def set_bt_out_def put_data_def put_thread_def Let_def)
  ultimately show thesis using that by blast
qed

text \<open>
  C29.  The device that \<open>adev_open\<close> gives, whatever the cards and the configuration file, is ready for calls if they are enabled there: when memory and threads could be had, no
  call is up, the mode is the normal one, every direction of a call is idle, with its data allocated, and the state of the buses is well formed.  These are the
  states that the properties of calls and of modes start from.
\<close>

theorem opened_device_is_ready:
  assumes "adev_open env penv True True blank s = Inr (s', Some a, ret)" and "mf_btcall (pf_misc (ps_platform (pi_parse s')))" and "\<And>x. ce_malloc (de_call env) x"
    and "ce_mutex_init (de_call env)" and "ce_cond_init (de_call env)" and "ce_thread_create (de_call env)" and "cd_in_call (ad_call blank) = 0"
    and "length (bus_active (od_bus (hd_out (dev_of blank)))) = 16"
  shows "call_idle (ad_call a) \<and> btcall_inited (ad_call a) \<and> cd_in_call (ad_call a) = 0 \<and> hd_mode (dev_of a) = ie_enum (de_in env) ''AUDIO_MODE_NORMAL'' \<and>
    bus_ok (od_bus (hd_out (dev_of a))) \<and> ret = 0"
proof -
  obtain pf where p: "sd_platform_init penv s = Inr (s', Pf pf, ret)"
    "a = open_btcall env (reset_state pf (open_platform env (fresh_device env blank (ps_streams (pi_parse s')) pf) pf ret))"
    using assms(1) by (auto simp: adev_open_def and_then_def split: sum.splits platform_ref.splits)
  have pf: "pf = ps_platform (pi_parse s')" "length (pf_output_maps pf) = 16" "ret = 0" using platform_maps [OF p(1)] by auto
  define a1 where "a1 = open_platform env (fresh_device env blank (ps_streams (pi_parse s')) pf) pf ret"
  have k: "hd_mode (dev_of a1) = ie_enum (de_in env) ''AUDIO_MODE_NORMAL''" "od_bus (hd_out (dev_of a1)) = od_bus (hd_out (dev_of blank))" "cd_in_call (ad_call a1) = 0"
    "platform_of a1 = pf"
    using assms(7) unfolding a1_def open_platform_keeps by (simp_all add: fresh_device_def set_dev_def dev_of_def platform_of_def)
  let ?st = "bus_status_init (map (\<lambda>m. sm_slots m ! 0) (pf_output_maps pf)) (od_bus (hd_out (dev_of a1)))"
  define a2 where "a2 = reset_state pf a1"
  have k2: "hd_mode (dev_of a2) = ie_enum (de_in env) ''AUDIO_MODE_NORMAL''" "od_bus (hd_out (dev_of a2)) = ?st" "cd_in_call (ad_call a2) = 0" "platform_of a2 = pf"
    using k by (simp_all add: a2_def reset_state_def set_dev_def dev_of_def platform_of_def)
  have a: "a = open_btcall env a2" using p(2) by (simp add: a2_def a1_def)
  obtain d' where d': "btcall_init_rx (de_call env) ((ad_call a2)\<lparr>cd_ecnr_hdl := None, cd_ecnr_ops := True\<rparr>) = (d', 0)" "btcall_init_tx (de_call env) d' = (d', 0)"
    "cd_data d' = (\<lambda>r. Some zero_data)" "cd_thread d' = Some zero_thread" "hd_mode (cd_dev d') = hd_mode (dev_of a2)"
    "od_bus (hd_out (cd_dev d')) = od_bus (hd_out (dev_of a2))" "cd_in_call d' = cd_in_call (ad_call a2)"
    by (rule init_rx_idle [OF assms(3-6), of "(ad_call a2)\<lparr>cd_ecnr_hdl := None, cd_ecnr_ops := True\<rparr>"]) (simp add: dev_of_def)
  have c: "ad_call a = d'" using a d'(1,2) k2(4) assms(2) pf(1) by (simp add: open_btcall_def)
  have "bus_ok ?st" using bus_ok_init [of "map (\<lambda>m. sm_slots m ! 0) (pf_output_maps pf)" "od_bus (hd_out (dev_of a1))"] assms(8) pf(2) k(2) by simp
  moreover have "call_idle d'" "btcall_inited d'"
    using d'(3,4) by (simp_all add: call_idle_def data_idle_def erase_def zero_data_def zero_thread_def btcall_inited_def list_all_iff)
  ultimately show ?thesis using c d'(5-7) k2 pf(3) by (simp add: dev_of_def)
qed

text \<open>The constants of the framework that are used here.\<close>

definition mode_enum :: "string \<Rightarrow> int" where
  "mode_enum n = (if n = ''AUDIO_MODE_IN_CALL'' then 2 else if n = ''AUDIO_MODE_IN_COMMUNICATION'' then 3 else if n = ''AUDIO_MODE_INVALID'' then -2 else 0)"

definition dev_env0 :: "sample_plug dev_env" where
  "dev_env0 = \<lparr>de_in = mic_env\<lparr>ie_enum := mode_enum\<rparr>, de_call = call_env0 True, de_hfp = hfp_env0 Open_ready, de_restarted = False\<rparr>"

text \<open>One card, the primary one, and a configuration file that enables calls over a chip at the application processor.\<close>

definition call_config :: "xml_event list" where
  "call_config = [Start_tag ''misc'' [(''btcall_en'', ''true''), (''audio_route_en'', ''true'')], End_tag ''misc'', Start_tag ''bt_connection'' [(''sink'', ''soc'')]]"

definition platform_env0 :: platform_env where
  "platform_env0 = \<lparr>pe_alloc = True,
     pe_sysfs = \<lparr>fs_card = (\<lambda>k. k = 0), fs_id = (\<lambda>k. Some ''x9refak7738;''), fs_playback = (\<lambda>k. True), fs_capture = (\<lambda>k. True)\<rparr>,
     pe_config = blank_pcm, pe_junk = (blank_card, pf_misc (small_platform [])), pe_xml = Some [Parsed call_config True, Parsed [] True],
     pe_mixer = (\<lambda>i. Some (Some ''x9-ref-ak7738'')), pe_access = (\<lambda>f. True), pe_route = (\<lambda>i f. True),
     pe_rpmsg = \<lparr>env_socket = 3, env_connect = 0, env_write = 32\<rparr>\<rparr>"

definition platform_init0 :: platform_init where
  "platform_init0 = \<lparr>pi_parse = \<lparr>ps_platform = small_platform [], ps_streams = [], ps_bus_slotmap = False, ps_card_num = 0, ps_card = replicate 8 []\<rparr>,
     pi_names = audio_name_map0, pi_routes = [], pi_mixers = [False, False], pi_split = \<lparr>chip = [], codec = [], board = []\<rparr>\<rparr>"

definition blank_device :: "sample_plug audio_device" where
  "blank_device = \<lparr>ad_call = soc_dev, ad_hfp = hfpmod0, ad_input = mic_stream, ad_hfp_volume = 0, ad_last_patch = 0, ad_routes = []\<rparr>"

lemma blank_device_parts: "cd_in_call (ad_call blank_device) = 0" "od_bus (hd_out (dev_of blank_device)) = idle_buses"
  by (simp_all add: blank_device_def dev_of_def soc_dev_def call_dev1_def call_dev0_def btcall_init_rx_def directions_def call_env0_def set_bt_out_def put_data_def put_thread_def
      sample_dev_def Let_def)

theorem opened_device_is_ready_witness:
  "\<exists>s' a. adev_open dev_env0 platform_env0 True True blank_device platform_init0 = Inr (s', Some a, 0) \<and> call_idle (ad_call a) \<and> btcall_inited (ad_call a) \<and>
     pi_routes s' = [(0, ''/odm/etc/mixer_paths_x9_ref_ak7738.xml'')]"
proof -
  have "case sd_platform_init platform_env0 platform_init0 of
      Inr (s', Pf pf, ret) \<Rightarrow> mf_btcall (pf_misc (ps_platform (pi_parse s'))) \<and> pi_routes s' = [(0, ''/odm/etc/mixer_paths_x9_ref_ak7738.xml'')] | _ \<Rightarrow> False"
    by code_simp
  then obtain s' pf ret where s: "sd_platform_init platform_env0 platform_init0 = Inr (s', Pf pf, ret)" "mf_btcall (pf_misc (ps_platform (pi_parse s')))"
    "pi_routes s' = [(0, ''/odm/etc/mixer_paths_x9_ref_ak7738.xml'')]"
    by (auto split: sum.splits platform_ref.splits)
  then obtain a where "adev_open dev_env0 platform_env0 True True blank_device platform_init0 = Inr (s', Some a, ret)" by (simp add: adev_open_def)
  then show ?thesis using opened_device_is_ready [OF _ s(2)] s(3) blank_device_parts
    by (fastforce simp: dev_env0_def call_env0_def idle_buses_def)
qed

section \<open>Parameters\<close>



section \<open>Mute\<close>

text \<open>A loop that reads through a provider keeps what provider and resampler keep.\<close>

lemma frames_loop_keeps:
  assumes "\<And>s n s' raw k. fst provider s n = Inr (s', raw, k) \<Longrightarrow> f s' = f s" and "\<And>s n. f (snd provider s n) = f s"
    and "\<And>rs s n s' bytes k. resampler = Some rs \<Longrightarrow> rs s n = Inr (s', bytes, k) \<Longrightarrow> f s' = f s"
  shows "frames_loop resampler provider status fs fuel s buffer frames at_frame = Inr (Some (s', bytes, ret)) \<Longrightarrow> f s' = f s"
proof (induction fuel arbitrary: s buffer at_frame)
  case 0
  then show ?case by (subst (asm) frames_loop.simps) (simp split: if_splits)
next
  case (Suc fuel)
  have c: "copy_step provider fs s buffer at_frame n = Inr (s1, b1, m) \<Longrightarrow> f s1 = f s" for n s1 b1 m
    using assms(1) by (auto simp: copy_step_def and_then_def assms(2) split: sum.splits option.splits)
  have "\<forall>s n s' bytes k. resampler = Some rs \<longrightarrow> rs s n = Inr (s', bytes, k) \<longrightarrow> f s' = f s" for rs using assms(3) by blast
  then show ?case using Suc.prems c Suc.IH
    by (simp only: frames_loop.simps [of _ _ _ _ "Suc fuel"]) (fastforce simp: and_then_def split: if_splits sum.splits option.splits)
qed

lemma bt_next_buffer_mute: "bt_get_next_buffer env r d n = Inr (d', raw, k) \<Longrightarrow> cd_mic_mute d' = cd_mic_mute d"
  by (auto simp: bt_get_next_buffer_def bt_fill_def bt_read_pcm_def and_then_def put_data_def Let_def split: sum.splits option.splits if_splits)

lemma tx_read_mute:
  assumes "\<And>d n d1 bytes k. ce_resample env (bt_provider env BTCALL_CODEC_INPUT) d n = Inr (d1, bytes, k) \<Longrightarrow> cd_mic_mute d1 = cd_mic_mute d"
    and "tx_read env fuel d b inp t buf = Inr (Some (d', buf'))"
  shows "cd_mic_mute d' = cd_mic_mute d"
proof -
  have k: "frames_loop (if rs then Some (ce_resample env (bt_provider env BTCALL_CODEC_INPUT)) else None) (bt_provider env BTCALL_CODEC_INPUT) status fs fuel d buf n 0 =
      Inr (Some (d1, bytes, ret)) \<Longrightarrow> cd_mic_mute d1 = cd_mic_mute d" for rs status fs n d1 bytes ret
    by (rule frames_loop_keeps [of "bt_provider env BTCALL_CODEC_INPUT" cd_mic_mute])
      (use bt_next_buffer_mute assms(1) in \<open>auto simp: bt_provider_def bt_release_buffer_def put_data_def split: if_splits option.splits\<close>)
  have "bt_read_frames env fuel BTCALL_CODEC_INPUT d buf n = Inr (Some (d1, bytes, ret)) \<Longrightarrow> cd_mic_mute d1 = cd_mic_mute d" for n d1 bytes ret
    by (auto simp: bt_read_frames_def and_then_def dest: k split: sum.splits)
  then show ?thesis using assms(2) by (auto simp: tx_read_def and_then_def split: sum.splits if_splits option.splits)
qed

lemma muted_sends_silence:
  assumes "\<And>d n d1 bytes k. ce_resample env (bt_provider env BTCALL_CODEC_INPUT) d n = Inr (d1, bytes, k) \<Longrightarrow> cd_mic_mute d1 = cd_mic_mute d"
    and "tx_work env fuel d = Inr (Some (d', Some data))" and "cd_mic_mute d"
  shows "data = replicate (length data) 0"
  using assms(2,3) tx_read_mute [OF assms(1)]
  by (auto simp: tx_work_def and_then_def Let_def split: sum.splits option.splits if_splits)



end
