(* ===== verification/Spec2Isabelle.thy ===== *)
theory Spec2Isabelle
  imports Vad_Properties Spl_Properties Hal_Properties Stream_Properties Device_Properties Dsp_Properties Output_Properties Input_Properties Call_Properties
    Interface_Properties
begin

text \<open>
  A verification development for two parts of the voice system: the voice activity detector
  (\<open>src/ztvad/webrtc/common_audio\<close>, C, fixed-point arithmetic) and the audio HAL of the car platform
  (\<open>src/legacy/.../test_new/audio/hal/phoenix\<close>, C, threads and ring buffers; \<open>phoenix/\<close> below).

  \<^bold>\<open>The program.\<close>  The detector gets frames of 10 to 30 ms.  \<open>WebRtcVad_Process\<close> checks the arguments,
  resamples to 8 kHz, splits the signal into six bands and takes the logarithm of their energies; \<open>GmmProbability\<close>
  compares the likelihoods of a noise and a speech model per band, adapts the models and smooths the decision with a
  hangover.  It rests on the signal processing library.

  The HAL takes the output streams of the Android buses.  The configuration file binds buses to sound cards and gives them slots
  of the DSP; a stream that is written to starts by itself: it gets a handle of the streamer, a ring buffer and a slot, and with
  them a path of the loudspeaker at another processor, which is switched by packets; a thread per card mixes one period
  of every bus into 8-channel frames; the volume of a bus depends on ducking, muting, focus and the chime and is sent as a
  control of the mixer; streams can be mirrored to a second card through a ring buffer and a thread per sink.  Input streams read
  from the streamer, or from a sound device through the plug-in layer, and hand out frames from a buffer of one period.  A
  call either runs in the signal processor, switched by the hands-free profile, or in two threads between the
  Bluetooth device, the microphone and the loudspeaker, which the mode of the device starts and stops.

  \<^bold>\<open>The theories.\<close>
  \<^item> \<open>C_Prelude\<close>: C integers as \<open>int\<close> with explicit conversions (\<open>s16\<close>, \<open>s32\<close>, \<open>u32\<close>), shifts, arrays as lists with
    checked access, \<open>memcpy\<close>, errors as values (\<open>c_error\<close>), and the lemmas the components share.
  \<^item> \<open>Spl_Inline\<close>, \<open>Spl_Vector\<close>, \<open>Spl_Resample\<close>: \<open>signal_processing/\<close>.  Normalisation, saturation, divisions, extrema,
    energies, scaling, and the resamplers with their in-place memory (locale \<open>block_resampler\<close>).
  \<^item> \<open>Vad_Gmm\<close>, \<open>Vad_Sp\<close>, \<open>Vad_Filterbank\<close>, \<open>Vad_Core\<close>, \<open>Vad_Api\<close>: the files of \<open>vad/\<close> of these names; \<open>Vad_Inst\<close>
    is \<open>struct VadInstT_\<close> of \<open>vad_core.h\<close>.  \<open>GmmProbability\<close> is split where its comments split it.  The contract of the
    detector at one rate is the locale \<open>frame_detector\<close>, interpreted on the four rates.
  \<^item> \<open>Circlebuf\<close>: \<open>phoenix/audio_extra/ext_circlebuffer.c\<close>, with the mutex as a flag.  The contract of a byte queue is
    the locale \<open>byte_fifo\<close>, interpreted on the ring buffer.
  \<^item> \<open>Audio_Extra\<close>: \<open>phoenix/audio_extra/audio_extra.c\<close>.
  \<^item> \<open>Audio_Sharing\<close>: \<open>phoenix/audio_sharing.c\<close>.  One iteration of each of the four threads is one function; the relation
    \<open>shr_step\<close> interleaves them with the calls of the HAL.  The contract of a playback thread is the locale
    \<open>playback_thread\<close>, interpreted on the loops.
  \<^item> \<open>Hal_Remote\<close>, \<open>Bus_Volume\<close>: \<open>phoenix/remote.c\<close> and the bus state of \<open>phoenix/audio_hw.c\<close> (volume, ducking, muting,
    chime, gain of a port, counted paths, opening with retries).  The contract of an operation on one bus is the
    locale \<open>bus_operation\<close>, interpreted on ducking, muting and the gain of a port.
  \<^item> \<open>Hal_Streamer\<close>, \<open>Streamer_System\<close>: \<open>phoenix/audio_extra/hal_streamer.c\<close>, and its handles as a system
    (\<open>hs_step\<close>).  \<open>hal_streamer_open\<close> and \<open>hal_streamer_close\<close> are two functions each, one per direction.
  \<^item> \<open>Hal_Platform\<close>: \<open>phoenix/x9serial/platform.c\<close> and \<open>phoenix/platform_info.c\<close>: cards, names, hot plugging, jacks, and
    one function per element of the configuration file.  \<open>Platform_Init\<close>: how the platform comes up, from the cards over the tags of the
    file to the mixer paths and the remote processor; microphones and the effect library.
  \<^item> \<open>Plug_Params\<close>, \<open>Pcm_Plugin\<close>, \<open>Plug_Sample\<close>: \<open>phoenix/plugin/\<close>.  The hardware parameters as masks and intervals, the
    state machine and the commands of \<open>ioctl\<close>, the wrapper around a device, and the plug-in of the repository.  What the layer expects
    of a plug-in is the locale \<open>plug_in\<close>, interpreted on that plug-in.
  \<^item> \<open>Dsp_Control\<close>, \<open>Dsp_System\<close>: \<open>phoenix/dsp.c\<close>, one function per setting over the mixer of tinyalsa as a record of functions.
    The pairs that set and read a switch share the locale \<open>dsp_switch\<close>, interpreted on fourteen of them.
  \<^item> \<open>Hal_Output\<close>, \<open>Output_System\<close>: the output streams of \<open>audio_hw.c\<close>, which compose platform, remote paths and
    streamer; who holds which reference over a sequence of writes and standbys.
  \<^item> \<open>Frame_Provider\<close>: the loop of \<open>read_frames\<close>, of which the HAL has two copies.  The locale \<open>frame_provider\<close> is what
    it relies on; \<open>period_source\<close>, a sublocale, is how both providers meet it with a buffer of one period.
  \<^item> \<open>Hal_Input\<close>, \<open>Input_System\<close>: the input streams of \<open>audio_hw.c\<close>, and the interpretation \<open>mic\<close> of
    \<open>period_source\<close> on the microphone.
  \<^item> \<open>Hal_Hfp\<close>, \<open>Ecnr_Fake\<close>: \<open>phoenix/audio_extra/hfp.c\<close> and \<open>phoenix/ecnr_fake.c\<close>.
  \<^item> \<open>Bt_Call\<close>, \<open>Call_System\<close>, \<open>Call_Threads\<close>: \<open>phoenix/audio_bt_call.c\<close> and the mode of the device.  \<open>Bt_Call\<close> has the operations and
    one turn of each thread, \<open>Call_System\<close> what a call takes and gives back and the interpretation \<open>far\<close> of \<open>period_source\<close>,
    \<open>Call_Threads\<close> the interleaving of both threads with the caller.
  \<^item> \<open>Hal_Device\<close>: the device interface of \<open>audio_hw.c\<close>, over the state of all the parts above.
  \<^item> The theories \<open>_Properties\<close> hold the properties, numbered, with instances; this theory those that span components.

  \<^bold>\<open>What is shown.\<close>
  \<^item> Detector: an invariant of the instance that initialisation establishes and every call keeps, over any
    sequence of calls; ranges of the models and of the features; the likelihoods are computed without overflow; the
    hangover refines an automaton with two counters; silence is reported after a bounded number of frames; the tracking of
    the minima is an insertion into sorted lists; arguments out of range are refused without a change.
  \<^item> Library: the in-place resamplers compute the composition of their stages; energies are exact unless a
    sample is -32768; the supporting functions have closed forms.
  \<^item> Ring buffer: it refines a byte queue over any sequence of reads and writes; overwriting loses the oldest bytes;
    the write that leaves the mutex held.
  \<^item> Sharing: no interleaving of threads and calls fails; a thread told to stop leaves its loop within six
    iterations; a mirrored period is what the thread of the other card plays.
  \<^item> Streams: no sequence of opening, closing, writing and playing fails; a period played is the wrapped sum of
    the periods of the ready buses in their slots; writes return exactly when there is room; binding is found again, also from
    the elements of the configuration file; slots and time-outs as the code has them.
  \<^item> Bus state: the level of a bus equals its specification and is never above the volume of the bus; the paths refine
    a counter of users; opening a device ends after its retries.
  \<^item> Platform: slot lists are read back; the invariant of the names in the card table; what hot plugging changes; which cards get
    their mixer paths; a failure leaves a pointer to freed memory.
  \<^item> Plug-ins: the layer refines the automaton of its states for every plug-in that keeps to the contract; refining
    parameters is intersection; which requests are accepted or fault although they should not.
  \<^item> DSP: the switches are a store that is read back over any sequence of settings; the levels of the bus state reach the mixer
    within their limits; which failures are lost.
  \<^item> Output: a stream holds exactly one reference while it is not in standby; what it reports is what it was opened with;
    what failed starts leave behind.
  \<^item> Input: over any sequence of requests the frames read are the captured periods, in order and once; recording from the
    headset faults.
  \<^item> Calls: closing gives back what opening took; what the far end says reaches the loudspeaker in order; the call follows the
    mode; no thread works on closed devices when calls are entered and left patiently, and the interleavings in which one does
    otherwise; a first call that fails to open faults; the volume stays in its range and order.
  \<^item> Device: the device that is opened is ready for calls; enabling the profile is a change of the mode; mute.

  \<^bold>\<open>Parameters and hypotheses.\<close>  Code outside the repository is an argument of the definitions: \<open>malloc\<close>, \<open>pcm_open\<close>,
  \<open>pcm_prepare\<close>, \<open>pcm_read\<close>, \<open>pcm_format_to_bits\<close>, the mixer and its paths, the XML parser, the resampler and the effect library, the sockets, the
  DSP library of the bus state (its commands are part of the results), the numbers of the Android enumerations, the file system,
  \<open>sem_timedwait\<close>, the multiplication and the rounding of floats (\<open>fmul\<close>, \<open>he_rnd\<close>) and \<open>pow\<close>.  The theorems assume of
  them what their documentation says where it matters (a sample of \<open>PCM_FORMAT_S16_LE\<close> has 16 bits; an allocator that does not fail
  gives a buffer of the size asked for; a mixer keeps what is written to it; rounding keeps the order and whole numbers).  A mutex is
  a flag where a function can return with it held, and one atomic step elsewhere.

  \<^bold>\<open>Bounds.\<close>  All loops are structural recursions or folds over the range of the source.  The loops that run for ever in
  the code are single iterations, composed by the step relations.  Loops that poll are given the states they see;
  \<open>hal_streamer_read\<close> needs eleven of them because its limit is 10, \<open>hal_streamer_write\<close> has no limit.  The loop of
  \<open>read_frames\<close> (\<open>frames_loop\<close>) has fuel, because a resampler may deliver nothing: as many steps as frames are wanted are enough without
  one, since every step copies at least one frame.  Six iterations end a held sharing thread because the first five periods are
  dropped without looking at the flag; fourteen frames are the longest hangover.

  \<^bold>\<open>Not modelled.\<close>  The ARM, MIPS and Neon variants of the library (the generic C is); logging, thread priorities, sleeping;
  what is compiled only with \<open>ENABLE_AUDIO_SHAREING\<close> in \<open>audio_hw.c\<close>, which no build file defines; entry points of the device and
  of streams that return a constant; \<open>audio_hw_normal.c\<close>, a copy of \<open>audio_hw.c\<close> for another board.  The C++ around both parts, which needs a model of its
  classes and of floating point, and the vendored WebRTC and Speex sources under \<open>src/r2ssp\<close> are left out.
\<close>

section \<open>The detector as a whole\<close>

text \<open>
  C1.  After any sequence of calls, \<open>WebRtcVad_Process\<close> either refuses its arguments (a \<open>NULL\<close>
  pointer, an instance that was not initialised, a rate or a frame length that is not supported),
  returns -1 and leaves the instance as it was, or returns 0 or 1 and leaves an instance that
  satisfies the invariant.
\<close>

theorem vad_process_contract:
  assumes "vad_reachable self" and "WebRtcVad_Process (Some self) fs frame n = (h, r)"
  shows "if process_rejects (Some self) fs frame n then h = Some self \<and> r = -1
         else r \<in> {0, 1} \<and> (\<exists>self'. h = Some self' \<and> vad_ready self')"
proof (cases "process_rejects (Some self) fs frame n")
  case True
  then show ?thesis using Process_rejected assms(2) by simp
next
  case False
  then obtain xs where f: "frame = Some xs" and i: "init_flag self = 42"
    and v: "WebRtcVad_ValidRateAndFrameLength fs n = 0"
    by (auto simp: process_rejects_def ValidRateAndFrameLength_iff)
  have ready: "vad_ready self" using vad_reachable_ready [OF assms(1)] i by simp
  show ?thesis using Process_ready [OF ready v] assms(2) f False by simp
qed

theorem vad_process_contract_witness:
  "snd (WebRtcVad_Process (Some vad_fresh) 8000 (Some (replicate 80 0)) 80) \<in> {0, 1} \<and>
   snd (WebRtcVad_Process (Some vad_fresh) 8000 (Some (replicate 80 0)) 81) = -1"
  using vad_process_contract [OF vad_fresh_reachable prod.collapse [symmetric], of 8000 "Some (replicate 80 0)" 80]
    vad_process_contract [OF vad_fresh_reachable prod.collapse [symmetric], of 8000 "Some (replicate 80 0)" 81]
  by (simp add: process_rejects_def vad_fresh_ready rate_frame_lengths_def)

text \<open>
  C2.  The Gaussian models of an initialised instance stay in range, whatever signal was processed:
  twelve noise means between -1600 and 9344, twelve speech means between 640 and 19553, and
  standard deviations between 378 and 32767, so the division by a standard deviation is defined.
\<close>

theorem vad_models_bounded:
  assumes "vad_reachable self" and "init_flag self = 42" and "g < 12"
  shows "-1600 \<le> noise_means self ! g \<and> noise_means self ! g \<le> 9344 \<and>
    640 \<le> speech_means self ! g \<and> speech_means self ! g \<le> 19553 \<and>
    378 \<le> noise_stds self ! g \<and> noise_stds self ! g \<le> 32767 \<and>
    378 \<le> speech_stds self ! g \<and> speech_stds self ! g \<le> 32767"
proof -
  define c where "c = (if g < 6 then g else g - 6)"
  have c: "c < 6" "g = c \<or> g = c + 6" using assms(3) by (auto simp: c_def)
  have ch: "chan_ok c self"
    using vad_reachable_ready [OF assms(1)] assms(2) c by (simp add: vad_ready_def vad_inv_def core_inv_def models_ok_def)
  then have "speech_ok c (speech_means self ! c) (speech_means self ! (c + 6))" by (simp add: chan_ok_def)
  note up = speech_ok_upper [OF c(1) this]
  show ?thesis using ch up c(2) by (auto simp: chan_ok_def noise_ok_def speech_ok_def std_ok_def)
qed

theorem vad_models_bounded_witness:
  "640 \<le> speech_means vad_fresh ! 11 \<and> 378 \<le> noise_stds vad_fresh ! 11"
  using vad_models_bounded [OF vad_fresh_reachable vad_fresh_ready(2), of 11] by simp

section \<open>Sharing as a whole\<close>



section \<open>From the configuration to the streams\<close>

text \<open>
  C4.  The configuration reaches the streams.  After the elements \<open>card\<close> with a name and \<open>playback\<close> with a bus were
  read, the search that opens a stream of that bus finds the handle with the name of the card, provided the table of
  handles had a free entry and the bus was not bound before.
\<close>

theorem configured_bus_is_found:
  assumes table: "list_all entry_ok (ps_streams ps)" "\<forall>h\<in>set (ps_streams ps). \<not> bound_to (int b) h" "\<exists>h\<in>set (ps_streams ps). \<not> hs_allocated h"
    and nm: "NUL \<notin> set nm"
    and tags: "start_tag junk cfg ''card'' [(''name'', nm)] ps = Inr ps1" "start_tag junk cfg ''playback'' [(''bind_bus_id'', dec b)] ps1 = Inr ps2"
  shows "\<exists>i. snd (probe_out (ps_streams ps2) (int b)) = Some i \<and> i < length (ps_streams ps2) \<and>
    hs_allocated (ps_streams ps2 ! i) \<and> c_string (hs_name (ps_streams ps2 ! i)) = nm"
proof -
  have ps1: "length nm \<le> 127" "0 \<le> ps_card_num ps" "ps_card_num ps < int (length (ps_card ps))" "ps1 = ps\<lparr>ps_card := (ps_card ps)[nat (ps_card_num ps) := nm]\<rparr>"
    using tags(1) by (auto simp: start_tag_def set_card_name_def arr_set_def split: if_splits)
  then have card_nm: "arr_get (ps_card ps1) (ps_card_num ps1) = Inr nm" by simp
  have tok: "comma_tokens (dec b) = [dec b]" using tokens_print [of "[b]"] by simp
  obtain g' r where g': "hal_streamer_bind_bus (ps_streams ps1) nm (int (length nm)) (int b) = Inr (g', r)" "ps_streams ps2 = g'"
    using tags(2) by (auto simp: start_tag_def process_card_config_def card_attr_def card_nm tok atoi_dec platform_set_bind_bus_def
        strncmp_eq_def and_then_def split: sum.splits prod.splits)
  have s1: "ps_streams ps1 = ps_streams ps" using ps1(4) by simp
  have "r = 0" using bind_with_free_entry [OF g'(1)] table(3) s1 by simp
  then show ?thesis using bind_then_find [OF table(1) ps1(1) nm table(2)] g' s1 by auto
qed

theorem configured_bus_is_found_witness:
  "\<exists>ps1 ps2 i. start_tag (junk_card, junk_misc) blank_pcm ''card'' [(''name'', ''x9'')] fresh_parse = Inr ps1 \<and>
     start_tag (junk_card, junk_misc) blank_pcm ''playback'' [(''bind_bus_id'', dec 5)] ps1 = Inr ps2 \<and>
     snd (probe_out (ps_streams ps2) 5) = Some i \<and> c_string (hs_name (ps_streams ps2 ! i)) = ''x9''"
proof -
  have table: "list_all entry_ok (ps_streams fresh_parse)" "\<forall>h\<in>set (ps_streams fresh_parse). \<not> bound_to (int 5) h"
    "\<exists>h\<in>set (ps_streams fresh_parse). \<not> hs_allocated h"
    using blank_hdl_ok by (simp_all add: fresh_parse_def list_all_iff bound_to_def) (simp_all add: blank_hdl_def)
  obtain ps1 where ps1: "start_tag (junk_card, junk_misc) blank_pcm ''card'' [(''name'', ''x9'')] fresh_parse = Inr ps1"
    "ps1 = fresh_parse\<lparr>ps_card := ''x9'' # replicate 7 []\<rparr>"
    by (simp add: start_tag_def set_card_name_def fresh_parse_def numeral_eq_Suc)
  have tok: "comma_tokens (dec 5) = [dec 5]" using tokens_print [of "[5]"] by simp
  obtain ps2 where ps2: "start_tag (junk_card, junk_misc) blank_pcm ''playback'' [(''bind_bus_id'', dec 5)] ps1 = Inr ps2"
    by (simp add: ps1(2) start_tag_def process_card_config_def card_attr_def tok atoi_dec platform_set_bind_bus_def strncmp_eq_def
        fresh_parse_def hal_streamer_bind_bus_def numeral_2_eq_2 blank_hdl_def strncpy_c_def memcpy_def bind_append_def
        platform_set_card_info_def small_platform_def Let_def)
  show ?thesis using configured_bus_is_found [OF table _ ps1(1) ps2] ps1(1) ps2 by (auto simp: NUL_def)
qed

end
